(* ===== verification/Prelude.thy ===== *)
theory Prelude
  imports Complex_Main
begin

text \<open>
  What every component shares.

  \<^item> Errors and results: the service layer throws \<open>ApiError\<close>s; a handler is a function
    from the database to a result (\<open>Inl\<close> the error, \<open>Inr\<close> the value) and the database
    after it, so that writes made before a throw stay visible.
  \<^item> Collections: a MongoDB collection is the list of its documents in insertion order.
    \<open>find_one\<close>, \<open>update_one\<close>, \<open>delete_one\<close> and \<open>insert_unique\<close> say what a query with a
    filter, a conditional update and an insert under a unique index do to that list.
  \<^item> Numbers: a JavaScript number is an exact rational; \<open>Math.round\<close> is \<open>js_round\<close>.
  \<^item> Three interfaces as locales: status tables (with and without a rank), a counter that
    is incremented atomically below a limit, and a consumer of at-least-once events.
\<close>

section \<open>Identifiers, numbers, results\<close>

type_synonym oid = string
type_synonym money = rat
type_synonym time = int

named_theorems coll_simps "rewrite rules for reads and writes of collections"
named_theorems money_simps "rounding and clamping of amounts of money"

text \<open>\<open>utils/ApiError.ts\<close>: the factory methods the services call. The message is a short tag
  for the sentence of the source. \<open>Thrown\<close> is an error that is not an \<open>ApiError\<close> (a 500).\<close>

datatype api_error =
    Bad_Request string
  | Unauthorized string
  | Forbidden string
  | Not_Found string
  | Conflict string
  | Gone string
  | Service_Unavailable string
  | Thrown string

fun status_code :: "api_error \<Rightarrow> nat" where
  "status_code (Bad_Request _) = 400"
| "status_code (Unauthorized _) = 401"
| "status_code (Forbidden _) = 403"
| "status_code (Not_Found _) = 404"
| "status_code (Conflict _) = 409"
| "status_code (Gone _) = 410"
| "status_code (Service_Unavailable _) = 503"
| "status_code (Thrown _) = 500"

type_synonym 'a result = "api_error + 'a"

text \<open>\<open>Math.round\<close> rounds half up; \<open>roundCurrency\<close> (promotion, orderCreation and payment
  services) rounds to two decimals.\<close>

definition js_round :: "money \<Rightarrow> int" where
  "js_round x = \<lfloor>x + 1 / 2\<rfloor>"

definition round_currency :: "money \<Rightarrow> money" where
  "round_currency amount = of_int (js_round (amount * 100)) / 100"

lemma js_round_mono: "x \<le> y \<Longrightarrow> js_round x \<le> js_round y"
  by (simp add: js_round_def floor_mono)

lemma js_round_of_int [money_simps]: "js_round (of_int n) = n"
  by (simp add: js_round_def floor_unique)

lemma js_round_bounds: "of_int (js_round x) \<le> x + 1 / 2" "x - 1 / 2 < of_int (js_round x)"
  unfolding js_round_def by linarith+

lemma round_currency_mono: "x \<le> y \<Longrightarrow> round_currency x \<le> round_currency y"
  by (simp add: round_currency_def divide_right_mono js_round_mono)

lemma round_currency_0 [money_simps, simp]: "round_currency 0 = 0"
  using js_round_of_int [of 0] by (simp add: round_currency_def)

lemma round_currency_nonneg [money_simps]: "0 \<le> x \<Longrightarrow> 0 \<le> round_currency x"
  using round_currency_mono [of 0 x] by simp

lemma round_currency_cents [money_simps]: "round_currency (of_int n / 100) = of_int n / 100"
  by (simp add: round_currency_def js_round_of_int)

lemma round_currency_idem [money_simps]: "round_currency (round_currency x) = round_currency x"
  by (subst (2) round_currency_def) (simp add: round_currency_cents, simp add: round_currency_def)

lemma round_currency_error: "\<bar>round_currency x - x\<bar> \<le> 1 / 200"
proof -
  have "\<bar>of_int (js_round (x * 100)) - x * 100\<bar> \<le> 1 / 2"
    using js_round_bounds [of "x * 100"] by linarith
  then show ?thesis by (auto simp: round_currency_def abs_le_iff field_simps)
qed

text \<open>A value is a whole number of cents: what every rounded amount is.\<close>

definition whole_cents :: "money \<Rightarrow> bool" where
  "whole_cents x \<longleftrightarrow> round_currency x = x"

lemma whole_cents_round [simp]: "whole_cents (round_currency x)"
  by (simp add: whole_cents_def round_currency_idem)

lemma whole_cents_iff: "whole_cents x \<longleftrightarrow> (\<exists>n::int. x = of_int n / 100)"
  by (metis round_currency_cents round_currency_def whole_cents_def)

lemma whole_cents_diff: "whole_cents x \<Longrightarrow> whole_cents y \<Longrightarrow> whole_cents (x - y)"
  unfolding whole_cents_iff by (metis diff_divide_distrib of_int_diff)

lemma whole_cents_add: "whole_cents x \<Longrightarrow> whole_cents y \<Longrightarrow> whole_cents (x + y)"
  unfolding whole_cents_iff by (metis add_divide_distrib of_int_add)

section \<open>Text\<close>

text \<open>\<open>trim\<close> and \<open>toUpperCase\<close> on ASCII text.\<close>

definition js_space :: "char \<Rightarrow> bool" where
  "js_space c \<longleftrightarrow> c \<in> {CHR 0x09, CHR 0x0A, CHR 0x0B, CHR 0x0C, CHR 0x0D, CHR '' ''}"

definition js_trim :: "string \<Rightarrow> string" where
  "js_trim s = rev (dropWhile js_space (rev (dropWhile js_space s)))"

definition upper_char :: "char \<Rightarrow> char" where
  "upper_char c = (let n = of_char c :: nat in if 97 \<le> n \<and> n \<le> 122 then char_of (n - 32) else c)"

definition js_upper :: "string \<Rightarrow> string" where
  "js_upper s = map upper_char s"

definition lower_char :: "char \<Rightarrow> char" where
  "lower_char c = (let n = of_char c :: nat in if 65 \<le> n \<and> n \<le> 90 then char_of (n + 32) else c)"

definition js_lower :: "string \<Rightarrow> string" where
  "js_lower s = map lower_char s"

text \<open>The nullish default \<open>x ?? y\<close>, and the truth value of a text that may be absent.\<close>

fun nullish :: "'a option \<Rightarrow> 'a \<Rightarrow> 'a" where
  "nullish None y = y"
| "nullish (Some x) y = x"

fun truthy_string :: "string option \<Rightarrow> bool" where
  "truthy_string None = False"
| "truthy_string (Some s) = (s \<noteq> [])"

text \<open>\<open>x?.trim() || undefined\<close>: an empty text counts as absent.\<close>

fun trim_or_none :: "string option \<Rightarrow> string option" where
  "trim_or_none None = None"
| "trim_or_none (Some s) = (if js_trim s = [] then None else Some (js_trim s))"

lemma js_trim_Nil [simp]: "js_trim [] = []"
  by (simp add: js_trim_def)

section \<open>Collections\<close>

definition find_one :: "('a \<Rightarrow> bool) \<Rightarrow> 'a list \<Rightarrow> 'a option" where
  "find_one p xs = List.find p xs"

fun update_one :: "('a \<Rightarrow> bool) \<Rightarrow> ('a \<Rightarrow> 'a) \<Rightarrow> 'a list \<Rightarrow> 'a list" where
  "update_one p f [] = []"
| "update_one p f (x # xs) = (if p x then f x # xs else x # update_one p f xs)"

fun delete_one :: "('a \<Rightarrow> bool) \<Rightarrow> 'a list \<Rightarrow> 'a list" where
  "delete_one p [] = []"
| "delete_one p (x # xs) = (if p x then xs else x # delete_one p xs)"

text \<open>An insert under a unique index: \<open>None\<close> is the duplicate-key error (code 11000).\<close>

definition insert_unique :: "('a \<Rightarrow> 'a \<Rightarrow> bool) \<Rightarrow> 'a \<Rightarrow> 'a list \<Rightarrow> 'a list option" where
  "insert_unique clash d xs = (if list_ex (clash d) xs then None else Some (xs @ [d]))"

text \<open>\<open>find(p).sort({key: -1})\<close> and the first document of it: the greatest key wins, and among
  equals the one inserted first.\<close>

fun latest_by :: "('a \<Rightarrow> 'k::linorder) \<Rightarrow> 'a list \<Rightarrow> 'a option" where
  "latest_by k [] = None"
| "latest_by k (x # xs) = (case latest_by k xs of
       None \<Rightarrow> Some x
     | Some y \<Rightarrow> (if k x < k y then Some y else Some x))"

definition find_latest :: "('a \<Rightarrow> 'k::linorder) \<Rightarrow> ('a \<Rightarrow> bool) \<Rightarrow> 'a list \<Rightarrow> 'a option" where
  "find_latest k p xs = latest_by k (filter p xs)"

lemma find_one_simps [coll_simps, simp]:
  "find_one p [] = None"
  "find_one p (x # xs) = (if p x then Some x else find_one p xs)"
  by (simp_all add: find_one_def)

lemma find_one_SomeD: "find_one p xs = Some x \<Longrightarrow> x \<in> set xs \<and> p x"
  by (induction xs) (auto split: if_splits)

lemma find_one_None_iff: "find_one p xs = None \<longleftrightarrow> (\<forall>x \<in> set xs. \<not> p x)"
  by (induction xs) auto

lemma find_one_append [coll_simps]:
  "find_one p (xs @ ys) = (case find_one p xs of None \<Rightarrow> find_one p ys | Some x \<Rightarrow> Some x)"
  by (induction xs) auto

lemma update_one_none: "find_one p xs = None \<Longrightarrow> update_one p f xs = xs"
  by (induction xs) (auto split: if_splits)

lemma length_update_one [coll_simps, simp]: "length (update_one p f xs) = length xs"
  by (induction xs) auto

lemma update_one_split:
  "find_one p xs = Some x \<Longrightarrow>
    \<exists>us vs. xs = us @ x # vs \<and> (\<forall>u \<in> set us. \<not> p u) \<and> p x \<and> update_one p f xs = us @ f x # vs"
proof (induction xs)
  case Nil
  then show ?case by simp
next
  case (Cons a xs)
  show ?case
  proof (cases "p a")
    case True
    with Cons.prems show ?thesis by (intro exI [of _ "[]"] exI [of _ xs]) auto
  next
    case False
    with Cons.prems have "find_one p xs = Some x" by simp
    then obtain us vs where "xs = us @ x # vs" "\<forall>u \<in> set us. \<not> p u" "p x"
      "update_one p f xs = us @ f x # vs" using Cons.IH by blast
    with False show ?thesis by (intro exI [of _ "a # us"] exI [of _ vs]) auto
  qed
qed

lemma delete_one_none: "find_one p xs = None \<Longrightarrow> delete_one p xs = xs"
  by (induction xs) (auto split: if_splits)

lemma map_update_one:
  "(\<And>x. x \<in> set xs \<Longrightarrow> p x \<Longrightarrow> g (f x) = g x) \<Longrightarrow> map g (update_one p f xs) = map g xs"
  by (induction xs) auto

lemma set_update_one_subset: "set (update_one p f xs) \<subseteq> set xs \<union> f ` {x \<in> set xs. p x}"
  by (induction xs) auto

lemma update_one_all:
  "(\<forall>x \<in> set xs. P x) \<Longrightarrow> (\<And>x. x \<in> set xs \<Longrightarrow> p x \<Longrightarrow> P x \<Longrightarrow> P (f x)) \<Longrightarrow>
    \<forall>x \<in> set (update_one p f xs). P x"
  using set_update_one_subset [of p f xs] by blast

lemma set_delete_one: "set (delete_one p xs) \<subseteq> set xs"
  by (induction xs) auto

lemma distinct_map_delete_one: "distinct (map g xs) \<Longrightarrow> distinct (map g (delete_one p xs))"
  by (induction xs) (use set_delete_one in fastforce)+

text \<open>Sums over a collection: what one conditional update or delete changes.\<close>

lemma sum_update_one:
  fixes g :: "'a \<Rightarrow> 'b::ab_group_add"
  shows "find_one p xs = Some x \<Longrightarrow>
    sum_list (map g (update_one p f xs)) = sum_list (map g xs) - g x + g (f x)"
  by (induction xs) (auto split: if_splits simp: algebra_simps)

lemma sum_delete_one:
  fixes g :: "'a \<Rightarrow> 'b::ab_group_add"
  shows "find_one p xs = Some x \<Longrightarrow> sum_list (map g (delete_one p xs)) = sum_list (map g xs) - g x"
  by (induction xs) (auto split: if_splits simp: algebra_simps)

text \<open>Documents with distinct identifiers: reading by identifier after a write by identifier.\<close>

lemma find_id_update_same:
  "find_one (\<lambda>d. key d = i) xs = Some x \<Longrightarrow> key (f x) = i \<Longrightarrow>
    find_one (\<lambda>d. key d = i) (update_one (\<lambda>d. key d = i) f xs) = Some (f x)"
  by (induction xs) (auto split: if_splits)

lemma find_id_update_other:
  "(\<And>x. key (f x) = key x) \<Longrightarrow> i \<noteq> j \<Longrightarrow>
    find_one (\<lambda>d. key d = j) (update_one (\<lambda>d. key d = i) f xs) = find_one (\<lambda>d. key d = j) xs"
  by (induction xs) (auto split: if_splits)

lemma find_id_mem:
  "distinct (map key xs) \<Longrightarrow> x \<in> set xs \<Longrightarrow> find_one (\<lambda>d. key d = key x) xs = Some x"
  by (induction xs) (auto simp: image_iff)

lemma find_id_update:
  "(\<And>x. key (f x) = key x) \<Longrightarrow>
    find_one (\<lambda>d. key d = j) (update_one (\<lambda>d. key d = i) f xs) =
      (if i = j then map_option f (find_one (\<lambda>d. key d = i) xs) else find_one (\<lambda>d. key d = j) xs)"
  by (induction xs) auto

lemma find_guarded:
  "distinct (map key xs) \<Longrightarrow>
    find_one (\<lambda>x. key x = i \<and> g x) xs =
      (case find_one (\<lambda>x. key x = i) xs of None \<Rightarrow> None | Some x \<Rightarrow> if g x then Some x else None)"
  by (induction xs) (auto simp: find_one_None_iff split: option.splits dest!: find_one_SomeD)

lemma update_guarded:
  "distinct (map key xs) \<Longrightarrow> find_one (\<lambda>x. key x = i \<and> g x) xs = Some x \<Longrightarrow>
    update_one (\<lambda>x. key x = i \<and> g x) f xs = update_one (\<lambda>x. key x = i) f xs"
  by (induction xs) (auto split: if_splits dest!: find_one_SomeD)

lemma find_id_delete_other:
  "i \<noteq> j \<Longrightarrow> find_one (\<lambda>d. key d = j) (delete_one (\<lambda>d. key d = i \<and> q d) xs) = find_one (\<lambda>d. key d = j) xs"
  by (induction xs) auto

lemma insert_unique_SomeD: "insert_unique clash d xs = Some ys \<Longrightarrow>
    ys = xs @ [d] \<and> (\<forall>x \<in> set xs. \<not> clash d x)"
  by (auto simp: insert_unique_def list_ex_iff split: if_splits)

lemma insert_unique_None_iff: "insert_unique clash d xs = None \<longleftrightarrow> (\<exists>x \<in> set xs. clash d x)"
  by (auto simp: insert_unique_def list_ex_iff)

lemma latest_by_SomeD: "latest_by k xs = Some x \<Longrightarrow> x \<in> set xs \<and> (\<forall>y \<in> set xs. k y \<le> k x)"
proof (induction xs arbitrary: x)
  case Nil
  then show ?case by simp
next
  case (Cons a xs)
  show ?case
  proof (cases "latest_by k xs")
    case None
    with Cons show ?thesis by (cases xs) (auto split: option.splits if_splits)
  next
    case (Some y)
    with Cons.IH [OF Some] Cons.prems show ?thesis by (auto split: if_splits)
  qed
qed

lemma latest_by_None_iff [simp]: "latest_by k xs = None \<longleftrightarrow> xs = []"
  by (cases xs) (auto split: option.splits)

lemma find_latest_SomeD: "find_latest k p xs = Some x \<Longrightarrow>
    x \<in> set xs \<and> p x \<and> (\<forall>y \<in> set xs. p y \<longrightarrow> k y \<le> k x)"
  by (auto simp: find_latest_def dest!: latest_by_SomeD)

lemma find_latest_None_iff: "find_latest k p xs = None \<longleftrightarrow> (\<forall>x \<in> set xs. \<not> p x)"
  by (simp add: find_latest_def filter_empty_conv)

section \<open>Status tables\<close>

text \<open>
  The services keep a \<open>TRANSITIONS\<close> table per document kind and consult it before every
  status write. \<open>terminal\<close> says which statuses are meant to be final. In a ranked table
  every allowed move goes up a rank, so a status history never repeats a status.
\<close>

locale status_table =
  fixes allowed :: "'s \<Rightarrow> 's \<Rightarrow> bool"
    and terminal :: "'s \<Rightarrow> bool"
  assumes terminal_stuck: "terminal s \<Longrightarrow> \<not> allowed s t"
begin

lemma terminal_absorbing:
  assumes "allowed\<^sup>*\<^sup>* s t" and "terminal s"
  shows "t = s"
  using assms by (induction rule: converse_rtranclp_induct) (auto dest: terminal_stuck)

lemma terminal_last:
  "successively allowed (us @ s # ts) \<Longrightarrow> terminal s \<Longrightarrow> ts = []"
  by (cases ts) (auto simp: successively_append_iff dest: terminal_stuck)

end

locale ranked_table = status_table +
  fixes rank :: "'s \<Rightarrow> nat"
  assumes rank_up: "allowed s t \<Longrightarrow> rank s < rank t"
begin

lemma rank_tranclp: "allowed\<^sup>+\<^sup>+ s t \<Longrightarrow> rank s < rank t"
  by (induction rule: tranclp_induct) (auto dest: rank_up)

lemma never_back: "allowed\<^sup>+\<^sup>+ s t \<Longrightarrow> \<not> allowed\<^sup>*\<^sup>* t s"
  by (metis rank_tranclp less_asym rtranclpD less_irrefl)

lemma history_ranks: "successively allowed (s # ts) \<Longrightarrow> t \<in> set ts \<Longrightarrow> rank s < rank t"
proof (induction ts arbitrary: s)
  case Nil
  then show ?case by simp
next
  case (Cons u ts)
  from Cons.prems have "rank s < rank u" by (auto dest: rank_up)
  with Cons show ?case by (cases "t = u") (auto dest: less_trans)
qed

lemma history_distinct: "successively allowed ss \<Longrightarrow> distinct ss"
proof (induction ss)
  case Nil
  then show ?case by simp
next
  case (Cons s ts)
  then have "successively allowed ts" by (cases ts) auto
  with Cons show ?case by (auto dest: history_ranks)
qed

lemma history_length: "successively allowed (s # ts) \<Longrightarrow> rank s + length ts \<le> rank (last (s # ts))"
proof (induction ts arbitrary: s)
  case Nil
  then show ?case by simp
next
  case (Cons u ts)
  then have "rank s < rank u" by (auto dest: rank_up)
  with Cons.IH [of u] Cons.prems show ?case by auto
qed

end

section \<open>Guarded counters\<close>

text \<open>
  A limit the code enforces with one conditional \<open>findOneAndUpdate\<close> whose filter compares
  the counter with the limit (promo usages, location slots, business slots). \<open>bump\<close> is one
  such attempt; \<open>cap\<close> is the limit it was made with, \<open>None\<close> for no limit.
\<close>

fun attempts :: "('st \<Rightarrow> 'st option) \<Rightarrow> nat \<Rightarrow> 'st \<Rightarrow> 'st" where
  "attempts bump 0 s = s"
| "attempts bump (Suc n) s = attempts bump n (case bump s of None \<Rightarrow> s | Some s' \<Rightarrow> s')"

fun successes :: "('st \<Rightarrow> 'st option) \<Rightarrow> nat \<Rightarrow> 'st \<Rightarrow> nat" where
  "successes bump 0 s = 0"
| "successes bump (Suc n) s = (case bump s of
       None \<Rightarrow> successes bump n s
     | Some s' \<Rightarrow> Suc (successes bump n s'))"

locale guarded_counter =
  fixes inv :: "'st \<Rightarrow> bool"
    and bump :: "'st \<Rightarrow> 'st option"
    and cnt :: "'st \<Rightarrow> int"
    and cap :: "'st \<Rightarrow> int option"
  assumes bump_inv: "inv s \<Longrightarrow> bump s = Some s' \<Longrightarrow> inv s'"
    and bump_counts: "inv s \<Longrightarrow> bump s = Some s' \<Longrightarrow> cnt s' = cnt s + 1"
    and bump_cap: "inv s \<Longrightarrow> bump s = Some s' \<Longrightarrow> cap s' = cap s"
    and bump_below: "inv s \<Longrightarrow> bump s = Some s' \<Longrightarrow> cap s = Some c \<Longrightarrow> cnt s < c"
    and bump_refuses: "inv s \<Longrightarrow> bump s = None \<Longrightarrow> \<exists>c. cap s = Some c \<and> c \<le> cnt s"
begin

lemma refused_forever: "bump s = None \<Longrightarrow> attempts bump n s = s"
  by (induction n) auto

lemma refused_no_success: "bump s = None \<Longrightarrow> successes bump n s = 0"
  by (induction n) auto

lemma attempts_unlimited: "inv s \<Longrightarrow> cap s = None \<Longrightarrow> cnt (attempts bump n s) = cnt s + int n"
proof (induction n arbitrary: s)
  case 0
  then show ?case by simp
next
  case (Suc n)
  then obtain s' where s': "bump s = Some s'" using bump_refuses [of s] by (cases "bump s") auto
  with Suc bump_inv [OF Suc.prems(1) s'] show ?case by (simp add: bump_counts bump_cap)
qed

lemma attempts_limited:
  "inv s \<Longrightarrow> cap s = Some c \<Longrightarrow> cnt s \<le> c \<Longrightarrow>
    cnt (attempts bump n s) = min c (cnt s + int n) \<and>
    int (successes bump n s) = min (c - cnt s) (int n)"
proof (induction n arbitrary: s)
  case 0
  then show ?case by simp
next
  case (Suc n)
  show ?case
  proof (cases "bump s")
    case None
    then have "c \<le> cnt s" using bump_refuses [of s] Suc.prems by auto
    with None Suc.prems show ?thesis by (simp add: refused_forever refused_no_success)
  next
    case (Some s')
    then have "inv s'" "cnt s < c" "cnt s' = cnt s + 1" "cap s' = Some c"
      using Suc.prems by (auto simp: bump_counts bump_cap dest: bump_below bump_inv)
    with Suc.IH [of s'] Some show ?thesis by (auto simp: min_def)
  qed
qed

end

section \<open>Consumers of at-least-once events\<close>

text \<open>
  Providers deliver webhooks at least once. A consumer records which events it has taken
  (a unique index on the event id); an event already taken changes nothing.
\<close>

locale idempotent_consumer =
  fixes inv :: "'st \<Rightarrow> bool"
    and handle :: "'e \<Rightarrow> 'st \<Rightarrow> 'st"
    and taken :: "'e \<Rightarrow> 'st \<Rightarrow> bool"
  assumes handle_inv: "inv s \<Longrightarrow> inv (handle e s)"
    and taken_noop: "taken e s \<Longrightarrow> handle e s = s"
    and takes: "inv s \<Longrightarrow> taken e (handle e s)"
    and taken_stays: "inv s \<Longrightarrow> taken e s \<Longrightarrow> taken e (handle e' s)"
begin

lemma fold_inv: "inv s \<Longrightarrow> inv (fold handle es s)"
  by (induction es arbitrary: s) (auto intro: handle_inv)

lemma redelivery: "inv s \<Longrightarrow> handle e (handle e s) = handle e s"
  by (simp add: taken_noop takes)

lemma taken_fold: "inv s \<Longrightarrow> taken e s \<Longrightarrow> taken e (fold handle es s)"
  by (induction es arbitrary: s) (auto intro: taken_stays handle_inv)

lemma taken_member: "inv s \<Longrightarrow> e \<in> set es \<Longrightarrow> taken e (fold handle es s)"
  by (induction es arbitrary: s) (auto intro: taken_fold takes handle_inv)

lemma late_duplicate: "inv s \<Longrightarrow> e \<in> set es \<Longrightarrow> handle e (fold handle es s) = fold handle es s"
  by (simp add: taken_noop taken_member)

lemma all_taken_noop: "(\<forall>e \<in> set es. taken e s) \<Longrightarrow> fold handle es s = s"
  by (induction es) (auto simp: taken_noop)

lemma replay: "inv s \<Longrightarrow> set ds \<subseteq> set es \<Longrightarrow> fold handle (es @ ds) s = fold handle es s"
  by (auto simp: taken_member intro!: all_taken_noop)

end

end
