(* ===== verification/Domain.thy ===== *)
theory Domain
  imports Prelude
begin

text \<open>
  The documents of the ordering and money collections (\<open>apps/api/src/models\<close>) as records,
  their enumerations as datatypes, and the database the services work on. Field names are the
  schema's with a prefix for the document kind. An optional field is an \<open>option\<close>; dates are
  milliseconds since the epoch. Fields that no modelled operation reads or writes (display
  texts, images, theme data) are left out.
\<close>

section \<open>Enumerations\<close>

datatype order_status =
  Pending | Confirmed | Preparing | Ready | Out_For_Delivery | Completed | Cancelled

datatype order_type = Pickup | Delivery | Dine_In

datatype order_channel = Online_Channel | Pos_Channel | Marketplace_Channel

datatype pay_method = Cash | Card | Online_Pay | Marketplace_Pay

datatype order_pay_status = Unpaid | Order_Paid

datatype payment_status =
  P_Pending | P_Requires_Action | P_Authorized | P_Paid | P_Failed | P_Cancelled
  | P_Refunded | P_Partially_Refunded

datatype payment_kind = Kind_Online | Kind_Pos_Terminal

datatype refund_status = R_Pending | R_Succeeded | R_Failed

datatype promo_type = Percentage | Fixed

datatype tier = Bronze | Silver | Gold

datatype loyalty_txn_type = Earn | Redeem | Adjustment

datatype weekday = Sunday | Monday | Tuesday | Wednesday | Thursday | Friday | Saturday

section \<open>Restaurants, tables, users\<close>

record fee_tier =
  ft_maxDistanceKm :: rat
  ft_fee :: money

record hours_day =
  hd_day :: weekday
  hd_isClosed :: bool
  hd_open :: "string option"
  hd_close :: "string option"

record restaurant_settings =
  rs_currency :: string
  rs_timezone :: string
  rs_orderingEnabled :: bool
  rs_pickupEnabled :: bool
  rs_deliveryEnabled :: bool
  rs_dineInEnabled :: bool
  rs_cashEnabled :: bool
  rs_onlinePaymentEnabled :: bool
  rs_minOrderAmount :: money
  rs_taxRate :: rat
  rs_deliveryFee :: money
  rs_deliveryRadiusKm :: "rat option"
  rs_deliveryFeeTiers :: "fee_tier list"
  rs_businessHours :: "hours_day list"
  rs_temporarilyPaused :: bool
  rs_pausedReason :: "string option"
  rs_posTerminalEnabled :: bool
  rs_deliveryProvider :: "string option"

datatype restaurant_status = Restaurant_Pending | Restaurant_Active | Restaurant_Suspended

record restaurant =
  res_id :: oid
  res_businessId :: "oid option"
  res_status :: restaurant_status
  res_name :: string
  res_address :: "string option"
  res_city :: "string option"
  res_state :: "string option"
  res_postalCode :: "string option"
  res_country :: "string option"
  res_phone :: "string option"
  res_latitude :: "rat option"
  res_longitude :: "rat option"
  res_settings :: restaurant_settings

record dining_table =
  tb_id :: oid
  tb_restaurantId :: oid
  tb_name :: string
  tb_isActive :: bool
  tb_qrToken :: string

record user =
  u_id :: oid
  u_name :: string
  u_phone :: "string option"

section \<open>Orders\<close>

record selected_modifier =
  sm_groupId :: oid
  sm_groupName :: string
  sm_optionId :: oid
  sm_optionName :: string
  sm_priceAdjustment :: money

record order_item =
  oi_menuItemId :: oid
  oi_name :: string
  oi_unitPrice :: money
  oi_quantity :: int
  oi_selectedModifiers :: "selected_modifier list"
  oi_lineTotal :: money
  oi_specialInstructions :: "string option"

record delivery_address =
  da_line1 :: string
  da_line2 :: "string option"
  da_city :: string
  da_state :: "string option"
  da_postalCode :: "string option"
  da_country :: "string option"
  da_latitude :: rat
  da_longitude :: rat
  da_instructions :: "string option"
  da_phone :: "string option"

record marketplace_ref =
  mk_provider :: string
  mk_integrationId :: oid
  mk_externalOrderId :: string
  mk_externalStoreId :: string

record order =
  o_id :: oid
  o_restaurantId :: oid
  o_customerId :: oid
  o_orderNumber :: int
  o_items :: "order_item list"
  o_status :: order_status
  o_statusHistory :: "(order_status \<times> time) list"
  o_orderType :: order_type
  o_channel :: order_channel
  o_paymentMethod :: pay_method
  o_paymentStatus :: order_pay_status
  o_currency :: string
  o_subtotal :: money
  o_taxAmount :: money
  o_deliveryFee :: money
  o_discount :: money
  o_promoCode :: "string option"
  o_promoDiscount :: money
  o_total :: money
  o_loyaltyPointsRedeemed :: money
  o_loyaltyPointsEarned :: money
  o_loyaltyReversed :: bool
  o_deliveryAddress :: "delivery_address option"
  o_deliveryDistanceKm :: "rat option"
  o_tableId :: "oid option"
  o_tableName :: "string option"
  o_customerNotes :: "string option"
  o_isDemo :: bool
  o_createdByUserId :: "oid option"
  o_marketplace :: "marketplace_ref option"

section \<open>Promotions and loyalty\<close>

record promotion =
  pr_id :: oid
  pr_restaurantId :: "oid option"
  pr_businessId :: "oid option"
  pr_locationIds :: "oid list"
  pr_code :: string
  pr_type :: promo_type
  pr_value :: money
  pr_minOrderAmount :: money
  pr_isActive :: bool
  pr_startDate :: "time option"
  pr_endDate :: "time option"
  pr_usageLimit :: "int option"
  pr_usageCount :: int

record loyalty_account =
  la_restaurantId :: oid
  la_customerId :: oid
  la_pointsBalance :: money
  la_tier :: tier

record loyalty_txn =
  lt_restaurantId :: oid
  lt_customerId :: oid
  lt_orderId :: "oid option"
  lt_type :: loyalty_txn_type
  lt_points :: money

section \<open>Payments and refunds\<close>

datatype account_status = Acc_Pending_Verification | Acc_Active | Acc_Action_Required | Acc_Invalid | Acc_Disconnected

record pay_account =
  pa_id :: oid
  pa_restaurantId :: oid
  pa_provider :: string
  pa_platformConnect :: bool
  pa_status :: account_status
  pa_connectedAccountId :: "string option"

record payment =
  p_id :: oid
  p_restaurantId :: oid
  p_orderId :: oid
  p_customerId :: oid
  p_method :: payment_kind
  p_provider :: string
  p_providerRef :: "string option"
  p_accountId :: "oid option"
  p_currency :: string
  p_amount :: money
  p_status :: payment_status
  p_totalRefunded :: money
  p_idempotencyKey :: "string option"
  p_createdAt :: time

datatype lookup_outcome = Lookup_Found | Lookup_Not_Found | Lookup_Inconclusive

datatype refund_method = Provider_Response | Provider_Lookup | Webhook | Manual

record resolution =
  rz_method :: refund_method
  rz_refunded :: bool
  rz_providerRefundRef :: "string option"
  rz_evidence :: "string option"
  rz_resolvedByUserId :: "oid option"
  rz_resolvedAt :: time

record refund =
  r_id :: oid
  r_restaurantId :: oid
  r_paymentId :: oid
  r_orderId :: oid
  r_provider :: string
  r_providerRefundRef :: "string option"
  r_amount :: money
  r_reason :: "string option"
  r_status :: refund_status
  r_idempotencyKey :: string
  r_providerOutcomeUnknown :: bool
  r_amountReserved :: bool
  r_reissueLeaseUntil :: "time option"
  r_providerRefundKey :: "string option"
  r_providerStatus :: "string option"
  r_lastLookupAt :: "time option"
  r_lastLookupResult :: "lookup_outcome option"
  r_resolution :: "resolution option"
  r_initiatedByUserId :: oid
  r_createdAt :: time

record webhook_event =
  we_provider :: string
  we_eventId :: string
  we_eventType :: string
  we_processedAt :: "time option"
  we_processingError :: "string option"

section \<open>Deliveries\<close>

datatype delivery_status =
  D_Pending | D_Quoted | D_Requested | D_Accepted | D_Driver_Assigned | D_Picked_Up
  | D_Out_For_Delivery | D_Delivered | D_Cancelled | D_Failed

record delivery_entry =
  de_status :: delivery_status
  de_at :: time
  de_providerEventId :: "string option"
  de_note :: "string option"

record delivery =
  dl_id :: oid
  dl_restaurantId :: oid
  dl_businessId :: "oid option"
  dl_orderId :: oid
  dl_orderNumber :: int
  dl_provider :: string
  dl_status :: delivery_status
  dl_statusHistory :: "delivery_entry list"
  dl_fee :: "money option"
  dl_currency :: "string option"
  dl_quoteId :: "string option"
  dl_providerDeliveryId :: "string option"
  dl_trackingUrl :: "string option"
  dl_courierName :: "string option"
  dl_courierPhone :: "string option"
  dl_pickupEta :: "time option"
  dl_dropoffEta :: "time option"
  dl_cancelReason :: "string option"
  dl_failureReason :: "string option"
  dl_lastProviderError :: "string option"
  dl_idempotencyKey :: string

record delivery_event =
  dv_provider :: string
  dv_eventId :: string
  dv_eventType :: string
  dv_processedAt :: "time option"
  dv_processingStartedAt :: "time option"
  dv_processingError :: "string option"

record courier_account =
  ca_id :: oid
  ca_restaurantId :: oid
  ca_provider :: string
  ca_status :: account_status
  ca_webhookSecretConfigured :: "bool option"

section \<open>What the services emit\<close>

text \<open>\<open>events/orderEvents.ts\<close>: the event types; \<open>Evt_Status\<close> is the one event per status.\<close>

datatype payment_outcome = Outcome payment_status | Outcome_Refunded

datatype order_event_type =
  Evt_Created | Evt_Status order_status | Evt_Payment_Updated | Evt_Delivery_Status_Updated

record order_event =
  ev_type :: order_event_type
  ev_orderId :: oid
  ev_status :: order_status
  ev_paymentOutcome :: "payment_outcome option"
  ev_amount :: "money option"
  ev_deliveryStatus :: "delivery_status option"

text \<open>\<open>statusToEventType\<close>.\<close>

fun status_to_event_type :: "order_status \<Rightarrow> order_event_type" where
  "status_to_event_type Pending = Evt_Created"
| "status_to_event_type s = Evt_Status s"

record audit_entry =
  au_action :: string
  au_actorUserId :: oid
  au_targetId :: oid

datatype job = Dispatch_Create oid oid

section \<open>The database\<close>

record db =
  db_restaurants :: "restaurant list"
  db_tables :: "dining_table list"
  db_users :: "user list"
  db_promotions :: "promotion list"
  db_counters :: "(oid \<times> int) list"
  db_orders :: "order list"
  db_loyaltyAccounts :: "loyalty_account list"
  db_loyaltyTxns :: "loyalty_txn list"
  db_payments :: "payment list"
  db_refunds :: "refund list"
  db_payAccounts :: "pay_account list"
  db_paymentEvents :: "webhook_event list"
  db_deliveries :: "delivery list"
  db_deliveryEvents :: "delivery_event list"
  db_courierAccounts :: "courier_account list"
  db_audit :: "audit_entry list"
  db_events :: "order_event list"
  db_jobs :: "job list"

definition emit_order_event :: "order_event \<Rightarrow> db \<Rightarrow> db" where
  "emit_order_event e d = d\<lparr>db_events := db_events d @ [e]\<rparr>"

definition record_audit_event :: "audit_entry \<Rightarrow> db \<Rightarrow> db" where
  "record_audit_event a d = d\<lparr>db_audit := db_audit d @ [a]\<rparr>"

definition enqueue_job :: "job \<Rightarrow> db \<Rightarrow> db" where
  "enqueue_job j d = d\<lparr>db_jobs := db_jobs d @ [j]\<rparr>"

definition find_order :: "oid \<Rightarrow> oid \<Rightarrow> db \<Rightarrow> order option" where
  "find_order oid rid d = find_one (\<lambda>o'. o_id o' = oid \<and> o_restaurantId o' = rid) (db_orders d)"

definition find_restaurant :: "oid \<Rightarrow> db \<Rightarrow> restaurant option" where
  "find_restaurant rid d = find_one (\<lambda>r. res_id r = rid) (db_restaurants d)"

lemma find_order_SomeD: "find_order oid rid d = Some o' \<Longrightarrow>
    o' \<in> set (db_orders d) \<and> o_id o' = oid \<and> o_restaurantId o' = rid"
  by (auto simp: find_order_def dest: find_one_SomeD)

lemmas emit_simps = emit_order_event_def record_audit_event_def enqueue_job_def

end
