(* ===== verification/Samples.thy ===== *)
theory Samples
  imports Domain
begin

text \<open>
  Sample documents, on which the theorems of the other theories are applied: an active restaurant,
  an empty database with it, and an unpaid online order of it.
\<close>

definition sample_settings :: restaurant_settings where
  "sample_settings =
     \<lparr>rs_currency = ''USD'', rs_timezone = ''UTC'', rs_orderingEnabled = True, rs_pickupEnabled = True,
      rs_deliveryEnabled = True, rs_dineInEnabled = True, rs_cashEnabled = True,
      rs_onlinePaymentEnabled = True, rs_minOrderAmount = 5, rs_taxRate = 1 / 10, rs_deliveryFee = 3,
      rs_deliveryRadiusKm = Some 10, rs_deliveryFeeTiers = [], rs_businessHours = [],
      rs_temporarilyPaused = False, rs_pausedReason = None, rs_posTerminalEnabled = True,
      rs_deliveryProvider = None\<rparr>"

definition sample_restaurant :: restaurant where
  "sample_restaurant =
     \<lparr>res_id = ''r1'', res_businessId = Some ''b1'', res_status = Restaurant_Active,
      res_name = ''Roma'', res_address = None, res_city = None, res_state = None, res_postalCode = None,
      res_country = Some ''US'',
      res_phone = None, res_latitude = Some 0, res_longitude = Some 0, res_settings = sample_settings\<rparr>"

definition sample_db :: db where
  "sample_db =
     \<lparr>db_restaurants = [sample_restaurant], db_tables = [], db_users = [], db_promotions = [],
      db_counters = [], db_orders = [], db_loyaltyAccounts = [], db_loyaltyTxns = [], db_payments = [],
      db_refunds = [], db_payAccounts = [],
      db_paymentEvents = [], db_deliveries = [], db_deliveryEvents = [], db_courierAccounts = [], db_audit = [], db_events = [], db_jobs = []\<rparr>"

definition sample_order :: order where
  "sample_order =
     \<lparr>o_id = ''o1'', o_restaurantId = ''r1'', o_customerId = ''u1'', o_orderNumber = 1001, o_items = [],
      o_status = Pending, o_statusHistory = [(Pending, 0)], o_orderType = Delivery, o_channel = Online_Channel,
      o_paymentMethod = Online_Pay, o_paymentStatus = Unpaid, o_currency = ''USD'', o_subtotal = 20,
      o_taxAmount = 2, o_deliveryFee = 3, o_discount = 4, o_promoCode = None, o_promoDiscount = 0, o_total = 21,
      o_loyaltyPointsRedeemed = 4, o_loyaltyPointsEarned = 21, o_loyaltyReversed = False,
      o_deliveryAddress = None, o_deliveryDistanceKm = Some 2, o_tableId = None, o_tableName = None,
      o_customerNotes = None, o_isDemo = False, o_createdByUserId = None, o_marketplace = None\<rparr>"

lemmas sample_defs = sample_settings_def sample_restaurant_def sample_db_def sample_order_def

end
