(* ===== verification/Menu_Pricing.thy ===== *)
theory Menu_Pricing
  imports Samples "HOL-Library.AList" "HOL-Library.Multiset"
begin

text \<open>
  \<open>services/orderPricing.service.ts\<close>: the menu collections, the legacy and the canonical
  resolution of what a location charges, and \<open>priceOrderItems\<close>, which turns the lines of a
  request into priced lines. A JavaScript \<open>Map\<close> is an association list in insertion order
  (\<open>Map.set\<close> is \<open>AList.update\<close>, \<open>Map.get\<close> is \<open>map_of\<close>).
\<close>

section \<open>The menu collections\<close>

record menu_item =
  mi_id :: oid
  mi_restaurantId :: "oid option"
  mi_businessId :: "oid option"
  mi_categoryId :: oid
  mi_name :: string
  mi_price :: money
  mi_isAvailable :: bool
  mi_sortOrder :: int
  mi_clonedFrom :: "oid option"

record modifier_option =
  mo_id :: oid
  mo_name :: string
  mo_priceAdjustment :: money
  mo_isActive :: bool
  mo_sortOrder :: int

record modifier_group =
  mg_id :: oid
  mg_restaurantId :: "oid option"
  mg_businessId :: "oid option"
  mg_menuItemId :: oid
  mg_name :: string
  mg_minSelect :: int
  mg_maxSelect :: int
  mg_isActive :: bool
  mg_sortOrder :: int
  mg_options :: "modifier_option list"
  mg_clonedFrom :: "oid option"

record item_override =
  io_locationId :: oid
  io_menuItemId :: oid
  io_isAvailable :: "bool option"
  io_priceOverride :: "money option"
  io_sortOrderOverride :: "int option"

record option_override =
  oo_optionId :: oid
  oo_isActive :: "bool option"
  oo_priceAdjustmentOverride :: "money option"

record group_override =
  go_locationId :: oid
  go_modifierGroupId :: oid
  go_isActive :: "bool option"
  go_optionOverrides :: "option_override list"

record menu_db =
  md_items :: "menu_item list"
  md_groups :: "modifier_group list"
  md_itemOverrides :: "item_override list"
  md_groupOverrides :: "group_override list"

text \<open>What pricing needs of an item, an option and a group, resolved for one location.\<close>

record pricing_item =
  ei_id :: oid
  ei_name :: string
  ei_price :: money

record pricing_option =
  eo_id :: oid
  eo_name :: string
  eo_priceAdjustment :: money
  eo_isActive :: bool

record pricing_group =
  eg_id :: oid
  eg_menuItemId :: oid
  eg_name :: string
  eg_minSelect :: int
  eg_maxSelect :: int
  eg_options :: "pricing_option list"

text \<open>\<open>new Map(pairs)\<close>.\<close>

definition js_map :: "('k \<times> 'v) list \<Rightarrow> ('k \<times> 'v) list" where
  "js_map ps = foldl (\<lambda>m (k, v). AList.update k v m) [] ps"

section \<open>Resolution of items and groups\<close>

definition business_has_canonical_menu :: "menu_db \<Rightarrow> oid \<Rightarrow> bool" where
  "business_has_canonical_menu md bid = list_ex (\<lambda>d. mi_businessId d = Some bid) (md_items md)"

definition load_items_legacy :: "menu_db \<Rightarrow> oid \<Rightarrow> oid list \<Rightarrow> (oid \<times> pricing_item) list" where
  "load_items_legacy md rid ids =
     (let docs = filter (\<lambda>d. mi_id d \<in> set ids \<and> mi_restaurantId d = Some rid \<and> mi_isAvailable d)
                   (md_items md)
      in js_map (map (\<lambda>d. (mi_id d, \<lparr>ei_id = mi_id d, ei_name = mi_name d, ei_price = mi_price d\<rparr>)) docs))"

definition load_groups_legacy :: "menu_db \<Rightarrow> oid \<Rightarrow> oid list \<Rightarrow> (oid \<times> pricing_group) list" where
  "load_groups_legacy md rid ids =
     (let docs = filter (\<lambda>d. mg_menuItemId d \<in> set ids \<and> mg_restaurantId d = Some rid \<and> mg_isActive d)
                   (md_groups md)
      in js_map (map (\<lambda>d. (mg_id d,
           \<lparr>eg_id = mg_id d, eg_menuItemId = mg_menuItemId d, eg_name = mg_name d,
            eg_minSelect = mg_minSelect d, eg_maxSelect = mg_maxSelect d,
            eg_options = map (\<lambda>o'. \<lparr>eo_id = mo_id o', eo_name = mo_name o',
              eo_priceAdjustment = mo_priceAdjustment o', eo_isActive = mo_isActive o'\<rparr>) (mg_options d)\<rparr>)) docs))"

definition load_items_canonical ::
  "menu_db \<Rightarrow> oid \<Rightarrow> oid \<Rightarrow> oid list \<Rightarrow> (oid \<times> pricing_item) list" where
  "load_items_canonical md bid lid ids =
     (let docs = filter (\<lambda>d. mi_id d \<in> set ids \<and> mi_businessId d = Some bid) (md_items md);
          overrides = filter (\<lambda>v. io_locationId v = lid \<and> io_menuItemId v \<in> set ids) (md_itemOverrides md);
          override_of = map_of (js_map (map (\<lambda>v. (io_menuItemId v, v)) overrides));
          available = (\<lambda>d. nullish (Option.bind (override_of (mi_id d)) io_isAvailable) (mi_isAvailable d));
          price = (\<lambda>d. nullish (Option.bind (override_of (mi_id d)) io_priceOverride) (mi_price d))
      in js_map (map (\<lambda>d. (mi_id d, \<lparr>ei_id = mi_id d, ei_name = mi_name d, ei_price = price d\<rparr>))
           (filter available docs)))"

definition load_groups_canonical ::
  "menu_db \<Rightarrow> oid \<Rightarrow> oid \<Rightarrow> oid list \<Rightarrow> (oid \<times> pricing_group) list" where
  "load_groups_canonical md bid lid ids =
     (let docs = filter (\<lambda>d. mg_menuItemId d \<in> set ids \<and> mg_businessId d = Some bid) (md_groups md);
          overrides = filter (\<lambda>v. go_locationId v = lid \<and> go_modifierGroupId v \<in> mg_id ` set docs)
                        (md_groupOverrides md);
          override_of = map_of (js_map (map (\<lambda>v. (go_modifierGroupId v, v)) overrides));
          active = (\<lambda>d. nullish (Option.bind (override_of (mg_id d)) go_isActive) (mg_isActive d));
          option_of = (\<lambda>d. map_of (js_map (map (\<lambda>v. (oo_optionId v, v))
            (case override_of (mg_id d) of None \<Rightarrow> [] | Some v \<Rightarrow> go_optionOverrides v))));
          resolve = (\<lambda>d o'. \<lparr>eo_id = mo_id o', eo_name = mo_name o',
            eo_priceAdjustment =
              nullish (Option.bind (option_of d (mo_id o')) oo_priceAdjustmentOverride) (mo_priceAdjustment o'),
            eo_isActive = nullish (Option.bind (option_of d (mo_id o')) oo_isActive) (mo_isActive o')\<rparr>)
      in js_map (map (\<lambda>d. (mg_id d,
           \<lparr>eg_id = mg_id d, eg_menuItemId = mg_menuItemId d, eg_name = mg_name d,
            eg_minSelect = mg_minSelect d, eg_maxSelect = mg_maxSelect d,
            eg_options = map (resolve d) (mg_options d)\<rparr>)) (filter active docs)))"

section \<open>Pricing a request\<close>

record modifier_selection =
  ms_groupId :: oid
  ms_optionId :: oid

record item_request =
  ir_menuItemId :: oid
  ir_quantity :: int
  ir_selectedModifiers :: "modifier_selection list"
  ir_specialInstructions :: "string option"

text \<open>The first loop: selections collected by group, each group checked to belong to the item.\<close>

fun collect_selections ::
  "(oid \<times> pricing_group) list \<Rightarrow> oid \<Rightarrow> modifier_selection list \<Rightarrow>
    (oid \<times> modifier_selection list) list \<Rightarrow> (oid \<times> modifier_selection list) list result" where
  "collect_selections groups item [] acc = Inr acc"
| "collect_selections groups item (s # ss) acc =
     (case map_of groups (ms_groupId s) of
        None \<Rightarrow> Inl (Bad_Request ''modifier group does not belong to menu item'')
      | Some g \<Rightarrow>
          if eg_menuItemId g \<noteq> item
          then Inl (Bad_Request ''modifier group does not belong to menu item'')
          else (case map_of acc (ms_groupId s) of
              Some existing \<Rightarrow> collect_selections groups item ss
                (AList.update (ms_groupId s) (existing @ [s]) acc)
            | None \<Rightarrow> collect_selections groups item ss (AList.update (ms_groupId s) [s] acc)))"

definition find_option :: "pricing_group \<Rightarrow> oid \<Rightarrow> pricing_option option" where
  "find_option g oid = find_one (\<lambda>o'. eo_id o' = oid \<and> eo_isActive o') (eg_options g)"

fun price_selections :: "pricing_group \<Rightarrow> modifier_selection list \<Rightarrow> selected_modifier list result" where
  "price_selections g [] = Inr []"
| "price_selections g (s # ss) =
     (case find_option g (ms_optionId s) of
        None \<Rightarrow> Inl (Bad_Request ''modifier option is invalid or unavailable'')
      | Some o' \<Rightarrow> (case price_selections g ss of
            Inl e \<Rightarrow> Inl e
          | Inr ms \<Rightarrow> Inr (\<lparr>sm_groupId = eg_id g, sm_groupName = eg_name g, sm_optionId = eo_id o',
              sm_optionName = eo_name o', sm_priceAdjustment = eo_priceAdjustment o'\<rparr> # ms)))"

text \<open>The second loop: per group with selections, the count and then each option.\<close>

fun price_groups ::
  "(oid \<times> pricing_group) list \<Rightarrow> (oid \<times> modifier_selection list) list \<Rightarrow> selected_modifier list result" where
  "price_groups groups [] = Inr []"
| "price_groups groups ((gid, ss) # rest) =
     (case map_of groups gid of
        None \<Rightarrow> Inl (Thrown ''TypeError'')
      | Some g \<Rightarrow>
          if int (length ss) < eg_minSelect g \<or> int (length ss) > eg_maxSelect g
          then Inl (Bad_Request ''modifier group requires between min and max selections'')
          else (case price_selections g ss of
              Inl e \<Rightarrow> Inl e
            | Inr ms \<Rightarrow> (case price_groups groups rest of Inl e \<Rightarrow> Inl e | Inr ms' \<Rightarrow> Inr (ms @ ms'))))"

definition missing_required ::
  "(oid \<times> pricing_group) list \<Rightarrow> oid \<Rightarrow> (oid \<times> modifier_selection list) list \<Rightarrow> bool" where
  "missing_required groups item sel =
     list_ex (\<lambda>(k, g). eg_menuItemId g = item \<and> eg_minSelect g > 0 \<and> map_of sel (eg_id g) = None) groups"

definition price_item ::
  "(oid \<times> pricing_item) list \<Rightarrow> (oid \<times> pricing_group) list \<Rightarrow> item_request \<Rightarrow> order_item result" where
  "price_item items groups ir =
     (case map_of items (ir_menuItemId ir) of
        None \<Rightarrow> Inl (Thrown ''TypeError'')
      | Some mi \<Rightarrow>
        (case collect_selections groups (ir_menuItemId ir) (ir_selectedModifiers ir) [] of
           Inl e \<Rightarrow> Inl e
         | Inr sel \<Rightarrow>
           (case price_groups groups sel of
              Inl e \<Rightarrow> Inl e
            | Inr ms \<Rightarrow>
              if missing_required groups (ir_menuItemId ir) sel
              then Inl (Bad_Request ''modifier group requires a selection'')
              else let modifier_total = foldl (\<lambda>sum m. sum + sm_priceAdjustment m) 0 ms in
                Inr \<lparr>oi_menuItemId = ei_id mi, oi_name = ei_name mi, oi_unitPrice = ei_price mi,
                     oi_quantity = ir_quantity ir, oi_selectedModifiers = ms,
                     oi_lineTotal = (ei_price mi + modifier_total) * of_int (ir_quantity ir),
                     oi_specialInstructions = ir_specialInstructions ir\<rparr>)))"

fun price_items ::
  "(oid \<times> pricing_item) list \<Rightarrow> (oid \<times> pricing_group) list \<Rightarrow> item_request list \<Rightarrow> order_item list result" where
  "price_items items groups [] = Inr []"
| "price_items items groups (ir # irs) =
     (case price_item items groups ir of
        Inl e \<Rightarrow> Inl e
      | Inr p \<Rightarrow> (case price_items items groups irs of Inl e \<Rightarrow> Inl e | Inr ps \<Rightarrow> Inr (p # ps)))"

text \<open>Which of the two resolutions a restaurant uses: decided once per call.\<close>

definition effective_menu ::
  "db \<Rightarrow> menu_db \<Rightarrow> oid \<Rightarrow> oid list \<Rightarrow> (oid \<times> pricing_item) list \<times> (oid \<times> pricing_group) list" where
  "effective_menu d md rid ids =
     (case Option.bind (find_restaurant rid d) res_businessId of
        None \<Rightarrow> (load_items_legacy md rid ids, load_groups_legacy md rid ids)
      | Some bid \<Rightarrow>
          if business_has_canonical_menu md bid
          then (load_items_canonical md bid rid ids, load_groups_canonical md bid rid ids)
          else (load_items_legacy md rid ids, load_groups_legacy md rid ids))"

definition price_order_items ::
  "db \<Rightarrow> menu_db \<Rightarrow> oid \<Rightarrow> item_request list \<Rightarrow> (order_item list \<times> money) result" where
  "price_order_items d md rid irs =
     (let ids = map ir_menuItemId irs; (items, groups) = effective_menu d md rid ids in
      if length items \<noteq> card (set ids)
      then Inl (Bad_Request ''menu items unavailable or do not exist for this restaurant'')
      else (case price_items items groups irs of
          Inl e \<Rightarrow> Inl e
        | Inr ps \<Rightarrow> Inr (ps, foldl (\<lambda>sum i. sum + oi_lineTotal i) 0 ps)))"

section \<open>Maps in insertion order\<close>

lemma js_map_snoc: "js_map (ps @ [(k, v)]) = AList.update k v (js_map ps)"
  by (simp add: js_map_def)

lemma js_map_Nil [simp]: "js_map [] = []"
  by (simp add: js_map_def)

lemma distinct_js_map [simp]: "distinct (map fst (js_map ps))"
proof (induction ps rule: rev_induct)
  case (snoc p ps)
  then show ?case by (cases p) (simp add: js_map_snoc distinct_update)
qed simp

lemma map_of_js_map: "map_of (js_map ps) k = map_of (rev ps) k"
proof (induction ps rule: rev_induct)
  case (snoc p ps)
  then show ?case by (cases p) (simp add: js_map_snoc update_conv')
qed simp

lemma js_map_memD: "(k, v) \<in> set (js_map ps) \<Longrightarrow> (k, v) \<in> set ps"
  by (metis distinct_js_map map_of_is_SomeI map_of_js_map map_of_SomeD set_rev)

lemma keys_js_map: "fst ` set (js_map ps) = fst ` set ps"
proof -
  have "dom (map_of (js_map ps)) = dom (map_of (rev ps))" by (simp add: dom_def map_of_js_map)
  then show ?thesis by (simp add: dom_map_of_conv_image_fst)
qed

lemma map_of_js_map_SomeD: "map_of (js_map ps) k = Some v \<Longrightarrow> (k, v) \<in> set ps"
  by (meson js_map_memD map_of_SomeD)

section \<open>What a location sells\<close>

definition canonical_business :: "db \<Rightarrow> menu_db \<Rightarrow> oid \<Rightarrow> oid option" where
  "canonical_business d md rid =
     (case Option.bind (find_restaurant rid d) res_businessId of
        None \<Rightarrow> None
      | Some bid \<Rightarrow> if business_has_canonical_menu md bid then Some bid else None)"

text \<open>The override that applies to an item at a location: none when there is none, and never one of
  another location or item.\<close>

definition item_override_at :: "menu_db \<Rightarrow> oid \<Rightarrow> oid \<Rightarrow> item_override option \<Rightarrow> bool" where
  "item_override_at md lid iid v =
     (case v of
        None \<Rightarrow> \<forall>w \<in> set (md_itemOverrides md). \<not> (io_locationId w = lid \<and> io_menuItemId w = iid)
      | Some w \<Rightarrow> w \<in> set (md_itemOverrides md) \<and> io_locationId w = lid \<and> io_menuItemId w = iid)"

definition location_sells :: "db \<Rightarrow> menu_db \<Rightarrow> oid \<Rightarrow> menu_item \<Rightarrow> money \<Rightarrow> bool" where
  "location_sells d md rid doc price =
     (doc \<in> set (md_items md) \<and>
      (case canonical_business d md rid of
         None \<Rightarrow> mi_restaurantId doc = Some rid \<and> mi_isAvailable doc \<and> price = mi_price doc
       | Some bid \<Rightarrow> mi_businessId doc = Some bid \<and>
           (\<exists>v. item_override_at md rid (mi_id doc) v \<and>
              nullish (Option.bind v io_isAvailable) (mi_isAvailable doc) \<and>
              price = nullish (Option.bind v io_priceOverride) (mi_price doc))))"

lemma effective_menu_alt:
  "effective_menu d md rid ids =
     (case canonical_business d md rid of
        None \<Rightarrow> (load_items_legacy md rid ids, load_groups_legacy md rid ids)
      | Some bid \<Rightarrow> (load_items_canonical md bid rid ids, load_groups_canonical md bid rid ids))"
  by (auto simp: effective_menu_def canonical_business_def split: option.splits)

lemma load_items_legacyD:
  assumes "(k, e) \<in> set (load_items_legacy md rid ids)"
  shows "\<exists>doc \<in> set (md_items md). mi_id doc = k \<and> k \<in> set ids \<and> mi_restaurantId doc = Some rid \<and>
    mi_isAvailable doc \<and> e = \<lparr>ei_id = k, ei_name = mi_name doc, ei_price = mi_price doc\<rparr>"
  using assms by (auto simp: load_items_legacy_def Let_def dest!: js_map_memD)

lemma override_lookup:
  assumes "iid \<in> set ids"
  shows "item_override_at md lid iid
    (map_of (js_map (map (\<lambda>v. (io_menuItemId v, v))
       (filter (\<lambda>v. io_locationId v = lid \<and> io_menuItemId v \<in> set ids) (md_itemOverrides md)))) iid)"
    (is "item_override_at md lid iid (map_of (js_map (map ?f ?vs)) iid)")
proof (cases "map_of (js_map (map ?f ?vs)) iid")
  case None
  then have "iid \<notin> fst ` set (map ?f ?vs)" unfolding map_of_eq_None_iff keys_js_map .
  then have "\<forall>w \<in> set (md_itemOverrides md). \<not> (io_locationId w = lid \<and> io_menuItemId w = iid)"
    using assms by (force simp: image_iff)
  with None show ?thesis by (simp only: item_override_at_def option.case)
next
  case (Some w)
  from map_of_js_map_SomeD [OF this] have "w \<in> set (md_itemOverrides md)" "io_locationId w = lid"
    "io_menuItemId w = iid" by auto
  with Some show ?thesis by (simp only: item_override_at_def option.case)
qed

lemma load_items_canonicalD:
  assumes "(k, e) \<in> set (load_items_canonical md bid lid ids)"
  shows "\<exists>doc \<in> set (md_items md). mi_id doc = k \<and> k \<in> set ids \<and> mi_businessId doc = Some bid \<and>
    (\<exists>v. item_override_at md lid k v \<and> nullish (Option.bind v io_isAvailable) (mi_isAvailable doc) \<and>
      e = \<lparr>ei_id = k, ei_name = mi_name doc, ei_price = nullish (Option.bind v io_priceOverride) (mi_price doc)\<rparr>)"
proof -
  let ?v = "map_of (js_map (map (\<lambda>v. (io_menuItemId v, v))
       (filter (\<lambda>v. io_locationId v = lid \<and> io_menuItemId v \<in> set ids) (md_itemOverrides md)))) k"
  from assms obtain doc where doc: "doc \<in> set (md_items md)" "mi_id doc = k" "k \<in> set ids"
    "mi_businessId doc = Some bid" "nullish (Option.bind ?v io_isAvailable) (mi_isAvailable doc)"
    "e = \<lparr>ei_id = k, ei_name = mi_name doc, ei_price = nullish (Option.bind ?v io_priceOverride) (mi_price doc)\<rparr>"
    by (auto simp: load_items_canonical_def Let_def dest!: js_map_memD)
  from override_lookup [OF doc(3), of md lid] doc show ?thesis by blast
qed

lemma effective_item_sold:
  assumes "effective_menu d md rid ids = (items, groups)" "map_of items k = Some e"
  shows "\<exists>doc. location_sells d md rid doc (ei_price e) \<and> mi_id doc = k \<and> ei_id e = k \<and>
    ei_name e = mi_name doc"
proof (cases "canonical_business d md rid")
  case None
  with assms have "(k, e) \<in> set (load_items_legacy md rid ids)"
    by (auto simp: effective_menu_alt dest: map_of_SomeD)
  from load_items_legacyD [OF this] None show ?thesis by (auto simp: location_sells_def)
next
  case (Some bid)
  with assms have "(k, e) \<in> set (load_items_canonical md bid rid ids)"
    by (auto simp: effective_menu_alt dest: map_of_SomeD)
  from load_items_canonicalD [OF this] obtain doc v where "doc \<in> set (md_items md)" "mi_id doc = k"
    "mi_businessId doc = Some bid" "item_override_at md rid k v"
    "nullish (Option.bind v io_isAvailable) (mi_isAvailable doc)"
    "e = \<lparr>ei_id = k, ei_name = mi_name doc, ei_price = nullish (Option.bind v io_priceOverride) (mi_price doc)\<rparr>"
    by blast
  with Some show ?thesis by (intro exI [of _ doc]) (auto simp: location_sells_def)
qed

text \<open>Every loaded group is stored under its own id.\<close>

lemma effective_groups_keyed:
  assumes "effective_menu d md rid ids = (items, groups)"
  shows "distinct (map fst groups) \<and> (\<forall>(k, g) \<in> set groups. eg_id g = k)"
  using assms
  by (auto simp: effective_menu_alt load_groups_legacy_def load_groups_canonical_def Let_def
      dest!: js_map_memD split: option.splits)

lemma effective_items_distinct:
  assumes "effective_menu d md rid ids = (items, groups)"
  shows "distinct (map fst items) \<and> fst ` set items \<subseteq> set ids"
  using assms
  by (auto simp: effective_menu_alt load_items_legacy_def load_items_canonical_def Let_def
      dest!: js_map_memD split: option.splits)

text \<open>The size check: every requested item is in the map exactly when no lookup can fail.\<close>

lemma size_check:
  assumes "distinct (map fst items)" "fst ` set items \<subseteq> set ids"
  shows "length items = card (set ids) \<longleftrightarrow> (\<forall>k \<in> set ids. map_of items k \<noteq> None)"
proof -
  have len: "length items = card (fst ` set items)"
    using distinct_card [OF assms(1)] by simp
  have "length items = card (set ids) \<longleftrightarrow> fst ` set items = set ids"
    unfolding len using assms(2) by (metis List.finite_set card_subset_eq)
  also have "\<dots> \<longleftrightarrow> set ids \<subseteq> fst ` set items" using assms(2) by blast
  also have "\<dots> \<longleftrightarrow> (\<forall>k \<in> set ids. map_of items k \<noteq> None)" by (auto simp: map_of_eq_None_iff)
  finally show ?thesis .
qed

section \<open>The loops of one line\<close>

definition selection_ok :: "(oid \<times> pricing_group) list \<Rightarrow> oid \<Rightarrow> modifier_selection \<Rightarrow> bool" where
  "selection_ok groups item s \<longleftrightarrow>
     (\<exists>g. map_of groups (ms_groupId s) = Some g \<and> eg_menuItemId g = item)"

definition of_group :: "oid \<Rightarrow> modifier_selection list \<Rightarrow> modifier_selection list" where
  "of_group k ss = filter (\<lambda>s. ms_groupId s = k) ss"

lemma collect_selections_ok:
  "(\<exists>sel. collect_selections groups item ss acc = Inr sel) \<longleftrightarrow> (\<forall>s \<in> set ss. selection_ok groups item s)"
  by (induction ss arbitrary: acc) (auto simp: selection_ok_def split: option.splits)

lemma collect_selections_map:
  "collect_selections groups item ss acc = Inr sel \<Longrightarrow>
    map_of sel k = (if of_group k ss = [] then map_of acc k
      else Some ((case map_of acc k of None \<Rightarrow> [] | Some xs \<Rightarrow> xs) @ of_group k ss))"
proof (induction ss arbitrary: acc)
  case Nil
  then show ?case by (simp add: of_group_def)
next
  case (Cons s ss)
  let ?acc' = "AList.update (ms_groupId s)
    ((case map_of acc (ms_groupId s) of None \<Rightarrow> [] | Some xs \<Rightarrow> xs) @ [s]) acc"
  from Cons.prems have "collect_selections groups item ss ?acc' = Inr sel"
    by (auto split: option.splits if_splits)
  from Cons.IH [OF this] show ?case
    by (auto simp: of_group_def update_conv' split: option.splits)
qed

lemma collect_selections_distinct:
  "collect_selections groups item ss acc = Inr sel \<Longrightarrow> distinct (map fst acc) \<Longrightarrow> distinct (map fst sel)"
  by (induction ss arbitrary: acc) (auto split: option.splits if_splits simp: distinct_update)

lemma price_selections_ok:
  "(\<exists>ms. price_selections g ss = Inr ms) \<longleftrightarrow> (\<forall>s \<in> set ss. find_option g (ms_optionId s) \<noteq> None)"
  by (induction ss) (auto split: option.splits sum.splits)

lemma price_groups_ok:
  "(\<exists>ms. price_groups groups sel = Inr ms) \<longleftrightarrow>
    (\<forall>(k, ss) \<in> set sel. \<exists>g. map_of groups k = Some g \<and> eg_minSelect g \<le> int (length ss) \<and>
      int (length ss) \<le> eg_maxSelect g \<and> (\<forall>s \<in> set ss. find_option g (ms_optionId s) \<noteq> None))"
proof (induction sel)
  case (Cons p rest)
  obtain k ss where p: "p = (k, ss)" by (cases p)
  have "(\<exists>ms. price_groups groups ((k, ss) # rest) = Inr ms) \<longleftrightarrow>
    (\<exists>g. map_of groups k = Some g \<and> eg_minSelect g \<le> int (length ss) \<and>
      int (length ss) \<le> eg_maxSelect g \<and> (\<exists>ms. price_selections g ss = Inr ms)) \<and>
    (\<exists>ms. price_groups groups rest = Inr ms)"
    by (auto split: option.splits sum.splits)
  with Cons.IH show ?case unfolding p price_selections_ok by simp
qed simp

lemma collected:
  assumes "collect_selections groups item ss [] = Inr sel"
  shows "(k, xs) \<in> set sel \<longleftrightarrow> xs = of_group k ss \<and> xs \<noteq> []"
    and "map_of sel k = None \<longleftrightarrow> of_group k ss = []"
proof -
  have m: "map_of sel k = (if of_group k ss = [] then None else Some (of_group k ss))"
    using collect_selections_map [OF assms, of k] by simp
  have "distinct (map fst sel)" using collect_selections_distinct [OF assms] by simp
  then have "(k, xs) \<in> set sel \<longleftrightarrow> map_of sel k = Some xs" by simp
  with m show "(k, xs) \<in> set sel \<longleftrightarrow> xs = of_group k ss \<and> xs \<noteq> []" by auto
  from m show "map_of sel k = None \<longleftrightarrow> of_group k ss = []" by simp
qed

section \<open>Which lines are accepted\<close>

text \<open>A line is valid when each selection names an active option of a group of the item, and each
  group of the item gets an allowed number of selections.\<close>

definition group_count_ok :: "pricing_group \<Rightarrow> modifier_selection list \<Rightarrow> bool" where
  "group_count_ok g ss =
     (let n = int (length (of_group (eg_id g) ss)) in
      if n = 0 then eg_minSelect g \<le> 0 else eg_minSelect g \<le> n \<and> n \<le> eg_maxSelect g)"

definition option_ok :: "(oid \<times> pricing_group) list \<Rightarrow> oid \<Rightarrow> modifier_selection \<Rightarrow> bool" where
  "option_ok groups item s =
     (case map_of groups (ms_groupId s) of
        None \<Rightarrow> False
      | Some g \<Rightarrow> eg_menuItemId g = item \<and> find_option g (ms_optionId s) \<noteq> None)"

definition line_valid :: "(oid \<times> pricing_group) list \<Rightarrow> oid \<Rightarrow> modifier_selection list \<Rightarrow> bool" where
  "line_valid groups item ss =
     (list_all (option_ok groups item) ss \<and>
      list_all (\<lambda>(k, g). eg_menuItemId g = item \<longrightarrow> group_count_ok g ss) groups)"

lemma price_item_accepts:
  assumes keyed: "distinct (map fst groups)" "\<forall>(k, g) \<in> set groups. eg_id g = k"
    and item: "map_of items (ir_menuItemId ir) = Some mi"
  shows "(\<exists>p. price_item items groups ir = Inr p) \<longleftrightarrow>
    line_valid groups (ir_menuItemId ir) (ir_selectedModifiers ir)"
proof -
  let ?i = "ir_menuItemId ir" and ?ss = "ir_selectedModifiers ir"
  have look: "map_of groups k = Some g \<longleftrightarrow> (k, g) \<in> set groups" for k g using keyed(1) by simp
  have id: "(k, g) \<in> set groups \<Longrightarrow> eg_id g = k" for k g using keyed(2) by auto
  show ?thesis
  proof (cases "collect_selections groups ?i ?ss []")
    case (Inl e)
    then have "\<not> (\<forall>s \<in> set ?ss. selection_ok groups ?i s)"
      using collect_selections_ok [of groups ?i ?ss "[]"] by simp
    then have "\<not> line_valid groups ?i ?ss"
      by (force simp: line_valid_def option_ok_def selection_ok_def list_all_iff split: option.splits)
    with item Inl show ?thesis by (simp add: price_item_def)
  next
    case (Inr sel)
    have ok: "\<forall>s \<in> set ?ss. selection_ok groups ?i s"
      using Inr collect_selections_ok [of groups ?i ?ss "[]"] by blast
    have "(\<exists>p. price_item items groups ir = Inr p) \<longleftrightarrow>
      (\<exists>ms. price_groups groups sel = Inr ms) \<and> \<not> missing_required groups ?i sel"
      using item Inr by (auto simp: price_item_def Let_def split: sum.splits)
    also have "\<dots> \<longleftrightarrow> line_valid groups ?i ?ss" (is "?A \<and> ?B \<longleftrightarrow> _")
    proof
      assume AB: "?A \<and> ?B"
      then have A: "\<forall>(k, xs) \<in> set sel. \<exists>g. map_of groups k = Some g \<and> eg_minSelect g \<le> int (length xs) \<and>
          int (length xs) \<le> eg_maxSelect g \<and> (\<forall>s \<in> set xs. find_option g (ms_optionId s) \<noteq> None)"
        unfolding price_groups_ok by blast
      have opt: "option_ok groups ?i s" if s: "s \<in> set ?ss" for s
      proof -
        have "(ms_groupId s, of_group (ms_groupId s) ?ss) \<in> set sel" "s \<in> set (of_group (ms_groupId s) ?ss)"
          using s collected(1) [OF Inr] by (auto simp: of_group_def filter_empty_conv)
        with A ok s show ?thesis by (fastforce simp: option_ok_def selection_ok_def)
      qed
      have cnt: "group_count_ok g ?ss" if g: "(k, g) \<in> set groups" "eg_menuItemId g = ?i" for k g
      proof (cases "of_group k ?ss = []")
        case True
        with AB g id [OF g(1)] collected(2) [OF Inr, of k] show ?thesis
          by (force simp: missing_required_def list_ex_iff group_count_ok_def)
      next
        case False
        then have "(k, of_group k ?ss) \<in> set sel" using collected(1) [OF Inr] by simp
        with A look [of k g] g id [OF g(1)] False show ?thesis by (fastforce simp: group_count_ok_def Let_def)
      qed
      from opt cnt show "line_valid groups ?i ?ss" by (auto simp: line_valid_def list_all_iff)
    next
      assume v: "line_valid groups ?i ?ss"
      then have opt: "\<And>s. s \<in> set ?ss \<Longrightarrow> option_ok groups ?i s"
        and cnt: "\<And>k g. (k, g) \<in> set groups \<Longrightarrow> eg_menuItemId g = ?i \<Longrightarrow> group_count_ok g ?ss"
        by (auto simp: line_valid_def list_all_iff)
      have "\<exists>g. map_of groups k = Some g \<and> eg_minSelect g \<le> int (length xs) \<and>
          int (length xs) \<le> eg_maxSelect g \<and> (\<forall>s \<in> set xs. find_option g (ms_optionId s) \<noteq> None)"
        if kx: "(k, xs) \<in> set sel" for k xs
      proof -
        from kx have xs: "xs = of_group k ?ss" "xs \<noteq> []" using collected(1) [OF Inr] by auto
        then obtain s where s: "s \<in> set ?ss" "ms_groupId s = k"
          by (auto simp: of_group_def filter_empty_conv)
        with opt [OF s(1)] obtain g where g: "map_of groups k = Some g" "eg_menuItemId g = ?i"
          by (auto simp: option_ok_def split: option.splits)
        have "group_count_ok g ?ss" "eg_id g = k" using cnt look g id by auto
        moreover have "\<forall>s \<in> set xs. find_option g (ms_optionId s) \<noteq> None"
          using opt g xs by (fastforce simp: option_ok_def of_group_def)
        ultimately show ?thesis using g xs by (auto simp: group_count_ok_def Let_def)
      qed
      then have ?A unfolding price_groups_ok by blast
      moreover have ?B
        using cnt id collected(2) [OF Inr] by (force simp: missing_required_def list_ex_iff group_count_ok_def)
      ultimately show "?A \<and> ?B" ..
    qed
    finally show ?thesis .
  qed
qed

lemma price_items_Inr_iff:
  "price_items items groups irs = Inr ps \<longleftrightarrow> list_all2 (\<lambda>ir p. price_item items groups ir = Inr p) irs ps"
proof (induction irs arbitrary: ps)
  case Nil
  then show ?case by auto
next
  case (Cons ir irs)
  show ?case by (cases ps) (auto simp: Cons.IH [symmetric] split: sum.splits)
qed

lemma price_items_accepts:
  "(\<exists>ps. price_items items groups irs = Inr ps) \<longleftrightarrow> (\<forall>ir \<in> set irs. \<exists>p. price_item items groups ir = Inr p)"
  by (induction irs) (auto split: sum.splits)

text \<open>C23. Order pricing accepts exactly the valid requests: every line names an item that the location
  sells now, and its selections are active options of that item's groups in allowed numbers,
  required groups included.\<close>

theorem pricing_accepts_iff:
  assumes "effective_menu d md rid (map ir_menuItemId irs) = (items, groups)"
  shows "(\<exists>r. price_order_items d md rid irs = Inr r) \<longleftrightarrow>
    (\<forall>ir \<in> set irs. map_of items (ir_menuItemId ir) \<noteq> None \<and>
       line_valid groups (ir_menuItemId ir) (ir_selectedModifiers ir))"
proof -
  have keyed: "distinct (map fst groups)" "\<forall>(k, g) \<in> set groups. eg_id g = k"
    using effective_groups_keyed [OF assms] by auto
  have len: "length items = card (set (map ir_menuItemId irs)) \<longleftrightarrow>
      (\<forall>ir \<in> set irs. map_of items (ir_menuItemId ir) \<noteq> None)"
    using size_check [of items "map ir_menuItemId irs"] effective_items_distinct [OF assms] by simp
  have "(\<exists>r. price_order_items d md rid irs = Inr r) \<longleftrightarrow>
      length items = card (set (map ir_menuItemId irs)) \<and> (\<exists>ps. price_items items groups irs = Inr ps)"
    using assms by (auto simp: price_order_items_def Let_def split: sum.splits)
  also have "\<dots> \<longleftrightarrow> (\<forall>ir \<in> set irs. map_of items (ir_menuItemId ir) \<noteq> None \<and>
      (\<exists>p. price_item items groups ir = Inr p))"
    unfolding len price_items_accepts by blast
  also have "\<dots> \<longleftrightarrow> (\<forall>ir \<in> set irs. map_of items (ir_menuItemId ir) \<noteq> None \<and>
      line_valid groups (ir_menuItemId ir) (ir_selectedModifiers ir))"
    using price_item_accepts [OF keyed] by (metis not_None_eq)
  finally show ?thesis .
qed

section \<open>What an accepted request costs\<close>

definition group_override_at :: "menu_db \<Rightarrow> oid \<Rightarrow> oid \<Rightarrow> group_override option \<Rightarrow> bool" where
  "group_override_at md lid gid v =
     (case v of
        None \<Rightarrow> \<forall>w \<in> set (md_groupOverrides md). \<not> (go_locationId w = lid \<and> go_modifierGroupId w = gid)
      | Some w \<Rightarrow> w \<in> set (md_groupOverrides md) \<and> go_locationId w = lid \<and> go_modifierGroupId w = gid)"

definition option_override_of :: "group_override option \<Rightarrow> oid \<Rightarrow> option_override option" where
  "option_override_of v k = map_of (js_map (map (\<lambda>w. (oo_optionId w, w))
     (case v of None \<Rightarrow> [] | Some g \<Rightarrow> go_optionOverrides g))) k"

definition modifier_sold :: "db \<Rightarrow> menu_db \<Rightarrow> oid \<Rightarrow> oid \<Rightarrow> selected_modifier \<Rightarrow> bool" where
  "modifier_sold d md rid item m =
     (\<exists>doc \<in> set (md_groups md). \<exists>opt \<in> set (mg_options doc).
        mg_menuItemId doc = item \<and> sm_groupId m = mg_id doc \<and> sm_groupName m = mg_name doc \<and>
        sm_optionId m = mo_id opt \<and> sm_optionName m = mo_name opt \<and>
        (case canonical_business d md rid of
           None \<Rightarrow> mg_restaurantId doc = Some rid \<and> mg_isActive doc \<and> mo_isActive opt \<and>
             sm_priceAdjustment m = mo_priceAdjustment opt
         | Some bid \<Rightarrow> mg_businessId doc = Some bid \<and>
             (\<exists>v. group_override_at md rid (mg_id doc) v \<and>
                nullish (Option.bind v go_isActive) (mg_isActive doc) \<and>
                nullish (Option.bind (option_override_of v (mo_id opt)) oo_isActive) (mo_isActive opt) \<and>
                sm_priceAdjustment m =
                  nullish (Option.bind (option_override_of v (mo_id opt)) oo_priceAdjustmentOverride)
                    (mo_priceAdjustment opt))))"

lemma group_override_lookup:
  assumes "gid \<in> G"
  shows "group_override_at md lid gid
    (map_of (js_map (map (\<lambda>v. (go_modifierGroupId v, v))
      (filter (\<lambda>v. go_locationId v = lid \<and> go_modifierGroupId v \<in> G) (md_groupOverrides md)))) gid)"
    (is "group_override_at md lid gid (map_of (js_map ?ps) gid)")
proof (cases "map_of (js_map ?ps) gid")
  case None
  then have "gid \<notin> fst ` set ?ps" unfolding map_of_eq_None_iff keys_js_map .
  with assms None show ?thesis by (force simp: group_override_at_def)
next
  case (Some w)
  from map_of_js_map_SomeD [OF Some] Some show ?thesis by (auto simp: group_override_at_def)
qed

lemma group_option_sold:
  assumes eff: "effective_menu d md rid ids = (items, groups)"
    and g: "map_of groups k = Some g" "o' \<in> set (eg_options g)" "eo_isActive o'"
  shows "modifier_sold d md rid (eg_menuItemId g)
    \<lparr>sm_groupId = eg_id g, sm_groupName = eg_name g, sm_optionId = eo_id o',
     sm_optionName = eo_name o', sm_priceAdjustment = eo_priceAdjustment o'\<rparr>"
proof (cases "canonical_business d md rid")
  case None
  with eff g(1) have "(k, g) \<in> set (load_groups_legacy md rid ids)"
    by (auto simp: effective_menu_alt dest: map_of_SomeD)
  with g None show ?thesis
    by (fastforce simp: load_groups_legacy_def Let_def modifier_sold_def dest!: js_map_memD)
next
  case (Some bid)
  let ?docs = "filter (\<lambda>d. mg_menuItemId d \<in> set ids \<and> mg_businessId d = Some bid) (md_groups md)"
  let ?v = "map_of (js_map (map (\<lambda>v. (go_modifierGroupId v, v))
      (filter (\<lambda>v. go_locationId v = rid \<and> go_modifierGroupId v \<in> mg_id ` set ?docs) (md_groupOverrides md))))"
  from Some eff g(1) have "(k, g) \<in> set (load_groups_canonical md bid rid ids)"
    by (auto simp: effective_menu_alt dest: map_of_SomeD)
  then obtain doc where doc: "doc \<in> set ?docs" "nullish (Option.bind (?v (mg_id doc)) go_isActive) (mg_isActive doc)"
    and geq: "g = \<lparr>eg_id = mg_id doc, eg_menuItemId = mg_menuItemId doc, eg_name = mg_name doc,
            eg_minSelect = mg_minSelect doc, eg_maxSelect = mg_maxSelect doc,
            eg_options = map (\<lambda>o'. \<lparr>eo_id = mo_id o', eo_name = mo_name o',
            eo_priceAdjustment = nullish (Option.bind (option_override_of (?v (mg_id doc)) (mo_id o'))
              oo_priceAdjustmentOverride) (mo_priceAdjustment o'),
            eo_isActive = nullish (Option.bind (option_override_of (?v (mg_id doc)) (mo_id o')) oo_isActive)
              (mo_isActive o')\<rparr>) (mg_options doc)\<rparr>"
    by (auto simp: load_groups_canonical_def Let_def option_override_of_def dest!: js_map_memD)
  have "group_override_at md rid (mg_id doc) (?v (mg_id doc))"
    using doc(1) by (intro group_override_lookup) blast
  with doc g(2,3) Some show ?thesis
    by (auto simp: modifier_sold_def geq intro!: bexI [of _ doc] exI [of _ "?v (mg_id doc)"])
qed

text \<open>The selections an item keeps are those of its request, grouped.\<close>

abbreviation msel :: "modifier_selection \<Rightarrow> oid \<times> oid" where
  "msel s \<equiv> (ms_groupId s, ms_optionId s)"

abbreviation smod :: "selected_modifier \<Rightarrow> oid \<times> oid" where
  "smod m \<equiv> (sm_groupId m, sm_optionId m)"

lemma price_selections_pairs:
  "price_selections g ss = Inr ms \<Longrightarrow>
    map smod ms = map (\<lambda>s. (eg_id g, ms_optionId s)) ss \<and>
    (\<forall>m \<in> set ms. \<exists>o' \<in> set (eg_options g). eo_isActive o' \<and>
       m = \<lparr>sm_groupId = eg_id g, sm_groupName = eg_name g, sm_optionId = eo_id o',
            sm_optionName = eo_name o', sm_priceAdjustment = eo_priceAdjustment o'\<rparr>)"
proof (induction ss arbitrary: ms)
  case Nil
  then show ?case by simp
next
  case (Cons s ss)
  then obtain o' ms' where o': "find_option g (ms_optionId s) = Some o'"
    and ms': "price_selections g ss = Inr ms'"
    and ms: "ms = \<lparr>sm_groupId = eg_id g, sm_groupName = eg_name g, sm_optionId = eo_id o',
            sm_optionName = eo_name o', sm_priceAdjustment = eo_priceAdjustment o'\<rparr> # ms'"
    by (auto split: option.splits sum.splits)
  have "o' \<in> set (eg_options g) \<and> eo_id o' = ms_optionId s \<and> eo_isActive o'"
    using o' by (auto simp: find_option_def dest: find_one_SomeD)
  with Cons.IH [OF ms'] show ?case unfolding ms by auto
qed

lemma price_groups_sound:
  assumes keyed: "\<forall>(k, g) \<in> set groups. eg_id g = k"
    and eff: "effective_menu d md rid ids = (items, groups)"
  shows "price_groups groups sel = Inr ms \<Longrightarrow>
    (\<forall>(k, ss) \<in> set sel. \<forall>s \<in> set ss. ms_groupId s = k \<and> selection_ok groups item s) \<Longrightarrow>
    (\<forall>(k, ss) \<in> set sel. ss \<noteq> []) \<Longrightarrow>
    map smod ms = map msel (concat (map snd sel)) \<and> (\<forall>m \<in> set ms. modifier_sold d md rid item m)"
proof (induction sel arbitrary: ms)
  case Nil
  then show ?case by simp
next
  case (Cons p rest)
  obtain k ss where p: "p = (k, ss)" by (cases p)
  from Cons.prems(1) obtain g m1 m2 where g: "map_of groups k = Some g"
    and m1: "price_selections g ss = Inr m1" and m2: "price_groups groups rest = Inr m2" and ms: "ms = m1 @ m2"
    by (auto simp: p split: option.splits sum.splits if_splits)
  have gk: "eg_id g = k" using keyed g by (auto dest: map_of_SomeD)
  have gi: "eg_menuItemId g = item"
    using Cons.prems(2,3) g by (cases ss) (auto simp: p selection_ok_def)
  have "map smod m1 = map msel ss"
    using price_selections_pairs [OF m1] Cons.prems(2) by (auto simp: p gk)
  moreover have "\<forall>m \<in> set m1. modifier_sold d md rid item m"
    using price_selections_pairs [OF m1] group_option_sold [OF eff g] gi by metis
  moreover have "map smod m2 = map msel (concat (map snd rest)) \<and> (\<forall>m \<in> set m2. modifier_sold d md rid item m)"
    using Cons.IH [OF m2] Cons.prems(2,3) by auto
  ultimately show ?case by (auto simp: p ms)
qed

text \<open>Grouping keeps the selections as a multiset.\<close>

lemma mset_concat_update:
  assumes "distinct (map fst acc)"
  shows "mset (concat (map snd (AList.update k
      ((case map_of acc k of None \<Rightarrow> [] | Some xs \<Rightarrow> xs) @ [s]) acc))) =
    mset (concat (map snd acc)) + {#s#}"
  using assms
proof (induction acc)
  case (Cons a acc)
  then have "fst a \<noteq> k \<or> map_of acc k = None"
    by (auto simp: map_of_eq_None_iff)
  with Cons show ?case by (cases a) auto
qed simp

lemma collect_selections_mset:
  "collect_selections groups item ss acc = Inr sel \<Longrightarrow> distinct (map fst acc) \<Longrightarrow>
    mset (concat (map snd sel)) = mset (concat (map snd acc)) + mset ss"
proof (induction ss arbitrary: acc)
  case (Cons s ss)
  let ?acc' = "AList.update (ms_groupId s)
    ((case map_of acc (ms_groupId s) of None \<Rightarrow> [] | Some xs \<Rightarrow> xs) @ [s]) acc"
  from Cons.prems(1) have "collect_selections groups item ss ?acc' = Inr sel"
    by (auto split: option.splits if_splits)
  moreover have "distinct (map fst ?acc')" using Cons.prems(2) by (simp add: distinct_update)
  ultimately have "mset (concat (map snd sel)) = mset (concat (map snd ?acc')) + mset ss"
    by (rule Cons.IH)
  then show ?case unfolding mset_concat_update [OF Cons.prems(2)] by simp
qed simp

lemma foldl_sum: "foldl (\<lambda>s x. s + f x) (a :: rat) xs = a + sum_list (map f xs)"
  by (induction xs arbitrary: a) auto

text \<open>What one priced line is, given the request's line.\<close>

definition line_priced :: "db \<Rightarrow> menu_db \<Rightarrow> oid \<Rightarrow> item_request \<Rightarrow> order_item \<Rightarrow> bool" where
  "line_priced d md rid ir p =
     ((\<exists>doc. location_sells d md rid doc (oi_unitPrice p) \<and> mi_id doc = ir_menuItemId ir \<and>
         oi_menuItemId p = mi_id doc \<and> oi_name p = mi_name doc) \<and>
      oi_quantity p = ir_quantity ir \<and>
      mset (map smod (oi_selectedModifiers p)) = mset (map msel (ir_selectedModifiers ir)) \<and>
      (\<forall>m \<in> set (oi_selectedModifiers p). modifier_sold d md rid (ir_menuItemId ir) m) \<and>
      oi_lineTotal p =
        (oi_unitPrice p + sum_list (map sm_priceAdjustment (oi_selectedModifiers p))) * of_int (ir_quantity ir))"

lemma price_item_sound:
  assumes eff: "effective_menu d md rid ids = (items, groups)"
    and p: "price_item items groups ir = Inr p"
  shows "line_priced d md rid ir p"
proof -
  from p obtain mi sel ms where mi: "map_of items (ir_menuItemId ir) = Some mi"
    and sel: "collect_selections groups (ir_menuItemId ir) (ir_selectedModifiers ir) [] = Inr sel"
    and ms: "price_groups groups sel = Inr ms"
    and peq: "p = \<lparr>oi_menuItemId = ei_id mi, oi_name = ei_name mi, oi_unitPrice = ei_price mi,
                     oi_quantity = ir_quantity ir, oi_selectedModifiers = ms,
                     oi_lineTotal = (ei_price mi + sum_list (map sm_priceAdjustment ms)) * of_int (ir_quantity ir),
                     oi_specialInstructions = ir_specialInstructions ir\<rparr>"
    by (auto simp: price_item_def Let_def foldl_sum split: option.splits sum.splits if_splits)
  have ok: "\<forall>s \<in> set (ir_selectedModifiers ir). selection_ok groups (ir_menuItemId ir) s"
    using sel collect_selections_ok [of groups "ir_menuItemId ir" "ir_selectedModifiers ir" "[]"] by blast
  have "map smod ms = map msel (concat (map snd sel)) \<and>
      (\<forall>m \<in> set ms. modifier_sold d md rid (ir_menuItemId ir) m)"
  proof (rule price_groups_sound [OF _ eff ms])
    show "\<forall>(k, g) \<in> set groups. eg_id g = k" using effective_groups_keyed [OF eff] by auto
    show "\<forall>(k, ss) \<in> set sel. \<forall>s \<in> set ss. ms_groupId s = k \<and> selection_ok groups (ir_menuItemId ir) s"
      using collected(1) [OF sel] ok by (auto simp: of_group_def)
    show "\<forall>(k, ss) \<in> set sel. ss \<noteq> []" using collected(1) [OF sel] by auto
  qed
  moreover have "mset (concat (map snd sel)) = mset (ir_selectedModifiers ir)"
    using collect_selections_mset [OF sel] by simp
  ultimately show ?thesis
    using effective_item_sold [OF eff mi] by (auto simp: line_priced_def peq)
qed

text \<open>C24. An accepted order is priced from the menu: each line carries the name and the price the
  location sells the item at, exactly the requested modifiers at the prices the location sells them
  at, the line total is (unit price + adjustments) times quantity, and the subtotal is the sum.\<close>

theorem priced_from_menu:
  assumes "price_order_items d md rid irs = Inr (ps, subtotal)"
  shows "list_all2 (line_priced d md rid) irs ps \<and> subtotal = sum_list (map oi_lineTotal ps)"
proof -
  obtain items groups where eff: "effective_menu d md rid (map ir_menuItemId irs) = (items, groups)"
    by (cases "effective_menu d md rid (map ir_menuItemId irs)")
  from assms eff have ps: "price_items items groups irs = Inr ps" "subtotal = sum_list (map oi_lineTotal ps)"
    by (auto simp: price_order_items_def Let_def foldl_sum split: sum.splits if_splits)
  from ps(1) have "list_all2 (line_priced d md rid) irs ps"
    unfolding price_items_Inr_iff by (rule list_all2_mono) (rule price_item_sound [OF eff])
  with ps(2) show ?thesis by simp
qed

section \<open>A sample menu\<close>

text \<open>One business with a canonical menu and a location that raises the price of its only item.\<close>

definition sample_menu :: menu_db where
  "sample_menu =
     \<lparr>md_items = [\<lparr>mi_id = ''m1'', mi_restaurantId = None, mi_businessId = Some ''b1'', mi_categoryId = ''c1'',
        mi_name = ''Pizza'', mi_price = 8, mi_isAvailable = True, mi_sortOrder = 0,
        mi_clonedFrom = None\<rparr>],
      md_groups = [\<lparr>mg_id = ''g1'', mg_restaurantId = None, mg_businessId = Some ''b1'', mg_menuItemId = ''m1'',
        mg_name = ''Size'', mg_minSelect = 1, mg_maxSelect = 1, mg_isActive = True, mg_sortOrder = 0,
        mg_options = [\<lparr>mo_id = ''o1'', mo_name = ''Large'', mo_priceAdjustment = 2, mo_isActive = True,
          mo_sortOrder = 0\<rparr>], mg_clonedFrom = None\<rparr>],
      md_itemOverrides = [\<lparr>io_locationId = ''r1'', io_menuItemId = ''m1'', io_isAvailable = None,
        io_priceOverride = Some 9, io_sortOrderOverride = None\<rparr>],
      md_groupOverrides = []\<rparr>"

definition sample_request :: item_request where
  "sample_request = \<lparr>ir_menuItemId = ''m1'', ir_quantity = 2,
     ir_selectedModifiers = [\<lparr>ms_groupId = ''g1'', ms_optionId = ''o1''\<rparr>], ir_specialInstructions = None\<rparr>"

definition sample_line :: order_item where
  "sample_line = \<lparr>oi_menuItemId = ''m1'', oi_name = ''Pizza'', oi_unitPrice = 9, oi_quantity = 2,
     oi_selectedModifiers = [\<lparr>sm_groupId = ''g1'', sm_groupName = ''Size'', sm_optionId = ''o1'',
       sm_optionName = ''Large'', sm_priceAdjustment = 2\<rparr>],
     oi_lineTotal = 22, oi_specialInstructions = None\<rparr>"

lemmas sample_menu_defs = sample_defs sample_menu_def sample_request_def sample_line_def

lemma sample_effective:
  "effective_menu sample_db sample_menu ''r1'' [''m1''] =
     ([(''m1'', \<lparr>ei_id = ''m1'', ei_name = ''Pizza'', ei_price = 9\<rparr>)],
      [(''g1'', \<lparr>eg_id = ''g1'', eg_menuItemId = ''m1'', eg_name = ''Size'', eg_minSelect = 1, eg_maxSelect = 1,
         eg_options = [\<lparr>eo_id = ''o1'', eo_name = ''Large'', eo_priceAdjustment = 2, eo_isActive = True\<rparr>]\<rparr>)])"
  by (simp add: effective_menu_def find_restaurant_def business_has_canonical_menu_def
      load_items_canonical_def load_groups_canonical_def js_map_def sample_menu_defs)

lemma sample_priced:
  "price_order_items sample_db sample_menu ''r1'' [sample_request] = Inr ([sample_line], 22)"
  using sample_effective
  by (simp add: price_order_items_def price_item_def missing_required_def find_option_def
      sample_request_def sample_line_def)

theorem pricing_accepts_iff_witness:
  "(\<exists>r. price_order_items sample_db sample_menu ''r1'' [sample_request] = Inr r)"
  using pricing_accepts_iff [where irs = "[sample_request]" and rid = "''r1''" and d = sample_db
        and md = sample_menu] sample_effective
  by (simp add: sample_request_def line_valid_def option_ok_def group_count_ok_def
      of_group_def find_option_def)

theorem priced_from_menu_witness:
  "list_all2 (line_priced sample_db sample_menu ''r1'') [sample_request] [sample_line] \<and>
    22 = sum_list (map oi_lineTotal [sample_line])"
  by (rule priced_from_menu [OF sample_priced])

end
