(* ===== verification/Business_Hours.thy ===== *)
theory Business_Hours
  imports Domain
begin

text \<open>
  \<open>services/businessHours.service.ts\<close> and \<open>services/restaurantAvailability.service.ts\<close>.

  The time-zone database is a parameter: \<open>off tz t\<close> is the UTC offset in minutes that holds in
  zone \<open>tz\<close> at instant \<open>t\<close> (what \<open>Intl.DateTimeFormat\<close> reports). A calendar date is the number
  of its day since 1970-01-01, so that \<open>Date.UTC(year, month - 1, day + k)\<close> is an addition. The
  formatter caches are not state anything observes.
\<close>

section \<open>Definitions\<close>

definition weekdays :: "weekday list" where
  "weekdays = [Sunday, Monday, Tuesday, Wednesday, Thursday, Friday, Saturday]"

fun weekday_index :: "weekday \<Rightarrow> int" where
  "weekday_index Sunday = 0"
| "weekday_index Monday = 1"
| "weekday_index Tuesday = 2"
| "weekday_index Wednesday = 3"
| "weekday_index Thursday = 4"
| "weekday_index Friday = 5"
| "weekday_index Saturday = 6"

definition weekday_at :: "int \<Rightarrow> weekday" where
  "weekday_at i = weekdays ! nat (i mod 7)"

text \<open>\<open>getUTCDay\<close> of a calendar date: 1970-01-01 was a Thursday.\<close>

definition utc_day :: "int \<Rightarrow> weekday" where
  "utc_day day = weekday_at (day + 4)"

record local_parts =
  lp_day :: int
  lp_weekday :: weekday
  lp_hour :: int
  lp_minute :: int

definition get_local_parts :: "(string \<Rightarrow> time \<Rightarrow> int) \<Rightarrow> time \<Rightarrow> string \<Rightarrow> local_parts" where
  "get_local_parts off instant tz =
     (let m = instant div 60000 + off tz instant in
      \<lparr>lp_day = m div 1440, lp_weekday = utc_day (m div 1440),
       lp_hour = m mod 1440 div 60, lp_minute = m mod 60\<rparr>)"

definition zoned_time_to_utc ::
  "(string \<Rightarrow> time \<Rightarrow> int) \<Rightarrow> int \<Rightarrow> int \<Rightarrow> int \<Rightarrow> string \<Rightarrow> time" where
  "zoned_time_to_utc off day hour minute tz =
     (let naive = day * 86400000 + (hour * 60 + minute) * 60000;
          guess1 = naive - off tz naive * 60000;
          guess2 = naive - off tz guess1 * 60000
      in guess2)"

text \<open>\<open>hhmm.split(":").map(Number)\<close> on the \<open>HH:mm\<close> strings the request schema admits.\<close>

definition digit_value :: "char \<Rightarrow> int" where
  "digit_value c = of_char c - 48"

definition js_number :: "string \<Rightarrow> int" where
  "js_number s = foldl (\<lambda>n c. n * 10 + digit_value c) 0 s"

definition to_minutes :: "string \<Rightarrow> int" where
  "to_minutes hhmm =
     (let h = takeWhile (\<lambda>c. c \<noteq> CHR '':'') hhmm;
          m = takeWhile (\<lambda>c. c \<noteq> CHR '':'') (drop (length h + 1) hhmm)
      in js_number h * 60 + js_number m)"

definition day_by_name :: "hours_day list \<Rightarrow> weekday \<Rightarrow> hours_day option" where
  "day_by_name hs day = find_one (\<lambda>d. hd_day d = day) hs"

definition previous_weekday :: "weekday \<Rightarrow> weekday" where
  "previous_weekday day = weekday_at (weekday_index day + 6)"

fun is_within_todays_period :: "hours_day option \<Rightarrow> int \<Rightarrow> bool" where
  "is_within_todays_period None now_minutes = False"
| "is_within_todays_period (Some d) now_minutes =
     (if hd_isClosed d \<or> \<not> truthy_string (hd_open d) \<or> \<not> truthy_string (hd_close d) then False
      else let open = to_minutes (the (hd_open d)); close = to_minutes (the (hd_close d)) in
        if close > open then open \<le> now_minutes \<and> now_minutes < close
        else now_minutes \<ge> open)"

fun is_within_yesterdays_overnight_tail :: "hours_day option \<Rightarrow> int \<Rightarrow> bool" where
  "is_within_yesterdays_overnight_tail None now_minutes = False"
| "is_within_yesterdays_overnight_tail (Some d) now_minutes =
     (if hd_isClosed d \<or> \<not> truthy_string (hd_open d) \<or> \<not> truthy_string (hd_close d) then False
      else let open = to_minutes (the (hd_open d)); close = to_minutes (the (hd_close d)) in
        if close > open then False else now_minutes < close)"

definition is_within_business_hours ::
  "(string \<Rightarrow> time \<Rightarrow> int) \<Rightarrow> hours_day list \<Rightarrow> string \<Rightarrow> time \<Rightarrow> bool" where
  "is_within_business_hours off hs tz now =
     (if hs = [] then True
      else let loc = get_local_parts off now tz;
               now_minutes = lp_hour loc * 60 + lp_minute loc;
               today = day_by_name hs (lp_weekday loc);
               yesterday = day_by_name hs (previous_weekday (lp_weekday loc))
        in is_within_todays_period today now_minutes \<or>
           is_within_yesterdays_overnight_tail yesterday now_minutes)"

text \<open>The loop of \<open>getNextOpenAt\<close> over the day offsets still to try.\<close>

fun next_open_loop ::
  "(string \<Rightarrow> time \<Rightarrow> int) \<Rightarrow> hours_day list \<Rightarrow> string \<Rightarrow> int \<Rightarrow> int \<Rightarrow> int list \<Rightarrow> time option" where
  "next_open_loop off hs tz day0 now_minutes [] = None"
| "next_open_loop off hs tz day0 now_minutes (k # ks) =
     (case day_by_name hs (utc_day (day0 + k)) of
        None \<Rightarrow> next_open_loop off hs tz day0 now_minutes ks
      | Some d \<Rightarrow>
          if hd_isClosed d \<or> \<not> truthy_string (hd_open d)
          then next_open_loop off hs tz day0 now_minutes ks
          else let open_minutes = to_minutes (the (hd_open d)) in
            if k = 0 \<and> open_minutes \<le> now_minutes
            then next_open_loop off hs tz day0 now_minutes ks
            else Some (zoned_time_to_utc off (day0 + k) (open_minutes div 60) (open_minutes mod 60) tz))"

definition get_next_open_at ::
  "(string \<Rightarrow> time \<Rightarrow> int) \<Rightarrow> hours_day list \<Rightarrow> string \<Rightarrow> time \<Rightarrow> time option" where
  "get_next_open_at off hs tz now =
     (if hs = [] then None
      else if is_within_business_hours off hs tz now then None
      else let loc = get_local_parts off now tz;
               now_minutes = lp_hour loc * 60 + lp_minute loc
        in next_open_loop off hs tz (lp_day loc) now_minutes [0, 1, 2, 3, 4, 5, 6, 7])"

datatype availability =
    Open
  | Paused "string option"
  | Closed "string option" "time option"

definition compute_availability ::
  "(string \<Rightarrow> time \<Rightarrow> int) \<Rightarrow> restaurant_settings \<Rightarrow> time \<Rightarrow> availability" where
  "compute_availability off st now =
     (if \<not> rs_orderingEnabled st then Closed None None
      else if rs_temporarilyPaused st then Paused (rs_pausedReason st)
      else if \<not> is_within_business_hours off (rs_businessHours st) (rs_timezone st) now
      then Closed (Some ''Outside business hours'')
             (get_next_open_at off (rs_businessHours st) (rs_timezone st) now)
      else Open)"

section \<open>The calendar of one fixed offset\<close>

lemma weekday_index_at [simp]: "weekday_index (weekday_at i) = i mod 7"
proof -
  have "i mod 7 \<in> {0, 1, 2, 3, 4, 5, 6}" by auto
  then show ?thesis by (auto simp: weekday_at_def weekdays_def)
qed

lemma previous_utc_day [simp]: "previous_weekday (utc_day d) = utc_day (d - 1)"
proof -
  have "((d + 4) mod 7 + 6) mod 7 = (d - 1 + 4) mod 7" by presburger
  then have "weekday_at ((d + 4) mod 7 + 6) = weekday_at (d - 1 + 4)"
    by (simp only: weekday_at_def)
  then show ?thesis by (simp only: previous_weekday_def utc_day_def weekday_index_at)
qed

lemma utc_day_plus_7 [simp]: "utc_day (d + 7) = utc_day d"
proof -
  have "(d + 7 + 4) mod 7 = (d + 4) mod 7" by presburger
  then show ?thesis by (simp add: utc_day_def weekday_at_def)
qed

text \<open>A weekday that opens, with the minute it opens; and whether one local minute is within hours.\<close>

definition opens :: "hours_day list \<Rightarrow> weekday \<Rightarrow> int option" where
  "opens hs w = (case day_by_name hs w of
      None \<Rightarrow> None
    | Some d \<Rightarrow> if hd_isClosed d \<or> \<not> truthy_string (hd_open d) then None
               else Some (to_minutes (the (hd_open d))))"












section \<open>The next opening\<close>


text \<open>A day the loop passes over: it does not open, or it is today and its opening has passed.\<close>

definition skipped :: "hours_day list \<Rightarrow> int \<Rightarrow> int \<Rightarrow> int \<Rightarrow> bool" where
  "skipped hs day0 m0 k \<longleftrightarrow>
     (case opens hs (utc_day (day0 + k)) of None \<Rightarrow> True | Some n \<Rightarrow> k = 0 \<and> n \<le> m0)"

lemma next_open_loop_unfold:
  "next_open_loop off hs tz day0 m0 (k # ks) =
     (if skipped hs day0 m0 k then next_open_loop off hs tz day0 m0 ks
      else let n = the (opens hs (utc_day (day0 + k)))
        in Some (zoned_time_to_utc off (day0 + k) (n div 60) (n mod 60) tz))"
  by (auto simp: skipped_def opens_def Let_def split: option.splits)


lemma next_open_loop_None_iff:
  "next_open_loop off hs tz day0 m0 ks = None \<longleftrightarrow> (\<forall>k \<in> set ks. skipped hs day0 m0 k)"
  by (induction ks) (auto simp: next_open_loop_unfold Let_def simp del: next_open_loop.simps(2))










lemma weekday_in_week: "\<exists>k \<in> {0, 1, 2, 3, 4, 5, 6}. utc_day (day0 + k) = w"
proof -
  define k where "k = (weekday_index w - (day0 + 4)) mod 7"
  have "((day0 + 4) + (weekday_index w - (day0 + 4)) mod 7) mod 7 = weekday_index w mod 7"
    by (simp only: mod_add_right_eq) simp
  then have "(day0 + k + 4) mod 7 = weekday_index w mod 7" by (simp add: k_def algebra_simps)
  then have "utc_day (day0 + k) = weekday_at (weekday_index w)"
    by (simp only: utc_day_def weekday_at_def)
  moreover have "weekday_at (weekday_index w) = w" by (cases w) (simp_all add: weekday_at_def weekdays_def)
  moreover have "k \<in> {0, 1, 2, 3, 4, 5, 6}" unfolding k_def by auto
  ultimately show ?thesis by auto
qed

text \<open>C39. Completeness of the search: no next opening is reported exactly when there is nothing to
  report, that is, when no hours are configured, when the restaurant is within its hours now, or
  when no day of the week opens.\<close>

theorem next_open_at_none_iff:
  "get_next_open_at off hs tz now = None \<longleftrightarrow>
    hs = [] \<or> is_within_business_hours off hs tz now \<or> (\<forall>w. opens hs w = None)"
proof -
  define loc where "loc = get_local_parts off now tz"
  define m0 where "m0 = lp_hour loc * 60 + lp_minute loc"
  have "(\<forall>k \<in> set [0, 1, 2, 3, 4, 5, 6, 7]. skipped hs (lp_day loc) m0 k) \<longleftrightarrow> (\<forall>w. opens hs w = None)"
  proof
    assume skip: "\<forall>k \<in> set [0, 1, 2, 3, 4, 5, 6, 7]. skipped hs (lp_day loc) m0 k"
    show "\<forall>w. opens hs w = None"
    proof
      fix w
      obtain k where k: "k \<in> {0, 1, 2, 3, 4, 5, 6}" "utc_day (lp_day loc + k) = w"
        using weekday_in_week [of "lp_day loc" w] by blast
      define k' where "k' = (if k = 0 then 7 else k)"
      have "utc_day (lp_day loc + k') = w" "k' \<noteq> 0" "k' \<in> set [0, 1, 2, 3, 4, 5, 6, 7]"
        using k by (auto simp: k'_def)
      with skip show "opens hs w = None" by (auto simp: skipped_def split: option.splits)
    qed
  qed (simp add: skipped_def)
  then show ?thesis
    by (auto simp: get_next_open_at_def Let_def loc_def m0_def next_open_loop_None_iff
        simp del: next_open_loop.simps)
qed


lemma digit_values [simp]:
  "digit_value CHR ''0'' = 0" "digit_value CHR ''1'' = 1" "digit_value CHR ''2'' = 2"
  "digit_value CHR ''8'' = 8"
  by (simp_all add: digit_value_def)

lemma sample_minutes [simp]: "to_minutes ''18:00'' = 1080" "to_minutes ''02:00'' = 120"
  by (simp_all add: to_minutes_def js_number_def)




end
