(* ===== verification/Promotion.thy ===== *)
theory Promotion
  imports Samples
begin

text \<open>
  \<open>services/promotion.service.ts\<close>: whether a promo code applies at a location and what it is
  worth (\<open>validatePromoCode\<close>), and the guarded increment of its usage counter
  (\<open>recordPromoUsage\<close>), an interpretation of \<open>guarded_counter\<close>.
\<close>

section \<open>The service\<close>

definition promotion_matches :: "oid \<Rightarrow> oid option \<Rightarrow> string \<Rightarrow> promotion \<Rightarrow> bool" where
  "promotion_matches rid bid code p \<longleftrightarrow>
     pr_code p = code \<and>
     (pr_restaurantId p = Some rid \<or>
      (bid \<noteq> None \<and> pr_businessId p = bid \<and> rid \<in> set (pr_locationIds p)))"

definition promo_discount :: "promotion \<Rightarrow> money \<Rightarrow> money" where
  "promo_discount p subtotal =
     (case pr_type p of
        Percentage \<Rightarrow> round_currency (subtotal * (pr_value p / 100))
      | Fixed \<Rightarrow> min (pr_value p) subtotal)"

definition validate_promo_code ::
  "time \<Rightarrow> oid \<Rightarrow> string \<Rightarrow> money \<Rightarrow> oid option \<Rightarrow> db \<Rightarrow> (promotion \<times> money) result" where
  "validate_promo_code now rid raw subtotal bid d =
     (let code = js_upper (js_trim raw) in
      case find_one (promotion_matches rid bid code) (db_promotions d) of
        None \<Rightarrow> Inl (Bad_Request ''Invalid promo code'')
      | Some p \<Rightarrow>
          if \<not> pr_isActive p then Inl (Bad_Request ''promo code is no longer active'')
          else if (case pr_startDate p of None \<Rightarrow> False | Some t \<Rightarrow> now < t)
          then Inl (Bad_Request ''promo code is not active yet'')
          else if (case pr_endDate p of None \<Rightarrow> False | Some t \<Rightarrow> now > t)
          then Inl (Bad_Request ''promo code has expired'')
          else if (case pr_usageLimit p of None \<Rightarrow> False | Some l \<Rightarrow> pr_usageCount p \<ge> l)
          then Inl (Bad_Request ''promo code has reached its usage limit'')
          else if subtotal < pr_minOrderAmount p
          then Inl (Bad_Request ''promo code requires a minimum order'')
          else Inr (p, promo_discount p subtotal))"

text \<open>The filter is the guard: a missing limit, or a count below it.\<close>

definition below_limit :: "promotion \<Rightarrow> bool" where
  "below_limit p = (case pr_usageLimit p of None \<Rightarrow> True | Some l \<Rightarrow> pr_usageCount p < l)"

definition record_promo_usage :: "oid \<Rightarrow> db \<Rightarrow> bool \<times> db" where
  "record_promo_usage pid d =
     (let q = (\<lambda>p. pr_id p = pid \<and> below_limit p) in
      (find_one q (db_promotions d) \<noteq> None,
       d\<lparr>db_promotions := update_one q (\<lambda>p. p\<lparr>pr_usageCount := pr_usageCount p + 1\<rparr>) (db_promotions d)\<rparr>))"

section \<open>What a code is worth\<close>

lemma promo_discount_nonneg:
  "0 \<le> pr_value p \<Longrightarrow> 0 \<le> subtotal \<Longrightarrow> 0 \<le> promo_discount p subtotal"
  by (cases "pr_type p") (auto simp: promo_discount_def intro!: round_currency_nonneg)

lemma promo_discount_le:
  assumes "0 \<le> pr_value p" "0 \<le> subtotal" "whole_cents subtotal" "pr_type p = Percentage \<Longrightarrow> pr_value p \<le> 100"
  shows "promo_discount p subtotal \<le> subtotal"
proof (cases "pr_type p")
  case Percentage
  with assms have "subtotal * (pr_value p / 100) \<le> subtotal" by (simp add: mult_left_mono)
  from round_currency_mono [OF this] Percentage assms(3) show ?thesis
    by (simp add: promo_discount_def whole_cents_def)
qed (simp add: promo_discount_def)

text \<open>The conditions of an accepted code.\<close>

definition promo_usable :: "time \<Rightarrow> money \<Rightarrow> promotion \<Rightarrow> bool" where
  "promo_usable now subtotal p \<longleftrightarrow>
     pr_isActive p \<and> (\<forall>t. pr_startDate p = Some t \<longrightarrow> t \<le> now) \<and> (\<forall>t. pr_endDate p = Some t \<longrightarrow> now \<le> t) \<and>
     below_limit p \<and> pr_minOrderAmount p \<le> subtotal"

lemma validate_promo_code_Inr_iff:
  "validate_promo_code now rid raw subtotal bid d = Inr (p, disc) \<longleftrightarrow>
    find_one (promotion_matches rid bid (js_upper (js_trim raw))) (db_promotions d) = Some p \<and>
    promo_usable now subtotal p \<and> disc = promo_discount p subtotal"
  by (auto simp: validate_promo_code_def promo_usable_def below_limit_def Let_def
      split: option.splits if_splits)

text \<open>A code of one business is usable at exactly the locations it lists: a promotion found at a
  location is that location's own or lists it.\<close>

theorem validate_promo_sound:
  assumes "validate_promo_code now rid raw subtotal bid d = Inr (p, disc)"
    and "0 \<le> pr_value p" "0 \<le> subtotal" "whole_cents subtotal"
    and "pr_type p = Percentage \<Longrightarrow> pr_value p \<le> 100"
  shows "p \<in> set (db_promotions d) \<and> pr_code p = js_upper (js_trim raw) \<and>
    (pr_restaurantId p = Some rid \<or> (pr_businessId p = bid \<and> bid \<noteq> None \<and> rid \<in> set (pr_locationIds p))) \<and>
    promo_usable now subtotal p \<and> 0 \<le> disc \<and> disc \<le> subtotal"
  using assms promo_discount_nonneg [OF assms(2,3)] promo_discount_le [OF assms(2-5)]
  by (auto simp: validate_promo_code_Inr_iff promotion_matches_def dest!: find_one_SomeD)

section \<open>The usage limit\<close>

definition promotions_distinct :: "db \<Rightarrow> bool" where
  "promotions_distinct d \<longleftrightarrow> distinct (map pr_id (db_promotions d))"

definition promo_by_id :: "oid \<Rightarrow> db \<Rightarrow> promotion option" where
  "promo_by_id pid d = find_one (\<lambda>p. pr_id p = pid) (db_promotions d)"

text \<open>One attempt to use the promotion; a promotion that does not exist counts as one of limit 0.\<close>

definition promo_bump :: "oid \<Rightarrow> db \<Rightarrow> db option" where
  "promo_bump pid d = (let (ok, d') = record_promo_usage pid d in if ok then Some d' else None)"

definition promo_count :: "oid \<Rightarrow> db \<Rightarrow> int" where
  "promo_count pid d = (case promo_by_id pid d of None \<Rightarrow> 0 | Some p \<Rightarrow> pr_usageCount p)"

definition promo_cap :: "oid \<Rightarrow> db \<Rightarrow> int option" where
  "promo_cap pid d = (case promo_by_id pid d of None \<Rightarrow> Some 0 | Some p \<Rightarrow> pr_usageLimit p)"

lemma promo_bump_Some:
  assumes "promotions_distinct d" "promo_bump pid d = Some d'"
  shows "\<exists>p. promo_by_id pid d = Some p \<and> below_limit p \<and>
    promo_by_id pid d' = Some (p\<lparr>pr_usageCount := pr_usageCount p + 1\<rparr>) \<and> promotions_distinct d'"
proof -
  from assms obtain p where f: "find_one (\<lambda>p. pr_id p = pid \<and> below_limit p) (db_promotions d) = Some p"
    and d': "d' = d\<lparr>db_promotions := update_one (\<lambda>p. pr_id p = pid \<and> below_limit p)
      (\<lambda>p. p\<lparr>pr_usageCount := pr_usageCount p + 1\<rparr>) (db_promotions d)\<rparr>"
    by (auto simp: promo_bump_def record_promo_usage_def Let_def split: if_splits)
  have p: "promo_by_id pid d = Some p" "below_limit p" "pr_id p = pid"
    using f find_guarded [of pr_id "db_promotions d" pid below_limit] assms(1) find_one_SomeD [OF f]
    by (auto simp: promotions_distinct_def promo_by_id_def split: option.splits if_splits)
  then show ?thesis using assms(1) f
    by (auto simp: d' promotions_distinct_def promo_by_id_def update_guarded map_update_one
        intro!: find_id_update_same)
qed

lemma promo_bump_None:
  assumes "promotions_distinct d" "promo_bump pid d = None"
  shows "\<forall>p. promo_by_id pid d = Some p \<longrightarrow> \<not> below_limit p"
  using assms find_guarded [of pr_id "db_promotions d" pid below_limit]
  by (auto simp: promo_bump_def record_promo_usage_def Let_def promotions_distinct_def promo_by_id_def
      split: if_splits)

interpretation promo_usage: guarded_counter promotions_distinct "promo_bump pid" "promo_count pid" "promo_cap pid"
  for pid
proof unfold_locales
  fix d d' :: db
  assume d: "promotions_distinct d"
  { assume "promo_bump pid d = Some d'"
    from promo_bump_Some [OF d this] obtain p where p: "promo_by_id pid d = Some p" "below_limit p"
      "promo_by_id pid d' = Some (p\<lparr>pr_usageCount := pr_usageCount p + 1\<rparr>)" "promotions_distinct d'" by blast
    then show "promotions_distinct d'" "promo_count pid d' = promo_count pid d + 1" "promo_cap pid d' = promo_cap pid d"
      by (simp_all add: promo_count_def promo_cap_def)
    fix c
    assume "promo_cap pid d = Some c"
    with p show "promo_count pid d < c" by (simp add: promo_count_def promo_cap_def below_limit_def) }
  { assume "promo_bump pid d = None"
    from promo_bump_None [OF d this] show "\<exists>c. promo_cap pid d = Some c \<and> c \<le> promo_count pid d"
      by (cases "promo_by_id pid d")
        (auto simp: promo_count_def promo_cap_def below_limit_def split: option.splits) }
qed

text \<open>C35. However many orders try to use a promotion, its usages never pass its limit, and no usage
  below the limit is refused: of \<open>n\<close> attempts exactly \<open>min (limit - count) n\<close> succeed.\<close>

theorem promo_never_oversubscribed:
  assumes "promotions_distinct d" "promo_by_id pid d = Some p" "pr_usageLimit p = Some l" "pr_usageCount p \<le> l"
  shows "promo_count pid (attempts (promo_bump pid) n d) = min l (pr_usageCount p + int n) \<and>
    int (successes (promo_bump pid) n d) = min (l - pr_usageCount p) (int n)"
  using promo_usage.attempts_limited [of d pid l n] assms by (simp add: promo_count_def promo_cap_def)

section \<open>A sample promotion\<close>

definition sample_promo :: promotion where
  "sample_promo = \<lparr>pr_id = ''p1'', pr_restaurantId = None, pr_businessId = Some ''b1'', pr_locationIds = [''r1''],
     pr_code = ''SAVE'', pr_type = Percentage, pr_value = 15, pr_minOrderAmount = 10, pr_isActive = True,
     pr_startDate = None, pr_endDate = Some 100, pr_usageLimit = Some 2, pr_usageCount = 1\<rparr>"

lemma sample_validated:
  "validate_promo_code 5 ''r1'' '' save '' 20 (Some ''b1'') (sample_db\<lparr>db_promotions := [sample_promo]\<rparr>) =
    Inr (sample_promo, 3)"
proof -
  have "js_upper (js_trim '' save '') = ''SAVE''" by code_simp
  moreover have "promo_discount sample_promo 20 = 3" by code_simp
  ultimately show ?thesis
    by (simp add: validate_promo_code_Inr_iff promotion_matches_def promo_usable_def below_limit_def)
      (simp add: sample_promo_def)
qed

theorem validate_promo_sound_witness:
  "promo_usable 5 20 sample_promo \<and> (0 :: money) \<le> 3 \<and> (3 :: money) \<le> 20"
proof -
  have "whole_cents 20" unfolding whole_cents_iff by (rule exI [of _ 2000]) simp
  moreover have "0 \<le> pr_value sample_promo" "pr_value sample_promo \<le> 100" by (simp_all add: sample_promo_def)
  ultimately show ?thesis using validate_promo_sound [OF sample_validated] by simp
qed

theorem promo_never_oversubscribed_witness:
  "promo_count ''p1'' (attempts (promo_bump ''p1'') 5 (sample_db\<lparr>db_promotions := [sample_promo]\<rparr>)) = 2"
  using promo_never_oversubscribed [of "sample_db\<lparr>db_promotions := [sample_promo]\<rparr>" "''p1''" sample_promo 2 5]
  by (simp add: promotions_distinct_def promo_by_id_def sample_promo_def)

end
