(* ===== verification/Loyalty.thy ===== *)
theory Loyalty
  imports Samples
begin

text \<open>
  \<open>services/loyalty.service.ts\<close>: points earned and redeemed per restaurant and customer, tiers, and
  the reversal of an order's points, guarded by the flip of \<open>Order.loyaltyReversed\<close> (an
  interpretation of \<open>idempotent_consumer\<close>). The ledger of transactions is kept beside the balance;
  the invariant says that the balance is the sum of the ledger.
\<close>

section \<open>Tiers and points\<close>

definition tier_thresholds :: "(tier \<times> money) list" where
  "tier_thresholds = [(Gold, 2000), (Silver, 500), (Bronze, 0)]"

text \<open>\<open>find(...)!.tier\<close>: a negative balance has no tier and the property access throws.\<close>

definition tier_for_points :: "money \<Rightarrow> tier option" where
  "tier_for_points points = map_option fst (find_one (\<lambda>(t, m). points \<ge> m) tier_thresholds)"

definition points_for_spend :: "money \<Rightarrow> money" where
  "points_for_spend subtotal = of_int \<lfloor>subtotal * 1\<rfloor>"

section \<open>Accounts\<close>

definition is_account :: "oid \<Rightarrow> oid \<Rightarrow> loyalty_account \<Rightarrow> bool" where
  "is_account rid cid a \<longleftrightarrow> la_restaurantId a = rid \<and> la_customerId a = cid"

definition find_account :: "oid \<Rightarrow> oid \<Rightarrow> db \<Rightarrow> loyalty_account option" where
  "find_account rid cid d = find_one (is_account rid cid) (db_loyaltyAccounts d)"

definition new_account :: "oid \<Rightarrow> oid \<Rightarrow> loyalty_account" where
  "new_account rid cid =
     \<lparr>la_restaurantId = rid, la_customerId = cid, la_pointsBalance = 0, la_tier = Bronze\<rparr>"

definition set_account :: "oid \<Rightarrow> oid \<Rightarrow> (loyalty_account \<Rightarrow> loyalty_account) \<Rightarrow> db \<Rightarrow> db" where
  "set_account rid cid f d =
     d\<lparr>db_loyaltyAccounts := update_one (is_account rid cid) f (db_loyaltyAccounts d)\<rparr>"

definition add_txn :: "oid \<Rightarrow> oid \<Rightarrow> oid option \<Rightarrow> loyalty_txn_type \<Rightarrow> money \<Rightarrow> db \<Rightarrow> db" where
  "add_txn rid cid oid ty points d =
     d\<lparr>db_loyaltyTxns := db_loyaltyTxns d @
        [\<lparr>lt_restaurantId = rid, lt_customerId = cid, lt_orderId = oid, lt_type = ty, lt_points = points\<rparr>]\<rparr>"

definition get_or_create_account :: "oid \<Rightarrow> oid \<Rightarrow> db \<Rightarrow> loyalty_account \<times> db" where
  "get_or_create_account rid cid d =
     (case find_account rid cid d of
        Some a \<Rightarrow> (a, d)
      | None \<Rightarrow> (new_account rid cid,
          d\<lparr>db_loyaltyAccounts := db_loyaltyAccounts d @ [new_account rid cid]\<rparr>))"

section \<open>Earning and redeeming\<close>

text \<open>The \<open>$inc\<close> with upsert is \<open>get_or_create_account\<close> followed by the increment; then the tier is saved.\<close>

definition earn_points :: "oid \<Rightarrow> oid \<Rightarrow> oid \<Rightarrow> money \<Rightarrow> db \<Rightarrow> money result \<times> db" where
  "earn_points rid cid oid subtotal d =
     (let points = points_for_spend subtotal in
      if points \<le> 0 then (Inr 0, d)
      else let (a, d1) = get_or_create_account rid cid d;
               balance = la_pointsBalance a + points;
               d2 = set_account rid cid (\<lambda>a. a\<lparr>la_pointsBalance := balance\<rparr>) d1
           in case tier_for_points balance of
                None \<Rightarrow> (Inl (Thrown ''TypeError''), d2)
              | Some t \<Rightarrow> (Inr points,
                  add_txn rid cid (Some oid) Earn points
                    (set_account rid cid (\<lambda>a. a\<lparr>la_tier := t\<rparr>) d2)))"

definition redeem_points :: "oid \<Rightarrow> oid \<Rightarrow> money \<Rightarrow> oid option \<Rightarrow> db \<Rightarrow> unit result \<times> db" where
  "redeem_points rid cid points oid d =
     (if points \<le> 0 then (Inl (Bad_Request ''Points to redeem must be positive''), d)
      else case find_account rid cid d of
          None \<Rightarrow> (Inl (Bad_Request ''Insufficient loyalty points balance''), d)
        | Some a \<Rightarrow>
            if la_pointsBalance a < points
            then (Inl (Bad_Request ''Insufficient loyalty points balance''), d)
            else let balance = la_pointsBalance a - points in
              case tier_for_points balance of
                None \<Rightarrow> (Inl (Thrown ''TypeError''), d)
              | Some t \<Rightarrow> (Inr (),
                  add_txn rid cid oid Redeem (- points)
                    (set_account rid cid (\<lambda>a. a\<lparr>la_pointsBalance := balance, la_tier := t\<rparr>) d)))"

section \<open>Reversal\<close>

definition reverse_loyalty_for_order ::
  "oid \<Rightarrow> oid \<Rightarrow> oid \<Rightarrow> money \<Rightarrow> money \<Rightarrow> db \<Rightarrow> unit result \<times> db" where
  "reverse_loyalty_for_order rid cid oid earned redeemed d =
     (case find_account rid cid d of
        None \<Rightarrow> (Inr (), d)
      | Some a \<Rightarrow>
          let b0 = la_pointsBalance a;
              clawback = min earned b0;
              claws = earned > 0 \<and> clawback > 0;
              b1 = (if claws then b0 - clawback else b0);
              d1 = (if claws then add_txn rid cid (Some oid) Adjustment (- clawback) d else d);
              refunds = redeemed > 0;
              b2 = (if refunds then b1 + redeemed else b1);
              d2 = (if refunds then add_txn rid cid (Some oid) Adjustment redeemed d1 else d1)
          in if claws \<or> refunds
             then (case tier_for_points b2 of
                 None \<Rightarrow> (Inl (Thrown ''TypeError''), d2)
               | Some t \<Rightarrow> (Inr (), set_account rid cid (\<lambda>a. a\<lparr>la_pointsBalance := b2, la_tier := t\<rparr>) d2))
             else (Inr (), d2))"

definition unreversed :: "oid \<Rightarrow> order \<Rightarrow> bool" where
  "unreversed oid o' \<longleftrightarrow> o_id o' = oid \<and> \<not> o_loyaltyReversed o'"

definition no_points :: "order \<Rightarrow> bool" where
  "no_points o' \<longleftrightarrow> o_loyaltyPointsEarned o' \<le> 0 \<and> o_loyaltyPointsRedeemed o' \<le> 0"

definition reverse_loyalty_if_needed :: "order \<Rightarrow> db \<Rightarrow> unit result \<times> db" where
  "reverse_loyalty_if_needed o' d =
     (if no_points o' then (Inr (), d)
      else case find_one (unreversed (o_id o')) (db_orders d) of
          None \<Rightarrow> (Inr (), d)
        | Some flipped \<Rightarrow>
            reverse_loyalty_for_order (o_restaurantId o') (o_customerId o') (o_id o')
              (o_loyaltyPointsEarned o') (o_loyaltyPointsRedeemed o')
              (d\<lparr>db_orders := update_one (unreversed (o_id o')) (\<lambda>x. x\<lparr>o_loyaltyReversed := True\<rparr>)
                  (db_orders d)\<rparr>))"

section \<open>The ledger\<close>

definition ledger :: "oid \<Rightarrow> oid \<Rightarrow> db \<Rightarrow> money" where
  "ledger rid cid d = sum_list (map lt_points
     (filter (\<lambda>t. lt_restaurantId t = rid \<and> lt_customerId t = cid) (db_loyaltyTxns d)))"

definition balance_of :: "oid \<Rightarrow> oid \<Rightarrow> db \<Rightarrow> money" where
  "balance_of rid cid d = (case find_account rid cid d of None \<Rightarrow> 0 | Some a \<Rightarrow> la_pointsBalance a)"

definition account_ok :: "loyalty_account \<Rightarrow> bool" where
  "account_ok a \<longleftrightarrow> 0 \<le> la_pointsBalance a \<and> tier_for_points (la_pointsBalance a) = Some (la_tier a)"

text \<open>Every account has a balance that is not negative and the tier of its balance, and every balance
  is the sum of its transactions.\<close>

definition loyalty_inv :: "db \<Rightarrow> bool" where
  "loyalty_inv d \<longleftrightarrow> (\<forall>a \<in> set (db_loyaltyAccounts d). account_ok a) \<and>
     (\<forall>rid cid. ledger rid cid d = balance_of rid cid d)"

lemma tier_for_points_Some: "0 \<le> p \<Longrightarrow> \<exists>t. tier_for_points p = Some t"
  by (simp add: tier_for_points_def tier_thresholds_def)

lemma tier_bounds: "tier_for_points p = Some t \<longleftrightarrow>
    (t = Gold \<and> 2000 \<le> p) \<or> (t = Silver \<and> 500 \<le> p \<and> p < 2000) \<or> (t = Bronze \<and> 0 \<le> p \<and> p < 500)"
  by (auto simp: tier_for_points_def tier_thresholds_def)

lemma ledger_add_txn [simp]:
  "ledger rid cid (add_txn rid' cid' oid ty p d) =
    ledger rid cid d + (if rid = rid' \<and> cid = cid' then p else 0)"
  by (auto simp: ledger_def add_txn_def)

lemma ledger_set_account [simp]: "ledger rid cid (set_account rid' cid' f d) = ledger rid cid d"
  by (simp add: ledger_def set_account_def)

lemma accounts_add_txn [simp]:
  "db_loyaltyAccounts (add_txn rid cid oid ty p d) = db_loyaltyAccounts d"
  "find_account rid' cid' (add_txn rid cid oid ty p d) = find_account rid' cid' d"
  "balance_of rid' cid' (add_txn rid cid oid ty p d) = balance_of rid' cid' d"
  by (simp_all add: add_txn_def find_account_def balance_of_def)

lemma find_account_set:
  assumes "\<And>a. is_account rid cid a \<Longrightarrow> is_account rid cid (f a)"
  shows "find_account rid' cid' (set_account rid cid f d) =
    (if rid = rid' \<and> cid = cid' then map_option f (find_account rid cid d) else find_account rid' cid' d)"
proof -
  have "find_one (is_account rid' cid') (update_one (is_account rid cid) f xs) =
    (if rid = rid' \<and> cid = cid' then map_option f (find_one (is_account rid cid) xs)
     else find_one (is_account rid' cid') xs)" for xs
    using assms by (induction xs) (auto simp: is_account_def)
  then show ?thesis by (simp add: find_account_def set_account_def)
qed

lemma update_one_first:
  "\<forall>a \<in> set xs. P a \<Longrightarrow> (case find_one p xs of None \<Rightarrow> True | Some a \<Rightarrow> P (f a)) \<Longrightarrow>
    \<forall>a \<in> set (update_one p f xs). P a"
  by (induction xs) auto

lemma accounts_set_ok:
  assumes "\<forall>a \<in> set (db_loyaltyAccounts d). account_ok a"
    and "\<And>a. find_account rid cid d = Some a \<Longrightarrow> account_ok (f a)"
  shows "\<forall>a \<in> set (db_loyaltyAccounts (set_account rid cid f d)). account_ok a"
  using update_one_first [OF assms(1), where p = "is_account rid cid" and f = f] assms(2)
  by (simp add: set_account_def find_account_def split: option.splits)

lemma find_account_set_balance [simp]:
  "find_account r c (set_account rid cid (\<lambda>a. a\<lparr>la_pointsBalance := b, la_tier := t\<rparr>) d) =
    (if r = rid \<and> c = cid then map_option (\<lambda>a. a\<lparr>la_pointsBalance := b, la_tier := t\<rparr>) (find_account rid cid d)
     else find_account r c d)"
  by (subst find_account_set) (auto simp: is_account_def)

text \<open>Setting the balance of one account, with its tier, and adding the difference to the ledger.\<close>

lemma loyalty_inv_set:
  assumes inv: "loyalty_inv d" and a: "find_account rid cid d = Some a"
    and b: "0 \<le> b" "tier_for_points b = Some t"
    and other: "db_loyaltyAccounts d' = db_loyaltyAccounts d"
    and led: "\<And>rid' cid'. ledger rid' cid' d' = ledger rid' cid' d +
      (if rid' = rid \<and> cid' = cid then b - la_pointsBalance a else 0)"
  shows "loyalty_inv (set_account rid cid (\<lambda>a. a\<lparr>la_pointsBalance := b, la_tier := t\<rparr>) d')"
proof -
  have f: "find_account r c d' = find_account r c d" for r c by (simp add: find_account_def other)
  have "\<forall>a \<in> set (db_loyaltyAccounts (set_account rid cid (\<lambda>a. a\<lparr>la_pointsBalance := b, la_tier := t\<rparr>) d')).
      account_ok a"
    using inv b other by (intro accounts_set_ok) (auto simp: loyalty_inv_def account_ok_def)
  moreover have "balance_of r c (set_account rid cid (\<lambda>a. a\<lparr>la_pointsBalance := b, la_tier := t\<rparr>) d') =
      (if r = rid \<and> c = cid then b else balance_of r c d)" for r c
    using a by (simp add: balance_of_def f)
  moreover have "ledger r c d = balance_of r c d" for r c using inv by (simp add: loyalty_inv_def)
  moreover have "balance_of rid cid d = la_pointsBalance a" using a by (simp add: balance_of_def)
  ultimately show ?thesis by (simp add: loyalty_inv_def led)
qed

lemma account_nonneg: "loyalty_inv d \<Longrightarrow> find_account rid cid d = Some a \<Longrightarrow> 0 \<le> la_pointsBalance a"
  by (auto simp: loyalty_inv_def find_account_def account_ok_def dest!: find_one_SomeD)

lemma is_new_account [simp]: "is_account rid cid (new_account rid' cid') \<longleftrightarrow> rid = rid' \<and> cid = cid'"
  by (auto simp: is_account_def new_account_def)

lemma get_or_create:
  assumes "loyalty_inv d" "get_or_create_account rid cid d = (a, d1)"
  shows "loyalty_inv d1 \<and> find_account rid cid d1 = Some a \<and> la_pointsBalance a = balance_of rid cid d"
proof (cases "find_account rid cid d")
  case (Some b)
  with assms show ?thesis by (auto simp: get_or_create_account_def balance_of_def)
next
  case None
  with assms(2) have a: "a = new_account rid cid"
    "d1 = d\<lparr>db_loyaltyAccounts := db_loyaltyAccounts d @ [new_account rid cid]\<rparr>"
    by (auto simp: get_or_create_account_def)
  have "account_ok (new_account rid cid)" by (simp add: account_ok_def new_account_def tier_bounds)
  moreover have "ledger r c d1 = ledger r c d" for r c by (simp add: ledger_def a)
  moreover have "balance_of r c d1 = balance_of r c d" for r c
    by (auto simp: balance_of_def find_account_def a find_one_append new_account_def is_account_def
        split: option.splits)
  ultimately show ?thesis using assms(1) None
    by (auto simp: loyalty_inv_def a find_account_def find_one_append balance_of_def new_account_def is_account_def)
qed

lemma set_account_twice:
  "set_account rid cid (\<lambda>a. a\<lparr>la_tier := t\<rparr>) (set_account rid cid (\<lambda>a. a\<lparr>la_pointsBalance := b\<rparr>) d) =
    set_account rid cid (\<lambda>a. a\<lparr>la_pointsBalance := b, la_tier := t\<rparr>) d"
proof -
  have "update_one (is_account rid cid) (\<lambda>a. a\<lparr>la_tier := t\<rparr>)
      (update_one (is_account rid cid) (\<lambda>a. a\<lparr>la_pointsBalance := b\<rparr>) xs) =
    update_one (is_account rid cid) (\<lambda>a. a\<lparr>la_pointsBalance := b, la_tier := t\<rparr>) xs" for xs
    by (induction xs) (auto simp: is_account_def)
  then show ?thesis by (simp add: set_account_def)
qed

lemma add_txn_set_account:
  "add_txn rid cid oid ty p (set_account rid' cid' f d) = set_account rid' cid' f (add_txn rid cid oid ty p d)"
  by (simp add: add_txn_def set_account_def)

lemma earn_points_inv:
  assumes "loyalty_inv d"
  shows "loyalty_inv (snd (earn_points rid cid oid s d)) \<and>
    fst (earn_points rid cid oid s d) = Inr (max 0 (points_for_spend s))"
proof (cases "points_for_spend s \<le> 0")
  case True
  with assms show ?thesis by (simp add: earn_points_def)
next
  case False
  obtain a d1 where g: "get_or_create_account rid cid d = (a, d1)" by fastforce
  from get_or_create [OF assms g] have d1: "loyalty_inv d1" "find_account rid cid d1 = Some a" by auto
  have b: "0 \<le> la_pointsBalance a + points_for_spend s" using account_nonneg [OF d1] False by simp
  then obtain t where t: "tier_for_points (la_pointsBalance a + points_for_spend s) = Some t"
    using tier_for_points_Some by blast
  have "loyalty_inv (set_account rid cid (\<lambda>x. x\<lparr>la_pointsBalance := la_pointsBalance a + points_for_spend s,
      la_tier := t\<rparr>) (add_txn rid cid (Some oid) Earn (points_for_spend s) d1))"
    by (rule loyalty_inv_set [OF d1 b t]) auto
  with False g t show ?thesis by (simp add: earn_points_def Let_def add_txn_set_account set_account_twice)
qed

lemma redeem_points_inv:
  assumes "loyalty_inv d"
  shows "loyalty_inv (snd (redeem_points rid cid p oid d))"
proof (cases "find_account rid cid d")
  case None
  with assms show ?thesis by (simp add: redeem_points_def)
next
  case (Some a)
  show ?thesis
  proof (cases "p \<le> 0 \<or> la_pointsBalance a < p")
    case True
    with assms Some show ?thesis by (auto simp: redeem_points_def)
  next
    case False
    then have b: "0 \<le> la_pointsBalance a - p" by simp
    then obtain t where t: "tier_for_points (la_pointsBalance a - p) = Some t" using tier_for_points_Some by blast
    have "loyalty_inv (set_account rid cid (\<lambda>x. x\<lparr>la_pointsBalance := la_pointsBalance a - p,
        la_tier := t\<rparr>) (add_txn rid cid oid Redeem (- p) d))"
      by (rule loyalty_inv_set [OF assms Some b t]) auto
    with False Some t show ?thesis by (simp add: redeem_points_def Let_def add_txn_set_account)
  qed
qed

lemma reverse_for_order_inv:
  assumes "loyalty_inv d"
  shows "loyalty_inv (snd (reverse_loyalty_for_order rid cid oid e r d)) \<and>
    fst (reverse_loyalty_for_order rid cid oid e r d) = Inr () \<and>
    balance_of rid cid (snd (reverse_loyalty_for_order rid cid oid e r d)) =
      (if find_account rid cid d = None then 0
       else balance_of rid cid d - min (max 0 e) (balance_of rid cid d) + max 0 r)"
proof (cases "find_account rid cid d")
  case None
  with assms show ?thesis by (simp add: reverse_loyalty_for_order_def balance_of_def)
next
  case (Some a)
  let ?b = "la_pointsBalance a"
  let ?c = "if 0 < e \<and> 0 < min e ?b then min e ?b else 0"
  let ?r = "if 0 < r then r else 0"
  have b0: "0 \<le> ?b" using account_nonneg [OF assms Some] .
  then have b: "0 \<le> ?b - ?c + ?r" by auto
  obtain t where t: "tier_for_points (?b - ?c + ?r) = Some t" using tier_for_points_Some [OF b] by blast
  let ?d1 = "if 0 < e \<and> 0 < min e ?b then add_txn rid cid (Some oid) Adjustment (- min e ?b) d else d"
  let ?d2 = "if 0 < r then add_txn rid cid (Some oid) Adjustment r ?d1 else ?d1"
  let ?S = "set_account rid cid (\<lambda>x. x\<lparr>la_pointsBalance := ?b - ?c + ?r, la_tier := t\<rparr>) ?d2"
  have inv: "loyalty_inv ?S"
    by (rule loyalty_inv_set [OF assms Some b t]) auto
  have eq: "reverse_loyalty_for_order rid cid oid e r d =
      (if (0 < e \<and> 0 < min e ?b) \<or> 0 < r then (Inr (), ?S) else (Inr (), d))"
    using Some t by (auto simp: reverse_loyalty_for_order_def Let_def)
  have bal: "balance_of rid cid ?S = ?b - ?c + ?r"
    using Some by (simp add: balance_of_def)
  show ?thesis
    using eq inv bal assms Some b0 by (auto simp: balance_of_def)
qed

text \<open>Orders do not matter to the accounts.\<close>

lemma loyalty_orders [simp]:
  "loyalty_inv (d\<lparr>db_orders := os\<rparr>) = loyalty_inv d"
  "balance_of rid cid (d\<lparr>db_orders := os\<rparr>) = balance_of rid cid d"
  "find_account rid cid (d\<lparr>db_orders := os\<rparr>) = find_account rid cid d"
  by (simp_all add: loyalty_inv_def ledger_def balance_of_def find_account_def)

lemma reverse_if_needed_inv:
  "loyalty_inv d \<Longrightarrow> loyalty_inv (snd (reverse_loyalty_if_needed o' d)) \<and>
    fst (reverse_loyalty_if_needed o' d) = Inr ()"
  by (auto simp: reverse_loyalty_if_needed_def reverse_for_order_inv split: option.splits)

text \<open>C34. The loyalty ledger: earning, redeeming and reversing keep every balance non-negative, equal to
  the sum of its transactions, and the tier the one of the balance; and none of them fails on the
  tier of a negative balance.\<close>

theorem loyalty_ledger_kept:
  assumes "loyalty_inv d"
  shows "loyalty_inv (snd (earn_points rid cid oid s d)) \<and> loyalty_inv (snd (redeem_points rid cid p oid' d)) \<and>
    loyalty_inv (snd (reverse_loyalty_if_needed o' d)) \<and>
    fst (earn_points rid cid oid s d) = Inr (max 0 (points_for_spend s)) \<and>
    fst (reverse_loyalty_if_needed o' d) = Inr ()"
  using assms earn_points_inv redeem_points_inv reverse_if_needed_inv by blast

definition sample_loyalty_db :: db where
  "sample_loyalty_db = sample_db
     \<lparr>db_orders := [sample_order],
      db_loyaltyAccounts := [\<lparr>la_restaurantId = ''r1'', la_customerId = ''u1'', la_pointsBalance = 600, la_tier = Silver\<rparr>],
      db_loyaltyTxns := [\<lparr>lt_restaurantId = ''r1'', lt_customerId = ''u1'', lt_orderId = None, lt_type = Earn,
        lt_points = 600\<rparr>]\<rparr>"

lemma sample_loyalty_inv: "loyalty_inv sample_loyalty_db"
  by (auto simp: loyalty_inv_def account_ok_def tier_bounds ledger_def balance_of_def find_account_def
      is_account_def sample_loyalty_db_def sample_db_def)

theorem loyalty_ledger_kept_witness:
  "loyalty_inv (snd (earn_points ''r1'' ''u1'' ''o2'' (25 / 2) sample_loyalty_db))"
  by (rule loyalty_ledger_kept [OF sample_loyalty_inv, THEN conjunct1])

section \<open>A reversal happens once\<close>

definition order_ids_distinct :: "db \<Rightarrow> bool" where
  "order_ids_distinct d \<longleftrightarrow> distinct (map o_id (db_orders d))"

definition reversal :: "order \<Rightarrow> db \<Rightarrow> db" where
  "reversal o' d = snd (reverse_loyalty_if_needed o' d)"

definition reversal_taken :: "order \<Rightarrow> db \<Rightarrow> bool" where
  "reversal_taken o' d \<longleftrightarrow> no_points o' \<or> find_one (unreversed (o_id o')) (db_orders d) = None"

lemma orders_reverse [simp]: "db_orders (snd (reverse_loyalty_for_order rid cid oid e r d)) = db_orders d"
  by (auto simp: reverse_loyalty_for_order_def Let_def add_txn_def set_account_def split: option.splits)

lemma orders_reversal: "db_orders (reversal o' d) =
    (if no_points o' then db_orders d
     else update_one (unreversed (o_id o')) (\<lambda>x. x\<lparr>o_loyaltyReversed := True\<rparr>) (db_orders d))"
  by (auto simp: reversal_def reverse_loyalty_if_needed_def update_one_none split: option.splits)

lemma flip_leaves_none:
  "distinct (map o_id xs) \<Longrightarrow>
    find_one (unreversed k) (update_one (unreversed k) (\<lambda>x. x\<lparr>o_loyaltyReversed := True\<rparr>) xs) = None"
  by (induction xs) (auto simp: unreversed_def find_one_None_iff image_iff)

lemma flip_keeps_none:
  "find_one (unreversed k) xs = None \<Longrightarrow>
    find_one (unreversed k) (update_one (unreversed j) (\<lambda>x. x\<lparr>o_loyaltyReversed := True\<rparr>) xs) = None"
  by (induction xs) (auto simp: unreversed_def split: if_splits)

interpretation loyalty_reversal: idempotent_consumer order_ids_distinct reversal reversal_taken
proof unfold_locales
  fix d :: db and o1 o2 :: order
  show "order_ids_distinct (reversal o1 d)" if "order_ids_distinct d"
    using that by (auto simp: order_ids_distinct_def orders_reversal map_update_one)
  show "reversal o1 d = d" if "reversal_taken o1 d"
    using that by (auto simp: reversal_def reversal_taken_def reverse_loyalty_if_needed_def)
  show "reversal_taken o1 (reversal o1 d)" if "order_ids_distinct d"
    using that by (auto simp: reversal_taken_def orders_reversal order_ids_distinct_def flip_leaves_none)
  show "reversal_taken o1 (reversal o2 d)" if "order_ids_distinct d" "reversal_taken o1 d"
    using that by (auto simp: reversal_taken_def orders_reversal flip_keeps_none)
qed

lemma reversal_balance:
  assumes "loyalty_inv d" "o' \<in> set (db_orders d)" "\<not> o_loyaltyReversed o'" "\<not> no_points o'"
    and "find_account (o_restaurantId o') (o_customerId o') d = Some a"
  shows "balance_of (o_restaurantId o') (o_customerId o') (reversal o' d) =
    la_pointsBalance a - min (max 0 (o_loyaltyPointsEarned o')) (la_pointsBalance a) +
      max 0 (o_loyaltyPointsRedeemed o')"
proof -
  have "find_one (unreversed (o_id o')) (db_orders d) \<noteq> None"
    using assms(2,3) by (auto simp: find_one_None_iff unreversed_def)
  then obtain x where "find_one (unreversed (o_id o')) (db_orders d) = Some x" by blast
  with assms show ?thesis
    by (simp add: reversal_def reverse_loyalty_if_needed_def reverse_for_order_inv balance_of_def [of _ _ d])
qed

text \<open>The points of an order are reversed once, however often a cancellation and refunds ask for it:
  the earned points that are still there are taken back and the redeemed ones returned.\<close>

theorem reversal_once:
  assumes "loyalty_inv d" "order_ids_distinct d"
    and "o' \<in> set (db_orders d)" "\<not> o_loyaltyReversed o'" "\<not> no_points o'"
    and "find_account (o_restaurantId o') (o_customerId o') d = Some a"
  shows "balance_of (o_restaurantId o') (o_customerId o') (fold reversal (replicate (Suc n) o') d) =
    la_pointsBalance a - min (max 0 (o_loyaltyPointsEarned o')) (la_pointsBalance a) +
      max 0 (o_loyaltyPointsRedeemed o')"
proof -
  have "fold reversal (replicate (Suc n) o') d = fold reversal (replicate n o') (reversal o' d)" by simp
  also have "\<dots> = reversal o' d"
    by (rule loyalty_reversal.all_taken_noop) (use loyalty_reversal.takes [OF assms(2)] in auto)
  finally show ?thesis using reversal_balance [OF assms(1,3-6)] by simp
qed

theorem reversal_once_witness:
  "balance_of ''r1'' ''u1'' (fold reversal (replicate (Suc 2) sample_order) sample_loyalty_db) = 583"
proof -
  have "find_account ''r1'' ''u1'' sample_loyalty_db =
      Some \<lparr>la_restaurantId = ''r1'', la_customerId = ''u1'', la_pointsBalance = 600, la_tier = Silver\<rparr>"
    by (simp add: sample_loyalty_db_def sample_db_def find_account_def is_account_def)
  then show ?thesis
    using reversal_once [OF sample_loyalty_inv, of sample_order _ 2]
    by (simp add: sample_loyalty_db_def sample_defs order_ids_distinct_def no_points_def)
qed

end
