(* ===== verification/Contact.thy ===== *)
theory Contact
  imports Domain "HOL-Library.AList"
begin

text \<open>
  \<open>deliveryProviders/contactNormalization.ts\<close>: phone numbers to E.164 form and countries to ISO 3166
  codes by fixed rules. Texts are ASCII (Unicode normalisation is the identity on them). The names of
  the runtime's ICU data (\<open>Intl.DisplayNames\<close>, \<open>Intl.Locale\<close>) are parameters. The lookup in the alias
  table is the table's own entries: the inherited properties of a JavaScript object
  (\<open>constructor\<close>, \<open>__proto__\<close>) are not part of it.
\<close>

section \<open>Phone numbers\<close>

definition is_digit :: "char \<Rightarrow> bool" where
  "is_digit c = (let n = of_char c :: nat in 48 \<le> n \<and> n \<le> 57)"

definition digits :: "string \<Rightarrow> bool" where
  "digits s \<longleftrightarrow> s \<noteq> [] \<and> list_all is_digit s"

definition nanp_countries :: "string list" where
  "nanp_countries = [''US'', ''CA'', ''PR'', ''GU'', ''VI'', ''AS'', ''MP'']"

definition separator :: "char \<Rightarrow> bool" where
  "separator c \<longleftrightarrow> js_space c \<or> c \<in> set ''().-/''"

fun matches_plus_digits :: "string \<Rightarrow> bool" where
  "matches_plus_digits [] = False"
| "matches_plus_digits (c # s) = (if c = CHR ''+'' then digits s else digits (c # s))"

definition matches_00_digits :: "string \<Rightarrow> bool" where
  "matches_00_digits s \<longleftrightarrow> take 2 s = ''00'' \<and> digits (drop 2 s)"

text \<open>\<open>[1-9]\d{7,14}\<close> and \<open>[2-9]\d{9}\<close>.\<close>

definition international_number :: "string \<Rightarrow> bool" where
  "international_number s \<longleftrightarrow> digits s \<and> hd s \<noteq> CHR ''0'' \<and> 8 \<le> length s \<and> length s \<le> 15"

definition nanp_number :: "string \<Rightarrow> bool" where
  "nanp_number s \<longleftrightarrow> digits s \<and> hd s \<noteq> CHR ''0'' \<and> hd s \<noteq> CHR ''1'' \<and> length s = 10"

text \<open>What the function does with the number after the separators are removed.\<close>

definition phone_of_compact :: "string \<Rightarrow> string option \<Rightarrow> string + string" where
  "phone_of_compact cs country =
     (if \<not> matches_plus_digits cs \<and> \<not> matches_00_digits cs
      then Inl ''isn't a phone number we can use''
      else let international =
          (if take 1 cs = ''+'' then Some (drop 1 cs)
           else if take 2 cs = ''00'' then Some (drop 2 cs) else None)
        in case international of
             Some n \<Rightarrow> if international_number n then Inr (''+'' @ n)
               else Inl ''doesn't look like a complete international number''
           | None \<Rightarrow>
               if (case country of None \<Rightarrow> False | Some c \<Rightarrow> c \<noteq> [] \<and> js_upper c \<in> set nanp_countries)
               then (if nanp_number cs then Inr (''+1'' @ cs)
                 else if take 1 cs = ''1'' \<and> nanp_number (drop 1 cs) then Inr (''+'' @ cs)
                 else Inl ''has no country code'')
               else Inl ''has no country code'')"

definition normalize_phone :: "string option \<Rightarrow> string option \<Rightarrow> string + string" where
  "normalize_phone raw country =
     (let input = js_trim (case raw of None \<Rightarrow> [] | Some s \<Rightarrow> s) in
      if input = [] then Inl ''A phone number is required''
      else phone_of_compact (filter (\<lambda>c. \<not> separator c) input) country)"

section \<open>Countries\<close>

definition country_aliases :: "(string \<times> string) list" where
  "country_aliases =
     [(''usa'', ''US''), (''us'', ''US''), (''united states of america'', ''US''), (''america'', ''US''),
      (''uk'', ''GB''), (''great britain'', ''GB''), (''britain'', ''GB''), (''england'', ''GB''),
      (''scotland'', ''GB''), (''wales'', ''GB''), (''northern ireland'', ''GB''), (''uae'', ''AE''),
      (''south korea'', ''KR''), (''korea'', ''KR'')]"

definition is_upper :: "char \<Rightarrow> bool" where
  "is_upper c = (let n = of_char c :: nat in 65 \<le> n \<and> n \<le> 90)"

definition is_lower :: "char \<Rightarrow> bool" where
  "is_lower c = (let n = of_char c :: nat in 97 \<le> n \<and> n \<le> 122)"

definition is_assignable_code :: "(string \<Rightarrow> string option) \<Rightarrow> string \<Rightarrow> bool" where
  "is_assignable_code region code =
     (if code = ''AA'' \<or> code = ''ZZ'' \<or>
         (length code = 2 \<and> code ! 0 = CHR ''Q'' \<and> is_upper (code ! 1) \<and> code ! 1 \<notin> set ''ABCDEFGHIJKL'') \<or>
         (length code = 2 \<and> code ! 0 = CHR ''X'' \<and> is_upper (code ! 1))
      then False
      else if code \<in> set [''UK'', ''EU'', ''EZ'', ''UN'', ''AC'', ''CP'', ''DG'', ''EA'', ''IC'', ''TA''] then False
      else region code = Some code)"

text \<open>\<open>simplify\<close>: lower case, without marks, a leading "the" and repeated blanks.\<close>

fun collapse_spaces :: "string \<Rightarrow> string" where
  "collapse_spaces [] = []"
| "collapse_spaces (c # s) =
     (if js_space c
      then (case collapse_spaces s of [] \<Rightarrow> '' '' | d # t \<Rightarrow> if d = CHR '' '' then d # t else CHR '' '' # d # t)
      else c # collapse_spaces s)"

definition strip_the :: "string \<Rightarrow> string" where
  "strip_the s =
     (if take 3 s = ''the'' \<and> 3 < length s \<and> js_space (s ! 3) then dropWhile js_space (drop 3 s) else s)"

definition simplify :: "string \<Rightarrow> string" where
  "simplify v = js_trim (collapse_spaces (strip_the (filter (\<lambda>c. c \<notin> set [CHR ''.'', CHR '','', CHR 0x27]) (js_lower v))))"

definition letters :: "string" where
  "letters = ''ABCDEFGHIJKLMNOPQRSTUVWXYZ''"

definition add_country_name ::
  "(string \<Rightarrow> string option) \<Rightarrow> (string \<Rightarrow> string option) \<Rightarrow> (string \<times> string) list \<Rightarrow> string \<Rightarrow>
    (string \<times> string) list" where
  "add_country_name display region m code =
     (case display code of
        None \<Rightarrow> m
      | Some name \<Rightarrow> if name \<noteq> [] \<and> name \<noteq> code \<and> is_assignable_code region code
          then AList.update (simplify name) code m else m)"

definition english_country_names ::
  "(string \<Rightarrow> string option) \<Rightarrow> (string \<Rightarrow> string option) \<Rightarrow> (string \<times> string) list" where
  "english_country_names display region =
     foldl (add_country_name display region) [] (concat (map (\<lambda>a. map (\<lambda>b. [a, b]) letters) letters))"

definition normalize_country_code ::
  "(string \<times> string) list \<Rightarrow> string option \<Rightarrow> string option" where
  "normalize_country_code names raw =
     (let value = simplify (case raw of None \<Rightarrow> [] | Some s \<Rightarrow> s) in
      if value = [] then None
      else case map_of country_aliases value of
          Some code \<Rightarrow> Some code
        | None \<Rightarrow>
            if length value = 2 \<and> list_all is_lower value
            then (let code = js_upper value in if code \<in> snd ` set names then Some code else None)
            else map_of names value)"

section \<open>Normal forms\<close>

lemma digit_not_separator: "is_digit c \<Longrightarrow> \<not> separator c \<and> \<not> js_space c \<and> c \<noteq> CHR ''+''"
  by (auto simp: is_digit_def separator_def js_space_def)

lemma trim_id: "s \<noteq> [] \<Longrightarrow> \<not> js_space (hd s) \<Longrightarrow> \<not> js_space (last s) \<Longrightarrow> js_trim s = s"
proof -
  assume s: "s \<noteq> []" "\<not> js_space (hd s)" "\<not> js_space (last s)"
  then have "dropWhile js_space s = s" by (simp add: dropWhile_eq_self_iff)
  moreover have "dropWhile js_space (rev s) = rev s" using s by (simp add: dropWhile_eq_self_iff hd_rev)
  ultimately show ?thesis by (simp add: js_trim_def)
qed

lemma filter_digits: "digits n \<Longrightarrow> filter (\<lambda>c. \<not> separator c) n = n"
  by (auto simp: digits_def list_all_iff filter_id_conv dest: digit_not_separator)

lemma plus_normal:
  assumes "international_number n"
  shows "normalize_phone (Some (CHR ''+'' # n)) c = Inr (CHR ''+'' # n)"
proof -
  have n: "digits n" "n \<noteq> []" using assms by (auto simp: international_number_def digits_def)
  then have "is_digit (last n)" by (simp add: digits_def list_all_iff)
  then have t: "js_trim (CHR ''+'' # n) = CHR ''+'' # n"
    using n(2) by (intro trim_id) (simp_all add: digit_not_separator, simp add: js_space_def)
  have f: "filter (\<lambda>c. \<not> separator c) (CHR ''+'' # n) = CHR ''+'' # n"
    using filter_digits [OF n(1)] by (simp add: separator_def js_space_def)
  show ?thesis
    unfolding normalize_phone_def Let_def option.case t f
    using assms n(1) by (simp add: phone_of_compact_def)
qed

lemma nanp_international:
  assumes "nanp_number s"
  shows "international_number (CHR ''1'' # s)"
proof -
  have "is_digit CHR ''1''" by (simp add: is_digit_def)
  with assms show ?thesis by (simp add: nanp_number_def international_number_def digits_def)
qed

lemma one_nanp_international: "take 1 s = ''1'' \<Longrightarrow> nanp_number (drop 1 s) \<Longrightarrow> international_number s"
  by (cases s) (auto dest: nanp_international)

lemma phone_of_compact_international:
  assumes "phone_of_compact x country = Inr e"
  shows "\<exists>n. e = CHR ''+'' # n \<and> international_number n"
proof -
  have "(\<exists>n. international_number n \<and> e = ''+'' @ n) \<or> (nanp_number x \<and> e = ''+1'' @ x) \<or>
      (take 1 x = ''1'' \<and> nanp_number (drop 1 x) \<and> e = ''+'' @ x)"
    using assms unfolding phone_of_compact_def Let_def
    by (cases country; simp del: One_nat_def split: if_split_asm; blast)
  then show ?thesis by (auto dest: nanp_international one_nanp_international simp del: One_nat_def)
qed

text \<open>C40. A number handed to a courier is in international form: a plus sign and 8 to 15 digits that do
  not start with zero, and normalising it again, for any country, gives the same number.\<close>

theorem normalize_phone_e164:
  assumes "normalize_phone raw country = Inr e"
  shows "\<exists>n. e = CHR ''+'' # n \<and> international_number n \<and> normalize_phone (Some e) country' = Inr e"
proof -
  have "\<exists>n. e = CHR ''+'' # n \<and> international_number n"
    using assms phone_of_compact_international by (auto simp: normalize_phone_def Let_def split: if_splits)
  then show ?thesis using plus_normal by blast
qed

theorem normalize_phone_e164_witness:
  "normalize_phone (Some ''(212) 555-0100'') (Some ''us'') = Inr ''+12125550100'' \<and>
    (\<exists>n. ''+12125550100'' = CHR ''+'' # n \<and> international_number n \<and>
      normalize_phone (Some ''+12125550100'') None = Inr ''+12125550100'')"
proof -
  have "normalize_phone (Some ''(212) 555-0100'') (Some ''us'') = Inr ''+12125550100''"
    by code_simp
  from normalize_phone_e164 [OF this, of None] this show ?thesis by blast
qed

lemma update_values: "set (AList.update k v m) \<subseteq> insert (k, v) (set m)"
  by (induction m) auto

lemma add_country_name_assignable:
  assumes "\<forall>p \<in> set m. is_assignable_code region (snd p)"
  shows "\<forall>p \<in> set (add_country_name display region m code). is_assignable_code region (snd p)"
proof (cases "add_country_name display region m code = m")
  case False
  then obtain name where "add_country_name display region m code = AList.update (simplify name) code m"
    "is_assignable_code region code"
    by (auto simp: add_country_name_def split: option.splits if_splits)
  with update_values [of "simplify name" code m] assms show ?thesis by auto
qed (use assms in simp)

lemma fold_country_names:
  "\<forall>p \<in> set m. is_assignable_code region (snd p) \<Longrightarrow>
    \<forall>p \<in> set (foldl (add_country_name display region) m codes). is_assignable_code region (snd p)"
proof (induction codes arbitrary: m)
  case (Cons code codes)
  from Cons.IH [OF add_country_name_assignable [OF Cons.prems]] show ?case by simp
qed simp

text \<open>A country is only ever given as one of the listed aliases' codes or as a code that can be
  assigned: never a reserved one, and one that the runtime's data does not rename.\<close>

theorem country_code_assignable:
  assumes "normalize_country_code (english_country_names display region) raw = Some c"
  shows "c \<in> {''US'', ''GB'', ''AE'', ''KR''} \<or> is_assignable_code region c"
proof -
  have "\<forall>p \<in> set (english_country_names display region). is_assignable_code region (snd p)"
    unfolding english_country_names_def by (rule fold_country_names) simp
  moreover have "c \<in> snd ` set country_aliases \<or> c \<in> snd ` set (english_country_names display region)"
    using assms by (force simp: normalize_country_code_def Let_def dest!: map_of_SomeD split: option.splits if_splits)
  ultimately show ?thesis by (auto simp: country_aliases_def)
qed

lemma sample_country:
  "normalize_country_code (english_country_names (\<lambda>c. if c = ''FR'' then Some ''France'' else None) Some)
    (Some '' France.'') = Some ''FR''"
  by code_simp

theorem country_code_assignable_witness:
  "''FR'' \<in> {''US'', ''GB'', ''AE'', ''KR''} \<or> is_assignable_code Some ''FR''"
  by (rule country_code_assignable [OF sample_country])

end
