(* ===== verification/Delivery_Eligibility.thy ===== *)
theory Delivery_Eligibility
  imports Samples
begin

text \<open>
  \<open>services/delivery.service.ts\<close>: whether a restaurant delivers to a point and for how much. The
  great-circle distance is defined over the reals; the eligibility check takes the distance that the
  floating-point evaluation of it gives as an argument. Then the choice of the courier of
  \<open>deliveryProviders/restaurantDeliveryProvider.ts\<close>; building a provider from stored credentials
  (decryption) is a parameter.
\<close>

section \<open>Distance\<close>

definition earth_radius_km :: real where
  "earth_radius_km = 6371"

definition to_radians :: "real \<Rightarrow> real" where
  "to_radians degrees = degrees * pi / 180"

text \<open>\<open>Math.atan2\<close> on arguments that are not negative.\<close>

definition atan2_quadrant :: "real \<Rightarrow> real \<Rightarrow> real" where
  "atan2_quadrant y x = (if x = 0 then (if y = 0 then 0 else pi / 2) else arctan (y / x))"

definition haversine_a :: "real \<Rightarrow> real \<Rightarrow> real \<Rightarrow> real \<Rightarrow> real" where
  "haversine_a lat1 lon1 lat2 lon2 =
     (let dLat = to_radians (lat2 - lat1); dLon = to_radians (lon2 - lon1) in
      sin (dLat / 2) ^ 2 + cos (to_radians lat1) * cos (to_radians lat2) * sin (dLon / 2) ^ 2)"

definition haversine_distance_km :: "real \<Rightarrow> real \<Rightarrow> real \<Rightarrow> real \<Rightarrow> real" where
  "haversine_distance_km lat1 lon1 lat2 lon2 =
     (let a = haversine_a lat1 lon1 lat2 lon2;
          c = 2 * atan2_quadrant (sqrt a) (sqrt (1 - a))
      in earth_radius_km * c)"

section \<open>Fees and eligibility\<close>

text \<open>\<open>reduce\<close> keeps the first of equally tight tiers.\<close>

definition tightest :: "fee_tier \<Rightarrow> fee_tier \<Rightarrow> fee_tier" where
  "tightest acc t = (if ft_maxDistanceKm t < ft_maxDistanceKm acc then t else acc)"

definition resolve_delivery_fee :: "restaurant_settings \<Rightarrow> rat \<Rightarrow> money" where
  "resolve_delivery_fee s distance =
     (case filter (\<lambda>t. distance \<le> ft_maxDistanceKm t) (rs_deliveryFeeTiers s) of
        [] \<Rightarrow> rs_deliveryFee s
      | t # ts \<Rightarrow> ft_fee (foldl tightest t ts))"

record delivery_eligibility =
  dg_eligible :: bool
  dg_distanceKm :: "rat option"
  dg_deliveryFee :: "money option"
  dg_reason :: "string option"

definition ineligible :: "rat option \<Rightarrow> string \<Rightarrow> delivery_eligibility" where
  "ineligible km reason =
     \<lparr>dg_eligible = False, dg_distanceKm = km, dg_deliveryFee = None, dg_reason = Some reason\<rparr>"

definition check_delivery_eligibility ::
  "(rat \<Rightarrow> rat \<Rightarrow> rat \<Rightarrow> rat \<Rightarrow> rat) \<Rightarrow> restaurant \<Rightarrow> rat \<Rightarrow> rat \<Rightarrow> delivery_eligibility" where
  "check_delivery_eligibility km r lat lng =
     (if \<not> rs_deliveryEnabled (res_settings r) then ineligible None ''not offering delivery right now''
      else case (res_latitude r, res_longitude r) of
          (Some rlat, Some rlng) \<Rightarrow>
            (case rs_deliveryRadiusKm (res_settings r) of
               None \<Rightarrow> ineligible None ''delivery area not configured''
             | Some radius \<Rightarrow>
                 if radius = 0 then ineligible None ''delivery area not configured''
                 else let distance = km rlat rlng lat lng;
                          rounded = round_currency distance
                   in if distance > radius
                      then ineligible (Some rounded) ''outside the delivery area''
                      else \<lparr>dg_eligible = True, dg_distanceKm = Some rounded,
                             dg_deliveryFee = Some (resolve_delivery_fee (res_settings r) rounded),
                             dg_reason = None\<rparr>)
        | _ \<Rightarrow> ineligible None ''location not set up for delivery'')"

section \<open>Which courier dispatches\<close>

datatype courier = Manual_Courier | Account_Courier courier_account

record resolved_courier =
  rc_courier :: courier
  rc_accountId :: "oid option"
  rc_fellBackToManual :: bool
  rc_fallbackReason :: "string option"

definition manual_fallback :: "string \<Rightarrow> resolved_courier" where
  "manual_fallback reason =
     \<lparr>rc_courier = Manual_Courier, rc_accountId = None, rc_fellBackToManual = True,
      rc_fallbackReason = Some reason\<rparr>"

definition active_courier_account :: "oid \<Rightarrow> string \<Rightarrow> db \<Rightarrow> courier_account option" where
  "active_courier_account rid wanted d = find_one
     (\<lambda>a. ca_restaurantId a = rid \<and> ca_provider a = wanted \<and> ca_status a = Acc_Active) (db_courierAccounts d)"

definition wanted_courier :: "restaurant \<Rightarrow> string" where
  "wanted_courier r = (case rs_deliveryProvider (res_settings r) of None \<Rightarrow> ''manual'' | Some p \<Rightarrow> p)"

definition resolve_delivery_provider ::
  "(courier_account \<Rightarrow> bool) \<Rightarrow> restaurant \<Rightarrow> db \<Rightarrow> resolved_courier" where
  "resolve_delivery_provider builds r d =
     (if wanted_courier r = ''manual''
      then \<lparr>rc_courier = Manual_Courier, rc_accountId = None, rc_fellBackToManual = False,
            rc_fallbackReason = None\<rparr>
      else case active_courier_account (res_id r) (wanted_courier r) d of
          None \<Rightarrow> manual_fallback ''the courier account is not connected''
        | Some a \<Rightarrow>
            if ca_webhookSecretConfigured a = Some False
            then manual_fallback ''the webhook signing secret has not been added yet''
            else if builds a
            then \<lparr>rc_courier = Account_Courier a, rc_accountId = Some (ca_id a), rc_fellBackToManual = False,
                  rc_fallbackReason = None\<rparr>
            else manual_fallback ''the courier account could not be loaded'')"

definition third_party_courier_will_dispatch :: "restaurant \<Rightarrow> db \<Rightarrow> bool" where
  "third_party_courier_will_dispatch r d =
     (if wanted_courier r = ''manual'' then False
      else case active_courier_account (res_id r) (wanted_courier r) d of
          None \<Rightarrow> False
        | Some a \<Rightarrow> ca_webhookSecretConfigured a \<noteq> Some False)"

section \<open>Bounds of the distance\<close>

lemma cos_lat_nonneg: "\<bar>lat\<bar> \<le> 90 \<Longrightarrow> 0 \<le> cos (to_radians lat)"
proof -
  assume "\<bar>lat\<bar> \<le> 90"
  then have "\<bar>lat\<bar> * pi \<le> 90 * pi" by (intro mult_right_mono) auto
  then have "\<bar>to_radians lat\<bar> \<le> pi / 2" by (simp add: to_radians_def abs_mult)
  then show ?thesis by (intro cos_ge_zero) linarith+
qed

lemma to_radians_diff: "to_radians (x - y) = to_radians x - to_radians y"
  by (simp add: to_radians_def left_diff_distrib diff_divide_distrib)

lemma half_sin_sq: "sin (x / 2) ^ 2 = (1 - cos x) / (2 :: real)"
  using cos_double_sin [of "x / 2"] by simp

lemma half_sum: "x \<le> (c + e) / 2 \<Longrightarrow> (1 - c) / 2 + x \<le> (1 + e) / (2 :: real)"
  by (simp add: field_simps)

lemma haversine_a_bounds:
  assumes "\<bar>lat1\<bar> \<le> 90" "\<bar>lat2\<bar> \<le> 90"
  shows "0 \<le> haversine_a lat1 lon1 lat2 lon2" "haversine_a lat1 lon1 lat2 lon2 \<le> 1"
proof -
  let ?p = "to_radians lat1" and ?q = "to_radians lat2" and ?l = "to_radians (lon2 - lon1)"
  have c: "0 \<le> cos ?p * cos ?q" using assms by (simp add: cos_lat_nonneg)
  have a: "haversine_a lat1 lon1 lat2 lon2 = (1 - cos (?q - ?p)) / 2 + cos ?p * cos ?q * sin (?l / 2) ^ 2"
    unfolding haversine_a_def Let_def half_sin_sq [of "to_radians (lat2 - lat1)"] by (simp add: to_radians_diff)
  have "0 \<le> (1 - cos (?q - ?p)) / 2" by simp
  with c show "0 \<le> haversine_a lat1 lon1 lat2 lon2" unfolding a by simp
  have "cos ?p * cos ?q * sin (?l / 2) ^ 2 \<le> cos ?p * cos ?q * 1"
    by (intro mult_left_mono c) (simp add: power_le_one_iff abs_square_le_1)
  also have "\<dots> = (cos (?q - ?p) + cos (?p + ?q)) / 2" by (simp add: cos_add cos_diff)
  finally have "haversine_a lat1 lon1 lat2 lon2 \<le> (1 + cos (?p + ?q)) / 2"
    unfolding a by (rule half_sum)
  moreover have "(1 + cos (?p + ?q)) / 2 \<le> 1" using cos_le_one [of "?p + ?q"] by simp
  ultimately show "haversine_a lat1 lon1 lat2 lon2 \<le> 1" by (rule order_trans)
qed

lemma atan2_quadrant_bounds: "0 \<le> y \<Longrightarrow> 0 \<le> x \<Longrightarrow> 0 \<le> atan2_quadrant y x \<and> atan2_quadrant y x \<le> pi / 2"
  using arctan_ubound [of "y / x"] by (auto simp: atan2_quadrant_def)

text \<open>The distance of two points is between zero and half the circumference of the earth, is zero
  for the same point, and does not depend on the direction.\<close>

theorem haversine_bounds:
  assumes "\<bar>lat1\<bar> \<le> 90" "\<bar>lat2\<bar> \<le> 90"
  shows "0 \<le> haversine_distance_km lat1 lon1 lat2 lon2 \<and>
    haversine_distance_km lat1 lon1 lat2 lon2 \<le> pi * 6371 \<and>
    haversine_distance_km lat1 lon1 lat1 lon1 = 0 \<and>
    haversine_distance_km lat2 lon2 lat1 lon1 = haversine_distance_km lat1 lon1 lat2 lon2"
proof -
  let ?a = "haversine_a lat1 lon1 lat2 lon2"
  have "0 \<le> sqrt ?a" "0 \<le> sqrt (1 - ?a)" using haversine_a_bounds [OF assms] by simp_all
  from atan2_quadrant_bounds [OF this]
  have "0 \<le> haversine_distance_km lat1 lon1 lat2 lon2" "haversine_distance_km lat1 lon1 lat2 lon2 \<le> pi * 6371"
    by (simp_all add: haversine_distance_km_def Let_def earth_radius_km_def)
  moreover have "haversine_a lat1 lon1 lat1 lon1 = 0" by (simp add: haversine_a_def to_radians_def)
  moreover have "haversine_a lat2 lon2 lat1 lon1 = ?a"
  proof -
    have "sin (to_radians (x - y) / 2) ^ 2 = sin (to_radians (y - x) / 2) ^ 2" for x y
      unfolding half_sin_sq to_radians_diff by (simp add: cos_diff mult.commute)
    from this [of lat1 lat2] this [of lon1 lon2] show ?thesis by (simp add: haversine_a_def Let_def)
  qed
  ultimately show ?thesis by (simp add: haversine_distance_km_def atan2_quadrant_def)
qed

theorem haversine_bounds_witness:
  "0 \<le> haversine_distance_km 31 74 25 67 \<and> haversine_distance_km 31 74 25 67 \<le> pi * 6371"
  using haversine_bounds [of 31 25 74 67] by simp

section \<open>Eligibility\<close>

lemma foldl_tightest:
  "foldl tightest t ts \<in> insert t (set ts) \<and>
    (\<forall>u \<in> insert t (set ts). ft_maxDistanceKm (foldl tightest t ts) \<le> ft_maxDistanceKm u)"
proof (induction ts arbitrary: t)
  case (Cons u ts)
  from Cons.IH [of "tightest t u"] show ?case by (auto simp: tightest_def split: if_splits)
qed simp

text \<open>The fee of a distance: the tightest covering tier's, or the flat fee.\<close>

definition tier_covers :: "restaurant_settings \<Rightarrow> rat \<Rightarrow> fee_tier \<Rightarrow> bool" where
  "tier_covers s x t \<longleftrightarrow> t \<in> set (rs_deliveryFeeTiers s) \<and> x \<le> ft_maxDistanceKm t"

definition fee_rule :: "restaurant_settings \<Rightarrow> rat \<Rightarrow> money \<Rightarrow> bool" where
  "fee_rule s x fee \<longleftrightarrow>
     (\<exists>t. tier_covers s x t \<and> fee = ft_fee t \<and>
        (\<forall>u. tier_covers s x u \<longrightarrow> ft_maxDistanceKm t \<le> ft_maxDistanceKm u)) \<or>
     (fee = rs_deliveryFee s \<and> (\<nexists>t. tier_covers s x t))"

lemma resolve_delivery_fee_spec: "fee_rule s x (resolve_delivery_fee s x)"
proof (cases "filter (\<lambda>t. x \<le> ft_maxDistanceKm t) (rs_deliveryFeeTiers s)")
  case Nil
  then show ?thesis by (auto simp: resolve_delivery_fee_def filter_empty_conv fee_rule_def tier_covers_def)
next
  case (Cons t ts)
  have "foldl tightest t ts \<in> set (t # ts)" "\<forall>u \<in> set (t # ts). ft_maxDistanceKm (foldl tightest t ts) \<le> ft_maxDistanceKm u"
    using foldl_tightest [of t ts] by auto
  moreover have "resolve_delivery_fee s x = ft_fee (foldl tightest t ts)" by (simp add: resolve_delivery_fee_def Cons)
  moreover have "set (t # ts) = {u \<in> set (rs_deliveryFeeTiers s). x \<le> ft_maxDistanceKm u}"
    using arg_cong [OF Cons, of set] by auto
  ultimately show ?thesis unfolding fee_rule_def tier_covers_def by blast
qed

lemma eligible_iff:
  "dg_eligible (check_delivery_eligibility km r lat lng) \<longleftrightarrow>
    rs_deliveryEnabled (res_settings r) \<and>
    (\<exists>rlat rlng radius. res_latitude r = Some rlat \<and> res_longitude r = Some rlng \<and>
       rs_deliveryRadiusKm (res_settings r) = Some radius \<and> radius \<noteq> 0 \<and> km rlat rlng lat lng \<le> radius)"
  by (auto simp: check_delivery_eligibility_def ineligible_def Let_def split: option.splits)

text \<open>A restaurant delivers to a point exactly when delivery is on, its coordinates and a radius are
  set and the distance is within the radius; it then charges the fee of the tightest tier that
  covers the rounded distance, or the flat fee when no tier does.\<close>

theorem delivery_eligible_iff:
  "(dg_eligible (check_delivery_eligibility km r lat lng) \<longleftrightarrow>
    rs_deliveryEnabled (res_settings r) \<and>
    (\<exists>rlat rlng radius. res_latitude r = Some rlat \<and> res_longitude r = Some rlng \<and>
       rs_deliveryRadiusKm (res_settings r) = Some radius \<and> radius \<noteq> 0 \<and> km rlat rlng lat lng \<le> radius)) \<and>
   (dg_eligible (check_delivery_eligibility km r lat lng) \<longrightarrow>
    (\<exists>x fee. dg_distanceKm (check_delivery_eligibility km r lat lng) = Some x \<and>
       dg_deliveryFee (check_delivery_eligibility km r lat lng) = Some fee \<and>
       fee_rule (res_settings r) x fee))"
proof (intro conjI impI)
  assume "dg_eligible (check_delivery_eligibility km r lat lng)"
  then have "\<exists>x. dg_distanceKm (check_delivery_eligibility km r lat lng) = Some x \<and>
      dg_deliveryFee (check_delivery_eligibility km r lat lng) = Some (resolve_delivery_fee (res_settings r) x)"
    by (auto simp: check_delivery_eligibility_def ineligible_def Let_def split: option.splits if_splits)
  then show "\<exists>x fee. dg_distanceKm (check_delivery_eligibility km r lat lng) = Some x \<and>
       dg_deliveryFee (check_delivery_eligibility km r lat lng) = Some fee \<and> fee_rule (res_settings r) x fee"
    using resolve_delivery_fee_spec by blast
qed (rule eligible_iff)

theorem delivery_eligible_iff_witness:
  "\<exists>x fee. dg_distanceKm (check_delivery_eligibility (\<lambda>_ _ _ _. 7) sample_restaurant 1 1) = Some x \<and>
     dg_deliveryFee (check_delivery_eligibility (\<lambda>_ _ _ _. 7) sample_restaurant 1 1) = Some fee \<and>
     fee_rule (res_settings sample_restaurant) x fee"
  using delivery_eligible_iff [of "\<lambda>_ _ _ _. 7" sample_restaurant 1 1]
  by (simp add: sample_restaurant_def sample_settings_def)

text \<open>Checkout asks for a phone number exactly for the orders a third-party courier would take: the
  two lookups agree whenever the account's credentials can be loaded.\<close>

theorem courier_prediction_agrees:
  assumes "\<And>a. a \<in> set (db_courierAccounts d) \<Longrightarrow> builds a"
  shows "third_party_courier_will_dispatch r d \<longleftrightarrow>
    rc_courier (resolve_delivery_provider builds r d) \<noteq> Manual_Courier"
  using assms
  by (auto simp: third_party_courier_will_dispatch_def resolve_delivery_provider_def manual_fallback_def
      active_courier_account_def dest: find_one_SomeD split: option.splits)

theorem courier_prediction_agrees_witness:
  "third_party_courier_will_dispatch sample_restaurant sample_db \<longleftrightarrow>
    rc_courier (resolve_delivery_provider (\<lambda>_. True) sample_restaurant sample_db) \<noteq> Manual_Courier"
  by (rule courier_prediction_agrees) simp

end
