(* ===== verification/Order_Creation.thy ===== *)
theory Order_Creation
  imports Menu_Pricing Business_Hours Promotion Loyalty Contact Delivery_Eligibility
begin

text \<open>
  \<open>services/orderCreation.service.ts\<close> and \<open>services/orderNumber.service.ts\<close>: the one path on which an
  order is created, in the stages of \<open>createOrderForCustomer\<close>. The transaction is the identity on the
  database when any step of it fails. Time zones, the distance, the country names and the id of the new
  document are arguments (\<open>order_env\<close>).
\<close>

section \<open>Order numbers\<close>

text \<open>\<open>findOneAndUpdate($inc, upsert)\<close> on the counter of the restaurant; the number is the one after
  \<open>ORD-\<close>.\<close>

definition counter_seq :: "oid \<Rightarrow> db \<Rightarrow> int" where
  "counter_seq rid d = (case map_of (db_counters d) rid of None \<Rightarrow> 0 | Some n \<Rightarrow> n)"

definition next_order_number :: "oid \<Rightarrow> db \<Rightarrow> int \<times> db" where
  "next_order_number rid d =
     (let n = counter_seq rid d + 1 in
      (1000 + n, d\<lparr>db_counters := AList.update rid n (db_counters d)\<rparr>))"

section \<open>The request\<close>

record create_params =
  cp_restaurantId :: oid
  cp_customerId :: oid
  cp_channel :: order_channel
  cp_items :: "item_request list"
  cp_orderType :: order_type
  cp_paymentMethod :: pay_method
  cp_deliveryAddress :: "delivery_address option"
  cp_tableToken :: "string option"
  cp_tableId :: "oid option"
  cp_customerNotes :: "string option"
  cp_redeemPoints :: money
  cp_promoCode :: "string option"
  cp_isDemoAccount :: bool
  cp_markPaidImmediately :: bool
  cp_createdByUserId :: "oid option"
  cp_marketplace :: "marketplace_ref option"

record order_env =
  oe_off :: "string \<Rightarrow> time \<Rightarrow> int"
  oe_km :: "rat \<Rightarrow> rat \<Rightarrow> rat \<Rightarrow> rat \<Rightarrow> rat"
  oe_countries :: "(string \<times> string) list"
  oe_menu :: menu_db
  oe_now :: time
  oe_newId :: oid

section \<open>The gates\<close>

definition find_active_restaurant :: "oid \<Rightarrow> db \<Rightarrow> restaurant option" where
  "find_active_restaurant rid d =
     find_one (\<lambda>r. res_id r = rid \<and> res_status r = Restaurant_Active) (db_restaurants d)"

definition order_gates :: "order_env \<Rightarrow> create_params \<Rightarrow> restaurant_settings \<Rightarrow> unit result" where
  "order_gates env p s =
     (case compute_availability (oe_off env) s (oe_now env) of
        Closed reason next_open \<Rightarrow> Inl (Bad_Request ''not accepting orders right now'')
      | Paused reason \<Rightarrow> Inl (Bad_Request ''temporarily paused ordering'')
      | Open \<Rightarrow>
          if cp_orderType p = Pickup \<and> \<not> rs_pickupEnabled s
          then Inl (Bad_Request ''Pickup is not available'')
          else if cp_orderType p = Dine_In \<and> \<not> rs_dineInEnabled s
          then Inl (Bad_Request ''Dine-in ordering is not available'')
          else if (cp_paymentMethod p = Cash \<or> cp_paymentMethod p = Card) \<and> \<not> rs_cashEnabled s
          then Inl (Bad_Request ''In-person payment is not available'')
          else if cp_paymentMethod p = Online_Pay \<and> \<not> rs_onlinePaymentEnabled s
          then Inl (Bad_Request ''Online payment is not available'')
          else Inr ())"

definition find_table :: "create_params \<Rightarrow> db \<Rightarrow> dining_table option result" where
  "find_table p d =
     (if cp_orderType p \<noteq> Dine_In then Inr None
      else if truthy_string (cp_tableId p)
      then (case find_one (\<lambda>t. Some (tb_id t) = cp_tableId p \<and> tb_restaurantId t = cp_restaurantId p \<and>
                tb_isActive t) (db_tables d) of
              None \<Rightarrow> Inl (Bad_Request ''This table is not available'')
            | Some t \<Rightarrow> Inr (Some t))
      else (case find_one (\<lambda>t. tb_restaurantId t = cp_restaurantId p \<and> Some (tb_qrToken t) = cp_tableToken p \<and>
                tb_isActive t) (db_tables d) of
              None \<Rightarrow> Inl (Bad_Request ''This table is no longer valid'')
            | Some t \<Rightarrow> Inr (Some t)))"

definition resolve_delivery :: "order_env \<Rightarrow> create_params \<Rightarrow> restaurant \<Rightarrow> (rat option \<times> money) result" where
  "resolve_delivery env p r =
     (if cp_orderType p \<noteq> Delivery then Inr (None, 0)
      else case cp_deliveryAddress p of
          None \<Rightarrow> Inl (Thrown ''TypeError'')
        | Some a \<Rightarrow>
            let e = check_delivery_eligibility (oe_km env) r (da_latitude a) (da_longitude a) in
            if \<not> dg_eligible e then Inl (Bad_Request (nullish (dg_reason e) ''Delivery is not available to this address''))
            else Inr (dg_distanceKm e, nullish (dg_deliveryFee e) (rs_deliveryFee (res_settings r))))"

definition contact_phone :: "order_env \<Rightarrow> create_params \<Rightarrow> restaurant \<Rightarrow> db \<Rightarrow> string option result" where
  "contact_phone env p r d =
     (let given = trim_or_none (Option.bind (cp_deliveryAddress p) da_phone) in
      if cp_orderType p = Delivery \<and> cp_channel p \<noteq> Marketplace_Channel \<and> third_party_courier_will_dispatch r d
      then let account = (case given of
                   Some _ \<Rightarrow> None
                 | None \<Rightarrow> Option.bind (find_one (\<lambda>u. u_id u = cp_customerId p) (db_users d)) u_phone)
           in (case normalize_phone (if given = None then account else given)
                  (normalize_country_code (oe_countries env) (res_country r)) of
                 Inl reason \<Rightarrow> Inl (Bad_Request ''A phone number is needed for courier delivery'')
               | Inr e164 \<Rightarrow> Inr (Some e164))
      else Inr given)"

section \<open>The amounts\<close>

record order_totals =
  ot_subtotal :: money
  ot_loyaltyDiscount :: money
  ot_promoDiscount :: money
  ot_taxable :: money
  ot_tax :: money
  ot_deliveryFee :: money
  ot_total :: money

definition applied_promo ::
  "order_env \<Rightarrow> create_params \<Rightarrow> restaurant \<Rightarrow> money \<Rightarrow> db \<Rightarrow> (promotion \<times> money) option result" where
  "applied_promo env p r subtotal d =
     (case cp_promoCode p of
        None \<Rightarrow> Inr None
      | Some code \<Rightarrow>
          if code = [] then Inr None
          else case validate_promo_code (oe_now env) (cp_restaurantId p) code subtotal (res_businessId r) d of
              Inl e \<Rightarrow> Inl e
            | Inr pd \<Rightarrow> Inr (Some pd))"

definition compute_totals ::
  "create_params \<Rightarrow> restaurant_settings \<Rightarrow> money \<Rightarrow> money \<Rightarrow> money \<Rightarrow> order_totals" where
  "compute_totals p s subtotal pdisc fee =
     (let loyalty = min (cp_redeemPoints p) subtotal;
          taxable = max 0 (subtotal - loyalty - pdisc);
          tax = round_currency (taxable * rs_taxRate s);
          delivery = (if cp_orderType p = Delivery then fee else 0)
      in \<lparr>ot_subtotal = subtotal, ot_loyaltyDiscount = loyalty, ot_promoDiscount = pdisc,
          ot_taxable = taxable, ot_tax = tax, ot_deliveryFee = delivery,
          ot_total = round_currency (taxable + tax + delivery)\<rparr>)"

section \<open>The transaction\<close>

definition build_order ::
  "order_env \<Rightarrow> create_params \<Rightarrow> restaurant_settings \<Rightarrow> int \<Rightarrow> order_item list \<Rightarrow> order_totals \<Rightarrow>
    promotion option \<Rightarrow> dining_table option \<Rightarrow> rat option \<Rightarrow> string option \<Rightarrow> order" where
  "build_order env p s num items t promo table distance phone =
     \<lparr>o_id = oe_newId env, o_restaurantId = cp_restaurantId p, o_customerId = cp_customerId p,
      o_orderNumber = num, o_items = items, o_status = Pending, o_statusHistory = [(Pending, oe_now env)],
      o_orderType = cp_orderType p, o_channel = cp_channel p, o_paymentMethod = cp_paymentMethod p,
      o_paymentStatus = (if cp_markPaidImmediately p \<and> cp_paymentMethod p \<noteq> Online_Pay then Order_Paid else Unpaid),
      o_currency = rs_currency s, o_subtotal = ot_subtotal t, o_taxAmount = ot_tax t,
      o_deliveryFee = ot_deliveryFee t, o_discount = ot_loyaltyDiscount t,
      o_promoCode = map_option pr_code promo, o_promoDiscount = ot_promoDiscount t, o_total = ot_total t,
      o_loyaltyPointsRedeemed = ot_loyaltyDiscount t, o_loyaltyPointsEarned = 0, o_loyaltyReversed = False,
      o_deliveryAddress = (if cp_orderType p = Delivery
        then map_option (\<lambda>a. a\<lparr>da_phone := phone\<rparr>) (cp_deliveryAddress p) else None),
      o_deliveryDistanceKm = (if cp_orderType p = Delivery then distance else None),
      o_tableId = map_option tb_id table, o_tableName = map_option tb_name table,
      o_customerNotes = cp_customerNotes p, o_isDemo = cp_isDemoAccount p,
      o_createdByUserId = cp_createdByUserId p, o_marketplace = cp_marketplace p\<rparr>"

text \<open>The schema's validators and unique indexes (\<open>models/Order.ts\<close>).\<close>

definition order_schema_valid :: "order \<Rightarrow> bool" where
  "order_schema_valid x \<longleftrightarrow>
     o_items x \<noteq> [] \<and> 0 \<le> o_subtotal x \<and> 0 \<le> o_taxAmount x \<and> 0 \<le> o_deliveryFee x \<and> 0 \<le> o_discount x \<and>
     0 \<le> o_promoDiscount x \<and> 0 \<le> o_total x \<and>
     (case o_deliveryDistanceKm x of None \<Rightarrow> True | Some km \<Rightarrow> 0 \<le> km)"

definition order_clash :: "order \<Rightarrow> order \<Rightarrow> bool" where
  "order_clash x y \<longleftrightarrow>
     o_id x = o_id y \<or>
     (o_restaurantId x = o_restaurantId y \<and> o_orderNumber x = o_orderNumber y) \<or>
     (case (o_marketplace x, o_marketplace y) of
        (Some m, Some n) \<Rightarrow> mk_provider m = mk_provider n \<and> mk_externalOrderId m = mk_externalOrderId n
      | _ \<Rightarrow> False)"

definition insert_order :: "order \<Rightarrow> db \<Rightarrow> db result" where
  "insert_order x d =
     (if \<not> order_schema_valid x then Inl (Thrown ''ValidationError'')
      else case insert_unique order_clash x (db_orders d) of
          None \<Rightarrow> Inl (Thrown ''E11000'')
        | Some os \<Rightarrow> Inr (d\<lparr>db_orders := os\<rparr>))"

definition set_earned :: "oid \<Rightarrow> money \<Rightarrow> db \<Rightarrow> db" where
  "set_earned oid earned d =
     d\<lparr>db_orders := update_one (\<lambda>x. o_id x = oid) (\<lambda>x. x\<lparr>o_loyaltyPointsEarned := earned\<rparr>) (db_orders d)\<rparr>"

text \<open>The body of \<open>withTransaction\<close> after the order is built.\<close>

definition order_effects :: "create_params \<Rightarrow> order \<Rightarrow> promotion option \<Rightarrow> db \<Rightarrow> order result \<times> db" where
  "order_effects p x promo d =
     (case insert_order x d of
        Inl e \<Rightarrow> (Inl e, d)
      | Inr d1 \<Rightarrow>
        (case (if o_discount x > 0
               then redeem_points (cp_restaurantId p) (cp_customerId p) (o_discount x) (Some (o_id x)) d1
               else (Inr (), d1)) of
           (Inl e, d2) \<Rightarrow> (Inl e, d2)
         | (Inr _, d2) \<Rightarrow>
           (case (case promo of None \<Rightarrow> (True, d2) | Some pr \<Rightarrow> record_promo_usage (pr_id pr) d2) of
              (False, d3) \<Rightarrow> (Inl (Conflict ''This promo code just reached its usage limit''), d3)
            | (True, d3) \<Rightarrow>
              (case earn_points (cp_restaurantId p) (cp_customerId p) (o_id x) (o_total x) d3 of
                 (Inl e, d4) \<Rightarrow> (Inl e, d4)
               | (Inr earned, d4) \<Rightarrow>
                   (Inr (x\<lparr>o_loyaltyPointsEarned := earned\<rparr>), set_earned (o_id x) earned d4)))))"

definition order_transaction ::
  "order_env \<Rightarrow> create_params \<Rightarrow> restaurant \<Rightarrow> order_item list \<Rightarrow> order_totals \<Rightarrow> promotion option \<Rightarrow>
    dining_table option \<Rightarrow> rat option \<Rightarrow> string option \<Rightarrow> db \<Rightarrow> order result \<times> db" where
  "order_transaction env p r items t promo table distance phone d =
     (let (num, d1) = next_order_number (res_id r) d;
          x = build_order env p (res_settings r) num items t promo table distance phone
      in case order_effects p x promo d1 of
           (Inl e, d') \<Rightarrow> (Inl e, d)
         | (Inr y, d') \<Rightarrow> (Inr y, d'))"

section \<open>The whole path\<close>

record priced_request =
  pq_restaurant :: restaurant
  pq_table :: "dining_table option"
  pq_distance :: "rat option"
  pq_phone :: "string option"
  pq_items :: "order_item list"
  pq_promo :: "(promotion \<times> money) option"
  pq_totals :: order_totals

text \<open>Everything before the transaction: reads only.\<close>

definition prepare_order :: "order_env \<Rightarrow> create_params \<Rightarrow> db \<Rightarrow> priced_request result" where
  "prepare_order env p d =
     (case find_active_restaurant (cp_restaurantId p) d of
        None \<Rightarrow> Inl (Not_Found ''Restaurant not found'')
      | Some r \<Rightarrow>
        (case order_gates env p (res_settings r) of
           Inl e \<Rightarrow> Inl e
         | Inr _ \<Rightarrow>
           (case find_table p d of
              Inl e \<Rightarrow> Inl e
            | Inr table \<Rightarrow>
              (case resolve_delivery env p r of
                 Inl e \<Rightarrow> Inl e
               | Inr (distance, fee) \<Rightarrow>
                 (case contact_phone env p r d of
                    Inl e \<Rightarrow> Inl e
                  | Inr phone \<Rightarrow>
                    (case price_order_items d (oe_menu env) (cp_restaurantId p) (cp_items p) of
                       Inl e \<Rightarrow> Inl e
                     | Inr (items, subtotal) \<Rightarrow>
                       if subtotal < rs_minOrderAmount (res_settings r)
                       then Inl (Bad_Request ''Minimum order amount'')
                       else (case applied_promo env p r subtotal d of
                          Inl e \<Rightarrow> Inl e
                        | Inr promo \<Rightarrow> Inr
                            \<lparr>pq_restaurant = r, pq_table = table, pq_distance = distance, pq_phone = phone,
                             pq_items = items, pq_promo = promo,
                             pq_totals = compute_totals p (res_settings r) subtotal
                               (case promo of None \<Rightarrow> 0 | Some (_, disc) \<Rightarrow> disc) fee\<rparr>)))))))"

definition created_event :: "order \<Rightarrow> order_event" where
  "created_event x =
     \<lparr>ev_type = Evt_Created, ev_orderId = o_id x, ev_status = Pending, ev_paymentOutcome = None,
      ev_amount = None, ev_deliveryStatus = None\<rparr>"

definition create_order_for_customer :: "order_env \<Rightarrow> create_params \<Rightarrow> db \<Rightarrow> order result \<times> db" where
  "create_order_for_customer env p d =
     (case prepare_order env p d of
        Inl e \<Rightarrow> (Inl e, d)
      | Inr q \<Rightarrow>
        (case order_transaction env p (pq_restaurant q) (pq_items q) (pq_totals q)
                (map_option fst (pq_promo q)) (pq_table q) (pq_distance q) (pq_phone q) d of
           (Inl e, d') \<Rightarrow> (Inl e, d')
         | (Inr x, d') \<Rightarrow> (Inr x, emit_order_event (created_event x) d')))"

section \<open>The amounts of an order\<close>

lemma compute_totals_simps [simp]:
  "ot_subtotal (compute_totals p s subtotal disc fee) = subtotal"
  "ot_loyaltyDiscount (compute_totals p s subtotal disc fee) = min (cp_redeemPoints p) subtotal"
  "ot_promoDiscount (compute_totals p s subtotal disc fee) = disc"
  by (simp_all add: compute_totals_def Let_def)

text \<open>The relation between the amounts stored on an order.\<close>

definition amounts_ok :: "restaurant_settings \<Rightarrow> order \<Rightarrow> bool" where
  "amounts_ok s x \<longleftrightarrow>
     o_subtotal x = sum_list (map oi_lineTotal (o_items x)) \<and>
     o_discount x \<le> o_subtotal x \<and> o_loyaltyPointsRedeemed x = o_discount x \<and>
     (let taxable = max 0 (o_subtotal x - o_discount x - o_promoDiscount x) in
        o_taxAmount x = round_currency (taxable * rs_taxRate s) \<and>
        o_total x = round_currency (taxable + o_taxAmount x + o_deliveryFee x)) \<and>
     whole_cents (o_total x) \<and> o_currency x = rs_currency s \<and>
     rs_minOrderAmount s \<le> o_subtotal x \<and>
     (o_orderType x \<noteq> Delivery \<longrightarrow> o_deliveryFee x = 0)"

lemma build_order_amounts:
  assumes "price_order_items d md rid irs = Inr (items, subtotal)" "rs_minOrderAmount s \<le> subtotal"
  shows "amounts_ok s (build_order env p s num items (compute_totals p s subtotal disc fee) promo table km phone)"
proof -
  have "subtotal = sum_list (map oi_lineTotal items)"
    using assms(1) by (auto simp: price_order_items_def Let_def foldl_sum split: prod.splits sum.splits if_splits)
  with assms(2) show ?thesis by (auto simp: amounts_ok_def build_order_def compute_totals_def Let_def)
qed

lemma insert_order_InrD: "insert_order x d = Inr d1 \<Longrightarrow>
    d1 = d\<lparr>db_orders := db_orders d @ [x]\<rparr> \<and> order_schema_valid x \<and> (\<forall>y \<in> set (db_orders d). \<not> order_clash x y)"
  by (auto simp: insert_order_def dest: insert_unique_SomeD split: if_splits option.splits)

text \<open>What a successful transaction did, step by step.\<close>

lemma order_effects_InrE:
  assumes "order_effects p x promo d = (Inr y, d')"
  obtains d2 d3 earned d4 where
    "order_schema_valid x" "\<forall>z \<in> set (db_orders d). \<not> order_clash x z"
    "(if o_discount x > 0
      then redeem_points (cp_restaurantId p) (cp_customerId p) (o_discount x) (Some (o_id x)) (d\<lparr>db_orders := db_orders d @ [x]\<rparr>)
      else (Inr (), d\<lparr>db_orders := db_orders d @ [x]\<rparr>)) = (Inr (), d2)"
    "(case promo of None \<Rightarrow> (True, d2) | Some pr \<Rightarrow> record_promo_usage (pr_id pr) d2) = (True, d3)"
    "earn_points (cp_restaurantId p) (cp_customerId p) (o_id x) (o_total x) d3 = (Inr earned, d4)"
    "y = x\<lparr>o_loyaltyPointsEarned := earned\<rparr>" "d' = set_earned (o_id x) earned d4"
proof -
  from assms obtain d1 where d1: "insert_order x d = Inr d1" by (auto simp: order_effects_def split: sum.splits)
  note D = insert_order_InrD [OF d1]
  from assms d1 D that show thesis
    by (auto simp: order_effects_def split: sum.splits prod.splits bool.splits if_splits)
qed

lemma redeem_orders: "db_orders (snd (redeem_points rid cid pts oid d)) = db_orders d"
  by (auto simp: redeem_points_def Let_def add_txn_def set_account_def split: option.splits)

lemma earn_orders: "db_orders (snd (earn_points rid cid oid s d)) = db_orders d"
  by (auto simp: earn_points_def Let_def add_txn_def set_account_def get_or_create_account_def
      split: option.splits prod.splits)

lemma promo_usage_orders: "db_orders (snd (record_promo_usage pid d)) = db_orders d"
  by (simp add: record_promo_usage_def Let_def)

lemma update_last:
  "(\<forall>z \<in> set xs. \<not> q z) \<Longrightarrow> q x \<Longrightarrow> update_one q f (xs @ [x]) = xs @ [f x]"
  by (induction xs) auto

lemma order_effects_stored:
  assumes "order_effects p x promo d = (Inr y, d')"
  shows "db_orders d' = db_orders d @ [y] \<and> order_schema_valid x \<and> (\<exists>e. y = x\<lparr>o_loyaltyPointsEarned := e\<rparr>)"
  using assms
proof (rule order_effects_InrE)
  fix d2 d3 earned d4
  assume v: "order_schema_valid x" and n: "\<forall>z \<in> set (db_orders d). \<not> order_clash x z"
    and r: "(if o_discount x > 0
      then redeem_points (cp_restaurantId p) (cp_customerId p) (o_discount x) (Some (o_id x)) (d\<lparr>db_orders := db_orders d @ [x]\<rparr>)
      else (Inr (), d\<lparr>db_orders := db_orders d @ [x]\<rparr>)) = (Inr (), d2)"
    and u: "(case promo of None \<Rightarrow> (True, d2) | Some pr \<Rightarrow> record_promo_usage (pr_id pr) d2) = (True, d3)"
    and e: "earn_points (cp_restaurantId p) (cp_customerId p) (o_id x) (o_total x) d3 = (Inr earned, d4)"
    and y: "y = x\<lparr>o_loyaltyPointsEarned := earned\<rparr>" "d' = set_earned (o_id x) earned d4"
  have "db_orders d2 = db_orders d @ [x]"
    using r redeem_orders [of "cp_restaurantId p" "cp_customerId p" "o_discount x" "Some (o_id x)"
        "d\<lparr>db_orders := db_orders d @ [x]\<rparr>"] by (auto split: if_splits)
  moreover have "db_orders d3 = db_orders d2"
    using u promo_usage_orders by (cases promo) (auto, metis snd_conv)
  moreover have "db_orders d4 = db_orders d3" using e earn_orders by (metis snd_conv)
  moreover have "\<forall>z \<in> set (db_orders d). o_id z \<noteq> o_id x" using n by (auto simp: order_clash_def)
  ultimately have "db_orders d' = db_orders d @ [y]" by (simp add: y set_earned_def update_last)
  with v y show ?thesis by blast
qed

lemma prepare_order_InrE:
  assumes "prepare_order env p d = Inr q"
  obtains table distance fee phone items subtotal promo where
    "find_active_restaurant (cp_restaurantId p) d = Some (pq_restaurant q)"
    "order_gates env p (res_settings (pq_restaurant q)) = Inr ()"
    "find_table p d = Inr table" "resolve_delivery env p (pq_restaurant q) = Inr (distance, fee)"
    "contact_phone env p (pq_restaurant q) d = Inr phone"
    "price_order_items d (oe_menu env) (cp_restaurantId p) (cp_items p) = Inr (items, subtotal)"
    "rs_minOrderAmount (res_settings (pq_restaurant q)) \<le> subtotal"
    "applied_promo env p (pq_restaurant q) subtotal d = Inr promo"
    "q = \<lparr>pq_restaurant = pq_restaurant q, pq_table = table, pq_distance = distance, pq_phone = phone,
         pq_items = items, pq_promo = promo,
         pq_totals = compute_totals p (res_settings (pq_restaurant q)) subtotal
           (case promo of None \<Rightarrow> 0 | Some (_, disc) \<Rightarrow> disc) fee\<rparr>"
  using assms by (auto simp: prepare_order_def split: option.splits sum.splits if_splits prod.splits)

lemma create_order_InrE:
  assumes "create_order_for_customer env p d = (Inr x, d')"
  obtains q d1 d2 where "prepare_order env p d = Inr q"
    "next_order_number (res_id (pq_restaurant q)) d = (1000 + counter_seq (res_id (pq_restaurant q)) d + 1, d1)"
    "order_effects p (build_order env p (res_settings (pq_restaurant q))
       (1000 + counter_seq (res_id (pq_restaurant q)) d + 1) (pq_items q) (pq_totals q)
       (map_option fst (pq_promo q)) (pq_table q) (pq_distance q) (pq_phone q)) (map_option fst (pq_promo q)) d1 =
     (Inr x, d2)"
    "d' = emit_order_event (created_event x) d2" "db_orders d1 = db_orders d"
  using assms that
  by (auto simp: create_order_for_customer_def order_transaction_def next_order_number_def Let_def algebra_simps
      split: sum.splits prod.splits)

text \<open>C1. A created order is priced from the menu of an active, open restaurant: each line is a line of
  the request at the location's prices, the subtotal is their sum and reaches the minimum, tax is the
  tax rate of what the discounts leave, the total is that plus tax and delivery fee in whole cents,
  no amount is negative, and the order starts pending and unpaid unless staff took the money.\<close>

theorem created_order_amounts:
  assumes "create_order_for_customer env p d = (Inr x, d')"
  shows "\<exists>r. find_active_restaurant (cp_restaurantId p) d = Some r \<and>
    compute_availability (oe_off env) (res_settings r) (oe_now env) = Open \<and>
    list_all2 (line_priced d (oe_menu env) (cp_restaurantId p)) (cp_items p) (o_items x) \<and>
    amounts_ok (res_settings r) x \<and> order_schema_valid x \<and>
    o_status x = Pending \<and> o_statusHistory x = [(Pending, oe_now env)] \<and>
    (o_paymentStatus x = Order_Paid \<longleftrightarrow> cp_markPaidImmediately p \<and> cp_paymentMethod p \<noteq> Online_Pay) \<and>
    db_orders d' = db_orders d @ [x]"
  using assms
proof (rule create_order_InrE)
  fix q :: priced_request and d1 d2
  let ?r = "pq_restaurant q" and ?num = "1000 + counter_seq (res_id (pq_restaurant q)) d + 1"
  let ?b = "build_order env p (res_settings ?r) ?num (pq_items q) (pq_totals q)
       (map_option fst (pq_promo q)) (pq_table q) (pq_distance q) (pq_phone q)"
  assume q: "prepare_order env p d = Inr q"
    and eff: "order_effects p ?b (map_option fst (pq_promo q)) d1 = (Inr x, d2)"
    and d': "d' = emit_order_event (created_event x) d2" "db_orders d1 = db_orders d"
  from order_effects_stored [OF eff] obtain e where st: "db_orders d2 = db_orders d1 @ [x]"
    "order_schema_valid ?b" and x: "x = ?b\<lparr>o_loyaltyPointsEarned := e\<rparr>" by blast
  have keep: "amounts_ok s (y\<lparr>o_loyaltyPointsEarned := e\<rparr>) = amounts_ok s y"
    "order_schema_valid (y\<lparr>o_loyaltyPointsEarned := e\<rparr>) = order_schema_valid y" for s y
    by (simp_all add: amounts_ok_def order_schema_valid_def)
  from q show ?thesis
  proof (rule prepare_order_InrE)
    fix table distance fee phone items subtotal promo
    assume r: "find_active_restaurant (cp_restaurantId p) d = Some ?r"
      and gates: "order_gates env p (res_settings ?r) = Inr ()"
      and price: "price_order_items d (oe_menu env) (cp_restaurantId p) (cp_items p) = Inr (items, subtotal)"
      and min: "rs_minOrderAmount (res_settings ?r) \<le> subtotal"
      and qeq: "q = \<lparr>pq_restaurant = ?r, pq_table = table, pq_distance = distance, pq_phone = phone,
         pq_items = items, pq_promo = promo,
         pq_totals = compute_totals p (res_settings ?r) subtotal
           (case promo of None \<Rightarrow> 0 | Some (_, disc) \<Rightarrow> disc) fee\<rparr>"
    have items: "pq_items q = items" "pq_totals q = compute_totals p (res_settings ?r) subtotal
           (case promo of None \<Rightarrow> 0 | Some (_, disc) \<Rightarrow> disc) fee" by (subst qeq, simp)+
    have "amounts_ok (res_settings ?r) ?b" unfolding items by (rule build_order_amounts [OF price min])
    moreover have "list_all2 (line_priced d (oe_menu env) (cp_restaurantId p)) (cp_items p) items"
    proof -
      obtain its groups where em: "effective_menu d (oe_menu env) (cp_restaurantId p) (map ir_menuItemId (cp_items p)) = (its, groups)"
        by fastforce
      with price em have "price_items its groups (cp_items p) = Inr items"
        by (auto simp: price_order_items_def Let_def split: sum.splits if_splits)
      then show ?thesis unfolding price_items_Inr_iff
        by (rule list_all2_mono) (rule price_item_sound [OF em])
    qed
    moreover have "compute_availability (oe_off env) (res_settings ?r) (oe_now env) = Open"
      using gates by (auto simp: order_gates_def split: availability.splits if_splits)
    ultimately show ?thesis using r st d' by (simp add: x keep) (simp add: build_order_def items emit_order_event_def)
  qed
qed

section \<open>Points, promotions and numbers\<close>

lemma redeem_InrD:
  assumes "redeem_points rid cid pts oid d = (Inr (), d')"
  shows "balance_of rid cid d' = balance_of rid cid d - pts \<and> 0 < pts \<and> pts \<le> balance_of rid cid d"
  using assms
  by (auto simp: redeem_points_def Let_def balance_of_def add_txn_set_account split: option.splits if_splits)

lemma earn_InrD:
  assumes "loyalty_inv d" "earn_points rid cid oid s d = (Inr e, d')"
  shows "balance_of rid cid d' = balance_of rid cid d + e \<and> e = max 0 (of_int \<lfloor>s\<rfloor>)"
proof -
  obtain a d1 where g: "get_or_create_account rid cid d = (a, d1)" by fastforce
  from get_or_create [OF assms(1) g] assms(2) g earn_points_inv [OF assms(1), of rid cid oid s]
  show ?thesis
    by (auto simp: earn_points_def Let_def add_txn_set_account set_account_twice balance_of_def [of _ _ d']
        points_for_spend_def split: option.splits if_splits)
qed

lemma promo_usage_accounts:
  "loyalty_inv (snd (record_promo_usage pid d)) = loyalty_inv d"
  "balance_of rid cid (snd (record_promo_usage pid d)) = balance_of rid cid d"
  by (simp_all add: record_promo_usage_def Let_def loyalty_inv_def ledger_def balance_of_def find_account_def)

lemma loyalty_inv_cong:
  assumes "db_loyaltyAccounts d' = db_loyaltyAccounts d" "db_loyaltyTxns d' = db_loyaltyTxns d"
  shows "loyalty_inv d' = loyalty_inv d" "balance_of rid cid d' = balance_of rid cid d"
  using assms by (simp_all add: loyalty_inv_def ledger_def balance_of_def find_account_def)

lemma order_effects_points:
  assumes inv: "loyalty_inv d" and eff: "order_effects p x promo d = (Inr y, d')"
  shows "loyalty_inv d' \<and> o_loyaltyPointsEarned y = max 0 (of_int \<lfloor>o_total x\<rfloor>) \<and>
    o_discount x \<le> balance_of (cp_restaurantId p) (cp_customerId p) d \<and>
    balance_of (cp_restaurantId p) (cp_customerId p) d' =
      balance_of (cp_restaurantId p) (cp_customerId p) d - o_discount x + o_loyaltyPointsEarned y"
  using eff
proof (rule order_effects_InrE)
  let ?rid = "cp_restaurantId p" and ?cid = "cp_customerId p"
  fix d2 d3 earned d4
  assume v: "order_schema_valid x"
    and r: "(if o_discount x > 0
      then redeem_points ?rid ?cid (o_discount x) (Some (o_id x)) (d\<lparr>db_orders := db_orders d @ [x]\<rparr>)
      else (Inr (), d\<lparr>db_orders := db_orders d @ [x]\<rparr>)) = (Inr (), d2)"
    and u: "(case promo of None \<Rightarrow> (True, d2) | Some pr \<Rightarrow> record_promo_usage (pr_id pr) d2) = (True, d3)"
    and e: "earn_points ?rid ?cid (o_id x) (o_total x) d3 = (Inr earned, d4)"
    and y: "y = x\<lparr>o_loyaltyPointsEarned := earned\<rparr>" "d' = set_earned (o_id x) earned d4"
  have nonneg: "0 \<le> o_discount x" using v by (simp add: order_schema_valid_def)
  have bal0: "0 \<le> balance_of ?rid ?cid d"
    using account_nonneg [OF inv] by (auto simp: balance_of_def split: option.splits)
  have "loyalty_inv d2 \<and> balance_of ?rid ?cid d2 = balance_of ?rid ?cid d - o_discount x \<and>
    o_discount x \<le> balance_of ?rid ?cid d"
  proof (cases "o_discount x > 0")
    case True
    with r have r': "redeem_points ?rid ?cid (o_discount x) (Some (o_id x)) (d\<lparr>db_orders := db_orders d @ [x]\<rparr>) = (Inr (), d2)"
      by simp
    have "loyalty_inv d2"
      using redeem_points_inv [of "d\<lparr>db_orders := db_orders d @ [x]\<rparr>" ?rid ?cid "o_discount x" "Some (o_id x)"]
        inv by (simp add: r')
    moreover have "balance_of ?rid ?cid d2 = balance_of ?rid ?cid d - o_discount x \<and> o_discount x \<le> balance_of ?rid ?cid d"
      using redeem_InrD [OF r'] by simp
    ultimately show ?thesis by blast
  next
    case False
    with r nonneg inv bal0 show ?thesis by auto
  qed
  then have d2: "loyalty_inv d2" "balance_of ?rid ?cid d2 = balance_of ?rid ?cid d - o_discount x"
    "o_discount x \<le> balance_of ?rid ?cid d" by blast+
  have d3: "loyalty_inv d3" "balance_of ?rid ?cid d3 = balance_of ?rid ?cid d2"
    using u promo_usage_accounts d2(1) by (cases promo; simp; metis snd_conv)+
  have "loyalty_inv d4" using earn_points_inv [OF d3(1)] e by (metis snd_conv)
  moreover have "balance_of ?rid ?cid d4 = balance_of ?rid ?cid d3 + earned \<and> earned = max 0 (of_int \<lfloor>o_total x\<rfloor>)"
    using earn_InrD [OF d3(1) e] .
  moreover have "loyalty_inv d' = loyalty_inv d4" "balance_of ?rid ?cid d' = balance_of ?rid ?cid d4"
    unfolding y set_earned_def by (rule loyalty_inv_cong; simp)+
  ultimately show ?thesis using d2 d3 by (simp add: y)
qed

text \<open>An order moves its points once: the customer had the points spent, the balance falls by the
  discount and grows by the whole units of the total, the order records both numbers, and the ledger
  invariant holds after it.\<close>

theorem created_order_points:
  assumes "loyalty_inv d" "create_order_for_customer env p d = (Inr x, d')"
  shows "loyalty_inv d' \<and> o_discount x \<le> balance_of (cp_restaurantId p) (cp_customerId p) d \<and>
    o_loyaltyPointsRedeemed x = o_discount x \<and> o_loyaltyPointsEarned x = max 0 (of_int \<lfloor>o_total x\<rfloor>) \<and>
    balance_of (cp_restaurantId p) (cp_customerId p) d' =
      balance_of (cp_restaurantId p) (cp_customerId p) d - o_loyaltyPointsRedeemed x + o_loyaltyPointsEarned x"
  using assms(2)
proof (rule create_order_InrE)
  fix q :: priced_request and d1 d2
  let ?num = "1000 + counter_seq (res_id (pq_restaurant q)) d + 1"
  let ?b = "build_order env p (res_settings (pq_restaurant q)) ?num (pq_items q) (pq_totals q)
       (map_option fst (pq_promo q)) (pq_table q) (pq_distance q) (pq_phone q)"
  assume n: "next_order_number (res_id (pq_restaurant q)) d = (?num, d1)"
    and eff: "order_effects p ?b (map_option fst (pq_promo q)) d1 = (Inr x, d2)"
    and d': "d' = emit_order_event (created_event x) d2"
  have "loyalty_inv d1" "balance_of (cp_restaurantId p) (cp_customerId p) d1 = balance_of (cp_restaurantId p) (cp_customerId p) d"
    using n assms(1) by (auto simp: next_order_number_def Let_def loyalty_inv_def ledger_def balance_of_def find_account_def)
  note P = order_effects_points [OF this(1) eff] this(2)
  from order_effects_stored [OF eff] obtain e where x: "x = ?b\<lparr>o_loyaltyPointsEarned := e\<rparr>" by blast
  have "o_discount x = o_discount ?b" "o_total x = o_total ?b" "o_loyaltyPointsRedeemed x = o_discount ?b"
    by (simp_all add: x build_order_def)
  moreover have "loyalty_inv d' = loyalty_inv d2"
    "balance_of (cp_restaurantId p) (cp_customerId p) d' = balance_of (cp_restaurantId p) (cp_customerId p) d2"
    unfolding d' emit_order_event_def by (rule loyalty_inv_cong; simp)+
  ultimately show ?thesis using P by simp
qed


definition numbers_ok :: "db \<Rightarrow> bool" where
  "numbers_ok d \<longleftrightarrow>
     (\<forall>x \<in> set (db_orders d). o_orderNumber x \<le> 1000 + counter_seq (o_restaurantId x) d) \<and>
     distinct (map (\<lambda>x. (o_restaurantId x, o_orderNumber x)) (db_orders d))"

lemma counters_effects:
  assumes "order_effects p x promo d = (Inr y, d')"
  shows "db_counters d' = db_counters d"
proof -
  have r: "db_counters (snd (redeem_points rid cid pts oid d)) = db_counters d" for rid cid pts oid d
    by (auto simp: redeem_points_def Let_def add_txn_def set_account_def split: option.splits)
  have e: "db_counters (snd (earn_points rid cid oid s d)) = db_counters d" for rid cid oid s d
    by (auto simp: earn_points_def Let_def add_txn_def set_account_def get_or_create_account_def
        split: option.splits prod.splits)
  have u: "db_counters (snd (record_promo_usage pid d)) = db_counters d" for pid d
    by (simp add: record_promo_usage_def Let_def)
  from assms show ?thesis
  proof (rule order_effects_InrE)
    fix d2 d3 earned d4
    assume a: "(if o_discount x > 0
      then redeem_points (cp_restaurantId p) (cp_customerId p) (o_discount x) (Some (o_id x)) (d\<lparr>db_orders := db_orders d @ [x]\<rparr>)
      else (Inr (), d\<lparr>db_orders := db_orders d @ [x]\<rparr>)) = (Inr (), d2)"
      "(case promo of None \<Rightarrow> (True, d2) | Some pr \<Rightarrow> record_promo_usage (pr_id pr) d2) = (True, d3)"
      "earn_points (cp_restaurantId p) (cp_customerId p) (o_id x) (o_total x) d3 = (Inr earned, d4)"
      "d' = set_earned (o_id x) earned d4"
    have "db_counters d2 = db_counters d"
      using a(1) r [of "cp_restaurantId p" "cp_customerId p" "o_discount x" "Some (o_id x)" "d\<lparr>db_orders := db_orders d @ [x]\<rparr>"]
      by (auto split: if_splits)
    moreover have "db_counters d3 = db_counters d2" using a(2) u by (cases promo; simp; metis snd_conv)
    moreover have "db_counters d4 = db_counters d3" using a(3) e by (metis snd_conv)
    ultimately show ?thesis by (simp add: a(4) set_earned_def)
  qed
qed

text \<open>Order numbers of a restaurant are never reused: a new order gets the number after the
  restaurant's last one, above every number it has, and all numbers stay distinct per restaurant.\<close>

theorem order_numbers_fresh:
  assumes "numbers_ok d" "create_order_for_customer env p d = (Inr x, d')"
  shows "numbers_ok d' \<and> o_orderNumber x = 1000 + counter_seq (o_restaurantId x) d + 1 \<and>
    (\<forall>y \<in> set (db_orders d). o_restaurantId y = o_restaurantId x \<longrightarrow> o_orderNumber y < o_orderNumber x)"
  using assms(2)
proof (rule create_order_InrE)
  fix q :: priced_request and d1 d2
  let ?rid = "res_id (pq_restaurant q)"
  let ?b = "build_order env p (res_settings (pq_restaurant q)) (1000 + counter_seq ?rid d + 1) (pq_items q) (pq_totals q)
       (map_option fst (pq_promo q)) (pq_table q) (pq_distance q) (pq_phone q)"
  assume q: "prepare_order env p d = Inr q"
    and n: "next_order_number ?rid d = (1000 + counter_seq ?rid d + 1, d1)"
    and eff: "order_effects p ?b (map_option fst (pq_promo q)) d1 = (Inr x, d2)"
    and d': "d' = emit_order_event (created_event x) d2" "db_orders d1 = db_orders d"
  have rid: "?rid = cp_restaurantId p"
    using q by (rule prepare_order_InrE) (auto simp: find_active_restaurant_def dest: find_one_SomeD)
  from order_effects_stored [OF eff] obtain e where st: "db_orders d2 = db_orders d @ [x]"
    and x: "x = ?b\<lparr>o_loyaltyPointsEarned := e\<rparr>" using d' by auto
  have num: "o_restaurantId x = ?rid" "o_orderNumber x = 1000 + counter_seq ?rid d + 1"
    by (simp_all add: x build_order_def rid)
  have seq: "counter_seq k d' = (if k = ?rid then counter_seq ?rid d + 1 else counter_seq k d)" for k
    using n counters_effects [OF eff]
    by (auto simp: d' emit_order_event_def next_order_number_def Let_def counter_seq_def update_conv')
  have os: "db_orders d' = db_orders d @ [x]" by (simp add: d' emit_order_event_def st)
  have le: "\<forall>y \<in> set (db_orders d). o_restaurantId y = ?rid \<longrightarrow> o_orderNumber y < o_orderNumber x"
    using assms(1) num by (auto simp: numbers_ok_def)
  then have "numbers_ok d'"
    using assms(1) num unfolding numbers_ok_def os by (auto simp: seq)
  with num le show ?thesis by auto
qed

section \<open>A sample order\<close>

definition sample_env :: order_env where
  "sample_env = \<lparr>oe_off = \<lambda>_ _. 0, oe_km = \<lambda>_ _ _ _. 2, oe_countries = [], oe_menu = sample_menu,
     oe_now = 0, oe_newId = ''o9''\<rparr>"

definition sample_params :: create_params where
  "sample_params =
     \<lparr>cp_restaurantId = ''r1'', cp_customerId = ''u1'', cp_channel = Online_Channel, cp_items = [sample_request],
      cp_orderType = Pickup, cp_paymentMethod = Online_Pay, cp_deliveryAddress = None, cp_tableToken = None,
      cp_tableId = None, cp_customerNotes = None, cp_redeemPoints = 4, cp_promoCode = None,
      cp_isDemoAccount = False, cp_markPaidImmediately = False, cp_createdByUserId = None, cp_marketplace = None\<rparr>"

definition sample_created :: "order result \<times> db" where
  "sample_created = create_order_for_customer sample_env sample_params (sample_loyalty_db\<lparr>db_orders := []\<rparr>)"

lemma sample_created_ok: "map_option o_total (case fst sample_created of Inl _ \<Rightarrow> None | Inr x \<Rightarrow> Some x) = Some (99 / 5)"
  by code_simp

lemma sample_createdE:
  obtains x d' where
    "create_order_for_customer sample_env sample_params (sample_loyalty_db\<lparr>db_orders := []\<rparr>) = (Inr x, d')"
    "o_total x = 99 / 5"
  using sample_created_ok that by (cases sample_created) (auto simp: sample_created_def split: sum.splits)

theorem created_order_amounts_witness:
  "\<exists>x d'. create_order_for_customer sample_env sample_params (sample_loyalty_db\<lparr>db_orders := []\<rparr>) = (Inr x, d') \<and>
    o_total x = 99 / 5 \<and> order_schema_valid x \<and> db_orders d' = [x]"
  by (rule sample_createdE) (use created_order_amounts in fastforce)

theorem created_order_points_witness:
  "\<exists>x d'. create_order_for_customer sample_env sample_params (sample_loyalty_db\<lparr>db_orders := []\<rparr>) = (Inr x, d') \<and>
    o_loyaltyPointsEarned x = 19 \<and> loyalty_inv d'"
proof (rule sample_createdE)
  fix x d'
  assume x: "create_order_for_customer sample_env sample_params (sample_loyalty_db\<lparr>db_orders := []\<rparr>) = (Inr x, d')"
    "o_total x = 99 / 5"
  have "loyalty_inv (sample_loyalty_db\<lparr>db_orders := []\<rparr>)" using sample_loyalty_inv by simp
  from created_order_points [OF this x(1)] x show ?thesis by (auto simp: floor_divide_of_int_eq [of 99 5, simplified])
qed



theorem order_numbers_fresh_witness:
  "\<exists>x d'. create_order_for_customer sample_env sample_params (sample_loyalty_db\<lparr>db_orders := []\<rparr>) = (Inr x, d') \<and>
    o_orderNumber x = 1001 \<and> numbers_ok d'"
proof (rule sample_createdE)
  fix x d'
  assume x: "create_order_for_customer sample_env sample_params (sample_loyalty_db\<lparr>db_orders := []\<rparr>) = (Inr x, d')"
  have "numbers_ok (sample_loyalty_db\<lparr>db_orders := []\<rparr>)" by (simp add: numbers_ok_def)
  from order_numbers_fresh [OF this x] x show ?thesis
    by (auto simp: counter_seq_def sample_loyalty_db_def sample_db_def)
qed

end
