(* ===== verification/Order_State.thy ===== *)
theory Order_State
  imports Domain
begin

text \<open>
  \<open>services/orderStateMachine.ts\<close>: the order status table, the order-type dependent check and
  the terminal test. The table is interpreted as a ranked status table, which gives the facts
  about whole status histories.
\<close>

fun order_transitions :: "order_status \<Rightarrow> order_status list" where
  "order_transitions Pending = [Confirmed, Cancelled]"
| "order_transitions Confirmed = [Preparing, Cancelled]"
| "order_transitions Preparing = [Ready, Cancelled]"
| "order_transitions Ready = [Out_For_Delivery, Completed, Cancelled]"
| "order_transitions Out_For_Delivery = [Completed, Cancelled]"
| "order_transitions Completed = []"
| "order_transitions Cancelled = []"

definition is_valid_status_transition :: "order_status \<Rightarrow> order_status \<Rightarrow> order_type \<Rightarrow> bool" where
  "is_valid_status_transition from to ty =
     (if to \<notin> set (order_transitions from) then False
      else if from = Ready \<and> to = Out_For_Delivery \<and> ty \<noteq> Delivery then False
      else if from = Ready \<and> to = Completed \<and> ty \<noteq> Pickup \<and> ty \<noteq> Dine_In then False
      else True)"

definition is_terminal_status :: "order_status \<Rightarrow> bool" where
  "is_terminal_status s = (length (order_transitions s) = 0)"

fun order_rank :: "order_status \<Rightarrow> nat" where
  "order_rank Pending = 0"
| "order_rank Confirmed = 1"
| "order_rank Preparing = 2"
| "order_rank Ready = 3"
| "order_rank Out_For_Delivery = 4"
| "order_rank Completed = 5"
| "order_rank Cancelled = 5"

lemma is_terminal_iff: "is_terminal_status s \<longleftrightarrow> s = Completed \<or> s = Cancelled"
  by (cases s) (auto simp: is_terminal_status_def)

lemma transition_in_table: "is_valid_status_transition s t ty \<Longrightarrow> t \<in> set (order_transitions s)"
  by (auto simp: is_valid_status_transition_def split: if_splits)

interpretation order_table: ranked_table "\<lambda>s t. is_valid_status_transition s t ty" is_terminal_status order_rank
proof unfold_locales
  show "is_terminal_status s \<Longrightarrow> \<not> is_valid_status_transition s t ty" for s t
    by (auto simp: is_terminal_iff dest: transition_in_table)
  show "is_valid_status_transition s t ty \<Longrightarrow> order_rank s < order_rank t" for s t
    by (cases s) (auto dest!: transition_in_table)
qed

lemma cancel_allowed: "is_valid_status_transition s Cancelled ty \<longleftrightarrow> \<not> is_terminal_status s"
  by (cases s) (auto simp: is_valid_status_transition_def is_terminal_iff)

text \<open>A status history the table allows, and the one history that ends in \<open>completed\<close>.\<close>

definition order_history :: "order_type \<Rightarrow> order_status list \<Rightarrow> bool" where
  "order_history ty ss = (ss \<noteq> [] \<and> hd ss = Pending \<and>
     successively (\<lambda>s t. is_valid_status_transition s t ty) ss)"

fun happy_path :: "order_type \<Rightarrow> order_status list" where
  "happy_path Delivery = [Pending, Confirmed, Preparing, Ready, Out_For_Delivery, Completed]"
| "happy_path Pickup = [Pending, Confirmed, Preparing, Ready, Completed]"
| "happy_path Dine_In = [Pending, Confirmed, Preparing, Ready, Completed]"

lemma order_history_snoc: "order_history ty (ss @ [s, t]) \<longleftrightarrow>
    order_history ty (ss @ [s]) \<and> is_valid_status_transition s t ty"
proof -
  have "successively P (ss @ [s, t]) \<longleftrightarrow> successively P (ss @ [s]) \<and> P s t" for P
    using successively_append_iff [of P "ss @ [s]" "[t]"] by simp
  then show ?thesis by (cases ss) (auto simp: order_history_def)
qed

lemma order_history_single: "order_history ty [s] \<longleftrightarrow> s = Pending"
  by (auto simp: order_history_def)

lemma step_back:
  "is_valid_status_transition s Confirmed ty \<longleftrightarrow> s = Pending"
  "is_valid_status_transition s Preparing ty \<longleftrightarrow> s = Confirmed"
  "is_valid_status_transition s Ready ty \<longleftrightarrow> s = Preparing"
  "is_valid_status_transition s Out_For_Delivery ty \<longleftrightarrow> s = Ready \<and> ty = Delivery"
  "is_valid_status_transition s Completed ty \<longleftrightarrow>
     (s = Ready \<and> ty \<noteq> Delivery) \<or> s = Out_For_Delivery"
  "\<not> is_valid_status_transition s Pending ty"
  by (cases s; cases ty; simp add: is_valid_status_transition_def)+

text \<open>The only history that reaches a non-cancelled status is the initial part of the path to it.\<close>

lemma history_to:
  assumes "order_history ty (ss @ [s])"
  shows "(s = Pending \<longrightarrow> ss = []) \<and>
    (s = Confirmed \<longrightarrow> ss = [Pending]) \<and>
    (s = Preparing \<longrightarrow> ss = [Pending, Confirmed]) \<and>
    (s = Ready \<longrightarrow> ss = [Pending, Confirmed, Preparing]) \<and>
    (s = Out_For_Delivery \<longrightarrow> ty = Delivery \<and> ss = [Pending, Confirmed, Preparing, Ready])"
  using assms
proof (induction ss arbitrary: s rule: rev_induct)
  case Nil
  then show ?case by (simp add: order_history_single)
next
  case (snoc r rs)
  from snoc.prems have h: "order_history ty (rs @ [r])" and v: "is_valid_status_transition r s ty"
    using order_history_snoc [of ty rs r s] by simp_all
  from snoc.IH [OF h] v show ?case by (auto simp: step_back)
qed

lemma completed_history_path:
  "order_history ty (ss @ [Completed]) \<longleftrightarrow> ss @ [Completed] = happy_path ty"
proof
  assume h: "order_history ty (ss @ [Completed])"
  then have "ss \<noteq> []" by (auto simp: order_history_single)
  then obtain rs r where ss: "ss = rs @ [r]" by (metis rev_exhaust)
  with h have "order_history ty (rs @ [r])" "is_valid_status_transition r Completed ty"
    using order_history_snoc [of ty rs r Completed] by simp_all
  with history_to [of ty rs r] ss show "ss @ [Completed] = happy_path ty"
    by (cases ty) (auto simp: step_back)
next
  assume "ss @ [Completed] = happy_path ty"
  then show "order_history ty (ss @ [Completed])"
    by (cases ty) (auto simp: order_history_def is_valid_status_transition_def)
qed

text \<open>The lifecycle of an order: a status history that starts in \<open>pending\<close> and follows the
  table ends in \<open>completed\<close> exactly when it is the happy path of its order type, so a delivery
  order is completed only by way of \<open>out_for_delivery\<close> and a pickup or dine-in order never is.\<close>

theorem completed_histories:
  "order_history ty (ss @ [Completed]) \<longleftrightarrow> ss @ [Completed] = happy_path ty"
  by (rule completed_history_path)

text \<open>Any history is short, never repeats a status, and nothing follows a terminal one.\<close>

lemma order_history_bounds:
  assumes "order_history ty ss"
  shows "distinct ss" and "length ss \<le> 6"
    and "us @ s # vs = ss \<Longrightarrow> is_terminal_status s \<Longrightarrow> vs = []"
proof -
  from assms obtain ts where ss: "ss = Pending # ts"
    by (cases ss) (auto simp: order_history_def)
  with assms have succ: "successively (\<lambda>s t. is_valid_status_transition s t ty) (Pending # ts)"
    by (simp add: order_history_def)
  show "distinct ss" using succ unfolding ss by (rule order_table.history_distinct)
  have "order_rank (last (Pending # ts)) \<le> 5" by (cases "last (Pending # ts)") auto
  with order_table.history_length [OF succ] ss show "length ss \<le> 6" by simp
  show "us @ s # vs = ss \<Longrightarrow> is_terminal_status s \<Longrightarrow> vs = []"
    using succ ss by (metis order_table.terminal_last)
qed

end
