(* ===== verification/Order_Transition.thy ===== *)
theory Order_Transition
  imports Order_Creation Order_State
begin

text \<open>
  \<open>services/orderTransition.service.ts\<close> and the handlers of \<open>controllers/order.controller.ts\<close> that change
  a stored order: status changes by staff or by a delivery, the cash payment flag, the customer's own
  cancellation. An automated transition has no actor. The notification queue is the list of jobs.
\<close>

section \<open>Courier eligibility\<close>

definition courier_dispatch_ineligibility :: "order \<Rightarrow> string option" where
  "courier_dispatch_ineligibility x =
     (if o_channel x = Marketplace_Channel then Some ''Marketplace orders are never dispatched''
      else if o_orderType x \<noteq> Delivery then Some ''Only delivery orders can be dispatched to a courier''
      else None)"

section \<open>The transition\<close>

definition order_moved :: "time \<Rightarrow> order_status \<Rightarrow> order \<Rightarrow> order" where
  "order_moved now s x = x\<lparr>o_status := s, o_statusHistory := o_statusHistory x @ [(s, now)]\<rparr>"

text \<open>\<open>order.save()\<close>: the status and the new history entry.\<close>

definition save_order_status :: "time \<Rightarrow> order_status \<Rightarrow> oid \<Rightarrow> db \<Rightarrow> db" where
  "save_order_status now s i d = d\<lparr>db_orders := update_one (\<lambda>y. o_id y = i) (order_moved now s) (db_orders d)\<rparr>"

definition awaits_payment :: "order \<Rightarrow> bool" where
  "awaits_payment x \<longleftrightarrow> o_paymentMethod x = Online_Pay \<and> o_paymentStatus x \<noteq> Order_Paid"

text \<open>What follows the saved status: audit entry for a person, the courier job of a ready delivery.\<close>

definition transition_followups :: "order \<Rightarrow> order_status \<Rightarrow> oid option \<Rightarrow> db \<Rightarrow> db" where
  "transition_followups x next actor d =
     (let d1 = (case actor of None \<Rightarrow> d
          | Some u \<Rightarrow> record_audit_event
              \<lparr>au_action = (if next = Cancelled then ''order.cancelled'' else ''order.status_changed''),
               au_actorUserId = u, au_targetId = o_id x\<rparr> d)
      in if next = Ready \<and> courier_dispatch_ineligibility x = None
         then enqueue_job (Dispatch_Create (o_id x) (o_restaurantId x)) d1 else d1)"

definition apply_order_status_transition ::
  "time \<Rightarrow> oid \<Rightarrow> oid \<Rightarrow> order_status \<Rightarrow> oid option \<Rightarrow> db \<Rightarrow> (order \<times> order_status) result \<times> db" where
  "apply_order_status_transition now oid rid next actor d =
     (case find_order oid rid d of
        None \<Rightarrow> (Inl (Not_Found ''Order not found''), d)
      | Some x \<Rightarrow>
          if \<not> is_valid_status_transition (o_status x) next (o_orderType x)
          then (Inl (Bad_Request ''Cannot move an order to this status''), d)
          else if awaits_payment x \<and> next \<noteq> Cancelled
          then (Inl (Bad_Request ''online payment has not completed yet''), d)
          else
            let x' = order_moved now next x;
                d1 = save_order_status now next (o_id x) d
            in case (if next = Cancelled then reverse_loyalty_if_needed x' d1 else (Inr (), d1)) of
                 (Inl e, d2) \<Rightarrow> (Inl e, d2)
               | (Inr _, d2) \<Rightarrow> (Inr (x', o_status x), transition_followups x' next actor d2))"

section \<open>The handlers\<close>

definition status_event :: "order \<Rightarrow> order_event_type \<Rightarrow> order_status \<Rightarrow> order_event" where
  "status_event x ty s = \<lparr>ev_type = ty, ev_orderId = o_id x, ev_status = s, ev_paymentOutcome = None,
     ev_amount = None, ev_deliveryStatus = None\<rparr>"

definition update_order_status :: "time \<Rightarrow> oid \<Rightarrow> oid \<Rightarrow> order_status \<Rightarrow> oid \<Rightarrow> db \<Rightarrow> order result \<times> db" where
  "update_order_status now oid rid next staff d =
     (case apply_order_status_transition now oid rid next (Some staff) d of
        (Inl e, d1) \<Rightarrow> (Inl e, d1)
      | (Inr (x, _), d1) \<Rightarrow> (Inr x, emit_order_event (status_event x (status_to_event_type next) next) d1))"

definition update_order_payment_status :: "oid \<Rightarrow> oid \<Rightarrow> order_pay_status \<Rightarrow> db \<Rightarrow> order result \<times> db" where
  "update_order_payment_status oid rid ps d =
     (case find_order oid rid d of
        None \<Rightarrow> (Inl (Not_Found ''Order not found''), d)
      | Some x \<Rightarrow>
          if o_paymentMethod x = Online_Pay then (Inl (Bad_Request ''payment method is online''), d)
          else if o_status x = Cancelled \<and> ps = Order_Paid
          then (Inl (Bad_Request ''This order has been cancelled and cannot be marked paid''), d)
          else (Inr (x\<lparr>o_paymentStatus := ps\<rparr>),
            emit_order_event (status_event x Evt_Payment_Updated (o_status x))
              (d\<lparr>db_orders := update_one (\<lambda>y. o_id y = oid \<and> o_restaurantId y = rid)
                 (\<lambda>y. y\<lparr>o_paymentStatus := ps\<rparr>) (db_orders d)\<rparr>)))"

definition cancel_my_order :: "time \<Rightarrow> oid \<Rightarrow> oid \<Rightarrow> db \<Rightarrow> order result \<times> db" where
  "cancel_my_order now oid customer d =
     (case find_one (\<lambda>y. o_id y = oid) (db_orders d) of
        None \<Rightarrow> (Inl (Not_Found ''Order not found''), d)
      | Some x \<Rightarrow>
          if o_customerId x \<noteq> customer then (Inl (Forbidden ''forbidden''), d)
          else if o_status x \<noteq> Pending then (Inl (Bad_Request ''Order can no longer be cancelled''), d)
          else
            let x' = order_moved now Cancelled x
            in case reverse_loyalty_if_needed x' (save_order_status now Cancelled (o_id x) d) of
                 (Inl e, d1) \<Rightarrow> (Inl e, d1)
               | (Inr _, d1) \<Rightarrow> (Inr x', emit_order_event (status_event x' (Evt_Status Cancelled) Cancelled) d1))"

end
