(* ===== verification/Delivery_Dispatch.thy ===== *)
theory Delivery_Dispatch
  imports Order_Transition
begin

text \<open>
  \<open>services/deliveryDispatch.service.ts\<close> and \<open>controllers/deliveryWebhook.controller.ts\<close>: the courier
  record of an order, its booking with the manual or a third-party courier, its status changes and the
  order status they drive, cancelling, and the courier's webhooks. A courier is a record of functions,
  one per call of the interface \<open>DeliveryProvider\<close>. A document in memory is written by \<open>save_delivery\<close>,
  which runs the schema's validators. In the texts a dash stands for each long dash or arrow.
\<close>

section \<open>Couriers\<close>

record courier_contact =
  cc_name :: string
  cc_phone :: string
  cc_address :: string
  cc_street :: "string list"
  cc_city :: "string option"
  cc_state :: "string option"
  cc_postalCode :: "string option"
  cc_country :: "string option"
  cc_latitude :: "rat option"
  cc_longitude :: "rat option"
  cc_notes :: "string option"

record courier_quote_input =
  qi_pickup :: courier_contact
  qi_dropoff :: courier_contact
  qi_currency :: string

record courier_quote =
  cq_quoteId :: "string option"
  cq_fee :: money
  cq_currency :: string

record courier_booking =
  bk_orderId :: oid
  bk_restaurantId :: oid
  bk_quoteId :: "string option"
  bk_pickup :: courier_contact
  bk_dropoff :: courier_contact
  bk_manifest :: "(string \<times> int) list"
  bk_idempotencyKey :: string

record courier_result =
  cr_providerDeliveryId :: string
  cr_status :: delivery_status
  cr_trackingUrl :: "string option"
  cr_fee :: "money option"
  cr_currency :: "string option"

record courier_event =
  ce_eventId :: string
  ce_eventType :: string
  ce_providerDeliveryId :: string
  ce_status :: delivery_status
  ce_courierName :: "string option"
  ce_courierPhone :: "string option"
  ce_trackingUrl :: "string option"
  ce_cancelReason :: "string option"

text \<open>An answer, a \<open>DeliveryProviderError\<close>, or anything else that was thrown.\<close>

datatype 'a courier_answer = Answered 'a | Courier_Error string | Courier_Crash string

record courier_api =
  cx_name :: string
  cx_quote :: "courier_quote_input \<Rightarrow> courier_quote courier_answer"
  cx_create :: "courier_booking \<Rightarrow> courier_result courier_answer"
  cx_cancel :: "string \<Rightarrow> string option \<Rightarrow> unit courier_answer"
  cx_verify :: "string \<Rightarrow> string option \<Rightarrow> courier_event option"

definition manual_dispatch :: "string \<Rightarrow> courier_api" where
  "manual_dispatch uuid =
     \<lparr>cx_name = ''manual'',
      cx_quote = \<lambda>q. Answered \<lparr>cq_quoteId = None, cq_fee = 0, cq_currency = qi_currency q\<rparr>,
      cx_create = \<lambda>_. Answered \<lparr>cr_providerDeliveryId = ''manual_'' @ uuid, cr_status = D_Accepted,
        cr_trackingUrl = None, cr_fee = None, cr_currency = None\<rparr>,
      cx_cancel = \<lambda>_ _. Answered (),
      cx_verify = \<lambda>_ _. None\<rparr>"

record courier_env =
  de_now :: time
  de_newId :: oid
  de_uuid :: string
  de_build :: "courier_account \<Rightarrow> courier_api option"
  de_countries :: "(string \<times> string) list"

section \<open>The status table\<close>

fun delivery_transitions :: "delivery_status \<Rightarrow> delivery_status list" where
  "delivery_transitions D_Pending = [D_Quoted, D_Requested, D_Accepted, D_Cancelled, D_Failed]"
| "delivery_transitions D_Quoted = [D_Requested, D_Cancelled, D_Failed]"
| "delivery_transitions D_Requested = [D_Accepted, D_Cancelled, D_Failed]"
| "delivery_transitions D_Accepted = [D_Driver_Assigned, D_Picked_Up, D_Out_For_Delivery, D_Cancelled, D_Failed]"
| "delivery_transitions D_Driver_Assigned = [D_Picked_Up, D_Out_For_Delivery, D_Cancelled, D_Failed]"
| "delivery_transitions D_Picked_Up = [D_Out_For_Delivery, D_Delivered, D_Failed]"
| "delivery_transitions D_Out_For_Delivery = [D_Delivered, D_Failed]"
| "delivery_transitions D_Delivered = []"
| "delivery_transitions D_Cancelled = []"
| "delivery_transitions D_Failed = []"

definition cancellable_delivery_statuses :: "delivery_status list" where
  "cancellable_delivery_statuses = [D_Pending, D_Quoted, D_Requested, D_Accepted, D_Driver_Assigned]"

definition is_valid_delivery_transition :: "delivery_status \<Rightarrow> delivery_status \<Rightarrow> bool" where
  "is_valid_delivery_transition from to \<longleftrightarrow> to \<in> set (delivery_transitions from)"

section \<open>What the customer sees\<close>

record customer_delivery =
  cd_status :: delivery_status
  cd_courierName :: "string option"
  cd_courierPhone :: "string option"
  cd_trackingUrl :: "string option"
  cd_pickupEta :: "time option"
  cd_dropoffEta :: "time option"
  cd_cancelReason :: "string option"

definition to_customer_facing_delivery :: "delivery \<Rightarrow> customer_delivery" where
  "to_customer_facing_delivery x =
     \<lparr>cd_status = dl_status x, cd_courierName = dl_courierName x, cd_courierPhone = dl_courierPhone x,
      cd_trackingUrl = dl_trackingUrl x, cd_pickupEta = dl_pickupEta x, cd_dropoffEta = dl_dropoffEta x,
      cd_cancelReason = (if dl_status x = D_Cancelled then dl_cancelReason x else None)\<rparr>"

section \<open>The collection\<close>

definition delivery_creation_idempotency_key :: "oid \<Rightarrow> string" where
  "delivery_creation_idempotency_key oid = ''delivery_create_'' @ oid"

definition delivery_clash :: "delivery \<Rightarrow> delivery \<Rightarrow> bool" where
  "delivery_clash x y \<longleftrightarrow>
     dl_id x = dl_id y \<or> dl_orderId x = dl_orderId y \<or> dl_idempotencyKey x = dl_idempotencyKey y"

definition within_length :: "nat \<Rightarrow> string option \<Rightarrow> bool" where
  "within_length n s = (case s of None \<Rightarrow> True | Some t \<Rightarrow> length t \<le> n)"

text \<open>The schema's validators (\<open>models/Delivery.ts\<close>).\<close>

definition delivery_schema_valid :: "delivery \<Rightarrow> bool" where
  "delivery_schema_valid x \<longleftrightarrow>
     list_all (\<lambda>e. within_length 300 (de_note e)) (dl_statusHistory x) \<and>
     (case dl_fee x of None \<Rightarrow> True | Some f \<Rightarrow> 0 \<le> f) \<and>
     within_length 200 (dl_courierName x) \<and> within_length 40 (dl_courierPhone x) \<and>
     within_length 300 (dl_cancelReason x) \<and> within_length 500 (dl_failureReason x) \<and>
     within_length 500 (dl_lastProviderError x)"

definition find_delivery :: "oid \<Rightarrow> oid \<Rightarrow> db \<Rightarrow> delivery option" where
  "find_delivery i rid d = find_one (\<lambda>x. dl_id x = i \<and> dl_restaurantId x = rid) (db_deliveries d)"

definition save_delivery :: "delivery \<Rightarrow> db \<Rightarrow> db option" where
  "save_delivery x d =
     (if delivery_schema_valid x
      then Some (d\<lparr>db_deliveries := update_one (\<lambda>y. dl_id y = dl_id x) (\<lambda>_. x) (db_deliveries d)\<rparr>)
      else None)"

definition add_entry :: "delivery_status \<Rightarrow> time \<Rightarrow> string option \<Rightarrow> string option \<Rightarrow> delivery \<Rightarrow> delivery" where
  "add_entry s now event note x = x\<lparr>dl_statusHistory := dl_statusHistory x @
     [\<lparr>de_status = s, de_at = now, de_providerEventId = event, de_note = note\<rparr>]\<rparr>"

definition courier_account_of :: "delivery \<Rightarrow> db \<Rightarrow> courier_account option" where
  "courier_account_of x d = find_one (\<lambda>a. ca_restaurantId a = dl_restaurantId x \<and>
     ca_provider a = dl_provider x \<and> ca_status a = Acc_Active) (db_courierAccounts d)"

definition resolve_provider_for_delivery :: "courier_env \<Rightarrow> delivery \<Rightarrow> db \<Rightarrow> courier_api option" where
  "resolve_provider_for_delivery env x d =
     (if dl_provider x = ''manual'' then Some (manual_dispatch (de_uuid env))
      else Option.bind (courier_account_of x d) (de_build env))"

section \<open>Booking a courier\<close>

text \<open>The sentences of \<open>contactNormalization.ts\<close> and of the dispatch, at their full length.\<close>

definition phone_format_hint :: string where
  "phone_format_hint = ''Use international format, starting with + and the country code '' @
     ''(for example +1 212 555 0100 or +44 20 7946 0000).''"

definition phone_reason :: "string option \<Rightarrow> string \<Rightarrow> string" where
  "phone_reason raw why =
     (let input = js_trim (nullish raw []) in
      if input = [] then ''A phone number is required. '' @ phone_format_hint
      else [CHR 0x22] @ input @ [CHR 0x22] @ '' '' @ why @ ''. '' @ phone_format_hint)"

definition restaurant_phone_message :: "string \<Rightarrow> string" where
  "restaurant_phone_message reason =
     ''The restaurant's phone number can't be given to a courier: '' @ reason @
     '' Fix it in Settings - Location details and retry, or dispatch this order yourself.''"

definition customer_phone_message :: "string \<Rightarrow> string" where
  "customer_phone_message reason =
     ''The customer's phone number can't be given to a courier: '' @ reason @ '' Dispatch this order yourself.''"

definition restaurant_country_message :: "string option \<Rightarrow> string" where
  "restaurant_country_message c =
     ''The restaurant's country '' @
     (if truthy_string c then ''('' @ [CHR 0x22] @ the c @ [CHR 0x22] @ '') isn't recognized'' else ''isn't set'') @
     '' - set it in Settings - Location details (for example '' @ [CHR 0x22] @ ''United States'' @ [CHR 0x22] @
     '' or '' @ [CHR 0x22] @ ''US'' @ [CHR 0x22] @ '') and retry, or dispatch this order yourself.''"

definition dropoff_country_message :: "string \<Rightarrow> string" where
  "dropoff_country_message c =
     ''The delivery address country ('' @ [CHR 0x22] @ c @ [CHR 0x22] @
     '') isn't recognized - dispatch this order yourself.''"

definition present :: "string option list \<Rightarrow> string list" where
  "present xs = map the (filter truthy_string xs)"

fun join_comma :: "string list \<Rightarrow> string" where
  "join_comma [] = []"
| "join_comma [s] = s"
| "join_comma (s # ss) = s @ '', '' @ join_comma ss"

definition trimmed :: "string option \<Rightarrow> string" where
  "trimmed s = (case s of None \<Rightarrow> [] | Some t \<Rightarrow> js_trim t)"

definition pickup_contact :: "restaurant \<Rightarrow> courier_contact" where
  "pickup_contact r =
     \<lparr>cc_name = res_name r, cc_phone = trimmed (res_phone r),
      cc_address = join_comma (present [res_address r, res_city r, res_state r, res_postalCode r, res_country r]),
      cc_street = present [res_address r], cc_city = res_city r, cc_state = res_state r,
      cc_postalCode = res_postalCode r, cc_country = res_country r, cc_latitude = res_latitude r,
      cc_longitude = res_longitude r, cc_notes = None\<rparr>"

definition or_else :: "'a option \<Rightarrow> 'a option \<Rightarrow> 'a option" where
  "or_else x y = (case x of None \<Rightarrow> y | Some a \<Rightarrow> Some a)"

definition dropoff_contact :: "restaurant \<Rightarrow> user option \<Rightarrow> delivery_address \<Rightarrow> courier_contact" where
  "dropoff_contact r customer a =
     \<lparr>cc_name = (case customer of None \<Rightarrow> ''Customer'' | Some u \<Rightarrow> u_name u),
      cc_phone = trimmed (or_else (da_phone a) (Option.bind customer u_phone)),
      cc_address = join_comma (present [Some (da_line1 a), da_line2 a, Some (da_city a), da_state a, da_postalCode a]),
      cc_street = present [Some (da_line1 a), da_line2 a], cc_city = Some (da_city a), cc_state = da_state a,
      cc_postalCode = da_postalCode a, cc_country = or_else (da_country a) (res_country r),
      cc_latitude = Some (da_latitude a), cc_longitude = Some (da_longitude a), cc_notes = da_instructions a\<rparr>"

text \<open>What a third-party courier needs: countries and phone numbers, or the reason for the staff.\<close>

definition courier_contacts ::
  "courier_env \<Rightarrow> restaurant \<Rightarrow> user option \<Rightarrow> delivery_address \<Rightarrow> string + courier_contact \<times> courier_contact" where
  "courier_contacts env r customer a =
     (case normalize_country_code (de_countries env) (res_country r) of
        None \<Rightarrow> Inl (restaurant_country_message (res_country r))
      | Some country \<Rightarrow>
        (case (if truthy_string (da_country a) then normalize_country_code (de_countries env) (da_country a)
               else Some country) of
           None \<Rightarrow> Inl (dropoff_country_message (the (da_country a)))
         | Some dropoff_country \<Rightarrow>
           (case normalize_phone (res_phone r) (Some country) of
              Inl why \<Rightarrow> Inl (restaurant_phone_message (phone_reason (res_phone r) why))
            | Inr pickup_phone \<Rightarrow>
              (let raw = or_else (da_phone a) (Option.bind customer u_phone) in
               case normalize_phone raw (Some country) of
                 Inl why \<Rightarrow> Inl (customer_phone_message (phone_reason raw why))
               | Inr dropoff_phone \<Rightarrow>
                   Inr ((pickup_contact r)\<lparr>cc_phone := pickup_phone, cc_country := Some country\<rparr>,
                     (dropoff_contact r customer a)\<lparr>cc_phone := dropoff_phone, cc_country := Some dropoff_country\<rparr>)))))"

definition fail_dispatch :: "courier_env \<Rightarrow> delivery \<Rightarrow> string \<Rightarrow> db \<Rightarrow> delivery result \<times> db" where
  "fail_dispatch env x message d =
     (let x' = add_entry D_Failed (de_now env) None (Some message)
            (x\<lparr>dl_status := D_Failed, dl_failureReason := Some message, dl_lastProviderError := Some message\<rparr>)
      in case save_delivery x' d of
           None \<Rightarrow> (Inl (Thrown ''ValidationError''), d)
         | Some d' \<Rightarrow> (Inr x', d'))"

definition unexpected :: "string \<Rightarrow> string" where
  "unexpected m = ''Unexpected error dispatching delivery: '' @ m"

text \<open>The quote, for a third-party courier: its id and a note when it costs more than the customer paid.\<close>

definition note_quote :: "courier_env \<Rightarrow> order \<Rightarrow> courier_quote \<Rightarrow> delivery \<Rightarrow> delivery" where
  "note_quote env ord q x =
     (let x1 = x\<lparr>dl_quoteId := cq_quoteId q\<rparr> in
      if js_upper (cq_currency q) = js_upper (o_currency ord) \<and> cq_fee q > o_deliveryFee ord
      then add_entry D_Pending (de_now env) None
        (Some ''Courier fee is more than the delivery fee the customer paid'') x1
      else x1)"

definition record_booking :: "courier_env \<Rightarrow> string \<Rightarrow> courier_result \<Rightarrow> delivery \<Rightarrow> delivery" where
  "record_booking env currency res x =
     (add_entry (cr_status res) (de_now env) None None
       (x\<lparr>dl_status := cr_status res, dl_providerDeliveryId := Some (cr_providerDeliveryId res),
          dl_trackingUrl := cr_trackingUrl res,
          dl_fee := (case cr_fee res of None \<Rightarrow> dl_fee x | Some f \<Rightarrow> Some f),
          dl_currency := Some (nullish (cr_currency res) currency)\<rparr>))\<lparr>dl_lastProviderError := None\<rparr>"

definition book_courier ::
  "courier_env \<Rightarrow> courier_api \<Rightarrow> delivery \<Rightarrow> order \<Rightarrow> restaurant \<Rightarrow> courier_contact \<Rightarrow> courier_contact \<Rightarrow> db \<Rightarrow>
    delivery result \<times> db" where
  "book_courier env prov x ord r pickup dropoff d =
     (let currency = rs_currency (res_settings r) in
      case (if cx_name prov \<noteq> ''manual''
            then cx_quote prov \<lparr>qi_pickup = pickup, qi_dropoff = dropoff, qi_currency = currency\<rparr>
            else Answered \<lparr>cq_quoteId = None, cq_fee = 0, cq_currency = currency\<rparr>) of
        Courier_Error m \<Rightarrow> fail_dispatch env x m d
      | Courier_Crash m \<Rightarrow> fail_dispatch env x (unexpected m) d
      | Answered q \<Rightarrow>
          let third = cx_name prov \<noteq> ''manual''; x1 = (if third then note_quote env ord q x else x) in
          (case cx_create prov
              \<lparr>bk_orderId = o_id ord, bk_restaurantId = res_id r, bk_quoteId = (if third then cq_quoteId q else None),
               bk_pickup = pickup, bk_dropoff = dropoff, bk_manifest = map (\<lambda>i. (oi_name i, oi_quantity i)) (o_items ord),
               bk_idempotencyKey = dl_idempotencyKey x\<rparr> of
             Courier_Error m \<Rightarrow> fail_dispatch env x1 m d
           | Courier_Crash m \<Rightarrow> fail_dispatch env x1 (unexpected m) d
           | Answered res \<Rightarrow>
               let x2 = record_booking env currency res x1 in
               (case save_delivery x2 d of
                  Some d' \<Rightarrow> (Inr x2, d')
                | None \<Rightarrow> fail_dispatch env x2 (unexpected ''ValidationError'') d)))"

definition chosen_courier :: "courier_env \<Rightarrow> resolved_courier \<Rightarrow> courier_api" where
  "chosen_courier env rc =
     (case rc_courier rc of
        Manual_Courier \<Rightarrow> manual_dispatch (de_uuid env)
      | Account_Courier a \<Rightarrow> nullish (de_build env a) (manual_dispatch (de_uuid env)))"

definition dispatch_pending_delivery ::
  "courier_env \<Rightarrow> delivery \<Rightarrow> order \<Rightarrow> restaurant \<Rightarrow> db \<Rightarrow> delivery result \<times> db" where
  "dispatch_pending_delivery env x ord r d =
     (let rc = resolve_delivery_provider (\<lambda>a. de_build env a \<noteq> None) r d;
          prov = chosen_courier env rc;
          x1 = x\<lparr>dl_provider := cx_name prov\<rparr>;
          x2 = (if rc_fellBackToManual rc
            then add_entry D_Pending (de_now env) None
              (Some (''Fell back to manual dispatch - '' @ nullish (rc_fallbackReason rc) ''configured provider unavailable'')) x1
            else x1);
          customer = find_one (\<lambda>u. u_id u = o_customerId ord) (db_users d)
      in case o_deliveryAddress ord of
           None \<Rightarrow> (Inl (Thrown ''TypeError''), d)
         | Some a \<Rightarrow>
             if cx_name prov = ''manual''
             then book_courier env prov x2 ord r (pickup_contact r) (dropoff_contact r customer a) d
             else (case courier_contacts env r customer a of
                 Inl message \<Rightarrow> fail_dispatch env x2 message d
               | Inr (pickup, dropoff) \<Rightarrow> book_courier env prov x2 ord r pickup dropoff d))"

section \<open>Creating and retrying\<close>

definition new_delivery :: "courier_env \<Rightarrow> oid \<Rightarrow> order \<Rightarrow> restaurant \<Rightarrow> delivery" where
  "new_delivery env rid ord r =
     \<lparr>dl_id = de_newId env, dl_restaurantId = rid, dl_businessId = res_businessId r, dl_orderId = o_id ord,
      dl_orderNumber = o_orderNumber ord, dl_provider = ''manual'', dl_status = D_Pending, dl_statusHistory = [],
      dl_fee = None, dl_currency = None, dl_quoteId = None, dl_providerDeliveryId = None, dl_trackingUrl = None,
      dl_courierName = None, dl_courierPhone = None, dl_pickupEta = None, dl_dropoffEta = None,
      dl_cancelReason = None, dl_failureReason = None, dl_lastProviderError = None,
      dl_idempotencyKey = delivery_creation_idempotency_key (o_id ord)\<rparr>"

definition delivery_of_order :: "oid \<Rightarrow> db \<Rightarrow> delivery option" where
  "delivery_of_order oid d = find_one (\<lambda>x. dl_orderId x = oid) (db_deliveries d)"

definition create_delivery_for_order :: "courier_env \<Rightarrow> oid \<Rightarrow> oid \<Rightarrow> db \<Rightarrow> delivery result \<times> db" where
  "create_delivery_for_order env oid rid d =
     (case delivery_of_order oid d of
        Some x \<Rightarrow> (Inr x, d)
      | None \<Rightarrow>
        (case find_order oid rid d of
           None \<Rightarrow> (Inl (Not_Found ''Order not found''), d)
         | Some ord \<Rightarrow>
           (case find_restaurant rid d of
              None \<Rightarrow> (Inl (Not_Found ''Restaurant not found''), d)
            | Some r \<Rightarrow>
              (case courier_dispatch_ineligibility ord of
                 Some why \<Rightarrow> (Inl (Bad_Request why), d)
               | None \<Rightarrow>
                 if o_deliveryAddress ord = None
                 then (Inl (Bad_Request ''This order has no delivery address on file''), d)
                 else if res_latitude r = None \<or> res_longitude r = None
                 then (Inl (Bad_Request ''This restaurant has no pickup coordinates configured''), d)
                 else
                   let x = new_delivery env rid ord r in
                   (case insert_unique delivery_clash x (db_deliveries d) of
                      None \<Rightarrow> (case delivery_of_order oid d of
                          Some raced \<Rightarrow> (Inr raced, d) | None \<Rightarrow> (Inl (Thrown ''E11000''), d))
                    | Some xs \<Rightarrow> dispatch_pending_delivery env x ord r (d\<lparr>db_deliveries := xs\<rparr>))))))"

definition retry_delivery_creation :: "courier_env \<Rightarrow> oid \<Rightarrow> oid \<Rightarrow> db \<Rightarrow> delivery result \<times> db" where
  "retry_delivery_creation env i rid d =
     (case find_delivery i rid d of
        None \<Rightarrow> (Inl (Not_Found ''Delivery not found''), d)
      | Some x \<Rightarrow>
          if truthy_string (dl_providerDeliveryId x) \<or> (dl_status x \<noteq> D_Pending \<and> dl_status x \<noteq> D_Failed)
          then (Inl (Conflict ''This delivery has already been dispatched''), d)
          else
            (case (find_order (dl_orderId x) rid d, find_restaurant rid d) of
               (Some ord, Some r) \<Rightarrow>
                 (case courier_dispatch_ineligibility ord of
                    Some why \<Rightarrow> (Inl (Bad_Request why), d)
                  | None \<Rightarrow> dispatch_pending_delivery env
                      (x\<lparr>dl_status := D_Pending, dl_failureReason := None\<rparr>) ord r d)
             | _ \<Rightarrow> (Inl (Not_Found ''Order or restaurant not found''), d)))"

section \<open>Status changes\<close>

record delivery_update =
  du_nextStatus :: delivery_status
  du_providerEventId :: "string option"
  du_courierName :: "string option"
  du_courierPhone :: "string option"
  du_trackingUrl :: "string option"
  du_cancelReason :: "string option"
  du_note :: "string option"
  du_actor :: "oid option"

text \<open>\<open>emitDeliveryStatusUpdatedEvent\<close>.\<close>

definition emit_delivery_updated :: "delivery \<Rightarrow> oid \<Rightarrow> db \<Rightarrow> db" where
  "emit_delivery_updated x rid d =
     (case find_order (dl_orderId x) rid d of
        None \<Rightarrow> d
      | Some ord \<Rightarrow> emit_order_event
          \<lparr>ev_type = Evt_Delivery_Status_Updated, ev_orderId = dl_orderId x, ev_status = o_status ord,
           ev_paymentOutcome = None, ev_amount = None, ev_deliveryStatus = Some (dl_status x)\<rparr> d)"

text \<open>One step of the mirror: the transition and its event; an error ends the mirror.\<close>

definition mirror_step :: "time \<Rightarrow> oid \<Rightarrow> oid \<Rightarrow> order_status \<Rightarrow> oid option \<Rightarrow> db \<Rightarrow> bool \<times> db" where
  "mirror_step now oid rid s actor d =
     (case apply_order_status_transition now oid rid s actor d of
        (Inl _, d1) \<Rightarrow> (False, d1)
      | (Inr (x, _), d1) \<Rightarrow> (True, emit_order_event (status_event x (status_to_event_type s) s) d1))"

definition advance_order_for_delivery_status ::
  "time \<Rightarrow> oid \<Rightarrow> oid \<Rightarrow> delivery_status \<Rightarrow> oid option \<Rightarrow> db \<Rightarrow> db" where
  "advance_order_for_delivery_status now oid rid ds actor d =
     (if ds \<notin> {D_Picked_Up, D_Out_For_Delivery, D_Delivered} then d
      else case find_order oid rid d of
          None \<Rightarrow> d
        | Some ord \<Rightarrow>
            let (ok, current, d1) =
              (if o_status ord = Ready
               then (let (ok, d1) = mirror_step now oid rid Out_For_Delivery actor d in (ok, Out_For_Delivery, d1))
               else (True, o_status ord, d))
            in if ok \<and> ds = D_Delivered \<and> current = Out_For_Delivery
               then snd (mirror_step now oid rid Completed actor d1)
               else d1)"

definition set_some :: "'a option \<Rightarrow> 'a option \<Rightarrow> 'a option" where
  "set_some new old = (case new of None \<Rightarrow> old | Some v \<Rightarrow> Some v)"

text \<open>The document after the update: the new entry if the status changes, and the given details.\<close>

definition delivery_after :: "time \<Rightarrow> delivery_update \<Rightarrow> delivery \<Rightarrow> delivery" where
  "delivery_after now u x =
     (let x1 = (if du_nextStatus u \<noteq> dl_status x
            then (add_entry (du_nextStatus u) now (du_providerEventId u) (du_note u) x)\<lparr>dl_status := du_nextStatus u\<rparr>
            else x)
      in x1\<lparr>dl_courierName := set_some (du_courierName u) (dl_courierName x),
            dl_courierPhone := set_some (du_courierPhone u) (dl_courierPhone x),
            dl_trackingUrl := set_some (du_trackingUrl u) (dl_trackingUrl x),
            dl_cancelReason := set_some (du_cancelReason u) (dl_cancelReason x)\<rparr>)"

definition delivery_audit :: "string \<Rightarrow> oid option \<Rightarrow> oid \<Rightarrow> db \<Rightarrow> db" where
  "delivery_audit action actor i d =
     (case actor of None \<Rightarrow> d
      | Some u \<Rightarrow> record_audit_event \<lparr>au_action = action, au_actorUserId = u, au_targetId = i\<rparr> d)"

definition update_delivery_status ::
  "time \<Rightarrow> oid \<Rightarrow> oid \<Rightarrow> delivery_update \<Rightarrow> db \<Rightarrow> delivery result \<times> db" where
  "update_delivery_status now i rid u d =
     (case find_delivery i rid d of
        None \<Rightarrow> (Inl (Not_Found ''Delivery not found''), d)
      | Some x \<Rightarrow>
          if du_nextStatus u \<noteq> dl_status x \<and> \<not> is_valid_delivery_transition (dl_status x) (du_nextStatus u)
          then (Inr x, d)
          else
            let x' = delivery_after now u x in
            (case save_delivery x' d of
               None \<Rightarrow> (Inl (Thrown ''ValidationError''), d)
             | Some d1 \<Rightarrow>
                 let d2 = (if dl_status x \<noteq> du_nextStatus u
                       then delivery_audit (if du_nextStatus u = D_Cancelled then ''delivery.cancelled''
                         else ''delivery.status_updated'') (du_actor u) (dl_id x) d1
                       else d1);
                     d3 = advance_order_for_delivery_status now (dl_orderId x) rid (du_nextStatus u) (du_actor u) d2
                 in (Inr x', if x' \<noteq> x then emit_delivery_updated x' rid d3 else d3)))"

section \<open>Switching and cancelling\<close>

definition switched :: "courier_env \<Rightarrow> delivery \<Rightarrow> delivery" where
  "switched env x = (add_entry D_Accepted (de_now env) None (Some ''Switched to manual dispatch by staff'') x)
     \<lparr>dl_provider := ''manual'', dl_status := D_Accepted,
      dl_providerDeliveryId := Some (''manual_'' @ de_uuid env), dl_failureReason := None, dl_quoteId := None,
      dl_fee := None\<rparr>"

definition switch_delivery_to_manual :: "courier_env \<Rightarrow> oid \<Rightarrow> oid \<Rightarrow> oid \<Rightarrow> db \<Rightarrow> delivery result \<times> db" where
  "switch_delivery_to_manual env i rid actor d =
     (case find_delivery i rid d of
        None \<Rightarrow> (Inl (Not_Found ''Delivery not found''), d)
      | Some x \<Rightarrow>
          if dl_provider x = ''manual'' then (Inl (Conflict ''already dispatched by your own staff''), d)
          else if truthy_string (dl_providerDeliveryId x) then (Inl (Conflict ''A courier was already booked''), d)
          else if dl_status x \<noteq> D_Failed then (Inl (Conflict ''Only a delivery whose booking failed''), d)
          else
            let q = (\<lambda>y. dl_id y = dl_id x \<and> dl_restaurantId y = rid \<and> dl_provider y = dl_provider x \<and>
                      dl_status y = D_Failed \<and> dl_providerDeliveryId y = None)
            in (case find_one q (db_deliveries d) of
                  None \<Rightarrow> (Inl (Conflict ''This delivery changed while switching''), d)
                | Some y \<Rightarrow>
                    let y' = switched env y;
                        d1 = d\<lparr>db_deliveries := update_one q (switched env) (db_deliveries d)\<rparr>;
                        d2 = delivery_audit ''delivery.switched_to_manual'' (Some actor) (dl_id y) d1
                    in (Inr y', emit_delivery_updated y' rid d2)))"

definition cancel_update :: "string option \<Rightarrow> oid \<Rightarrow> delivery_update" where
  "cancel_update reason actor = \<lparr>du_nextStatus = D_Cancelled, du_providerEventId = None, du_courierName = None,
     du_courierPhone = None, du_trackingUrl = None, du_cancelReason = reason, du_note = None, du_actor = Some actor\<rparr>"

definition cancel_delivery :: "courier_env \<Rightarrow> oid \<Rightarrow> oid \<Rightarrow> string option \<Rightarrow> oid \<Rightarrow> db \<Rightarrow> delivery result \<times> db" where
  "cancel_delivery env i rid reason actor d =
     (case find_delivery i rid d of
        None \<Rightarrow> (Inl (Not_Found ''Delivery not found''), d)
      | Some x \<Rightarrow>
          if dl_status x \<notin> set cancellable_delivery_statuses
          then (Inl (Conflict ''A delivery in this status can no longer be cancelled''), d)
          else if \<not> truthy_string (dl_providerDeliveryId x)
          then update_delivery_status (de_now env) i rid (cancel_update reason actor) d
          else
            (case resolve_provider_for_delivery env x d of
               None \<Rightarrow> (Inl (Service_Unavailable ''provider account is no longer connected''), d)
             | Some prov \<Rightarrow>
                 (case cx_cancel prov (the (dl_providerDeliveryId x)) reason of
                    Answered _ \<Rightarrow> update_delivery_status (de_now env) i rid (cancel_update reason actor) d
                  | Courier_Error m \<Rightarrow> (Inl (Service_Unavailable m), d)
                  | Courier_Crash m \<Rightarrow> (Inl (Service_Unavailable m), d))))"

section \<open>Courier webhooks\<close>

definition known_delivery_provider_names :: "string list" where
  "known_delivery_provider_names = [''manual'', ''uber_direct'']"

definition claim_stale_ms :: time where
  "claim_stale_ms = 5 * 60 * 1000"

definition dv_key :: "delivery_event \<Rightarrow> string \<times> string" where
  "dv_key w = (dv_provider w, dv_eventId w)"

definition new_delivery_event :: "time \<Rightarrow> string \<Rightarrow> courier_event \<Rightarrow> delivery_event" where
  "new_delivery_event now name ev =
     \<lparr>dv_provider = name, dv_eventId = ce_eventId ev, dv_eventType = ce_eventType ev, dv_processedAt = None,
      dv_processingStartedAt = Some now, dv_processingError = None\<rparr>"

definition claimable :: "time \<Rightarrow> string \<Rightarrow> courier_event \<Rightarrow> delivery_event \<Rightarrow> bool" where
  "claimable now name ev w \<longleftrightarrow>
     dv_key w = (name, ce_eventId ev) \<and> dv_processedAt w = None \<and>
     (case dv_processingStartedAt w of None \<Rightarrow> True | Some t \<Rightarrow> t < now - claim_stale_ms)"

definition claim_delivery_webhook_event :: "time \<Rightarrow> string \<Rightarrow> courier_event \<Rightarrow> db \<Rightarrow> bool \<times> db" where
  "claim_delivery_webhook_event now name ev d =
     (case insert_unique (\<lambda>x y. dv_key x = dv_key y) (new_delivery_event now name ev) (db_deliveryEvents d) of
        Some ws \<Rightarrow> (True, d\<lparr>db_deliveryEvents := ws\<rparr>)
      | None \<Rightarrow> (find_one (claimable now name ev) (db_deliveryEvents d) \<noteq> None,
          d\<lparr>db_deliveryEvents := update_one (claimable now name ev)
             (\<lambda>w. w\<lparr>dv_processingStartedAt := Some now\<rparr>) (db_deliveryEvents d)\<rparr>))"

definition mark_delivery_event ::
  "string \<Rightarrow> courier_event \<Rightarrow> (delivery_event \<Rightarrow> delivery_event) \<Rightarrow> db \<Rightarrow> db" where
  "mark_delivery_event name ev f d = d\<lparr>db_deliveryEvents :=
     update_one (\<lambda>w. dv_key w = (name, ce_eventId ev)) f (db_deliveryEvents d)\<rparr>"

definition event_update :: "courier_event \<Rightarrow> delivery_update" where
  "event_update ev = \<lparr>du_nextStatus = ce_status ev, du_providerEventId = Some (ce_eventId ev),
     du_courierName = ce_courierName ev, du_courierPhone = ce_courierPhone ev, du_trackingUrl = ce_trackingUrl ev,
     du_cancelReason = ce_cancelReason ev, du_note = None, du_actor = None\<rparr>"

text \<open>What a claimed event does.\<close>

definition process_claimed_event ::
  "time \<Rightarrow> string \<Rightarrow> courier_event \<Rightarrow> oid \<Rightarrow> db \<Rightarrow> unit result \<times> db" where
  "process_claimed_event now name ev rid d =
     (case find_one (\<lambda>x. dl_restaurantId x = rid \<and> dl_provider x = name \<and>
          dl_providerDeliveryId x = Some (ce_providerDeliveryId ev)) (db_deliveries d) of
        None \<Rightarrow> (Inr (), mark_delivery_event name ev
          (\<lambda>w. w\<lparr>dv_processedAt := Some now, dv_processingStartedAt := None\<rparr>) d)
      | Some x \<Rightarrow>
          (case update_delivery_status now (dl_id x) rid (event_update ev) d of
             (Inr _, d1) \<Rightarrow> (Inr (), mark_delivery_event name ev
               (\<lambda>w. w\<lparr>dv_processedAt := Some now, dv_processingStartedAt := None, dv_processingError := None\<rparr>) d1)
           | (Inl e, d1) \<Rightarrow> (Inl (Service_Unavailable ''please retry''), mark_delivery_event name ev
               (\<lambda>w. w\<lparr>dv_processingError := Some ''error'', dv_processingStartedAt := None\<rparr>) d1)))"

definition handle_delivery_provider_webhook ::
  "courier_env \<Rightarrow> string \<Rightarrow> oid \<Rightarrow> string \<Rightarrow> string option \<Rightarrow> db \<Rightarrow> unit result \<times> db" where
  "handle_delivery_provider_webhook env name acc raw sig d =
     (if name \<notin> set known_delivery_provider_names \<or> name = ''manual''
      then (Inl (Bad_Request ''not a BYOC-eligible delivery provider''), d)
      else
        (case find_one (\<lambda>a. ca_id a = acc \<and> ca_provider a = name) (db_courierAccounts d) of
           None \<Rightarrow> (Inl (Bad_Request ''No matching account''), d)
         | Some a \<Rightarrow>
           (case de_build env a of
              None \<Rightarrow> (Inl (Bad_Request ''not currently connectable''), d)
            | Some prov \<Rightarrow>
              (case cx_verify prov raw sig of
                 None \<Rightarrow> (Inl (Bad_Request ''Invalid webhook signature''), d)
               | Some ev \<Rightarrow>
                 (let (claimed, d1) = claim_delivery_webhook_event (de_now env) name ev d in
                  if \<not> claimed then (Inr (), d1)
                  else process_claimed_event (de_now env) name ev (ca_restaurantId a) d1)))))"

end
