(* ===== verification/Delivery_Safety.thy ===== *)
theory Delivery_Safety
  imports Delivery_Dispatch
begin

text \<open>
  What every operation on deliveries keeps. The locale \<open>delivery_invariant\<close> names the writes
  the operations are made of - a document saved under its keys, an insert under the unique indexes,
  the switch to manual dispatch, an order transition, the log - and carries a property that these keep through booking,
  retry, status changes, switching, cancelling and courier webhooks. First interpretation: at most one
  delivery per order. Then the single operations: forward-only statuses, no second booking.
\<close>

section \<open>Keys\<close>

definition dkeys :: "delivery \<Rightarrow> oid \<times> oid \<times> oid \<times> string" where
  "dkeys x = (dl_id x, dl_restaurantId x, dl_orderId x, dl_idempotencyKey x)"

named_theorems keep_keys "document changes that leave the keys of a delivery"

lemma keys_add_entry [keep_keys, simp]: "dkeys (add_entry s now e n x) = dkeys x"
  by (simp add: dkeys_def add_entry_def)

lemma keys_updates [keep_keys, simp]:
  "dkeys (x\<lparr>dl_status := s\<rparr>) = dkeys x" "dkeys (x\<lparr>dl_provider := p\<rparr>) = dkeys x"
  "dkeys (x\<lparr>dl_failureReason := f\<rparr>) = dkeys x" "dkeys (x\<lparr>dl_lastProviderError := g\<rparr>) = dkeys x"
  "dkeys (x\<lparr>dl_quoteId := q\<rparr>) = dkeys x" "dkeys (x\<lparr>dl_providerDeliveryId := i\<rparr>) = dkeys x"
  "dkeys (x\<lparr>dl_trackingUrl := u\<rparr>) = dkeys x" "dkeys (x\<lparr>dl_fee := m\<rparr>) = dkeys x"
  "dkeys (x\<lparr>dl_currency := c\<rparr>) = dkeys x"
  by (simp_all add: dkeys_def)

lemma keys_steps [keep_keys, simp]:
  "dkeys (note_quote env ord q x) = dkeys x" "dkeys (record_booking env c res x) = dkeys x"
  "dkeys (delivery_after now u x) = dkeys x" "dkeys (switched env x) = dkeys x"
  by (simp_all add: note_quote_def record_booking_def delivery_after_def switched_def dkeys_def add_entry_def Let_def)

definition stored_as :: "delivery \<Rightarrow> db \<Rightarrow> bool" where
  "stored_as x d \<longleftrightarrow> dkeys x \<in> dkeys ` set (db_deliveries d)"

lemma stored_found: "find_delivery i rid d = Some x \<Longrightarrow> stored_as x d"
  by (auto simp: find_delivery_def stored_as_def dest: find_one_SomeD)

lemma stored_cong: "dkeys x = dkeys y \<Longrightarrow> stored_as x d = stored_as y d"
  by (simp add: stored_as_def)

lemma save_keeps_keys:
  assumes ids: "distinct (map dl_id (db_deliveries d))" and st: "stored_as x d"
    and sv: "save_delivery x d = Some d'"
  shows "\<exists>xs. d' = d\<lparr>db_deliveries := xs\<rparr> \<and> map dkeys xs = map dkeys (db_deliveries d)"
proof -
  obtain y where y: "y \<in> set (db_deliveries d)" "dkeys y = dkeys x" using st by (auto simp: stored_as_def)
  have upd: "map dkeys (update_one (\<lambda>z. dl_id z = dl_id x) (\<lambda>_. x) xs) = map dkeys xs"
    if "distinct (map dl_id xs)" "y \<in> set xs" for xs
    using that
  proof (induction xs)
    case (Cons z zs)
    show ?case
    proof (cases "dl_id z = dl_id x")
      case True
      have "dl_id y = dl_id x" using y(2) by (simp add: dkeys_def)
      with True Cons.prems have "y = z" by (auto simp: image_iff)
      with True y(2) show ?thesis by simp
    next
      case False
      with Cons y(2) show ?thesis by (auto simp: dkeys_def)
    qed
  qed simp
  from sv upd [OF ids y(1)] show ?thesis by (auto simp: save_delivery_def split: if_splits)
qed

section \<open>Invariants of all operations\<close>

datatype delivery_op =
    Op_Create_Delivery courier_env oid oid
  | Op_Retry courier_env oid oid
  | Op_Update time oid oid delivery_update
  | Op_Switch courier_env oid oid oid
  | Op_Cancel courier_env oid oid "string option" oid
  | Op_Courier_Webhook courier_env string oid string "string option"

fun run_delivery_op :: "delivery_op \<Rightarrow> db \<Rightarrow> db" where
  "run_delivery_op (Op_Create_Delivery env oid rid) d = snd (create_delivery_for_order env oid rid d)"
| "run_delivery_op (Op_Retry env i rid) d = snd (retry_delivery_creation env i rid d)"
| "run_delivery_op (Op_Update now i rid u) d = snd (update_delivery_status now i rid u d)"
| "run_delivery_op (Op_Switch env i rid actor) d = snd (switch_delivery_to_manual env i rid actor d)"
| "run_delivery_op (Op_Cancel env i rid reason actor) d = snd (cancel_delivery env i rid reason actor d)"
| "run_delivery_op (Op_Courier_Webhook env name acc raw sig) d =
     snd (handle_delivery_provider_webhook env name acc raw sig d)"

locale delivery_invariant =
  fixes Inv :: "db \<Rightarrow> bool"
  assumes save_inv: "Inv d \<Longrightarrow> stored_as x d \<Longrightarrow> save_delivery x d = Some d' \<Longrightarrow> Inv d'"
    and manual_inv: "Inv d \<Longrightarrow> Inv (d\<lparr>db_deliveries := update_one q (switched env) (db_deliveries d)\<rparr>)"
    and insert_inv: "Inv d \<Longrightarrow> insert_unique delivery_clash x (db_deliveries d) = Some xs \<Longrightarrow>
      Inv (d\<lparr>db_deliveries := xs\<rparr>)"
    and order_inv: "Inv d \<Longrightarrow> Inv (snd (apply_order_status_transition now oid rid s actor d))"
    and emit_inv: "Inv (emit_order_event e d) = Inv d"
    and audit_inv: "Inv (record_audit_event a d) = Inv d"
    and events_inv: "Inv (d\<lparr>db_deliveryEvents := ws\<rparr>) = Inv d"
begin

lemma delivery_audit_inv [simp]: "Inv (delivery_audit a actor i d) = Inv d"
  by (simp add: delivery_audit_def audit_inv split: option.split)

lemma emit_updated_inv [simp]: "Inv (emit_delivery_updated x rid d) = Inv d"
  by (simp add: emit_delivery_updated_def emit_inv split: option.split)

lemma fail_inv:
  assumes "Inv d" "stored_as x d"
  shows "Inv (snd (fail_dispatch env x m d))"
proof -
  let ?x = "add_entry D_Failed (de_now env) None (Some m)
    (x\<lparr>dl_status := D_Failed, dl_failureReason := Some m, dl_lastProviderError := Some m\<rparr>)"
  have "stored_as ?x d" using assms(2) by (simp add: stored_as_def)
  then show ?thesis using assms(1) save_inv [of d ?x] by (simp add: fail_dispatch_def Let_def split: option.split)
qed

lemma book_inv:
  assumes inv: "Inv d" and st: "stored_as x d"
  shows "Inv (snd (book_courier env prov x ord r pickup dropoff d))"
proof -
  have booked: "Inv (snd (case save_delivery y d of Some d' \<Rightarrow> (Inr y, d') | None \<Rightarrow> fail_dispatch env y m d))"
    if "dkeys y = dkeys x" for y m
    using inv st that save_inv [of d y] fail_inv [of d y env m] stored_cong [of y x d] by (simp split: option.split)
  have failed: "Inv (snd (fail_dispatch env y m d))" if "dkeys y = dkeys x" for y m
    using inv st that fail_inv [of d y env m] stored_cong [of y x d] by simp
  show ?thesis
    unfolding book_courier_def Let_def
    by (simp split: courier_answer.split add: failed booked)
qed

lemma dispatch_inv:
  assumes inv: "Inv d" and st: "stored_as x d"
  shows "Inv (snd (dispatch_pending_delivery env x ord r d))"
proof -
  have b: "Inv (snd (book_courier env prov y ord r p q d))" if "dkeys y = dkeys x" for y prov p q
    using inv st that stored_cong [of y x d] by (simp add: book_inv)
  have f: "Inv (snd (fail_dispatch env y m d))" if "dkeys y = dkeys x" for y m
    using inv st that stored_cong [of y x d] by (simp add: fail_inv)
  show ?thesis
    unfolding dispatch_pending_delivery_def Let_def
    by (simp add: inv b f split: option.split sum.split prod.split)
qed

lemma create_inv:
  assumes "Inv d"
  shows "Inv (snd (create_delivery_for_order env oid rid d))"
proof -
  have "Inv (snd (dispatch_pending_delivery env x ord r (d\<lparr>db_deliveries := xs\<rparr>)))"
    if "insert_unique delivery_clash x (db_deliveries d) = Some xs" for x ord r xs
  proof (rule dispatch_inv)
    show "Inv (d\<lparr>db_deliveries := xs\<rparr>)" using insert_inv [OF assms that] .
    show "stored_as x (d\<lparr>db_deliveries := xs\<rparr>)" using insert_unique_SomeD [OF that] by (simp add: stored_as_def)
  qed
  with assms show ?thesis unfolding create_delivery_for_order_def Let_def by (simp split: option.split)
qed

lemma retry_inv:
  assumes "Inv d"
  shows "Inv (snd (retry_delivery_creation env i rid d))"
proof -
  have "Inv (snd (dispatch_pending_delivery env (x\<lparr>dl_status := D_Pending, dl_failureReason := None\<rparr>) ord r d))"
    if "find_delivery i rid d = Some x" for x ord r
    using stored_found [OF that] by (intro dispatch_inv assms) (simp add: stored_as_def)
  with assms show ?thesis unfolding retry_delivery_creation_def by (simp split: option.split)
qed

lemma mirror_inv: "Inv d \<Longrightarrow> Inv (snd (mirror_step now oid rid s actor d))"
  using order_inv [of d now oid rid s actor]
  by (auto simp: mirror_step_def emit_inv split: sum.split prod.split)

lemma advance_inv: "Inv d \<Longrightarrow> Inv (advance_order_for_delivery_status now oid rid ds actor d)"
  using mirror_inv [of d now oid rid Out_For_Delivery actor]
  by (auto simp: advance_order_for_delivery_status_def Let_def intro: mirror_inv split: option.split prod.split)

lemma update_inv:
  assumes "Inv d"
  shows "Inv (snd (update_delivery_status now i rid u d))"
proof -
  have "Inv d1" if "find_delivery i rid d = Some x" "save_delivery (delivery_after now u x) d = Some d1" for x d1
    using stored_found [OF that(1)] that(2) by (intro save_inv [OF assms]) (simp_all add: stored_as_def)
  with assms show ?thesis
    unfolding update_delivery_status_def Let_def by (simp add: advance_inv split: option.split)
qed

lemma switch_inv: "Inv d \<Longrightarrow> Inv (snd (switch_delivery_to_manual env i rid actor d))"
  unfolding switch_delivery_to_manual_def Let_def by (simp add: manual_inv split: option.split)

lemma cancel_inv: "Inv d \<Longrightarrow> Inv (snd (cancel_delivery env i rid reason actor d))"
  unfolding cancel_delivery_def by (simp add: update_inv split: option.split courier_answer.split)

lemma mark_inv [simp]: "Inv (mark_delivery_event name ev f d) = Inv d"
  by (simp add: mark_delivery_event_def events_inv)

lemma claim_inv: "Inv (snd (claim_delivery_webhook_event now name ev d)) = Inv d"
  by (simp add: claim_delivery_webhook_event_def events_inv split: option.split)

lemma claimed_inv: "Inv d \<Longrightarrow> Inv (snd (process_claimed_event now name ev rid d))"
  using update_inv [of d]
  by (auto simp: process_claimed_event_def split: option.split sum.split prod.split)
    (metis snd_conv)+

lemma webhook_inv:
  assumes "Inv d"
  shows "Inv (snd (handle_delivery_provider_webhook env name acc raw sig d))"
proof -
  have "Inv d1" if "claim_delivery_webhook_event (de_now env) name ev d = (b, d1)" for ev b d1
    using claim_inv [of "de_now env" name ev d] assms that by simp
  with assms show ?thesis
    unfolding handle_delivery_provider_webhook_def
    by (auto intro: claimed_inv split: option.split prod.split)
qed

lemma run_op_inv: "Inv d \<Longrightarrow> Inv (run_delivery_op op d)"
  by (cases op) (simp_all add: create_inv retry_inv update_inv switch_inv cancel_inv webhook_inv)

lemma run_ops_inv: "Inv d \<Longrightarrow> Inv (fold run_delivery_op ops d)"
  by (induction ops arbitrary: d) (simp_all add: run_op_inv)

end

section \<open>One delivery per order\<close>

lemma deliveries_of_orders:
  "db_deliveries (snd (apply_order_status_transition now oid rid s actor d)) = db_deliveries d"
proof -
  have "db_deliveries (snd (reverse_loyalty_if_needed x d')) = db_deliveries d'" for x d'
    by (auto simp: reverse_loyalty_if_needed_def reverse_loyalty_for_order_def Let_def add_txn_def
        set_account_def split: option.splits)
  then have r: "reverse_loyalty_if_needed x d' = (res, d'') \<Longrightarrow> db_deliveries d'' = db_deliveries d'" for x d' res d''
    by (metis snd_conv)
  show ?thesis
    unfolding apply_order_status_transition_def Let_def
    by (auto simp: transition_followups_def save_order_status_def emit_simps Let_def
        split: option.split sum.split prod.split dest!: r)
qed

definition unique_deliveries :: "db \<Rightarrow> bool" where
  "unique_deliveries d \<longleftrightarrow> distinct (map dl_id (db_deliveries d)) \<and> distinct (map dl_orderId (db_deliveries d))"

lemma unique_deliveries_cong:
  assumes "map dkeys (db_deliveries d') = map dkeys (db_deliveries d)"
  shows "unique_deliveries d' = unique_deliveries d"
proof -
  have m: "map dl_id xs = map fst (map dkeys xs)" "map dl_orderId xs = map (\<lambda>k. fst (snd (snd k))) (map dkeys xs)" for xs
    by (simp_all add: dkeys_def)
  show ?thesis unfolding unique_deliveries_def m assms ..
qed

interpretation courier_records: delivery_invariant unique_deliveries
proof unfold_locales
  show "unique_deliveries d'" if "unique_deliveries d" "stored_as x d" "save_delivery x d = Some d'" for d x d'
  proof -
    have "distinct (map dl_id (db_deliveries d))" using that(1) by (simp add: unique_deliveries_def)
    from save_keeps_keys [OF this that(2,3)] that(1) unique_deliveries_cong [of d' d] show ?thesis by auto
  qed
  show "unique_deliveries (d\<lparr>db_deliveries := update_one q (switched env) (db_deliveries d)\<rparr>)"
    if "unique_deliveries d" for d q env
    using that unique_deliveries_cong [of "d\<lparr>db_deliveries := update_one q (switched env) (db_deliveries d)\<rparr>" d]
    by (simp add: map_update_one)
  show "unique_deliveries (d\<lparr>db_deliveries := xs\<rparr>)"
    if "unique_deliveries d" "insert_unique delivery_clash x (db_deliveries d) = Some xs" for d x xs
    using insert_unique_SomeD [OF that(2)] that(1) by (auto simp: unique_deliveries_def delivery_clash_def)
  show "unique_deliveries (snd (apply_order_status_transition now oid rid s actor d))"
    if "unique_deliveries d" for d now oid rid s actor
    using that by (simp add: unique_deliveries_def deliveries_of_orders)
qed (simp_all add: unique_deliveries_def emit_order_event_def record_audit_event_def)

text \<open>C25. An order never has two courier records: over any sequence of bookings, retries, status changes,
  switches, cancellations and webhooks, ids and orders stay distinct, so every request for an order
  that has a delivery is answered with that delivery and changes nothing.\<close>

theorem one_delivery_per_order:
  assumes "unique_deliveries d" "d' = fold run_delivery_op ops d" "x \<in> set (db_deliveries d')"
  shows "unique_deliveries d' \<and> create_delivery_for_order env (dl_orderId x) rid d' = (Inr x, d')"
proof -
  have u: "unique_deliveries d'" using courier_records.run_ops_inv [OF assms(1)] by (simp add: assms(2))
  then have "distinct (map dl_orderId (db_deliveries d'))" by (simp add: unique_deliveries_def)
  from find_id_mem [OF this assms(3)] u show ?thesis
    by (simp add: create_delivery_for_order_def delivery_of_order_def)
qed

section \<open>Statuses\<close>

fun delivery_rank :: "delivery_status \<Rightarrow> nat" where
  "delivery_rank D_Pending = 0"
| "delivery_rank D_Quoted = 1"
| "delivery_rank D_Requested = 2"
| "delivery_rank D_Accepted = 3"
| "delivery_rank D_Driver_Assigned = 4"
| "delivery_rank D_Picked_Up = 5"
| "delivery_rank D_Out_For_Delivery = 6"
| "delivery_rank D_Delivered = 7"
| "delivery_rank D_Cancelled = 7"
| "delivery_rank D_Failed = 7"

interpretation delivery_table: ranked_table is_valid_delivery_transition
  "\<lambda>s. delivery_rank s = 7" delivery_rank
proof unfold_locales
  show "\<not> is_valid_delivery_transition s t" if "delivery_rank s = 7" for s t
    using that by (cases s) (simp_all add: is_valid_delivery_transition_def)
  show "delivery_rank s < delivery_rank t" if "is_valid_delivery_transition s t" for s t
    using that by (cases s) (auto simp: is_valid_delivery_transition_def)
qed

lemma cancellable_iff: "s \<in> set cancellable_delivery_statuses \<longleftrightarrow> is_valid_delivery_transition s D_Cancelled"
  by (cases s) (simp_all add: cancellable_delivery_statuses_def is_valid_delivery_transition_def)

text \<open>A courier's status only moves forward: an update that is not allowed by the table changes nothing
  at all, whatever it carries; an allowed one appends exactly one history entry with the event's id; a
  repeat of the same status appends none. Delivered, cancelled and failed deliveries keep their status.\<close>

theorem delivery_moves_forward:
  assumes "find_delivery i rid d = Some x" "update_delivery_status now i rid u d = (Inr x', d')"
  shows "(if du_nextStatus u = dl_status x then dl_status x' = dl_status x \<and> dl_statusHistory x' = dl_statusHistory x
     else if is_valid_delivery_transition (dl_status x) (du_nextStatus u)
     then dl_status x' = du_nextStatus u \<and> delivery_rank (dl_status x) < delivery_rank (dl_status x') \<and>
       dl_statusHistory x' = dl_statusHistory x @ [\<lparr>de_status = du_nextStatus u, de_at = now,
         de_providerEventId = du_providerEventId u, de_note = du_note u\<rparr>]
     else x' = x \<and> d' = d) \<and>
    (delivery_rank (dl_status x) = 7 \<longrightarrow> dl_status x' = dl_status x)"
proof -
  have *: "(du_nextStatus u \<noteq> dl_status x \<and> \<not> is_valid_delivery_transition (dl_status x) (du_nextStatus u) \<and> x' = x \<and> d' = d) \<or>
      (du_nextStatus u = dl_status x \<or> is_valid_delivery_transition (dl_status x) (du_nextStatus u)) \<and> x' = delivery_after now u x"
    using assms by (auto simp: update_delivery_status_def Let_def split: if_splits option.splits)
  have up: "is_valid_delivery_transition (dl_status x) (du_nextStatus u) \<Longrightarrow>
      delivery_rank (dl_status x) < delivery_rank (du_nextStatus u)" by (rule delivery_table.rank_up)
  have stuck: "delivery_rank (dl_status x) = 7 \<Longrightarrow> \<not> is_valid_delivery_transition (dl_status x) (du_nextStatus u)"
    by (rule delivery_table.terminal_stuck)
  from * up stuck show ?thesis
    by (cases "du_nextStatus u = dl_status x") (auto simp: delivery_after_def add_entry_def Let_def)
qed

section \<open>No second courier\<close>

text \<open>A delivery that a courier was booked for is never dispatched again: a retry and a switch to the
  restaurant's own staff are refused and change nothing, and a creation request returns it.\<close>

theorem booked_not_redispatched:
  assumes "find_delivery i rid d = Some x" "truthy_string (dl_providerDeliveryId x)"
  shows "(\<exists>m. retry_delivery_creation env i rid d = (Inl (Conflict m), d)) \<and>
    (\<exists>m. switch_delivery_to_manual env i rid actor d = (Inl (Conflict m), d)) \<and>
    (\<exists>y. create_delivery_for_order env (dl_orderId x) rid d = (Inr y, d))"
proof -
  have "x \<in> set (db_deliveries d)" using assms(1) by (auto simp: find_delivery_def dest: find_one_SomeD)
  then obtain y where "delivery_of_order (dl_orderId x) d = Some y"
    unfolding delivery_of_order_def by (metis (mono_tags, lifting) find_one_None_iff not_None_eq)
  with assms show ?thesis
    by (auto simp: retry_delivery_creation_def switch_delivery_to_manual_def create_delivery_for_order_def)
qed

end
