(* ===== verification/Delivery_Behaviour.thy ===== *)
theory Delivery_Behaviour
  imports Delivery_Safety
begin

text \<open>
  What single requests on deliveries do: how a courier's milestones move the order, how a courier's
  webhook survives a failure, samples and witnesses, and two cases in which the code departs from its
  comments: a refusal that is too long to be stored, and a courier for a cancelled order.
\<close>

section \<open>Milestones move the order\<close>

lemma followups_orders [simp]: "db_orders (transition_followups x s actor d) = db_orders d"
  by (simp add: transition_followups_def emit_simps Let_def split: option.split)

lemma find_order_moved:
  assumes ids: "distinct (map o_id (db_orders d))" and x: "find_order oid rid d = Some x"
  shows "find_order oid rid (save_order_status now s (o_id x) d) = Some (order_moved now s x)"
proof -
  have xD: "x \<in> set (db_orders d)" "o_id x = oid" "o_restaurantId x = rid" using find_order_SomeD [OF x] by auto
  have "find_one (\<lambda>y. o_id y = oid \<and> o_restaurantId y = rid) (update_one (\<lambda>y. o_id y = oid) (order_moved now s) os) =
      Some (order_moved now s x)" if "distinct (map o_id os)" "x \<in> set os" for os
    using that
  proof (induction os)
    case (Cons y ys)
    show ?case
    proof (cases "o_id y = oid")
      case True
      with Cons.prems xD(2) have "y = x" by (auto simp: image_iff)
      with xD show ?thesis by (simp add: order_moved_def)
    next
      case False
      with Cons xD(2) show ?thesis by auto
    qed
  qed simp
  from this [OF ids xD(1)] xD(2) show ?thesis by (simp add: find_order_def save_order_status_def)
qed

lemma order_ids_moved [simp]: "map o_id (db_orders (save_order_status now s i d)) = map o_id (db_orders d)"
  by (simp add: save_order_status_def map_update_one order_moved_def)

text \<open>A transition that is not a cancellation.\<close>

lemma transition_ok:
  assumes "distinct (map o_id (db_orders d))" "find_order oid rid d = Some x"
    and "is_valid_status_transition (o_status x) s (o_orderType x)" "\<not> awaits_payment x" "s \<noteq> Cancelled"
  shows "apply_order_status_transition now oid rid s actor d =
      (Inr (order_moved now s x, o_status x),
       transition_followups (order_moved now s x) s actor (save_order_status now s (o_id x) d)) \<and>
    find_order oid rid (snd (apply_order_status_transition now oid rid s actor d)) = Some (order_moved now s x) \<and>
    distinct (map o_id (db_orders (snd (apply_order_status_transition now oid rid s actor d))))"
  using assms find_order_moved [OF assms(1,2), of now s]
  by (simp add: apply_order_status_transition_def Let_def find_order_def)

lemma mirror_ok:
  assumes "distinct (map o_id (db_orders d))" "find_order oid rid d = Some x"
    and "is_valid_status_transition (o_status x) s (o_orderType x)" "\<not> awaits_payment x" "s \<noteq> Cancelled"
  obtains d' where "mirror_step now oid rid s actor d = (True, d')"
    "find_order oid rid d' = Some (order_moved now s x)" "distinct (map o_id (db_orders d'))"
proof -
  from transition_ok [OF assms, of now actor]
  obtain d1 where "apply_order_status_transition now oid rid s actor d = (Inr (order_moved now s x, o_status x), d1)"
    "find_order oid rid d1 = Some (order_moved now s x)" "distinct (map o_id (db_orders d1))" by fastforce
  with that show thesis by (simp add: mirror_step_def emit_order_event_def find_order_def)
qed

text \<open>A courier's milestones move the order: once the food is ready, pick-up puts the order out for
  delivery and delivery completes it, in one or two recorded steps; before that, after it or when the
  order was cancelled, nothing about it changes.\<close>

theorem milestone_moves_order:
  assumes ids: "distinct (map o_id (db_orders d))" and x: "find_order oid rid d = Some x"
    and ty: "o_orderType x = Delivery" and paid: "\<not> awaits_payment x"
    and ms: "ds \<in> {D_Picked_Up, D_Out_For_Delivery, D_Delivered}"
  shows "if o_status x \<in> {Ready, Out_For_Delivery}
    then \<exists>y. find_order oid rid (advance_order_for_delivery_status now oid rid ds actor d) = Some y \<and>
      o_status y = (if ds = D_Delivered then Completed else Out_For_Delivery) \<and>
      o_statusHistory y = o_statusHistory x @ (if o_status x = Ready then [(Out_For_Delivery, now)] else []) @
        (if ds = D_Delivered then [(Completed, now)] else [])
    else advance_order_for_delivery_status now oid rid ds actor d = d"
proof (cases "o_status x")
  case Ready
  with ty have v: "is_valid_status_transition (o_status x) Out_For_Delivery (o_orderType x)"
    by (simp add: is_valid_status_transition_def)
  obtain d1 where d1: "mirror_step now oid rid Out_For_Delivery actor d = (True, d1)"
    "find_order oid rid d1 = Some (order_moved now Out_For_Delivery x)" "distinct (map o_id (db_orders d1))"
    using mirror_ok [OF ids x v paid] by blast
  have v2: "is_valid_status_transition (o_status (order_moved now Out_For_Delivery x)) Completed
      (o_orderType (order_moved now Out_For_Delivery x))"
    by (simp add: is_valid_status_transition_def order_moved_def)
  have p2: "\<not> awaits_payment (order_moved now Out_For_Delivery x)" using paid by (simp add: awaits_payment_def order_moved_def)
  obtain d2 where d2: "mirror_step now oid rid Completed actor d1 = (True, d2)"
    "find_order oid rid d2 = Some (order_moved now Completed (order_moved now Out_For_Delivery x))"
    using mirror_ok [OF d1(3,2) v2 p2] by blast
  show ?thesis using Ready ms x d1 d2
    by (auto simp: advance_order_for_delivery_status_def order_moved_def)
next
  case Out_For_Delivery
  then have v: "is_valid_status_transition (o_status x) Completed (o_orderType x)"
    by (simp add: is_valid_status_transition_def)
  obtain d1 where d1: "mirror_step now oid rid Completed actor d = (True, d1)"
    "find_order oid rid d1 = Some (order_moved now Completed x)"
    using mirror_ok [OF ids x v paid] by blast
  show ?thesis using Out_For_Delivery ms x d1
    by (auto simp: advance_order_for_delivery_status_def order_moved_def)
qed (use ms x in \<open>auto simp: advance_order_for_delivery_status_def\<close>)

section \<open>Courier webhooks are retried\<close>

lemma courier_events_of_orders:
  "db_deliveryEvents (snd (apply_order_status_transition now oid rid s actor d)) = db_deliveryEvents d"
proof -
  have "db_deliveryEvents (snd (reverse_loyalty_if_needed x d')) = db_deliveryEvents d'" for x d'
    by (auto simp: reverse_loyalty_if_needed_def reverse_loyalty_for_order_def Let_def add_txn_def
        set_account_def split: option.splits)
  then have r: "reverse_loyalty_if_needed x d' = (res, d'') \<Longrightarrow> db_deliveryEvents d'' = db_deliveryEvents d'" for x d' res d''
    by (metis snd_conv)
  show ?thesis
    unfolding apply_order_status_transition_def Let_def
    by (auto simp: transition_followups_def save_order_status_def emit_simps Let_def
        split: option.split sum.split prod.split dest!: r)
qed

lemma courier_events_mirror: "db_deliveryEvents (snd (mirror_step now oid rid s actor d)) = db_deliveryEvents d"
  using courier_events_of_orders [of now oid rid s actor d]
  by (auto simp: mirror_step_def emit_order_event_def split: sum.split prod.split)

lemma courier_events_advance:
  "db_deliveryEvents (advance_order_for_delivery_status now oid rid ds actor d) = db_deliveryEvents d"
proof -
  have m: "mirror_step now oid rid s actor d' = (b, d'') \<Longrightarrow> db_deliveryEvents d'' = db_deliveryEvents d'" for s d' b d''
    using courier_events_mirror by (metis snd_conv)
  show ?thesis
    by (auto simp: advance_order_for_delivery_status_def Let_def courier_events_mirror split: option.split prod.split
        dest!: m)
qed

lemma courier_events_log [simp]:
  "db_deliveryEvents (delivery_audit a actor i d) = db_deliveryEvents d"
  "db_deliveryEvents (emit_delivery_updated x rid d) = db_deliveryEvents d"
  by (simp_all add: delivery_audit_def emit_delivery_updated_def emit_simps split: option.split)

lemma courier_events_update: "db_deliveryEvents (snd (update_delivery_status now i rid u d)) = db_deliveryEvents d"
proof -
  have "db_deliveryEvents d1 = db_deliveryEvents d" if "save_delivery x d = Some d1" for x d1
    using that by (auto simp: save_delivery_def split: if_splits)
  then show ?thesis
    by (simp add: update_delivery_status_def Let_def courier_events_advance split: option.split)
qed

text \<open>The recorded event of a key, and what the handler's writes do to it.\<close>

definition event_at :: "string \<times> string \<Rightarrow> db \<Rightarrow> delivery_event option" where
  "event_at k d = find_one (\<lambda>w. dv_key w = k) (db_deliveryEvents d)"

definition event_keys_distinct :: "db \<Rightarrow> bool" where
  "event_keys_distinct d \<longleftrightarrow> distinct (map dv_key (db_deliveryEvents d))"

definition idle :: "time \<Rightarrow> delivery_event \<Rightarrow> bool" where
  "idle now w \<longleftrightarrow> dv_processedAt w = None \<and>
     (case dv_processingStartedAt w of None \<Rightarrow> True | Some t \<Rightarrow> t < now - claim_stale_ms)"

lemma claim_known:
  assumes "event_keys_distinct d" "event_at (name, ce_eventId ev) d = Some w"
  shows "claim_delivery_webhook_event now name ev d =
    (if idle now w then (True, d\<lparr>db_deliveryEvents := update_one (\<lambda>v. dv_key v = (name, ce_eventId ev))
        (\<lambda>w. w\<lparr>dv_processingStartedAt := Some now\<rparr>) (db_deliveryEvents d)\<rparr>)
     else (False, d))"
proof -
  have cl: "claimable now name ev = (\<lambda>v. dv_key v = (name, ce_eventId ev) \<and> idle now v)"
    by (auto simp: claimable_def idle_def)
  have w: "w \<in> set (db_deliveryEvents d)" "dv_key w = (name, ce_eventId ev)"
    using assms(2) by (auto simp: event_at_def dest: find_one_SomeD)
  then have ins: "insert_unique (\<lambda>x y. dv_key x = dv_key y) (new_delivery_event now name ev) (db_deliveryEvents d) = None"
    by (auto simp: insert_unique_None_iff new_delivery_event_def dv_key_def)
  have ids: "distinct (map dv_key (db_deliveryEvents d))" using assms(1) by (simp add: event_keys_distinct_def)
  have f: "find_one (claimable now name ev) (db_deliveryEvents d) = (if idle now w then Some w else None)"
    unfolding cl using find_guarded [OF ids, of "(name, ce_eventId ev)" "idle now"] assms(2) by (simp add: event_at_def)
  show ?thesis
  proof (cases "idle now w")
    case True
    then have "find_one (claimable now name ev) (db_deliveryEvents d) = Some w" using f by simp
    from update_guarded [OF ids this [unfolded cl]] True f show ?thesis
      by (simp add: claim_delivery_webhook_event_def ins cl)
  next
    case False
    then have "find_one (claimable now name ev) (db_deliveryEvents d) = None" using f by simp
    with False update_one_none [OF this] show ?thesis by (simp add: claim_delivery_webhook_event_def ins)
  qed
qed

lemma claim_new:
  assumes "event_at (name, ce_eventId ev) d = None"
  shows "claim_delivery_webhook_event now name ev d =
    (True, d\<lparr>db_deliveryEvents := db_deliveryEvents d @ [new_delivery_event now name ev]\<rparr>)"
proof -
  have "insert_unique (\<lambda>x y. dv_key x = dv_key y) (new_delivery_event now name ev) (db_deliveryEvents d) =
      Some (db_deliveryEvents d @ [new_delivery_event now name ev])"
    using assms by (auto simp: insert_unique_def event_at_def find_one_None_iff list_ex_iff new_delivery_event_def dv_key_def)
  then show ?thesis by (simp add: claim_delivery_webhook_event_def)
qed

lemma claimed_event:
  assumes keys: "event_keys_distinct d" and cl: "claim_delivery_webhook_event now name ev d = (True, d1)"
  shows "event_keys_distinct d1 \<and> (\<exists>w. event_at (name, ce_eventId ev) d1 = Some w \<and> dv_processedAt w = None)"
proof (cases "event_at (name, ce_eventId ev) d")
  case None
  from cl claim_new [OF None, of now]
  have d1: "d1 = d\<lparr>db_deliveryEvents := db_deliveryEvents d @ [new_delivery_event now name ev]\<rparr>" by simp
  have k: "dv_key (new_delivery_event now name ev) = (name, ce_eventId ev)"
    by (simp add: new_delivery_event_def dv_key_def)
  have "\<forall>w \<in> set (db_deliveryEvents d). dv_key w \<noteq> (name, ce_eventId ev)"
    using None by (simp add: event_at_def find_one_None_iff)
  with keys None k show ?thesis
    by (auto simp: d1 event_keys_distinct_def event_at_def find_one_append) (simp_all add: new_delivery_event_def)
next
  case (Some w)
  let ?f = "\<lambda>w. w\<lparr>dv_processingStartedAt := Some now\<rparr>"
  have kf: "dv_key (?f v) = dv_key v" for v by (simp add: dv_key_def)
  from cl claim_known [OF keys Some, of now]
  have i: "idle now w" and d1: "d1 = d\<lparr>db_deliveryEvents := update_one (\<lambda>v. dv_key v = (name, ce_eventId ev)) ?f (db_deliveryEvents d)\<rparr>"
    by (auto split: if_splits)
  have "event_at (name, ce_eventId ev) d1 = Some (?f w)"
    using Some find_id_update [of dv_key ?f, OF kf, of "(name, ce_eventId ev)" "(name, ce_eventId ev)" "db_deliveryEvents d"]
    by (simp add: d1 event_at_def)
  moreover have "event_keys_distinct d1" using keys by (simp add: d1 event_keys_distinct_def map_update_one kf)
  ultimately show ?thesis using i by (simp add: idle_def)
qed

lemma marked_event:
  assumes "event_keys_distinct d" "event_at (name, ce_eventId ev) d = Some w" "\<And>v. dv_key (f v) = dv_key v"
  shows "event_keys_distinct (mark_delivery_event name ev f d) \<and>
    event_at (name, ce_eventId ev) (mark_delivery_event name ev f d) = Some (f w)"
  using assms find_id_update [of dv_key f "(name, ce_eventId ev)" "(name, ce_eventId ev)" "db_deliveryEvents d"]
  by (simp add: event_keys_distinct_def event_at_def mark_delivery_event_def map_update_one)

text \<open>C26. A courier's webhook is processed at least once and at most once successfully: when processing an
  event fails, the courier's next delivery of it is claimed again, at any later time; when it
  succeeded, every later delivery is a duplicate and changes nothing.\<close>

theorem courier_event_retried:
  assumes "event_keys_distinct d" "claim_delivery_webhook_event now name ev d = (True, d1)"
    and "process_claimed_event now name ev rid d1 = (res, d2)"
  shows "case res of Inl e \<Rightarrow> fst (claim_delivery_webhook_event later name ev d2)
    | Inr _ \<Rightarrow> claim_delivery_webhook_event later name ev d2 = (False, d2)"
proof -
  from claimed_event [OF assms(1,2)] obtain w where keys: "event_keys_distinct d1"
    and w: "event_at (name, ce_eventId ev) d1 = Some w" "dv_processedAt w = None" by blast
  have upd: "event_keys_distinct d' \<and> event_at (name, ce_eventId ev) d' = Some w"
    if "update_delivery_status now i rid u d1 = (r, d')" for i u r d'
    using courier_events_update [of now i rid u d1] that keys w(1) by (simp add: event_keys_distinct_def event_at_def)
  have done1: "claim_delivery_webhook_event later name ev (mark_delivery_event name ev f d') = (False, mark_delivery_event name ev f d')"
    if "event_keys_distinct d'" "event_at (name, ce_eventId ev) d' = Some w" "\<And>v. dv_key (f v) = dv_key v"
      "\<And>v. dv_processedAt (f v) = Some now" for d' f
    using marked_event [OF that(1-3)] claim_known [of "mark_delivery_event name ev f d'" name ev "f w" later] that(4)
    by (simp add: idle_def)
  have again: "fst (claim_delivery_webhook_event later name ev (mark_delivery_event name ev f d'))"
    if "event_keys_distinct d'" "event_at (name, ce_eventId ev) d' = Some w" "\<And>v. dv_key (f v) = dv_key v"
      "dv_processedAt (f w) = None" "dv_processingStartedAt (f w) = None" for d' f
    using marked_event [OF that(1-3)] claim_known [of "mark_delivery_event name ev f d'" name ev "f w" later] that(4,5)
    by (simp add: idle_def)
  show ?thesis
  proof (cases "find_one (\<lambda>x. dl_restaurantId x = rid \<and> dl_provider x = name \<and>
      dl_providerDeliveryId x = Some (ce_providerDeliveryId ev)) (db_deliveries d1)")
    case None
    with assms(3) done1 [OF keys w(1), of "\<lambda>w. w\<lparr>dv_processedAt := Some now, dv_processingStartedAt := None\<rparr>"]
    show ?thesis by (auto simp: process_claimed_event_def dv_key_def)
  next
    case (Some x)
    obtain r d' where u: "update_delivery_status now (dl_id x) rid (event_update ev) d1 = (r, d')" by fastforce
    note k = upd [OF u]
    show ?thesis
    proof (cases r)
      case (Inl e)
      with Some u assms(3) again [OF conjunct1 [OF k] conjunct2 [OF k],
          of "\<lambda>w. w\<lparr>dv_processingError := Some ''error'', dv_processingStartedAt := None\<rparr>"] w(2)
      show ?thesis by (auto simp: process_claimed_event_def dv_key_def)
    next
      case (Inr y)
      with Some u assms(3) done1 [OF conjunct1 [OF k] conjunct2 [OF k],
          of "\<lambda>w. w\<lparr>dv_processedAt := Some now, dv_processingStartedAt := None, dv_processingError := None\<rparr>"]
      show ?thesis by (auto simp: process_claimed_event_def dv_key_def)
    qed
  qed
qed

section \<open>Samples\<close>

definition sample_address :: delivery_address where
  "sample_address = \<lparr>da_line1 = ''1 Main St'', da_line2 = None, da_city = ''Rome'', da_state = None,
     da_postalCode = None, da_country = None, da_latitude = 0, da_longitude = 0, da_instructions = None,
     da_phone = Some ''+12125550177''\<rparr>"

definition sample_ready_order :: order where
  "sample_ready_order = sample_order\<lparr>o_status := Ready, o_paymentStatus := Order_Paid,
     o_deliveryAddress := Some sample_address\<rparr>"

definition sample_account :: courier_account where
  "sample_account = \<lparr>ca_id = ''acc1'', ca_restaurantId = ''r1'', ca_provider = ''uber_direct'', ca_status = Acc_Active,
     ca_webhookSecretConfigured = Some True\<rparr>"

definition sample_courier :: courier_api where
  "sample_courier =
     \<lparr>cx_name = ''uber_direct'', cx_quote = \<lambda>q. Answered \<lparr>cq_quoteId = Some ''q1'', cq_fee = 2, cq_currency = ''USD''\<rparr>,
      cx_create = \<lambda>_. Answered \<lparr>cr_providerDeliveryId = ''ud1'', cr_status = D_Requested, cr_trackingUrl = None,
        cr_fee = Some 2, cr_currency = None\<rparr>,
      cx_cancel = \<lambda>_ _. Answered (), cx_verify = \<lambda>_ _. None\<rparr>"

definition sample_courier_env :: courier_env where
  "sample_courier_env = \<lparr>de_now = 5, de_newId = ''d1'', de_uuid = ''u'', de_build = \<lambda>_. Some sample_courier,
     de_countries = [(''united states'', ''US'')]\<rparr>"

definition courier_restaurant :: "string \<Rightarrow> restaurant" where
  "courier_restaurant phone = sample_restaurant\<lparr>res_phone := Some phone,
     res_settings := sample_settings\<lparr>rs_deliveryProvider := Some ''uber_direct''\<rparr>\<rparr>"

definition courier_db :: "string \<Rightarrow> order \<Rightarrow> db" where
  "courier_db phone ord = sample_db\<lparr>db_restaurants := [courier_restaurant phone], db_orders := [ord],
     db_courierAccounts := [sample_account]\<rparr>"

definition booked_run :: "delivery result \<times> db" where
  "booked_run = create_delivery_for_order sample_courier_env ''o1'' ''r1'' (courier_db ''+12125550100'' sample_ready_order)"

lemma booked_run_ok: "map (\<lambda>x. (dl_status x, dl_provider x, dl_providerDeliveryId x)) (db_deliveries (snd booked_run)) =
    [(D_Requested, ''uber_direct'', Some ''ud1'')]"
  by code_simp

section \<open>Where the code departs from its comments\<close>

text \<open>A refusal that is too long is not stored: for any restaurant whose phone number starts with a plus
  sign but is too short, the reason for the staff is longer than the 300 characters that an entry of
  the history admits, so saving it fails. The request throws; the delivery stays pending, as if no
  courier had been asked, without a reason - while its comment says that it never throws and that the
  delivery is failed with a readable reason. The shortest such number, and a number that is fine:\<close>

theorem long_refusal_is_lost:
  "fst (create_delivery_for_order sample_courier_env ''o1'' ''r1'' (courier_db ''+1'' sample_ready_order)) =
      Inl (Thrown ''ValidationError'') \<and>
    map (\<lambda>x. (dl_status x, dl_provider x, dl_failureReason x)) (db_deliveries (snd
      (create_delivery_for_order sample_courier_env ''o1'' ''r1'' (courier_db ''+1'' sample_ready_order)))) =
      [(D_Pending, ''manual'', None)] \<and>
    map dl_status (db_deliveries (snd
      (create_delivery_for_order sample_courier_env ''o1'' ''r1'' (courier_db ''+12125550100'' sample_ready_order)))) =
      [D_Requested]"
  by (intro conjI; code_simp)

text \<open>The job that books a courier when the food is ready does not look at the order's status: an order
  that was cancelled before the job ran gets a courier, at the restaurant's cost.\<close>

theorem courier_for_cancelled_order:
  "map (\<lambda>x. (dl_status x, dl_provider x)) (db_deliveries (snd
      (create_delivery_for_order sample_courier_env ''o1'' ''r1''
        (snd (update_order_status 4 ''o1'' ''r1'' Cancelled ''s1'' (courier_db ''+12125550100'' sample_ready_order)))))) =
      [(D_Requested, ''uber_direct'')] \<and>
    map o_status (db_orders (snd (update_order_status 4 ''o1'' ''r1'' Cancelled ''s1''
      (courier_db ''+12125550100'' sample_ready_order)))) = [Cancelled]"
  by (intro conjI; code_simp)

section \<open>Witnesses\<close>

lemma booked_unique: "unique_deliveries (courier_db ''+12125550100'' sample_ready_order)"
  by (simp add: unique_deliveries_def courier_db_def sample_db_def)

definition booked_ops :: "delivery_op list" where
  "booked_ops = [Op_Create_Delivery sample_courier_env ''o1'' ''r1'', Op_Create_Delivery sample_courier_env ''o1'' ''r1'']"

lemma booked_ops_run: "map dl_orderId (db_deliveries (fold run_delivery_op booked_ops
    (courier_db ''+12125550100'' sample_ready_order))) = [''o1'']"
  by code_simp

theorem one_delivery_per_order_witness:
  "\<exists>x. create_delivery_for_order sample_courier_env ''o1'' ''r1'' (fold run_delivery_op booked_ops
      (courier_db ''+12125550100'' sample_ready_order)) =
    (Inr x, fold run_delivery_op booked_ops (courier_db ''+12125550100'' sample_ready_order))"
proof -
  obtain x where x: "x \<in> set (db_deliveries (fold run_delivery_op booked_ops (courier_db ''+12125550100'' sample_ready_order)))"
    "dl_orderId x = ''o1''" using booked_ops_run by auto
  from one_delivery_per_order [OF booked_unique refl x(1), of sample_courier_env "''r1''"] x(2) show ?thesis by auto
qed

lemma booked_delivery:
  obtains x where "find_delivery ''d1'' ''r1'' (snd booked_run) = Some x" "dl_status x = D_Requested"
    "dl_providerDeliveryId x = Some ''ud1''"
proof -
  have "map_option (\<lambda>x. (dl_status x, dl_providerDeliveryId x)) (find_delivery ''d1'' ''r1'' (snd booked_run)) =
      Some (D_Requested, Some ''ud1'')" by code_simp
  with that show thesis by (cases "find_delivery ''d1'' ''r1'' (snd booked_run)") auto
qed

theorem booked_not_redispatched_witness:
  "\<exists>m. retry_delivery_creation sample_courier_env ''d1'' ''r1'' (snd booked_run) = (Inl (Conflict m), snd booked_run)"
proof (rule booked_delivery)
  fix x
  assume x: "find_delivery ''d1'' ''r1'' (snd booked_run) = Some x" "dl_providerDeliveryId x = Some ''ud1''"
  then have "truthy_string (dl_providerDeliveryId x)" by simp
  from booked_not_redispatched [OF x(1) this, of sample_courier_env] show ?thesis by blast
qed

definition delivered_update :: delivery_update where
  "delivered_update = \<lparr>du_nextStatus = D_Delivered, du_providerEventId = Some ''e1'', du_courierName = Some ''Ann'',
     du_courierPhone = None, du_trackingUrl = None, du_cancelReason = None, du_note = None, du_actor = None\<rparr>"

theorem delivery_moves_forward_witness:
  "snd (update_delivery_status 9 ''d1'' ''r1'' delivered_update (snd booked_run)) = snd booked_run"
proof (rule booked_delivery)
  fix x
  assume x: "find_delivery ''d1'' ''r1'' (snd booked_run) = Some x" "dl_status x = D_Requested"
  obtain r d' where u: "update_delivery_status 9 ''d1'' ''r1'' delivered_update (snd booked_run) = (r, d')" by fastforce
  with x obtain x' where "r = Inr x'"
    by (auto simp: update_delivery_status_def delivered_update_def is_valid_delivery_transition_def)
  with delivery_moves_forward [OF x(1), of 9 delivered_update x' d'] u x(2) show ?thesis
    by (simp add: delivered_update_def is_valid_delivery_transition_def)
qed

theorem milestone_moves_order_witness:
  "\<exists>y. find_order ''o1'' ''r1'' (advance_order_for_delivery_status 9 ''o1'' ''r1'' D_Delivered None
      (courier_db ''+12125550100'' sample_ready_order)) = Some y \<and> o_status y = Completed"
  using milestone_moves_order [of "courier_db ''+12125550100'' sample_ready_order" "''o1''" "''r1''"
      sample_ready_order D_Delivered 9 None]
  by (auto simp: courier_db_def find_order_def sample_ready_order_def sample_order_def awaits_payment_def)

definition sample_courier_event :: courier_event where
  "sample_courier_event = \<lparr>ce_eventId = ''e1'', ce_eventType = ''status'', ce_providerDeliveryId = ''ud1'',
     ce_status = D_Accepted, ce_courierName = Some (replicate 201 CHR ''a''), ce_courierPhone = None,
     ce_trackingUrl = None, ce_cancelReason = None\<rparr>"

definition claimed_run :: "bool \<times> db" where
  "claimed_run = claim_delivery_webhook_event 9 ''uber_direct'' sample_courier_event (snd booked_run)"

lemma failing_event: "case fst (process_claimed_event 9 ''uber_direct'' sample_courier_event ''r1'' (snd claimed_run)) of
    Inl _ \<Rightarrow> fst claimed_run | Inr _ \<Rightarrow> False"
  by code_simp

theorem courier_event_retried_witness:
  "fst (claim_delivery_webhook_event 10 ''uber_direct'' sample_courier_event
    (snd (process_claimed_event 9 ''uber_direct'' sample_courier_event ''r1'' (snd claimed_run))))"
proof -
  have keys: "event_keys_distinct (snd booked_run)"
  proof -
    have "db_deliveryEvents (snd booked_run) = []" by code_simp
    then show ?thesis by (simp add: event_keys_distinct_def)
  qed
  obtain e where e: "fst (process_claimed_event 9 ''uber_direct'' sample_courier_event ''r1'' (snd claimed_run)) = Inl e"
    and t: "fst claimed_run" using failing_event
    by (cases "fst (process_claimed_event 9 ''uber_direct'' sample_courier_event ''r1'' (snd claimed_run))") auto
  have cl: "claim_delivery_webhook_event 9 ''uber_direct'' sample_courier_event (snd booked_run) = (True, snd claimed_run)"
    using t by (simp add: claimed_run_def prod_eq_iff)
  have pr: "process_claimed_event 9 ''uber_direct'' sample_courier_event ''r1'' (snd claimed_run) = (Inl e,
      snd (process_claimed_event 9 ''uber_direct'' sample_courier_event ''r1'' (snd claimed_run)))"
    using e by (simp add: prod_eq_iff)
  from courier_event_retried [OF keys cl pr, of 10] show ?thesis by simp
qed

end
