(* ===== verification/Payments.thy ===== *)
theory Payments
  imports Samples
begin

text \<open>
  Online payments of \<open>services/payment.service.ts\<close> with \<open>services/paymentStateMachine.ts\<close>,
  \<open>payments/eligibility.ts\<close> and the gates of \<open>payments/restaurantProvider.ts\<close>: creating a payment for
  an order, applying one status change in a transaction, and the polling reconciliation. A payment
  provider is a record of functions, one per call of the interface \<open>PaymentProvider\<close>; what it answers
  is arbitrary. The environment \<open>pay_env\<close> holds the configured providers, how an account's provider is
  built (decryption), the clock and the id of the next document.
\<close>

section \<open>Providers\<close>

record provider_intent =
  pi_providerRef :: string
  pi_status :: payment_status
  pi_clientSecret :: "string option"

record intent_input =
  ii_amount :: money
  ii_currency :: string
  ii_orderId :: oid
  ii_restaurantId :: oid
  ii_orderNumber :: int
  ii_returnUrl :: string

record refund_result =
  rr_refundRef :: string
  rr_status :: refund_status
  rr_providerStatus :: "string option"

text \<open>A refund call: a result, a definitive refusal, or anything else that was thrown.\<close>

datatype refund_answer = Refund_Result refund_result | Refund_Rejected | Refund_Unknown

datatype lookup_answer = Lookup_Result refund_result | Lookup_None | Lookup_Throws

record pay_provider =
  pv_name :: string
  pv_createIntent :: "intent_input \<Rightarrow> provider_intent option"
  pv_retrieve :: "string \<Rightarrow> payment_status option"
  pv_refund :: "string option \<Rightarrow> money \<Rightarrow> string option \<Rightarrow> string \<Rightarrow> refund_answer"
  pv_lookupRefund :: "string option \<Rightarrow> string \<Rightarrow> string option \<Rightarrow> lookup_answer"
  pv_supportsRefundIdempotency :: bool
  pv_supportsRefundLookup :: bool

record pay_env =
  pe_default :: string
  pe_pool :: "string \<Rightarrow> pay_provider option"
  pe_build :: "pay_account \<Rightarrow> pay_provider option"
  pe_routing :: bool
  pe_nodeEnv :: string
  pe_clientOrigin :: string
  pe_refundKey :: "oid \<Rightarrow> string \<Rightarrow> string"
  pe_now :: time
  pe_newId :: oid

definition get_payment_provider :: "pay_env \<Rightarrow> string option \<Rightarrow> pay_provider option" where
  "get_payment_provider env name = pe_pool env (case name of None \<Rightarrow> pe_default env | Some n \<Rightarrow> n)"

section \<open>Eligibility\<close>

definition normalize_country :: "string option \<Rightarrow> string" where
  "normalize_country c = js_upper (js_trim (case c of None \<Rightarrow> [] | Some s \<Rightarrow> s))"

definition pakistan_aliases :: "string list" where
  "pakistan_aliases = [''PK'', ''PAK'', ''PAKISTAN'']"

definition stripe_unsupported_aliases :: "string list" where
  "stripe_unsupported_aliases =
     [''PK'', ''PAK'', ''PAKISTAN'', ''IR'', ''IRAN'', ''KP'', ''NORTH KOREA'', ''SY'', ''SYRIA'', ''CU'', ''CUBA'']"

definition resolve_eligible_provider :: "string option \<Rightarrow> string option" where
  "resolve_eligible_provider c =
     (let country = normalize_country c in
      if country = [] then None
      else if country \<in> set pakistan_aliases then Some ''safepay''
      else if country \<in> set stripe_unsupported_aliases then None
      else Some ''stripe'')"

definition mock_drivers_allowed :: "string \<Rightarrow> bool" where
  "mock_drivers_allowed node_env \<longleftrightarrow> node_env \<noteq> ''production''"

definition can_process_online_payments :: "bool \<Rightarrow> string \<Rightarrow> string \<Rightarrow> bool" where
  "can_process_online_payments has_own pooled node_env =
     (if has_own then True else pooled = ''mock'' \<and> mock_drivers_allowed node_env)"

definition active_pay_account :: "oid \<Rightarrow> db \<Rightarrow> pay_account option" where
  "active_pay_account rid d =
     find_one (\<lambda>a. pa_restaurantId a = rid \<and> pa_status a = Acc_Active) (db_payAccounts d)"

section \<open>The state machine\<close>

fun payment_transitions :: "payment_status \<Rightarrow> payment_status list" where
  "payment_transitions P_Pending = [P_Requires_Action, P_Authorized, P_Paid, P_Failed, P_Cancelled]"
| "payment_transitions P_Requires_Action = [P_Authorized, P_Paid, P_Failed, P_Cancelled]"
| "payment_transitions P_Authorized = [P_Paid, P_Failed, P_Cancelled]"
| "payment_transitions P_Paid = []"
| "payment_transitions P_Failed = []"
| "payment_transitions P_Cancelled = []"
| "payment_transitions P_Refunded = []"
| "payment_transitions P_Partially_Refunded = []"

definition is_valid_payment_transition :: "payment_status \<Rightarrow> payment_status \<Rightarrow> bool" where
  "is_valid_payment_transition from to \<longleftrightarrow> to \<in> set (payment_transitions from)"

section \<open>The collection\<close>

text \<open>The unique indexes of \<open>models/Payment.ts\<close>: one paid payment per order, one document per
  provider reference, one per idempotency key of a restaurant.\<close>

definition payment_clash :: "payment \<Rightarrow> payment \<Rightarrow> bool" where
  "payment_clash x y \<longleftrightarrow>
     p_id x = p_id y \<or>
     (p_orderId x = p_orderId y \<and> p_status x = P_Paid \<and> p_status y = P_Paid) \<or>
     (p_provider x = p_provider y \<and> p_providerRef x = p_providerRef y \<and> p_providerRef x \<noteq> None) \<or>
     (p_restaurantId x = p_restaurantId y \<and> p_idempotencyKey x = p_idempotencyKey y \<and> p_idempotencyKey x \<noteq> None)"

definition insert_payment :: "payment \<Rightarrow> db \<Rightarrow> db option" where
  "insert_payment x d = map_option (\<lambda>ps. d\<lparr>db_payments := ps\<rparr>) (insert_unique payment_clash x (db_payments d))"

definition find_payment :: "oid \<Rightarrow> db \<Rightarrow> payment option" where
  "find_payment pid d = find_one (\<lambda>x. p_id x = pid) (db_payments d)"

definition update_payment :: "(payment \<Rightarrow> bool) \<Rightarrow> (payment \<Rightarrow> payment) \<Rightarrow> db \<Rightarrow> db" where
  "update_payment q f d = d\<lparr>db_payments := update_one q f (db_payments d)\<rparr>"

section \<open>Creating a payment\<close>

record create_payment_input =
  ci_restaurantId :: oid
  ci_orderId :: oid
  ci_customerId :: oid
  ci_idempotencyKey :: string

type_synonym payment_answer = "payment \<times> string option \<times> bool"

definition payment_by_key :: "oid \<Rightarrow> string \<Rightarrow> db \<Rightarrow> payment option" where
  "payment_by_key rid key d =
     find_one (\<lambda>x. p_restaurantId x = rid \<and> p_idempotencyKey x = Some key) (db_payments d)"

definition reusable_payment :: "oid \<Rightarrow> oid \<Rightarrow> db \<Rightarrow> payment option" where
  "reusable_payment rid oid d =
     find_latest p_createdAt
       (\<lambda>x. p_restaurantId x = rid \<and> p_orderId x = oid \<and>
            p_status x \<in> {P_Pending, P_Requires_Action, P_Authorized}) (db_payments d)"

text \<open>Which provider takes the payment: the restaurant's own account, else the pooled one.\<close>

definition payment_provider_for ::
  "pay_env \<Rightarrow> restaurant \<Rightarrow> db \<Rightarrow> (pay_provider \<times> oid option) result" where
  "payment_provider_for env r d =
     (case get_payment_provider env None of
        None \<Rightarrow> Inl (Thrown ''provider not configured'')
      | Some pooled \<Rightarrow>
          (case active_pay_account (res_id r) d of
             Some a \<Rightarrow> (case pe_build env a of
                 None \<Rightarrow> Inl (Thrown ''account cannot be built'')
               | Some own \<Rightarrow> Inr (own, Some (pa_id a)))
           | None \<Rightarrow>
               if pe_routing env
               then (case resolve_eligible_provider (res_country r) of
                   None \<Rightarrow> Inl (Bad_Request ''Online payment is not available for this country yet'')
                 | Some name \<Rightarrow> (case get_payment_provider env (Some name) of
                       None \<Rightarrow> Inl (Thrown ''provider not configured'')
                     | Some routed \<Rightarrow> Inr (routed, None)))
               else Inr (pooled, None)))"

definition new_payment ::
  "pay_env \<Rightarrow> create_payment_input \<Rightarrow> restaurant \<Rightarrow> order \<Rightarrow> pay_provider \<Rightarrow> oid option \<Rightarrow> provider_intent \<Rightarrow> payment" where
  "new_payment env inp r x prov acc intent =
     \<lparr>p_id = pe_newId env, p_restaurantId = ci_restaurantId inp, p_orderId = ci_orderId inp,
      p_customerId = ci_customerId inp, p_method = Kind_Online, p_provider = pv_name prov,
      p_providerRef = Some (pi_providerRef intent), p_accountId = acc,
      p_currency = rs_currency (res_settings r), p_amount = o_total x, p_status = pi_status intent,
      p_totalRefunded = 0, p_idempotencyKey = Some (ci_idempotencyKey inp), p_createdAt = pe_now env\<rparr>"

definition start_payment ::
  "pay_env \<Rightarrow> create_payment_input \<Rightarrow> restaurant \<Rightarrow> order \<Rightarrow> db \<Rightarrow> payment_answer result \<times> db" where
  "start_payment env inp r x d =
     (case payment_provider_for env r d of
        Inl e \<Rightarrow> (Inl e, d)
      | Inr (prov, acc) \<Rightarrow>
          if \<not> can_process_online_payments (acc \<noteq> None) (pv_name prov) (pe_nodeEnv env)
          then (Inl (Bad_Request ''restaurant has not connected a payment account yet''), d)
          else
            (case pv_createIntent prov
                \<lparr>ii_amount = o_total x, ii_currency = rs_currency (res_settings r), ii_orderId = o_id x,
                 ii_restaurantId = ci_restaurantId inp, ii_orderNumber = o_orderNumber x,
                 ii_returnUrl = pe_clientOrigin env @ ''/orders/'' @ o_id x\<rparr> of
               None \<Rightarrow> (Inl (Thrown ''provider error''), d)
             | Some intent \<Rightarrow>
                 if o_total x < 0 then (Inl (Thrown ''ValidationError''), d)
                 else (case insert_payment (new_payment env inp r x prov acc intent) d of
                    Some d' \<Rightarrow> (Inr (new_payment env inp r x prov acc intent, pi_clientSecret intent, True), d')
                  | None \<Rightarrow>
                      (case payment_by_key (ci_restaurantId inp) (ci_idempotencyKey inp) d of
                         Some winner \<Rightarrow> (Inr (winner, None, False), d)
                       | None \<Rightarrow> (Inl (Thrown ''E11000''), d)))))"

definition create_payment_for_order ::
  "pay_env \<Rightarrow> create_payment_input \<Rightarrow> db \<Rightarrow> payment_answer result \<times> db" where
  "create_payment_for_order env inp d =
     (case payment_by_key (ci_restaurantId inp) (ci_idempotencyKey inp) d of
        Some x \<Rightarrow> (Inr (x, None, False), d)
      | None \<Rightarrow>
        (case find_order (ci_orderId inp) (ci_restaurantId inp) d of
           None \<Rightarrow> (Inl (Not_Found ''Order not found''), d)
         | Some x \<Rightarrow>
             if o_customerId x \<noteq> ci_customerId inp then (Inl (Forbidden ''forbidden''), d)
             else if o_paymentMethod x \<noteq> Online_Pay
             then (Inl (Bad_Request ''order has no online payment to create''), d)
             else if o_paymentStatus x = Order_Paid then (Inl (Conflict ''This order is already paid''), d)
             else
               (case reusable_payment (ci_restaurantId inp) (ci_orderId inp) d of
                  Some y \<Rightarrow> (Inr (y, None, False), d)
                | None \<Rightarrow>
                    (case find_restaurant (ci_restaurantId inp) d of
                       None \<Rightarrow> (Inl (Not_Found ''Restaurant not found''), d)
                     | Some r \<Rightarrow>
                         if res_status r = Restaurant_Suspended
                         then (Inl (Bad_Request ''restaurant is temporarily unable to accept payments''), d)
                         else start_payment env inp r x d))))"

section \<open>Applying a status change\<close>

definition payment_event :: "order \<Rightarrow> payment_outcome \<Rightarrow> money option \<Rightarrow> order_event" where
  "payment_event x outcome amount =
     \<lparr>ev_type = Evt_Payment_Updated, ev_orderId = o_id x, ev_status = o_status x,
      ev_paymentOutcome = Some outcome, ev_amount = amount, ev_deliveryStatus = None\<rparr>"

definition mark_order_paid :: "oid \<Rightarrow> oid \<Rightarrow> db \<Rightarrow> db" where
  "mark_order_paid oid rid d =
     d\<lparr>db_orders := update_one (\<lambda>x. o_id x = oid \<and> o_restaurantId x = rid)
        (\<lambda>x. x\<lparr>o_paymentStatus := Order_Paid\<rparr>) (db_orders d)\<rparr>"

text \<open>The partial unique index on the paid payment of an order, checked by the update.\<close>

definition paid_elsewhere :: "payment \<Rightarrow> db \<Rightarrow> bool" where
  "paid_elsewhere x d =
     list_ex (\<lambda>y. p_id y \<noteq> p_id x \<and> p_orderId y = p_orderId x \<and> p_status y = P_Paid) (db_payments d)"

definition apply_payment_status_transition :: "payment \<Rightarrow> payment_status \<Rightarrow> db \<Rightarrow> unit result \<times> db" where
  "apply_payment_status_transition x new d =
     (case find_one (\<lambda>y. p_id y = p_id x \<and> p_status y \<noteq> new) (db_payments d) of
        None \<Rightarrow> (Inr (), d)
      | Some cur \<Rightarrow>
          if new = P_Paid \<and> paid_elsewhere cur d then (Inl (Thrown ''E11000''), d)
          else
            let d1 = update_payment (\<lambda>y. p_id y = p_id x \<and> p_status y \<noteq> new) (\<lambda>y. y\<lparr>p_status := new\<rparr>) d;
                d2 = (if new = P_Paid then mark_order_paid (p_orderId x) (p_restaurantId x) d1 else d1);
                order_after = (if new = P_Paid \<or> new = P_Failed \<or> new = P_Cancelled
                  then find_order (p_orderId x) (p_restaurantId x) d2 else None)
            in (Inr (), (case order_after of
                   None \<Rightarrow> d2
                 | Some y \<Rightarrow> emit_order_event (payment_event y (Outcome new) None) d2)))"

section \<open>Polling reconciliation\<close>

definition reconciliation_stale_after_ms :: time where
  "reconciliation_stale_after_ms = 15 * 60 * 1000"

definition reconciliation_batch_limit :: nat where
  "reconciliation_batch_limit = 500"

definition provider_of_payment :: "pay_env \<Rightarrow> payment \<Rightarrow> db \<Rightarrow> pay_provider option" where
  "provider_of_payment env x d =
     (case p_accountId x of
        Some acc \<Rightarrow> Option.bind (find_one (\<lambda>a. pa_id a = acc) (db_payAccounts d)) (pe_build env)
      | None \<Rightarrow> get_payment_provider env (Some (p_provider x)))"

definition reconcile_payment :: "pay_env \<Rightarrow> payment \<Rightarrow> db \<Rightarrow> db" where
  "reconcile_payment env x d =
     (case Option.bind (provider_of_payment env x d) (\<lambda>prov. Option.bind (p_providerRef x) (pv_retrieve prov)) of
        None \<Rightarrow> d
      | Some s \<Rightarrow>
          if s = p_status x then d
          else if \<not> is_valid_payment_transition (p_status x) s then d
          else snd (apply_payment_status_transition x s d))"

definition stale_payments :: "pay_env \<Rightarrow> db \<Rightarrow> payment list" where
  "stale_payments env d = take reconciliation_batch_limit
     (filter (\<lambda>x. p_status x \<in> {P_Pending, P_Requires_Action} \<and> p_method x = Kind_Online \<and>
        p_providerRef x \<noteq> None \<and> p_createdAt x < pe_now env - reconciliation_stale_after_ms) (db_payments d))"

definition reconcile_stale_payments :: "pay_env \<Rightarrow> db \<Rightarrow> db" where
  "reconcile_stale_payments env d = fold (reconcile_payment env) (stale_payments env d) d"

end
