(* ===== verification/Refunds.thy ===== *)
theory Refunds
  imports Payments Loyalty
begin

text \<open>
  Refunds of \<open>services/payment.service.ts\<close>: claim, reservation and provider call of \<open>refundPayment\<close>, the
  one place a refund changes status (\<open>applyRefundOutcome\<close>), reconciliation of held refunds by provider
  lookup and re-issue, resolution by a person, and provider webhooks. Each function takes the database
  and returns the result with the database after it: what was written before an error stays written.
\<close>

section \<open>Constants and small functions\<close>

definition provider_idempotency_window_ms :: time where
  "provider_idempotency_window_ms = 23 * 60 * 60 * 1000"

definition manual_not_refunded_min_hold_ms :: time where
  "manual_not_refunded_min_hold_ms = 30 * 60 * 1000"

definition lookup_evidence_max_age_ms :: time where
  "lookup_evidence_max_age_ms = 15 * 60 * 1000"

definition stale_refund_claim_ms :: time where
  "stale_refund_claim_ms = 5 * 60 * 1000"

definition is_held :: "time \<Rightarrow> refund \<Rightarrow> bool" where
  "is_held now r =
     (if r_status r \<noteq> R_Pending then False
      else if r_providerOutcomeUnknown r then True
      else \<not> truthy_string (r_providerRefundRef r) \<and> now - r_createdAt r > stale_refund_claim_ms)"

fun refund_transitions :: "refund_status \<Rightarrow> refund_status list" where
  "refund_transitions R_Pending = [R_Succeeded, R_Failed]"
| "refund_transitions R_Succeeded = [R_Failed]"
| "refund_transitions R_Failed = []"

definition find_refund :: "oid \<Rightarrow> db \<Rightarrow> refund option" where
  "find_refund i d = find_one (\<lambda>r. r_id r = i) (db_refunds d)"

definition update_refund :: "(refund \<Rightarrow> bool) \<Rightarrow> (refund \<Rightarrow> refund) \<Rightarrow> db \<Rightarrow> db" where
  "update_refund q f d = d\<lparr>db_refunds := update_one q f (db_refunds d)\<rparr>"

definition inc_total_refunded :: "oid \<Rightarrow> money \<Rightarrow> db \<Rightarrow> db" where
  "inc_total_refunded pid x d =
     update_payment (\<lambda>y. p_id y = pid) (\<lambda>y. y\<lparr>p_totalRefunded := p_totalRefunded y + x\<rparr>) d"

text \<open>The unique indexes of \<open>models/Refund.ts\<close>.\<close>

definition refund_clash :: "refund \<Rightarrow> refund \<Rightarrow> bool" where
  "refund_clash x y \<longleftrightarrow>
     r_id x = r_id y \<or>
     (r_restaurantId x = r_restaurantId y \<and> r_idempotencyKey x = r_idempotencyKey y) \<or>
     (r_provider x = r_provider y \<and> r_providerRefundRef x = r_providerRefundRef y \<and> r_providerRefundRef x \<noteq> None)"

text \<open>The credentials of the original charge: the payment's account, or the pooled default.\<close>

definition refund_provider_for :: "pay_env \<Rightarrow> payment \<Rightarrow> db \<Rightarrow> pay_provider result" where
  "refund_provider_for env x d =
     (case p_accountId x of
        None \<Rightarrow> (case get_payment_provider env None of
            None \<Rightarrow> Inl (Thrown ''provider not configured'') | Some p \<Rightarrow> Inr p)
      | Some acc \<Rightarrow> (case find_one (\<lambda>a. pa_id a = acc) (db_payAccounts d) of
            None \<Rightarrow> Inl (Thrown ''restaurant payment account no longer exists'')
          | Some a \<Rightarrow> (case pe_build env a of
                None \<Rightarrow> Inl (Thrown ''account cannot be built'') | Some p \<Rightarrow> Inr p)))"

definition refund_key_of :: "pay_env \<Rightarrow> refund \<Rightarrow> string" where
  "refund_key_of env r =
     nullish (r_providerRefundKey r) (pe_refundKey env (r_restaurantId r) (r_idempotencyKey r))"

section \<open>The payment's refunded status\<close>

definition succeeded_total :: "oid \<Rightarrow> db \<Rightarrow> money" where
  "succeeded_total pid d =
     sum_list (map r_amount (filter (\<lambda>r. r_paymentId r = pid \<and> r_status r = R_Succeeded) (db_refunds d)))"

definition refunded_status :: "money \<Rightarrow> money \<Rightarrow> payment_status" where
  "refunded_status succeeded amount =
     (if succeeded \<ge> amount then P_Refunded else if succeeded > 0 then P_Partially_Refunded else P_Paid)"

definition sync_payment_refund_status :: "oid \<Rightarrow> db \<Rightarrow> payment_status option result \<times> db" where
  "sync_payment_refund_status pid d =
     (case find_payment pid d of
        None \<Rightarrow> (Inr None, d)
      | Some x \<Rightarrow>
          if p_status x \<notin> {P_Paid, P_Partially_Refunded, P_Refunded} then (Inr (Some (p_status x)), d)
          else let next = refunded_status (round_currency (succeeded_total pid d)) (p_amount x) in
            if next = p_status x then (Inr (Some next), d)
            else if next = P_Paid \<and> paid_elsewhere x d then (Inl (Thrown ''E11000''), d)
            else (Inr (Some next), update_payment (\<lambda>y. p_id y = pid) (\<lambda>y. y\<lparr>p_status := next\<rparr>) d))"

section \<open>Applying an outcome\<close>

record refund_update =
  ru_status :: refund_status
  ru_refundRef :: "string option"
  ru_providerStatus :: "string option"

record actor_ctx =
  ax_userId :: oid
  ax_system :: bool

definition with_details :: "refund_update \<Rightarrow> refund \<Rightarrow> refund \<Rightarrow> refund" where
  "with_details u cur r =
     (let r1 = (if truthy_string (ru_refundRef u) \<and> \<not> truthy_string (r_providerRefundRef cur)
                then r\<lparr>r_providerRefundRef := ru_refundRef u\<rparr> else r)
      in if truthy_string (ru_providerStatus u) then r1\<lparr>r_providerStatus := ru_providerStatus u\<rparr> else r1)"

text \<open>The unique index on the provider's reference, when the update writes one.\<close>

definition ref_taken :: "refund_update \<Rightarrow> refund \<Rightarrow> db \<Rightarrow> bool" where
  "ref_taken u cur d =
     (truthy_string (ru_refundRef u) \<and> \<not> truthy_string (r_providerRefundRef cur) \<and>
      list_ex (\<lambda>y. r_id y \<noteq> r_id cur \<and> r_provider y = r_provider cur \<and> r_providerRefundRef y = ru_refundRef u)
        (db_refunds d))"

definition resolution_of ::
  "time \<Rightarrow> refund_method \<Rightarrow> actor_ctx \<Rightarrow> string option \<Rightarrow> refund_update \<Rightarrow> refund \<Rightarrow> resolution option" where
  "resolution_of now method ax evidence u cur =
     (if method = Provider_Response then None
      else Some \<lparr>rz_method = method, rz_refunded = (ru_status u = R_Succeeded),
        rz_providerRefundRef = (case ru_refundRef u of None \<Rightarrow> r_providerRefundRef cur | Some x \<Rightarrow> Some x),
        rz_evidence = evidence,
        rz_resolvedByUserId = (if ax_system ax then None else Some (ax_userId ax)), rz_resolvedAt = now\<rparr>)"

definition settle :: "resolution option \<Rightarrow> refund_update \<Rightarrow> refund \<Rightarrow> refund \<Rightarrow> refund" where
  "settle res u cur r =
     (let r1 = (with_details u cur r)\<lparr>r_status := ru_status u, r_amountReserved := ru_status u \<noteq> R_Failed,
                 r_providerOutcomeUnknown := False\<rparr>
      in case res of None \<Rightarrow> r1 | Some z \<Rightarrow> r1\<lparr>r_resolution := Some z\<rparr>)"

definition counted :: "refund \<Rightarrow> bool" where
  "counted r \<longleftrightarrow> r_amountReserved r \<or> r_status r = R_Succeeded"

definition refund_audit :: "string \<Rightarrow> actor_ctx \<Rightarrow> oid \<Rightarrow> db \<Rightarrow> db" where
  "refund_audit action ax pid d =
     record_audit_event \<lparr>au_action = action, au_actorUserId = ax_userId ax, au_targetId = pid\<rparr> d"

text \<open>After a success: loyalty for a full refund, then the customer's notification.\<close>

definition refund_succeeded_effects :: "refund \<Rightarrow> payment_status option \<Rightarrow> db \<Rightarrow> unit result \<times> db" where
  "refund_succeeded_effects r ps d =
     (case find_one (\<lambda>x. o_id x = r_orderId r) (db_orders d) of
        None \<Rightarrow> (Inr (), d)
      | Some x \<Rightarrow>
          (case (if ps = Some P_Refunded then reverse_loyalty_if_needed x d else (Inr (), d)) of
             (Inl e, d1) \<Rightarrow> (Inl e, d1)
           | (Inr _, d1) \<Rightarrow> (Inr (), emit_order_event (payment_event x Outcome_Refunded (Some (r_amount r))) d1)))"

text \<open>What follows the status change: the reservation, the payment's status, the audit entry.\<close>

definition after_settle ::
  "refund_method \<Rightarrow> actor_ctx \<Rightarrow> refund \<Rightarrow> refund \<Rightarrow> db \<Rightarrow> refund result \<times> db" where
  "after_settle method ax before updated d =
     (let d1 = (if r_status updated = R_Failed \<and> counted before
                then inc_total_refunded (r_paymentId updated) (- r_amount updated) d
                else if r_status updated = R_Succeeded \<and> \<not> counted before
                then inc_total_refunded (r_paymentId updated) (r_amount updated) d else d)
      in case sync_payment_refund_status (r_paymentId updated) d1 of
           (Inl e, d2) \<Rightarrow> (Inl e, d2)
         | (Inr ps, d2) \<Rightarrow>
             let d3 = (if method \<noteq> Provider_Response \<or> r_status updated = R_Failed
                       then refund_audit ''payment.refund_reconciled'' ax (r_paymentId updated) d2 else d2)
             in if r_status updated = R_Succeeded
                then (case refund_succeeded_effects updated ps d3 of
                    (Inl e, d4) \<Rightarrow> (Inl e, d4) | (Inr _, d4) \<Rightarrow> (Inr updated, d4))
                else (Inr updated, d3))"

definition apply_refund_outcome ::
  "time \<Rightarrow> refund \<Rightarrow> refund_update \<Rightarrow> actor_ctx \<Rightarrow> refund_method \<Rightarrow> string option \<Rightarrow> db \<Rightarrow> refund result \<times> db" where
  "apply_refund_outcome now r u ax method evidence d =
     (case find_refund (r_id r) d of
        None \<Rightarrow> (Inr r, d)
      | Some cur \<Rightarrow>
          if r_status cur = ru_status u
          then (if ref_taken u cur d then (Inl (Thrown ''E11000''), d)
            else let f = (\<lambda>y. let y1 = with_details u cur y in
                     if method \<noteq> Manual then y1\<lparr>r_providerOutcomeUnknown := False\<rparr> else y1)
              in (Inr (f cur), update_refund (\<lambda>y. r_id y = r_id cur) f d))
          else if ru_status u \<notin> set (refund_transitions (r_status cur)) then (Inr cur, d)
          else if ref_taken u cur d then (Inl (Thrown ''E11000''), d)
          else let f = settle (resolution_of now method ax evidence u cur) u cur
            in after_settle method ax cur (f cur)
                 (update_refund (\<lambda>y. r_id y = r_id cur \<and> r_status y = r_status cur) f d))"

section \<open>Calling the provider\<close>

definition call_provider_and_record ::
  "pay_env \<Rightarrow> refund \<Rightarrow> payment \<Rightarrow> pay_provider \<Rightarrow> actor_ctx \<Rightarrow> bool \<Rightarrow> db \<Rightarrow> refund result \<times> db" where
  "call_provider_and_record env claim x prov ax delete_on_reject d =
     (case pv_refund prov (p_providerRef x) (r_amount claim) (r_reason claim) (refund_key_of env claim) of
        Refund_Rejected \<Rightarrow>
          if delete_on_reject
          then (Inl (Thrown ''rejected''),
            (inc_total_refunded (p_id x) (- r_amount claim) d)
              \<lparr>db_refunds := delete_one (\<lambda>y. r_id y = r_id claim \<and> r_status y = R_Pending) (db_refunds d)\<rparr>)
          else (Inl (Thrown ''rejected''), d)
      | Refund_Unknown \<Rightarrow>
          (Inl (Service_Unavailable ''refund on hold''),
           refund_audit ''payment.refund_held'' ax (p_id x)
             (update_refund (\<lambda>y. r_id y = r_id claim \<and> r_status y = R_Pending)
               (\<lambda>y. y\<lparr>r_providerOutcomeUnknown := True\<rparr>) d))
      | Refund_Result res \<Rightarrow>
          apply_refund_outcome (pe_now env) claim
            \<lparr>ru_status = rr_status res, ru_refundRef = Some (rr_refundRef res),
             ru_providerStatus = rr_providerStatus res\<rparr> ax Provider_Response None d)"

section \<open>Reconciliation\<close>

datatype reconcile_outcome =
  Already_Final | In_Progress | Found | Reissued | Not_Found_There | Inconclusive | Manual_Required

definition note_lookup :: "time \<Rightarrow> lookup_outcome \<Rightarrow> oid \<Rightarrow> db \<Rightarrow> db" where
  "note_lookup now res i d =
     update_refund (\<lambda>y. r_id y = i) (\<lambda>y. y\<lparr>r_lastLookupAt := Some now, r_lastLookupResult := Some res\<rparr>) d"

text \<open>\<open>(await Refund.findById(...))!\<close>: the stored document, or the argument when there is none.\<close>

definition fresh_refund :: "refund \<Rightarrow> db \<Rightarrow> refund" where
  "fresh_refund r d = nullish (find_refund (r_id r) d) r"

definition lease_free :: "time \<Rightarrow> refund \<Rightarrow> bool" where
  "lease_free now y = (case r_reissueLeaseUntil y of None \<Rightarrow> True | Some t \<Rightarrow> t < now)"

definition unset_lease :: "oid \<Rightarrow> db \<Rightarrow> db" where
  "unset_lease i d = update_refund (\<lambda>y. r_id y = i) (\<lambda>y. y\<lparr>r_reissueLeaseUntil := None\<rparr>) d"

definition reissue_refund ::
  "pay_env \<Rightarrow> refund \<Rightarrow> payment \<Rightarrow> pay_provider \<Rightarrow> actor_ctx \<Rightarrow> db \<Rightarrow> (refund \<times> reconcile_outcome) \<times> db" where
  "reissue_refund env fresh x prov ax d =
     (let q = (\<lambda>y. r_id y = r_id fresh \<and> r_status y = R_Pending \<and> lease_free (pe_now env) y);
          f = (\<lambda>y. y\<lparr>r_reissueLeaseUntil := Some (pe_now env + stale_refund_claim_ms)\<rparr>)
      in case find_one q (db_refunds d) of
           None \<Rightarrow> ((fresh, In_Progress), d)
         | Some y \<Rightarrow>
             (case call_provider_and_record env (f y) x prov ax False (update_refund q f d) of
                (Inr r', d1) \<Rightarrow> ((r', Reissued), unset_lease (r_id fresh) d1)
              | (Inl e, d1) \<Rightarrow> ((fresh_refund fresh d1, Inconclusive), unset_lease (r_id fresh) d1)))"

definition reconcile_refund ::
  "pay_env \<Rightarrow> refund \<Rightarrow> actor_ctx \<Rightarrow> bool \<Rightarrow> db \<Rightarrow> (refund \<times> reconcile_outcome) result \<times> db" where
  "reconcile_refund env r ax allow_reissue d =
     (let now = pe_now env in
      if r_status r \<noteq> R_Pending then (Inr (r, Already_Final), d)
      else if \<not> is_held now r \<and> \<not> truthy_string (r_providerRefundRef r) then (Inr (r, In_Progress), d)
      else case find_payment (r_paymentId r) d of
          None \<Rightarrow> (Inr (r, Manual_Required), d)
        | Some x \<Rightarrow>
            (case refund_provider_for env x d of
               Inl e \<Rightarrow> (Inl e, d)
             | Inr prov \<Rightarrow>
                 if \<not> pv_supportsRefundLookup prov then (Inr (r, Manual_Required), d)
                 else (case pv_lookupRefund prov (p_providerRef x) (refund_key_of env r) (r_providerRefundRef r) of
                    Lookup_Throws \<Rightarrow>
                      let d1 = note_lookup now Lookup_Inconclusive (r_id r) d
                      in (Inr (fresh_refund r d1, Inconclusive), d1)
                  | Lookup_Result res \<Rightarrow>
                      (case apply_refund_outcome now r
                          \<lparr>ru_status = rr_status res, ru_refundRef = Some (rr_refundRef res),
                           ru_providerStatus = rr_providerStatus res\<rparr> ax Provider_Lookup None
                          (note_lookup now Lookup_Found (r_id r) d) of
                         (Inl e, d2) \<Rightarrow> (Inl e, d2)
                       | (Inr r', d2) \<Rightarrow> (Inr (r', Found), d2))
                  | Lookup_None \<Rightarrow>
                      let d1 = note_lookup now Lookup_Not_Found (r_id r) d; fresh = fresh_refund r d1 in
                      if allow_reissue \<and> pv_supportsRefundIdempotency prov \<and>
                         \<not> truthy_string (r_providerRefundRef fresh) \<and> r_amountReserved fresh \<and>
                         now - r_createdAt fresh < provider_idempotency_window_ms
                      then (let (res, d2) = reissue_refund env fresh x prov ax d1 in (Inr res, d2))
                      else (Inr (fresh, Not_Found_There), d1))))"

section \<open>Refunding a payment\<close>

record refund_input =
  ri_restaurantId :: oid
  ri_paymentId :: oid
  ri_amount :: "money option"
  ri_reason :: "string option"
  ri_initiatedByUserId :: oid
  ri_idempotencyKey :: string

definition refund_by_key :: "oid \<Rightarrow> string \<Rightarrow> db \<Rightarrow> refund option" where
  "refund_by_key rid key d =
     find_one (\<lambda>r. r_restaurantId r = rid \<and> r_idempotencyKey r = key) (db_refunds d)"

definition same_key_refund :: "pay_env \<Rightarrow> refund_input \<Rightarrow> db \<Rightarrow> refund option result \<times> db" where
  "same_key_refund env inp d =
     (case refund_by_key (ri_restaurantId inp) (ri_idempotencyKey inp) d of
        None \<Rightarrow> (Inr None, d)
      | Some r \<Rightarrow>
          if is_held (pe_now env) r
          then (case reconcile_refund env r \<lparr>ax_userId = ri_initiatedByUserId inp, ax_system = False\<rparr> True d of
              (Inl e, d1) \<Rightarrow> (Inl e, d1) | (Inr (r', out), d1) \<Rightarrow> (Inr (Some r'), d1))
          else (Inr (Some r), d))"

text \<open>Every refusal looks for the same key first.\<close>

definition unless_duplicate :: "pay_env \<Rightarrow> refund_input \<Rightarrow> api_error \<Rightarrow> db \<Rightarrow> refund result \<times> db" where
  "unless_duplicate env inp e d =
     (case same_key_refund env inp d of
        (Inl e', d1) \<Rightarrow> (Inl e', d1)
      | (Inr (Some r), d1) \<Rightarrow> (Inr r, d1)
      | (Inr None, d1) \<Rightarrow> (Inl e, d1))"

definition oldest_waiting :: "oid \<Rightarrow> db \<Rightarrow> refund option" where
  "oldest_waiting pid d =
     find_latest (\<lambda>r. - r_createdAt r) (\<lambda>r. r_paymentId r = pid \<and> r_status r = R_Pending) (db_refunds d)"

definition refund_claim :: "pay_env \<Rightarrow> refund_input \<Rightarrow> payment \<Rightarrow> pay_provider \<Rightarrow> money \<Rightarrow> refund" where
  "refund_claim env inp x prov amount =
     \<lparr>r_id = pe_newId env, r_restaurantId = ri_restaurantId inp, r_paymentId = p_id x, r_orderId = p_orderId x,
      r_provider = pv_name prov, r_providerRefundRef = None, r_amount = amount, r_reason = ri_reason inp,
      r_status = R_Pending, r_idempotencyKey = ri_idempotencyKey inp, r_providerOutcomeUnknown = False,
      r_amountReserved = False, r_reissueLeaseUntil = None,
      r_providerRefundKey = Some (pe_refundKey env (ri_restaurantId inp) (ri_idempotencyKey inp)),
      r_providerStatus = None, r_lastLookupAt = None, r_lastLookupResult = None, r_resolution = None,
      r_initiatedByUserId = ri_initiatedByUserId inp, r_createdAt = pe_now env\<rparr>"

text \<open>The atomic reservation: the filter re-checks the status and the amount left.\<close>

definition reservable :: "oid \<Rightarrow> money \<Rightarrow> payment \<Rightarrow> bool" where
  "reservable pid amount y \<longleftrightarrow>
     p_id y = pid \<and> p_status y \<in> {P_Paid, P_Partially_Refunded} \<and> p_totalRefunded y + amount \<le> p_amount y"

definition claim_and_call ::
  "pay_env \<Rightarrow> refund_input \<Rightarrow> payment \<Rightarrow> pay_provider \<Rightarrow> money \<Rightarrow> db \<Rightarrow> refund result \<times> db" where
  "claim_and_call env inp x prov amount d =
     (let claim = refund_claim env inp x prov amount in
      case insert_unique refund_clash claim (db_refunds d) of
        None \<Rightarrow> (case refund_by_key (ri_restaurantId inp) (ri_idempotencyKey inp) d of
            Some winner \<Rightarrow> (Inr winner, d) | None \<Rightarrow> (Inl (Thrown ''E11000''), d))
      | Some rs \<Rightarrow>
          let d1 = d\<lparr>db_refunds := rs\<rparr> in
          (case find_one (reservable (p_id x) amount) (db_payments d1) of
             None \<Rightarrow>
               (Inl (Conflict ''Refund amount exceeds what is left to refund''),
                d1\<lparr>db_refunds := delete_one (\<lambda>y. r_id y = r_id claim \<and> r_status y = R_Pending) (db_refunds d1)\<rparr>)
           | Some y \<Rightarrow>
               let d2 = update_payment (reservable (p_id x) amount)
                     (\<lambda>y. y\<lparr>p_totalRefunded := p_totalRefunded y + amount\<rparr>) d1;
                   d3 = update_refund (\<lambda>y. r_id y = r_id claim \<and> r_status y = R_Pending)
                     (\<lambda>y. y\<lparr>r_amountReserved := True\<rparr>) d2
               in call_provider_and_record env (claim\<lparr>r_amountReserved := True\<rparr>) x prov
                    \<lparr>ax_userId = ri_initiatedByUserId inp, ax_system = False\<rparr> True d3))"

definition refund_of_payment :: "pay_env \<Rightarrow> refund_input \<Rightarrow> payment \<Rightarrow> db \<Rightarrow> refund result \<times> db" where
  "refund_of_payment env inp x d =
     (if p_status x \<noteq> P_Paid \<and> p_status x \<noteq> P_Partially_Refunded
      then unless_duplicate env inp (Bad_Request ''Cannot refund a payment with this status'') d
      else case oldest_waiting (p_id x) d of
          Some w \<Rightarrow>
            if r_idempotencyKey w = ri_idempotencyKey inp
            then (case same_key_refund env inp d of
                (Inl e, d1) \<Rightarrow> (Inl e, d1) | (Inr r, d1) \<Rightarrow> (Inr (nullish r w), d1))
            else unless_duplicate env inp
              (Conflict (if is_held (pe_now env) w \<or> truthy_string (r_providerRefundRef w)
                then ''A refund on this payment is waiting to be confirmed''
                else ''Another refund for this payment is being processed right now'')) d
        | None \<Rightarrow>
            let remaining = round_currency (p_amount x - p_totalRefunded x);
                amount = nullish (ri_amount inp) remaining
            in if amount \<le> 0 \<or> amount > remaining
               then unless_duplicate env inp (Bad_Request ''Refund amount must be between 0 and what remains'') d
               else (case refund_provider_for env x d of
                   Inl e \<Rightarrow> (Inl e, d)
                 | Inr prov \<Rightarrow> claim_and_call env inp x prov amount d))"

definition refund_payment :: "pay_env \<Rightarrow> refund_input \<Rightarrow> db \<Rightarrow> refund result \<times> db" where
  "refund_payment env inp d =
     (case same_key_refund env inp d of
        (Inl e, d1) \<Rightarrow> (Inl e, d1)
      | (Inr (Some r), d1) \<Rightarrow> (Inr r, d1)
      | (Inr None, d1) \<Rightarrow>
          (case find_one (\<lambda>y. p_id y = ri_paymentId inp \<and> p_restaurantId y = ri_restaurantId inp) (db_payments d1) of
             None \<Rightarrow> (Inl (Not_Found ''Payment not found''), d1)
           | Some x \<Rightarrow> refund_of_payment env inp x d1))"

section \<open>Resolution by a person\<close>

record resolve_input =
  rv_refunded :: bool
  rv_providerRefundRef :: "string option"
  rv_evidence :: string
  rv_confirmChecked :: bool

definition lookup_evidence_fresh :: "time \<Rightarrow> refund \<Rightarrow> bool" where
  "lookup_evidence_fresh now r =
     (r_lastLookupResult r = Some Lookup_Not_Found \<and>
      (case r_lastLookupAt r of None \<Rightarrow> False | Some t \<Rightarrow> now - t \<le> lookup_evidence_max_age_ms))"

definition resolve_held_refund ::
  "pay_env \<Rightarrow> refund \<Rightarrow> resolve_input \<Rightarrow> actor_ctx \<Rightarrow> db \<Rightarrow> refund result \<times> db" where
  "resolve_held_refund env r inp ax d =
     (let now = pe_now env; evidence = js_trim (rv_evidence inp) in
      if r_status r \<noteq> R_Pending then (Inl (Conflict ''This refund is already settled''), d)
      else if \<not> is_held now r \<and> \<not> truthy_string (r_providerRefundRef r)
      then (Inl (Conflict ''This refund is still being processed''), d)
      else if rv_refunded inp
      then (case trim_or_none (rv_providerRefundRef inp) of
          None \<Rightarrow> (Inl (Bad_Request ''Enter the refund reference''), d)
        | Some ref \<Rightarrow> apply_refund_outcome now r
            \<lparr>ru_status = R_Succeeded, ru_refundRef = Some ref, ru_providerStatus = Some ''confirmed_manually''\<rparr>
            ax Manual (Some evidence) d)
      else if \<not> rv_confirmChecked inp then (Inl (Bad_Request ''Confirm that you checked''), d)
      else if now - r_createdAt r < manual_not_refunded_min_hold_ms
      then (Inl (Conflict ''Give the provider time to finish first''), d)
      else
        let apply_it = apply_refund_outcome now r
              \<lparr>ru_status = R_Failed, ru_refundRef = None, ru_providerStatus = Some ''confirmed_not_refunded''\<rparr>
              ax Manual (Some evidence) d
        in (case find_payment (r_paymentId r) d of
              None \<Rightarrow> apply_it
            | Some x \<Rightarrow>
                (case refund_provider_for env x d of
                   Inl e \<Rightarrow> (Inl e, d)
                 | Inr prov \<Rightarrow>
                     if pv_supportsRefundLookup prov \<and> \<not> lookup_evidence_fresh now r
                     then (Inl (Conflict ''Check with the provider first''), d)
                     else apply_it)))"

section \<open>Provider webhooks\<close>

record provider_refund_update =
  pu_refundRef :: string
  pu_status :: refund_status
  pu_providerStatus :: "string option"
  pu_refundKey :: "string option"

definition refund_of_update :: "string \<Rightarrow> provider_refund_update \<Rightarrow> db \<Rightarrow> refund option" where
  "refund_of_update name u d =
     (case find_one (\<lambda>r. r_provider r = name \<and> r_providerRefundRef r = Some (pu_refundRef u)) (db_refunds d) of
        Some r \<Rightarrow> Some r
      | None \<Rightarrow> if truthy_string (pu_refundKey u)
          then find_one (\<lambda>r. r_provider r = name \<and> r_providerRefundKey r = pu_refundKey u) (db_refunds d)
          else None)"

definition apply_provider_refund_update ::
  "pay_env \<Rightarrow> string \<Rightarrow> provider_refund_update \<Rightarrow> oid option \<Rightarrow> db \<Rightarrow> unit result \<times> db" where
  "apply_provider_refund_update env name u acc d =
     (case refund_of_update name u d of
        None \<Rightarrow> (Inr (), d)
      | Some r \<Rightarrow>
          if nullish (Option.bind (find_payment (r_paymentId r) d) p_accountId) [] \<noteq> nullish acc []
          then (Inr (), d)
          else (case apply_refund_outcome (pe_now env) r
              \<lparr>ru_status = pu_status u, ru_refundRef = Some (pu_refundRef u), ru_providerStatus = pu_providerStatus u\<rparr>
              \<lparr>ax_userId = r_initiatedByUserId r, ax_system = True\<rparr> Webhook None d of
                (Inl e, d1) \<Rightarrow> (Inl e, d1) | (Inr _, d1) \<Rightarrow> (Inr (), d1)))"

section \<open>What staff see\<close>

definition list_waiting_refunds :: "oid option \<Rightarrow> oid option \<Rightarrow> db \<Rightarrow> refund list" where
  "list_waiting_refunds rid pid d = sort_key r_createdAt
     (filter (\<lambda>r. r_status r = R_Pending \<and> (rid = None \<or> rid = Some (r_restaurantId r)) \<and>
        (pid = None \<or> pid = Some (r_paymentId r))) (db_refunds d))"

record refund_staff_view =
  sv_held :: bool
  sv_waitingOnProvider :: bool
  sv_canCheckWithProvider :: bool
  sv_canRetry :: bool
  sv_manualNotRefundedAvailableAt :: "time option"

definition base_view :: refund_staff_view where
  "base_view = \<lparr>sv_held = False, sv_waitingOnProvider = False, sv_canCheckWithProvider = False,
     sv_canRetry = False, sv_manualNotRefundedAvailableAt = None\<rparr>"

definition describe_refund_for_staff :: "pay_env \<Rightarrow> refund \<Rightarrow> db \<Rightarrow> refund_staff_view" where
  "describe_refund_for_staff env r d =
     (if r_status r \<noteq> R_Pending then base_view
      else
        let prov = (case find_payment (r_paymentId r) d of
              None \<Rightarrow> None
            | Some x \<Rightarrow> (case refund_provider_for env x d of Inl _ \<Rightarrow> None | Inr p \<Rightarrow> Some p));
            lookup = (case prov of None \<Rightarrow> False | Some p \<Rightarrow> pv_supportsRefundLookup p);
            idem = (case prov of None \<Rightarrow> False | Some p \<Rightarrow> pv_supportsRefundIdempotency p);
            held = is_held (pe_now env) r
        in if \<not> held \<and> \<not> truthy_string (r_providerRefundRef r) then base_view
           else if \<not> held
           then base_view\<lparr>sv_waitingOnProvider := True, sv_canCheckWithProvider := lookup\<rparr>
           else base_view\<lparr>sv_held := True, sv_canCheckWithProvider := lookup,
             sv_canRetry := lookup \<and> idem \<and> r_amountReserved r \<and> \<not> truthy_string (r_providerRefundRef r) \<and>
               pe_now env - r_createdAt r < provider_idempotency_window_ms,
             sv_manualNotRefundedAvailableAt := Some (r_createdAt r + manual_not_refunded_min_hold_ms)\<rparr>)"

end
