(* ===== verification/Refund_Safety.thy ===== *)
theory Refund_Safety
  imports Refunds
begin

text \<open>
  The accounting of refunds. \<open>refunds_inv\<close>: what a payment counts as refunded is exactly the sum of
  the refunds that reserve or have used an amount of it. \<open>never_over\<close>: that sum is at most the
  payment. Every operation of \<open>Refunds\<close> keeps both, on every branch, errors included.
\<close>

section \<open>The invariants\<close>

definition counted_amount :: "oid \<Rightarrow> refund \<Rightarrow> money" where
  "counted_amount pid r = (if r_paymentId r = pid \<and> counted r then r_amount r else 0)"

definition counted_total :: "oid \<Rightarrow> refund list \<Rightarrow> money" where
  "counted_total pid rs = sum_list (map (counted_amount pid) rs)"

definition refunds_inv :: "db \<Rightarrow> bool" where
  "refunds_inv d \<longleftrightarrow>
     distinct (map p_id (db_payments d)) \<and> distinct (map r_id (db_refunds d)) \<and>
     r_paymentId ` set (db_refunds d) \<subseteq> p_id ` set (db_payments d) \<and>
     (\<forall>r \<in> set (db_refunds d). 0 \<le> r_amount r) \<and>
     (\<forall>x \<in> set (db_payments d). p_totalRefunded x = counted_total (p_id x) (db_refunds d))"

definition never_over :: "db \<Rightarrow> bool" where
  "never_over d \<longleftrightarrow>
     (\<forall>x \<in> set (db_payments d). p_totalRefunded x \<le> p_amount x) \<and>
     (\<forall>r \<in> set (db_refunds d). r_status r = R_Pending \<longrightarrow> r_amountReserved r)"

definition refunds_ok :: "db \<Rightarrow> bool" where
  "refunds_ok d \<longleftrightarrow> refunds_inv d \<and> never_over d"

text \<open>The parts of the documents that the invariants read.\<close>

definition pview :: "payment \<Rightarrow> oid \<times> money \<times> money" where
  "pview x = (p_id x, p_amount x, p_totalRefunded x)"

definition rview :: "refund \<Rightarrow> oid \<times> oid \<times> money \<times> refund_status \<times> bool" where
  "rview r = (r_id r, r_paymentId r, r_amount r, r_status r, r_amountReserved r)"

lemma counted_amount_view: "rview r = rview s \<Longrightarrow> counted_amount pid r = counted_amount pid s"
  by (auto simp: rview_def counted_amount_def counted_def)

lemma map_cong_view:
  assumes m: "map v xs = map v ys" and c: "\<And>x y. v x = v y \<Longrightarrow> f x = f y"
  shows "map f xs = map f ys"
proof (rule nth_equalityI)
  have l: "length xs = length ys" using m by (rule map_eq_imp_length_eq)
  then show "length (map f xs) = length (map f ys)" by simp
  fix i
  assume "i < length (map f xs)"
  then have i: "i < length xs" by simp
  then have "v (xs ! i) = v (ys ! i)" using arg_cong [OF m, of "\<lambda>z. z ! i"] l by simp
  from c [OF this] show "map f xs ! i = map f ys ! i" using i l by simp
qed

lemma ball_cong_view:
  assumes "map v xs = map v ys" "\<And>x y. v x = v y \<Longrightarrow> P x = P y"
  shows "(\<forall>x \<in> set xs. P x) = (\<forall>y \<in> set ys. P y)"
proof -
  have "map P xs = map P ys" using assms by (rule map_cong_view)
  then have "P ` set xs = P ` set ys" by (metis set_map)
  then show ?thesis by (metis (full_types) imageE imageI)
qed

lemma refunds_ok_cong:
  assumes p: "map pview (db_payments d') = map pview (db_payments d)"
    and r: "map rview (db_refunds d') = map rview (db_refunds d)"
  shows "refunds_ok d' = refunds_ok d"
proof -
  have ids: "map p_id (db_payments d') = map p_id (db_payments d)" "map r_id (db_refunds d') = map r_id (db_refunds d)"
    "map r_paymentId (db_refunds d') = map r_paymentId (db_refunds d)"
    by (rule map_cong_view [OF p], simp add: pview_def) (rule map_cong_view [OF r], simp add: rview_def)+
  have tot: "counted_total pid (db_refunds d') = counted_total pid (db_refunds d)" for pid
    unfolding counted_total_def by (rule arg_cong [OF map_cong_view [OF r]]) (rule counted_amount_view)
  have b1: "(\<forall>x \<in> set (db_refunds d'). 0 \<le> r_amount x) = (\<forall>x \<in> set (db_refunds d). 0 \<le> r_amount x)"
    by (rule ball_cong_view [OF r]) (simp add: rview_def)
  have b2: "(\<forall>x \<in> set (db_payments d'). p_totalRefunded x = counted_total (p_id x) (db_refunds d)) =
      (\<forall>x \<in> set (db_payments d). p_totalRefunded x = counted_total (p_id x) (db_refunds d))"
    by (rule ball_cong_view [OF p]) (simp add: pview_def)
  have b3: "(\<forall>x \<in> set (db_payments d'). p_totalRefunded x \<le> p_amount x) =
      (\<forall>x \<in> set (db_payments d). p_totalRefunded x \<le> p_amount x)"
    by (rule ball_cong_view [OF p]) (simp add: pview_def)
  have b4: "(\<forall>x \<in> set (db_refunds d'). r_status x = R_Pending \<longrightarrow> r_amountReserved x) =
      (\<forall>x \<in> set (db_refunds d). r_status x = R_Pending \<longrightarrow> r_amountReserved x)"
    by (rule ball_cong_view [OF r]) (simp add: rview_def)
  have b5: "r_paymentId ` set (db_refunds d') \<subseteq> p_id ` set (db_payments d') \<longleftrightarrow>
      r_paymentId ` set (db_refunds d) \<subseteq> p_id ` set (db_payments d)"
    using ids by (metis set_map)
  show ?thesis by (simp add: refunds_ok_def refunds_inv_def never_over_def ids tot b1 b2 b3 b4 b5)
qed

section \<open>Writes that change no money\<close>

lemma refunds_ok_update_refund:
  "(\<And>r. rview (f r) = rview r) \<Longrightarrow> refunds_ok (update_refund q f d) = refunds_ok d"
  by (rule refunds_ok_cong) (simp_all add: update_refund_def map_update_one)

lemma refunds_ok_update_payment:
  "(\<And>x. pview (f x) = pview x) \<Longrightarrow> refunds_ok (update_payment q f d) = refunds_ok d"
  by (rule refunds_ok_cong) (simp_all add: update_payment_def map_update_one)

lemma refunds_ok_other:
  assumes "db_payments d' = db_payments d" "db_refunds d' = db_refunds d"
  shows "refunds_ok d' = refunds_ok d"
  using assms by (intro refunds_ok_cong) simp_all

lemma refunds_ok_emit [simp]: "refunds_ok (emit_order_event e d) = refunds_ok d"
  by (rule refunds_ok_other) (simp_all add: emit_order_event_def)

lemma refunds_ok_audit [simp]: "refunds_ok (refund_audit a ax pid d) = refunds_ok d"
  by (rule refunds_ok_other) (simp_all add: refund_audit_def record_audit_event_def)

lemma reverse_loyalty_money:
  "db_payments (snd (reverse_loyalty_if_needed x d)) = db_payments d"
  "db_refunds (snd (reverse_loyalty_if_needed x d)) = db_refunds d"
  by (auto simp: reverse_loyalty_if_needed_def reverse_loyalty_for_order_def Let_def add_txn_def
      set_account_def split: option.splits)

lemma refunds_ok_reverse [simp]: "refunds_ok (snd (reverse_loyalty_if_needed x d)) = refunds_ok d"
  by (rule refunds_ok_other) (simp_all add: reverse_loyalty_money)

lemma refunds_ok_sync [simp]: "refunds_ok (snd (sync_payment_refund_status pid d)) = refunds_ok d"
proof -
  have "refunds_ok (update_payment q (\<lambda>y. y\<lparr>p_status := s\<rparr>) d) = refunds_ok d" for q s
    by (rule refunds_ok_update_payment) (simp add: pview_def)
  then show ?thesis by (auto simp: sync_payment_refund_status_def Let_def split: option.splits)
qed

lemma refunds_ok_succeeded_effects [simp]:
  "refunds_ok (snd (refund_succeeded_effects r ps d)) = refunds_ok d"
  by (auto simp: refund_succeeded_effects_def split: option.splits sum.splits prod.splits)
    (metis refunds_ok_reverse snd_conv)+

lemma rview_details [simp]: "rview (with_details u cur r) = rview r"
  by (auto simp: with_details_def Let_def rview_def)

section \<open>A settled refund\<close>

lemma update_id_mem:
  "distinct (map k xs) \<Longrightarrow> y \<in> set (update_one (\<lambda>z. k z = i) f xs) \<Longrightarrow>
    \<exists>x \<in> set xs. y = (if k x = i then f x else x)"
  by (induction xs) (auto simp: image_iff split: if_splits, metis+)

lemma find_one_refine:
  "find_one (\<lambda>y. k y = i) xs = Some c \<Longrightarrow> P c \<Longrightarrow> find_one (\<lambda>y. k y = i \<and> P y) xs = Some c"
  by (induction xs) (auto split: if_splits)

lemma update_refund_total:
  assumes "find_one q (db_refunds d) = Some cur"
  shows "counted_total pid (db_refunds (update_refund q f d)) =
    counted_total pid (db_refunds d) - counted_amount pid cur + counted_amount pid (f cur)"
  using sum_update_one [OF assms, of "counted_amount pid" f] by (simp add: counted_total_def update_refund_def)

text \<open>One refund changes its counted amount, and its payment's sum by the same.\<close>

lemma refunds_ok_change:
  assumes ok: "refunds_ok d" and cur: "find_one q (db_refunds d) = Some cur"
    and same: "\<And>r. r_id (f r) = r_id r" "r_paymentId (f cur) = r_paymentId cur" "r_amount (f cur) = r_amount cur"
    and res: "r_status (f cur) = R_Pending \<Longrightarrow> r_amountReserved (f cur)"
    and delta: "counted_amount (r_paymentId cur) (f cur) = counted_amount (r_paymentId cur) cur + dx"
    and le: "dx \<le> 0"
  shows "refunds_ok (inc_total_refunded (r_paymentId cur) dx (update_refund q f d))" (is "refunds_ok ?d")
proof -
  note curD = find_one_SomeD [OF cur]
  have ps: "db_payments ?d = update_one (\<lambda>y. p_id y = r_paymentId cur)
      (\<lambda>y. y\<lparr>p_totalRefunded := p_totalRefunded y + dx\<rparr>) (db_payments d)"
    by (simp add: inc_total_refunded_def update_payment_def update_refund_def)
  have rs: "db_refunds ?d = update_one q f (db_refunds d)"
    by (simp add: inc_total_refunded_def update_payment_def update_refund_def)
  have other: "pid \<noteq> r_paymentId cur \<Longrightarrow> counted_amount pid (f cur) = counted_amount pid cur" for pid
    using same by (simp add: counted_amount_def)
  have tot: "counted_total pid (db_refunds ?d) = counted_total pid (db_refunds d) +
      (if pid = r_paymentId cur then dx else 0)" for pid
    using sum_update_one [OF cur, of "counted_amount pid" f] delta other [of pid]
    by (auto simp: counted_total_def rs)
  have ids: "map p_id (db_payments ?d) = map p_id (db_payments d)" "map r_id (db_refunds ?d) = map r_id (db_refunds d)"
    by (simp_all add: ps rs map_update_one same)
  have mem: "y \<in> set (db_refunds d) \<or> y = f cur" if "y \<in> set (db_refunds ?d)" for y
  proof -
    obtain us vs where "db_refunds d = us @ cur # vs" "update_one q f (db_refunds d) = us @ f cur # vs"
      using update_one_split [OF cur] by blast
    with that show ?thesis by (auto simp: rs)
  qed
  have pay: "\<exists>x0 \<in> set (db_payments d). p_id x = p_id x0 \<and> p_amount x = p_amount x0 \<and>
      p_totalRefunded x = p_totalRefunded x0 + (if p_id x0 = r_paymentId cur then dx else 0)"
    if x: "x \<in> set (db_payments ?d)" for x
  proof -
    have "distinct (map p_id (db_payments d))" using ok by (simp add: refunds_ok_def refunds_inv_def)
    from update_id_mem [OF this x [unfolded ps]] obtain x0 where x0: "x0 \<in> set (db_payments d)"
      "x = (if p_id x0 = r_paymentId cur then x0\<lparr>p_totalRefunded := p_totalRefunded x0 + dx\<rparr> else x0)" by blast
    then show ?thesis by (intro bexI [OF _ x0(1)]) (simp add: x0(2))
  qed
  have "refunds_inv ?d"
    unfolding refunds_inv_def
  proof (intro conjI ballI)
    show "distinct (map p_id (db_payments ?d))" "distinct (map r_id (db_refunds ?d))"
      using ok unfolding ids by (simp_all add: refunds_ok_def refunds_inv_def)
    have "p_id ` set (db_payments ?d) = p_id ` set (db_payments d)" using ids(1) by (metis set_map)
    then show "r_paymentId ` set (db_refunds ?d) \<subseteq> p_id ` set (db_payments ?d)"
      using mem ok curD same(2) by (fastforce simp: refunds_ok_def refunds_inv_def)
    show "0 \<le> r_amount r" if "r \<in> set (db_refunds ?d)" for r
      using mem [OF that] ok curD same(3) by (auto simp: refunds_ok_def refunds_inv_def)
    show "p_totalRefunded x = counted_total (p_id x) (db_refunds ?d)" if "x \<in> set (db_payments ?d)" for x
      using pay [OF that] ok by (auto simp: tot refunds_ok_def refunds_inv_def)
  qed
  moreover have "never_over ?d"
    unfolding never_over_def
  proof (intro conjI ballI impI)
    show "p_totalRefunded x \<le> p_amount x" if "x \<in> set (db_payments ?d)" for x
      using pay [OF that] ok le by (fastforce simp: refunds_ok_def never_over_def split: if_splits)
    show "r_amountReserved r" if "r \<in> set (db_refunds ?d)" "r_status r = R_Pending" for r
      using mem [OF that(1)] that(2) ok res by (auto simp: refunds_ok_def never_over_def)
  qed
  ultimately show ?thesis by (simp add: refunds_ok_def)
qed

section \<open>Every operation keeps the accounting\<close>

lemma refunds_ok_inc_0 [simp]: "refunds_ok (inc_total_refunded pid 0 d) = refunds_ok d"
  unfolding inc_total_refunded_def by (rule refunds_ok_update_payment) (simp add: pview_def)

lemma settle_fields [simp]:
  "r_id (settle res u cur r) = r_id r" "r_paymentId (settle res u cur r) = r_paymentId r"
  "r_amount (settle res u cur r) = r_amount r" "r_status (settle res u cur r) = ru_status u"
  "r_amountReserved (settle res u cur r) \<longleftrightarrow> ru_status u \<noteq> R_Failed"
  "r_orderId (settle res u cur r) = r_orderId r"
  by (auto simp: settle_def with_details_def Let_def split: option.splits)

lemma after_settle_ok:
  assumes "refunds_ok (if r_status updated = R_Failed \<and> counted before
                then inc_total_refunded (r_paymentId updated) (- r_amount updated) d
                else if r_status updated = R_Succeeded \<and> \<not> counted before
                then inc_total_refunded (r_paymentId updated) (r_amount updated) d else d)"
  shows "refunds_ok (snd (after_settle method ax before updated d))"
proof -
  let ?d1 = "if r_status updated = R_Failed \<and> counted before
      then inc_total_refunded (r_paymentId updated) (- r_amount updated) d
      else if r_status updated = R_Succeeded \<and> \<not> counted before
      then inc_total_refunded (r_paymentId updated) (r_amount updated) d else d"
  obtain res d2 where sync: "sync_payment_refund_status (r_paymentId updated) ?d1 = (res, d2)" by fastforce
  have d2: "refunds_ok d2" using assms refunds_ok_sync [of "r_paymentId updated" ?d1] by (simp add: sync)
  let ?d3 = "if method \<noteq> Provider_Response \<or> r_status updated = R_Failed
      then refund_audit ''payment.refund_reconciled'' ax (r_paymentId updated) d2 else d2"
  have d3: "refunds_ok ?d3" using d2 by simp
  show ?thesis
  proof (cases res)
    case (Inl e)
    with d2 sync show ?thesis by (simp add: after_settle_def Let_def)
  next
    case (Inr ps)
    obtain res' d4 where eff: "refund_succeeded_effects updated ps ?d3 = (res', d4)" by fastforce
    have "refunds_ok d4" using d3 refunds_ok_succeeded_effects [of updated ps ?d3] unfolding eff snd_conv by blast
    then show ?thesis
      unfolding after_settle_def Let_def sync Inr prod.case sum.case eff
      using d3 by (cases res') simp_all
  qed
qed

lemma find_refund_current:
  assumes "find_refund i d = Some cur"
  shows "find_one (\<lambda>y. r_id y = r_id cur \<and> r_status y = r_status cur) (db_refunds d) = Some cur"
proof -
  have "r_id cur = i" using assms by (auto simp: find_refund_def dest: find_one_SomeD)
  then show ?thesis using assms find_one_refine [of r_id i "db_refunds d" cur "\<lambda>y. r_status y = r_status cur"]
    by (simp add: find_refund_def)
qed

lemma refunds_ok_apply:
  assumes ok: "refunds_ok d"
  shows "refunds_ok (snd (apply_refund_outcome now r u ax method evidence d))"
proof (cases "find_refund (r_id r) d")
  case None
  with ok show ?thesis by (simp add: apply_refund_outcome_def)
next
  case (Some cur)
  note q = find_refund_current [OF Some]
  have cur: "cur \<in> set (db_refunds d)" using Some by (auto simp: find_refund_def dest: find_one_SomeD)
  consider "r_status cur = ru_status u" | "r_status cur \<noteq> ru_status u" "ru_status u \<notin> set (refund_transitions (r_status cur))"
    | "r_status cur \<noteq> ru_status u" "ru_status u \<in> set (refund_transitions (r_status cur))" by blast
  then show ?thesis
  proof cases
    case 1
    have "refunds_ok (update_refund (\<lambda>y. r_id y = r_id cur) (\<lambda>y. let y1 = with_details u cur y in
        if method \<noteq> Manual then y1\<lparr>r_providerOutcomeUnknown := False\<rparr> else y1) d) = refunds_ok d"
    proof (rule refunds_ok_update_refund)
      fix y
      have "rview (r\<lparr>r_providerOutcomeUnknown := False\<rparr>) = rview r" for r by (simp add: rview_def)
      then show "rview (let y1 = with_details u cur y in
          if method \<noteq> Manual then y1\<lparr>r_providerOutcomeUnknown := False\<rparr> else y1) = rview y"
        by (simp add: Let_def)
    qed
    with 1 Some ok show ?thesis by (simp add: apply_refund_outcome_def Let_def)
  next
    case 2
    with Some ok show ?thesis by (auto simp: apply_refund_outcome_def Let_def)
  next
    case 3
    let ?f = "settle (resolution_of now method ax evidence u cur) u cur"
    let ?d = "update_refund (\<lambda>y. r_id y = r_id cur \<and> r_status y = r_status cur) ?f d"
    have st: "ru_status u = R_Succeeded \<or> ru_status u = R_Failed" "r_status cur \<noteq> R_Failed"
      using 3(2) by (cases "r_status cur"; auto)+
    have nonneg: "0 \<le> r_amount cur" using ok cur by (simp add: refunds_ok_def refunds_inv_def)
    have succ: "ru_status u = R_Succeeded \<Longrightarrow> counted cur"
      using 3(2) ok cur by (cases "r_status cur") (auto simp: refunds_ok_def never_over_def counted_def)
    have "refunds_ok (inc_total_refunded (r_paymentId cur)
        (if ru_status u = R_Failed \<and> counted cur then - r_amount cur else 0) ?d)"
      by (rule refunds_ok_change [OF ok q]) (use st nonneg succ in \<open>auto simp: counted_amount_def counted_def\<close>)
    then have "refunds_ok (snd (after_settle method ax cur (?f cur) ?d))"
      using st succ by (intro after_settle_ok) (auto split: if_splits)
    with 3 Some ok show ?thesis by (simp add: apply_refund_outcome_def Let_def)
  qed
qed

text \<open>A definitive refusal takes the claim and its reservation back.\<close>

lemma distinct_find_status:
  "distinct (map r_id rs) \<Longrightarrow> c \<in> set rs \<Longrightarrow> r_status c = R_Pending \<Longrightarrow>
    find_one (\<lambda>y. r_id y = r_id c \<and> r_status y = R_Pending) rs = Some c"
  using find_id_mem [of r_id rs c] find_one_refine [of r_id "r_id c" rs c "\<lambda>y. r_status y = R_Pending"] by simp

lemma refunds_ok_release:
  assumes ok: "refunds_ok d" and c: "c \<in> set (db_refunds d)" "r_status c = R_Pending"
  shows "refunds_ok ((inc_total_refunded (r_paymentId c) (- r_amount c) d)
    \<lparr>db_refunds := delete_one (\<lambda>y. r_id y = r_id c \<and> r_status y = R_Pending) (db_refunds d)\<rparr>)" (is "refunds_ok ?d")
proof -
  have ids: "distinct (map r_id (db_refunds d))" "distinct (map p_id (db_payments d))"
    using ok by (simp_all add: refunds_ok_def refunds_inv_def)
  note f = distinct_find_status [OF ids(1) c]
  have cnt: "counted c" using ok c by (auto simp: refunds_ok_def never_over_def counted_def)
  have nonneg: "0 \<le> r_amount c" using ok c by (simp add: refunds_ok_def refunds_inv_def)
  have ps: "db_payments ?d = update_one (\<lambda>y. p_id y = r_paymentId c)
      (\<lambda>y. y\<lparr>p_totalRefunded := p_totalRefunded y + - r_amount c\<rparr>) (db_payments d)"
    by (simp add: inc_total_refunded_def update_payment_def)
  have rs: "db_refunds ?d = delete_one (\<lambda>y. r_id y = r_id c \<and> r_status y = R_Pending) (db_refunds d)" by simp
  have tot: "counted_total pid (db_refunds ?d) = counted_total pid (db_refunds d) -
      (if pid = r_paymentId c then r_amount c else 0)" for pid
    using sum_delete_one [OF f, of "counted_amount pid"] cnt by (simp add: counted_total_def counted_amount_def)
  have pay: "\<exists>x0 \<in> set (db_payments d). p_id x = p_id x0 \<and> p_amount x = p_amount x0 \<and>
      p_totalRefunded x = p_totalRefunded x0 - (if p_id x0 = r_paymentId c then r_amount c else 0)"
    if x: "x \<in> set (db_payments ?d)" for x
  proof -
    from update_id_mem [OF ids(2) x [unfolded ps]] obtain x0 where x0: "x0 \<in> set (db_payments d)"
      "x = (if p_id x0 = r_paymentId c then x0\<lparr>p_totalRefunded := p_totalRefunded x0 + - r_amount c\<rparr> else x0)" by blast
    then show ?thesis by (intro bexI [OF _ x0(1)]) (simp add: x0(2))
  qed
  have "map p_id (db_payments ?d) = map p_id (db_payments d)" by (simp add: ps map_update_one)
  then have pid: "p_id ` set (db_payments ?d) = p_id ` set (db_payments d)" "distinct (map p_id (db_payments ?d))"
    using ids(2) by (metis set_map, simp)
  have sub: "set (db_refunds ?d) \<subseteq> set (db_refunds d)" unfolding rs by (rule set_delete_one)
  have "refunds_inv ?d"
    unfolding refunds_inv_def
  proof (intro conjI ballI)
    show "distinct (map p_id (db_payments ?d))" by (rule pid(2))
    show "distinct (map r_id (db_refunds ?d))" unfolding rs using ids(1) by (rule distinct_map_delete_one)
    show "r_paymentId ` set (db_refunds ?d) \<subseteq> p_id ` set (db_payments ?d)"
      using sub ok unfolding pid(1) refunds_ok_def refunds_inv_def by blast
    show "0 \<le> r_amount r" if "r \<in> set (db_refunds ?d)" for r
      using that sub ok unfolding refunds_ok_def refunds_inv_def by blast
    show "p_totalRefunded x = counted_total (p_id x) (db_refunds ?d)" if "x \<in> set (db_payments ?d)" for x
      using pay [OF that] ok unfolding tot by (auto simp: refunds_ok_def refunds_inv_def)
  qed
  moreover have "never_over ?d"
    unfolding never_over_def
  proof (intro conjI ballI impI)
    show "p_totalRefunded x \<le> p_amount x" if "x \<in> set (db_payments ?d)" for x
      using pay [OF that] ok nonneg by (fastforce simp: refunds_ok_def never_over_def split: if_splits)
    show "r_amountReserved r" if "r \<in> set (db_refunds ?d)" "r_status r = R_Pending" for r
      using that sub ok unfolding refunds_ok_def never_over_def by blast
  qed
  ultimately show ?thesis by (simp add: refunds_ok_def)
qed

section \<open>A new refund\<close>

lemma delete_fresh:
  "\<forall>x \<in> set xs. \<not> q x \<Longrightarrow> q c \<Longrightarrow> delete_one q (xs @ [c]) = xs"
  by (induction xs) auto

lemma update_fresh:
  "\<forall>x \<in> set xs. \<not> q x \<Longrightarrow> q c \<Longrightarrow> update_one q f (xs @ [c]) = xs @ [f c]"
  by (induction xs) auto

text \<open>The state in which the provider is called: the claim reserved and counted.\<close>

lemma refunds_ok_reserved:
  assumes ok: "refunds_ok d" and fresh: "\<forall>r \<in> set (db_refunds d). r_id r \<noteq> r_id c"
    and y: "find_one (reservable (r_paymentId c) (r_amount c)) (db_payments d) = Some y"
    and c: "r_amountReserved c" "0 \<le> r_amount c"
  shows "refunds_ok (update_payment (reservable (r_paymentId c) (r_amount c))
      (\<lambda>y. y\<lparr>p_totalRefunded := p_totalRefunded y + r_amount c\<rparr>) (d\<lparr>db_refunds := db_refunds d @ [c]\<rparr>))"
    (is "refunds_ok ?d")
proof -
  let ?q = "reservable (r_paymentId c) (r_amount c)"
  let ?f = "\<lambda>y. y\<lparr>p_totalRefunded := p_totalRefunded y + r_amount c\<rparr>"
  have rs: "db_refunds ?d = db_refunds d @ [c]" and ps: "db_payments ?d = update_one ?q ?f (db_payments d)"
    by (simp_all add: update_payment_def)
  have ids: "distinct (map p_id (db_payments d))" using ok by (simp add: refunds_ok_def refunds_inv_def)
  have yD: "y \<in> set (db_payments d)" "p_id y = r_paymentId c" "p_totalRefunded y + r_amount c \<le> p_amount y"
    using find_one_SomeD [OF y] by (auto simp: reservable_def)
  obtain us vs where sp: "db_payments d = us @ y # vs" "db_payments ?d = us @ ?f y # vs"
    using update_one_split [OF y] unfolding ps by blast
  have tot: "counted_total pid (db_refunds ?d) = counted_total pid (db_refunds d) +
      (if pid = r_paymentId c then r_amount c else 0)" for pid
    using c(1) by (simp add: rs counted_total_def counted_amount_def counted_def)
  have pid: "map p_id (db_payments ?d) = map p_id (db_payments d)" by (simp add: ps map_update_one)
  then have pids: "p_id ` set (db_payments ?d) = p_id ` set (db_payments d)" by (metis set_map)
  have cin: "r_paymentId c \<in> p_id ` set (db_payments d)" using yD(1,2) by (metis imageI)
  have others: "p_id x \<noteq> r_paymentId c" if "x \<in> set us \<union> set vs" for x
    using that ids yD(2) unfolding sp(1) by (auto simp: image_iff)
  have "refunds_inv ?d"
    unfolding refunds_inv_def
  proof (intro conjI ballI)
    show "distinct (map p_id (db_payments ?d))" unfolding pid by (rule ids)
    show "distinct (map r_id (db_refunds ?d))" using ok fresh by (auto simp: rs refunds_ok_def refunds_inv_def)
    show "r_paymentId ` set (db_refunds ?d) \<subseteq> p_id ` set (db_payments ?d)"
      using ok cin unfolding pids by (simp add: rs refunds_ok_def refunds_inv_def)
    show "0 \<le> r_amount r" if "r \<in> set (db_refunds ?d)" for r
      using that ok c(2) by (auto simp: rs refunds_ok_def refunds_inv_def)
    show "p_totalRefunded x = counted_total (p_id x) (db_refunds ?d)" if "x \<in> set (db_payments ?d)" for x
    proof -
      from that consider "x = ?f y" | "x \<in> set us \<union> set vs" unfolding sp(2) by auto
      then show ?thesis
      proof cases
        case 1
        with yD ok show ?thesis unfolding tot by (simp add: refunds_ok_def refunds_inv_def)
      next
        case 2
        then have "x \<in> set (db_payments d)" unfolding sp(1) by auto
        with ok others [OF 2] show ?thesis unfolding tot by (simp add: refunds_ok_def refunds_inv_def)
      qed
    qed
  qed
  moreover have "never_over ?d"
    unfolding never_over_def
  proof (intro conjI ballI impI)
    show "p_totalRefunded x \<le> p_amount x" if "x \<in> set (db_payments ?d)" for x
      using that ok yD unfolding sp by (auto simp: refunds_ok_def never_over_def sp(1))
    show "r_amountReserved r" if "r \<in> set (db_refunds ?d)" "r_status r = R_Pending" for r
      using that ok c(1) by (auto simp: rs refunds_ok_def never_over_def)
  qed
  ultimately show ?thesis by (simp add: refunds_ok_def)
qed

text \<open>Any sequence of the operations.\<close>

datatype refund_op =
    Op_Refund pay_env refund_input
  | Op_Reconcile pay_env refund actor_ctx bool
  | Op_Resolve pay_env refund resolve_input actor_ctx
  | Op_Webhook pay_env string provider_refund_update "oid option"

fun run_refund_op :: "refund_op \<Rightarrow> db \<Rightarrow> db" where
  "run_refund_op (Op_Refund env inp) d = snd (refund_payment env inp d)"
| "run_refund_op (Op_Reconcile env r ax allow) d = snd (reconcile_refund env r ax allow d)"
| "run_refund_op (Op_Resolve env r inp ax) d = snd (resolve_held_refund env r inp ax d)"
| "run_refund_op (Op_Webhook env name u acc) d = snd (apply_provider_refund_update env name u acc d)"

section \<open>Invariants of all operations\<close>

text \<open>
  What a property must satisfy to be kept by every operation: it may not depend on the bookkeeping
  fields, and the four writes that move money or statuses must keep it - an outcome that is applied,
  a claim that is taken back, a reservation. The lemmas then carry it through the provider call,
  re-issue, reconciliation, the whole of \<open>refundPayment\<close>, staff resolution and webhooks.
\<close>

locale refund_invariant =
  fixes Inv :: "db \<Rightarrow> bool"
  assumes quiet_inv: "(\<And>r. rview (f r) = rview r) \<Longrightarrow> Inv (update_refund q f d) = Inv d"
    and audit_inv: "Inv (refund_audit a ax pid d) = Inv d"
    and apply_inv: "Inv d \<Longrightarrow> Inv (snd (apply_refund_outcome now r u ax m e d))"
    and release_inv: "Inv d \<Longrightarrow> c \<in> set (db_refunds d) \<Longrightarrow> r_status c = R_Pending \<Longrightarrow>
      Inv ((inc_total_refunded (r_paymentId c) (- r_amount c) d)
        \<lparr>db_refunds := delete_one (\<lambda>y. r_id y = r_id c \<and> r_status y = R_Pending) (db_refunds d)\<rparr>)"
    and reserve_inv: "Inv d \<Longrightarrow> \<forall>r \<in> set (db_refunds d). r_id r \<noteq> r_id c \<Longrightarrow>
      find_one (reservable (r_paymentId c) (r_amount c)) (db_payments d) = Some y \<Longrightarrow>
      r_amountReserved c \<Longrightarrow> 0 \<le> r_amount c \<Longrightarrow>
      Inv (update_payment (reservable (r_paymentId c) (r_amount c))
        (\<lambda>y. y\<lparr>p_totalRefunded := p_totalRefunded y + r_amount c\<rparr>) (d\<lparr>db_refunds := db_refunds d @ [c]\<rparr>))"
begin

lemma note_inv [simp]: "Inv (note_lookup now res i d) = Inv d"
  unfolding note_lookup_def by (rule quiet_inv) (simp add: rview_def)

lemma lease_inv [simp]: "Inv (unset_lease i d) = Inv d"
  unfolding unset_lease_def by (rule quiet_inv) (simp add: rview_def)

lemma call_inv:
  assumes ok: "Inv d"
    and del: "delete \<Longrightarrow> \<exists>c \<in> set (db_refunds d). r_status c = R_Pending \<and> r_id c = r_id claim \<and>
      r_amount c = r_amount claim \<and> r_paymentId c = p_id x"
  shows "Inv (snd (call_provider_and_record env claim x prov ax delete d))"
proof (cases "pv_refund prov (p_providerRef x) (r_amount claim) (r_reason claim) (refund_key_of env claim)")
  case (Refund_Result res)
  then show ?thesis using apply_inv [OF ok] by (simp add: call_provider_and_record_def)
next
  case Refund_Rejected
  show ?thesis
  proof (cases delete)
    case True
    from del [OF True] obtain c where c: "c \<in> set (db_refunds d)" "r_status c = R_Pending" "r_id c = r_id claim"
      "r_amount c = r_amount claim" "r_paymentId c = p_id x" by blast
    from release_inv [OF ok c(1,2)] c Refund_Rejected True show ?thesis
      by (simp add: call_provider_and_record_def)
  next
    case False
    with ok Refund_Rejected show ?thesis by (simp add: call_provider_and_record_def)
  qed
next
  case Refund_Unknown
  have "Inv (update_refund (\<lambda>y. r_id y = r_id claim \<and> r_status y = R_Pending)
      (\<lambda>y. y\<lparr>r_providerOutcomeUnknown := True\<rparr>) d)"
    using ok by (subst quiet_inv) (simp_all add: rview_def)
  with Refund_Unknown show ?thesis by (simp add: call_provider_and_record_def audit_inv)
qed

lemma reissue_inv:
  assumes "Inv d"
  shows "Inv (snd (reissue_refund env fresh x prov ax d))"
proof -
  have "Inv (update_refund q (\<lambda>y. y\<lparr>r_reissueLeaseUntil := t\<rparr>) d)" for q t
    using assms by (subst quiet_inv) (simp_all add: rview_def)
  note L = call_inv [OF this, where delete = False]
  let ?q = "\<lambda>y. r_id y = r_id fresh \<and> r_status y = R_Pending \<and> lease_free (pe_now env) y"
  let ?f = "\<lambda>y. y\<lparr>r_reissueLeaseUntil := Some (pe_now env + stale_refund_claim_ms)\<rparr>"
  show ?thesis
  proof (cases "find_one ?q (db_refunds d)")
    case None
    with assms show ?thesis by (simp add: reissue_refund_def Let_def)
  next
    case (Some y)
    obtain res d1 where c: "call_provider_and_record env (?f y) x prov ax False (update_refund ?q ?f d) = (res, d1)"
      by fastforce
    have "Inv (snd (call_provider_and_record env (?f y) x prov ax False (update_refund ?q ?f d)))"
      by (rule L) simp
    then have "Inv d1" by (simp add: c)
    with Some c show ?thesis by (cases res) (simp_all add: reissue_refund_def Let_def)
  qed
qed

lemma reconcile_inv:
  assumes ok: "Inv d"
  shows "Inv (snd (reconcile_refund env r ax allow d))"
proof -
  have a: "Inv (snd (apply_refund_outcome now r u ax m e (note_lookup t l i d)))" for now u m e t l i
    by (rule apply_inv) (simp add: ok)
  have b: "Inv (snd (reissue_refund env fr x prov ax (note_lookup t l i d)))" for fr x prov t l i
    by (rule reissue_inv) (simp add: ok)
  have noted: "Inv (note_lookup t l i d)" for t l i using ok by simp
  have found: "Inv (snd (case apply_refund_outcome now r u ax m e (note_lookup t l i d) of
      (Inl e, d2) \<Rightarrow> (Inl e, d2) | (Inr r', d2) \<Rightarrow> (Inr (r', Found), d2)))" for now u m e t l i
    using a [of now u m e t l i]
    by (cases "apply_refund_outcome now r u ax m e (note_lookup t l i d)"; cases "fst (apply_refund_outcome now r u ax m e (note_lookup t l i d))") auto
  have again: "Inv (snd (let (res, d2) = reissue_refund env fr x prov ax (note_lookup t l i d) in (Inr res, d2)))"
    for fr x prov t l i using b [of fr x prov t l i] by (simp add: case_prod_beta Let_def)
  show ?thesis
  proof (cases "r_status r \<noteq> R_Pending \<or> (\<not> is_held (pe_now env) r \<and> \<not> truthy_string (r_providerRefundRef r)) \<or>
      find_payment (r_paymentId r) d = None")
    case True
    with ok show ?thesis by (auto simp: reconcile_refund_def Let_def)
  next
    case False
    then obtain x where x: "find_payment (r_paymentId r) d = Some x" by blast
    show ?thesis
    proof (cases "refund_provider_for env x d")
      case (Inl e)
      with False x ok show ?thesis by (auto simp: reconcile_refund_def Let_def)
    next
      case (Inr prov)
      show ?thesis
        using False x Inr ok noted found again unfolding reconcile_refund_def Let_def
        by (cases "pv_lookupRefund prov (p_providerRef x) (refund_key_of env r) (r_providerRefundRef r)") auto
    qed
  qed
qed

lemma same_key_inv:
  assumes "Inv d"
  shows "Inv (snd (same_key_refund env inp d))"
proof (cases "refund_by_key (ri_restaurantId inp) (ri_idempotencyKey inp) d")
  case (Some r)
  let ?c = "reconcile_refund env r \<lparr>ax_userId = ri_initiatedByUserId inp, ax_system = False\<rparr> True d"
  obtain res d1 where c: "?c = (res, d1)" by fastforce
  have "Inv d1"
    using reconcile_inv [OF assms, of env r "\<lparr>ax_userId = ri_initiatedByUserId inp, ax_system = False\<rparr>" True]
    by (simp add: c)
  with Some c assms show ?thesis by (cases res) (auto simp: same_key_refund_def)
qed (use assms in \<open>simp add: same_key_refund_def\<close>)

lemma unless_inv:
  assumes "Inv d"
  shows "Inv (snd (unless_duplicate env inp e d))"
proof -
  obtain res d1 where c: "same_key_refund env inp d = (res, d1)" by fastforce
  have "Inv d1" using same_key_inv [OF assms, of env inp] by (simp add: c)
  then show ?thesis by (auto simp: unless_duplicate_def c split: sum.splits option.splits)
qed

lemma claim_inv:
  assumes ok: "Inv d" and amount: "0 \<le> amount"
  shows "Inv (snd (claim_and_call env inp x prov amount d))"
proof -
  let ?c = "refund_claim env inp x prov amount"
  show ?thesis
  proof (cases "insert_unique refund_clash ?c (db_refunds d)")
    case None
    with ok show ?thesis by (auto simp: claim_and_call_def split: option.splits)
  next
    case (Some rs)
    have rs: "rs = db_refunds d @ [?c]" and fresh: "\<forall>r \<in> set (db_refunds d). r_id r \<noteq> r_id ?c"
      using insert_unique_SomeD [OF Some] by (auto simp: refund_clash_def)
    have cs: "r_paymentId ?c = p_id x" "r_amount ?c = amount" "r_status ?c = R_Pending"
      by (simp_all add: refund_claim_def)
    let ?q = "\<lambda>y. r_id y = r_id ?c \<and> r_status y = R_Pending"
    have nq: "\<forall>r \<in> set (db_refunds d). \<not> ?q r" using fresh by auto
    show ?thesis
    proof (cases "find_one (reservable (p_id x) amount) (db_payments d)")
      case None
      with Some ok show ?thesis
        by (simp add: claim_and_call_def Let_def rs delete_fresh [OF nq] cs)
    next
      case res: (Some y)
      let ?r = "?c\<lparr>r_amountReserved := True\<rparr>"
      let ?d = "update_payment (reservable (p_id x) amount)
          (\<lambda>y. y\<lparr>p_totalRefunded := p_totalRefunded y + amount\<rparr>) (d\<lparr>db_refunds := db_refunds d @ [?r]\<rparr>)"
      have "Inv ?d"
        using reserve_inv [OF ok, of ?r y] fresh res amount cs by simp
      then have "Inv (snd (call_provider_and_record env ?r x prov
          \<lparr>ax_userId = ri_initiatedByUserId inp, ax_system = False\<rparr> True ?d))"
        by (rule call_inv) (use cs in \<open>auto simp: update_payment_def intro!: bexI [of _ ?r]\<close>)
      moreover have "update_refund ?q (\<lambda>y. y\<lparr>r_amountReserved := True\<rparr>)
          (update_payment (reservable (p_id x) amount) (\<lambda>y. y\<lparr>p_totalRefunded := p_totalRefunded y + amount\<rparr>)
            (d\<lparr>db_refunds := rs\<rparr>)) = ?d"
        by (simp add: update_refund_def update_payment_def rs update_fresh [OF nq] cs)
      ultimately show ?thesis using Some res by (simp add: claim_and_call_def Let_def)
    qed
  qed
qed

lemma of_payment_inv:
  assumes ok: "Inv d"
  shows "Inv (snd (refund_of_payment env inp x d))"
proof -
  note U = unless_inv [OF ok]
  have S: "Inv (snd (case same_key_refund env inp d of
      (Inl e, d1) \<Rightarrow> (Inl e, d1) | (Inr r, d1) \<Rightarrow> (Inr (nullish r w), d1)))" for w
  proof -
    obtain res d1 where c: "same_key_refund env inp d = (res, d1)" by fastforce
    have "Inv d1" using same_key_inv [OF ok, of env inp] by (simp add: c)
    then show ?thesis by (cases res) (simp_all add: c)
  qed
  let ?rem = "round_currency (p_amount x - p_totalRefunded x)"
  have C: "0 < nullish (ri_amount inp) ?rem \<Longrightarrow>
      Inv (snd (claim_and_call env inp x prov (nullish (ri_amount inp) ?rem) d))" for prov
    by (rule claim_inv [OF ok]) simp
  show ?thesis
    unfolding refund_of_payment_def Let_def
    using U S C ok by (simp split: option.split sum.split)
qed

lemma refund_payment_inv:
  assumes ok: "Inv d"
  shows "Inv (snd (refund_payment env inp d))"
proof -
  obtain res d1 where c: "same_key_refund env inp d = (res, d1)" by fastforce
  have d1: "Inv d1" using same_key_inv [OF ok, of env inp] by (simp add: c)
  show ?thesis
  proof (cases res)
    case (Inr o')
    then show ?thesis using d1 of_payment_inv [OF d1]
      by (cases o') (simp_all add: refund_payment_def c split: option.split)
  qed (simp add: refund_payment_def c d1)
qed

lemma resolve_inv:
  assumes ok: "Inv d"
  shows "Inv (snd (resolve_held_refund env r inp ax d))"
  unfolding resolve_held_refund_def Let_def
  using ok apply_inv [OF ok] by (simp split: option.split sum.split)

lemma webhook_inv:
  assumes ok: "Inv d"
  shows "Inv (snd (apply_provider_refund_update env name u acc d))"
proof -
  have "Inv (snd (case apply_refund_outcome now r v ax m e d of (Inl e, d1) \<Rightarrow> (Inl e, d1) | (Inr _, d1) \<Rightarrow> (Inr (), d1)))"
    for now r v ax m e
  proof -
    obtain res d1 where c: "apply_refund_outcome now r v ax m e d = (res, d1)" by fastforce
    have "Inv d1" using apply_inv [OF ok, of now r v ax m e] by (simp add: c)
    then show ?thesis by (cases res) (simp_all add: c)
  qed
  then show ?thesis unfolding apply_provider_refund_update_def using ok by (simp split: option.split)
qed

lemma run_op_inv: "Inv d \<Longrightarrow> Inv (run_refund_op op d)"
  by (cases op) (simp_all add: refund_payment_inv reconcile_inv resolve_inv webhook_inv)

lemma run_ops_inv: "Inv d \<Longrightarrow> Inv (fold run_refund_op ops d)"
  by (induction ops arbitrary: d) (simp_all add: run_op_inv)

end

text \<open>The accounting is such an invariant.\<close>

interpretation books: refund_invariant refunds_ok
  by unfold_locales
    (simp_all add: refunds_ok_update_refund refunds_ok_apply refunds_ok_release refunds_ok_reserved)

text \<open>C2. No operation on refunds can leave the books wrong: whatever the provider answers and on every
  error path, what a payment counts as refunded stays the sum of the refunds that reserve or used an
  amount of it, and never exceeds the payment.\<close>

theorem refund_accounting:
  assumes "refunds_ok d"
  shows "refunds_ok (snd (refund_payment env inp d)) \<and>
    refunds_ok (snd (reconcile_refund env r ax allow d)) \<and>
    refunds_ok (snd (resolve_held_refund env r rinp ax d)) \<and>
    refunds_ok (snd (apply_provider_refund_update env name u acc d))"
  using books.refund_payment_inv [OF assms] books.reconcile_inv [OF assms] books.resolve_inv [OF assms]
    books.webhook_inv [OF assms] by blast

section \<open>What the accounting means\<close>

lemma sum_filter_le:
  "(\<forall>r \<in> set rs. 0 \<le> r_amount r) \<Longrightarrow>
    sum_list (map r_amount (filter (\<lambda>r. r_paymentId r = pid \<and> r_status r = R_Succeeded) rs)) \<le> counted_total pid rs"
  by (induction rs) (auto simp: counted_total_def counted_amount_def counted_def)

lemma never_over_refunded:
  assumes "refunds_ok d" "x \<in> set (db_payments d)"
  shows "succeeded_total (p_id x) d \<le> p_totalRefunded x \<and> p_totalRefunded x \<le> p_amount x"
  using assms sum_filter_le [of "db_refunds d" "p_id x"]
  by (auto simp: refunds_ok_def refunds_inv_def never_over_def succeeded_total_def)

text \<open>C9. Whatever sequence of refund requests, retries, reconciliations, staff resolutions and provider
  webhooks happens, the money refunded for a payment never exceeds what was paid.\<close>

theorem never_over_refunded_ever:
  assumes "refunds_ok d" "x \<in> set (db_payments (fold run_refund_op ops d))"
  shows "succeeded_total (p_id x) (fold run_refund_op ops d) \<le> p_amount x"
  using never_over_refunded [OF books.run_ops_inv [OF assms(1)] assms(2)] by linarith

end
