(* ===== verification/Payment_Safety.thy ===== *)
theory Payment_Safety
  imports Refund_Safety
begin

text \<open>
  What is true of payments and orders at all times: at most one paid payment per order, and an order
  that was to be paid online is only ever marked paid when a payment of it went through. Both are kept
  by creating payments, by status changes from webhooks and polling, and by every refund operation.
\<close>

section \<open>The status tables\<close>

fun payment_rank :: "payment_status \<Rightarrow> nat" where
  "payment_rank P_Pending = 0"
| "payment_rank P_Requires_Action = 1"
| "payment_rank P_Authorized = 2"
| "payment_rank _ = 3"

definition payment_terminal :: "payment_status \<Rightarrow> bool" where
  "payment_terminal s \<longleftrightarrow> s \<notin> {P_Pending, P_Requires_Action, P_Authorized}"

interpretation payment_table: ranked_table is_valid_payment_transition payment_terminal payment_rank
proof unfold_locales
  show "\<not> is_valid_payment_transition s t" if "payment_terminal s" for s t
    using that by (cases s) (simp_all add: payment_terminal_def is_valid_payment_transition_def)
  show "payment_rank s < payment_rank t" if "is_valid_payment_transition s t" for s t
    using that by (cases s) (auto simp: is_valid_payment_transition_def)
qed

fun refund_rank :: "refund_status \<Rightarrow> nat" where
  "refund_rank R_Pending = 0"
| "refund_rank R_Succeeded = 1"
| "refund_rank R_Failed = 2"

interpretation refund_table: ranked_table "\<lambda>s t. t \<in> set (refund_transitions s)" "\<lambda>s. s = R_Failed" refund_rank
proof unfold_locales
  show "t \<notin> set (refund_transitions s)" if "s = R_Failed" for s t using that by simp
  show "refund_rank s < refund_rank t" if "t \<in> set (refund_transitions s)" for s t using that by (cases s) auto
qed

section \<open>The invariant\<close>

definition settled :: "payment_status \<Rightarrow> bool" where
  "settled s \<longleftrightarrow> s \<in> {P_Paid, P_Partially_Refunded, P_Refunded}"

definition one_paid :: "db \<Rightarrow> bool" where
  "one_paid d \<longleftrightarrow> (\<forall>x \<in> set (db_payments d). \<forall>y \<in> set (db_payments d).
     p_orderId x = p_orderId y \<and> p_status x = P_Paid \<and> p_status y = P_Paid \<longrightarrow> p_id x = p_id y)"

definition paid_online :: "order \<Rightarrow> bool" where
  "paid_online x \<longleftrightarrow> o_paymentMethod x = Online_Pay \<and> o_paymentStatus x = Order_Paid"

definition pays :: "order \<Rightarrow> payment \<Rightarrow> bool" where
  "pays x y \<longleftrightarrow> p_orderId y = o_id x \<and> p_restaurantId y = o_restaurantId x \<and> settled (p_status y)"

definition backed :: "db \<Rightarrow> bool" where
  "backed d \<longleftrightarrow> (\<forall>x \<in> set (db_orders d). paid_online x \<longrightarrow> (\<exists>y \<in> set (db_payments d). pays x y))"

definition paid_inv :: "db \<Rightarrow> bool" where
  "paid_inv d \<longleftrightarrow> distinct (map p_id (db_payments d)) \<and> one_paid d \<and> backed d"

definition psv :: "payment \<Rightarrow> oid \<times> oid \<times> oid \<times> payment_status" where
  "psv x = (p_id x, p_orderId x, p_restaurantId x, p_status x)"

definition osv :: "order \<Rightarrow> oid \<times> oid \<times> pay_method \<times> order_pay_status" where
  "osv x = (o_id x, o_restaurantId x, o_paymentMethod x, o_paymentStatus x)"

definition paid_views :: "(oid \<times> oid \<times> oid \<times> payment_status) list \<Rightarrow> (oid \<times> oid \<times> pay_method \<times> order_pay_status) list \<Rightarrow> bool" where
  "paid_views ps os \<longleftrightarrow> distinct (map fst ps) \<and>
     (\<forall>(i, k, r, s) \<in> set ps. \<forall>(j, l, q, t) \<in> set ps. k = l \<and> s = P_Paid \<and> t = P_Paid \<longrightarrow> i = j) \<and>
     (\<forall>(k, r, m, s) \<in> set os. m = Online_Pay \<and> s = Order_Paid \<longrightarrow>
        (\<exists>(i, l, q, t) \<in> set ps. l = k \<and> q = r \<and> settled t))"

lemma paid_inv_views: "paid_inv d = paid_views (map psv (db_payments d)) (map osv (db_orders d))"
proof -
  have "fst \<circ> psv = p_id" by (auto simp: psv_def)
  then show ?thesis
    by (simp add: paid_inv_def paid_views_def one_paid_def backed_def psv_def osv_def paid_online_def pays_def)
qed

lemma paid_inv_cong:
  assumes "map psv (db_payments d') = map psv (db_payments d)" "map osv (db_orders d') = map osv (db_orders d)"
  shows "paid_inv d' = paid_inv d"
  by (simp add: paid_inv_views assms)

lemma paid_inv_other:
  assumes "db_payments d' = db_payments d" "db_orders d' = db_orders d"
  shows "paid_inv d' = paid_inv d"
  using assms by (intro paid_inv_cong) simp_all

lemma paid_inv_update_payment:
  "(\<And>x. psv (f x) = psv x) \<Longrightarrow> paid_inv (update_payment q f d) = paid_inv d"
  by (rule paid_inv_cong) (simp_all add: update_payment_def map_update_one)

lemma paid_inv_simps [simp]:
  "paid_inv (emit_order_event e d) = paid_inv d"
  "paid_inv (refund_audit a ax pid d) = paid_inv d"
  "paid_inv (update_refund q g d) = paid_inv d"
  "paid_inv (d\<lparr>db_refunds := rs\<rparr>) = paid_inv d"
  by (rule paid_inv_other; simp add: emit_order_event_def refund_audit_def record_audit_event_def update_refund_def)+

lemma paid_inv_emit_case [simp]:
  "paid_inv (case z of None \<Rightarrow> a | Some y \<Rightarrow> emit_order_event (e y) a) = paid_inv a"
  by (simp split: option.split)

lemma paid_inv_inc [simp]: "paid_inv (inc_total_refunded pid x d) = paid_inv d"
  unfolding inc_total_refunded_def by (rule paid_inv_update_payment) (simp add: psv_def)

lemma paid_inv_reverse [simp]: "paid_inv (snd (reverse_loyalty_if_needed x d)) = paid_inv d"
proof (rule paid_inv_cong)
  have "map osv (update_one q (\<lambda>x. x\<lparr>o_loyaltyReversed := True\<rparr>) os) = map osv os" for q os
    by (rule map_update_one) (simp add: osv_def)
  then show "map osv (db_orders (snd (reverse_loyalty_if_needed x d))) = map osv (db_orders d)"
    using orders_reversal [of x d] by (simp add: reversal_def)
qed (simp add: reverse_loyalty_money)

text \<open>One payment gets a status: settled stays settled, and paid only where no other payment is.\<close>

lemma paid_inv_status:
  assumes inv: "paid_inv d" and x: "find_payment pid d = Some x"
    and s: "settled (p_status x) \<Longrightarrow> settled s" "s = P_Paid \<Longrightarrow> \<not> paid_elsewhere x d"
  shows "paid_inv (update_payment (\<lambda>y. p_id y = pid) (\<lambda>y. y\<lparr>p_status := s\<rparr>) d)" (is "paid_inv ?d")
proof -
  have xD: "x \<in> set (db_payments d)" "p_id x = pid" using x by (auto simp: find_payment_def dest: find_one_SomeD)
  obtain us vs where sp: "db_payments d = us @ x # vs" "db_payments ?d = us @ x\<lparr>p_status := s\<rparr> # vs"
    using update_one_split [OF x [unfolded find_payment_def], of "\<lambda>y. y\<lparr>p_status := s\<rparr>"]
    by (auto simp: update_payment_def)
  have os: "db_orders ?d = db_orders d" by (simp add: update_payment_def)
  have ids: "distinct (map p_id (db_payments d))" using inv by (simp add: paid_inv_def)
  have others: "p_id y \<noteq> p_id x" if "y \<in> set us \<union> set vs" for y
    using that ids unfolding sp(1) by (auto simp: image_iff)
  have elsewhere: "p_status y \<noteq> P_Paid" if "s = P_Paid" "y \<in> set us \<union> set vs" "p_orderId y = p_orderId x" for y
  proof
    assume "p_status y = P_Paid"
    moreover have "y \<in> set (db_payments d)" using that(2) unfolding sp(1) by auto
    ultimately have "paid_elsewhere x d"
      using others [OF that(2)] that(3) by (auto simp: paid_elsewhere_def list_ex_iff)
    with s(2) [OF that(1)] show False by simp
  qed
  have "distinct (map p_id (db_payments ?d))" using ids unfolding sp by simp
  moreover have "one_paid ?d"
    unfolding one_paid_def
  proof (intro ballI impI)
    fix y z
    assume yz: "y \<in> set (db_payments ?d)" "z \<in> set (db_payments ?d)"
      "p_orderId y = p_orderId z \<and> p_status y = P_Paid \<and> p_status z = P_Paid"
    have old: "w \<in> set (db_payments d)" if "w \<in> set us \<union> set vs" for w using that unfolding sp(1) by auto
    from yz(1,2) consider "y = x\<lparr>p_status := s\<rparr>" "z = x\<lparr>p_status := s\<rparr>"
      | "y = x\<lparr>p_status := s\<rparr>" "z \<in> set us \<union> set vs" | "y \<in> set us \<union> set vs" "z = x\<lparr>p_status := s\<rparr>"
      | "y \<in> set us \<union> set vs" "z \<in> set us \<union> set vs" unfolding sp(2) by auto
    then show "p_id y = p_id z"
    proof cases
      case 2
      with yz(3) have "s = P_Paid" "p_orderId z = p_orderId x" "p_status z = P_Paid" by simp_all
      with elsewhere [of z] 2 show ?thesis by blast
    next
      case 3
      with yz(3) have "s = P_Paid" "p_orderId y = p_orderId x" "p_status y = P_Paid" by simp_all
      with elsewhere [of y] 3 show ?thesis by blast
    next
      case 4
      with old yz(3) inv show ?thesis unfolding paid_inv_def one_paid_def by blast
    qed simp
  qed
  moreover have "backed ?d"
    unfolding backed_def os
  proof (intro ballI impI)
    fix z
    assume z: "z \<in> set (db_orders d)" "paid_online z"
    with inv obtain y where y: "y \<in> set (db_payments d)" "pays z y" by (auto simp: paid_inv_def backed_def)
    show "\<exists>y \<in> set (db_payments ?d). pays z y"
    proof (cases "y = x")
      case True
      with y(2) s(1) show ?thesis by (intro bexI [of _ "x\<lparr>p_status := s\<rparr>"]) (auto simp: pays_def sp(2))
    next
      case False
      with y show ?thesis by (intro bexI [of _ y]) (auto simp: sp)
    qed
  qed
  ultimately show ?thesis by (simp add: paid_inv_def)
qed

section \<open>Refunds keep it\<close>

lemma paid_inv_sync:
  assumes "paid_inv d"
  shows "paid_inv (snd (sync_payment_refund_status pid d))"
proof (cases "find_payment pid d")
  case (Some x)
  let ?n = "refunded_status (round_currency (succeeded_total pid d)) (p_amount x)"
  have "settled ?n" by (simp add: settled_def refunded_status_def)
  then have "\<not> (?n = P_Paid \<and> paid_elsewhere x d) \<Longrightarrow>
      paid_inv (update_payment (\<lambda>y. p_id y = pid) (\<lambda>y. y\<lparr>p_status := ?n\<rparr>) d)"
    by (intro paid_inv_status [OF assms Some]) auto
  with assms Some show ?thesis by (auto simp: sync_payment_refund_status_def Let_def)
qed (use assms in \<open>simp add: sync_payment_refund_status_def\<close>)

lemma paid_inv_effects:
  assumes "paid_inv d"
  shows "paid_inv (snd (refund_succeeded_effects r ps d))"
proof (cases "find_one (\<lambda>x. o_id x = r_orderId r) (db_orders d)")
  case (Some x)
  obtain res d1 where rev: "(if ps = Some P_Refunded then reverse_loyalty_if_needed x d else (Inr (), d)) = (res, d1)"
    by fastforce
  have "paid_inv (snd (if ps = Some P_Refunded then reverse_loyalty_if_needed x d else (Inr (), d)))"
    using assms by simp
  then have "paid_inv d1" unfolding rev by simp
  with Some rev show ?thesis by (cases res) (simp_all add: refund_succeeded_effects_def)
qed (use assms in \<open>simp add: refund_succeeded_effects_def\<close>)

lemma paid_inv_after_settle:
  assumes "paid_inv d"
  shows "paid_inv (snd (after_settle method ax before updated d))"
proof -
  let ?d1 = "if r_status updated = R_Failed \<and> counted before
      then inc_total_refunded (r_paymentId updated) (- r_amount updated) d
      else if r_status updated = R_Succeeded \<and> \<not> counted before
      then inc_total_refunded (r_paymentId updated) (r_amount updated) d else d"
  obtain res d2 where sync: "sync_payment_refund_status (r_paymentId updated) ?d1 = (res, d2)" by fastforce
  have "paid_inv ?d1" using assms by simp
  from paid_inv_sync [OF this, of "r_paymentId updated"] have d2: "paid_inv d2" unfolding sync by simp
  let ?d3 = "if method \<noteq> Provider_Response \<or> r_status updated = R_Failed
      then refund_audit ''payment.refund_reconciled'' ax (r_paymentId updated) d2 else d2"
  have d3: "paid_inv ?d3" using d2 by simp
  show ?thesis
  proof (cases res)
    case (Inl e)
    with d2 sync show ?thesis by (simp add: after_settle_def Let_def)
  next
    case (Inr ps)
    obtain res' d4 where eff: "refund_succeeded_effects updated ps ?d3 = (res', d4)" by fastforce
    have "paid_inv d4" using paid_inv_effects [OF d3, of updated ps] unfolding eff snd_conv .
    then show ?thesis
      unfolding after_settle_def Let_def sync Inr prod.case sum.case eff
      using d3 by (cases res') simp_all
  qed
qed

lemma paid_inv_apply_refund:
  assumes "paid_inv d"
  shows "paid_inv (snd (apply_refund_outcome now r u ax m e d))"
  using assms unfolding apply_refund_outcome_def Let_def
  by (auto split: option.split intro!: paid_inv_after_settle)

interpretation settled_orders: refund_invariant paid_inv
proof unfold_locales
  show "paid_inv d \<Longrightarrow> paid_inv (snd (apply_refund_outcome now r u ax m e d))" for d now r u ax m e
    by (rule paid_inv_apply_refund)
  show "paid_inv d \<Longrightarrow> paid_inv (update_payment (reservable (r_paymentId c) (r_amount c))
        (\<lambda>y. y\<lparr>p_totalRefunded := p_totalRefunded y + r_amount c\<rparr>) (d\<lparr>db_refunds := db_refunds d @ [c]\<rparr>))" for d c
    by (subst paid_inv_update_payment) (simp_all add: psv_def)
qed simp_all

section \<open>Status changes keep it\<close>

definition current :: "payment \<Rightarrow> db \<Rightarrow> bool" where
  "current x d \<longleftrightarrow> find_payment (p_id x) d = Some x"

lemma valid_not_settled: "is_valid_payment_transition s t \<Longrightarrow> \<not> settled s \<and> s \<noteq> t"
  by (cases s) (auto simp: is_valid_payment_transition_def settled_def)

text \<open>On a current snapshot the guarded update is the update by id.\<close>

lemma apply_current:
  assumes "distinct (map p_id (db_payments d))" "current x d" "is_valid_payment_transition (p_status x) s"
  shows "find_one (\<lambda>y. p_id y = p_id x \<and> p_status y \<noteq> s) (db_payments d) = Some x"
    and "update_payment (\<lambda>y. p_id y = p_id x \<and> p_status y \<noteq> s) (\<lambda>y. y\<lparr>p_status := s\<rparr>) d =
      update_payment (\<lambda>y. p_id y = p_id x) (\<lambda>y. y\<lparr>p_status := s\<rparr>) d"
proof -
  have "p_status x \<noteq> s" using valid_not_settled [OF assms(3)] by simp
  then show f: "find_one (\<lambda>y. p_id y = p_id x \<and> p_status y \<noteq> s) (db_payments d) = Some x"
    using find_one_refine [of p_id "p_id x" "db_payments d" x "\<lambda>y. p_status y \<noteq> s"] assms(2)
    by (simp add: current_def find_payment_def)
  show "update_payment (\<lambda>y. p_id y = p_id x \<and> p_status y \<noteq> s) (\<lambda>y. y\<lparr>p_status := s\<rparr>) d =
      update_payment (\<lambda>y. p_id y = p_id x) (\<lambda>y. y\<lparr>p_status := s\<rparr>) d"
    using update_guarded [OF assms(1) f] by (simp add: update_payment_def)
qed

lemma paid_inv_mark:
  assumes inv: "paid_inv d" and y: "y \<in> set (db_payments d)" "p_orderId y = oid" "p_restaurantId y = rid"
    "settled (p_status y)"
  shows "paid_inv (mark_order_paid oid rid d)"
proof -
  let ?P = "\<lambda>z. paid_online z \<longrightarrow> (\<exists>y \<in> set (db_payments d). pays z y)"
  have "\<forall>z \<in> set (update_one (\<lambda>x. o_id x = oid \<and> o_restaurantId x = rid)
      (\<lambda>x. x\<lparr>o_paymentStatus := Order_Paid\<rparr>) (db_orders d)). ?P z"
  proof (rule update_one_all)
    show "\<forall>z \<in> set (db_orders d). ?P z" using inv by (simp add: paid_inv_def backed_def)
    fix z :: order
    assume "o_id z = oid \<and> o_restaurantId z = rid"
    with y have "pays (z\<lparr>o_paymentStatus := Order_Paid\<rparr>) y" by (simp add: pays_def)
    with y(1) show "?P (z\<lparr>o_paymentStatus := Order_Paid\<rparr>)" by blast
  qed
  then have "backed (mark_order_paid oid rid d)" by (simp add: backed_def mark_order_paid_def)
  moreover have "one_paid (mark_order_paid oid rid d) = one_paid d" by (simp add: one_paid_def mark_order_paid_def)
  moreover have "db_payments (mark_order_paid oid rid d) = db_payments d" by (simp add: mark_order_paid_def)
  ultimately show ?thesis using inv by (simp add: paid_inv_def)
qed

lemma paid_inv_transition:
  assumes inv: "paid_inv d" and cur: "current x d" and valid: "is_valid_payment_transition (p_status x) s"
  shows "paid_inv (snd (apply_payment_status_transition x s d))"
proof -
  have ids: "distinct (map p_id (db_payments d))" using inv by (simp add: paid_inv_def)
  note A = apply_current [OF ids cur valid]
  let ?d1 = "update_payment (\<lambda>y. p_id y = p_id x) (\<lambda>y. y\<lparr>p_status := s\<rparr>) d"
  show ?thesis
  proof (cases "s = P_Paid \<and> paid_elsewhere x d")
    case True
    with inv A show ?thesis by (simp add: apply_payment_status_transition_def)
  next
    case False
    have d1: "paid_inv ?d1"
      using False valid_not_settled [OF valid] cur by (intro paid_inv_status [OF inv]) (auto simp: current_def)
    have mem: "x\<lparr>p_status := s\<rparr> \<in> set (db_payments ?d1)"
      using update_one_split [OF cur [unfolded current_def find_payment_def], of "\<lambda>y. y\<lparr>p_status := s\<rparr>"]
      by (auto simp: update_payment_def)
    let ?d2 = "if s = P_Paid then mark_order_paid (p_orderId x) (p_restaurantId x) ?d1 else ?d1"
    have "paid_inv ?d2"
    proof (cases "s = P_Paid")
      case True
      then have "settled (p_status (x\<lparr>p_status := s\<rparr>))" by (simp add: settled_def)
      from paid_inv_mark [OF d1 mem refl refl this] True show ?thesis by simp
    qed (use d1 in simp)
    moreover have "snd (apply_payment_status_transition x s d) =
        (case (if s = P_Paid \<or> s = P_Failed \<or> s = P_Cancelled
            then find_order (p_orderId x) (p_restaurantId x) ?d2 else None) of
           None \<Rightarrow> ?d2 | Some y \<Rightarrow> emit_order_event (payment_event y (Outcome s) None) ?d2)"
      using False unfolding apply_payment_status_transition_def A Let_def by auto
    ultimately show ?thesis by simp
  qed
qed

text \<open>Other payments stay current.\<close>

lemma payments_mark [simp]: "db_payments (mark_order_paid oid rid d) = db_payments d"
  by (simp add: mark_order_paid_def)

lemma payments_emit_case [simp]:
  "db_payments (case z of None \<Rightarrow> a | Some y \<Rightarrow> emit_order_event (e y) a) = db_payments a"
  by (simp add: emit_order_event_def split: option.split)

lemma transition_payments:
  "db_payments (snd (apply_payment_status_transition x s d)) = db_payments d \<or>
   db_payments (snd (apply_payment_status_transition x s d)) =
     update_one (\<lambda>z. p_id z = p_id x \<and> p_status z \<noteq> s) (\<lambda>z. z\<lparr>p_status := s\<rparr>) (db_payments d)"
proof (cases "find_one (\<lambda>y. p_id y = p_id x \<and> p_status y \<noteq> s) (db_payments d)")
  case (Some c)
  then show ?thesis
    by (cases "s = P_Paid \<and> paid_elsewhere c d"; cases "s = P_Paid")
      (simp_all add: apply_payment_status_transition_def Let_def update_payment_def)
qed (simp add: apply_payment_status_transition_def)

lemma transition_other_current:
  assumes "p_id y \<noteq> p_id x" "current y d"
  shows "current y (snd (apply_payment_status_transition x s d))"
proof -
  have keep: "find_one (\<lambda>z. p_id z = p_id y)
      (update_one (\<lambda>z. p_id z = p_id x \<and> p_status z \<noteq> s) (\<lambda>z. z\<lparr>p_status := s\<rparr>) ps) =
    find_one (\<lambda>z. p_id z = p_id y) ps" for ps
    using assms(1) by (induction ps) auto
  from transition_payments [of x s d]
  have "find_one (\<lambda>z. p_id z = p_id y) (db_payments (snd (apply_payment_status_transition x s d))) =
      find_one (\<lambda>z. p_id z = p_id y) (db_payments d)"
    by (elim disjE) (simp_all only: keep)
  with assms(2) show ?thesis by (simp add: current_def find_payment_def)
qed

lemma paid_inv_reconcile:
  assumes "paid_inv d" "current x d"
  shows "paid_inv (reconcile_payment env x d)"
  using assms paid_inv_transition by (auto simp: reconcile_payment_def split: option.split)

lemma reconcile_other_current:
  assumes "p_id y \<noteq> p_id x" "current y d"
  shows "current y (reconcile_payment env x d)"
  using assms transition_other_current by (auto simp: reconcile_payment_def split: option.split)

lemma paid_inv_reconcile_all:
  "paid_inv d \<Longrightarrow> distinct (map p_id xs) \<Longrightarrow> \<forall>x \<in> set xs. current x d \<Longrightarrow> paid_inv (fold (reconcile_payment env) xs d)"
proof (induction xs arbitrary: d)
  case (Cons x xs)
  have ids: "distinct (map p_id (db_payments d))" using Cons.prems(1) by (simp add: paid_inv_def)
  have "paid_inv (reconcile_payment env x d)" using Cons.prems by (intro paid_inv_reconcile) auto
  moreover have "\<forall>y \<in> set xs. current y (reconcile_payment env x d)"
  proof
    fix y
    assume y: "y \<in> set xs"
    then have "p_id y \<noteq> p_id x" using Cons.prems(2) by (auto simp: image_iff)
    with y Cons.prems(3) show "current y (reconcile_payment env x d)"
      by (intro reconcile_other_current) auto
  qed
  ultimately show ?case using Cons.IH Cons.prems(2) by simp
qed simp

lemma paid_inv_sweep:
  assumes "paid_inv d"
  shows "paid_inv (reconcile_stale_payments env d)"
proof -
  have ids: "distinct (map p_id (db_payments d))" using assms by (simp add: paid_inv_def)
  then have "distinct (map p_id (stale_payments env d))"
    by (simp add: stale_payments_def distinct_map_filter distinct_take take_map [symmetric])
  moreover have "\<forall>x \<in> set (stale_payments env d). current x d"
    using find_id_mem [OF ids] unfolding stale_payments_def current_def find_payment_def
    by (auto dest!: in_set_takeD)
  ultimately show ?thesis unfolding reconcile_stale_payments_def by (intro paid_inv_reconcile_all assms)
qed

lemma paid_inv_insert:
  assumes inv: "paid_inv d" and ins: "insert_payment x d = Some d'"
  shows "paid_inv d'"
proof -
  from ins have d': "d' = d\<lparr>db_payments := db_payments d @ [x]\<rparr>" and n: "\<forall>y \<in> set (db_payments d). \<not> payment_clash x y"
    by (auto simp: insert_payment_def dest: insert_unique_SomeD)
  have "distinct (map p_id (db_payments d'))" using inv n by (auto simp: d' paid_inv_def payment_clash_def)
  moreover have "one_paid d'"
    unfolding one_paid_def
  proof (intro ballI impI)
    fix y z
    assume yz: "y \<in> set (db_payments d')" "z \<in> set (db_payments d')"
      "p_orderId y = p_orderId z \<and> p_status y = P_Paid \<and> p_status z = P_Paid"
    have no: "\<not> (w \<in> set (db_payments d) \<and> p_orderId x = p_orderId w \<and> p_status x = P_Paid \<and> p_status w = P_Paid)" for w
      using n by (auto simp: payment_clash_def)
    from yz consider "y = x" "z = x" | "y = x" "z \<in> set (db_payments d)" | "y \<in> set (db_payments d)" "z = x"
      | "y \<in> set (db_payments d)" "z \<in> set (db_payments d)" unfolding d' by auto
    then show "p_id y = p_id z"
    proof cases
      case 4
      with yz(3) inv show ?thesis unfolding paid_inv_def one_paid_def by blast
    next
      case 2
      with yz(3) no [of z] show ?thesis by simp
    next
      case 3
      with yz(3) no [of y] show ?thesis by simp
    qed simp
  qed
  moreover have "backed d'" using inv by (auto simp: d' paid_inv_def backed_def)
  ultimately show ?thesis by (simp add: paid_inv_def)
qed

lemma paid_inv_create:
  assumes "paid_inv d"
  shows "paid_inv (snd (create_payment_for_order env inp d))"
proof -
  have "paid_inv (snd (start_payment env inp r x d))" for r x
    using assms unfolding start_payment_def
    by (auto split: sum.split option.split prod.split dest: paid_inv_insert [OF assms])
  with assms show ?thesis unfolding create_payment_for_order_def by (auto split: option.split)
qed

end
