(* ===== verification/Payment_Webhooks.thy ===== *)
theory Payment_Webhooks
  imports Payment_Safety
begin

text \<open>
  \<open>processProviderEvent\<close> of \<open>services/payment.service.ts\<close>: the one entry point of provider webhooks.
  The insert into the event collection decides whether an event is new; a refund event goes to the
  refund state machine, a payment event through the payment state machine. The consumer is an
  interpretation of \<open>idempotent_consumer\<close>.
\<close>

section \<open>The handler\<close>

record provider_event =
  ve_eventId :: string
  ve_eventType :: string
  ve_providerRef :: string
  ve_status :: payment_status
  ve_refund :: "provider_refund_update option"

definition event_key :: "webhook_event \<Rightarrow> string \<times> string" where
  "event_key w = (we_provider w, we_eventId w)"

definition event_clash :: "webhook_event \<Rightarrow> webhook_event \<Rightarrow> bool" where
  "event_clash x y \<longleftrightarrow> event_key x = event_key y"

definition new_event :: "string \<Rightarrow> provider_event \<Rightarrow> webhook_event" where
  "new_event name ev = \<lparr>we_provider = name, we_eventId = ve_eventId ev, we_eventType = ve_eventType ev,
     we_processedAt = None, we_processingError = None\<rparr>"

definition update_event :: "string \<Rightarrow> string \<Rightarrow> (webhook_event \<Rightarrow> webhook_event) \<Rightarrow> db \<Rightarrow> db" where
  "update_event name i f d =
     d\<lparr>db_paymentEvents := update_one (\<lambda>w. event_key w = (name, i)) f (db_paymentEvents d)\<rparr>"

definition mark_processed :: "time \<Rightarrow> string option \<Rightarrow> string \<Rightarrow> provider_event \<Rightarrow> db \<Rightarrow> db" where
  "mark_processed now err name ev d =
     update_event name (ve_eventId ev)
       (\<lambda>w. w\<lparr>we_processedAt := Some now, we_processingError := (case err of None \<Rightarrow> we_processingError w | Some e \<Rightarrow> Some e)\<rparr>) d"

definition payment_of_event :: "string \<Rightarrow> provider_event \<Rightarrow> oid option \<Rightarrow> db \<Rightarrow> payment option" where
  "payment_of_event name ev acc d = find_one
     (\<lambda>x. p_provider x = name \<and> p_providerRef x = Some (ve_providerRef ev) \<and>
        (truthy_string acc \<longrightarrow> p_accountId x = acc)) (db_payments d)"

text \<open>After the insert.\<close>

definition handle_new_event ::
  "pay_env \<Rightarrow> string \<Rightarrow> provider_event \<Rightarrow> oid option \<Rightarrow> db \<Rightarrow> unit result \<times> db" where
  "handle_new_event env name ev acc d =
     (case ve_refund ev of
        Some u \<Rightarrow>
          (case apply_provider_refund_update env name u acc d of
             (Inl e, d1) \<Rightarrow> (Inl e, d1)
           | (Inr _, d1) \<Rightarrow> (Inr (), mark_processed (pe_now env) None name ev d1))
      | None \<Rightarrow>
          (case payment_of_event name ev acc d of
             None \<Rightarrow> (Inr (), update_event name (ve_eventId ev)
               (\<lambda>w. w\<lparr>we_processingError := Some ''No matching payment for providerRef''\<rparr>) d)
           | Some x \<Rightarrow>
               if \<not> is_valid_payment_transition (p_status x) (ve_status ev)
               then (Inr (), mark_processed (pe_now env) (Some ''Ignored'') name ev d)
               else (case apply_payment_status_transition x (ve_status ev) d of
                   (Inl e, d1) \<Rightarrow> (Inl e, d1)
                 | (Inr _, d1) \<Rightarrow> (Inr (), mark_processed (pe_now env) None name ev d1))))"

definition process_provider_event ::
  "pay_env \<Rightarrow> string \<Rightarrow> provider_event \<Rightarrow> oid option \<Rightarrow> db \<Rightarrow> unit result \<times> db" where
  "process_provider_event env name ev acc d =
     (case insert_unique event_clash (new_event name ev) (db_paymentEvents d) of
        None \<Rightarrow> (Inr (), d)
      | Some ws \<Rightarrow> handle_new_event env name ev acc (d\<lparr>db_paymentEvents := ws\<rparr>))"

section \<open>Processing leaves the recorded events\<close>

definition taken_keys :: "db \<Rightarrow> (string \<times> string) list" where
  "taken_keys d = map event_key (db_paymentEvents d)"

lemma taken_keys_update: "(\<And>w. event_key (f w) = event_key w) \<Longrightarrow> taken_keys (update_event name i f d) = taken_keys d"
  by (simp add: taken_keys_def update_event_def map_update_one)

lemma taken_keys_mark [simp]: "taken_keys (mark_processed now err name ev d) = taken_keys d"
  unfolding mark_processed_def by (rule taken_keys_update) (simp add: event_key_def)

lemma events_sync: "db_paymentEvents (snd (sync_payment_refund_status pid d)) = db_paymentEvents d"
  by (auto simp: sync_payment_refund_status_def Let_def update_payment_def split: option.split)

lemma events_reverse: "db_paymentEvents (snd (reverse_loyalty_if_needed x d)) = db_paymentEvents d"
  by (auto simp: reverse_loyalty_if_needed_def reverse_loyalty_for_order_def Let_def add_txn_def
      set_account_def split: option.splits)

lemma events_effects: "db_paymentEvents (snd (refund_succeeded_effects r ps d)) = db_paymentEvents d"
proof (cases "find_one (\<lambda>x. o_id x = r_orderId r) (db_orders d)")
  case (Some x)
  obtain res d1 where rev: "(if ps = Some P_Refunded then reverse_loyalty_if_needed x d else (Inr (), d)) = (res, d1)"
    by fastforce
  have "db_paymentEvents (snd (if ps = Some P_Refunded then reverse_loyalty_if_needed x d else (Inr (), d))) = db_paymentEvents d"
    by (simp add: events_reverse)
  then have "db_paymentEvents d1 = db_paymentEvents d" unfolding rev by simp
  with Some rev show ?thesis by (cases res) (simp_all add: refund_succeeded_effects_def emit_order_event_def)
qed (simp add: refund_succeeded_effects_def)

lemma events_after_settle: "db_paymentEvents (snd (after_settle method ax before updated d)) = db_paymentEvents d"
proof -
  let ?d1 = "if r_status updated = R_Failed \<and> counted before
      then inc_total_refunded (r_paymentId updated) (- r_amount updated) d
      else if r_status updated = R_Succeeded \<and> \<not> counted before
      then inc_total_refunded (r_paymentId updated) (r_amount updated) d else d"
  obtain res d2 where sync: "sync_payment_refund_status (r_paymentId updated) ?d1 = (res, d2)" by fastforce
  have d1: "db_paymentEvents ?d1 = db_paymentEvents d" by (simp add: inc_total_refunded_def update_payment_def)
  have d2: "db_paymentEvents d2 = db_paymentEvents d" using events_sync [of "r_paymentId updated" ?d1] d1 unfolding sync by simp
  let ?d3 = "if method \<noteq> Provider_Response \<or> r_status updated = R_Failed
      then refund_audit ''payment.refund_reconciled'' ax (r_paymentId updated) d2 else d2"
  have d3: "db_paymentEvents ?d3 = db_paymentEvents d" using d2 by (simp add: refund_audit_def record_audit_event_def)
  show ?thesis
  proof (cases res)
    case (Inl e)
    with d2 sync show ?thesis by (simp add: after_settle_def Let_def)
  next
    case (Inr ps)
    obtain res' d4 where eff: "refund_succeeded_effects updated ps ?d3 = (res', d4)" by fastforce
    have "db_paymentEvents d4 = db_paymentEvents d" using events_effects [of updated ps ?d3] d3 unfolding eff snd_conv by simp
    then show ?thesis
      unfolding after_settle_def Let_def sync Inr prod.case sum.case eff
      using d3 by (cases res') simp_all
  qed
qed

text \<open>The recorded events are an invariant of the refund operations too.\<close>

interpretation recorded: refund_invariant "\<lambda>d. db_paymentEvents d = evs" for evs
proof unfold_locales
  show "db_paymentEvents d = evs \<Longrightarrow> db_paymentEvents (snd (apply_refund_outcome now r u ax m e d)) = evs"
    for d now r u ax m e
    unfolding apply_refund_outcome_def Let_def
    by (simp add: events_after_settle update_refund_def split: option.split)
qed (simp_all add: update_refund_def refund_audit_def record_audit_event_def inc_total_refunded_def update_payment_def)

lemma emit_case_simps [simp]:
  "db_paymentEvents (case z of None \<Rightarrow> a | Some y \<Rightarrow> emit_order_event (e y) a) = db_paymentEvents a"
  "db_refunds (case z of None \<Rightarrow> a | Some y \<Rightarrow> emit_order_event (e y) a) = db_refunds a"
  by (simp_all add: emit_order_event_def split: option.split)

lemma events_transition: "db_paymentEvents (snd (apply_payment_status_transition x s d)) = db_paymentEvents d"
proof (cases "find_one (\<lambda>y. p_id y = p_id x \<and> p_status y \<noteq> s) (db_payments d)")
  case (Some c)
  then show ?thesis
    by (cases "s = P_Paid \<and> paid_elsewhere c d"; cases "s = P_Paid")
      (simp_all add: apply_payment_status_transition_def Let_def update_payment_def mark_order_paid_def)
qed (simp add: apply_payment_status_transition_def)

lemma taken_keys_handle: "taken_keys (snd (handle_new_event env name ev acc d)) = taken_keys d"
proof (cases "ve_refund ev")
  case (Some u)
  obtain res d1 where c: "apply_provider_refund_update env name u acc d = (res, d1)" by fastforce
  have "db_paymentEvents d1 = db_paymentEvents d"
    using recorded.webhook_inv [of d "db_paymentEvents d" env name u acc] by (simp add: c)
  with Some c show ?thesis by (cases res) (simp_all add: handle_new_event_def, simp_all add: taken_keys_def)
next
  case None
  show ?thesis
  proof (cases "payment_of_event name ev acc d")
    case None': None
    with None show ?thesis by (simp add: handle_new_event_def taken_keys_update event_key_def)
  next
    case (Some x)
    obtain res d1 where c: "apply_payment_status_transition x (ve_status ev) d = (res, d1)" by fastforce
    have "db_paymentEvents d1 = db_paymentEvents d" using events_transition [of x "ve_status ev" d] by (simp add: c)
    then have "taken_keys d1 = taken_keys d" by (simp add: taken_keys_def)
    with None Some c show ?thesis by (cases res) (simp_all add: handle_new_event_def)
  qed
qed

section \<open>At-least-once delivery\<close>




lemma new_event_taken:
  "insert_unique event_clash (new_event name ev) (db_paymentEvents d) = None \<longleftrightarrow> (name, ve_eventId ev) \<in> set (taken_keys d)"
  by (auto simp: insert_unique_None_iff event_clash_def taken_keys_def event_key_def new_event_def)

lemma taken_keys_process:
  "taken_keys (snd (process_provider_event env name ev acc d)) =
    taken_keys d @ (if (name, ve_eventId ev) \<in> set (taken_keys d) then [] else [(name, ve_eventId ev)])"
proof (cases "insert_unique event_clash (new_event name ev) (db_paymentEvents d)")
  case None
  then have "(name, ve_eventId ev) \<in> set (taken_keys d)" using new_event_taken [of name ev d] by simp
  with None show ?thesis by (simp add: process_provider_event_def)
next
  case (Some ws)
  then have "(name, ve_eventId ev) \<notin> set (taken_keys d)" using new_event_taken [of name ev d] by simp
  moreover have "ws = db_paymentEvents d @ [new_event name ev]" using insert_unique_SomeD [OF Some] by simp
  ultimately show ?thesis using Some
    by (simp add: process_provider_event_def taken_keys_handle) (simp add: taken_keys_def event_key_def new_event_def)
qed



text \<open>An event whose processing fails is lost to webhooks: it stays recorded, so the provider's
  redelivery of it is answered with success and does nothing.\<close>

theorem failed_event_not_retried:
  assumes "process_provider_event env name ev acc d = (Inl e, d1)"
  shows "process_provider_event env' name ev acc' d1 = (Inr (), d1)"
proof -
  have "(name, ve_eventId ev) \<in> set (taken_keys d1)"
    using taken_keys_process [of env name ev acc d] by (simp add: assms)
  then show ?thesis by (simp add: process_provider_event_def new_event_taken [symmetric])
qed

section \<open>Webhooks keep the invariants\<close>

lemma paid_inv_events [simp]:
  "paid_inv (update_event name i f d) = paid_inv d"
  "paid_inv (mark_processed now err name ev d) = paid_inv d"
  "paid_inv (d\<lparr>db_paymentEvents := ws\<rparr>) = paid_inv d"
  by (rule paid_inv_other; simp add: mark_processed_def update_event_def)+

lemma refunds_ok_events [simp]:
  "refunds_ok (update_event name i f d) = refunds_ok d"
  "refunds_ok (mark_processed now err name ev d) = refunds_ok d"
  "refunds_ok (d\<lparr>db_paymentEvents := ws\<rparr>) = refunds_ok d"
  by (rule refunds_ok_other; simp add: mark_processed_def update_event_def)+

lemma event_payment_current:
  assumes "paid_inv d" "payment_of_event name ev acc d = Some x"
  shows "current x d"
  using assms find_id_mem [of p_id "db_payments d" x]
  by (auto simp: paid_inv_def payment_of_event_def current_def find_payment_def dest: find_one_SomeD)

lemma paid_inv_process:
  assumes inv: "paid_inv d"
  shows "paid_inv (snd (process_provider_event env name ev acc d))"
proof -
  have "paid_inv (snd (handle_new_event env name ev acc d'))" if d': "paid_inv d'" for d'
  proof (cases "ve_refund ev")
    case (Some u)
    obtain res d1 where c: "apply_provider_refund_update env name u acc d' = (res, d1)" by fastforce
    have "paid_inv d1" using settled_orders.webhook_inv [OF d', of env name u acc] by (simp add: c)
    with Some c show ?thesis by (cases res) (simp_all add: handle_new_event_def)
  next
    case None
    show ?thesis
    proof (cases "payment_of_event name ev acc d'")
      case None': None
      with None d' show ?thesis by (simp add: handle_new_event_def)
    next
      case (Some x)
      obtain res d1 where c: "apply_payment_status_transition x (ve_status ev) d' = (res, d1)" by fastforce
      have "is_valid_payment_transition (p_status x) (ve_status ev) \<Longrightarrow> paid_inv d1"
        using paid_inv_transition [OF d' event_payment_current [OF d' Some], of "ve_status ev"] by (simp add: c)
      with None Some c d' show ?thesis by (cases res) (simp_all add: handle_new_event_def)
    qed
  qed
  then show ?thesis using inv by (simp add: process_provider_event_def split: option.split)
qed

lemma refunds_ok_transition: "refunds_ok d \<Longrightarrow> refunds_ok (snd (apply_payment_status_transition x s d))"
proof (rule iffD2 [OF refunds_ok_cong])
  have "db_refunds (snd (apply_payment_status_transition x s d)) = db_refunds d"
  proof (cases "find_one (\<lambda>y. p_id y = p_id x \<and> p_status y \<noteq> s) (db_payments d)")
    case (Some c)
    then show ?thesis
      by (cases "s = P_Paid \<and> paid_elsewhere c d"; cases "s = P_Paid")
        (simp_all add: apply_payment_status_transition_def Let_def update_payment_def mark_order_paid_def)
  qed (simp add: apply_payment_status_transition_def)
  then show "map rview (db_refunds (snd (apply_payment_status_transition x s d))) = map rview (db_refunds d)" by simp
  show "map pview (db_payments (snd (apply_payment_status_transition x s d))) = map pview (db_payments d)"
    using transition_payments [of x s d] by (elim disjE) (simp_all add: map_update_one pview_def)
qed simp

lemma refunds_ok_process:
  assumes inv: "refunds_ok d"
  shows "refunds_ok (snd (process_provider_event env name ev acc d))"
proof -
  have "refunds_ok (snd (handle_new_event env name ev acc d'))" if d': "refunds_ok d'" for d'
  proof (cases "ve_refund ev")
    case (Some u)
    obtain res d1 where c: "apply_provider_refund_update env name u acc d' = (res, d1)" by fastforce
    have "refunds_ok d1" using books.webhook_inv [OF d', of env name u acc] by (simp add: c)
    with Some c show ?thesis by (cases res) (simp_all add: handle_new_event_def)
  next
    case None
    show ?thesis
    proof (cases "payment_of_event name ev acc d'")
      case None': None
      with None d' show ?thesis by (simp add: handle_new_event_def)
    next
      case (Some x)
      obtain res d1 where c: "apply_payment_status_transition x (ve_status ev) d' = (res, d1)" by fastforce
      have "refunds_ok d1" using refunds_ok_transition [OF d', of x "ve_status ev"] by (simp add: c)
      with None Some c d' show ?thesis by (cases res) (simp_all add: handle_new_event_def)
    qed
  qed
  then show ?thesis using inv by (simp add: process_provider_event_def split: option.split)
qed

text \<open>C3. No order is paid for twice and none is marked paid for nothing: creating payments, webhooks,
  the polling sweep and every refund operation keep at most one paid payment per order, and each
  online order that is marked paid has a payment that went through.\<close>

theorem paid_orders_are_paid:
  assumes "paid_inv d"
  shows "paid_inv (snd (create_payment_for_order env inp d)) \<and>
    paid_inv (snd (process_provider_event env name ev acc d)) \<and>
    paid_inv (reconcile_stale_payments env d) \<and> paid_inv (run_refund_op op d)"
  using paid_inv_create paid_inv_process paid_inv_sweep settled_orders.run_op_inv assms by blast

end
