(* ===== verification/Order_Lifecycle.thy ===== *)
theory Order_Lifecycle
  imports Delivery_Behaviour Payment_Webhooks
begin

text \<open>
  The lifecycle of an order across the components: whoever moves it - staff, the customer, a courier's
  milestone - and whatever the payment and refund operations do to it meanwhile, its history follows
  the status table and it enters the kitchen only when an online payment has gone through. The system
  is the transition relation with one rule per operation; the invariant is shown by rule induction.
\<close>

section \<open>The invariant\<close>

text \<open>The fields of an order the invariant reads.\<close>

type_synonym order_view = "oid \<times> order_type \<times> order_status \<times> order_status list \<times> pay_method \<times> order_pay_status"

definition oview :: "order \<Rightarrow> order_view" where
  "oview x = (o_id x, o_orderType x, o_status x, map fst (o_statusHistory x), o_paymentMethod x, o_paymentStatus x)"

fun view_sound :: "order_view \<Rightarrow> bool" where
  "view_sound (i, ty, s, h, m, p) \<longleftrightarrow> order_history ty h \<and> last h = s \<and>
     (m = Online_Pay \<and> p \<noteq> Order_Paid \<longrightarrow> s \<in> {Pending, Cancelled})"

definition order_sound :: "order \<Rightarrow> bool" where
  "order_sound x \<longleftrightarrow> order_history (o_orderType x) (map fst (o_statusHistory x)) \<and>
     last (map fst (o_statusHistory x)) = o_status x \<and>
     (awaits_payment x \<longrightarrow> o_status x \<in> {Pending, Cancelled})"

definition orders_ok :: "db \<Rightarrow> bool" where
  "orders_ok d \<longleftrightarrow> distinct (map o_id (db_orders d)) \<and> (\<forall>x \<in> set (db_orders d). order_sound x)"

lemma order_sound_view: "order_sound x = view_sound (oview x)"
  by (simp add: order_sound_def oview_def awaits_payment_def)

lemma orders_ok_cong:
  assumes "map oview (db_orders d') = map oview (db_orders d)"
  shows "orders_ok d' = orders_ok d"
proof -
  have m: "map o_id xs = map fst (map oview xs)" "(\<forall>x \<in> set xs. order_sound x) = (\<forall>v \<in> set (map oview xs). view_sound v)" for xs
    by (simp_all add: oview_def order_sound_view)
  show ?thesis unfolding orders_ok_def m assms ..
qed

lemma orders_ok_same [intro]: "db_orders d' = db_orders d \<Longrightarrow> orders_ok d' = orders_ok d"
  by (rule orders_ok_cong) simp

lemma orders_ok_simps [simp]:
  "orders_ok (emit_order_event e d) = orders_ok d"
  "orders_ok (record_audit_event a d) = orders_ok d"
  "orders_ok (refund_audit ac ax pid d) = orders_ok d"
  "orders_ok (update_refund q g d) = orders_ok d"
  "orders_ok (update_payment q2 h d) = orders_ok d"
  "orders_ok (inc_total_refunded pid m d) = orders_ok d"
  "orders_ok (update_event n i k d) = orders_ok d"
  "orders_ok (mark_processed now err n ev d) = orders_ok d"
  "orders_ok (transition_followups x s actor d) = orders_ok d"
  "orders_ok (d\<lparr>db_refunds := rs\<rparr>) = orders_ok d"
  "orders_ok (d\<lparr>db_deliveries := xs\<rparr>) = orders_ok d"
  "orders_ok (d\<lparr>db_deliveryEvents := ws\<rparr>) = orders_ok d"
  "orders_ok (d\<lparr>db_paymentEvents := vs\<rparr>) = orders_ok d"
  by (intro orders_ok_same;
      simp add: emit_order_event_def record_audit_event_def refund_audit_def update_refund_def update_payment_def
        inc_total_refunded_def update_event_def mark_processed_def)+

lemma orders_ok_emit_case [simp]:
  "orders_ok (case z of None \<Rightarrow> a | Some y \<Rightarrow> emit_order_event (e y) a) = orders_ok a"
  by (simp split: option.split)

lemma orders_ok_reverse [simp]: "orders_ok (snd (reverse_loyalty_if_needed x d)) = orders_ok d"
proof (rule orders_ok_cong)
  have "map oview (update_one q (\<lambda>x. x\<lparr>o_loyaltyReversed := True\<rparr>) os) = map oview os" for q os
    by (rule map_update_one) (simp add: oview_def)
  then show "map oview (db_orders (snd (reverse_loyalty_if_needed x d))) = map oview (db_orders d)"
    using orders_reversal [of x d] by (simp add: reversal_def)
qed

section \<open>Orders move\<close>

lemma history_step:
  assumes "order_history ty h" "last h = s" "is_valid_status_transition s t ty"
  shows "order_history ty (h @ [t])"
proof -
  have "h \<noteq> []" using assms(1) by (simp add: order_history_def)
  then obtain r where h: "h = r @ [s]" using assms(2) by (metis append_butlast_last_id)
  with assms order_history_snoc [of ty r s t] show ?thesis by simp
qed

lemma order_sound_moved:
  assumes "order_sound x" "is_valid_status_transition (o_status x) s (o_orderType x)" "\<not> awaits_payment x \<or> s = Cancelled"
  shows "order_sound (order_moved now s x)"
  using assms history_step [of "o_orderType x" "map fst (o_statusHistory x)" "o_status x" s]
  by (auto simp: order_sound_def order_moved_def awaits_payment_def)

lemma orders_ok_update:
  assumes ok: "orders_ok d" and x: "find_one q (db_orders d) = Some x"
    and q: "\<And>y. y \<in> set (db_orders d) \<Longrightarrow> q y \<Longrightarrow> y = x"
    and f: "o_id (f x) = o_id x" "order_sound (f x)"
  shows "orders_ok (d\<lparr>db_orders := update_one q f (db_orders d)\<rparr>)"
proof -
  obtain us vs where sp: "db_orders d = us @ x # vs" "update_one q f (db_orders d) = us @ f x # vs"
    using update_one_split [OF x, of f] by blast
  with ok f show ?thesis by (auto simp: orders_ok_def)
qed

lemma same_id: "orders_ok d \<Longrightarrow> x \<in> set (db_orders d) \<Longrightarrow> y \<in> set (db_orders d) \<Longrightarrow> o_id y = o_id x \<Longrightarrow> y = x"
  by (auto simp: orders_ok_def distinct_map dest: inj_onD)

lemma orders_ok_save:
  assumes ok: "orders_ok d" and x: "x \<in> set (db_orders d)"
    and v: "is_valid_status_transition (o_status x) s (o_orderType x)" "\<not> awaits_payment x \<or> s = Cancelled"
  shows "orders_ok (save_order_status now s (o_id x) d)"
  unfolding save_order_status_def
proof (rule orders_ok_update [OF ok])
  show "find_one (\<lambda>y. o_id y = o_id x) (db_orders d) = Some x"
    using ok by (intro find_id_mem [OF _ x]) (simp add: orders_ok_def)
  show "order_sound (order_moved now s x)" using ok x v by (intro order_sound_moved) (auto simp: orders_ok_def)
qed (use same_id [OF ok x] in \<open>auto simp: order_moved_def\<close>)

lemma orders_ok_transition:
  assumes ok: "orders_ok d"
  shows "orders_ok (snd (apply_order_status_transition now oid rid s actor d))"
proof (cases "find_order oid rid d")
  case (Some x)
  then have x: "x \<in> set (db_orders d)" using find_order_SomeD by blast
  show ?thesis
  proof (cases "is_valid_status_transition (o_status x) s (o_orderType x) \<and> (\<not> awaits_payment x \<or> s = Cancelled)")
    case True
    let ?d1 = "save_order_status now s (o_id x) d"
    obtain res d2 where r: "(if s = Cancelled then reverse_loyalty_if_needed (order_moved now s x) ?d1 else (Inr (), ?d1)) = (res, d2)"
      by fastforce
    have "orders_ok ?d1" using orders_ok_save [OF ok x, of s now] True by blast
    then have "orders_ok (snd (if s = Cancelled then reverse_loyalty_if_needed (order_moved now s x) ?d1 else (Inr (), ?d1)))"
      by (cases "s = Cancelled") simp_all
    then have "orders_ok d2" unfolding r by simp
    with Some True r show ?thesis by (cases res) (auto simp: apply_order_status_transition_def Let_def)
  next
    case False
    with Some ok show ?thesis by (auto simp: apply_order_status_transition_def)
  qed
qed (use ok in \<open>simp add: apply_order_status_transition_def\<close>)

lemma orders_ok_status:
  assumes "orders_ok d"
  shows "orders_ok (snd (update_order_status now oid rid s staff d))"
proof -
  obtain res d1 where a: "apply_order_status_transition now oid rid s (Some staff) d = (res, d1)" by fastforce
  have "orders_ok d1" using orders_ok_transition [OF assms, of now oid rid s "Some staff"] a by simp
  with a show ?thesis by (cases res) (auto simp: update_order_status_def)
qed

lemma orders_ok_paid_flag:
  assumes ok: "orders_ok d"
  shows "orders_ok (snd (update_order_payment_status oid rid ps d))"
proof (cases "find_order oid rid d")
  case (Some x)
  have "orders_ok (d\<lparr>db_orders := update_one (\<lambda>y. o_id y = oid \<and> o_restaurantId y = rid)
      (\<lambda>y. y\<lparr>o_paymentStatus := ps\<rparr>) (db_orders d)\<rparr>)" if "o_paymentMethod x \<noteq> Online_Pay"
  proof (rule orders_ok_update [OF ok])
    show "find_one (\<lambda>y. o_id y = oid \<and> o_restaurantId y = rid) (db_orders d) = Some x"
      using Some by (simp add: find_order_def)
    show "order_sound (x\<lparr>o_paymentStatus := ps\<rparr>)"
      using ok find_order_SomeD [OF Some] that by (auto simp: orders_ok_def order_sound_def awaits_payment_def)
    show "y = x" if "y \<in> set (db_orders d)" "o_id y = oid \<and> o_restaurantId y = rid" for y
      using same_id [OF ok _ that(1)] find_order_SomeD [OF Some] that(2) by simp
  qed simp
  with Some ok show ?thesis by (auto simp: update_order_payment_status_def)
qed (use ok in \<open>simp add: update_order_payment_status_def\<close>)

lemma orders_ok_cancel_mine:
  assumes ok: "orders_ok d"
  shows "orders_ok (snd (cancel_my_order now oid customer d))"
proof (cases "find_one (\<lambda>y. o_id y = oid) (db_orders d)")
  case (Some x)
  then have x: "x \<in> set (db_orders d)" by (auto dest: find_one_SomeD)
  have s: "orders_ok (save_order_status now Cancelled (o_id x) d)" if "o_status x = Pending"
    using that by (intro orders_ok_save ok x) (simp_all add: cancel_allowed is_terminal_iff)
  obtain res d1 where r: "reverse_loyalty_if_needed (order_moved now Cancelled x) (save_order_status now Cancelled (o_id x) d) = (res, d1)"
    by fastforce
  have "o_status x = Pending \<Longrightarrow> orders_ok d1"
    using s orders_ok_reverse [of "order_moved now Cancelled x" "save_order_status now Cancelled (o_id x) d"] r by simp
  with Some ok r show ?thesis by (cases res) (auto simp: cancel_my_order_def Let_def)
qed (use ok in \<open>simp add: cancel_my_order_def\<close>)

lemma orders_ok_created:
  assumes ok: "orders_ok d"
  shows "orders_ok (snd (create_order_for_customer env p d))"
proof (cases "fst (create_order_for_customer env p d)")
  case (Inl e)
  then show ?thesis using ok
    by (auto simp: create_order_for_customer_def order_transaction_def Let_def split: sum.splits prod.splits)
next
  case (Inr x)
  then have "create_order_for_customer env p d = (Inr x, snd (create_order_for_customer env p d))"
    by (simp add: prod_eq_iff)
  then show ?thesis
  proof (rule create_order_InrE)
    fix q :: priced_request and d1 d2
    let ?b = "build_order env p (res_settings (pq_restaurant q)) (1000 + counter_seq (res_id (pq_restaurant q)) d + 1)
       (pq_items q) (pq_totals q) (map_option fst (pq_promo q)) (pq_table q) (pq_distance q) (pq_phone q)"
    assume eff: "order_effects p ?b (map_option fst (pq_promo q)) d1 = (Inr x, d2)"
      and d': "snd (create_order_for_customer env p d) = emit_order_event (created_event x) d2" "db_orders d1 = db_orders d"
    from order_effects_stored [OF eff] obtain e where st: "db_orders d2 = db_orders d @ [x]"
      and x: "x = ?b\<lparr>o_loyaltyPointsEarned := e\<rparr>" using d'(2) by auto
    from eff have "\<forall>z \<in> set (db_orders d1). \<not> order_clash ?b z" by (rule order_effects_InrE) blast
    then have fresh: "\<forall>z \<in> set (db_orders d). o_id z \<noteq> o_id x" using d'(2) by (auto simp: order_clash_def x)
    have "order_sound x" by (simp add: x order_sound_def build_order_def order_history_single awaits_payment_def)
    with ok fresh have "orders_ok d2" by (auto simp: orders_ok_def st)
    then show ?thesis by (simp add: d'(1))
  qed
qed

section \<open>Payments, refunds and couriers\<close>

lemma orders_ok_mark:
  assumes ok: "orders_ok d"
  shows "orders_ok (mark_order_paid oid rid d)"
proof (cases "find_one (\<lambda>x. o_id x = oid \<and> o_restaurantId x = rid) (db_orders d)")
  case None
  from update_one_none [OF this] ok show ?thesis by (simp add: mark_order_paid_def)
next
  case (Some x)
  have x: "x \<in> set (db_orders d)" "o_id x = oid" using find_one_SomeD [OF Some] by auto
  show ?thesis unfolding mark_order_paid_def
  proof (rule orders_ok_update [OF ok Some])
    show "order_sound (x\<lparr>o_paymentStatus := Order_Paid\<rparr>)"
      using ok x by (auto simp: orders_ok_def order_sound_def awaits_payment_def)
    show "y = x" if "y \<in> set (db_orders d)" "o_id y = oid \<and> o_restaurantId y = rid" for y
      using same_id [OF ok x(1) that(1)] that(2) x(2) by simp
  qed simp
qed

lemma orders_ok_payment_transition:
  assumes "orders_ok d"
  shows "orders_ok (snd (apply_payment_status_transition x s d))"
proof (cases "find_one (\<lambda>y. p_id y = p_id x \<and> p_status y \<noteq> s) (db_payments d)")
  case (Some c)
  with assms show ?thesis
    by (cases "s = P_Paid \<and> paid_elsewhere c d"; cases "s = P_Paid")
      (simp_all add: apply_payment_status_transition_def Let_def orders_ok_mark)
qed (use assms in \<open>simp add: apply_payment_status_transition_def\<close>)

lemma orders_ok_effects:
  assumes "orders_ok d"
  shows "orders_ok (snd (refund_succeeded_effects r ps d))"
proof (cases "find_one (\<lambda>x. o_id x = r_orderId r) (db_orders d)")
  case (Some x)
  obtain res d1 where rev: "(if ps = Some P_Refunded then reverse_loyalty_if_needed x d else (Inr (), d)) = (res, d1)"
    by fastforce
  have "orders_ok (snd (if ps = Some P_Refunded then reverse_loyalty_if_needed x d else (Inr (), d)))"
    using assms by simp
  then have "orders_ok d1" unfolding rev by simp
  with Some rev show ?thesis by (cases res) (simp_all add: refund_succeeded_effects_def)
qed (use assms in \<open>simp add: refund_succeeded_effects_def\<close>)

lemma orders_ok_sync: "orders_ok (snd (sync_payment_refund_status pid d)) = orders_ok d"
  by (auto simp: sync_payment_refund_status_def Let_def split: option.split)

lemma orders_ok_after_settle:
  assumes "orders_ok d"
  shows "orders_ok (snd (after_settle method ax before updated d))"
proof -
  let ?d1 = "if r_status updated = R_Failed \<and> counted before
      then inc_total_refunded (r_paymentId updated) (- r_amount updated) d
      else if r_status updated = R_Succeeded \<and> \<not> counted before
      then inc_total_refunded (r_paymentId updated) (r_amount updated) d else d"
  obtain res d2 where sync: "sync_payment_refund_status (r_paymentId updated) ?d1 = (res, d2)" by fastforce
  have d2: "orders_ok d2" using assms orders_ok_sync [of "r_paymentId updated" ?d1] unfolding sync by simp
  show ?thesis
  proof (cases res)
    case (Inl e)
    with d2 sync show ?thesis by (simp add: after_settle_def Let_def)
  next
    case (Inr ps)
    let ?d3 = "if method \<noteq> Provider_Response \<or> r_status updated = R_Failed
        then refund_audit ''payment.refund_reconciled'' ax (r_paymentId updated) d2 else d2"
    obtain res' d4 where eff: "refund_succeeded_effects updated ps ?d3 = (res', d4)" by fastforce
    have d3: "orders_ok ?d3" using d2 by simp
    have "orders_ok d4" using orders_ok_effects [OF d3, of updated ps] unfolding eff by simp
    then show ?thesis
      unfolding after_settle_def Let_def sync Inr prod.case sum.case eff
      using d3 by (cases res') simp_all
  qed
qed

interpretation order_books: refund_invariant orders_ok
proof unfold_locales
  show "orders_ok d \<Longrightarrow> orders_ok (snd (apply_refund_outcome now r u ax m e d))" for d now r u ax m e
    unfolding apply_refund_outcome_def Let_def by (auto split: option.split intro!: orders_ok_after_settle)
qed simp_all

interpretation courier_orders: delivery_invariant orders_ok
proof unfold_locales
  show "orders_ok d'" if "orders_ok d" "save_delivery x d = Some d'" for d x d'
    using that by (auto simp: save_delivery_def split: if_splits)
qed (simp_all add: orders_ok_transition)

lemma orders_ok_webhook:
  assumes ok: "orders_ok d"
  shows "orders_ok (snd (process_provider_event env name ev acc d))"
proof -
  have "orders_ok (snd (handle_new_event env name ev acc d'))" if d': "orders_ok d'" for d'
  proof (cases "ve_refund ev")
    case (Some u)
    obtain res d1 where c: "apply_provider_refund_update env name u acc d' = (res, d1)" by fastforce
    have "orders_ok d1" using order_books.webhook_inv [OF d', of env name u acc] by (simp add: c)
    with Some c show ?thesis by (cases res) (simp_all add: handle_new_event_def)
  next
    case None
    show ?thesis
    proof (cases "payment_of_event name ev acc d'")
      case None': None
      with None d' show ?thesis by (simp add: handle_new_event_def)
    next
      case (Some x)
      obtain res d1 where c: "apply_payment_status_transition x (ve_status ev) d' = (res, d1)" by fastforce
      have "orders_ok d1" using orders_ok_payment_transition [OF d', of x "ve_status ev"] by (simp add: c)
      with None Some c d' show ?thesis by (cases res) (simp_all add: handle_new_event_def)
    qed
  qed
  then show ?thesis using ok by (simp add: process_provider_event_def split: option.split)
qed

lemma orders_ok_sweep: "orders_ok d \<Longrightarrow> orders_ok (reconcile_stale_payments env d)"
proof -
  have one: "orders_ok (reconcile_payment env x d')" if "orders_ok d'" for x d'
    using that orders_ok_payment_transition by (auto simp: reconcile_payment_def split: option.split)
  have "orders_ok (fold (reconcile_payment env) xs d')" if "orders_ok d'" for xs d'
    using that by (induction xs arbitrary: d') (simp_all add: one)
  then show "orders_ok d \<Longrightarrow> orders_ok (reconcile_stale_payments env d)" by (simp add: reconcile_stale_payments_def)
qed

lemma orders_ok_payment: "orders_ok (snd (create_payment_for_order env inp d)) = orders_ok d"
proof -
  have "db_orders (snd (start_payment env inp r x d)) = db_orders d" for r x
    by (auto simp: start_payment_def insert_payment_def split: sum.split option.split prod.split)
  then have "db_orders (snd (create_payment_for_order env inp d)) = db_orders d"
    by (simp add: create_payment_for_order_def split: option.split)
  then show ?thesis by (rule orders_ok_same)
qed

section \<open>The system\<close>

text \<open>One rule per operation that reads or changes an order.\<close>

inductive system_step :: "db \<Rightarrow> db \<Rightarrow> bool" where
  Create: "system_step d (snd (create_order_for_customer env p d))"
| Staff_Status: "system_step d (snd (update_order_status now oid rid s staff d))"
| Cash_Flag: "system_step d (snd (update_order_payment_status oid rid ps d))"
| Customer_Cancels: "system_step d (snd (cancel_my_order now oid customer d))"
| Courier: "system_step d (run_delivery_op dop d)"
| Pay: "system_step d (snd (create_payment_for_order penv inp d))"
| Payment_Webhook: "system_step d (snd (process_provider_event penv name ev acc d))"
| Payment_Sweep: "system_step d (reconcile_stale_payments penv d)"
| Refund: "system_step d (run_refund_op rop d)"

lemma orders_ok_step: "system_step d d' \<Longrightarrow> orders_ok d \<Longrightarrow> orders_ok d'"
  by (induction rule: system_step.induct)
    (simp_all add: orders_ok_created orders_ok_status orders_ok_paid_flag orders_ok_cancel_mine
      courier_orders.run_op_inv orders_ok_payment orders_ok_webhook orders_ok_sweep order_books.run_op_inv)

lemma orders_ok_reachable: "system_step\<^sup>*\<^sup>* d d' \<Longrightarrow> orders_ok d \<Longrightarrow> orders_ok d'"
  by (induction rule: rtranclp_induct) (simp_all add: orders_ok_step)

text \<open>C4. In every state the system can reach, each order has a history that starts pending, follows the
  status table and ends in its status; it has passed the kitchen's door only if it is not to be paid
  online or its payment went through; and a completed order went through every station of its type.\<close>

theorem orders_follow_lifecycle:
  assumes "db_orders d = []" "system_step\<^sup>*\<^sup>* d d'" "x \<in> set (db_orders d')"
  shows "order_history (o_orderType x) (map fst (o_statusHistory x)) \<and>
    last (map fst (o_statusHistory x)) = o_status x \<and>
    (o_status x \<notin> {Pending, Cancelled} \<and> o_paymentMethod x = Online_Pay \<longrightarrow> o_paymentStatus x = Order_Paid) \<and>
    (o_status x = Completed \<longrightarrow> map fst (o_statusHistory x) = happy_path (o_orderType x))"
proof -
  have "orders_ok d" using assms(1) by (simp add: orders_ok_def)
  with orders_ok_reachable [OF assms(2)] assms(3) have s: "order_sound x" by (simp add: orders_ok_def)
  let ?h = "map fst (o_statusHistory x)"
  have "?h = happy_path (o_orderType x)" if c: "o_status x = Completed"
  proof -
    have "?h \<noteq> []" "last ?h = Completed" using s c by (auto simp: order_sound_def order_history_def)
    then obtain r where "?h = r @ [Completed]" by (metis append_butlast_last_id)
    with s completed_history_path show ?thesis by (metis order_sound_def)
  qed
  with s show ?thesis by (auto simp: order_sound_def awaits_payment_def)
qed

section \<open>Refusals\<close>

text \<open>C36. A status change is accepted exactly when the order exists, the table allows the step for its type,
  and an online order that has not been paid is only cancelled; everything else is refused and leaves
  the database as it was.\<close>

theorem transition_accepted_iff:
  assumes "loyalty_inv d"
  shows "if \<exists>x. find_order oid rid d = Some x \<and> is_valid_status_transition (o_status x) s (o_orderType x) \<and>
      (awaits_payment x \<longrightarrow> s = Cancelled)
    then \<exists>x. fst (apply_order_status_transition now oid rid s actor d) = Inr (order_moved now s x, o_status x) \<and>
      find_order oid rid d = Some x
    else (\<exists>e. apply_order_status_transition now oid rid s actor d = (Inl e, d))"
proof (cases "find_order oid rid d")
  case (Some x)
  have "loyalty_inv (save_order_status now s (o_id x) d)"
    using assms loyalty_inv_cong(1) [of "save_order_status now s (o_id x) d" d] by (simp add: save_order_status_def)
  note r = conjunct2 [OF reverse_if_needed_inv [OF this, of "order_moved now s x"]]
  obtain res d2 where c: "(if s = Cancelled then reverse_loyalty_if_needed (order_moved now s x)
      (save_order_status now s (o_id x) d) else (Inr (), save_order_status now s (o_id x) d)) = (res, d2)" by fastforce
  have "res = Inr ()" using r c by (auto split: if_splits)
  with Some c show ?thesis by (auto simp: apply_order_status_transition_def Let_def)
qed (simp add: apply_order_status_transition_def)

section \<open>A sample run\<close>

definition cash_params :: create_params where
  "cash_params = sample_params\<lparr>cp_paymentMethod := Cash\<rparr>"

definition start_db :: db where
  "start_db = sample_loyalty_db\<lparr>db_orders := []\<rparr>"

definition created_db :: db where
  "created_db = snd (create_order_for_customer sample_env cash_params start_db)"

definition confirmed_db :: db where
  "confirmed_db = snd (update_order_status 1 ''o9'' ''r1'' Confirmed ''s1'' created_db)"

lemma confirmed_run: "map (\<lambda>x. (o_id x, o_status x)) (db_orders confirmed_db) = [(''o9'', Confirmed)]"
  by code_simp

lemma confirmed_reachable: "system_step\<^sup>*\<^sup>* start_db confirmed_db"
proof -
  have "system_step start_db created_db" unfolding created_db_def by (rule Create)
  moreover have "system_step created_db confirmed_db" unfolding confirmed_db_def by (rule Staff_Status)
  ultimately show ?thesis by (meson converse_rtranclp_into_rtranclp rtranclp.rtrancl_refl)
qed

theorem orders_follow_lifecycle_witness:
  "\<exists>x \<in> set (db_orders confirmed_db). o_status x = Confirmed \<and>
    order_history (o_orderType x) (map fst (o_statusHistory x)) \<and> last (map fst (o_statusHistory x)) = Confirmed"
proof -
  obtain x where x: "x \<in> set (db_orders confirmed_db)" "o_status x = Confirmed" using confirmed_run by auto
  have "db_orders start_db = []" by (simp add: start_db_def)
  from orders_follow_lifecycle [OF this confirmed_reachable x(1)] x show ?thesis by auto
qed

theorem transition_accepted_iff_witness:
  "\<exists>e. apply_order_status_transition 1 ''o1'' ''r1'' Confirmed None (sample_loyalty_db\<lparr>db_orders := [sample_order]\<rparr>) =
    (Inl e, sample_loyalty_db\<lparr>db_orders := [sample_order]\<rparr>)"
proof -
  have "loyalty_inv (sample_loyalty_db\<lparr>db_orders := [sample_order]\<rparr>)"
    using sample_loyalty_inv loyalty_inv_cong(1) [of "sample_loyalty_db\<lparr>db_orders := [sample_order]\<rparr>" sample_loyalty_db]
    by simp
  from transition_accepted_iff [OF this, of "''o1''" "''r1''" Confirmed 1 None] show ?thesis
    by (simp add: find_order_def sample_order_def awaits_payment_def)
qed

end
