(* ===== verification/Refund_Behaviour.thy ===== *)
theory Refund_Behaviour
  imports Payment_Webhooks
begin

text \<open>
  What single refund and payment requests do: a refused refund leaves no trace, an unanswered one is
  held and blocks the payment's other refunds, a person releases money only with evidence. Then the
  cases in which the code departs from its comments, and sample documents for all payment theories.
\<close>

section \<open>Sample documents\<close>

definition sample_payment :: payment where
  "sample_payment =
     \<lparr>p_id = ''pay1'', p_restaurantId = ''r1'', p_orderId = ''o1'', p_customerId = ''u1'', p_method = Kind_Online,
      p_provider = ''stripe'', p_providerRef = Some ''pi_1'', p_accountId = None, p_currency = ''USD'',
      p_amount = 21, p_status = P_Paid, p_totalRefunded = 0, p_idempotencyKey = Some ''k0'', p_createdAt = 0\<rparr>"

definition sample_provider :: "string \<Rightarrow> refund_answer \<Rightarrow> pay_provider" where
  "sample_provider name answer =
     \<lparr>pv_name = name,
      pv_createIntent = \<lambda>_. Some \<lparr>pi_providerRef = ''pi_2'', pi_status = P_Pending, pi_clientSecret = None\<rparr>,
      pv_retrieve = \<lambda>_. Some P_Paid, pv_refund = \<lambda>_ _ _ _. answer, pv_lookupRefund = \<lambda>_ _ _. Lookup_None,
      pv_supportsRefundIdempotency = True, pv_supportsRefundLookup = True\<rparr>"

definition sample_pay_env :: "refund_answer \<Rightarrow> pay_env" where
  "sample_pay_env answer =
     \<lparr>pe_default = ''safepay'', pe_pool = \<lambda>name. Some (sample_provider name answer), pe_build = \<lambda>_. None,
      pe_routing = True, pe_nodeEnv = ''development'', pe_clientOrigin = ''https://x'',
      pe_refundKey = \<lambda>r k. r @ k, pe_now = 1000, pe_newId = ''f1''\<rparr>"

definition sample_refund_input :: refund_input where
  "sample_refund_input = \<lparr>ri_restaurantId = ''r1'', ri_paymentId = ''pay1'', ri_amount = Some 5, ri_reason = None,
     ri_initiatedByUserId = ''s1'', ri_idempotencyKey = ''k1''\<rparr>"

definition sample_paid_db :: db where
  "sample_paid_db = sample_db\<lparr>db_payments := [sample_payment], db_orders := [sample_order\<lparr>o_paymentStatus := Order_Paid\<rparr>]\<rparr>"

lemma sample_refunds_ok: "refunds_ok sample_paid_db"
  by (simp add: refunds_ok_def refunds_inv_def never_over_def counted_total_def sample_paid_db_def sample_db_def
      sample_payment_def)

lemma sample_paid_inv: "paid_inv sample_paid_db"
  by (simp add: paid_inv_def one_paid_def backed_def pays_def settled_def sample_paid_db_def sample_db_def
      sample_payment_def sample_order_def)

theorem refund_accounting_witness:
  "refunds_ok (snd (refund_payment (sample_pay_env Refund_Unknown) sample_refund_input sample_paid_db))"
  by (rule refund_accounting [OF sample_refunds_ok, THEN conjunct1])

definition sample_ops :: "refund_op list" where
  "sample_ops = [Op_Refund (sample_pay_env Refund_Unknown) sample_refund_input,
     Op_Refund (sample_pay_env (Refund_Result \<lparr>rr_refundRef = ''re1'', rr_status = R_Succeeded, rr_providerStatus = None\<rparr>))
       (sample_refund_input\<lparr>ri_idempotencyKey := ''k2''\<rparr>)]"

lemma sample_ops_run: "map p_totalRefunded (db_payments (fold run_refund_op sample_ops sample_paid_db)) = [5]"
  by code_simp

theorem never_over_refunded_ever_witness:
  "\<exists>x \<in> set (db_payments (fold run_refund_op sample_ops sample_paid_db)).
    p_totalRefunded x = 5 \<and> succeeded_total (p_id x) (fold run_refund_op sample_ops sample_paid_db) \<le> p_amount x"
proof -
  obtain x where x: "x \<in> set (db_payments (fold run_refund_op sample_ops sample_paid_db))" "p_totalRefunded x = 5"
    using sample_ops_run by auto
  with never_over_refunded_ever [OF sample_refunds_ok x(1)] show ?thesis by blast
qed

theorem paid_orders_are_paid_witness:
  "paid_inv (reconcile_stale_payments (sample_pay_env Refund_Rejected) sample_paid_db)"
  using paid_orders_are_paid [OF sample_paid_inv] by blast

section \<open>A refused refund\<close>

lemma release_restores:
  assumes ids: "distinct (map p_id (db_payments d))" and y: "find_one (reservable pid amount) (db_payments d) = Some y"
  shows "db_payments (inc_total_refunded pid (- amount) (update_payment (reservable pid amount)
      (\<lambda>y. y\<lparr>p_totalRefunded := p_totalRefunded y + amount\<rparr>) d)) = db_payments d"
proof -
  let ?y = "y\<lparr>p_totalRefunded := p_totalRefunded y + amount\<rparr>"
  have py: "p_id y = pid" using find_one_SomeD [OF y] by (simp add: reservable_def)
  obtain us vs where sp: "db_payments d = us @ y # vs"
    "update_one (reservable pid amount) (\<lambda>y. y\<lparr>p_totalRefunded := p_totalRefunded y + amount\<rparr>) (db_payments d) = us @ ?y # vs"
    using update_one_split [OF y, of "\<lambda>y. y\<lparr>p_totalRefunded := p_totalRefunded y + amount\<rparr>"] by blast
  have "\<forall>u \<in> set us. p_id u \<noteq> pid" using ids py unfolding sp(1) by (auto simp: image_iff)
  then have "update_one (\<lambda>z. p_id z = pid) f (us @ ?y # vs) = us @ f ?y # vs" for f
    using py by (induction us) auto
  then show ?thesis unfolding inc_total_refunded_def update_payment_def by (simp add: sp(2)) (simp add: sp(1))
qed

lemma claim_rejected:
  assumes ids: "distinct (map p_id (db_payments d))"
    and rej: "\<And>ref a reason key. pv_refund prov ref a reason key = Refund_Rejected"
  shows "db_payments (snd (claim_and_call env inp x prov amount d)) = db_payments d \<and>
    db_refunds (snd (claim_and_call env inp x prov amount d)) = db_refunds d"
proof -
  let ?c = "refund_claim env inp x prov amount"
  let ?q = "\<lambda>y. r_id y = r_id ?c \<and> r_status y = R_Pending"
  show ?thesis
  proof (cases "insert_unique refund_clash ?c (db_refunds d)")
    case None
    then show ?thesis by (auto simp: claim_and_call_def split: option.splits)
  next
    case (Some rs)
    have rs: "rs = db_refunds d @ [?c]" and nq: "\<forall>r \<in> set (db_refunds d). \<not> ?q r"
      using insert_unique_SomeD [OF Some] by (auto simp: refund_clash_def)
    have cs: "r_status ?c = R_Pending" "r_amount ?c = amount" by (simp_all add: refund_claim_def)
    show ?thesis
    proof (cases "find_one (reservable (p_id x) amount) (db_payments d)")
      case None
      with Some show ?thesis by (simp add: claim_and_call_def Let_def rs delete_fresh [OF nq] cs)
    next
      case res: (Some y)
      have "update_refund ?q (\<lambda>y. y\<lparr>r_amountReserved := True\<rparr>)
          (update_payment (reservable (p_id x) amount) (\<lambda>y. y\<lparr>p_totalRefunded := p_totalRefunded y + amount\<rparr>)
            (d\<lparr>db_refunds := rs\<rparr>)) =
          update_payment (reservable (p_id x) amount) (\<lambda>y. y\<lparr>p_totalRefunded := p_totalRefunded y + amount\<rparr>)
            (d\<lparr>db_refunds := db_refunds d @ [?c\<lparr>r_amountReserved := True\<rparr>]\<rparr>)" (is "_ = ?d3")
        by (simp add: update_refund_def update_payment_def rs update_fresh [OF nq] cs)
      moreover have "db_payments (inc_total_refunded (p_id x) (- amount) ?d3) = db_payments d"
        using release_restores [OF ids res] by (simp add: inc_total_refunded_def update_payment_def)
      moreover have "delete_one ?q (db_refunds ?d3) = db_refunds d"
        using delete_fresh [OF nq, of "?c\<lparr>r_amountReserved := True\<rparr>"] cs by (simp add: update_payment_def)
      ultimately show ?thesis using Some res
        by (simp add: claim_and_call_def Let_def call_provider_and_record_def rej cs)
    qed
  qed
qed

text \<open>A refund the provider refuses leaves no trace: the claim is removed and its reservation given
  back, so the payments and refunds are as before and the same key can be tried again.\<close>

theorem rejected_refund_no_trace:
  assumes "distinct (map p_id (db_payments d))"
    and "refund_by_key (ri_restaurantId inp) (ri_idempotencyKey inp) d = None"
    and "\<And>x prov ref a reason key. refund_provider_for env x d = Inr prov \<Longrightarrow>
      pv_refund prov ref a reason key = Refund_Rejected"
  shows "db_payments (snd (refund_payment env inp d)) = db_payments d \<and>
    db_refunds (snd (refund_payment env inp d)) = db_refunds d"
proof -
  have k: "same_key_refund env inp d = (Inr None, d)" using assms(2) by (simp add: same_key_refund_def)
  then have u: "unless_duplicate env inp e d = (Inl e, d)" for e by (simp add: unless_duplicate_def)
  have c: "refund_provider_for env x d = Inr prov \<Longrightarrow>
      db_payments (snd (claim_and_call env inp x prov amount d)) = db_payments d \<and>
      db_refunds (snd (claim_and_call env inp x prov amount d)) = db_refunds d" for x prov amount
    by (rule claim_rejected [OF assms(1)]) (rule assms(3))
  have "db_payments (snd (refund_of_payment env inp x d)) = db_payments d \<and>
      db_refunds (snd (refund_of_payment env inp x d)) = db_refunds d" for x
    using c [of x] unfolding refund_of_payment_def Let_def k u by (simp split: option.split sum.split)
  then show ?thesis by (simp add: refund_payment_def k split: option.split)
qed

theorem rejected_refund_no_trace_witness:
  "db_payments (snd (refund_payment (sample_pay_env Refund_Rejected) sample_refund_input sample_paid_db)) = [sample_payment]"
proof -
  have "db_payments sample_paid_db = [sample_payment]" by (simp add: sample_paid_db_def)
  moreover have "db_payments (snd (refund_payment (sample_pay_env Refund_Rejected) sample_refund_input sample_paid_db)) =
      db_payments sample_paid_db"
    by (rule rejected_refund_no_trace [THEN conjunct1])
      (auto simp: sample_paid_db_def sample_db_def refund_by_key_def refund_provider_for_def get_payment_provider_def
        sample_pay_env_def sample_provider_def split: option.splits)
  ultimately show ?thesis by simp
qed

section \<open>An unanswered refund\<close>

text \<open>The state in which a call without an answer leaves the database.\<close>

lemma claim_unknown:
  assumes ins: "insert_unique refund_clash (refund_claim env inp x prov amount) (db_refunds d) = Some rs"
    and res: "find_one (reservable (p_id x) amount) (db_payments d) = Some y"
    and unk: "\<And>ref a reason key. pv_refund prov ref a reason key = Refund_Unknown"
  shows "fst (claim_and_call env inp x prov amount d) = Inl (Service_Unavailable ''refund on hold'')"
    and "db_refunds (snd (claim_and_call env inp x prov amount d)) =
      db_refunds d @ [(refund_claim env inp x prov amount)\<lparr>r_amountReserved := True, r_providerOutcomeUnknown := True\<rparr>]"
    and "db_payments (snd (claim_and_call env inp x prov amount d)) =
      update_one (reservable (p_id x) amount) (\<lambda>y. y\<lparr>p_totalRefunded := p_totalRefunded y + amount\<rparr>) (db_payments d)"
proof -
  let ?c = "refund_claim env inp x prov amount"
  let ?q = "\<lambda>y. r_id y = r_id ?c \<and> r_status y = R_Pending"
  have rs: "rs = db_refunds d @ [?c]" and nq: "\<forall>r \<in> set (db_refunds d). \<not> ?q r"
    using insert_unique_SomeD [OF ins] by (auto simp: refund_clash_def)
  have cs: "r_status ?c = R_Pending" by (simp add: refund_claim_def)
  note S = claim_and_call_def Let_def call_provider_and_record_def update_refund_def update_payment_def
    refund_audit_def record_audit_event_def
  show "fst (claim_and_call env inp x prov amount d) = Inl (Service_Unavailable ''refund on hold'')"
    using ins res by (simp add: S unk)
  show "db_refunds (snd (claim_and_call env inp x prov amount d)) =
      db_refunds d @ [?c\<lparr>r_amountReserved := True, r_providerOutcomeUnknown := True\<rparr>]"
    using ins res by (simp add: S unk rs update_fresh [OF nq] cs)
  show "db_payments (snd (claim_and_call env inp x prov amount d)) =
      update_one (reservable (p_id x) amount) (\<lambda>y. y\<lparr>p_totalRefunded := p_totalRefunded y + amount\<rparr>) (db_payments d)"
    using ins res by (simp add: S unk)
qed

text \<open>A held refund of a payment blocks every request for it under another key.\<close>

lemma held_blocks:
  assumes x: "find_one (\<lambda>y. p_id y = ri_paymentId inp \<and> p_restaurantId y = ri_restaurantId inp) (db_payments d) = Some x"
    and key: "refund_by_key (ri_restaurantId inp) (ri_idempotencyKey inp) d = None"
    and waits: "r \<in> set (db_refunds d)" "r_paymentId r = p_id x" "r_status r = R_Pending"
    and keys: "\<And>w. w \<in> set (db_refunds d) \<Longrightarrow> r_paymentId w = p_id x \<Longrightarrow> r_restaurantId w = ri_restaurantId inp"
  shows "(\<exists>e. fst (refund_payment env inp d) = Inl e) \<and> snd (refund_payment env inp d) = d"
proof -
  have k: "same_key_refund env inp d = (Inr None, d)" using key by (simp add: same_key_refund_def)
  then have u: "unless_duplicate env inp e d = (Inl e, d)" for e by (simp add: unless_duplicate_def)
  have "oldest_waiting (p_id x) d \<noteq> None" using waits by (auto simp: oldest_waiting_def find_latest_None_iff)
  then obtain w where w: "oldest_waiting (p_id x) d = Some w" by blast
  then have wD: "w \<in> set (db_refunds d)" "r_paymentId w = p_id x" by (auto simp: oldest_waiting_def dest: find_latest_SomeD)
  then have "r_idempotencyKey w \<noteq> ri_idempotencyKey inp"
    using key keys by (auto simp: refund_by_key_def find_one_None_iff)
  then show ?thesis using x by (auto simp: refund_payment_def k refund_of_payment_def u w)
qed

text \<open>A refund request that the provider does not answer is held: the caller gets 503, the refund
  stays pending with its amount reserved, and any request for that payment under another key is
  refused without changing anything - so it cannot be refunded twice while nobody knows.\<close>

theorem unknown_refund_held:
  assumes ok: "refunds_ok d" and amt: "0 < amount"
    and x: "x \<in> set (db_payments d)" "p_status x \<in> {P_Paid, P_Partially_Refunded}" "p_totalRefunded x + amount \<le> p_amount x"
    and claim: "insert_unique refund_clash (refund_claim env inp x prov amount) (db_refunds d) = Some rs"
    and unk: "\<And>ref a reason key. pv_refund prov ref a reason key = Refund_Unknown"
    and d': "d' = snd (claim_and_call env inp x prov amount d)"
    and other: "ri_paymentId inp' = p_id x" "ri_restaurantId inp' = p_restaurantId x"
      "refund_by_key (ri_restaurantId inp') (ri_idempotencyKey inp') d' = None"
    and tenant: "ri_restaurantId inp = p_restaurantId x"
      "\<And>w. w \<in> set (db_refunds d) \<Longrightarrow> r_paymentId w = p_id x \<Longrightarrow> r_restaurantId w = p_restaurantId x"
  shows "fst (claim_and_call env inp x prov amount d) = Inl (Service_Unavailable ''refund on hold'') \<and>
    (\<exists>r \<in> set (db_refunds d'). r_paymentId r = p_id x \<and> r_amount r = amount \<and> r_amountReserved r \<and>
       is_held now r) \<and>
    (\<exists>e. fst (refund_payment env' inp' d') = Inl e) \<and> snd (refund_payment env' inp' d') = d'"
proof -
  have ids: "distinct (map p_id (db_payments d))" using ok by (simp add: refunds_ok_def refunds_inv_def)
  have fx: "find_one (\<lambda>y. p_id y = p_id x) (db_payments d) = Some x" using find_id_mem [OF ids x(1)] .
  have res: "find_one (reservable (p_id x) amount) (db_payments d) = Some x"
    unfolding reservable_def using find_one_refine [OF fx, of "\<lambda>y. p_status y \<in> {P_Paid, P_Partially_Refunded} \<and>
      p_totalRefunded y + amount \<le> p_amount y"] x(2,3) by blast
  note U = claim_unknown [OF claim res unk]
  let ?r = "(refund_claim env inp x prov amount)\<lparr>r_amountReserved := True, r_providerOutcomeUnknown := True\<rparr>"
  have rs: "db_refunds d' = db_refunds d @ [?r]" using U(2) by (simp add: d')
  have r: "?r \<in> set (db_refunds d')" "r_paymentId ?r = p_id x" "r_amount ?r = amount" "r_amountReserved ?r"
    "r_status ?r = R_Pending" "is_held now ?r" "r_restaurantId ?r = p_restaurantId x"
    using tenant(1) by (simp_all add: rs refund_claim_def is_held_def)
  let ?x = "x\<lparr>p_totalRefunded := p_totalRefunded x + amount\<rparr>"
  have "find_one (\<lambda>y. p_id y = p_id x) (db_payments d') = Some ?x"
    using find_id_update_same [OF fx, of "\<lambda>y. y\<lparr>p_totalRefunded := p_totalRefunded y + amount\<rparr>"]
      update_guarded [OF ids res [unfolded reservable_def]] U(3) by (simp add: d' reservable_def [abs_def])
  then have "find_one (\<lambda>y. p_id y = ri_paymentId inp' \<and> p_restaurantId y = ri_restaurantId inp') (db_payments d') = Some ?x"
    using find_one_refine [of p_id "p_id x" "db_payments d'" ?x "\<lambda>y. p_restaurantId y = p_restaurantId x"] other by simp
  moreover have "r_restaurantId w = ri_restaurantId inp'" if "w \<in> set (db_refunds d')" "r_paymentId w = p_id ?x" for w
    using that tenant(2) other(2) r(7) by (auto simp: rs)
  ultimately have "(\<exists>e. fst (refund_payment env' inp' d') = Inl e) \<and> snd (refund_payment env' inp' d') = d'"
    by (intro held_blocks [OF _ other(3), where r = ?r and env = env' and x = ?x]) (use r in auto)
  with U(1) r show ?thesis by blast
qed


definition lost_claim_env :: pay_env where
  "lost_claim_env = sample_pay_env Refund_Unknown"

lemma sample_claim_fresh:
  "insert_unique refund_clash (refund_claim lost_claim_env sample_refund_input sample_payment
     (sample_provider ''stripe'' Refund_Unknown) 5) (db_refunds sample_paid_db) =
   Some [refund_claim lost_claim_env sample_refund_input sample_payment (sample_provider ''stripe'' Refund_Unknown) 5]"
  by code_simp

lemma sample_other_key:
  "refund_by_key ''r1'' ''k2'' (snd (claim_and_call lost_claim_env sample_refund_input sample_payment
     (sample_provider ''stripe'' Refund_Unknown) 5 sample_paid_db)) = None"
  by code_simp

theorem unknown_refund_held_witness:
  "\<exists>e. fst (refund_payment lost_claim_env (sample_refund_input\<lparr>ri_idempotencyKey := ''k2''\<rparr>)
     (snd (claim_and_call lost_claim_env sample_refund_input sample_payment
       (sample_provider ''stripe'' Refund_Unknown) 5 sample_paid_db))) = Inl e"
proof -
  have "(0::money) < 5" by simp
  from unknown_refund_held [OF sample_refunds_ok this, of sample_payment lost_claim_env sample_refund_input
      "sample_provider ''stripe'' Refund_Unknown" _ _ "sample_refund_input\<lparr>ri_idempotencyKey := ''k2''\<rparr>" _ lost_claim_env,
      OF _ _ _ sample_claim_fresh _ refl _ _ _ _ _] sample_other_key
  show ?thesis
    by (simp add: sample_paid_db_def sample_db_def sample_payment_def sample_provider_def sample_refund_input_def)
qed

section \<open>Resolution by a person\<close>

text \<open>Staff release the money of a waiting refund ("not refunded") only with evidence: it is still
  pending, they confirmed that they checked, it has waited at least 30 minutes, and where the provider
  can look refunds up, a lookup of the last 15 minutes did not find it.\<close>

theorem manual_release_evidence:
  assumes "resolve_held_refund env r inp ax d = (Inr r', d')" "\<not> rv_refunded inp"
  shows "r_status r = R_Pending \<and> (is_held (pe_now env) r \<or> truthy_string (r_providerRefundRef r)) \<and>
    rv_confirmChecked inp \<and> 30 * 60 * 1000 \<le> pe_now env - r_createdAt r \<and>
    (\<forall>x prov. find_payment (r_paymentId r) d = Some x \<longrightarrow> refund_provider_for env x d = Inr prov \<longrightarrow>
       pv_supportsRefundLookup prov \<longrightarrow>
       r_lastLookupResult r = Some Lookup_Not_Found \<and>
       (\<exists>t. r_lastLookupAt r = Some t \<and> pe_now env - t \<le> 15 * 60 * 1000))"
  using assms unfolding resolve_held_refund_def Let_def manual_not_refunded_min_hold_ms_def
  by (auto simp: lookup_evidence_fresh_def lookup_evidence_max_age_ms_def split: if_splits option.splits sum.splits)

definition held_refund :: refund where
  "held_refund = (refund_claim (sample_pay_env Refund_Unknown) sample_refund_input sample_payment
     (sample_provider ''stripe'' Refund_Unknown) 5)
     \<lparr>r_amountReserved := True, r_providerOutcomeUnknown := True, r_createdAt := 0,
      r_lastLookupAt := Some 1900000, r_lastLookupResult := Some Lookup_Not_Found\<rparr>"

definition held_db :: db where
  "held_db = sample_paid_db\<lparr>db_payments := [sample_payment\<lparr>p_totalRefunded := 5\<rparr>], db_refunds := [held_refund]\<rparr>"

definition release_run :: "refund result \<times> db" where
  "release_run = resolve_held_refund ((sample_pay_env Refund_Unknown)\<lparr>pe_now := 2000000\<rparr>) held_refund
     \<lparr>rv_refunded = False, rv_providerRefundRef = None, rv_evidence = ''not in the dashboard'', rv_confirmChecked = True\<rparr>
     \<lparr>ax_userId = ''s1'', ax_system = False\<rparr> held_db"

lemma release_run_ok: "(case fst release_run of Inl _ \<Rightarrow> False | Inr r \<Rightarrow> r_status r = R_Failed) \<and>
    map p_totalRefunded (db_payments (snd release_run)) = [0]"
  by code_simp

theorem manual_release_evidence_witness:
  "(\<exists>r'. fst release_run = Inr r') \<and> 30 * 60 * 1000 \<le> (2000000::int) - r_createdAt held_refund"
proof -
  obtain r' where "fst release_run = Inr r'" using release_run_ok by (cases "fst release_run") auto
  then have run: "release_run = (Inr r', snd release_run)" by (simp add: prod_eq_iff)
  from manual_release_evidence [OF run [unfolded release_run_def]] \<open>fst release_run = Inr r'\<close>
  show ?thesis by simp
qed

section \<open>Where the code departs from its comments\<close>

text \<open>A payment routed to Stripe by the restaurant's country, while the pooled default is another.\<close>

definition routed_db :: db where
  "routed_db = sample_db\<lparr>db_orders := [sample_order]\<rparr>"

definition routed_env :: pay_env where
  "routed_env = (sample_pay_env Refund_Unknown)
     \<lparr>pe_nodeEnv := ''production'',
      pe_build := \<lambda>a. Some (sample_provider ''stripe'' Refund_Unknown)\<rparr>"

text \<open>The provider of a refund is the payment's account when it has one, whatever the account's
  state; without one it is the configured default, also for a payment that another provider took.\<close>

theorem refund_provider_choice:
  "(\<forall>acc a. p_accountId x = Some acc \<and> find_one (\<lambda>a. pa_id a = acc) (db_payAccounts d) = Some a \<longrightarrow>
      (case pe_build env a of Some p \<Rightarrow> refund_provider_for env x d = Inr p
       | None \<Rightarrow> \<exists>e. refund_provider_for env x d = Inl e)) \<and>
    (p_accountId x = None \<longrightarrow>
      (case pe_pool env (pe_default env) of Some p \<Rightarrow> refund_provider_for env x d = Inr p
       | None \<Rightarrow> \<exists>e. refund_provider_for env x d = Inl e))"
  by (auto simp: refund_provider_for_def get_payment_provider_def split: option.splits)

definition stripe_payment :: payment where
  "stripe_payment = sample_payment\<lparr>p_provider := ''stripe'', p_accountId := None\<rparr>"

theorem refund_provider_choice_witness:
  "refund_provider_for routed_env stripe_payment sample_paid_db = Inr (sample_provider ''safepay'' Refund_Unknown) \<and>
    p_provider stripe_payment = ''stripe''"
  using refund_provider_choice [of stripe_payment sample_paid_db routed_env]
  by (simp add: stripe_payment_def routed_env_def sample_payment_def sample_pay_env_def)

text \<open>A status change read from a payment that has since been paid is still applied: the guard of the
  update only asks that the status be another one. A payment that is paid, for a paid order, becomes
  failed by the handler of a slower event that read it while it was pending.\<close>

theorem stale_transition_unpays:
  "is_valid_payment_transition (p_status (sample_payment\<lparr>p_status := P_Pending\<rparr>)) P_Failed \<and>
    map p_status (db_payments (snd (apply_payment_status_transition
      (sample_payment\<lparr>p_status := P_Pending\<rparr>) P_Failed sample_paid_db))) = [P_Failed] \<and>
    map o_paymentStatus (db_orders (snd (apply_payment_status_transition
      (sample_payment\<lparr>p_status := P_Pending\<rparr>) P_Failed sample_paid_db))) = [Order_Paid]"
  by code_simp

section \<open>Webhook samples\<close>

definition sample_event :: "string \<Rightarrow> string \<Rightarrow> payment_status \<Rightarrow> provider_event" where
  "sample_event i ref s = \<lparr>ve_eventId = i, ve_eventType = ''t'', ve_providerRef = ref, ve_status = s, ve_refund = None\<rparr>"


text \<open>A second payment of a paid order: the event that it went through clashes with the unique index.\<close>

definition twice_db :: db where
  "twice_db = sample_paid_db\<lparr>db_payments := [sample_payment,
     sample_payment\<lparr>p_id := ''pay2'', p_providerRef := Some ''pi_2'', p_status := P_Pending, p_idempotencyKey := Some ''k9''\<rparr>]\<rparr>"

definition failed_run :: "unit result \<times> db" where
  "failed_run = process_provider_event routed_env ''stripe'' (sample_event ''e1'' ''pi_2'' P_Paid) None twice_db"

lemma failed_run_fails: "(case fst failed_run of Inl _ \<Rightarrow> True | Inr _ \<Rightarrow> False)"
  by code_simp

theorem failed_event_not_retried_witness:
  "(\<exists>e. fst failed_run = Inl e) \<and>
    process_provider_event routed_env ''stripe'' (sample_event ''e1'' ''pi_2'' P_Paid) None (snd failed_run) =
      (Inr (), snd failed_run)"
proof -
  obtain e where "fst failed_run = Inl e" using failed_run_fails by (cases "fst failed_run") auto
  then have run: "failed_run = (Inl e, snd failed_run)" by (simp add: prod_eq_iff)
  from failed_event_not_retried [OF run [unfolded failed_run_def]] \<open>fst failed_run = Inl e\<close>
  show ?thesis unfolding failed_run_def by blast
qed

end
