(* ===== verification/Billing_Domain.thy ===== *)
theory Billing_Domain
  imports Payments
begin

text \<open>
  The documents of the platform's own billing (\<open>models/Subscription.ts\<close>, \<open>Plan.ts\<close>,
  \<open>BillingWebhookEvent.ts\<close>, \<open>BillingHistoryEvent.ts\<close>, \<open>Business.ts\<close>, \<open>Agency.ts\<close>), the interface of a billing
  provider (\<open>billing/BillingProvider.ts\<close>) and the status table (\<open>subscriptionStateMachine.ts\<close>). The billing
  collections are disjoint from the ordering ones, so they are a state of their own, \<open>billing_db\<close>.
\<close>

section \<open>Documents\<close>

datatype sub_status = S_Trialing | S_Active | S_Past_Due | S_Cancelling | S_Cancelled | S_Expired

datatype owner_type = Business_Owner | Agency_Owner

datatype billing_interval = Monthly | Yearly

datatype billing_provider = Mock_Billing | Internal_Billing | Paddle_Billing

datatype plan_type = Owner_Plan | Agency_Plan

datatype entitlement_value = Ent_Bool bool | Ent_Number rat | Ent_Text string

record plan_price =
  pp_interval :: billing_interval
  pp_amountCents :: "money option"
  pp_currency :: "string option"
  pp_providerPriceId :: "string option"

record plan =
  pl_id :: oid
  pl_code :: string
  pl_name :: string
  pl_type :: plan_type
  pl_pricing :: "plan_price list"
  pl_entitlements :: "(string \<times> entitlement_value) list"
  pl_trialDays :: "int option"
  pl_isActive :: bool
  pl_isPubliclyListed :: bool

record trial_extension =
  te_extendedAt :: "time option"
  te_originalTrialEnd :: "time option"
  te_endedAt :: "time option"

record subscription =
  su_id :: oid
  su_ownerType :: owner_type
  su_ownerId :: oid
  su_planId :: oid
  su_status :: sub_status
  su_interval :: billing_interval
  su_periodStart :: time
  su_periodEnd :: time
  su_trialStart :: "time option"
  su_trialEnd :: "time option"
  su_cancelAt :: "time option"
  su_cancelledAt :: "time option"
  su_provider :: billing_provider
  su_customerId :: "string option"
  su_providerSubscriptionId :: "string option"
  su_reminderSentAt :: "time option"
  su_extension :: "trial_extension option"
  su_lastProviderEventAt :: "time option"
  su_createdAt :: time

record billing_event_doc =
  bw_provider :: billing_provider
  bw_eventId :: string
  bw_eventType :: string
  bw_processedAt :: "time option"
  bw_processingError :: "string option"
  bw_processingStartedAt :: "time option"

datatype history_type =
    H_Trial_Started | H_Subscription_Created | H_Plan_Changed | H_Payment_Succeeded | H_Payment_Failed
  | H_Past_Due | H_Cancellation_Requested | H_Cancelled | H_Reactivated | H_Expired
  | H_Refunded | H_Chargeback | H_Chargeback_Reversed

datatype history_metadata =
    Meta_None
  | Meta_Trial string billing_interval "time option"
  | Meta_Checkout string
  | Meta_Plan string bool

record history_row =
  hi_ownerType :: owner_type
  hi_ownerId :: oid
  hi_subscriptionId :: oid
  hi_type :: history_type
  hi_provider :: billing_provider
  hi_amountCents :: "money option"
  hi_currency :: "string option"
  hi_reference :: "string option"
  hi_occurredAt :: time
  hi_metadata :: history_metadata
  hi_noticeKey :: "string option"

record business =
  bu_id :: oid
  bu_name :: string
  bu_ownerId :: oid
  bu_agencyId :: "oid option"
  bu_locationCount :: int

record agency =
  ag_id :: oid
  ag_name :: string
  ag_contactEmail :: string
  ag_businessCount :: int

datatype lifecycle_kind = Kind_Past_Due | Kind_Cancelled

datatype billing_job = Billing_Lifecycle owner_type oid oid lifecycle_kind

text \<open>\<open>b_emails\<close> has the e-mail of a user, \<open>b_locations\<close> the business of a restaurant.\<close>

record billing_db =
  b_subscriptions :: "subscription list"
  b_plans :: "plan list"
  b_events :: "billing_event_doc list"
  b_history :: "history_row list"
  b_jobs :: "billing_job list"
  b_businesses :: "business list"
  b_agencies :: "agency list"
  b_emails :: "(oid \<times> string) list"
  b_locations :: "(oid \<times> oid option) list"

section \<open>The provider and the configuration\<close>

datatype provider_status = PS_Trialing | PS_Active | PS_Past_Due | PS_Cancelled

record subscription_snapshot =
  sn_status :: provider_status
  sn_periodStart :: time
  sn_periodEnd :: time
  sn_trialEnd :: "time option"

datatype notice_type = N_Payment_Succeeded | N_Refunded | N_Chargeback | N_Chargeback_Reversed

record billing_notice =
  bn_type :: notice_type
  bn_amountCents :: "money option"
  bn_currency :: "string option"
  bn_reference :: "string option"

record checkout_metadata =
  cm_ownerType :: owner_type
  cm_ownerId :: oid
  cm_planCode :: string
  cm_interval :: billing_interval
  cm_customerId :: string

text \<open>A scheduled cancellation is a date, none (\<open>null\<close>), or not said (\<open>undefined\<close>).\<close>

datatype scheduled_cancel = Cancel_At time | Cancel_None | Cancel_Unsaid

record billing_event =
  be_eventId :: string
  be_eventType :: string
  be_subscriptionId :: string
  be_status :: "provider_status option"
  be_occurredAt :: "time option"
  be_period :: "(time \<times> time) option"
  be_scheduledCancel :: scheduled_cancel
  be_priceId :: "string option"
  be_notice :: "billing_notice option"
  be_simulated :: bool
  be_checkout :: "checkout_metadata option"

record checkout_request =
  co_customerId :: string
  co_priceId :: string
  co_ownerType :: owner_type
  co_ownerId :: oid
  co_planCode :: string
  co_interval :: billing_interval
  co_successUrl :: string
  co_cancelUrl :: string

text \<open>The provider: each call answers, or throws (\<open>Inl\<close> the message). A checkout session is opaque to
  the services, a text here.\<close>

record billing_api =
  bp_name :: billing_provider
  bp_customer :: "owner_type \<Rightarrow> oid \<Rightarrow> string \<Rightarrow> string \<Rightarrow> string + string"
  bp_checkout :: "checkout_request \<Rightarrow> string + string"
  bp_retrieve :: "string \<Rightarrow> string + subscription_snapshot"
  bp_cancel :: "string \<Rightarrow> bool \<Rightarrow> string + unit"
  bp_reactivate :: "string \<Rightarrow> string + unit"
  bp_changePlan :: "string \<Rightarrow> string \<Rightarrow> string + unit"
  bp_updateUrl :: "string \<Rightarrow> string + string option"
  bp_verify :: "string \<Rightarrow> string option \<Rightarrow> billing_event option"

text \<open>
  The environment of a request: the configuration (\<open>config/env.ts\<close>), the configured provider (\<open>None\<close>
  when \<open>getBillingProvider\<close> throws), the time before and after the call of the provider, a fresh id, and
  \<open>en_meanwhile\<close>, what other requests do to the collections while the provider is called.
\<close>

record billing_env =
  en_now :: time
  en_after :: time
  en_newId :: oid
  en_provider :: "billing_api option"
  en_meanwhile :: "billing_db \<Rightarrow> billing_db"
  en_billingProvider :: billing_provider
  en_nodeEnv :: string
  en_adminOrigin :: string
  en_trialPeriodDays :: int
  en_extendTrials :: bool
  en_graceDays :: int

definition get_billing_provider :: "billing_env \<Rightarrow> billing_api result" where
  "get_billing_provider env = (case en_provider env of
       None \<Rightarrow> Inl (Thrown ''billing provider not configured'')
     | Some p \<Rightarrow> Inr p)"

section \<open>The status table\<close>

fun sub_transitions :: "sub_status \<Rightarrow> sub_status list" where
  "sub_transitions S_Trialing = [S_Active, S_Cancelled, S_Expired]"
| "sub_transitions S_Active = [S_Cancelling, S_Past_Due, S_Cancelled]"
| "sub_transitions S_Past_Due = [S_Active, S_Cancelled]"
| "sub_transitions S_Cancelling = [S_Cancelled, S_Active]"
| "sub_transitions S_Cancelled = []"
| "sub_transitions S_Expired = []"

definition is_valid_sub_transition :: "sub_status \<Rightarrow> sub_status \<Rightarrow> bool" where
  "is_valid_sub_transition from to \<longleftrightarrow> to \<in> set (sub_transitions from)"

definition live_statuses :: "sub_status list" where
  "live_statuses = [S_Trialing, S_Active, S_Past_Due, S_Cancelling]"

lemma live_iff: "s \<in> set live_statuses \<longleftrightarrow> s \<noteq> S_Cancelled \<and> s \<noteq> S_Expired"
  by (cases s) (simp_all add: live_statuses_def)

interpretation sub_table: status_table is_valid_sub_transition "\<lambda>s. s \<notin> set live_statuses"
proof
  fix s t
  assume "s \<notin> set live_statuses"
  then show "\<not> is_valid_sub_transition s t" by (cases s) (simp_all add: live_statuses_def is_valid_sub_transition_def)
qed

text \<open>\<open>trialExtension.service.ts\<close>.\<close>

definition paid_checkout_available :: "billing_env \<Rightarrow> bool" where
  "paid_checkout_available env \<longleftrightarrow>
     \<not> (en_billingProvider env = Mock_Billing \<and> \<not> mock_drivers_allowed (en_nodeEnv env))"

definition trial_extension_active :: "billing_env \<Rightarrow> bool" where
  "trial_extension_active env \<longleftrightarrow> en_extendTrials env \<and> \<not> paid_checkout_available env"

definition is_extendable_trial :: "subscription \<Rightarrow> bool" where
  "is_extendable_trial x \<longleftrightarrow> su_status x = S_Trialing \<and> \<not> truthy_string (su_providerSubscriptionId x) \<and>
     su_provider x \<noteq> Internal_Billing"

section \<open>The collection of subscriptions\<close>

definition is_live :: "subscription \<Rightarrow> bool" where
  "is_live x \<longleftrightarrow> su_status x \<in> set live_statuses"

definition same_owner :: "subscription \<Rightarrow> subscription \<Rightarrow> bool" where
  "same_owner x y \<longleftrightarrow> su_ownerType x = su_ownerType y \<and> su_ownerId x = su_ownerId y"

definition same_provider_ref :: "subscription \<Rightarrow> subscription \<Rightarrow> bool" where
  "same_provider_ref x y \<longleftrightarrow> su_providerSubscriptionId x \<noteq> None \<and> su_provider x = su_provider y \<and>
     su_providerSubscriptionId x = su_providerSubscriptionId y"

text \<open>The two partial unique indexes.\<close>

definition sub_clash :: "subscription \<Rightarrow> subscription \<Rightarrow> bool" where
  "sub_clash x y \<longleftrightarrow> su_id x = su_id y \<or> (is_live x \<and> is_live y \<and> same_owner x y) \<or> same_provider_ref x y"

text \<open>The save of a document in memory: it fails when another document holds one of its unique keys.\<close>

definition save_sub :: "subscription \<Rightarrow> billing_db \<Rightarrow> billing_db option" where
  "save_sub x d =
     (if list_ex (\<lambda>y. su_id y \<noteq> su_id x \<and> sub_clash x y) (b_subscriptions d) then None
      else Some (d\<lparr>b_subscriptions := update_one (\<lambda>y. su_id y = su_id x) (\<lambda>_. x) (b_subscriptions d)\<rparr>))"

text \<open>\<open>findOneAndUpdate\<close> on subscriptions: the document after the update, when one matches.\<close>

definition find_and_update_sub ::
  "(subscription \<Rightarrow> bool) \<Rightarrow> (subscription \<Rightarrow> subscription) \<Rightarrow> billing_db \<Rightarrow> subscription option \<times> billing_db" where
  "find_and_update_sub p f d = (case find_one p (b_subscriptions d) of
       None \<Rightarrow> (None, d)
     | Some x \<Rightarrow> (Some (f x), d\<lparr>b_subscriptions := update_one p f (b_subscriptions d)\<rparr>))"

end
