(* ===== verification/Subscriptions.thy ===== *)
theory Subscriptions
  imports Billing_Domain
begin

text \<open>
  The actions of an owner (and of a platform admin) on a subscription, \<open>subscription.service.ts\<close>: starting a
  trial, starting a checkout, cancelling, reactivating, changing the plan, and the history row each of
  them writes (\<open>billingHistory.service.ts\<close>). An action that calls the provider reads the subscription
  before the call and writes after it, on what the collections are by then (\<open>en_meanwhile\<close>).
\<close>

section \<open>Billing history\<close>

fun lifecycle_email_kind :: "history_type \<Rightarrow> lifecycle_kind option" where
  "lifecycle_email_kind H_Payment_Failed = Some Kind_Past_Due"
| "lifecycle_email_kind H_Cancelled = Some Kind_Cancelled"
| "lifecycle_email_kind H_Expired = Some Kind_Cancelled"
| "lifecycle_email_kind _ = None"

definition history_clash :: "history_row \<Rightarrow> history_row \<Rightarrow> bool" where
  "history_clash x y \<longleftrightarrow> hi_noticeKey x \<noteq> None \<and> hi_subscriptionId x = hi_subscriptionId y \<and>
     hi_noticeKey x = hi_noticeKey y"

definition history_schema_valid :: "history_row \<Rightarrow> bool" where
  "history_schema_valid x = (case hi_amountCents x of None \<Rightarrow> True | Some m \<Rightarrow> 0 \<le> m)"

text \<open>A row that cannot be written is logged and dropped, and no e-mail is queued for it.\<close>

definition record_history :: "history_row \<Rightarrow> billing_db \<Rightarrow> billing_db" where
  "record_history row d =
     (if \<not> history_schema_valid row then d
      else case insert_unique history_clash row (b_history d) of
        None \<Rightarrow> d
      | Some rows \<Rightarrow>
          d\<lparr>b_history := rows,
            b_jobs := b_jobs d @ (case lifecycle_email_kind (hi_type row) of
              None \<Rightarrow> []
            | Some kind \<Rightarrow> [Billing_Lifecycle (hi_ownerType row) (hi_ownerId row) (hi_subscriptionId row) kind])\<rparr>)"

definition history_of :: "subscription \<Rightarrow> history_type \<Rightarrow> time \<Rightarrow> history_row" where
  "history_of x t now =
     \<lparr>hi_ownerType = su_ownerType x, hi_ownerId = su_ownerId x, hi_subscriptionId = su_id x, hi_type = t,
      hi_provider = su_provider x, hi_amountCents = None, hi_currency = None, hi_reference = None,
      hi_occurredAt = now, hi_metadata = Meta_None, hi_noticeKey = None\<rparr>"

section \<open>Plans and owners\<close>

fun expected_plan_type :: "owner_type \<Rightarrow> plan_type" where
  "expected_plan_type Business_Owner = Owner_Plan"
| "expected_plan_type Agency_Owner = Agency_Plan"

definition resolve_trial_days :: "billing_env \<Rightarrow> plan \<Rightarrow> int option" where
  "resolve_trial_days env p =
     (let days = nullish (pl_trialDays p) (en_trialPeriodDays env) in if days > 0 then Some days else None)"

definition self_serve_plan :: "plan \<Rightarrow> subscription option \<Rightarrow> bool" where
  "self_serve_plan p current \<longleftrightarrow> pl_isPubliclyListed p \<or>
     (case current of None \<Rightarrow> False | Some x \<Rightarrow> su_planId x = pl_id p)"

definition resolve_pricing :: "plan \<Rightarrow> billing_interval \<Rightarrow> plan_price option" where
  "resolve_pricing p i = find_one (\<lambda>r. pp_interval r = i) (pl_pricing p)"

definition find_active_plan :: "string \<Rightarrow> billing_db \<Rightarrow> plan option" where
  "find_active_plan code d = find_one (\<lambda>p. pl_code p = code \<and> pl_isActive p) (b_plans d)"

definition resolve_owner_identity :: "owner_type \<Rightarrow> oid \<Rightarrow> billing_db \<Rightarrow> (string \<times> string) option" where
  "resolve_owner_identity t i d =
     (case t of
        Business_Owner \<Rightarrow> map_option (\<lambda>b. (bu_name b, nullish (map_of (b_emails d) (bu_ownerId b)) []))
          (find_one (\<lambda>b. bu_id b = i) (b_businesses d))
      | Agency_Owner \<Rightarrow> map_option (\<lambda>a. (ag_name a, ag_contactEmail a))
          (find_one (\<lambda>a. ag_id a = i) (b_agencies d)))"

definition live_subscription :: "owner_type \<Rightarrow> oid \<Rightarrow> billing_db \<Rightarrow> subscription option" where
  "live_subscription t i d =
     find_one (\<lambda>x. su_ownerType x = t \<and> su_ownerId x = i \<and> is_live x) (b_subscriptions d)"

definition owner_plan :: "owner_type \<Rightarrow> string \<Rightarrow> billing_db \<Rightarrow> plan result" where
  "owner_plan t code d =
     (case find_active_plan code d of
        None \<Rightarrow> Inl (Bad_Request ''Unknown or inactive plan'')
      | Some p \<Rightarrow> if pl_type p \<noteq> expected_plan_type t then Inl (Bad_Request ''plan not available for this account'')
                 else Inr p)"

section \<open>Starting a trial\<close>

definition ms_per_day :: int where
  "ms_per_day = 24 * 60 * 60 * 1000"

definition new_trial :: "billing_env \<Rightarrow> owner_type \<Rightarrow> oid \<Rightarrow> plan \<Rightarrow> billing_interval \<Rightarrow> int \<Rightarrow> subscription" where
  "new_trial env t i p interval days =
     (let trial_end = en_now env + days * ms_per_day in
      \<lparr>su_id = en_newId env, su_ownerType = t, su_ownerId = i, su_planId = pl_id p, su_status = S_Trialing,
       su_interval = interval, su_periodStart = en_now env, su_periodEnd = trial_end,
       su_trialStart = Some (en_now env), su_trialEnd = Some trial_end, su_cancelAt = None, su_cancelledAt = None,
       su_provider = en_billingProvider env, su_customerId = None, su_providerSubscriptionId = None,
       su_reminderSentAt = None, su_extension = None, su_lastProviderEventAt = None, su_createdAt = en_now env\<rparr>)"

definition create_subscription ::
  "billing_env \<Rightarrow> owner_type \<Rightarrow> oid \<Rightarrow> string \<Rightarrow> billing_interval \<Rightarrow> bool \<Rightarrow> billing_db \<Rightarrow>
    subscription result \<times> billing_db" where
  "create_subscription env t i code interval assignedByPlatform d =
     (if resolve_owner_identity t i d = None then (Inl (Not_Found ''owner''), d)
      else if live_subscription t i d \<noteq> None then (Inl (Conflict ''already has an active subscription''), d)
      else case owner_plan t code d of
        Inl e \<Rightarrow> (Inl e, d)
      | Inr p \<Rightarrow>
          if \<not> assignedByPlatform \<and> \<not> self_serve_plan p None then (Inl (Bad_Request ''Unknown or inactive plan''), d)
          else case resolve_trial_days env p of
            None \<Rightarrow> (Inl (Bad_Request ''plan requires a payment method up front''), d)
          | Some days \<Rightarrow>
              let x = new_trial env t i p interval days in
              (case insert_unique sub_clash x (b_subscriptions d) of
                 None \<Rightarrow> (Inl (Conflict ''already has an active subscription''), d)
               | Some xs \<Rightarrow>
                   (Inr x, record_history
                     ((history_of x H_Trial_Started (en_now env))
                        \<lparr>hi_metadata := Meta_Trial (pl_code p) interval (su_trialEnd x)\<rparr>)
                     (d\<lparr>b_subscriptions := xs\<rparr>))))"

section \<open>Starting a checkout\<close>

definition create_checkout_session ::
  "billing_env \<Rightarrow> owner_type \<Rightarrow> oid \<Rightarrow> string \<Rightarrow> billing_interval \<Rightarrow> billing_db \<Rightarrow> string result" where
  "create_checkout_session env t i code interval d =
     (case get_billing_provider env of
        Inl e \<Rightarrow> Inl e
      | Inr prov \<Rightarrow>
        if bp_name prov = Mock_Billing \<and> \<not> mock_drivers_allowed (en_nodeEnv env)
        then Inl (Service_Unavailable ''checkout not open yet'')
        else case resolve_owner_identity t i d of
          None \<Rightarrow> Inl (Not_Found ''owner'')
        | Some (name, email) \<Rightarrow>
            let existing = live_subscription t i d in
            if (case existing of None \<Rightarrow> False | Some x \<Rightarrow> truthy_string (su_providerSubscriptionId x))
            then Inl (Conflict ''already has an active subscription'')
            else case owner_plan t code d of
              Inl e \<Rightarrow> Inl e
            | Inr p \<Rightarrow>
                if \<not> self_serve_plan p existing then Inl (Bad_Request ''Unknown or inactive plan'')
                else if (case existing of None \<Rightarrow> False
                         | Some x \<Rightarrow> su_status x = S_Trialing \<and> (su_planId x \<noteq> pl_id p \<or> su_interval x \<noteq> interval))
                then Inl (Conflict ''checkout must be for the trial's current plan'')
                else case Option.bind (resolve_pricing p interval) pp_providerPriceId of
                  None \<Rightarrow> Inl (Bad_Request ''no checkout price'')
                | Some price \<Rightarrow>
                    if price = [] then Inl (Bad_Request ''no checkout price'')
                    else case bp_customer prov t i email name of
                      Inl m \<Rightarrow> Inl (Thrown m)
                    | Inr customer \<Rightarrow>
                        (case bp_checkout prov
                           \<lparr>co_customerId = customer, co_priceId = price, co_ownerType = t, co_ownerId = i,
                            co_planCode = pl_code p, co_interval = interval,
                            co_successUrl = en_adminOrigin env @ ''/billing-checkout-complete'',
                            co_cancelUrl = en_adminOrigin env @ ''/billing''\<rparr> of
                           Inl m \<Rightarrow> Inl (Thrown m)
                         | Inr session \<Rightarrow> Inr session))"

section \<open>Actions on the live subscription\<close>

text \<open>\<open>providerActionMarker\<close>: a \<open>$max\<close> with the time before the call, for a provider's subscription.\<close>

fun max_time :: "time option \<Rightarrow> time \<Rightarrow> time option" where
  "max_time None t = Some t"
| "max_time (Some s) t = Some (max s t)"

definition provider_action_marker :: "subscription \<Rightarrow> time \<Rightarrow> subscription \<Rightarrow> subscription" where
  "provider_action_marker x actedAt y =
     (if truthy_string (su_providerSubscriptionId x)
      then y\<lparr>su_lastProviderEventAt := max_time (su_lastProviderEventAt y) actedAt\<rparr> else y)"

text \<open>The call of the provider when the subscription is the provider's: nothing, an answer, or a throw.\<close>

definition call_if_theirs ::
  "billing_env \<Rightarrow> subscription \<Rightarrow> (billing_api \<Rightarrow> string \<Rightarrow> string + unit) \<Rightarrow> billing_db \<Rightarrow> unit result \<times> billing_db" where
  "call_if_theirs env x call d =
     (case get_billing_provider env of
        Inl e \<Rightarrow> (Inl e, d)
      | Inr prov \<Rightarrow>
          if truthy_string (su_providerSubscriptionId x)
          then (case call prov (the (su_providerSubscriptionId x)) of
                  Inl m \<Rightarrow> (Inl (Thrown m), en_meanwhile env d)
                | Inr _ \<Rightarrow> (Inr (), en_meanwhile env d))
          else (Inr (), d))"

definition guarded_action ::
  "billing_env \<Rightarrow> subscription \<Rightarrow> (subscription \<Rightarrow> subscription) \<Rightarrow> history_type \<Rightarrow> billing_db \<Rightarrow>
    subscription result \<times> billing_db" where
  "guarded_action env x change t d =
     (case find_and_update_sub (\<lambda>y. su_id y = su_id x \<and> su_status y = su_status x)
             (\<lambda>y. provider_action_marker x (en_now env) (change y)) d of
        (None, d') \<Rightarrow> (Inl (Conflict ''subscription was just modified''), d')
      | (Some y, d') \<Rightarrow> (Inr y, record_history (history_of y t (en_after env)) d'))"

definition cancel_target :: "subscription \<Rightarrow> bool \<Rightarrow> sub_status" where
  "cancel_target x atPeriodEnd = (if su_status x = S_Active \<and> atPeriodEnd then S_Cancelling else S_Cancelled)"

definition cancelled_as :: "billing_env \<Rightarrow> subscription \<Rightarrow> sub_status \<Rightarrow> subscription \<Rightarrow> subscription" where
  "cancelled_as env x target y =
     (if target = S_Cancelling then y\<lparr>su_status := target, su_cancelAt := Some (su_periodEnd x)\<rparr>
      else y\<lparr>su_status := target, su_cancelledAt := Some (en_after env)\<rparr>)"

definition cancel_subscription ::
  "billing_env \<Rightarrow> owner_type \<Rightarrow> oid \<Rightarrow> bool \<Rightarrow> billing_db \<Rightarrow> subscription result \<times> billing_db" where
  "cancel_subscription env t i atPeriodEnd d =
     (case live_subscription t i d of
        None \<Rightarrow> (Inl (Not_Found ''no active subscription''), d)
      | Some x \<Rightarrow>
          if su_status x = S_Cancelling then (Inl (Bad_Request ''already scheduled to cancel''), d)
          else
            let target = cancel_target x atPeriodEnd in
            if \<not> is_valid_sub_transition (su_status x) target then (Inl (Bad_Request ''cannot cancel''), d)
            else case call_if_theirs env x (\<lambda>prov i. bp_cancel prov i (target = S_Cancelling)) d of
              (Inl e, d1) \<Rightarrow> (Inl e, d1)
            | (Inr _, d1) \<Rightarrow>
                guarded_action env x (cancelled_as env x target)
                  (if target = S_Cancelling then H_Cancellation_Requested else H_Cancelled) d1)"

definition reactivate_subscription ::
  "billing_env \<Rightarrow> owner_type \<Rightarrow> oid \<Rightarrow> billing_db \<Rightarrow> subscription result \<times> billing_db" where
  "reactivate_subscription env t i d =
     (case live_subscription t i d of
        None \<Rightarrow> (Inl (Not_Found ''no active subscription''), d)
      | Some x \<Rightarrow>
          if \<not> is_valid_sub_transition (su_status x) S_Active then (Inl (Bad_Request ''cannot reactivate''), d)
          else case call_if_theirs env x bp_reactivate d of
            (Inl e, d1) \<Rightarrow> (Inl e, d1)
          | (Inr _, d1) \<Rightarrow>
              guarded_action env x (\<lambda>y. y\<lparr>su_status := S_Active, su_cancelAt := None\<rparr>) H_Reactivated d1)"

definition payment_method_update_url ::
  "billing_env \<Rightarrow> owner_type \<Rightarrow> oid \<Rightarrow> billing_db \<Rightarrow> string result" where
  "payment_method_update_url env t i d =
     (case live_subscription t i d of
        None \<Rightarrow> Inl (Not_Found ''no active subscription'')
      | Some x \<Rightarrow>
          if \<not> truthy_string (su_providerSubscriptionId x) then Inl (Bad_Request ''no payment method on file yet'')
          else case get_billing_provider env of
            Inl e \<Rightarrow> Inl e
          | Inr prov \<Rightarrow>
              if bp_name prov \<noteq> su_provider x then Inl (Service_Unavailable ''not available'')
              else case bp_updateUrl prov (the (su_providerSubscriptionId x)) of
                Inl m \<Rightarrow> Inl (Thrown m)
              | Inr url \<Rightarrow> if truthy_string url then Inr (the url) else Inl (Service_Unavailable ''not available''))"

section \<open>Changing the plan\<close>

text \<open>The save writes the fields that were set on the document in memory: the plan, and the marker when
  the document in memory, read before the call, has none or an older one.\<close>

definition plan_change_of :: "subscription \<Rightarrow> plan \<Rightarrow> time \<Rightarrow> subscription \<Rightarrow> subscription" where
  "plan_change_of x p actedAt y =
     (let y1 = y\<lparr>su_planId := pl_id p\<rparr> in
      if truthy_string (su_providerSubscriptionId x) \<and>
         (case su_lastProviderEventAt x of None \<Rightarrow> True | Some s \<Rightarrow> s < actedAt)
      then y1\<lparr>su_lastProviderEventAt := Some actedAt\<rparr> else y1)"

definition change_plan_call :: "billing_env \<Rightarrow> subscription \<Rightarrow> plan \<Rightarrow> billing_db \<Rightarrow> unit result \<times> billing_db" where
  "change_plan_call env x p d =
     (case get_billing_provider env of
        Inl e \<Rightarrow> (Inl e, d)
      | Inr prov \<Rightarrow>
          if \<not> truthy_string (su_providerSubscriptionId x) then (Inr (), d)
          else if \<not> truthy_string (Option.bind (resolve_pricing p (su_interval x)) pp_providerPriceId)
          then (Inl (Bad_Request ''no price configured with the billing provider yet''), d)
          else call_if_theirs env x
            (\<lambda>prov i. bp_changePlan prov i (the (Option.bind (resolve_pricing p (su_interval x)) pp_providerPriceId))) d)"

definition change_subscription_plan ::
  "billing_env \<Rightarrow> owner_type \<Rightarrow> oid \<Rightarrow> string \<Rightarrow> billing_db \<Rightarrow> subscription result \<times> billing_db" where
  "change_subscription_plan env t i code d =
     (case live_subscription t i d of
        None \<Rightarrow> (Inl (Not_Found ''no active subscription''), d)
      | Some x \<Rightarrow>
          if su_status x \<notin> {S_Trialing, S_Active, S_Past_Due} then (Inl (Bad_Request ''cannot change plan''), d)
          else case owner_plan t code d of
            Inl e \<Rightarrow> (Inl e, d)
          | Inr p \<Rightarrow>
              if \<not> self_serve_plan p (Some x) then (Inl (Bad_Request ''Unknown or inactive plan''), d)
              else case change_plan_call env x p d of
                (Inl e, d1) \<Rightarrow> (Inl e, d1)
              | (Inr _, d1) \<Rightarrow>
                  let change = plan_change_of x p (en_now env);
                      y = change x;
                      d2 = d1\<lparr>b_subscriptions := update_one (\<lambda>y. su_id y = su_id x) change (b_subscriptions d1)\<rparr>;
                      pricing = resolve_pricing p (su_interval x)
                  in (Inr y, record_history
                       ((history_of y H_Plan_Changed (en_after env))
                          \<lparr>hi_amountCents := Option.bind pricing pp_amountCents,
                           hi_currency := Option.bind pricing pp_currency,
                           hi_metadata := Meta_Plan code False\<rparr>) d2))"

end
