(* ===== verification/Billing_Webhooks.thy ===== *)
theory Billing_Webhooks
  imports Subscriptions
begin

text \<open>
  What the billing provider reports (\<open>processBillingProviderEvent\<close> and \<open>handleBillingProviderWebhook\<close>) and the
  daily sweep that expires trials (\<open>runTrialExpirationSweep\<close>). The claim of an event, the checkout that
  completed, the details and the status a subscription event carries, the notices that only make a
  history row, and the order of events by \<open>lastProviderEventAt\<close>.
\<close>

section \<open>The record of events\<close>

definition new_billing_event :: "billing_provider \<Rightarrow> billing_event \<Rightarrow> time \<Rightarrow> billing_event_doc" where
  "new_billing_event name ev now =
     \<lparr>bw_provider = name, bw_eventId = be_eventId ev, bw_eventType = be_eventType ev, bw_processedAt = None,
      bw_processingError = None, bw_processingStartedAt = Some now\<rparr>"

definition billing_event_clash :: "billing_event_doc \<Rightarrow> billing_event_doc \<Rightarrow> bool" where
  "billing_event_clash x y \<longleftrightarrow> bw_provider x = bw_provider y \<and> bw_eventId x = bw_eventId y"

definition is_event :: "billing_provider \<Rightarrow> billing_event \<Rightarrow> billing_event_doc \<Rightarrow> bool" where
  "is_event name ev w \<longleftrightarrow> bw_provider w = name \<and> bw_eventId w = be_eventId ev"

definition claimable_event :: "billing_event_doc \<Rightarrow> bool" where
  "claimable_event w \<longleftrightarrow> bw_processedAt w = None \<and> bw_processingStartedAt w = None"

definition claim_billing_event ::
  "time \<Rightarrow> billing_provider \<Rightarrow> billing_event \<Rightarrow> billing_db \<Rightarrow> bool \<times> billing_db" where
  "claim_billing_event now name ev d =
     (case insert_unique billing_event_clash (new_billing_event name ev now) (b_events d) of
        Some ws \<Rightarrow> (True, d\<lparr>b_events := ws\<rparr>)
      | None \<Rightarrow>
          (case find_one (\<lambda>w. is_event name ev w \<and> claimable_event w) (b_events d) of
             None \<Rightarrow> (False, d)
           | Some _ \<Rightarrow> (True, d\<lparr>b_events := update_one (\<lambda>w. is_event name ev w \<and> claimable_event w)
               (\<lambda>w. w\<lparr>bw_processingStartedAt := Some now\<rparr>) (b_events d)\<rparr>)))"

definition mark_event ::
  "billing_provider \<Rightarrow> billing_event \<Rightarrow> (billing_event_doc \<Rightarrow> billing_event_doc) \<Rightarrow> billing_db \<Rightarrow> billing_db" where
  "mark_event name ev f d = d\<lparr>b_events := update_one (is_event name ev)
     (\<lambda>w. (f w)\<lparr>bw_processingStartedAt := None\<rparr>) (b_events d)\<rparr>"

definition event_done :: "time \<Rightarrow> billing_event_doc \<Rightarrow> billing_event_doc" where
  "event_done now w = w\<lparr>bw_processedAt := Some now, bw_processingError := None\<rparr>"

definition event_ignored :: "time \<Rightarrow> string \<Rightarrow> billing_event_doc \<Rightarrow> billing_event_doc" where
  "event_ignored now why w = w\<lparr>bw_processedAt := Some now, bw_processingError := Some why\<rparr>"

definition event_failed :: "string \<Rightarrow> billing_event_doc \<Rightarrow> billing_event_doc" where
  "event_failed why w = w\<lparr>bw_processingError := Some why\<rparr>"

section \<open>Subscription events\<close>

fun status_of_provider :: "provider_status \<Rightarrow> sub_status" where
  "status_of_provider PS_Trialing = S_Trialing"
| "status_of_provider PS_Active = S_Active"
| "status_of_provider PS_Past_Due = S_Past_Due"
| "status_of_provider PS_Cancelled = S_Cancelled"

definition resolve_transition_target :: "sub_status \<Rightarrow> provider_status \<Rightarrow> scheduled_cancel \<Rightarrow> sub_status" where
  "resolve_transition_target current reported scheduled =
     (if reported = PS_Cancelled \<and> current = S_Trialing then S_Expired
      else if reported = PS_Active \<and> (case scheduled of Cancel_At _ \<Rightarrow> True | _ \<Rightarrow> False) then S_Cancelling
      else status_of_provider reported)"

text \<open>\<open>notOlderThanApplied\<close>: the filter every write of a subscription event has.\<close>

definition not_older :: "time option \<Rightarrow> subscription \<Rightarrow> bool" where
  "not_older occurred x = (case occurred of None \<Rightarrow> True
     | Some t \<Rightarrow> (case su_lastProviderEventAt x of None \<Rightarrow> True | Some s \<Rightarrow> s \<le> t))"

text \<open>The plan an event's price belongs to, when it is not the plan and interval the subscription has.\<close>

definition price_change :: "string option \<Rightarrow> subscription \<Rightarrow> billing_db \<Rightarrow> (plan \<times> plan_price) option" where
  "price_change price x d =
     (if \<not> truthy_string price then None
      else case find_one (\<lambda>p. \<exists>r \<in> set (pl_pricing p). pp_providerPriceId r = price) (b_plans d) of
        None \<Rightarrow> None
      | Some p \<Rightarrow>
          (case find_one (\<lambda>r. pp_providerPriceId r = price) (pl_pricing p) of
             None \<Rightarrow> None
           | Some r \<Rightarrow> if pl_id p \<noteq> su_planId x \<or> pp_interval r \<noteq> su_interval x then Some (p, r) else None))"

definition event_details :: "billing_event \<Rightarrow> (plan \<times> plan_price) option \<Rightarrow> subscription \<Rightarrow> subscription" where
  "event_details ev change x =
     (let x1 = (case be_period ev of None \<Rightarrow> x | Some (s, e) \<Rightarrow> x\<lparr>su_periodStart := s, su_periodEnd := e\<rparr>);
          x2 = (case be_scheduledCancel ev of Cancel_At t \<Rightarrow> x1\<lparr>su_cancelAt := Some t\<rparr> | _ \<Rightarrow> x1)
      in case change of None \<Rightarrow> x2 | Some (p, r) \<Rightarrow> x2\<lparr>su_planId := pl_id p, su_interval := pp_interval r\<rparr>)"

definition has_details :: "billing_event \<Rightarrow> (plan \<times> plan_price) option \<Rightarrow> bool" where
  "has_details ev change \<longleftrightarrow> be_period ev \<noteq> None \<or>
     (case be_scheduledCancel ev of Cancel_At _ \<Rightarrow> True | _ \<Rightarrow> False) \<or> change \<noteq> None"

definition claim_order :: "billing_event \<Rightarrow> subscription \<Rightarrow> billing_db \<Rightarrow> subscription option \<times> billing_db" where
  "claim_order ev x d =
     (case be_occurredAt ev of
        None \<Rightarrow> (Some x, d)
      | Some t \<Rightarrow> find_and_update_sub (\<lambda>y. su_id y = su_id x \<and> not_older (Some t) y)
          (\<lambda>y. y\<lparr>su_lastProviderEventAt := Some t\<rparr>) d)"

definition apply_provider_details ::
  "time \<Rightarrow> billing_event \<Rightarrow> subscription \<Rightarrow> billing_db \<Rightarrow> subscription option \<times> billing_db" where
  "apply_provider_details now ev x d =
     (case claim_order ev x d of
        (None, d1) \<Rightarrow> (None, d1)
      | (Some y, d1) \<Rightarrow>
          let change = price_change (be_priceId ev) y d1 in
          if \<not> has_details ev change then (Some y, d1)
          else case find_and_update_sub (\<lambda>z. su_id z = su_id y \<and> not_older (be_occurredAt ev) z)
                      (event_details ev change) d1 of
            (None, d2) \<Rightarrow> (None, d2)
          | (Some z, d2) \<Rightarrow>
              (Some z, case change of
                 None \<Rightarrow> d2
               | Some (p, r) \<Rightarrow> record_history
                   ((history_of z H_Plan_Changed now)
                      \<lparr>hi_amountCents := pp_amountCents r, hi_currency := pp_currency r,
                       hi_reference := Some (be_eventId ev), hi_metadata := Meta_Plan (pl_code p) True\<rparr>) d2))"

section \<open>Notices\<close>

fun history_type_by_notice :: "notice_type \<Rightarrow> history_type" where
  "history_type_by_notice N_Payment_Succeeded = H_Payment_Succeeded"
| "history_type_by_notice N_Refunded = H_Refunded"
| "history_type_by_notice N_Chargeback = H_Chargeback"
| "history_type_by_notice N_Chargeback_Reversed = H_Chargeback_Reversed"

fun notice_name :: "notice_type \<Rightarrow> string" where
  "notice_name N_Payment_Succeeded = ''payment_succeeded''"
| "notice_name N_Refunded = ''refunded''"
| "notice_name N_Chargeback = ''chargeback''"
| "notice_name N_Chargeback_Reversed = ''chargeback_reversed''"

definition record_billing_notice ::
  "time \<Rightarrow> billing_event \<Rightarrow> billing_notice \<Rightarrow> subscription \<Rightarrow> billing_db \<Rightarrow> billing_db" where
  "record_billing_notice now ev n x d =
     (let reference = nullish (bn_reference n) (be_eventId ev);
          notice_key = notice_name (bn_type n) @ '':'' @ reference
      in if list_ex (\<lambda>h. hi_subscriptionId h = su_id x \<and> hi_noticeKey h = Some notice_key) (b_history d) then d
         else record_history
           ((history_of x (history_type_by_notice (bn_type n)) (nullish (be_occurredAt ev) now))
              \<lparr>hi_amountCents := bn_amountCents n, hi_currency := bn_currency n,
               hi_reference := Some reference, hi_noticeKey := Some notice_key\<rparr>) d)"

section \<open>A checkout completed\<close>

definition checkout_status :: "subscription_snapshot \<Rightarrow> sub_status" where
  "checkout_status s = (if sn_status s = PS_Trialing then S_Trialing else S_Active)"

definition converted_trial ::
  "billing_provider \<Rightarrow> billing_event \<Rightarrow> checkout_metadata \<Rightarrow> plan \<Rightarrow> subscription_snapshot \<Rightarrow> subscription \<Rightarrow> subscription"
  where
  "converted_trial name ev m p s x =
     x\<lparr>su_planId := pl_id p, su_status := checkout_status s, su_interval := cm_interval m,
       su_periodStart := sn_periodStart s, su_periodEnd := sn_periodEnd s,
       su_trialEnd := (if checkout_status s = S_Trialing
         then (case sn_trialEnd s of None \<Rightarrow> su_trialEnd x | Some t \<Rightarrow> Some t) else None),
       su_provider := name, su_customerId := Some (cm_customerId m),
       su_providerSubscriptionId := Some (be_subscriptionId ev),
       su_lastProviderEventAt := (case be_occurredAt ev of None \<Rightarrow> su_lastProviderEventAt x | Some t \<Rightarrow> Some t)\<rparr>"

definition checked_out ::
  "billing_env \<Rightarrow> billing_provider \<Rightarrow> billing_event \<Rightarrow> checkout_metadata \<Rightarrow> plan \<Rightarrow> subscription_snapshot \<Rightarrow> subscription"
  where
  "checked_out env name ev m p s =
     \<lparr>su_id = en_newId env, su_ownerType = cm_ownerType m, su_ownerId = cm_ownerId m, su_planId = pl_id p,
      su_status = checkout_status s, su_interval = cm_interval m, su_periodStart = sn_periodStart s,
      su_periodEnd = sn_periodEnd s,
      su_trialStart = (if checkout_status s = S_Trialing then Some (en_after env) else None),
      su_trialEnd = sn_trialEnd s, su_cancelAt = None, su_cancelledAt = None, su_provider = name,
      su_customerId = Some (cm_customerId m), su_providerSubscriptionId = Some (be_subscriptionId ev),
      su_reminderSentAt = None, su_extension = None, su_lastProviderEventAt = be_occurredAt ev,
      su_createdAt = en_after env\<rparr>"

definition checkout_rows ::
  "billing_env \<Rightarrow> billing_provider \<Rightarrow> billing_event \<Rightarrow> checkout_metadata \<Rightarrow> plan \<Rightarrow> sub_status \<Rightarrow> subscription \<Rightarrow>
    billing_db \<Rightarrow> billing_db" where
  "checkout_rows env name ev m p status x d =
     (let pricing = resolve_pricing p (cm_interval m);
          row = \<lparr>hi_ownerType = cm_ownerType m, hi_ownerId = cm_ownerId m, hi_subscriptionId = su_id x,
            hi_type = H_Subscription_Created, hi_provider = name,
            hi_amountCents = Option.bind pricing pp_amountCents, hi_currency = Option.bind pricing pp_currency,
            hi_reference = Some (be_eventId ev), hi_occurredAt = en_after env,
            hi_metadata = Meta_Checkout (pl_code p), hi_noticeKey = None\<rparr>;
          d1 = record_history row d
      in if status = S_Active
         then record_history (row\<lparr>hi_type := H_Payment_Succeeded, hi_metadata := Meta_None\<rparr>) d1 else d1)"

definition local_trial_of :: "checkout_metadata \<Rightarrow> billing_db \<Rightarrow> subscription option" where
  "local_trial_of m d = find_one (\<lambda>x. su_ownerType x = cm_ownerType m \<and> su_ownerId x = cm_ownerId m \<and>
     is_live x \<and> su_providerSubscriptionId x = None) (b_subscriptions d)"

definition handle_checkout_completion ::
  "billing_env \<Rightarrow> billing_provider \<Rightarrow> billing_event \<Rightarrow> checkout_metadata \<Rightarrow> billing_db \<Rightarrow> unit result \<times> billing_db" where
  "handle_checkout_completion env name ev m d =
     (case find_active_plan (cm_planCode m) d of
        None \<Rightarrow> (Inr (), mark_event name ev (event_failed (''Unknown plan code: '' @ cm_planCode m)) d)
      | Some p \<Rightarrow>
        (case get_billing_provider env of
           Inl e \<Rightarrow> (Inl e, d)
         | Inr prov \<Rightarrow>
           (case bp_retrieve prov (be_subscriptionId ev) of
              Inl msg \<Rightarrow> (Inl (Thrown msg), en_meanwhile env d)
            | Inr s \<Rightarrow>
                let d1 = en_meanwhile env d; status = checkout_status s;
                    finish = (\<lambda>x d2. (Inr (), mark_event name ev (event_done (en_after env))
                      (checkout_rows env name ev m p status x d2)))
                in case local_trial_of m d1 of
                     Some x \<Rightarrow>
                       let y = converted_trial name ev m p s x in
                       (case save_sub y d1 of
                          None \<Rightarrow> (Inl (Thrown ''duplicate key''), d1)
                        | Some d2 \<Rightarrow> finish y d2)
                   | None \<Rightarrow>
                       let y = checked_out env name ev m p s in
                       (case insert_unique sub_clash y (b_subscriptions d1) of
                          None \<Rightarrow> (Inr (), mark_event name ev (event_ignored (en_after env)
                            ''Duplicate: owner already has a live subscription'') d1)
                        | Some xs \<Rightarrow> finish y (d1\<lparr>b_subscriptions := xs\<rparr>)))))"

section \<open>One event\<close>

definition unknown_reference_retry_window_ms :: int where
  "unknown_reference_retry_window_ms = 15 * 60 * 1000"

definition is_retryable_unknown_reference :: "time \<Rightarrow> billing_event \<Rightarrow> bool" where
  "is_retryable_unknown_reference now ev =
     (case be_occurredAt ev of None \<Rightarrow> False
      | Some t \<Rightarrow> be_subscriptionId ev \<noteq> [] \<and> (be_status ev \<noteq> None \<or> be_notice ev \<noteq> None) \<and>
          now - t < unknown_reference_retry_window_ms)"

fun history_type_by_target :: "sub_status \<Rightarrow> history_type option" where
  "history_type_by_target S_Active = Some H_Payment_Succeeded"
| "history_type_by_target S_Past_Due = Some H_Payment_Failed"
| "history_type_by_target S_Cancelled = Some H_Cancelled"
| "history_type_by_target S_Expired = Some H_Expired"
| "history_type_by_target _ = None"

definition history_type_of_move :: "sub_status \<Rightarrow> sub_status \<Rightarrow> history_type option" where
  "history_type_of_move from to =
     (if from = S_Cancelling \<and> to = S_Active then Some H_Reactivated
      else if to = S_Cancelling then Some H_Cancellation_Requested
      else history_type_by_target to)"

definition moved_by_event :: "time \<Rightarrow> sub_status \<Rightarrow> sub_status \<Rightarrow> subscription \<Rightarrow> subscription" where
  "moved_by_event now from to x =
     (let x1 = x\<lparr>su_status := to\<rparr>;
          x2 = (if to = S_Cancelled then x1\<lparr>su_cancelledAt := Some now\<rparr> else x1);
          x3 = (if to = S_Active then x2\<lparr>su_trialEnd := None\<rparr> else x2)
      in if to = S_Active \<and> from = S_Cancelling then x3\<lparr>su_cancelAt := None\<rparr> else x3)"

definition apply_event_status ::
  "time \<Rightarrow> billing_provider \<Rightarrow> billing_event \<Rightarrow> provider_status \<Rightarrow> subscription \<Rightarrow> billing_db \<Rightarrow> billing_db" where
  "apply_event_status now name ev reported x d =
     (let target = resolve_transition_target (su_status x) reported (be_scheduledCancel ev) in
      if target = su_status x then mark_event name ev (event_done now) d
      else if \<not> is_valid_sub_transition (su_status x) target
      then mark_event name ev (event_ignored now ''Ignored: invalid transition'') d
      else
        (case find_and_update_sub
                (\<lambda>y. su_id y = su_id x \<and> su_status y = su_status x \<and> not_older (be_occurredAt ev) y)
                (moved_by_event now (su_status x) target) d of
           (None, d1) \<Rightarrow> mark_event name ev (event_done now) d1
         | (Some _, d1) \<Rightarrow>
             mark_event name ev (event_done now)
               (case history_type_of_move (su_status x) target of
                  None \<Rightarrow> d1
                | Some t \<Rightarrow> record_history
                    ((history_of x t now)\<lparr>hi_provider := name, hi_reference := Some (be_eventId ev)\<rparr>) d1)))"

definition apply_subscription_event ::
  "time \<Rightarrow> billing_provider \<Rightarrow> billing_event \<Rightarrow> subscription \<Rightarrow> billing_db \<Rightarrow> billing_db" where
  "apply_subscription_event now name ev x d =
     (case be_status ev of
        None \<Rightarrow> mark_event name ev (event_done now)
          (case be_notice ev of None \<Rightarrow> d | Some n \<Rightarrow> record_billing_notice now ev n x d)
      | Some reported \<Rightarrow>
          (case apply_provider_details now ev x d of
             (None, d1) \<Rightarrow> mark_event name ev (event_ignored now ''Ignored: older than the subscription state'') d1
           | (Some y, d1) \<Rightarrow> apply_event_status now name ev reported y d1))"

definition subscription_of_event :: "billing_provider \<Rightarrow> billing_event \<Rightarrow> billing_db \<Rightarrow> subscription option" where
  "subscription_of_event name ev d =
     (if be_subscriptionId ev = [] then None
      else find_one (\<lambda>x. su_provider x = name \<and> su_providerSubscriptionId x = Some (be_subscriptionId ev))
        (b_subscriptions d))"

definition process_claimed_billing_event ::
  "billing_env \<Rightarrow> billing_provider \<Rightarrow> billing_event \<Rightarrow> billing_db \<Rightarrow> unit result \<times> billing_db" where
  "process_claimed_billing_event env name ev d =
     (let now = en_now env in
      if be_simulated ev then (Inr (), mark_event name ev (event_ignored now ''Ignored: provider simulator event'') d)
      else case be_checkout ev of
        Some m \<Rightarrow> handle_checkout_completion env name ev m d
      | None \<Rightarrow>
          (case subscription_of_event name ev d of
             None \<Rightarrow>
               if is_retryable_unknown_reference now ev then (Inl (Service_Unavailable ''not recorded yet''), d)
               else (Inr (), mark_event name ev (event_done now) d)
           | Some x \<Rightarrow> (Inr (), apply_subscription_event now name ev x d)))"

definition process_billing_event ::
  "billing_env \<Rightarrow> billing_provider \<Rightarrow> billing_event \<Rightarrow> billing_db \<Rightarrow> unit result \<times> billing_db" where
  "process_billing_event env name ev d =
     (case claim_billing_event (en_now env) name ev d of
        (False, d1) \<Rightarrow> (Inr (), d1)
      | (True, d1) \<Rightarrow>
          (case process_claimed_billing_event env name ev d1 of
             (Inl e, d2) \<Rightarrow> (Inl e, mark_event name ev (event_failed ''error'') d2)
           | (Inr r, d2) \<Rightarrow> (Inr r, d2)))"

definition handle_billing_webhook ::
  "billing_env \<Rightarrow> billing_provider \<Rightarrow> string \<Rightarrow> string option \<Rightarrow> billing_db \<Rightarrow> unit result \<times> billing_db" where
  "handle_billing_webhook env name raw signature d =
     (if name = Mock_Billing \<and> \<not> mock_drivers_allowed (en_nodeEnv env) then (Inl (Not_Found []), d)
      else case get_billing_provider env of
        Inl e \<Rightarrow> (Inl e, d)
      | Inr prov \<Rightarrow>
          if bp_name prov \<noteq> name then (Inl (Bad_Request ''not configured for this billing provider''), d)
          else case bp_verify prov raw signature of
            None \<Rightarrow> (Inl (Bad_Request ''Invalid webhook signature''), d)
          | Some ev \<Rightarrow> process_billing_event env (bp_name prov) ev d)"

section \<open>The sweep that expires trials\<close>

definition hold_candidate :: "time \<Rightarrow> subscription \<Rightarrow> bool" where
  "hold_candidate now x \<longleftrightarrow> su_status x = S_Trialing \<and>
     (case su_trialEnd x of None \<Rightarrow> False | Some t \<Rightarrow> t \<le> now) \<and> su_provider x \<noteq> Internal_Billing \<and>
     Option.bind (su_extension x) te_extendedAt = None \<and> \<not> truthy_string (su_providerSubscriptionId x)"

definition hold_trial :: "time \<Rightarrow> subscription \<Rightarrow> subscription" where
  "hold_trial now x = x\<lparr>su_extension :=
     Some \<lparr>te_extendedAt = Some now, te_originalTrialEnd = su_trialEnd x, te_endedAt = None\<rparr>\<rparr>"

definition held_trial :: "subscription \<Rightarrow> bool" where
  "held_trial x \<longleftrightarrow> su_status x = S_Trialing \<and> Option.bind (su_extension x) te_extendedAt \<noteq> None \<and>
     Option.bind (su_extension x) te_endedAt = None"

definition grant_grace :: "time \<Rightarrow> time \<Rightarrow> subscription \<Rightarrow> subscription" where
  "grant_grace now grace_end x =
     x\<lparr>su_trialEnd := (case su_trialEnd x of None \<Rightarrow> Some grace_end
         | Some t \<Rightarrow> Some (if t > grace_end then t else grace_end)),
       su_extension := map_option (\<lambda>t. t\<lparr>te_endedAt := Some now\<rparr>) (su_extension x), su_reminderSentAt := None\<rparr>"

definition hold_or_release :: "billing_env \<Rightarrow> subscription list \<Rightarrow> subscription list" where
  "hold_or_release env xs =
     (if trial_extension_active env
      then map (\<lambda>x. if hold_candidate (en_now env) x then hold_trial (en_now env) x else x) xs
      else map (\<lambda>x. if held_trial x
        then grant_grace (en_now env) (en_now env + en_graceDays env * ms_per_day) x else x) xs)"

definition expiry_candidate :: "billing_env \<Rightarrow> subscription \<Rightarrow> bool" where
  "expiry_candidate env x \<longleftrightarrow> su_status x = S_Trialing \<and>
     (case su_trialEnd x of None \<Rightarrow> False | Some t \<Rightarrow> t \<le> en_now env) \<and> su_provider x \<noteq> Internal_Billing \<and>
     (trial_extension_active env \<longrightarrow> truthy_string (su_providerSubscriptionId x))"

definition expire_trial :: "time \<Rightarrow> subscription \<Rightarrow> billing_db \<Rightarrow> billing_db" where
  "expire_trial now x d =
     (case find_and_update_sub (\<lambda>y. su_id y = su_id x \<and> su_status y = S_Trialing) (\<lambda>y. y\<lparr>su_status := S_Expired\<rparr>) d of
        (None, d1) \<Rightarrow> d1
      | (Some y, d1) \<Rightarrow> record_history (history_of y H_Expired now) d1)"

definition run_trial_expiration_sweep :: "billing_env \<Rightarrow> billing_db \<Rightarrow> billing_db" where
  "run_trial_expiration_sweep env d =
     (let d1 = d\<lparr>b_subscriptions := hold_or_release env (b_subscriptions d)\<rparr> in
      fold (expire_trial (en_now env)) (filter (expiry_candidate env) (b_subscriptions d1)) d1)"

end
