(* ===== verification/Entitlements.thy ===== *)
theory Entitlements
  imports Subscriptions
begin

text \<open>
  What a subscription entitles its owner to: \<open>subscriptionResolution.service.ts\<close> (live, lapsed or never
  subscribed), \<open>entitlement.service.ts\<close> (the entries of a plan), \<open>entitlementLimit.service.ts\<close> (features and
  location slots of a business, with the plan it inherits from its agency) and
  \<open>agencyEntitlement.service.ts\<close> (business slots of an agency).
\<close>

section \<open>Live, lapsed, never\<close>

definition is_subscription_live :: "billing_env \<Rightarrow> subscription \<Rightarrow> bool" where
  "is_subscription_live env x \<longleftrightarrow>
     (if \<not> is_live x then False
      else if su_status x = S_Trialing \<and> (case su_trialEnd x of None \<Rightarrow> False | Some t \<Rightarrow> t \<le> en_now env)
      then trial_extension_active env \<and> is_extendable_trial x
      else True)"

datatype resolution = Live plan subscription | Lapsed | Never

definition commercial_of :: "owner_type \<Rightarrow> oid \<Rightarrow> subscription \<Rightarrow> bool" where
  "commercial_of t i x \<longleftrightarrow> su_ownerType x = t \<and> su_ownerId x = i \<and> su_provider x \<noteq> Internal_Billing"

definition resolve_subscription_state :: "billing_env \<Rightarrow> owner_type \<Rightarrow> oid \<Rightarrow> billing_db \<Rightarrow> resolution" where
  "resolve_subscription_state env t i d =
     (case find_latest su_createdAt (commercial_of t i) (b_subscriptions d) of
        None \<Rightarrow> Never
      | Some x \<Rightarrow>
          if is_subscription_live env x
          then (case find_one (\<lambda>p. pl_id p = su_planId x) (b_plans d) of None \<Rightarrow> Never | Some p \<Rightarrow> Live p x)
          else Lapsed)"

section \<open>The entries of a plan\<close>

text \<open>\<open>getEntitlements\<close> fills an object in order, so the last entry of a key wins; \<open>hasEntitlement\<close> reads
  the first.\<close>

definition get_entitlements :: "plan \<Rightarrow> string \<Rightarrow> entitlement_value option" where
  "get_entitlements p = fold (\<lambda>(k, v) m. m(k \<mapsto> v)) (pl_entitlements p) Map.empty"

fun entitled :: "entitlement_value \<Rightarrow> bool" where
  "entitled (Ent_Bool b) = b"
| "entitled (Ent_Number n) = (n > 0)"
| "entitled (Ent_Text s) = (s \<noteq> [])"

definition has_entitlement :: "plan \<Rightarrow> string \<Rightarrow> bool" where
  "has_entitlement p key =
     (case find_one (\<lambda>e. fst e = key) (pl_entitlements p) of None \<Rightarrow> False | Some e \<Rightarrow> entitled (snd e))"

text \<open>\<open>typeof value === "number" && value > 0 ? value : fallback\<close>.\<close>

fun limit_or :: "rat \<Rightarrow> entitlement_value option \<Rightarrow> rat" where
  "limit_or fallback (Some (Ent_Number n)) = (if n > 0 then n else fallback)"
| "limit_or fallback _ = fallback"

section \<open>Businesses\<close>

definition no_subscription_default_max_locations :: rat where
  "no_subscription_default_max_locations = 20"

datatype plan_source = From_Business plan | From_Agency plan | From_Lapsed | From_Default

definition find_business :: "oid \<Rightarrow> billing_db \<Rightarrow> business option" where
  "find_business i d = find_one (\<lambda>b. bu_id b = i) (b_businesses d)"

definition find_agency :: "oid \<Rightarrow> billing_db \<Rightarrow> agency option" where
  "find_agency i d = find_one (\<lambda>a. ag_id a = i) (b_agencies d)"

definition resolve_business_plan :: "billing_env \<Rightarrow> oid \<Rightarrow> billing_db \<Rightarrow> plan_source" where
  "resolve_business_plan env i d =
     (case resolve_subscription_state env Business_Owner i d of
        Live p _ \<Rightarrow> From_Business p
      | Lapsed \<Rightarrow> From_Lapsed
      | Never \<Rightarrow>
          (case Option.bind (find_business i d) bu_agencyId of
             None \<Rightarrow> From_Default
           | Some a \<Rightarrow>
               (case resolve_subscription_state env Agency_Owner a d of
                  Live p _ \<Rightarrow> From_Agency p
                | Lapsed \<Rightarrow> From_Lapsed
                | Never \<Rightarrow> From_Default)))"

definition has_feature_entitlement :: "billing_env \<Rightarrow> owner_type \<Rightarrow> oid \<Rightarrow> string \<Rightarrow> billing_db \<Rightarrow> bool" where
  "has_feature_entitlement env t i key d =
     (case t of
        Business_Owner \<Rightarrow>
          (case resolve_business_plan env i d of
             From_Default \<Rightarrow> True
           | From_Lapsed \<Rightarrow> False
           | From_Business p \<Rightarrow> has_entitlement p key
           | From_Agency p \<Rightarrow> has_entitlement p key)
      | Agency_Owner \<Rightarrow>
          (case resolve_subscription_state env Agency_Owner i d of
             Never \<Rightarrow> True
           | Lapsed \<Rightarrow> False
           | Live p _ \<Rightarrow> has_entitlement p key))"

datatype entitlement_source = Source_Business | Source_Agency | Source_Lapsed | Source_Default

definition resolve_business_entitlements ::
  "billing_env \<Rightarrow> oid \<Rightarrow> billing_db \<Rightarrow> (string \<Rightarrow> entitlement_value option) option \<times> entitlement_source" where
  "resolve_business_entitlements env i d =
     (case resolve_business_plan env i d of
        From_Default \<Rightarrow> (None, Source_Default)
      | From_Lapsed \<Rightarrow> (None, Source_Lapsed)
      | From_Business p \<Rightarrow> (Some (get_entitlements p), Source_Business)
      | From_Agency p \<Rightarrow> (Some (get_entitlements p), Source_Agency))"

definition resolve_agency_entitlements ::
  "billing_env \<Rightarrow> oid \<Rightarrow> billing_db \<Rightarrow> (string \<Rightarrow> entitlement_value option) option \<times> entitlement_source" where
  "resolve_agency_entitlements env i d =
     (case resolve_subscription_state env Agency_Owner i d of
        Never \<Rightarrow> (None, Source_Default)
      | Lapsed \<Rightarrow> (None, Source_Lapsed)
      | Live p _ \<Rightarrow> (Some (get_entitlements p), Source_Agency))"

text \<open>\<open>requireEntitlement\<close>: the business is named by the route, or is the one of the route's restaurant.\<close>

datatype route_owner = Route_Business oid | Route_Restaurant oid

definition require_entitlement :: "billing_env \<Rightarrow> string \<Rightarrow> route_owner \<Rightarrow> billing_db \<Rightarrow> unit result" where
  "require_entitlement env key route d =
     (case (case route of
              Route_Business i \<Rightarrow> Some i
            | Route_Restaurant r \<Rightarrow> Option.bind (map_of (b_locations d) r) id) of
        None \<Rightarrow> Inl (Bad_Request ''could not resolve the business'')
      | Some i \<Rightarrow>
          if i = [] then Inl (Bad_Request ''could not resolve the business'')
          else if has_feature_entitlement env Business_Owner i key d then Inr ()
          else Inl (Forbidden ''the plan does not include this feature''))"

section \<open>Location slots\<close>

definition get_max_locations :: "billing_env \<Rightarrow> oid \<Rightarrow> billing_db \<Rightarrow> rat" where
  "get_max_locations env i d =
     (case resolve_business_plan env i d of
        From_Default \<Rightarrow> no_subscription_default_max_locations
      | From_Lapsed \<Rightarrow> (case find_business i d of None \<Rightarrow> 0 | Some b \<Rightarrow> of_int (bu_locationCount b))
      | From_Agency p \<Rightarrow>
          limit_or no_subscription_default_max_locations (get_entitlements p ''managed_business_max_locations'')
      | From_Business p \<Rightarrow> limit_or no_subscription_default_max_locations (get_entitlements p ''max_locations''))"

definition can_create_location :: "billing_env \<Rightarrow> oid \<Rightarrow> billing_db \<Rightarrow> bool" where
  "can_create_location env i d =
     (case find_business i d of None \<Rightarrow> False | Some b \<Rightarrow> of_int (bu_locationCount b) < get_max_locations env i d)"

definition inc_locations :: "oid \<Rightarrow> int \<Rightarrow> (business \<Rightarrow> bool) \<Rightarrow> billing_db \<Rightarrow> billing_db" where
  "inc_locations i n g d = d\<lparr>b_businesses := update_one (\<lambda>b. bu_id b = i \<and> g b)
     (\<lambda>b. b\<lparr>bu_locationCount := bu_locationCount b + n\<rparr>) (b_businesses d)\<rparr>"

definition reserve_location_slot :: "billing_env \<Rightarrow> oid \<Rightarrow> billing_db \<Rightarrow> unit result \<times> billing_db" where
  "reserve_location_slot env i d =
     (let m = get_max_locations env i d; below = (\<lambda>b. of_int (bu_locationCount b) < m) in
      case find_one (\<lambda>b. bu_id b = i \<and> below b) (b_businesses d) of
        None \<Rightarrow> (Inl (Conflict ''location limit reached''), d)
      | Some _ \<Rightarrow> (Inr (), inc_locations i 1 below d))"

definition release_location_slot :: "oid \<Rightarrow> billing_db \<Rightarrow> billing_db" where
  "release_location_slot i d = inc_locations i (- 1) (\<lambda>_. True) d"

definition get_location_limit_status :: "billing_env \<Rightarrow> oid \<Rightarrow> billing_db \<Rightarrow> rat \<times> int \<times> bool" where
  "get_location_limit_status env i d =
     (let m = get_max_locations env i d;
          current = (case find_business i d of None \<Rightarrow> 0 | Some b \<Rightarrow> bu_locationCount b)
      in (m, current, of_int current < m))"

section \<open>Business slots of an agency\<close>

definition no_subscription_default_max_businesses :: rat where
  "no_subscription_default_max_businesses = 3"

definition get_max_businesses :: "billing_env \<Rightarrow> oid \<Rightarrow> billing_db \<Rightarrow> rat" where
  "get_max_businesses env i d =
     (case resolve_subscription_state env Agency_Owner i d of
        Never \<Rightarrow> no_subscription_default_max_businesses
      | Lapsed \<Rightarrow> (case find_agency i d of None \<Rightarrow> 0 | Some a \<Rightarrow> of_int (ag_businessCount a))
      | Live p _ \<Rightarrow> limit_or no_subscription_default_max_businesses (get_entitlements p ''max_businesses''))"

definition can_create_another_business :: "billing_env \<Rightarrow> oid \<Rightarrow> billing_db \<Rightarrow> bool" where
  "can_create_another_business env i d =
     (case find_agency i d of None \<Rightarrow> False | Some a \<Rightarrow> of_int (ag_businessCount a) < get_max_businesses env i d)"

definition reserve_business_slot :: "billing_env \<Rightarrow> oid \<Rightarrow> billing_db \<Rightarrow> unit result \<times> billing_db" where
  "reserve_business_slot env i d =
     (let m = get_max_businesses env i d; below = (\<lambda>a. ag_id a = i \<and> of_int (ag_businessCount a) < m) in
      case find_one below (b_agencies d) of
        None \<Rightarrow> (Inl (Conflict ''business limit reached''), d)
      | Some _ \<Rightarrow> (Inr (), d\<lparr>b_agencies := update_one below
          (\<lambda>a. a\<lparr>ag_businessCount := ag_businessCount a + 1\<rparr>) (b_agencies d)\<rparr>))"

definition get_agency_entitlements :: "billing_env \<Rightarrow> oid \<Rightarrow> billing_db \<Rightarrow> rat \<times> int" where
  "get_agency_entitlements env i d =
     (get_max_businesses env i d, case find_agency i d of None \<Rightarrow> 0 | Some a \<Rightarrow> ag_businessCount a)"

end
