(* ===== verification/Billing_Samples.thy ===== *)
theory Billing_Samples
  imports Billing_Webhooks Entitlements
begin

text \<open>
  Concrete plans, owners, a provider and events the witnesses of the billing theories are evaluated on.
\<close>

definition growth_plan :: plan where
  "growth_plan = \<lparr>pl_id = ''p1'', pl_code = ''growth'', pl_name = ''Growth'', pl_type = Owner_Plan,
     pl_pricing = [\<lparr>pp_interval = Monthly, pp_amountCents = Some 4900, pp_currency = Some ''USD'',
       pp_providerPriceId = Some ''pri_1''\<rparr>],
     pl_entitlements = [(''custom_domains'', Ent_Bool True), (''max_locations'', Ent_Number 3)],
     pl_trialDays = None, pl_isActive = True, pl_isPubliclyListed = True\<rparr>"

definition pro_plan :: plan where
  "pro_plan = growth_plan\<lparr>pl_id := ''p2'', pl_code := ''pro'', pl_name := ''Pro'',
     pl_pricing := [\<lparr>pp_interval = Monthly, pp_amountCents = Some 9900, pp_currency = Some ''USD'',
       pp_providerPriceId = Some ''pri_2''\<rparr>],
     pl_entitlements := [(''max_locations'', Ent_Number 0)]\<rparr>"

definition sample_snapshot :: subscription_snapshot where
  "sample_snapshot = \<lparr>sn_status = PS_Active, sn_periodStart = 5000, sn_periodEnd = 9000, sn_trialEnd = None\<rparr>"

definition sample_billing :: billing_api where
  "sample_billing = \<lparr>bp_name = Paddle_Billing, bp_customer = \<lambda>_ _ _ _. Inr ''ctm_1'',
     bp_checkout = \<lambda>_. Inr ''txn_1'', bp_retrieve = \<lambda>_. Inr sample_snapshot, bp_cancel = \<lambda>_ _. Inr (),
     bp_reactivate = \<lambda>_. Inr (), bp_changePlan = \<lambda>_ _. Inr (), bp_updateUrl = \<lambda>_. Inr None,
     bp_verify = \<lambda>_ _. None\<rparr>"

definition sample_benv :: billing_env where
  "sample_benv = \<lparr>en_now = 6000, en_after = 6001, en_newId = ''s1'', en_provider = Some sample_billing,
     en_meanwhile = (\<lambda>d. d), en_billingProvider = Paddle_Billing, en_nodeEnv = ''production'',
     en_adminOrigin = ''https://admin'', en_trialPeriodDays = 14, en_extendTrials = False, en_graceDays = 7\<rparr>"

definition sample_bdb :: billing_db where
  "sample_bdb = \<lparr>b_subscriptions = [], b_plans = [growth_plan, pro_plan], b_events = [], b_history = [], b_jobs = [],
     b_businesses = [\<lparr>bu_id = ''b1'', bu_name = ''Bistro'', bu_ownerId = ''u1'', bu_agencyId = None,
       bu_locationCount = 1\<rparr>],
     b_agencies = [], b_emails = [(''u1'', ''a@b'')], b_locations = [(''r1'', Some ''b1'')]\<rparr>"

text \<open>A local trial of the business, and the same subscription once it is the provider's.\<close>

definition local_trial :: subscription where
  "local_trial = new_trial (sample_benv\<lparr>en_now := 1000\<rparr>) Business_Owner ''b1'' growth_plan Monthly 14"

definition paid_sub :: subscription where
  "paid_sub = local_trial\<lparr>su_status := S_Active, su_trialEnd := None, su_customerId := Some ''ctm_1'',
     su_providerSubscriptionId := Some ''sub_1'', su_lastProviderEventAt := Some 5000\<rparr>"

definition with_sub :: "subscription \<Rightarrow> billing_db" where
  "with_sub x = sample_bdb\<lparr>b_subscriptions := [x]\<rparr>"

definition status_event :: "string \<Rightarrow> provider_status \<Rightarrow> time \<Rightarrow> billing_event" where
  "status_event i s t = \<lparr>be_eventId = i, be_eventType = ''subscription.updated'', be_subscriptionId = ''sub_1'',
     be_status = Some s, be_occurredAt = Some t, be_period = None, be_scheduledCancel = Cancel_None,
     be_priceId = None, be_notice = None, be_simulated = False, be_checkout = None\<rparr>"

definition checkout_event :: "string \<Rightarrow> billing_event" where
  "checkout_event code = (status_event ''evt_c'' PS_Active 5000)\<lparr>be_eventType := ''subscription.created'',
     be_checkout := Some \<lparr>cm_ownerType = Business_Owner, cm_ownerId = ''b1'', cm_planCode = code,
       cm_interval = Monthly, cm_customerId = ''ctm_1''\<rparr>\<rparr>"

end
