(* ===== verification/Billing_Safety.thy ===== *)
theory Billing_Safety
  imports Billing_Samples
begin

text \<open>
  What every billing operation does to the subscriptions, as a sequence of three kinds of writes: a new
  live subscription inserted under the unique indexes, a change that keeps the keys and moves the status
  along the table, and the conversion of a local subscription by a completed checkout. The locale
  \<open>subscription_invariant\<close> carries what the three writes keep through every run, whatever other requests
  do while a provider is called; its interpretations are the unique keys and the abstract account of
  an owner, of which the collection is a refinement.
\<close>

section \<open>Writes\<close>

definition same_document :: "subscription \<Rightarrow> subscription \<Rightarrow> bool" where
  "same_document x y \<longleftrightarrow> su_id y = su_id x \<and> same_owner x y \<and> su_createdAt y = su_createdAt x"

definition soft_change :: "subscription \<Rightarrow> subscription \<Rightarrow> bool" where
  "soft_change x y \<longleftrightarrow> same_document x y \<and> su_provider y = su_provider x \<and>
     su_providerSubscriptionId y = su_providerSubscriptionId x \<and>
     (su_status y = su_status x \<or> is_valid_sub_transition (su_status x) (su_status y))"

definition conversion :: "subscription \<Rightarrow> subscription \<Rightarrow> bool" where
  "conversion x y \<longleftrightarrow> same_document x y \<and> is_live x \<and> su_providerSubscriptionId x = None \<and>
     su_status y \<in> {S_Trialing, S_Active}"

inductive sub_write :: "subscription list \<Rightarrow> subscription list \<Rightarrow> bool" where
  Inserted: "insert_unique sub_clash x xs = Some ys \<Longrightarrow> is_live x \<Longrightarrow> sub_write xs ys"
| Changed: "soft_change x y \<Longrightarrow> sub_write (us @ x # vs) (us @ y # vs)"
| Converted: "conversion x y \<Longrightarrow> (\<forall>z \<in> set (us @ vs). \<not> same_provider_ref y z) \<Longrightarrow>
    sub_write (us @ x # vs) (us @ y # vs)"

definition writes :: "billing_db \<Rightarrow> billing_db \<Rightarrow> bool" where
  "writes d d' \<longleftrightarrow> sub_write\<^sup>*\<^sup>* (b_subscriptions d) (b_subscriptions d')"

lemma writes_refl [simp, intro]: "writes d d"
  by (simp add: writes_def)

lemma writes_trans [trans]: "writes d e \<Longrightarrow> writes e f \<Longrightarrow> writes d f"
  by (simp add: writes_def)

lemma subscriptions_kept [simp]:
  "b_subscriptions (record_history row d) = b_subscriptions d"
  "b_subscriptions (mark_event name ev f d) = b_subscriptions d"
  "b_subscriptions (snd (claim_billing_event now name ev d)) = b_subscriptions d"
  "b_subscriptions (record_billing_notice now ev n x d) = b_subscriptions d"
  "b_subscriptions (checkout_rows env name ev m p st x d) = b_subscriptions d"
  "b_subscriptions (inc_locations i k g d) = b_subscriptions d"
  by (auto simp: record_history_def mark_event_def claim_billing_event_def record_billing_notice_def
      checkout_rows_def inc_locations_def Let_def split: option.split)

lemma writes_kept [simp]:
  "writes d (record_history row e) = writes d e"
  "writes d (mark_event name ev f e) = writes d e"
  "writes d (record_billing_notice now ev n x e) = writes d e"
  "writes d (checkout_rows env name ev m p st x e) = writes d e"
  by (simp_all add: writes_def)

lemma soft_refl [simp]: "soft_change x x"
  by (simp add: soft_change_def same_document_def same_owner_def)

lemma soft_writes_map:
  assumes "\<forall>x \<in> set xs. soft_change x (f x)"
  shows "sub_write\<^sup>*\<^sup>* (us @ xs) (us @ map f xs)"
  using assms
proof (induction xs arbitrary: us)
  case (Cons x xs)
  have "sub_write (us @ x # xs) (us @ f x # xs)" using Cons.prems by (auto intro: Changed)
  also have "sub_write\<^sup>*\<^sup>* (us @ f x # xs) (us @ f x # map f xs)" using Cons.IH [of "us @ [f x]"] Cons.prems by simp
  finally show ?case by simp
qed simp

lemma soft_writes_update:
  assumes "\<And>x. p x \<Longrightarrow> soft_change x (f x)"
  shows "writes d (d\<lparr>b_subscriptions := update_one p f (b_subscriptions d)\<rparr>)"
proof (cases "find_one p (b_subscriptions d)")
  case None
  then show ?thesis by (simp add: writes_def update_one_none)
next
  case (Some x)
  then obtain us vs where s: "b_subscriptions d = us @ x # vs" "p x"
    "update_one p f (b_subscriptions d) = us @ f x # vs" using update_one_split by metis
  have "sub_write (us @ x # vs) (us @ f x # vs)" by (rule Changed) (rule assms [OF s(2)])
  then show ?thesis by (simp add: writes_def s(1) s(3) [unfolded s(1)] r_into_rtranclp)
qed

lemma soft_find_and_update:
  assumes "\<And>x. p x \<Longrightarrow> soft_change x (f x)"
  shows "writes d (snd (find_and_update_sub p f d))"
  using soft_writes_update [OF assms] by (auto simp: find_and_update_sub_def split: option.split)

lemma find_and_update_kept:
  assumes "find_and_update_sub p f d = (r, d')" and "\<And>x. p x \<Longrightarrow> soft_change x (f x)"
  shows "writes d d'"
  using soft_find_and_update [of p f d, OF assms(2)] assms(1) by (metis snd_conv)

section \<open>What each operation writes\<close>

text \<open>While a provider is called, other requests run.\<close>

definition others_write :: "billing_env \<Rightarrow> bool" where
  "others_write env \<longleftrightarrow> (\<forall>d. distinct (map su_id (b_subscriptions d)) \<longrightarrow> writes d (en_meanwhile env d))"

lemma write_ids: "sub_write xs ys \<Longrightarrow> distinct (map su_id xs) \<Longrightarrow> distinct (map su_id ys)"
proof (induction rule: sub_write.induct)
  case (Inserted x xs ys)
  have "su_id x \<notin> su_id ` set xs" and "ys = xs @ [x]"
    using insert_unique_SomeD [OF Inserted(1)] by (auto simp: sub_clash_def)
  then show ?case using Inserted by simp
qed (auto simp: soft_change_def conversion_def same_document_def)

lemma writes_ids: "writes d e \<Longrightarrow> distinct (map su_id (b_subscriptions d)) \<Longrightarrow> distinct (map su_id (b_subscriptions e))"
  unfolding writes_def by (induction rule: rtranclp_induct) (auto intro: write_ids)

lemma marker_soft: "soft_change x y \<Longrightarrow> soft_change x (provider_action_marker z t y)"
  by (simp add: provider_action_marker_def soft_change_def same_document_def same_owner_def)

lemma insert_writes:
  assumes "insert_unique sub_clash x (b_subscriptions d) = Some xs" and "is_live x"
  shows "writes d (d\<lparr>b_subscriptions := xs\<rparr>)"
  using Inserted [OF assms] by (simp add: writes_def r_into_rtranclp)

lemma create_writes: "writes d (snd (create_subscription env t i code interval a d))"
proof -
  have live: "is_live (new_trial env t i p interval days)" for p days
    by (simp add: new_trial_def is_live_def live_statuses_def Let_def)
  show ?thesis
    unfolding create_subscription_def Let_def
    by (auto split: sum.split option.split intro: insert_writes [OF _ live])
qed

lemma call_writes:
  assumes "call_if_theirs env x f d = (r, d1)" "others_write env" "distinct (map su_id (b_subscriptions d))"
  shows "writes d d1"
  using assms by (auto simp: call_if_theirs_def others_write_def split: sum.splits if_splits)

lemma guarded_writes:
  assumes "\<And>y. su_id y = su_id x \<Longrightarrow> su_status y = su_status x \<Longrightarrow> soft_change y (change y)"
  shows "writes d (snd (guarded_action env x change t d))"
proof -
  let ?p = "\<lambda>y. su_id y = su_id x \<and> su_status y = su_status x"
  let ?f = "\<lambda>y. provider_action_marker x (en_now env) (change y)"
  have "writes d d'" if "find_and_update_sub ?p ?f d = (r, d')" for r d'
    using find_and_update_kept [OF that] assms by (auto intro: marker_soft)
  then show ?thesis unfolding guarded_action_def by (auto split: prod.split option.split)
qed

lemma cancel_writes:
  assumes "others_write env" "distinct (map su_id (b_subscriptions d))"
  shows "writes d (snd (cancel_subscription env t i e d))"
proof (cases "live_subscription t i d")
  case (Some x)
  let ?g = "cancel_target x e"
  obtain r d1 where c: "call_if_theirs env x (\<lambda>prov i. bp_cancel prov i (?g = S_Cancelling)) d = (r, d1)" by fastforce
  have w: "writes d d1" by (rule call_writes [OF c assms])
  have "writes d (snd (guarded_action env x (cancelled_as env x ?g) h d1))"
    if "is_valid_sub_transition (su_status x) ?g" for h
    by (rule writes_trans [OF w guarded_writes])
      (use that in \<open>auto simp: cancelled_as_def soft_change_def same_document_def same_owner_def\<close>)
  with w c Some show ?thesis 
    unfolding cancel_subscription_def Let_def
    by (cases "cancel_target x e = S_Cancelling") (simp_all split: sum.split)
qed (simp add: cancel_subscription_def)

lemma reactivate_writes:
  assumes "others_write env" "distinct (map su_id (b_subscriptions d))"
  shows "writes d (snd (reactivate_subscription env t i d))"
proof (cases "live_subscription t i d")
  case (Some x)
  let ?change = "\<lambda>y :: subscription. y\<lparr>su_status := S_Active, su_cancelAt := None\<rparr>"
  obtain r d1 where c: "call_if_theirs env x bp_reactivate d = (r, d1)" by fastforce
  have w: "writes d d1" by (rule call_writes [OF c assms])
  have "writes d (snd (guarded_action env x ?change H_Reactivated d1))" if "is_valid_sub_transition (su_status x) S_Active"
    by (rule writes_trans [OF w guarded_writes]) (use that in \<open>auto simp: soft_change_def same_document_def same_owner_def\<close>)
  with w c Some show ?thesis unfolding reactivate_subscription_def by (simp split: sum.split)
qed (simp add: reactivate_subscription_def)

lemma plan_change_soft: "soft_change y (plan_change_of x p t y)"
  by (simp add: plan_change_of_def Let_def soft_change_def same_document_def same_owner_def)

lemma change_plan_writes:
  assumes "others_write env" "distinct (map su_id (b_subscriptions d))"
  shows "writes d (snd (change_subscription_plan env t i code d))"
proof (cases "live_subscription t i d")
  case (Some x)
  have call: "writes d d1" if "change_plan_call env x p d = (r, d1)" for r p d1
    using that call_writes [OF _ assms] unfolding change_plan_call_def by (auto split: sum.splits if_splits)
  have "writes d (d1\<lparr>b_subscriptions := update_one q (plan_change_of x p s) (b_subscriptions d1)\<rparr>)"
    if "change_plan_call env x p d = (r, d1)" for r d1 p q s
    by (rule writes_trans [OF call [OF that] soft_writes_update]) (rule plan_change_soft)
  with call Some show ?thesis
    unfolding change_subscription_plan_def Let_def by (auto split: sum.split prod.split)
qed (simp add: change_subscription_plan_def)

section \<open>What events and the sweep write\<close>

lemma claim_order_writes:
  assumes "claim_order ev x d = (r, d1)"
  shows "writes d d1"
proof (cases "be_occurredAt ev")
  case (Some t)
  then show ?thesis
    using assms find_and_update_kept [of "\<lambda>y. su_id y = su_id x \<and> not_older (Some t) y"
        "\<lambda>y. y\<lparr>su_lastProviderEventAt := Some t\<rparr>" d r d1]
    by (simp add: claim_order_def soft_change_def same_document_def same_owner_def)
qed (use assms in \<open>simp add: claim_order_def\<close>)

lemma event_details_soft: "soft_change x (event_details ev change x)"
  by (auto simp: event_details_def soft_change_def same_document_def same_owner_def Let_def
      split: option.split scheduled_cancel.split)

lemma details_write:
  assumes "apply_provider_details now ev x d = (r, d1)"
  shows "writes d d1"
proof -
  obtain q e where c: "claim_order ev x d = (q, e)" by fastforce
  have w: "writes d e" by (rule claim_order_writes [OF c])
  have "writes d e2" if "find_and_update_sub p (event_details ev change) e = (z, e2)" for p change z e2
    by (rule writes_trans [OF w find_and_update_kept [OF that event_details_soft]])
  with w c assms show ?thesis
    unfolding apply_provider_details_def Let_def by (auto split: option.splits if_splits prod.splits)
qed

lemma moved_by_event_fields [simp]:
  "su_status (moved_by_event now from to y) = to" "su_id (moved_by_event now from to y) = su_id y"
  "su_ownerType (moved_by_event now from to y) = su_ownerType y"
  "su_ownerId (moved_by_event now from to y) = su_ownerId y"
  "su_provider (moved_by_event now from to y) = su_provider y"
  "su_providerSubscriptionId (moved_by_event now from to y) = su_providerSubscriptionId y"
  "su_createdAt (moved_by_event now from to y) = su_createdAt y"
  "su_lastProviderEventAt (moved_by_event now from to y) = su_lastProviderEventAt y"
  by (simp_all add: moved_by_event_def Let_def)

lemma event_status_writes: "writes d (apply_event_status now name ev reported x d)"
proof -
  let ?g = "resolve_transition_target (su_status x) reported (be_scheduledCancel ev)"
  let ?p = "\<lambda>y. su_id y = su_id x \<and> su_status y = su_status x \<and> not_older (be_occurredAt ev) y"
  have m: "soft_change y (moved_by_event now (su_status x) ?g y)"
    if "?p y" "is_valid_sub_transition (su_status x) ?g" for y
    using that by (simp add: soft_change_def same_document_def same_owner_def)
  have "writes d d1" if "find_and_update_sub ?p (moved_by_event now (su_status x) ?g) d = (r, d1)"
    "is_valid_sub_transition (su_status x) ?g" for r d1
    using find_and_update_kept [OF that(1)] m [OF _ that(2)] by blast
  then show ?thesis
    unfolding apply_event_status_def Let_def by (auto split: prod.split option.split)
qed

lemma event_writes: "writes d (apply_subscription_event now name ev x d)"
proof -
  have "writes d (apply_event_status now name ev reported y d1)"
    if "apply_provider_details now ev x d = (r, d1)" for reported y r d1
    by (rule writes_trans [OF details_write [OF that] event_status_writes])
  then show ?thesis
    unfolding apply_subscription_event_def
    by (auto split: option.split prod.split intro: details_write)
qed

lemma key_split: "distinct (map f (us @ x # vs)) \<Longrightarrow> \<forall>z \<in> set (us @ vs). f z \<noteq> f x"
proof
  fix z
  assume "distinct (map f (us @ x # vs))" and z: "z \<in> set (us @ vs)"
  then have "f x \<notin> f ` set (us @ vs)" by auto
  with z show "f z \<noteq> f x" by (metis imageI)
qed

lemma save_writes:
  assumes sv: "save_sub y d = Some d'" and x: "x \<in> set (b_subscriptions d)" and cv: "conversion x y"
    and ids: "distinct (map su_id (b_subscriptions d))"
  shows "writes d d'"
proof -
  have id: "su_id y = su_id x" using cv by (simp add: conversion_def same_document_def)
  then have "find_one (\<lambda>z. su_id z = su_id y) (b_subscriptions d) = Some x"
    using find_id_mem [OF ids x] by simp
  from update_one_split [OF this, of "\<lambda>_. y"] obtain us vs where s: "b_subscriptions d = us @ x # vs"
    "update_one (\<lambda>z. su_id z = su_id y) (\<lambda>_. y) (b_subscriptions d) = us @ y # vs" by blast
  have "\<forall>z \<in> set (us @ vs). su_id z \<noteq> su_id y" using key_split [OF ids [unfolded s(1)]] id by simp
  moreover have nex: "\<not> list_ex (\<lambda>z. su_id z \<noteq> su_id y \<and> sub_clash y z) (b_subscriptions d)"
    using sv by (simp add: save_sub_def split: if_splits)
  have "\<forall>z \<in> set (us @ vs). su_id z = su_id y \<or> \<not> sub_clash y z"
    using nex unfolding s(1) list_ex_iff by auto
  ultimately have "\<forall>z \<in> set (us @ vs). \<not> same_provider_ref y z" by (auto simp: sub_clash_def)
  then have "sub_write (us @ x # vs) (us @ y # vs)" by (rule Converted [OF cv])
  moreover have "b_subscriptions d' = us @ y # vs" using sv s(2) unfolding save_sub_def by (auto split: if_splits)
  ultimately show ?thesis by (simp add: writes_def s(1) r_into_rtranclp)
qed

lemma local_trial_converts:
  assumes "local_trial_of m d = Some x"
  shows "x \<in> set (b_subscriptions d)" "conversion x (converted_trial name ev m p s x)"
  using assms find_one_SomeD [of _ "b_subscriptions d" x]
  by (auto simp: local_trial_of_def conversion_def same_document_def same_owner_def converted_trial_def
      checkout_status_def)

lemma checkout_writes:
  assumes ow: "others_write env" and ids: "distinct (map su_id (b_subscriptions d))"
  shows "writes d (snd (handle_checkout_completion env name ev m d))"
proof -
  let ?e = "en_meanwhile env d"
  have w: "writes d ?e" using ow ids by (simp add: others_write_def)
  have "writes d e2" if "save_sub (converted_trial name ev m p s x) ?e = Some e2" "local_trial_of m ?e = Some x" for p s x e2
    by (rule writes_trans [OF w save_writes [OF that(1) local_trial_converts [OF that(2)] writes_ids [OF w ids]]])
  moreover have "writes d (?e\<lparr>b_subscriptions := xs\<rparr>)"
    if "insert_unique sub_clash (checked_out env name ev m p s) (b_subscriptions ?e) = Some xs" for p s xs
    by (rule writes_trans [OF w insert_writes [OF that]])
      (simp add: is_live_def checked_out_def checkout_status_def live_statuses_def)
  ultimately show ?thesis
    using w unfolding handle_checkout_completion_def Let_def by (auto split: option.split sum.split)
qed

lemma process_writes:
  assumes "others_write env" "distinct (map su_id (b_subscriptions d))"
  shows "writes d (snd (process_billing_event env name ev d))"
proof -
  have inner: "writes e (snd (process_claimed_billing_event env name ev e))"
    if "distinct (map su_id (b_subscriptions e))" for e
    unfolding process_claimed_billing_event_def Let_def
    by (auto simp: event_writes checkout_writes [OF assms(1) that] split: option.split)
  obtain b d1 where c: "claim_billing_event (en_now env) name ev d = (b, d1)" by fastforce
  then have s: "b_subscriptions d1 = b_subscriptions d" using subscriptions_kept(3) by (metis snd_conv)
  obtain r d2 where p: "process_claimed_billing_event env name ev d1 = (r, d2)" by fastforce
  have "writes d1 d2" using inner [of d1] p s assms(2) by simp
  then have "writes d d2" by (simp add: writes_def s)
  then show ?thesis
    unfolding process_billing_event_def c using p by (auto simp: writes_def s split: bool.split sum.split)
qed

lemma webhook_writes:
  assumes "others_write env" "distinct (map su_id (b_subscriptions d))"
  shows "writes d (snd (handle_billing_webhook env name raw sig d))"
  unfolding handle_billing_webhook_def
  by (auto simp: process_writes [OF assms] split: sum.split option.split)

lemma hold_or_release_soft: "writes d (d\<lparr>b_subscriptions := hold_or_release env (b_subscriptions d)\<rparr>)"
  using soft_writes_map [of "b_subscriptions d" _ "[]"]
  by (auto simp: writes_def hold_or_release_def hold_trial_def grant_grace_def soft_change_def same_document_def
      same_owner_def)

lemma expire_writes: "writes d (expire_trial now x d)"
proof -
  let ?p = "\<lambda>y. su_id y = su_id x \<and> su_status y = S_Trialing"
  have "writes d d1" if "find_and_update_sub ?p (\<lambda>y. y\<lparr>su_status := S_Expired\<rparr>) d = (r, d1)" for r d1
    by (rule find_and_update_kept [OF that])
      (simp add: soft_change_def same_document_def same_owner_def is_valid_sub_transition_def)
  then show ?thesis unfolding expire_trial_def by (auto split: prod.split option.split)
qed

lemma sweep_writes: "writes d (run_trial_expiration_sweep env d)"
proof -
  have "writes e (fold (expire_trial now) xs e)" for now xs e
    by (induction xs arbitrary: e) (auto intro: writes_trans expire_writes)
  then show ?thesis
    unfolding run_trial_expiration_sweep_def Let_def by (blast intro: writes_trans hold_or_release_soft)
qed

section \<open>Runs\<close>

datatype billing_op =
    Op_Start_Trial owner_type oid string billing_interval bool
  | Op_Cancel_Sub owner_type oid bool
  | Op_Reactivate_Sub owner_type oid
  | Op_Change_Plan owner_type oid string
  | Op_Billing_Webhook billing_provider string "string option"
  | Op_Sweep
  | Op_Reserve_Location oid
  | Op_Release_Location oid
  | Op_Reserve_Business oid

fun run_billing_op :: "billing_env \<Rightarrow> billing_op \<Rightarrow> billing_db \<Rightarrow> billing_db" where
  "run_billing_op env (Op_Start_Trial t i code interval a) d = snd (create_subscription env t i code interval a d)"
| "run_billing_op env (Op_Cancel_Sub t i e) d = snd (cancel_subscription env t i e d)"
| "run_billing_op env (Op_Reactivate_Sub t i) d = snd (reactivate_subscription env t i d)"
| "run_billing_op env (Op_Change_Plan t i code) d = snd (change_subscription_plan env t i code d)"
| "run_billing_op env (Op_Billing_Webhook name raw sig) d = snd (handle_billing_webhook env name raw sig d)"
| "run_billing_op env Op_Sweep d = run_trial_expiration_sweep env d"
| "run_billing_op env (Op_Reserve_Location i) d = snd (reserve_location_slot env i d)"
| "run_billing_op env (Op_Release_Location i) d = release_location_slot i d"
| "run_billing_op env (Op_Reserve_Business i) d = snd (reserve_business_slot env i d)"

text \<open>A run is a sequence of operations; what happens during a provider call is a run itself.\<close>

inductive billing_run :: "billing_db \<Rightarrow> billing_db \<Rightarrow> bool" where
  run_nil: "billing_run d d"
| run_op: "billing_run d e \<Longrightarrow> (\<And>x. billing_run x (en_meanwhile env x)) \<Longrightarrow> billing_run d (run_billing_op env op e)"

lemma op_writes:
  assumes "others_write env" "distinct (map su_id (b_subscriptions d))"
  shows "writes d (run_billing_op env op d)"
proof -
  have "b_subscriptions (snd (reserve_location_slot env i d)) = b_subscriptions d"
    "b_subscriptions (release_location_slot i d) = b_subscriptions d"
    "b_subscriptions (snd (reserve_business_slot env i d)) = b_subscriptions d" for i
    by (simp_all add: reserve_location_slot_def release_location_slot_def reserve_business_slot_def Let_def
        split: option.split)
  with assms show ?thesis
    by (cases op) (simp_all add: create_writes cancel_writes reactivate_writes change_plan_writes webhook_writes
        sweep_writes, simp_all add: writes_def)
qed

lemma run_writes: "billing_run d e \<Longrightarrow> distinct (map su_id (b_subscriptions d)) \<longrightarrow> writes d e"
proof (induction rule: billing_run.induct)
  case (run_op d e env op)
  then have "others_write env" by (simp add: others_write_def)
  with run_op.IH(1) show ?case by (blast intro: writes_trans op_writes writes_ids)
qed simp

locale subscription_invariant =
  fixes P :: "subscription list \<Rightarrow> bool"
  assumes insert_keeps: "P xs \<Longrightarrow> insert_unique sub_clash x xs = Some ys \<Longrightarrow> is_live x \<Longrightarrow> P ys"
    and change_keeps: "P (us @ x # vs) \<Longrightarrow> soft_change x y \<Longrightarrow> P (us @ y # vs)"
    and convert_keeps: "P (us @ x # vs) \<Longrightarrow> conversion x y \<Longrightarrow> (\<forall>z \<in> set (us @ vs). \<not> same_provider_ref y z) \<Longrightarrow>
      P (us @ y # vs)"
begin

lemma write_keeps: "sub_write xs ys \<Longrightarrow> P xs \<Longrightarrow> P ys"
  by (cases rule: sub_write.cases) (auto intro: insert_keeps change_keeps convert_keeps)

lemma writes_keep: "sub_write\<^sup>*\<^sup>* xs ys \<Longrightarrow> P xs \<Longrightarrow> P ys"
  by (induction rule: rtranclp_induct) (auto intro: write_keeps)

lemma run_keeps:
  "billing_run d e \<Longrightarrow> distinct (map su_id (b_subscriptions d)) \<Longrightarrow> P (b_subscriptions d) \<Longrightarrow> P (b_subscriptions e)"
  using run_writes writes_keep unfolding writes_def by blast

end

section \<open>First invariant: unique keys\<close>

definition unique_keys :: "subscription list \<Rightarrow> bool" where
  "unique_keys xs \<longleftrightarrow> sorted_wrt (\<lambda>x y. \<not> sub_clash x y) xs"

lemma clash_sym: "sub_clash x y = sub_clash y x"
  by (auto simp: sub_clash_def same_owner_def same_provider_ref_def)

lemma unique_keys_ids: "unique_keys xs \<Longrightarrow> distinct (map su_id xs)"
  by (induction xs) (auto simp: unique_keys_def sub_clash_def)

lemma unique_keys_replace:
  assumes "unique_keys (us @ x # vs)" and "\<And>z. z \<in> set (us @ vs) \<Longrightarrow> sub_clash y z \<Longrightarrow> sub_clash x z"
  shows "unique_keys (us @ y # vs)"
  using assms unfolding unique_keys_def sorted_wrt_append by (auto simp: clash_sym)

lemma soft_clash: "soft_change x y \<Longrightarrow> sub_clash y z \<Longrightarrow> sub_clash x z"
  using sub_table.terminal_stuck [of "su_status x" "su_status y"]
  by (auto simp: soft_change_def sub_clash_def same_document_def same_owner_def same_provider_ref_def is_live_def)

interpretation keys: subscription_invariant unique_keys
proof
  fix xs x ys
  assume "unique_keys xs" "insert_unique sub_clash x xs = Some ys"
  then show "unique_keys ys"
    by (auto simp: unique_keys_def sorted_wrt_append clash_sym dest!: insert_unique_SomeD)
next
  fix us x vs y
  assume "unique_keys (us @ x # vs)" "soft_change x y"
  then show "unique_keys (us @ y # vs)" by (blast intro: unique_keys_replace soft_clash)
next
  fix us x vs y
  assume u: "unique_keys (us @ x # vs)" and c: "conversion x y" and r: "\<forall>z \<in> set (us @ vs). \<not> same_provider_ref y z"
  show "unique_keys (us @ y # vs)"
  proof (rule unique_keys_replace [OF u])
    fix z
    assume "z \<in> set (us @ vs)" "sub_clash y z"
    with r c show "sub_clash x z" by (auto simp: sub_clash_def conversion_def same_document_def same_owner_def)
  qed
qed

section \<open>The account of an owner\<close>

text \<open>The abstract specification: an account is the sequence of the owner's subscriptions with their
  statuses; a new one is opened when all are over, and only the last one moves, along the table or by a
  completed checkout.\<close>

definition account :: "owner_type \<Rightarrow> oid \<Rightarrow> subscription list \<Rightarrow> (oid \<times> sub_status) list" where
  "account t i xs = map (\<lambda>x. (su_id x, su_status x)) (filter (\<lambda>x. su_ownerType x = t \<and> su_ownerId x = i) xs)"

definition over :: "sub_status \<Rightarrow> bool" where
  "over s \<longleftrightarrow> s \<notin> set live_statuses"

inductive account_step :: "(oid \<times> sub_status) list \<Rightarrow> (oid \<times> sub_status) list \<Rightarrow> bool" where
  opened: "\<forall>(_, s) \<in> set h. over s \<Longrightarrow> \<not> over s \<Longrightarrow> account_step h (h @ [(i, s)])"
| moved: "is_valid_sub_transition s s' \<Longrightarrow> account_step (h @ [(i, s)]) (h @ [(i, s')])"
| converted: "\<not> over s \<Longrightarrow> s' \<in> {S_Trialing, S_Active} \<Longrightarrow> account_step (h @ [(i, s)]) (h @ [(i, s')])"

definition account_ok :: "(oid \<times> sub_status) list \<Rightarrow> bool" where
  "account_ok h \<longleftrightarrow> (\<forall>(_, s) \<in> set (butlast h). over s)"

lemma account_simps [simp]:
  "account t i [] = []"
  "account t i (x # xs) = (if su_ownerType x = t \<and> su_ownerId x = i then [(su_id x, su_status x)] else []) @ account t i xs"
  "account t i (xs @ ys) = account t i xs @ account t i ys"
  by (simp_all add: account_def)

lemma over_iff: "over s \<longleftrightarrow> s = S_Cancelled \<or> s = S_Expired"
  by (cases s) (simp_all add: over_def live_statuses_def)

lemma account_step_ok: "account_step h h' \<Longrightarrow> account_ok h \<Longrightarrow> account_ok h'"
  by (induction rule: account_step.induct) (auto simp: account_ok_def butlast_append)

lemma account_last:
  assumes "account_ok (h @ (i, s) # vs)" "\<not> over s"
  shows "vs = []"
  using assms by (cases vs) (auto simp: account_ok_def butlast_append)

lemma account_replace:
  assumes d: "same_document x y" and ok: "account_ok (account t i (us @ x # vs))"
    and st: "\<And>h k. \<not> over (su_status x) \<Longrightarrow> account_step (h @ [(k, su_status x)]) (h @ [(k, su_status y)])"
    and live: "su_status y = su_status x \<or> \<not> over (su_status x)"
  shows "account_step\<^sup>*\<^sup>* (account t i (us @ x # vs)) (account t i (us @ y # vs))"
proof (cases "su_ownerType x = t \<and> su_ownerId x = i \<and> su_status y \<noteq> su_status x")
  case True
  then have o: "account t i (us @ x # vs) = account t i us @ (su_id x, su_status x) # account t i vs"
    and n: "account t i (us @ y # vs) = account t i us @ (su_id x, su_status y) # account t i vs"
    using d by (auto simp: same_document_def same_owner_def)
  have "\<not> over (su_status x)" using live True by simp
  moreover from this have "account t i vs = []" using account_last ok o by metis
  ultimately show ?thesis using st o n by (simp add: r_into_rtranclp)
next
  case False
  with d have "account t i (us @ y # vs) = account t i (us @ x # vs)"
    by (auto simp: same_document_def same_owner_def)
  then show ?thesis by simp
qed

lemma account_steps_ok: "account_step\<^sup>*\<^sup>* h h' \<Longrightarrow> account_ok h \<Longrightarrow> account_ok h'"
  by (induction rule: rtranclp_induct) (auto intro: account_step_ok)

interpretation accounts: subscription_invariant
  "\<lambda>xs. account_ok (account t i xs) \<and> account_step\<^sup>*\<^sup>* h (account t i xs)" for t i h
proof
  fix xs x ys
  assume P: "account_ok (account t i xs) \<and> account_step\<^sup>*\<^sup>* h (account t i xs)"
    and ins: "insert_unique sub_clash x xs = Some ys" and live: "is_live x"
  have ys: "ys = xs @ [x]" and free: "\<forall>y \<in> set xs. \<not> sub_clash x y" using insert_unique_SomeD [OF ins] by auto
  show "account_ok (account t i ys) \<and> account_step\<^sup>*\<^sup>* h (account t i ys)"
  proof (cases "su_ownerType x = t \<and> su_ownerId x = i")
    case True
    have "\<forall>(_, s) \<in> set (account t i xs). over s"
      using free live True by (auto simp: account_def sub_clash_def same_owner_def is_live_def over_def)
    moreover have "\<not> over (su_status x)" using live by (simp add: over_def is_live_def)
    ultimately have "account_step (account t i xs) (account t i ys)" using True by (simp add: ys opened)
    with P show ?thesis by (auto intro: account_step_ok)
  qed (use P in \<open>auto simp: ys\<close>)
next
  fix us x vs y
  assume P: "account_ok (account t i (us @ x # vs)) \<and> account_step\<^sup>*\<^sup>* h (account t i (us @ x # vs))"
    and soft: "soft_change x y"
  have "account_step\<^sup>*\<^sup>* (account t i (us @ x # vs)) (account t i (us @ y # vs))"
  proof (cases "su_status y = su_status x")
    case True
    with soft have "account t i (us @ y # vs) = account t i (us @ x # vs)"
      by (auto simp: soft_change_def same_document_def same_owner_def)
    then show ?thesis by simp
  next
    case False
    with soft have v: "is_valid_sub_transition (su_status x) (su_status y)" by (simp add: soft_change_def)
    then have "\<not> over (su_status x)" using sub_table.terminal_stuck by (auto simp: over_def)
    with v P soft show ?thesis by (intro account_replace) (auto simp: soft_change_def moved)
  qed
  with P show "account_ok (account t i (us @ y # vs)) \<and> account_step\<^sup>*\<^sup>* h (account t i (us @ y # vs))"
    by (meson account_steps_ok rtranclp_trans)
next
  fix us x vs y
  assume P: "account_ok (account t i (us @ x # vs)) \<and> account_step\<^sup>*\<^sup>* h (account t i (us @ x # vs))"
    and cv: "conversion x y"
  have "account_step\<^sup>*\<^sup>* (account t i (us @ x # vs)) (account t i (us @ y # vs))"
    using P cv by (intro account_replace) (auto simp: conversion_def is_live_def over_def intro!: converted)
  with P show "account_ok (account t i (us @ y # vs)) \<and> account_step\<^sup>*\<^sup>* h (account t i (us @ y # vs))"
    by (meson account_steps_ok rtranclp_trans)
qed

text \<open>At most one subscription of an owner is live, and it is the last one.\<close>

lemma live_is_last:
  assumes "account_ok (account t i xs)" and "y \<in> set xs" "su_ownerType y = t" "su_ownerId y = i" "is_live y"
  shows "y = last (filter (\<lambda>x. su_ownerType x = t \<and> su_ownerId x = i) xs)"
proof -
  let ?ys = "filter (\<lambda>x. su_ownerType x = t \<and> su_ownerId x = i) xs"
  have "y \<in> set ?ys" using assms by simp
  moreover have "y \<notin> set (butlast ?ys)"
    using assms(1,5) by (auto simp: account_ok_def account_def map_butlast [symmetric] over_def is_live_def)
  ultimately show ?thesis by (metis append_butlast_last_id empty_iff empty_set in_set_conv_decomp_first
    insert_iff list.set(1) list.simps(15) set_append Un_iff)
qed

section \<open>The decision about an owner\<close>

lemma latest_last:
  "sorted_wrt (\<lambda>x y. k x < k y) xs \<Longrightarrow> latest_by k xs = (if xs = [] then None else Some (last xs))"
  by (induction xs) auto

lemma last_filter: "xs \<noteq> [] \<Longrightarrow> p (last xs) \<Longrightarrow> last (filter p xs) = last xs"
  by (induction xs) (auto simp: filter_empty_conv)

text \<open>The documents are stamped by one clock, so they are created in order.\<close>

definition created_in_order :: "subscription list \<Rightarrow> bool" where
  "created_in_order xs \<longleftrightarrow> sorted_wrt (\<lambda>x y. su_createdAt x < su_createdAt y) xs"

lemma latest_commercial:
  assumes "created_in_order (b_subscriptions d)"
  shows "find_latest su_createdAt (commercial_of t i) (b_subscriptions d) =
    (let ys = filter (commercial_of t i) (b_subscriptions d) in if ys = [] then None else Some (last ys))"
  using assms by (simp add: find_latest_def created_in_order_def latest_last sorted_wrt_filter Let_def)

lemma live_commercial_is_latest:
  assumes ok: "account_ok (account t i (b_subscriptions d))" and ord: "created_in_order (b_subscriptions d)"
    and y: "y \<in> set (b_subscriptions d)" "commercial_of t i y" "is_live y"
  shows "find_latest su_createdAt (commercial_of t i) (b_subscriptions d) = Some y"
proof -
  let ?own = "filter (\<lambda>x. su_ownerType x = t \<and> su_ownerId x = i) (b_subscriptions d)"
  have last: "y = last ?own" using live_is_last [OF ok y(1)] y(2,3) by (simp add: commercial_of_def)
  have "filter (commercial_of t i) (b_subscriptions d) = filter (\<lambda>x. su_provider x \<noteq> Internal_Billing) ?own"
    by (auto simp: commercial_of_def intro!: filter_cong)
  moreover have "?own \<noteq> []" using y by (auto simp: filter_empty_conv commercial_of_def)
  ultimately have "last (filter (commercial_of t i) (b_subscriptions d)) = y"
    using last_filter [of ?own "\<lambda>x. su_provider x \<noteq> Internal_Billing"] last y(2) by (simp add: commercial_of_def)
  moreover have "filter (commercial_of t i) (b_subscriptions d) \<noteq> []" using y by (auto simp: filter_empty_conv)
  ultimately show ?thesis by (simp add: latest_commercial [OF ord] Let_def)
qed

definition plans_known :: "billing_db \<Rightarrow> bool" where
  "plans_known d \<longleftrightarrow> (\<forall>x \<in> set (b_subscriptions d). 
     case find_one (\<lambda>p. pl_id p = su_planId x) (b_plans d) of None \<Rightarrow> False | Some _ \<Rightarrow> True)"

text \<open>What an owner's own subscriptions say about a feature: \<open>None\<close> when there never was one.\<close>

definition own_grant :: "billing_env \<Rightarrow> owner_type \<Rightarrow> oid \<Rightarrow> string \<Rightarrow> billing_db \<Rightarrow> bool option" where
  "own_grant env t i key d =
     (if \<forall>x \<in> set (b_subscriptions d). \<not> commercial_of t i x then None
      else Some (\<exists>x \<in> set (b_subscriptions d). commercial_of t i x \<and> is_subscription_live env x \<and>
        (case find_one (\<lambda>p. pl_id p = su_planId x) (b_plans d) of None \<Rightarrow> False | Some p \<Rightarrow> has_entitlement p key)))"

lemma resolution_own:
  assumes ok: "account_ok (account t i (b_subscriptions d))" and ord: "created_in_order (b_subscriptions d)"
    and pk: "plans_known d"
  shows "(case resolve_subscription_state env t i d of
      Never \<Rightarrow> None | Lapsed \<Rightarrow> Some False | Live p _ \<Rightarrow> Some (has_entitlement p key)) = own_grant env t i key d"
proof (cases "find_latest su_createdAt (commercial_of t i) (b_subscriptions d)")
  case None
  then have "\<forall>x \<in> set (b_subscriptions d). \<not> commercial_of t i x" by (simp add: find_latest_None_iff)
  with None show ?thesis by (simp add: resolve_subscription_state_def own_grant_def)
next
  case (Some x)
  have x: "x \<in> set (b_subscriptions d)" "commercial_of t i x" using find_latest_SomeD [OF Some] by simp_all
  obtain p where p: "find_one (\<lambda>p. pl_id p = su_planId x) (b_plans d) = Some p" 
    using pk x by (auto simp: plans_known_def split: option.splits)
  have only: "y = x" if "y \<in> set (b_subscriptions d)" "commercial_of t i y" "is_subscription_live env y" for y
  proof -
    have "is_live y" using that(3) by (simp add: is_subscription_live_def split: if_splits)
    then show "y = x" using live_commercial_is_latest [OF ok ord that(1,2)] Some by simp
  qed
  let ?grants = "\<lambda>y. commercial_of t i y \<and> is_subscription_live env y \<and>
    (case find_one (\<lambda>p. pl_id p = su_planId y) (b_plans d) of None \<Rightarrow> False | Some p \<Rightarrow> has_entitlement p key)"
  have ex: "(\<exists>y \<in> set (b_subscriptions d). ?grants y) \<longleftrightarrow> is_subscription_live env x \<and> has_entitlement p key"
  proof
    assume "\<exists>y \<in> set (b_subscriptions d). ?grants y"
    then obtain y where y: "y \<in> set (b_subscriptions d)" "?grants y" by blast
    then have "y = x" using only by blast
    with y p show "is_subscription_live env x \<and> has_entitlement p key" by auto
  next
    assume "is_subscription_live env x \<and> has_entitlement p key"
    with x p show "\<exists>y \<in> set (b_subscriptions d). ?grants y" by (intro bexI [of _ x]) simp_all
  qed
  have own: "own_grant env t i key d = Some (is_subscription_live env x \<and> has_entitlement p key)"
    using x unfolding own_grant_def ex by auto
  show ?thesis unfolding own by (simp add: resolve_subscription_state_def Some p)
qed

section \<open>Properties of every run\<close>

text \<open>C7. The collections of subscriptions refine the abstract accounts: whatever operations run, and whatever
  runs while a provider is called, the account of each owner makes only abstract steps. In particular an
  owner never has two live subscriptions, and a cancelled or expired one stays so.\<close>

theorem accounts_refined:
  assumes "billing_run d e" and "distinct (map su_id (b_subscriptions d))"
    and "account_ok (account t i (b_subscriptions d))"
  shows "account_step\<^sup>*\<^sup>* (account t i (b_subscriptions d)) (account t i (b_subscriptions e)) \<and>
    account_ok (account t i (b_subscriptions e))"
  using accounts.run_keeps [OF assms(1,2), of t i "account t i (b_subscriptions d)"] assms(3) by simp

text \<open>The unique keys of the collection hold after every run: no update moves a subscription into a key
  another one has, so only the inserts and the save of a completed checkout can meet the indexes.\<close>

theorem subscription_keys_kept:
  assumes "billing_run d e" and "unique_keys (b_subscriptions d)"
  shows "unique_keys (b_subscriptions e)"
  using keys.run_keeps [OF assms(1) unique_keys_ids [OF assms(2)] assms(2)] .

text \<open>C8. A feature is decided by the business' own subscriptions if it ever had one (live, and its plan has
  the feature), else by those of its agency if it has one that ever subscribed, else it is granted.\<close>

theorem feature_gate:
  assumes run: "billing_run d0 d" and new: "b_subscriptions d0 = []"
    and ord: "created_in_order (b_subscriptions d)" and pk: "plans_known d"
  shows "has_feature_entitlement env Business_Owner i key d \<longleftrightarrow>
    (case own_grant env Business_Owner i key d of
       Some g \<Rightarrow> g
     | None \<Rightarrow> (case Option.bind (find_business i d) bu_agencyId of
         None \<Rightarrow> True
       | Some a \<Rightarrow> nullish (own_grant env Agency_Owner a key d) True))"
proof -
  have ok: "account_ok (account t j (b_subscriptions d))" for t j
    using accounts.run_keeps [OF run, of t j "[]"] by (simp add: new account_ok_def)
  note own = resolution_own [OF ok ord pk, where env = env and key = key]
  show ?thesis
    by (simp add: own [symmetric] has_feature_entitlement_def resolve_business_plan_def
        split: option.split resolution.split)
qed

section \<open>Instances\<close>

lemma sample_run: "billing_run sample_bdb (run_billing_op sample_benv (Op_Start_Trial Business_Owner ''b1'' ''growth'' Monthly False) sample_bdb)"
  by (rule run_op [OF run_nil]) (simp add: sample_benv_def run_nil)

definition trial_db :: billing_db where
  "trial_db = run_billing_op sample_benv (Op_Start_Trial Business_Owner ''b1'' ''growth'' Monthly False) sample_bdb"

lemmas sample_trial_run = sample_run [folded trial_db_def]

theorem accounts_refined_witness:
  "account_step\<^sup>*\<^sup>* (account Business_Owner ''b1'' []) (account Business_Owner ''b1'' (b_subscriptions trial_db)) \<and>
    account Business_Owner ''b1'' (b_subscriptions trial_db) = [(''s1'', S_Trialing)]"
proof
  show "account_step\<^sup>*\<^sup>* (account Business_Owner ''b1'' []) (account Business_Owner ''b1'' (b_subscriptions trial_db))"
    using accounts_refined [OF sample_trial_run, of Business_Owner "''b1''"] by (simp add: sample_bdb_def account_ok_def)
  show "account Business_Owner ''b1'' (b_subscriptions trial_db) = [(''s1'', S_Trialing)]" by code_simp
qed

theorem subscription_keys_kept_witness: "unique_keys (b_subscriptions trial_db) \<and> b_subscriptions trial_db \<noteq> []"
proof
  show "unique_keys (b_subscriptions trial_db)"
    by (rule subscription_keys_kept [OF sample_trial_run]) (simp add: unique_keys_def sample_bdb_def)
  show "b_subscriptions trial_db \<noteq> []" by code_simp
qed

theorem feature_gate_witness:
  "\<not> has_feature_entitlement sample_benv Business_Owner ''b1'' ''white_label'' trial_db"
proof -
  have "created_in_order (b_subscriptions trial_db)" by code_simp
  moreover have "plans_known trial_db" by code_simp
  moreover have "b_subscriptions sample_bdb = []" by code_simp
  moreover have "own_grant sample_benv Business_Owner ''b1'' ''white_label'' trial_db = Some False" by code_simp
  ultimately show ?thesis using feature_gate [OF sample_trial_run] by simp
qed

end
