(* ===== verification/Billing_Events.thy ===== *)
theory Billing_Events
  imports Billing_Safety
begin

text \<open>
  Delivery of billing events: an event that is being processed is left alone by everything else that
  runs, so an event is processed at most once, one whose processing failed is processed again, and
  subscription events apply in the order of their times.
\<close>

section \<open>The documents of an event\<close>

definition event_docs :: "billing_provider \<Rightarrow> billing_event \<Rightarrow> billing_db \<Rightarrow> billing_event_doc list" where
  "event_docs name ev d = filter (is_event name ev) (b_events d)"

definition in_flight :: "billing_provider \<Rightarrow> billing_event \<Rightarrow> billing_db \<Rightarrow> bool" where
  "in_flight name ev d \<longleftrightarrow> event_docs name ev d \<noteq> [] \<and>
     (\<forall>w \<in> set (event_docs name ev d). bw_processedAt w = None \<and> bw_processingStartedAt w \<noteq> None)"

lemma filter_update_other:
  "(\<And>x. p x \<Longrightarrow> \<not> q x \<and> \<not> q (f x)) \<Longrightarrow> filter q (update_one p f xs) = filter q xs"
  by (induction xs) auto

lemma filter_update_same:
  "filter q xs = [w] \<Longrightarrow> q (f w) \<Longrightarrow> filter q (update_one q f xs) = [f w]"
  by (induction xs) (auto split: if_splits)

lemma events_frame [simp]:
  "b_events (record_history row d) = b_events d"
  "b_events (record_billing_notice now ev n x d) = b_events d"
  "b_events (checkout_rows env name ev m p st x d) = b_events d"
  "b_events (snd (find_and_update_sub q f d)) = b_events d"
  "b_events (inc_locations i k g d) = b_events d"
  by (auto simp: record_history_def record_billing_notice_def checkout_rows_def find_and_update_sub_def
      inc_locations_def Let_def split: option.split)

lemma find_and_update_events: "find_and_update_sub q f d = (r, d') \<Longrightarrow> b_events d' = b_events d"
  using events_frame(4) [of q f d] by simp

lemma save_events: "save_sub y d = Some d' \<Longrightarrow> b_events d' = b_events d"
  by (auto simp: save_sub_def split: if_splits)

lemma guarded_events [simp]: "b_events (snd (guarded_action env x change t d)) = b_events d"
  by (auto simp: guarded_action_def dest: find_and_update_events split: prod.split option.split)

lemma details_events: "apply_provider_details now ev x d = (r, d1) \<Longrightarrow> b_events d1 = b_events d"
  by (auto simp: apply_provider_details_def claim_order_def Let_def dest!: find_and_update_events
      split: option.splits prod.splits if_splits)

lemma expire_events: "b_events (expire_trial now x d) = b_events d"
  by (auto simp: expire_trial_def dest: find_and_update_events split: prod.split option.split)

lemma sweep_events [simp]: "b_events (run_trial_expiration_sweep env d) = b_events d"
proof -
  have "b_events (fold (expire_trial now) xs e) = b_events e" for now xs e
    by (induction xs arbitrary: e) (simp_all add: expire_events)
  then show ?thesis by (simp add: run_trial_expiration_sweep_def Let_def)
qed

lemma docs_cong: "b_events d = b_events e \<Longrightarrow> event_docs name ev d = event_docs name ev e"
  by (simp add: event_docs_def)

definition same_event :: "billing_provider \<Rightarrow> billing_event \<Rightarrow> billing_provider \<Rightarrow> billing_event \<Rightarrow> bool" where
  "same_event name ev name' ev' \<longleftrightarrow> name = name' \<and> be_eventId ev = be_eventId ev'"

lemma mark_other:
  assumes "\<not> same_event name ev name' ev'"
    and "\<And>w. bw_provider (f w) = bw_provider w \<and> bw_eventId (f w) = bw_eventId w"
  shows "event_docs name ev (mark_event name' ev' f d) = event_docs name ev d"
  unfolding event_docs_def mark_event_def using assms
  by (auto simp: is_event_def same_event_def intro!: filter_update_other)

lemma marks_keep_keys [simp]:
  "bw_provider (event_done now w) = bw_provider w" "bw_eventId (event_done now w) = bw_eventId w"
  "bw_provider (event_ignored now why w) = bw_provider w" "bw_eventId (event_ignored now why w) = bw_eventId w"
  "bw_provider (event_failed why w) = bw_provider w" "bw_eventId (event_failed why w) = bw_eventId w"
  by (simp_all add: event_done_def event_ignored_def event_failed_def)

lemma claim_other:
  assumes "\<not> same_event name ev name' ev'"
  shows "event_docs name ev (snd (claim_billing_event now name' ev' d)) = event_docs name ev d"
proof -
  have "filter (is_event name ev) (update_one (\<lambda>w. is_event name' ev' w \<and> claimable_event w)
      (\<lambda>w. w\<lparr>bw_processingStartedAt := Some now\<rparr>) ws) = filter (is_event name ev) ws" for ws
    using assms by (intro filter_update_other) (auto simp: is_event_def same_event_def)
  moreover have "\<not> is_event name ev (new_billing_event name' ev' now)"
    using assms by (auto simp: is_event_def new_billing_event_def same_event_def)
  ultimately show ?thesis
    by (auto simp: claim_billing_event_def event_docs_def split: option.split dest!: insert_unique_SomeD)
qed

lemma claim_in_flight:
  assumes "in_flight name ev d" and "same_event name ev name' ev'"
  shows "claim_billing_event now name' ev' d = (False, d)"
proof -
  have same: "is_event name' ev' = is_event name ev" using assms(2) by (auto simp: is_event_def same_event_def)
  obtain w where "w \<in> set (b_events d)" "is_event name ev w"
    using assms(1) by (auto simp: in_flight_def event_docs_def filter_empty_conv)
  then have "insert_unique billing_event_clash (new_billing_event name' ev' now) (b_events d) = None"
    using assms(2) by (auto simp: insert_unique_None_iff billing_event_clash_def new_billing_event_def is_event_def same_event_def)
  moreover have "find_one (\<lambda>w. is_event name' ev' w \<and> claimable_event w) (b_events d) = None"
    using assms(1) by (auto simp: find_one_None_iff same in_flight_def event_docs_def claimable_event_def)
  ultimately show ?thesis by (simp add: claim_billing_event_def)
qed

section \<open>An event in flight is left alone\<close>

text \<open>Subscription events of another key do not touch the documents of an event.\<close>

lemma apply_event_other:
  assumes "\<not> same_event name ev name' ev'"
  shows "event_docs name ev (apply_subscription_event now name' ev' x d) = event_docs name ev d"
proof -
  note m = mark_other [OF assms]
  have st: "event_docs name ev (apply_event_status now name' ev' rep y e) = event_docs name ev e" for rep y e
    by (auto simp: apply_event_status_def Let_def m dest: find_and_update_events intro!: docs_cong
        split: prod.split option.split)
  show ?thesis
    by (auto simp: apply_subscription_event_def m st dest: details_events intro!: docs_cong
        split: option.split prod.split)
qed

text \<open>The collection of events and everything else of the state apart from it: what a checkout writes.\<close>

lemma checkout_other:
  assumes "\<not> same_event name ev name' ev'"
  shows "event_docs name ev (snd (handle_checkout_completion env name' ev' m d)) \<in>
    {event_docs name ev d, event_docs name ev (en_meanwhile env d)}"
proof -
  note k = mark_other [OF assms]
  show ?thesis
    unfolding handle_checkout_completion_def Let_def
    by (auto simp: k dest: save_events intro!: docs_cong split: option.split sum.split)
qed

lemma process_other:
  assumes ne: "\<not> same_event name ev name' ev'" and fl: "in_flight name ev d"
    and mw: "\<And>x. in_flight name ev x \<Longrightarrow> event_docs name ev (en_meanwhile env x) = event_docs name ev x"
  shows "event_docs name ev (snd (process_billing_event env name' ev' d)) = event_docs name ev d"
proof -
  obtain b d1 where c: "claim_billing_event (en_now env) name' ev' d = (b, d1)" by fastforce
  have d1: "event_docs name ev d1 = event_docs name ev d" using claim_other [OF ne, of "en_now env" d] c by simp
  then have "in_flight name ev d1" using fl by (simp add: in_flight_def)
  then have inner: "event_docs name ev (snd (process_claimed_billing_event env name' ev' d1)) = event_docs name ev d1"
    using checkout_other [OF ne, of env _ d1] mw
    by (auto simp: process_claimed_billing_event_def Let_def mark_other [OF ne] apply_event_other [OF ne]
        split: option.split)
  obtain r d2 where p: "process_claimed_billing_event env name' ev' d1 = (r, d2)" by fastforce
  show ?thesis
    using inner d1 unfolding process_billing_event_def c p
    by (simp add: p mark_other [OF ne] split: bool.split sum.split)
qed

lemma process_leaves_flight:
  assumes "in_flight name ev d"
    and "\<And>x. in_flight name ev x \<Longrightarrow> event_docs name ev (en_meanwhile env x) = event_docs name ev x"
  shows "event_docs name ev (snd (process_billing_event env name' ev' d)) = event_docs name ev d"
proof (cases "same_event name ev name' ev'")
  case True
  then show ?thesis using claim_in_flight [OF assms(1)] by (simp add: process_billing_event_def)
next
  case False
  then show ?thesis using process_other assms by blast
qed

definition leaves :: "billing_provider \<Rightarrow> billing_event \<Rightarrow> (billing_db \<Rightarrow> billing_db) \<Rightarrow> bool" where
  "leaves name ev f \<longleftrightarrow> (\<forall>d. in_flight name ev d \<longrightarrow> event_docs name ev (f d) = event_docs name ev d)"

lemma call_events:
  "call_if_theirs env x call d = (r, d1) \<Longrightarrow> d1 = d \<or> d1 = en_meanwhile env d"
  by (auto simp: call_if_theirs_def split: sum.splits if_splits)

lemma plan_call_events:
  "change_plan_call env x p d = (r, d1) \<Longrightarrow> d1 = d \<or> d1 = en_meanwhile env d"
  by (auto simp: change_plan_call_def dest: call_events split: sum.splits if_splits)

lemma create_events [simp]: "b_events (snd (create_subscription env t i code interval a d)) = b_events d"
  by (auto simp: create_subscription_def Let_def split: option.split sum.split)

lemma cancel_events:
  "b_events (snd (cancel_subscription env t i e d)) = b_events d \<or>
    b_events (snd (cancel_subscription env t i e d)) = b_events (en_meanwhile env d)"
proof (cases "live_subscription t i d")
  case (Some x)
  obtain r d1 where c: "call_if_theirs env x (\<lambda>prov i. bp_cancel prov i (cancel_target x e = S_Cancelling)) d = (r, d1)"
    by fastforce
  with call_events [OF c] Some show ?thesis
    unfolding cancel_subscription_def Let_def
    by (cases "cancel_target x e = S_Cancelling") (auto split: sum.split)
qed (simp add: cancel_subscription_def)

lemma reactivate_events:
  "b_events (snd (reactivate_subscription env t i d)) = b_events d \<or>
    b_events (snd (reactivate_subscription env t i d)) = b_events (en_meanwhile env d)"
proof (cases "live_subscription t i d")
  case (Some x)
  obtain r d1 where c: "call_if_theirs env x bp_reactivate d = (r, d1)" by fastforce
  with call_events [OF c] Some show ?thesis
    unfolding reactivate_subscription_def by (auto split: sum.split)
qed (simp add: reactivate_subscription_def)

lemma change_plan_events:
  "b_events (snd (change_subscription_plan env t i code d)) = b_events d \<or>
    b_events (snd (change_subscription_plan env t i code d)) = b_events (en_meanwhile env d)"
proof (cases "live_subscription t i d")
  case (Some x)
  show ?thesis
  proof (cases "owner_plan t code d")
    case (Inr p)
    obtain r d1 where c: "change_plan_call env x p d = (r, d1)" by fastforce
    with plan_call_events [OF c] Some Inr show ?thesis
      unfolding change_subscription_plan_def Let_def by (auto split: sum.split)
  qed (use Some in \<open>simp add: change_subscription_plan_def\<close>)
qed (simp add: change_subscription_plan_def)

lemma op_leaves_flight:
  assumes "leaves name ev (en_meanwhile env)"
  shows "leaves name ev (run_billing_op env op)"
  unfolding leaves_def
proof (intro allI impI)
  fix d
  assume fl: "in_flight name ev d"
  have mw: "event_docs name ev (en_meanwhile env x) = event_docs name ev x" if "in_flight name ev x" for x
    using assms that by (simp add: leaves_def)
  have two: "event_docs name ev e = event_docs name ev d"
    if "b_events e = b_events d \<or> b_events e = b_events (en_meanwhile env d)" for e
    using that mw [OF fl] by (auto simp: event_docs_def)
  show "event_docs name ev (run_billing_op env op d) = event_docs name ev d"
  proof (cases op)
    case (Op_Billing_Webhook n raw sig)
    then show ?thesis
      using process_leaves_flight [OF fl mw]
      by (auto simp: handle_billing_webhook_def split: sum.split option.split)
  qed (simp_all only: run_billing_op.simps, (rule two, simp add: cancel_events reactivate_events change_plan_events
      reserve_location_slot_def release_location_slot_def reserve_business_slot_def Let_def split: option.split)+)
qed

lemma run_leaves_flight: "billing_run d e \<Longrightarrow> in_flight name ev d \<longrightarrow> event_docs name ev e = event_docs name ev d"
proof (induction rule: billing_run.induct)
  case (run_op d e env op)
  then have "leaves name ev (run_billing_op env op)" by (intro op_leaves_flight) (simp add: leaves_def)
  with run_op.IH(1) show ?case by (auto simp: leaves_def in_flight_def)
qed simp

lemma requests_leave_flight:
  "(\<And>x. billing_run x (en_meanwhile env x)) \<Longrightarrow> leaves name ev (en_meanwhile env)"
  using run_leaves_flight by (simp add: leaves_def)

section \<open>Processed once, retried after a failure\<close>

lemma claim_takes:
  assumes c: "claim_billing_event now name ev d = (True, d1)" and one: "length (event_docs name ev d) \<le> 1"
  shows "\<exists>w. event_docs name ev d1 = [w] \<and> bw_processedAt w = None \<and> bw_processingStartedAt w = Some now"
proof (cases "insert_unique billing_event_clash (new_billing_event name ev now) (b_events d)")
  case (Some ws)
  then have "ws = b_events d @ [new_billing_event name ev now]" "event_docs name ev d = []"
    by (auto dest!: insert_unique_SomeD simp: billing_event_clash_def new_billing_event_def is_event_def
        event_docs_def filter_empty_conv)
  with Some c show ?thesis
    by (auto simp: claim_billing_event_def event_docs_def is_event_def new_billing_event_def)
next
  case None
  let ?q = "\<lambda>w. is_event name ev w \<and> claimable_event w" and ?f = "\<lambda>w. w\<lparr>bw_processingStartedAt := Some now\<rparr>"
  from None c obtain w where w: "find_one ?q (b_events d) = Some w"
    and d1: "d1 = d\<lparr>b_events := update_one ?q ?f (b_events d)\<rparr>"
    by (auto simp: claim_billing_event_def split: option.splits)
  have wq: "w \<in> set (b_events d)" "?q w" using find_one_SomeD [OF w] by auto
  then have "w \<in> set (event_docs name ev d)" by (simp add: event_docs_def)
  then have "event_docs name ev d = [w]" using one by (cases "event_docs name ev d") simp_all
  then have docs: "filter (is_event name ev) (b_events d) = [w]" by (simp add: event_docs_def)
  have "filter (is_event name ev) (update_one ?q ?f xs) = [?f w]" if "filter (is_event name ev) xs = [w]" for xs
    using that wq(2) by (induction xs) (auto simp: is_event_def split: if_splits)
  with docs d1 wq(2) show ?thesis by (auto simp: event_docs_def claimable_event_def)
qed

lemma mark_docs:
  assumes "event_docs name ev d = [w]"
    and "\<And>w. bw_provider (f w) = bw_provider w \<and> bw_eventId (f w) = bw_eventId w"
  shows "event_docs name ev (mark_event name ev f d) = [(f w)\<lparr>bw_processingStartedAt := None\<rparr>]"
proof -
  have "is_event name ev w" using assms(1) by (metis event_docs_def filter_eq_Cons_iff)
  then show ?thesis
    using assms filter_update_same [of "is_event name ev" "b_events d" w "\<lambda>w. (f w)\<lparr>bw_processingStartedAt := None\<rparr>"]
    by (simp add: mark_event_def event_docs_def is_event_def)
qed

definition marked_done :: "billing_provider \<Rightarrow> billing_event \<Rightarrow> billing_db \<Rightarrow> bool" where
  "marked_done name ev d \<longleftrightarrow> (\<exists>w. event_docs name ev d = [w] \<and> bw_processedAt w \<noteq> None)"

lemma mark_done:
  assumes "event_docs name ev d = [w]"
  shows "marked_done name ev (mark_event name ev (event_done now) d)"
    and "marked_done name ev (mark_event name ev (event_ignored now why) d)"
  by (simp_all add: marked_done_def mark_docs [OF assms], simp_all add: event_done_def event_ignored_def)

lemma status_done: "event_docs name ev d = [w] \<Longrightarrow> marked_done name ev (apply_event_status now name ev rep y d)"
  using docs_cong [OF find_and_update_events]
  by (auto simp: apply_event_status_def Let_def mark_done event_docs_def dest!: find_and_update_events
      intro!: mark_done split: prod.split option.split)

lemma apply_done:
  assumes "event_docs name ev d = [w]"
  shows "marked_done name ev (apply_subscription_event now name ev x d)"
proof -
  have "event_docs name ev d1 = [w]" if "apply_provider_details now ev x d = (r, d1)" for r d1
    using details_events [OF that] assms by (simp add: event_docs_def)
  then show ?thesis
    using assms unfolding apply_subscription_event_def
    by (auto simp: event_docs_def intro!: mark_done(1) [of name ev _ w] mark_done(2) [of name ev _ w]
        status_done [of name ev _ w] split: option.split prod.split)
qed

lemma done_is_final:
  assumes "marked_done name ev d"
  shows "process_billing_event env name ev d = (Inr (), d)"
proof -
  obtain w where w: "event_docs name ev d = [w]" "bw_processedAt w \<noteq> None" using assms by (auto simp: marked_done_def)
  have m: "w \<in> set (b_events d)" "is_event name ev w"
    using w(1) by (auto simp: event_docs_def filter_eq_Cons_iff)
  then have "insert_unique billing_event_clash (new_billing_event name ev now) (b_events d) = None" for now
    by (auto simp: insert_unique_None_iff billing_event_clash_def new_billing_event_def is_event_def)
  moreover have "find_one (\<lambda>w. is_event name ev w \<and> claimable_event w) (b_events d) = None"
  proof -
    have "v = w" if "v \<in> set (b_events d)" "is_event name ev v" for v
    proof -
      have "v \<in> set (event_docs name ev d)" using that by (simp add: event_docs_def)
      then show "v = w" by (simp add: w(1))
    qed
    then show ?thesis using w(2) by (auto simp: find_one_None_iff claimable_event_def)
  qed
  ultimately show ?thesis by (simp add: process_billing_event_def claim_billing_event_def)
qed

lemma failed_is_claimable:
  assumes "event_docs name ev d = [w]" "bw_processedAt w = None" "bw_processingStartedAt w = None"
  shows "fst (claim_billing_event now name ev d)"
proof -
  have "w \<in> set (b_events d)" "is_event name ev w" using assms(1) by (auto simp: event_docs_def filter_eq_Cons_iff)
  then have "find_one (\<lambda>w. is_event name ev w \<and> claimable_event w) (b_events d) \<noteq> None"
    using assms(2,3) by (auto simp: find_one_None_iff claimable_event_def)
  then show ?thesis by (auto simp: claim_billing_event_def split: option.split)
qed

definition plan_unknown :: "billing_event \<Rightarrow> billing_db \<Rightarrow> bool" where
  "plan_unknown ev d \<longleftrightarrow> \<not> be_simulated ev \<and>
     (case be_checkout ev of None \<Rightarrow> False | Some m \<Rightarrow> find_active_plan (cm_planCode m) d = None)"

lemma checkout_outcome:
  assumes w: "event_docs name ev d = [w]" "bw_processedAt w = None" "bw_processingStartedAt w \<noteq> None"
    and mw: "leaves name ev (en_meanwhile env)"
    and p: "handle_checkout_completion env name ev m d = (r, d2)" and known: "find_active_plan (cm_planCode m) d \<noteq> None"
  shows "if r = Inr () then marked_done name ev d2 else event_docs name ev d2 = [w]"
proof -
  have "in_flight name ev d" using w by (simp add: in_flight_def)
  then have m: "event_docs name ev (en_meanwhile env d) = [w]" using mw w(1) by (simp add: leaves_def)
  have s: "event_docs name ev e = [w]" if "save_sub y (en_meanwhile env d) = Some e" for y e
    using m save_events [OF that] by (simp add: event_docs_def)
  have fin: "marked_done name ev (mark_event name ev (event_done t) (checkout_rows env name ev m pl st x e))"
    if "event_docs name ev e = [w]" for t pl st x e
    by (rule mark_done(1) [of _ _ _ w]) (use that in \<open>simp add: event_docs_def\<close>)
  have i: "event_docs name ev ((en_meanwhile env d)\<lparr>b_subscriptions := xs\<rparr>) = [w]" for xs
    using m by (simp add: event_docs_def)
  have keep: "event_docs name ev e = [w]" if "d = e" for e using w(1) that by simp
  from p known show ?thesis
    unfolding handle_checkout_completion_def Let_def
    by (auto simp: keep m fin s i mark_done [OF m] split: option.splits sum.splits)
qed

lemma claimed_outcome:
  assumes w: "event_docs name ev d = [w]" "bw_processedAt w = None" "bw_processingStartedAt w \<noteq> None"
    and mw: "leaves name ev (en_meanwhile env)" and known: "\<not> plan_unknown ev d"
    and p: "process_claimed_billing_event env name ev d = (r, d2)"
  shows "if r = Inr () then marked_done name ev d2 else event_docs name ev d2 = [w]"
proof -
  have keep: "event_docs name ev e = [w]" if "d = e" for e using w(1) that by simp
  show ?thesis
    using p known
    by (auto simp: process_claimed_billing_event_def plan_unknown_def Let_def mark_done [OF w(1)] apply_done [OF w(1)] keep
        split: if_splits option.splits dest!: checkout_outcome [OF w mw])
qed

text \<open>C27. An event is processed once, and an attempt that fails is not the last one: when the processing throws,
  the next delivery claims the event again; when it returns, later deliveries change nothing. Other
  requests may run in between, also other deliveries of the same event. (The checkout of an unknown plan is
  the exception.)\<close>

theorem billing_event_retried:
  assumes others: "\<And>x. billing_run x (en_meanwhile env x)"
    and one: "length (event_docs name ev d) \<le> 1" and known: "\<not> plan_unknown ev d"
    and claimed: "fst (claim_billing_event (en_now env) name ev d)"
    and p: "process_billing_event env name ev d = (r, d1)"
  shows "(case r of Inl _ \<Rightarrow> fst (claim_billing_event later name ev d1)
    | Inr _ \<Rightarrow> process_billing_event env' name ev d1 = (Inr (), d1))"
proof -
  obtain c where c: "claim_billing_event (en_now env) name ev d = (True, c)" using claimed by (metis prod.collapse)
  obtain w where w: "event_docs name ev c = [w]" "bw_processedAt w = None" "bw_processingStartedAt w = Some (en_now env)"
    using claim_takes [OF c one] by blast
  have "b_plans c = b_plans d" using c by (auto simp: claim_billing_event_def split: option.splits)
  then have k: "\<not> plan_unknown ev c" using known by (simp add: plan_unknown_def find_active_plan_def split: option.splits)
  obtain q d2 where q: "process_claimed_billing_event env name ev c = (q, d2)" by fastforce
  note out = claimed_outcome [OF w(1,2) _ requests_leave_flight [OF others] k q]
  show ?thesis
  proof (cases q)
    case (Inl e)
    then have "event_docs name ev d2 = [w]" using out w(3) by simp
    then have "event_docs name ev (mark_event name ev (event_failed ''error'') d2) =
        [(event_failed ''error'' w)\<lparr>bw_processingStartedAt := None\<rparr>]" by (rule mark_docs) simp
    then have "fst (claim_billing_event later name ev (mark_event name ev (event_failed ''error'') d2))"
      by (rule failed_is_claimable) (simp_all add: event_failed_def w)
    then show ?thesis using p c q Inl by (auto simp: process_billing_event_def)
  next
    case (Inr u)
    then have "marked_done name ev d2" using out w(3) by simp
    moreover have "r = Inr ()" "d1 = d2" using p c q Inr by (auto simp: process_billing_event_def)
    ultimately show ?thesis by (simp add: done_is_final)
  qed
qed

section \<open>The order of subscription events\<close>

definition doc :: "oid \<Rightarrow> billing_db \<Rightarrow> subscription option" where
  "doc i d = find_one (\<lambda>y. su_id y = i) (b_subscriptions d)"

lemma update_by_id:
  assumes ids: "distinct (map su_id (b_subscriptions d))" and x: "doc i d = Some x"
    and f: "\<And>y. su_id (f y) = su_id y"
  shows "\<not> g x \<Longrightarrow> find_and_update_sub (\<lambda>y. su_id y = i \<and> g y) f d = (None, d)"
    and "g x \<Longrightarrow> \<exists>d'. find_and_update_sub (\<lambda>y. su_id y = i \<and> g y) f d = (Some (f x), d') \<and> doc i d' = Some (f x) \<and>
      distinct (map su_id (b_subscriptions d'))"
proof -
  have found: "find_one (\<lambda>y. su_id y = i \<and> g y) (b_subscriptions d) = (if g x then Some x else None)"
    using find_guarded [OF ids, of i g] x by (simp add: doc_def)
  show "\<not> g x \<Longrightarrow> find_and_update_sub (\<lambda>y. su_id y = i \<and> g y) f d = (None, d)"
    using found by (simp add: find_and_update_sub_def)
  assume g: "g x"
  then have u: "update_one (\<lambda>y. su_id y = i \<and> g y) f (b_subscriptions d) = update_one (\<lambda>y. su_id y = i) f (b_subscriptions d)"
    using update_guarded [OF ids, of i g x f] found by simp
  have "map su_id (update_one (\<lambda>y. su_id y = i) f (b_subscriptions d)) = map su_id (b_subscriptions d)"
    by (rule map_update_one) (simp add: f)
  with ids x f g found show "\<exists>d'. find_and_update_sub (\<lambda>y. su_id y = i \<and> g y) f d = (Some (f x), d') \<and>
      doc i d' = Some (f x) \<and> distinct (map su_id (b_subscriptions d'))"
    by (simp add: find_and_update_sub_def u doc_def find_id_update [of su_id f, OF f])
qed

lemma doc_frame [simp]:
  "doc i (record_history h d) = doc i d" "doc i (mark_event name ev f d) = doc i d"
  by (simp_all add: doc_def)

lemma event_details_fields [simp]:
  "su_id (event_details ev ch x) = su_id x" "su_status (event_details ev ch x) = su_status x"
  "su_lastProviderEventAt (event_details ev ch x) = su_lastProviderEventAt x"
  by (auto simp: event_details_def Let_def split: option.split scheduled_cancel.split)

lemma details_result:
  assumes ids: "distinct (map su_id (b_subscriptions d))" and x: "doc (su_id x) d = Some x"
    and t: "be_occurredAt ev = Some t" and newer: "not_older (Some t) x"
  shows "\<exists>y d1. apply_provider_details now ev x d = (Some y, d1) \<and> doc (su_id x) d1 = Some y \<and>
    distinct (map su_id (b_subscriptions d1)) \<and> su_id y = su_id x \<and> su_status y = su_status x \<and>
    su_lastProviderEventAt y = Some t"
proof -
  let ?x = "x\<lparr>su_lastProviderEventAt := Some t\<rparr>"
  from update_by_id(2) [OF ids x, of "\<lambda>y. y\<lparr>su_lastProviderEventAt := Some t\<rparr>" "not_older (Some t)"] newer
  obtain e where e: "claim_order ev x d = (Some ?x, e)" "doc (su_id x) e = Some ?x"
    "distinct (map su_id (b_subscriptions e))" by (auto simp: claim_order_def t)
  let ?ch = "price_change (be_priceId ev) ?x e"
  have "not_older (Some t) ?x" by (simp add: not_older_def)
  with update_by_id(2) [OF e(3) e(2), of "event_details ev ?ch" "not_older (Some t)"]
  obtain e2 where e2: "find_and_update_sub (\<lambda>y. su_id y = su_id x \<and> not_older (Some t) y) (event_details ev ?ch) e =
      (Some (event_details ev ?ch ?x), e2)" "doc (su_id x) e2 = Some (event_details ev ?ch ?x)"
    "distinct (map su_id (b_subscriptions e2))" by auto
  show ?thesis
  proof (cases "has_details ev ?ch")
    case True
    then have "apply_provider_details now ev x d = (Some (event_details ev ?ch ?x), case ?ch of None \<Rightarrow> e2
        | Some (p, r) \<Rightarrow> record_history ((history_of (event_details ev ?ch ?x) H_Plan_Changed now)
            \<lparr>hi_amountCents := pp_amountCents r, hi_currency := pp_currency r,
             hi_reference := Some (be_eventId ev), hi_metadata := Meta_Plan (pl_code p) True\<rparr>) e2)"
      using e(1) e2(1) by (simp add: apply_provider_details_def Let_def t)
    then show ?thesis using e2 by (auto split: option.split)
  next
    case False
    then have "apply_provider_details now ev x d = (Some ?x, e)" using e(1) by (simp add: apply_provider_details_def Let_def)
    then show ?thesis using e by auto
  qed
qed

definition status_after :: "sub_status \<Rightarrow> provider_status \<Rightarrow> scheduled_cancel \<Rightarrow> sub_status" where
  "status_after s reported c =
     (let g = resolve_transition_target s reported c in if is_valid_sub_transition s g then g else s)"

lemma status_result:
  assumes ids: "distinct (map su_id (b_subscriptions d))" and x: "doc (su_id x) d = Some x"
    and last: "not_older (be_occurredAt ev) x"
  shows "\<exists>y. doc (su_id x) (apply_event_status now name ev rep x d) = Some y \<and>
    su_status y = status_after (su_status x) rep (be_scheduledCancel ev) \<and>
    su_lastProviderEventAt y = su_lastProviderEventAt x"
proof -
  let ?g = "resolve_transition_target (su_status x) rep (be_scheduledCancel ev)"
  from update_by_id(2) [OF ids x, of "moved_by_event now (su_status x) ?g"
      "\<lambda>y. su_status y = su_status x \<and> not_older (be_occurredAt ev) y"] last
  obtain e where "find_and_update_sub (\<lambda>y. su_id y = su_id x \<and> su_status y = su_status x \<and> not_older (be_occurredAt ev) y)
      (moved_by_event now (su_status x) ?g) d = (Some (moved_by_event now (su_status x) ?g x), e)"
    "doc (su_id x) e = Some (moved_by_event now (su_status x) ?g x)" by auto
  then show ?thesis
    using x by (auto simp: apply_event_status_def status_after_def Let_def split: option.split)
qed

lemma fresh_claim:
  assumes "event_docs name ev d = []"
  shows "\<exists>c. claim_billing_event now name ev d = (True, c) \<and> b_subscriptions c = b_subscriptions d \<and>
    b_history c = b_history d \<and> b_plans c = b_plans d"
proof -
  have "insert_unique billing_event_clash (new_billing_event name ev now) (b_events d) =
      Some (b_events d @ [new_billing_event name ev now])"
    using assms by (auto simp: insert_unique_def list_ex_iff event_docs_def filter_empty_conv billing_event_clash_def
        new_billing_event_def is_event_def)
  then show ?thesis by (simp add: claim_billing_event_def)
qed

text \<open>C30. A subscription event is applied unless a newer state is already recorded: then it changes no
  subscription and makes no history row. When applied it leaves its time on the subscription, and the
  status it reports is taken over exactly when the table allows the move.\<close>

theorem subscription_events_in_order:
  assumes ids: "distinct (map su_id (b_subscriptions d))" and fresh: "event_docs name ev d = []"
    and sub: "subscription_of_event name ev d = Some x" and st: "be_status ev = Some rep"
    and t: "be_occurredAt ev = Some t" and real: "\<not> be_simulated ev" "be_checkout ev = None"
    and p: "process_billing_event env name ev d = (r, d1)"
  shows "r = Inr () \<and>
    (if not_older (Some t) x
     then \<exists>y. doc (su_id x) d1 = Some y \<and> su_lastProviderEventAt y = Some t \<and>
       su_status y = status_after (su_status x) rep (be_scheduledCancel ev)
     else b_subscriptions d1 = b_subscriptions d \<and> b_history d1 = b_history d)"
proof -
  obtain c where c: "claim_billing_event (en_now env) name ev d = (True, c)"
    "b_subscriptions c = b_subscriptions d" "b_history c = b_history d" using fresh_claim [OF fresh] by blast
  have x: "x \<in> set (b_subscriptions d)" using sub by (auto simp: subscription_of_event_def dest: find_one_SomeD split: if_splits)
  have xc: "doc (su_id x) c = Some x" using find_id_mem [OF ids x] by (simp add: doc_def c)
  have idc: "distinct (map su_id (b_subscriptions c))" using ids by (simp add: c)
  have sc: "subscription_of_event name ev c = Some x" using sub unfolding subscription_of_event_def c .
  have res: "r = Inr ()" "d1 = apply_subscription_event (en_now env) name ev x c"
    using p c(1) sc real by (simp_all add: process_billing_event_def process_claimed_billing_event_def Let_def)
  show ?thesis
  proof (cases "not_older (Some t) x")
    case True
    from details_result [OF idc xc t True] obtain y e where y:
      "apply_provider_details (en_now env) ev x c = (Some y, e)" "doc (su_id x) e = Some y"
      "distinct (map su_id (b_subscriptions e))" "su_id y = su_id x" "su_status y = su_status x"
      "su_lastProviderEventAt y = Some t" by blast
    have "not_older (be_occurredAt ev) y" using y(6) by (simp add: t not_older_def)
    from status_result [OF y(3) y(2) [folded y(4)] this, of "en_now env" name rep]
    show ?thesis using True res y by (auto simp: apply_subscription_event_def st)
  next
    case False
    then have "claim_order ev x c = (None, c)"
      using update_by_id(1) [OF idc xc, of _ "not_older (Some t)"] by (simp add: claim_order_def t)
    then have "apply_provider_details (en_now env) ev x c = (None, c)" by (simp add: apply_provider_details_def)
    then show ?thesis using False res c by (simp add: apply_subscription_event_def st mark_event_def)
  qed
qed

section \<open>Instances\<close>

text \<open>A provider that cannot be reached, then one that can.\<close>

definition down_env :: billing_env where
  "down_env = sample_benv\<lparr>en_provider := Some (sample_billing\<lparr>bp_retrieve := \<lambda>_. Inl ''timeout''\<rparr>)\<rparr>"

lemma quiet: "billing_run x (en_meanwhile down_env x)" "billing_run x (en_meanwhile sample_benv x)"
  by (simp_all add: down_env_def sample_benv_def run_nil)

theorem billing_event_retried_witness:
  "fst (process_billing_event down_env Paddle_Billing (checkout_event ''growth'') sample_bdb) = Inl (Thrown ''timeout'') \<and>
    fst (claim_billing_event 9 Paddle_Billing (checkout_event ''growth'')
      (snd (process_billing_event down_env Paddle_Billing (checkout_event ''growth'') sample_bdb)))"
proof -
  have r: "fst (process_billing_event down_env Paddle_Billing (checkout_event ''growth'') sample_bdb) = Inl (Thrown ''timeout'')"
    by code_simp
  have one: "length (event_docs Paddle_Billing (checkout_event ''growth'') sample_bdb) \<le> 1" by code_simp
  have known: "\<not> plan_unknown (checkout_event ''growth'') sample_bdb" by code_simp
  have claimed: "fst (claim_billing_event (en_now down_env) Paddle_Billing (checkout_event ''growth'') sample_bdb)" by code_simp
  show ?thesis
    using billing_event_retried [OF quiet(1) one known claimed prod.collapse [symmetric], of 9] r by simp
qed

theorem subscription_events_in_order_witness:
  "b_subscriptions (snd (process_billing_event sample_benv Paddle_Billing (status_event ''e1'' PS_Past_Due 4000)
      (with_sub paid_sub))) = [paid_sub]"
proof -
  let ?ev = "status_event ''e1'' PS_Past_Due 4000"
  have ids: "distinct (map su_id (b_subscriptions (with_sub paid_sub)))" by code_simp
  have fresh: "event_docs Paddle_Billing ?ev (with_sub paid_sub) = []" by code_simp
  have sub: "subscription_of_event Paddle_Billing ?ev (with_sub paid_sub) = Some paid_sub"
    by (simp add: subscription_of_event_def with_sub_def paid_sub_def local_trial_def new_trial_def sample_benv_def
        sample_bdb_def status_event_def Let_def)
  have f: "be_status ?ev = Some PS_Past_Due" "be_occurredAt ?ev = Some 4000" "\<not> be_simulated ?ev" "be_checkout ?ev = None"
    by (simp_all add: status_event_def)
  have old: "\<not> not_older (Some 4000) paid_sub" by code_simp
  have "b_subscriptions (with_sub paid_sub) = [paid_sub]" by (simp add: with_sub_def)
  then show ?thesis
    using subscription_events_in_order [OF ids fresh sub f prod.collapse [symmetric]] old by simp
qed

end
