(* ===== verification/Billing_Behaviour.thy ===== *)
theory Billing_Behaviour
  imports Billing_Events
begin

text \<open>
  What single billing operations do: the sweep leaves every entitlement decision as it is and brings the
  statuses in line with it, events apply in the order of their times and a failed one is processed again,
  a completed checkout gives the owner one live subscription, location slots stay within the limit of the
  plan. Then the behaviours in which the code departs from what it says.
\<close>

section \<open>The sweep\<close>


definition expired_if :: "(subscription \<Rightarrow> bool) \<Rightarrow> subscription \<Rightarrow> subscription" where
  "expired_if p x = (if p x then x\<lparr>su_status := S_Expired\<rparr> else x)"

lemma expired_if_keys [simp]:
  "su_id (expired_if p x) = su_id x" "su_createdAt (expired_if p x) = su_createdAt x"
  "su_planId (expired_if p x) = su_planId x" "commercial_of t i (expired_if p x) = commercial_of t i x"
  "su_provider (expired_if p x) = su_provider x" "su_trialEnd (expired_if p x) = su_trialEnd x"
  "su_providerSubscriptionId (expired_if p x) = su_providerSubscriptionId x"
  by (simp_all add: expired_if_def commercial_of_def)










lemma resolution_cong:
  "b_subscriptions d = b_subscriptions e \<Longrightarrow> b_plans d = b_plans e \<Longrightarrow>
    resolve_subscription_state env t i d = resolve_subscription_state env t i e"
  unfolding resolve_subscription_state_def by (simp split: option.split)

lemma sweep_frame [simp]:
  "b_plans (run_trial_expiration_sweep env d) = b_plans d"
  "b_businesses (run_trial_expiration_sweep env d) = b_businesses d"
  "b_agencies (run_trial_expiration_sweep env d) = b_agencies d"
proof -
  have r: "b_plans (record_history h e) = b_plans e \<and> b_businesses (record_history h e) = b_businesses e \<and>
      b_agencies (record_history h e) = b_agencies e" for h e
    by (auto simp: record_history_def split: option.split)
  have "b_plans (expire_trial now x e) = b_plans e \<and> b_businesses (expire_trial now x e) = b_businesses e \<and>
      b_agencies (expire_trial now x e) = b_agencies e" for now x e
    by (simp add: expire_trial_def find_and_update_sub_def r split: option.split)
  then have "b_plans (fold (expire_trial now) xs e) = b_plans e \<and>
      b_businesses (fold (expire_trial now) xs e) = b_businesses e \<and>
      b_agencies (fold (expire_trial now) xs e) = b_agencies e" for now xs e
    by (induction xs arbitrary: e) simp_all
  then show "b_plans (run_trial_expiration_sweep env d) = b_plans d"
    "b_businesses (run_trial_expiration_sweep env d) = b_businesses d"
    "b_agencies (run_trial_expiration_sweep env d) = b_agencies d"
    by (simp_all add: run_trial_expiration_sweep_def Let_def)
qed





section \<open>A checkout completed\<close>

lemma find_one_only: "y \<in> set xs \<Longrightarrow> p y \<Longrightarrow> (\<And>z. z \<in> set xs \<Longrightarrow> p z \<Longrightarrow> z = y) \<Longrightarrow> find_one p xs = Some y"
proof (cases "find_one p xs")
  case None
  then show "y \<in> set xs \<Longrightarrow> p y \<Longrightarrow> find_one p xs = Some y" by (simp add: find_one_None_iff)
next
  case (Some x)
  assume "\<And>z. z \<in> set xs \<Longrightarrow> p z \<Longrightarrow> z = y"
  from this [of x] find_one_SomeD [OF Some] Some show "find_one p xs = Some y" by simp
qed

lemma keys_no_clash:
  assumes "unique_keys xs" "x \<in> set xs" "y \<in> set xs" "sub_clash x y"
  shows "x = y"
  using assms by (induction xs) (auto simp: unique_keys_def clash_sym)

definition owned_live :: "checkout_metadata \<Rightarrow> subscription \<Rightarrow> bool" where
  "owned_live m x \<longleftrightarrow> su_ownerType x = cm_ownerType m \<and> su_ownerId x = cm_ownerId m \<and> is_live x"

lemma one_owned_live:
  assumes "unique_keys xs" "x \<in> set xs" "y \<in> set xs" "owned_live m x" "owned_live m y"
  shows "x = y"
  using assms keys_no_clash [of xs x y] by (auto simp: owned_live_def sub_clash_def same_owner_def)

lemma local_trial_is_live:
  assumes "unique_keys (b_subscriptions d)"
    and "case live_subscription (cm_ownerType m) (cm_ownerId m) d of None \<Rightarrow> True | Some x \<Rightarrow> su_providerSubscriptionId x = None"
  shows "local_trial_of m d = live_subscription (cm_ownerType m) (cm_ownerId m) d"
proof (cases "live_subscription (cm_ownerType m) (cm_ownerId m) d")
  case None
  then have "local_trial_of m d = None" by (auto simp: live_subscription_def local_trial_of_def find_one_None_iff)
  with None show ?thesis by simp
next
  case (Some x)
  then have x: "x \<in> set (b_subscriptions d)" "owned_live m x"
    using find_one_SomeD [OF Some [unfolded live_subscription_def]] by (auto simp: owned_live_def)
  have "find_one (\<lambda>x. su_ownerType x = cm_ownerType m \<and> su_ownerId x = cm_ownerId m \<and> is_live x \<and>
      su_providerSubscriptionId x = None) (b_subscriptions d) = Some x"
  proof (rule find_one_only [OF x(1)])
    show "su_ownerType x = cm_ownerType m \<and> su_ownerId x = cm_ownerId m \<and> is_live x \<and> su_providerSubscriptionId x = None"
      using x(2) assms(2) Some by (simp add: owned_live_def)
    fix z
    assume z: "z \<in> set (b_subscriptions d)"
      "su_ownerType z = cm_ownerType m \<and> su_ownerId z = cm_ownerId m \<and> is_live z \<and> su_providerSubscriptionId z = None"
    show "z = x" by (rule one_owned_live [OF assms(1) z(1) x(1) _ x(2)]) (simp add: owned_live_def z(2))
  qed
  then show ?thesis using Some by (simp add: local_trial_of_def)
qed

text \<open>After a write that leaves the keys unique, the owner's live subscription is the written document.\<close>

lemma live_after_write:
  assumes "unique_keys (b_subscriptions d)" "y \<in> set (b_subscriptions d)" "owned_live m y"
  shows "live_subscription (cm_ownerType m) (cm_ownerId m) d = Some y \<and>
    (\<forall>z \<in> set (b_subscriptions d). owned_live m z \<longrightarrow> z = y)"
proof -
  have u: "z = y" if "z \<in> set (b_subscriptions d)" "owned_live m z" for z
    using one_owned_live [OF assms(1) that(1) assms(2) that(2) assms(3)] .
  have "live_subscription (cm_ownerType m) (cm_ownerId m) d = Some y"
    unfolding live_subscription_def
  proof (rule find_one_only [OF assms(2)])
    show "su_ownerType y = cm_ownerType m \<and> su_ownerId y = cm_ownerId m \<and> is_live y"
      using assms(3) by (simp add: owned_live_def)
    fix z
    assume z: "z \<in> set (b_subscriptions d)" "su_ownerType z = cm_ownerType m \<and> su_ownerId z = cm_ownerId m \<and> is_live z"
    show "z = y" by (rule u [OF z(1)]) (simp add: owned_live_def z(2))
  qed
  with u show ?thesis by blast
qed

lemma checkout_live [simp]: "is_live (checked_out env name ev m p s)" "is_live (converted_trial name ev m p s x)"
  by (simp_all add: checked_out_def converted_trial_def checkout_status_def is_live_def live_statuses_def)

lemma save_sub_free:
  assumes "\<And>z. z \<in> set (b_subscriptions d) \<Longrightarrow> su_id z \<noteq> su_id y \<Longrightarrow> \<not> sub_clash y z"
  shows "save_sub y d = Some (d\<lparr>b_subscriptions := update_one (\<lambda>z. su_id z = su_id y) (\<lambda>_. y) (b_subscriptions d)\<rparr>)"
  using assms by (auto simp: save_sub_def list_ex_iff)

definition completed :: "checkout_metadata \<Rightarrow> billing_event \<Rightarrow> plan \<Rightarrow> subscription_snapshot \<Rightarrow> oid \<Rightarrow> billing_db \<Rightarrow> bool" where
  "completed m ev p s i d \<longleftrightarrow> (\<exists>y. live_subscription (cm_ownerType m) (cm_ownerId m) d = Some y \<and>
     (\<forall>z \<in> set (b_subscriptions d). owned_live m z \<longrightarrow> z = y) \<and> su_id y = i \<and>
     su_providerSubscriptionId y = Some (be_subscriptionId ev) \<and> su_planId y = pl_id p \<and>
     su_interval y = cm_interval m \<and> su_status y = checkout_status s)"

lemma completed_cong: "b_subscriptions d = b_subscriptions e \<Longrightarrow> completed m ev p s i d = completed m ev p s i e"
  by (simp add: completed_def live_subscription_def)

lemma trial_converted:
  assumes keys: "unique_keys (b_subscriptions d)" and x: "local_trial_of m d = Some x"
    and ref: "\<forall>z \<in> set (b_subscriptions d). \<not> (su_provider z = name \<and> su_providerSubscriptionId z = Some (be_subscriptionId ev))"
  shows "\<exists>e. save_sub (converted_trial name ev m p s x) d = Some e \<and> completed m ev p s (su_id x) e"
proof -
  let ?y = "converted_trial name ev m p s x"
  have xs: "x \<in> set (b_subscriptions d)" and own: "owned_live m x"
    using find_one_SomeD [OF x [unfolded local_trial_of_def]] by (auto simp: owned_live_def)
  have cv: "conversion x ?y" by (rule local_trial_converts(2) [OF x])
  then have yx: "su_id ?y = su_id x" "same_owner x ?y" by (simp_all add: conversion_def same_document_def)
  have free: "\<not> sub_clash ?y z" if "z \<in> set (b_subscriptions d)" "su_id z \<noteq> su_id ?y" for z
  proof -
    have "\<not> (is_live z \<and> same_owner x z)"
      using one_owned_live [OF keys that(1) xs _ own] that own by (auto simp: owned_live_def same_owner_def yx)
    moreover have "\<not> same_provider_ref ?y z" using ref that by (auto simp: same_provider_ref_def converted_trial_def)
    ultimately show ?thesis using that yx by (auto simp: sub_clash_def same_owner_def)
  qed
  let ?e = "d\<lparr>b_subscriptions := update_one (\<lambda>z. su_id z = su_id ?y) (\<lambda>_. ?y) (b_subscriptions d)\<rparr>"
  have sv: "save_sub ?y d = Some ?e" by (rule save_sub_free) (rule free)
  have "writes d ?e" by (rule save_writes [OF sv xs cv unique_keys_ids [OF keys]])
  then have k: "unique_keys (b_subscriptions ?e)" using keys.writes_keep keys by (simp add: writes_def)
  have "find_one (\<lambda>z. su_id z = su_id ?y) (b_subscriptions d) = Some x"
    using find_id_mem [OF unique_keys_ids [OF keys] xs] by (simp add: yx)
  from update_one_split [OF this, of "\<lambda>_. ?y"] have "?y \<in> set (b_subscriptions ?e)" by auto
  moreover have "owned_live m ?y" using own yx by (simp add: owned_live_def same_owner_def)
  ultimately have "completed m ev p s (su_id x) ?e"
    using live_after_write [OF k] yx(1) by (auto simp: completed_def) (auto simp: converted_trial_def)
  with sv show ?thesis by blast
qed

lemma checkout_opened:
  assumes keys: "unique_keys (b_subscriptions d)" and none: "live_subscription (cm_ownerType m) (cm_ownerId m) d = None"
    and ref: "\<forall>z \<in> set (b_subscriptions d). \<not> (su_provider z = name \<and> su_providerSubscriptionId z = Some (be_subscriptionId ev))"
    and newid: "\<forall>z \<in> set (b_subscriptions d). su_id z \<noteq> en_newId env"
  shows "\<exists>xs. insert_unique sub_clash (checked_out env name ev m p s) (b_subscriptions d) = Some xs \<and>
    completed m ev p s (en_newId env) (d\<lparr>b_subscriptions := xs\<rparr>)"
proof -
  let ?y = "checked_out env name ev m p s" and ?e = "d\<lparr>b_subscriptions := b_subscriptions d @ [checked_out env name ev m p s]\<rparr>"
  have noown: "\<not> owned_live m z" if "z \<in> set (b_subscriptions d)" for z
    using none that by (auto simp: live_subscription_def find_one_None_iff owned_live_def)
  have own: "owned_live m ?y" by (simp add: owned_live_def) (simp add: checked_out_def)
  have ins: "insert_unique sub_clash ?y (b_subscriptions d) = Some (b_subscriptions ?e)"
    using noown own ref newid
    by (auto simp: insert_unique_def list_ex_iff sub_clash_def same_owner_def same_provider_ref_def owned_live_def)
      (auto simp: checked_out_def)
  have k: "unique_keys (b_subscriptions ?e)" using keys.insert_keeps [of "b_subscriptions d" ?y] keys ins by simp
  have "completed m ev p s (en_newId env) ?e"
    using live_after_write [OF k _ own] by (auto simp: completed_def) (auto simp: checked_out_def)
  with ins show ?thesis by auto
qed

text \<open>A completed checkout of an active plan gives the owner exactly one live subscription, the provider's:
  the local trial keeps its identity when there is one, else a new subscription is created.\<close>

theorem checkout_completes:
  assumes keys: "unique_keys (b_subscriptions d)" and fresh: "event_docs name ev d = []"
    and ev: "be_checkout ev = Some m" "\<not> be_simulated ev"
    and plan: "find_active_plan (cm_planCode m) d = Some p"
    and prov: "en_provider env = Some prov" "bp_retrieve prov (be_subscriptionId ev) = Inr s"
    and alone: "en_meanwhile env = (\<lambda>d. d)"
    and ref: "\<forall>z \<in> set (b_subscriptions d). \<not> (su_provider z = name \<and> su_providerSubscriptionId z = Some (be_subscriptionId ev))"
    and newid: "\<forall>z \<in> set (b_subscriptions d). su_id z \<noteq> en_newId env"
    and local: "case live_subscription (cm_ownerType m) (cm_ownerId m) d of None \<Rightarrow> True | Some x \<Rightarrow> su_providerSubscriptionId x = None"
    and p: "process_billing_event env name ev d = (r, d1)"
  shows "r = Inr () \<and> completed m ev p s
    (case live_subscription (cm_ownerType m) (cm_ownerId m) d of None \<Rightarrow> en_newId env | Some x \<Rightarrow> su_id x) d1"
proof -
  obtain c where c: "claim_billing_event (en_now env) name ev d = (True, c)"
    "b_subscriptions c = b_subscriptions d" "b_plans c = b_plans d" using fresh_claim [OF fresh] by blast
  let ?L = "live_subscription (cm_ownerType m) (cm_ownerId m)"
  have keysc: "unique_keys (b_subscriptions c)" using keys by (simp add: c)
  have refc: "\<forall>z \<in> set (b_subscriptions c). \<not> (su_provider z = name \<and> su_providerSubscriptionId z = Some (be_subscriptionId ev))"
    using ref by (simp add: c)
  have live: "?L c = ?L d" by (simp add: live_subscription_def c)
  have loc: "local_trial_of m c = ?L d" using local_trial_is_live [OF keysc, of m] local by (simp add: live)
  have planc: "find_active_plan (cm_planCode m) c = Some p" using plan by (simp add: find_active_plan_def c)
  have gp: "get_billing_provider env = Inr prov" by (simp add: get_billing_provider_def prov)
  note run = process_billing_event_def process_claimed_billing_event_def handle_checkout_completion_def
  show ?thesis
  proof (cases "?L d")
    case (Some x)
    then have "local_trial_of m c = Some x" using loc by simp
    from trial_converted [OF keysc this refc] obtain e
      where e: "save_sub (converted_trial name ev m p s x) c = Some e" "completed m ev p s (su_id x) e" by blast
    have "r = Inr ()" "b_subscriptions d1 = b_subscriptions e"
      using p c(1) by (auto simp: run Let_def ev planc gp prov alone loc Some e(1))
    with e(2) Some show ?thesis using completed_cong [of d1 e] by simp
  next
    case None
    then have "?L c = None" using live by simp
    moreover have "\<forall>z \<in> set (b_subscriptions c). su_id z \<noteq> en_newId env" using newid by (simp add: c)
    ultimately obtain xs
      where xs: "insert_unique sub_clash (checked_out env name ev m p s) (b_subscriptions c) = Some xs"
        "completed m ev p s (en_newId env) (c\<lparr>b_subscriptions := xs\<rparr>)" using checkout_opened [OF keysc _ refc] by blast
    have "r = Inr ()" "b_subscriptions d1 = xs"
      using p c(1) by (auto simp: run Let_def ev planc gp prov alone loc None xs(1))
    with xs(2) None show ?thesis using completed_cong [of d1 "c\<lparr>b_subscriptions := xs\<rparr>"] by simp
  qed
qed

definition checkout_env :: billing_env where
  "checkout_env = sample_benv\<lparr>en_newId := ''s2''\<rparr>"

theorem checkout_completes_witness:
  "\<exists>m. completed m (checkout_event ''growth'') growth_plan sample_snapshot ''s1''
    (snd (process_billing_event checkout_env Paddle_Billing (checkout_event ''growth'') (with_sub local_trial)))"
proof -
  let ?ev = "checkout_event ''growth''" and ?d = "with_sub local_trial"
  let ?m = "\<lparr>cm_ownerType = Business_Owner, cm_ownerId = ''b1'', cm_planCode = ''growth'', cm_interval = Monthly,
    cm_customerId = ''ctm_1''\<rparr>"
  have m: "be_checkout ?ev = Some ?m" "\<not> be_simulated ?ev" by (simp_all add: checkout_event_def status_event_def)
  have subs: "b_subscriptions ?d = [local_trial]" by (simp add: with_sub_def)
  have t: "su_providerSubscriptionId local_trial = None" "is_live local_trial" "su_ownerType local_trial = Business_Owner"
    "su_ownerId local_trial = ''b1''" "su_id local_trial = ''s1''" by code_simp+
  have live: "live_subscription (cm_ownerType ?m) (cm_ownerId ?m) ?d = Some local_trial"
    by (simp add: live_subscription_def subs t)
  have keys: "unique_keys (b_subscriptions ?d)" by (simp add: unique_keys_def subs)
  have fresh: "event_docs Paddle_Billing ?ev ?d = []" by code_simp
  have plan: "find_active_plan (cm_planCode ?m) ?d = Some growth_plan"
    by (simp add: find_active_plan_def with_sub_def sample_bdb_def growth_plan_def)
  have prov: "en_provider checkout_env = Some sample_billing" "bp_retrieve sample_billing (be_subscriptionId ?ev) = Inr sample_snapshot"
    by (simp_all add: checkout_env_def sample_benv_def sample_billing_def)
  have alone: "en_meanwhile checkout_env = (\<lambda>d. d)" by (simp add: checkout_env_def sample_benv_def)
  have ref: "\<forall>z \<in> set (b_subscriptions ?d). \<not> (su_provider z = Paddle_Billing \<and>
      su_providerSubscriptionId z = Some (be_subscriptionId ?ev))" by (simp add: subs t)
  have newid: "\<forall>z \<in> set (b_subscriptions ?d). su_id z \<noteq> en_newId checkout_env"
    by (simp add: subs t checkout_env_def)
  have local: "case live_subscription (cm_ownerType ?m) (cm_ownerId ?m) ?d of None \<Rightarrow> True
      | Some x \<Rightarrow> su_providerSubscriptionId x = None" unfolding live by (simp add: t)
  show ?thesis
    using checkout_completes [OF keys fresh m plan prov alone ref newid local prod.collapse [symmetric]]
    unfolding live by (auto simp: t)
qed

section \<open>Location slots\<close>

text \<open>The limit a reservation is made with, as a whole number.\<close>

definition slot_state :: "oid \<Rightarrow> billing_db \<Rightarrow> bool" where
  "slot_state i d \<longleftrightarrow> distinct (map bu_id (b_businesses d)) \<and> find_business i d \<noteq> None"

definition locations_of :: "oid \<Rightarrow> billing_db \<Rightarrow> int" where
  "locations_of i d = (case find_business i d of None \<Rightarrow> 0 | Some b \<Rightarrow> bu_locationCount b)"

definition try_reserve :: "billing_env \<Rightarrow> oid \<Rightarrow> billing_db \<Rightarrow> billing_db option" where
  "try_reserve env i d = (case reserve_location_slot env i d of (Inl _, _) \<Rightarrow> None | (Inr _, d') \<Rightarrow> Some d')"

lemma reserve_iff:
  assumes "slot_state i d"
  shows "try_reserve env i d = (if of_int (locations_of i d) < get_max_locations env i d
    then Some (inc_locations i 1 (\<lambda>b. of_int (bu_locationCount b) < get_max_locations env i d) d) else None)"
  using assms find_guarded [of bu_id "b_businesses d" i "\<lambda>b. of_int (bu_locationCount b) < get_max_locations env i d"]
  by (auto simp: slot_state_def try_reserve_def reserve_location_slot_def Let_def locations_of_def find_business_def
      split: option.splits)

lemma reserved:
  assumes st: "slot_state i d" and below: "of_int (locations_of i d) < m"
  shows "find_business j (inc_locations i 1 (\<lambda>b. of_int (bu_locationCount b) < m) d) =
    (if j = i then map_option (\<lambda>b. b\<lparr>bu_locationCount := bu_locationCount b + 1\<rparr>) (find_business i d) else find_business j d)"
    "slot_state i (inc_locations i 1 (\<lambda>b. of_int (bu_locationCount b) < m) d)"
proof -
  let ?f = "\<lambda>b. b\<lparr>bu_locationCount := bu_locationCount b + 1\<rparr>"
  obtain b where b: "find_one (\<lambda>b. bu_id b = i) (b_businesses d) = Some b" using st by (auto simp: slot_state_def find_business_def)
  have ids: "distinct (map bu_id (b_businesses d))" using st by (simp add: slot_state_def)
  have "find_one (\<lambda>b. bu_id b = i \<and> of_int (bu_locationCount b) < m) (b_businesses d) = Some b"
    using below b by (simp add: find_guarded [OF ids] locations_of_def find_business_def)
  then have u: "update_one (\<lambda>b. bu_id b = i \<and> of_int (bu_locationCount b) < m) ?f (b_businesses d) =
      update_one (\<lambda>b. bu_id b = i) ?f (b_businesses d)" by (rule update_guarded [OF ids])
  show f: "find_business j (inc_locations i 1 (\<lambda>b. of_int (bu_locationCount b) < m) d) =
    (if j = i then map_option ?f (find_business i d) else find_business j d)" for j
    by (simp add: find_business_def inc_locations_def u find_id_update [of bu_id ?f])
  have "map bu_id (update_one (\<lambda>b. bu_id b = i) ?f (b_businesses d)) = map bu_id (b_businesses d)"
    by (rule map_update_one) simp
  with ids b f [of i] show "slot_state i (inc_locations i 1 (\<lambda>b. of_int (bu_locationCount b) < m) d)"
    by (simp add: slot_state_def inc_locations_def u find_business_def)
qed

lemma reserved_frame [simp]:
  "b_subscriptions (inc_locations i k g d) = b_subscriptions d" "b_plans (inc_locations i k g d) = b_plans d"
  by (simp_all add: inc_locations_def)

lemma reserved_plan:
  assumes "slot_state i d" "of_int (locations_of i d) < m"
  shows "resolve_business_plan env i (inc_locations i 1 (\<lambda>b. of_int (bu_locationCount b) < m) d) = resolve_business_plan env i d"
proof -
  let ?e = "inc_locations i 1 (\<lambda>b. of_int (bu_locationCount b) < m) d"
  have r: "resolve_subscription_state env t j ?e = resolve_subscription_state env t j d" for t j
    by (rule resolution_cong) simp_all
  have b: "Option.bind (find_business i ?e) bu_agencyId = Option.bind (find_business i d) bu_agencyId"
    using reserved(1) [OF assms, of i] by (simp split: bind_split)
  show ?thesis unfolding resolve_business_plan_def r b ..
qed

lemma reserved_limit:
  assumes st: "slot_state i d" and below: "of_int (locations_of i d) < get_max_locations env i d"
  shows "get_max_locations env i (inc_locations i 1 (\<lambda>b. of_int (bu_locationCount b) < get_max_locations env i d) d) =
    get_max_locations env i d"
proof (cases "resolve_business_plan env i d")
  case From_Lapsed
  then show ?thesis using below by (auto simp: get_max_locations_def locations_of_def split: option.splits)
qed (unfold get_max_locations_def [of env i "inc_locations _ _ _ _"] reserved_plan [OF assms],
  simp_all add: get_max_locations_def)

interpretation slots: guarded_counter "slot_state i" "try_reserve env i" "locations_of i"
  "\<lambda>d. Some \<lceil>get_max_locations env i d\<rceil>" for i env
proof
  fix d d'
  assume st: "slot_state i d" and ok: "try_reserve env i d = Some d'"
  then have below: "of_int (locations_of i d) < get_max_locations env i d"
    and d': "d' = inc_locations i 1 (\<lambda>b. of_int (bu_locationCount b) < get_max_locations env i d) d"
    by (auto simp: reserve_iff split: if_splits)
  show "slot_state i d'" by (simp add: d' reserved(2) [OF st below])
  show "locations_of i d' = locations_of i d + 1"
    using st by (auto simp: d' locations_of_def reserved(1) [OF st below] slot_state_def)
  show "Some \<lceil>get_max_locations env i d'\<rceil> = Some \<lceil>get_max_locations env i d\<rceil>"
    by (simp add: d' reserved_limit [OF st below])
  show "locations_of i d < c" if "Some \<lceil>get_max_locations env i d\<rceil> = Some c" for c
    using that below by (auto simp: less_ceiling_iff)
next
  fix d
  assume "slot_state i d" "try_reserve env i d = None"
  then show "\<exists>c. Some \<lceil>get_max_locations env i d\<rceil> = Some c \<and> c \<le> locations_of i d"
    by (auto simp: reserve_iff ceiling_le_iff split: if_splits)
qed

text \<open>However many location requests arrive, the locations of a business stop exactly at the limit of its plan
  (at what it has when its subscription lapsed), and none below the limit is refused.\<close>

theorem location_slots_bounded:
  assumes "slot_state i d" and "locations_of i d \<le> \<lceil>get_max_locations env i d\<rceil>"
  shows "locations_of i (attempts (try_reserve env i) n d) =
      min \<lceil>get_max_locations env i d\<rceil> (locations_of i d + int n) \<and>
    int (successes (try_reserve env i) n d) = min (\<lceil>get_max_locations env i d\<rceil> - locations_of i d) (int n)"
  using slots.attempts_limited [OF assms(1) refl assms(2)] .

theorem location_slots_bounded_witness:
  "locations_of ''b1'' (attempts (try_reserve sample_benv ''b1'') 7 (with_sub paid_sub)) = 3"
proof -
  have "slot_state ''b1'' (with_sub paid_sub)"
    by (simp add: slot_state_def with_sub_def sample_bdb_def find_business_def)
  moreover have "get_max_locations sample_benv ''b1'' (with_sub paid_sub) = 3" by code_simp
  moreover have "locations_of ''b1'' (with_sub paid_sub) = 1" by code_simp
  ultimately show ?thesis using location_slots_bounded [of "''b1''" "with_sub paid_sub" sample_benv 7] by simp
qed


section \<open>Where the code departs from what it says\<close>

text \<open>\<open>reactivateSubscription\<close> is meant for a scheduled cancellation, but it only asks the table, and the table
  has a move from a trial to active for converted trials. So the owner of a local trial, for which no
  provider is called, makes it an active subscription that no date ends and no sweep expires.\<close>

theorem reactivated_trial_is_free:
  assumes ids: "distinct (map su_id (b_subscriptions d))" and x: "live_subscription t i d = Some x"
    and trial: "su_status x = S_Trialing" "\<not> truthy_string (su_providerSubscriptionId x)"
    and prov: "en_provider env = Some prov"
  shows "\<exists>y d1. reactivate_subscription env t i d = (Inr y, d1) \<and> y \<in> set (b_subscriptions d1) \<and> su_id y = su_id x \<and>
    su_status y = S_Active \<and> \<not> truthy_string (su_providerSubscriptionId y) \<and>
    (\<forall>env'. is_subscription_live env' y \<and> \<not> expiry_candidate env' y)"
proof -
  let ?f = "\<lambda>y. provider_action_marker x (en_now env) (y\<lparr>su_status := S_Active, su_cancelAt := None\<rparr>)"
  have xs: "x \<in> set (b_subscriptions d)" using find_one_SomeD [OF x [unfolded live_subscription_def]] by simp
  then have dx: "doc (su_id x) d = Some x" using find_id_mem [OF ids] by (simp add: doc_def)
  have fx: "?f x = x\<lparr>su_status := S_Active, su_cancelAt := None\<rparr>" using trial(2) by (simp add: provider_action_marker_def)
  have "su_id (?f y) = su_id y" for y by (simp add: provider_action_marker_def)
  from update_by_id(2) [OF ids dx, of ?f "\<lambda>y. su_status y = su_status x", OF this refl] obtain e where e:
    "find_and_update_sub (\<lambda>y. su_id y = su_id x \<and> su_status y = su_status x) ?f d = (Some (?f x), e)"
    "doc (su_id x) e = Some (?f x)" by blast
  have call: "call_if_theirs env x bp_reactivate d = (Inr (), d)"
    using trial(2) by (simp add: call_if_theirs_def get_billing_provider_def prov)
  have "reactivate_subscription env t i d = (Inr (?f x), record_history (history_of (?f x) H_Reactivated (en_after env)) e)"
    using e(1) by (simp add: reactivate_subscription_def x trial(1) is_valid_sub_transition_def call guarded_action_def)
  moreover have "?f x \<in> set (b_subscriptions e)" using e(2) by (auto simp: doc_def dest: find_one_SomeD)
  moreover have "is_subscription_live env' (?f x) \<and> \<not> expiry_candidate env' (?f x)" for env'
    by (simp add: fx is_subscription_live_def is_live_def live_statuses_def expiry_candidate_def)
  ultimately show ?thesis using trial(2) by (auto simp: fx)
qed

theorem reactivated_trial_is_free_witness:
  "\<exists>y d1. reactivate_subscription sample_benv Business_Owner ''b1'' (with_sub local_trial) = (Inr y, d1) \<and>
    is_subscription_live (sample_benv\<lparr>en_now := 10 ^ 15\<rparr>) y"
proof -
  have ids: "distinct (map su_id (b_subscriptions (with_sub local_trial)))" by code_simp
  have x: "live_subscription Business_Owner ''b1'' (with_sub local_trial) = Some local_trial"
    by (simp add: live_subscription_def with_sub_def local_trial_def new_trial_def is_live_def live_statuses_def Let_def)
  have tr: "su_status local_trial = S_Trialing" "\<not> truthy_string (su_providerSubscriptionId local_trial)" by code_simp+
  have prov: "en_provider sample_benv = Some sample_billing" by (simp add: sample_benv_def)
  show ?thesis using reactivated_trial_is_free [OF ids x tr prov] by blast
qed

text \<open>The event that activates a trial and the one that then schedules its cancellation, delivered in the
  other order: the newer one takes the place in the order but is not applied, since the table has no move
  from a trial to cancelling, and the older one is then too old. The subscription, paid until the end of
  its period, stays a trial and the sweep expires it.\<close>

definition provider_trial :: subscription where
  "provider_trial = paid_sub\<lparr>su_status := S_Trialing, su_trialEnd := Some 5500, su_lastProviderEventAt := None\<rparr>"

definition deliver :: "billing_event list \<Rightarrow> billing_db \<Rightarrow> billing_db" where
  "deliver evs d = fold (\<lambda>ev d. snd (process_billing_event sample_benv Paddle_Billing ev d)) evs d"

theorem paid_trial_expired:
  "let activated = status_event ''e1'' PS_Active 5200;
       scheduled = (status_event ''e2'' PS_Active 5300)\<lparr>be_scheduledCancel := Cancel_At 9000\<rparr>;
       status = (\<lambda>evs. map su_status (b_subscriptions (run_trial_expiration_sweep sample_benv (deliver evs (with_sub provider_trial)))))
   in status [activated, scheduled] = [S_Cancelling] \<and> status [scheduled, activated] = [S_Expired]"
  by code_simp

text \<open>\<open>changeSubscriptionPlan\<close> writes the time of its provider call over the time of an event that was applied
  during the call, where the other actions take the maximum: an event older than the applied one is then
  applied on top of it.\<close>

definition busy_env :: billing_env where
  "busy_env = sample_benv\<lparr>en_meanwhile := deliver [status_event ''e1'' PS_Past_Due 7000]\<rparr>"

theorem plan_change_rolls_back_order:
  "let d = with_sub paid_sub; late = status_event ''e2'' PS_Active 6500;
       state = (\<lambda>d. map (\<lambda>x. (su_status x, su_lastProviderEventAt x)) (b_subscriptions d))
   in state (deliver [late] (deliver [status_event ''e1'' PS_Past_Due 7000] d)) = [(S_Past_Due, Some 7000)] \<and>
      state (snd (change_subscription_plan busy_env Business_Owner ''b1'' ''pro'' d)) = [(S_Past_Due, Some 6000)] \<and>
      state (deliver [late] (snd (change_subscription_plan busy_env Business_Owner ''b1'' ''pro'' d))) =
        [(S_Active, Some 6500)]"
  by code_simp

text \<open>A checkout that completed for a plan that is no longer active is answered as received: the customer has
  paid, no subscription exists, and the provider, told that all is well, does not deliver the event again.\<close>

theorem paid_checkout_dropped:
  assumes "be_checkout ev = Some m" "\<not> be_simulated ev" and "find_active_plan (cm_planCode m) d = None"
  shows "fst (process_billing_event env name ev d) = Inr () \<and>
    b_subscriptions (snd (process_billing_event env name ev d)) = b_subscriptions d"
proof -
  obtain b c where c: "claim_billing_event (en_now env) name ev d = (b, c)" by fastforce
  then have s: "b_subscriptions c = b_subscriptions d" using subscriptions_kept(3) by (metis snd_conv)
  have "b_plans c = b_plans d" using c by (auto simp: claim_billing_event_def split: option.splits)
  then have "find_active_plan (cm_planCode m) c = None" using assms(3) by (simp add: find_active_plan_def)
  then have "process_claimed_billing_event env name ev c =
      (Inr (), mark_event name ev (event_failed (''Unknown plan code: '' @ cm_planCode m)) c)"
    using assms(1,2) by (simp add: process_claimed_billing_event_def handle_checkout_completion_def Let_def)
  then show ?thesis by (cases b) (simp_all add: process_billing_event_def c s)
qed

theorem paid_checkout_dropped_witness:
  "b_subscriptions (snd (process_billing_event sample_benv Paddle_Billing (checkout_event ''retired'') sample_bdb)) = []"
proof -
  let ?m = "\<lparr>cm_ownerType = Business_Owner, cm_ownerId = ''b1'', cm_planCode = ''retired'', cm_interval = Monthly,
    cm_customerId = ''ctm_1''\<rparr>"
  have "be_checkout (checkout_event ''retired'') = Some ?m" "\<not> be_simulated (checkout_event ''retired'')"
    by (simp_all add: checkout_event_def status_event_def)
  moreover have "find_active_plan (cm_planCode ?m) sample_bdb = None"
    by (simp add: find_active_plan_def sample_bdb_def growth_plan_def pro_plan_def)
  moreover have "b_subscriptions sample_bdb = []" by code_simp
  ultimately show ?thesis using paid_checkout_dropped by simp
qed

text \<open>An entry of 0 means not entitled to the feature, but the limit of 0 locations is read as no limit given:
  the generous default.\<close>

theorem zero_limit_is_default:
  "\<not> has_entitlement pro_plan ''max_locations'' \<and>
    get_max_locations sample_benv ''b1'' (with_sub (paid_sub\<lparr>su_planId := ''p2''\<rparr>)) = 20"
  by code_simp

end
