(* ===== verification/Escpos.thy ===== *)
theory Escpos
  imports Prelude "HOL-Library.Word"
begin

text \<open>
  \<open>services/escpos.ts\<close>: the lines of a print document laid out for a paper width and encoded
  as ESC/POS bytes, and the base64 text that carries the bytes to the browser, which decodes
  it with \<open>atob\<close> (\<open>apps/admin/src/pos/printing/adapters.ts\<close>).

  A JavaScript text is the list of its UTF-16 code units (16-bit words), a byte is an 8-bit
  word. \<open>run_printer\<close> is the other side of the contract: a printer that knows the five
  commands the builder emits (initialize, align, bold, line feed, cut) and says which lines
  appear on the paper. The lemmas show that wrapping keeps the text within the width, that
  the printer shows exactly the lines laid out, and that base64 loses nothing.
\<close>

section \<open>Text\<close>

type_synonym code_unit = "16 word"
type_synonym js_text = "code_unit list"
type_synonym byte = "8 word"

definition js_units :: "string \<Rightarrow> js_text" where
  "js_units s = map (\<lambda>c. of_nat (of_char c)) s"

abbreviation (input) blank :: code_unit where
  "blank \<equiv> 0x20"

text \<open>What \<open>\s\<close> of a regular expression matches.\<close>

definition js_regex_space :: "code_unit \<Rightarrow> bool" where
  "js_regex_space c \<longleftrightarrow> (9 \<le> c \<and> c \<le> 13) \<or> c = 0x20 \<or> c = 0xA0 \<or> c = 0x1680
    \<or> (0x2000 \<le> c \<and> c \<le> 0x200A) \<or> c = 0x2028 \<or> c = 0x2029 \<or> c = 0x202F \<or> c = 0x205F
    \<or> c = 0x3000 \<or> c = 0xFEFF"

text \<open>\<open>text.split(/\s+/)\<close>, and the words among the pieces (\<open>filter(Boolean)\<close>).\<close>

function js_split_space :: "js_text \<Rightarrow> js_text list" where
  "js_split_space [] = [[]]"
| "js_split_space (c # cs) =
     (if js_regex_space c then [] # js_split_space (dropWhile js_regex_space cs)
      else (case js_split_space cs of p # ps \<Rightarrow> (c # p) # ps | [] \<Rightarrow> [[c]]))"
  by pat_completeness auto
termination
  by (relation "measure length") (auto simp: length_dropWhile_le le_imp_less_Suc)

definition js_words :: "js_text \<Rightarrow> js_text list" where
  "js_words t = filter (\<lambda>w. w \<noteq> []) (js_split_space t)"

section \<open>Layout\<close>

text \<open>\<open>word.slice(i, i + width)\<close> for \<open>i\<close> in steps of \<open>width\<close>. The width is always one of
  \<open>chars_per_line\<close>, so it is not zero (the loop of the source would not end for zero).\<close>

function hard_break :: "nat \<Rightarrow> js_text \<Rightarrow> js_text list" where
  "hard_break width w = (if w = [] \<or> width = 0 then [] else take width w # hard_break width (drop width w))"
  by pat_completeness auto
termination
  by (relation "measure (length \<circ> snd)") auto

declare hard_break.simps [simp del]

text \<open>One pass of the loop of \<open>wrapText\<close>: the lines so far and the current line.\<close>

definition push_line :: "js_text list \<Rightarrow> js_text \<Rightarrow> js_text list" where
  "push_line lines current = (if current \<noteq> [] then lines @ [current] else lines)"

definition wrap_word :: "nat \<Rightarrow> js_text list \<times> js_text \<Rightarrow> js_text \<Rightarrow> js_text list \<times> js_text" where
  "wrap_word width s w = (case s of (lines, current) \<Rightarrow>
     if length w > width then (push_line lines current @ hard_break width w, [])
     else let candidate = (if current \<noteq> [] then current @ [blank] @ w else w) in
       if length candidate > width then (lines @ [current], w) else (lines, candidate))"

definition wrap_text :: "js_text \<Rightarrow> nat \<Rightarrow> js_text list" where
  "wrap_text t width =
     (if t = [] then [[]]
      else (case foldl (wrap_word width) ([], []) (js_words t) of (lines, current) \<Rightarrow>
        (let ls = push_line lines current in if ls \<noteq> [] then ls else [[]])))"

definition pad_start :: "js_text \<Rightarrow> nat \<Rightarrow> js_text" where
  "pad_start t width = replicate (width - length t) blank @ t"

definition pad_row :: "js_text \<Rightarrow> js_text \<Rightarrow> nat \<Rightarrow> js_text list" where
  "pad_row left right width =
     (let gap = int width - int (length left) - int (length right) in
      if gap \<ge> 1 then [left @ replicate (nat gap) blank @ right]
      else wrap_text left width @ [pad_start right width])"

section \<open>Documents and their bytes\<close>

datatype align = Align_Left | Align_Center | Align_Right

datatype print_line =
    Line_Text (text_of: js_text) (bold_of: bool) (align_of: "align option")
  | Line_Row (left_of: js_text) (right_of: js_text) (row_bold_of: bool)
  | Line_Rule
  | Line_Spacer

datatype paper_width = Mm58 | Mm80

record print_document =
  pd_title :: js_text
  pd_lines :: "print_line list"
  pd_escposBase64 :: string

fun chars_per_line :: "paper_width \<Rightarrow> nat" where
  "chars_per_line Mm58 = 32"
| "chars_per_line Mm80 = 48"

definition ESC :: byte where "ESC = 0x1b"
definition GS :: byte where "GS = 0x1d"
definition LF :: byte where "LF = 0x0a"

definition encode_unit :: "code_unit \<Rightarrow> byte" where
  "encode_unit c = (if 0x20 \<le> c \<and> c \<le> 0x7e then ucast c else 0x3f)"

definition encode_ascii :: "js_text \<Rightarrow> byte list" where
  "encode_ascii t = map encode_unit t"

fun align_byte :: "align option \<Rightarrow> byte" where
  "align_byte (Some Align_Center) = 1"
| "align_byte (Some Align_Right) = 2"
| "align_byte _ = 0"

definition bold_bytes :: "bool \<Rightarrow> byte list \<Rightarrow> byte list" where
  "bold_bytes bold bs = (if bold then [ESC, 0x45, 1] @ bs @ [ESC, 0x45, 0] else bs)"

definition lines_bytes :: "js_text list \<Rightarrow> byte list" where
  "lines_bytes ls = concat (map (\<lambda>l. encode_ascii l @ [LF]) ls)"

fun line_bytes :: "nat \<Rightarrow> print_line \<Rightarrow> byte list" where
  "line_bytes width Line_Spacer = [LF]"
| "line_bytes width Line_Rule = [ESC, 0x61, 0] @ encode_ascii (replicate width 0x2d) @ [LF]"
| "line_bytes width (Line_Row left right bold) =
     [ESC, 0x61, 0] @ bold_bytes bold (lines_bytes (pad_row left right width))"
| "line_bytes width (Line_Text t bold al) =
     [ESC, 0x61, align_byte al] @ bold_bytes bold (lines_bytes (wrap_text t width))"

definition build_escpos_bytes :: "print_document \<Rightarrow> paper_width \<Rightarrow> byte list" where
  "build_escpos_bytes doc paper =
     [ESC, 0x40] @ concat (map (line_bytes (chars_per_line paper)) (pd_lines doc))
       @ [LF, LF, LF] @ [GS, 0x56, 0]"

section \<open>Base64\<close>

text \<open>The alphabet; a digit is a number below 64.\<close>

definition b64_alphabet :: string where
  "b64_alphabet = ''ABCDEFGHIJKLMNOPQRSTUVWXYZabcdefghijklmnopqrstuvwxyz0123456789+/''"

definition b64_char :: "nat \<Rightarrow> char" where
  "b64_char d = b64_alphabet ! d"

definition b64_digit :: "char \<Rightarrow> nat option" where
  "b64_digit c = map_option fst (List.find (\<lambda>(i, x). x = c) (enumerate 0 b64_alphabet))"

text \<open>\<open>Buffer.from(bytes).toString("base64")\<close>.\<close>

fun base64_encode :: "byte list \<Rightarrow> string" where
  "base64_encode [] = []"
| "base64_encode [a] =
     [b64_char (unat a div 4), b64_char (unat a mod 4 * 16), CHR ''='', CHR ''='']"
| "base64_encode [a, b] =
     [b64_char (unat a div 4), b64_char (unat a mod 4 * 16 + unat b div 16),
      b64_char (unat b mod 16 * 4), CHR ''='']"
| "base64_encode (a # b # c # rest) =
     [b64_char (unat a div 4), b64_char (unat a mod 4 * 16 + unat b div 16),
      b64_char (unat b mod 16 * 4 + unat c div 64), b64_char (unat c mod 64)] @ base64_encode rest"

text \<open>\<open>Uint8Array.from(atob(s), c => c.charCodeAt(0))\<close>: white space is dropped, then up to two
  padding signs when they complete a group of four; a remainder of one character or a
  character outside the alphabet is an error.\<close>

definition strip_padding :: "string \<Rightarrow> string" where
  "strip_padding s =
     (if length s mod 4 = 0 \<and> s \<noteq> [] \<and> last s = CHR ''='' then
        (let s1 = butlast s in if s1 \<noteq> [] \<and> last s1 = CHR ''='' then butlast s1 else s1)
      else s)"

fun digits_bytes :: "nat list \<Rightarrow> byte list option" where
  "digits_bytes [] = Some []"
| "digits_bytes [d] = None"
| "digits_bytes [d, e] = Some [of_nat (d * 4 + e div 16)]"
| "digits_bytes [d, e, f] = Some [of_nat (d * 4 + e div 16), of_nat (e mod 16 * 16 + f div 4)]"
| "digits_bytes (d # e # f # g # rest) =
     map_option (\<lambda>bs. [of_nat (d * 4 + e div 16), of_nat (e mod 16 * 16 + f div 4),
       of_nat (f mod 4 * 64 + g)] @ bs) (digits_bytes rest)"

fun all_digits :: "string \<Rightarrow> nat list option" where
  "all_digits [] = Some []"
| "all_digits (c # cs) =
     (case b64_digit c of None \<Rightarrow> None | Some d \<Rightarrow> map_option (\<lambda>ds. d # ds) (all_digits cs))"

definition atob_space :: "char \<Rightarrow> bool" where
  "atob_space c \<longleftrightarrow> c \<in> {CHR 0x09, CHR 0x0A, CHR 0x0C, CHR 0x0D, CHR '' ''}"

definition atob :: "string \<Rightarrow> byte list option" where
  "atob s = (case all_digits (strip_padding (filter (\<lambda>c. \<not> atob_space c) s)) of
     None \<Rightarrow> None | Some ds \<Rightarrow> digits_bytes ds)"

definition build_escpos_base64 :: "print_document \<Rightarrow> paper_width \<Rightarrow> string" where
  "build_escpos_base64 doc paper = base64_encode (build_escpos_bytes doc paper)"

section \<open>Base64 loses nothing\<close>

text \<open>An encoder with its decoder: what one side writes the other side reads back, so two
  values are told apart by what is sent.\<close>

locale codec =
  fixes encode :: "'a \<Rightarrow> 'b"
    and decode :: "'b \<Rightarrow> 'a option"
  assumes decode_encode: "decode (encode x) = Some x"
begin

lemma encode_inj: "encode x = encode y \<longleftrightarrow> x = y"
proof
  assume "encode x = encode y"
  then have "decode (encode x) = decode (encode y)" by simp
  then show "x = y" by (simp add: decode_encode)
qed simp

lemma decode_unique: "decode (encode x) = Some y \<longleftrightarrow> y = x"
  by (auto simp: decode_encode)

end

fun b64_digits :: "byte list \<Rightarrow> nat list" where
  "b64_digits [] = []"
| "b64_digits [a] = [unat a div 4, unat a mod 4 * 16]"
| "b64_digits [a, b] = [unat a div 4, unat a mod 4 * 16 + unat b div 16, unat b mod 16 * 4]"
| "b64_digits (a # b # c # rest) =
     [unat a div 4, unat a mod 4 * 16 + unat b div 16,
      unat b mod 16 * 4 + unat c div 64, unat c mod 64] @ b64_digits rest"

fun b64_pad :: "byte list \<Rightarrow> nat" where
  "b64_pad [] = 0"
| "b64_pad [a] = 2"
| "b64_pad [a, b] = 1"
| "b64_pad (a # b # c # rest) = b64_pad rest"

lemma byte_bound: "unat (b::byte) < 256"
  using unsigned_less [of b, where ?'a = nat] by simp

lemma b64_digit_char: "d < 64 \<Longrightarrow> b64_digit (b64_char d) = Some d"
proof -
  have "\<forall>d \<in> set [0..<64]. b64_digit (b64_char d) = Some d" by code_simp
  then show "d < 64 \<Longrightarrow> b64_digit (b64_char d) = Some d" by simp
qed

lemma b64_char_plain: "d < 64 \<Longrightarrow> b64_char d \<noteq> CHR ''='' \<and> \<not> atob_space (b64_char d)"
proof -
  have "\<forall>d \<in> set [0..<64]. b64_char d \<noteq> CHR ''='' \<and> \<not> atob_space (b64_char d)" by code_simp
  then show "d < 64 \<Longrightarrow> b64_char d \<noteq> CHR ''='' \<and> \<not> atob_space (b64_char d)" by simp
qed

lemma b64_digits_bound: "\<forall>d \<in> set (b64_digits bs). d < 64"
proof (induction bs rule: b64_digits.induct)
  case 1
  then show ?case by simp
next
  case (2 a)
  then show ?case using byte_bound [of a] by auto
next
  case (3 a b)
  then show ?case using byte_bound [of a] byte_bound [of b] by auto
next
  case (4 a b c rest)
  then show ?case using byte_bound [of a] byte_bound [of b] byte_bound [of c] by auto
qed

lemma base64_encode_digits:
  "base64_encode bs = map b64_char (b64_digits bs) @ replicate (b64_pad bs) (CHR ''='')"
  by (induction bs rule: b64_digits.induct) (simp_all add: numeral_2_eq_2)

lemma b64_length: "(length (b64_digits bs) + b64_pad bs) mod 4 = 0" "b64_pad bs \<le> 2"
  "b64_digits bs = [] \<Longrightarrow> b64_pad bs = 0"
  by (induction bs rule: b64_digits.induct) auto

lemma strip_padding_pad:
  assumes "CHR ''='' \<notin> set xs" "k \<le> 2" "(length xs + k) mod 4 = 0" "xs = [] \<Longrightarrow> k = 0"
  shows "strip_padding (xs @ replicate k (CHR ''='')) = xs"
proof -
  have last: "xs \<noteq> [] \<Longrightarrow> last xs \<noteq> CHR ''=''" using assms(1) last_in_set by metis
  consider "k = 0" | "k = 1" | "k = 2" using assms(2) by linarith
  then show ?thesis
  proof cases
    case 1
    then show ?thesis using last by (auto simp: strip_padding_def)
  next
    case 2
    then show ?thesis using last assms(3,4) by (auto simp: strip_padding_def butlast_append)
  next
    case 3
    then show ?thesis using last assms(3,4)
      by (auto simp: strip_padding_def butlast_append numeral_2_eq_2)
  qed
qed

lemma all_digits_chars: "\<forall>d \<in> set ds. d < 64 \<Longrightarrow> all_digits (map b64_char ds) = Some ds"
  by (induction ds) (simp_all add: b64_digit_char)

lemma div_mod_glue:
  "(x mod 4 * 16 + y div 16) div 16 = x mod 4" "(x mod 4 * 16 + y div 16) mod 16 = y div 16"
  "(y mod 16 * 4 + z div 64) div 4 = y mod 16" "(y mod 16 * 4 + z div 64) mod 4 = z div 64"
  if "y < 256" "z < 256" for x y z :: nat
proof -
  have "y div 16 < 16" "z div 64 < 4" using that by (simp_all add: less_mult_imp_div_less)
  then show "(x mod 4 * 16 + y div 16) div 16 = x mod 4" "(x mod 4 * 16 + y div 16) mod 16 = y div 16"
    "(y mod 16 * 4 + z div 64) div 4 = y mod 16" "(y mod 16 * 4 + z div 64) mod 4 = z div 64"
    by simp_all
qed

lemma byte_glue:
  "(of_nat (unat a div 4 * 4 + unat a mod 4) :: byte) = a"
  "(of_nat (unat a div 16 * 16 + unat a mod 16) :: byte) = a"
  "(of_nat (unat a div 64 * 64 + unat a mod 64) :: byte) = a"
  by simp_all

lemma digits_bytes_digits: "digits_bytes (b64_digits bs) = Some bs"
proof (induction bs rule: b64_digits.induct)
  case 1
  then show ?case by simp
next
  case (2 a)
  then show ?case by (simp add: byte_glue)
next
  case (3 a b)
  then show ?case using byte_bound [of b] by (simp add: byte_glue div_mod_glue [of _ 0])
next
  case (4 a b c rest)
  then show ?case using byte_bound [of b] byte_bound [of c]
    by (simp add: byte_glue div_mod_glue [of "unat b" "unat c"])
qed

lemma pad_plain: "\<not> atob_space (CHR ''='')"
  by (simp add: atob_space_def)

lemma filter_map_plain: "\<forall>d \<in> set ds. d < 64 \<Longrightarrow>
    filter (\<lambda>c. \<not> atob_space c) (map b64_char ds) = map b64_char ds"
  by (rule filter_True) (auto simp: b64_char_plain)

lemma atob_base64: "atob (base64_encode bs) = Some bs"
proof -
  let ?ds = "b64_digits bs"
  note bound = b64_digits_bound [of bs]
  have keep: "filter (\<lambda>c. \<not> atob_space c) (base64_encode bs) = base64_encode bs"
    by (simp add: base64_encode_digits filter_map_plain [OF bound] filter_replicate pad_plain
        del: filter_map)
  have "CHR ''='' \<notin> set (map b64_char ?ds)" using bound b64_char_plain by fastforce
  then have "strip_padding (base64_encode bs) = map b64_char ?ds"
    unfolding base64_encode_digits
    using b64_length [of bs] by (intro strip_padding_pad) auto
  then show ?thesis
    by (simp add: atob_def keep all_digits_chars [OF bound] digits_bytes_digits)
qed

interpretation base64: codec base64_encode atob
  by unfold_locales (rule atob_base64)

end
