(* ===== verification/Escpos_Layout.thy ===== *)
theory Escpos_Layout
  imports Escpos "HOL-Library.Sublist"
begin

text \<open>
  What \<open>wrapText\<close> and \<open>padRow\<close> promise: no line passes the width, no printing character is
  lost, words are broken only when they do not fit a line, and the greedy loop uses as few
  lines as any layout of the words can.
\<close>

section \<open>Words\<close>

abbreviation inked :: "js_text \<Rightarrow> js_text" where
  "inked t \<equiv> filter (\<lambda>c. \<not> js_regex_space c) t"

definition solid :: "js_text \<Rightarrow> bool" where
  "solid w \<longleftrightarrow> w \<noteq> [] \<and> (\<forall>c \<in> set w. \<not> js_regex_space c)"

lemma blank_space [simp]: "js_regex_space blank"
  by (simp add: js_regex_space_def)

lemma js_words_Nil [simp]: "js_words [] = []"
  by (simp add: js_words_def)

lemma split_space_Cons: "js_split_space t \<noteq> []"
  by (cases t) (auto split: list.splits)

lemma js_words_space: "js_regex_space c \<Longrightarrow> js_words (c # t) = js_words t"
proof (induction t)
  case (Cons d t)
  then show ?case by (cases "js_regex_space d") (simp_all add: js_words_def)
qed (simp add: js_words_def)

lemma split_space_solid:
  "\<forall>c \<in> set w. \<not> js_regex_space c \<Longrightarrow> t = [] \<or> js_regex_space (hd t) \<Longrightarrow>
    js_split_space (w @ t) = w # tl (js_split_space t)"
proof (induction w)
  case Nil
  then show ?case by (cases t) auto
qed auto

lemma js_words_solid:
  "solid w \<Longrightarrow> t = [] \<or> js_regex_space (hd t) \<Longrightarrow> js_words (w @ t) = w # js_words t"
  using split_space_solid [of w t] by (cases t) (auto simp: solid_def js_words_def)

text \<open>Every text is nothing, a space before a text, or a word before the rest.\<close>

lemma text_induct [case_names Nil Space Word]:
  assumes "P []" "\<And>c t. js_regex_space c \<Longrightarrow> P t \<Longrightarrow> P (c # t)"
    "\<And>w t. solid w \<Longrightarrow> t = [] \<or> js_regex_space (hd t) \<Longrightarrow> P t \<Longrightarrow> P (w @ t)"
  shows "P t"
proof (induction t rule: length_induct)
  case (1 t)
  show ?case
  proof (cases t)
    case Nil
    then show ?thesis using assms(1) by simp
  next
    case (Cons c u)
    show ?thesis
    proof (cases "js_regex_space c")
      case True
      then show ?thesis using 1 Cons assms(2) by simp
    next
      case False
      let ?ns = "\<lambda>x. \<not> js_regex_space x"
      have w: "solid (takeWhile ?ns t)" using False Cons by (auto simp: solid_def dest: set_takeWhileD)
      have r: "dropWhile ?ns t = [] \<or> js_regex_space (hd (dropWhile ?ns t))"
        using hd_dropWhile [of ?ns t] by blast
      have "length (dropWhile ?ns t) < length t"
        using False Cons length_dropWhile_le [of ?ns u] by simp
      then show ?thesis using assms(3) [OF w r] 1 by simp
    qed
  qed
qed

lemma js_words_append: "js_regex_space c \<Longrightarrow> js_words (a @ c # b) = js_words a @ js_words b"
proof (induction a rule: text_induct)
  case Nil
  then show ?case by (simp add: js_words_space)
next
  case (Space d t)
  then show ?case by (simp add: js_words_space)
next
  case (Word w t)
  then have "t @ c # b = [] \<or> js_regex_space (hd (t @ c # b))" by (cases t) auto
  then show ?case using Word by (simp add: js_words_solid)
qed

lemma js_words_printing: "concat (js_words t) = inked t"
  by (induction t rule: text_induct)
    (auto simp: js_words_space js_words_solid solid_def filter_id_conv)

lemma js_words_all_solid: "w \<in> set (js_words t) \<Longrightarrow> solid w"
  by (induction t rule: text_induct) (auto simp: js_words_space js_words_solid)

lemma js_words_one: "solid w \<Longrightarrow> js_words w = [w]"
  using js_words_solid [of w "[]"] by simp

section \<open>The lines of the loop\<close>

lemma hard_break_bound: "l \<in> set (hard_break width w) \<Longrightarrow> length l \<le> width"
proof (induction width w rule: hard_break.induct)
  case (1 width w)
  then show ?case by (auto simp: hard_break.simps [of width w] split: if_splits)
qed

lemma hard_break_concat: "0 < width \<Longrightarrow> concat (hard_break width w) = w"
proof (induction width w rule: hard_break.induct)
  case (1 width w)
  then show ?case by (simp add: hard_break.simps [of width w])
qed

lemma push_line_simps [simp]:
  "set (push_line ls cur) = set ls \<union> (if cur = [] then {} else {cur})"
  "concat (push_line ls cur) = concat ls @ cur"
  "concat (map inked (push_line ls cur)) = concat (map inked ls) @ inked cur"
  "concat (map js_words (push_line ls cur)) = concat (map js_words ls) @ js_words cur"
  "push_line ls cur = [] \<longleftrightarrow> ls = [] \<and> cur = []"
  by (auto simp: push_line_def)

lemma wrap_word_bound:
  "wrap_word width (ls, cur) w = (ls', cur') \<Longrightarrow> (\<forall>l \<in> set ls. length l \<le> width) \<Longrightarrow>
    length cur \<le> width \<Longrightarrow> (\<forall>l \<in> set ls'. length l \<le> width) \<and> length cur' \<le> width"
  by (auto simp: wrap_word_def Let_def dest: hard_break_bound split: if_splits)

text \<open>An invariant of the loop: it holds of the words read so far.\<close>

lemma wrap_fold_inv:
  assumes "foldl (wrap_word width) s0 ws = s'" "P [] s0"
    and "\<And>us s w. w \<in> set ws \<Longrightarrow> P us s \<Longrightarrow> P (us @ [w]) (wrap_word width s w)"
  shows "P ws s'"
  unfolding assms(1) [symmetric] using assms(3)
proof (induction ws rule: rev_induct)
  case Nil
  then show ?case using assms(2) by simp
next
  case (snoc w ws)
  have "P ws (foldl (wrap_word width) s0 ws)" by (rule snoc.IH) (rule snoc.prems, simp)
  then show ?case using snoc.prems [of w ws] by simp
qed

lemma wrap_fold_bound:
  assumes "foldl (wrap_word width) ([], []) ws = (ls, cur)"
  shows "(\<forall>l \<in> set ls. length l \<le> width) \<and> length cur \<le> width"
proof -
  let ?P = "\<lambda>(us :: js_text list) (s :: js_text list \<times> js_text). (\<forall>l \<in> set (fst s). length l \<le> width) \<and> length (snd s) \<le> width"
  have "?P ws (ls, cur)"
  proof (rule wrap_fold_inv [OF assms])
    fix us :: "js_text list" and s w
    assume "?P us s"
    then show "?P (us @ [w]) (wrap_word width s w)"
      using wrap_word_bound [of width "fst s" "snd s" w] by (cases "wrap_word width s w") simp
  qed simp
  then show ?thesis by simp
qed

lemma wrap_text_bound: "l \<in> set (wrap_text t width) \<Longrightarrow> length l \<le> width"
  by (auto simp: wrap_text_def Let_def dest: wrap_fold_bound split: prod.splits if_splits)

lemma printing_solid: "solid w \<Longrightarrow> inked w = w"
  by (simp add: solid_def filter_id_conv)

lemma printing_concat: "concat (map inked ls) = inked (concat ls)"
  by (induction ls) auto

lemma wrap_word_printing:
  assumes "0 < width" "solid w" "wrap_word width (ls, cur) w = (ls', cur')"
  shows "concat (map inked ls') @ inked cur' = concat (map inked ls) @ inked cur @ w"
  using assms printing_solid [OF assms(2)] hard_break_concat [OF assms(1), of w]
  by (auto simp: wrap_word_def Let_def printing_concat split: if_splits)

lemma wrap_fold_printing:
  assumes "0 < width" "\<forall>w \<in> set ws. solid w" "foldl (wrap_word width) ([], []) ws = (ls, cur)"
  shows "concat (map inked ls) @ inked cur = concat ws"
proof -
  let ?P = "\<lambda>(us :: js_text list) (s :: js_text list \<times> js_text). concat (map inked (fst s)) @ inked (snd s) = concat us"
  have "?P ws (ls, cur)"
  proof (rule wrap_fold_inv [OF assms(3)])
    fix us :: "js_text list" and s w
    assume "w \<in> set ws" "?P us s"
    then show "?P (us @ [w]) (wrap_word width s w)"
      using wrap_word_printing [OF assms(1), of w "fst s" "snd s"] assms(2)
      by (cases s, cases "wrap_word width s w") auto
  qed simp
  then show ?thesis by simp
qed

lemma wrap_text_printing: "0 < width \<Longrightarrow> concat (map inked (wrap_text t width)) = inked t"
proof -
  assume "0 < width"
  moreover obtain ls cur where s: "foldl (wrap_word width) ([], []) (js_words t) = (ls, cur)"
    by fastforce
  ultimately have "concat (map inked (push_line ls cur)) = inked t"
    using wrap_fold_printing [OF _ _ s] js_words_all_solid [of _ t] js_words_printing [of t] by simp
  then show ?thesis by (auto simp: wrap_text_def s Let_def)
qed

section \<open>Words stay whole\<close>

lemma wrap_word_words:
  assumes "solid w" "length w \<le> width" "wrap_word width (ls, cur) w = (ls', cur')"
  shows "concat (map js_words ls') @ js_words cur' = concat (map js_words ls) @ js_words cur @ [w]"
  using assms js_words_append [OF blank_space, of cur w]
  by (auto simp: wrap_word_def Let_def js_words_one split: if_splits)

lemma wrap_fold_words:
  assumes "\<forall>w \<in> set ws. solid w \<and> length w \<le> width" "foldl (wrap_word width) ([], []) ws = (ls, cur)"
  shows "concat (map js_words ls) @ js_words cur = ws"
proof -
  let ?P = "\<lambda>(us :: js_text list) (s :: js_text list \<times> js_text). concat (map js_words (fst s)) @ js_words (snd s) = us"
  have "?P ws (ls, cur)"
  proof (rule wrap_fold_inv [OF assms(2)])
    fix us :: "js_text list" and s w
    assume "w \<in> set ws" "?P us s"
    then show "?P (us @ [w]) (wrap_word width s w)"
      using wrap_word_words [of w width "fst s" "snd s"] assms(1)
      by (cases s, cases "wrap_word width s w") auto
  qed simp
  then show ?thesis by simp
qed

lemma wrap_text_words:
  assumes "\<forall>w \<in> set (js_words t). length w \<le> width"
  shows "concat (map js_words (wrap_text t width)) = js_words t"
proof -
  obtain ls cur where s: "foldl (wrap_word width) ([], []) (js_words t) = (ls, cur)" by fastforce
  have "concat (map js_words (push_line ls cur)) = js_words t"
    using wrap_fold_words [OF _ s] assms js_words_all_solid by simp
  then show ?thesis by (auto simp: wrap_text_def s Let_def)
qed

section \<open>No layout of the words has fewer lines\<close>

text \<open>The number of lines the loop still makes when \<open>c\<close> columns of the current line are used.\<close>

fun lines_needed :: "nat \<Rightarrow> nat \<Rightarrow> js_text list \<Rightarrow> nat" where
  "lines_needed width c [] = (if c = 0 then 0 else 1)"
| "lines_needed width c (w # ws) =
     (if c = 0 then lines_needed width (length w) ws
      else if c + 1 + length w \<le> width then lines_needed width (c + 1 + length w) ws
      else 1 + lines_needed width (length w) ws)"

lemma wrap_fold_length:
  "(\<forall>w \<in> set ws. solid w \<and> length w \<le> width) \<Longrightarrow> foldl (wrap_word width) (ls, cur) ws = (ls', cur') \<Longrightarrow>
    length (push_line ls' cur') = length ls + lines_needed width (length cur) ws"
proof (induction ws arbitrary: ls cur)
  case Nil
  then show ?case by (auto simp: push_line_def)
next
  case (Cons w ws)
  obtain ls1 cur1 where s: "wrap_word width (ls, cur) w = (ls1, cur1)" by fastforce
  have "length (push_line ls' cur') = length ls1 + lines_needed width (length cur1) ws"
    by (rule Cons.IH) (use Cons.prems s in simp_all)
  moreover have "length ls1 + lines_needed width (length cur1) ws =
      length ls + lines_needed width (length cur) (w # ws)"
    using s Cons.prems(1) by (auto simp: wrap_word_def Let_def split: if_splits)
  ultimately show ?case by simp
qed

text \<open>Less used is never worse, and an open line saves at most one line.\<close>

lemma lines_needed_mono_lemma:
  "(\<forall>w \<in> set ws. w \<noteq> []) \<Longrightarrow> 0 < c \<Longrightarrow> 0 < c' \<Longrightarrow>
    (c \<le> c' \<longrightarrow> lines_needed width c ws \<le> lines_needed width c' ws) \<and>
    lines_needed width c ws \<le> 1 + lines_needed width c' ws"
proof (induction ws arbitrary: c c')
  case Nil
  then show ?case by simp
next
  case (Cons w ws)
  have w: "0 < length w" "\<forall>w \<in> set ws. w \<noteq> []" using Cons.prems by auto
  have open_line: "lines_needed width c (w # ws) \<le> 1 + lines_needed width (length w) ws" if "0 < c" for c
    using Cons.IH [of "c + 1 + length w" "length w"] w that by simp
  have shorter: "lines_needed width (length w) ws \<le> lines_needed width c (w # ws)" if "0 < c" for c
    using Cons.IH [of "length w" "c + 1 + length w"] w that by simp
  have "lines_needed width c (w # ws) \<le> lines_needed width c' (w # ws)" if "c \<le> c'"
    using open_line [of c] Cons.IH [of "c + 1 + length w" "c' + 1 + length w"] w that Cons.prems by auto
  then show ?case using open_line [of c] shorter [of c'] Cons.prems by force
qed

lemmas lines_needed_mono = lines_needed_mono_lemma [THEN conjunct1, rule_format]
  and lines_needed_open = lines_needed_mono_lemma [THEN conjunct2]

text \<open>The columns used when words are put on a line of which \<open>c\<close> columns are used.\<close>

fun used :: "nat \<Rightarrow> js_text list \<Rightarrow> nat" where
  "used c [] = c"
| "used c (w # ws) = used (if c = 0 then length w else c + 1 + length w) ws"

lemma used_ge: "c \<le> used c ws"
proof (induction ws arbitrary: c)
  case (Cons w ws)
  have "c \<le> used (c + 1 + length w) ws" using Cons.IH [of "c + 1 + length w"] by linarith
  then show ?case by simp
qed simp

lemma used_words_open:
  "(\<forall>c. 0 < c \<longrightarrow> used c (js_words t) \<le> c + length t + 1) \<and>
    (t = [] \<or> js_regex_space (hd t) \<longrightarrow> (\<forall>c. 0 < c \<longrightarrow> used c (js_words t) \<le> c + length t))"
proof (induction t rule: text_induct)
  case Nil
  then show ?case by simp
next
  case (Space d t)
  then have "used c (js_words t) \<le> c + length (d # t)" if "0 < c" for c using that by simp
  then show ?case using Space(1) by (simp add: js_words_space le_SucI)
next
  case (Word w t)
  have "used c (js_words (w @ t)) \<le> c + length (w @ t) + 1" if "0 < c" for c
  proof -
    from Word(2,3) have "\<forall>c. 0 < c \<longrightarrow> used c (js_words t) \<le> c + length t" by blast
    then have "used (c + 1 + length w) (js_words t) \<le> c + 1 + length w + length t" by auto
    then show ?thesis using that Word(1,2) by (simp add: js_words_solid)
  qed
  moreover have "w @ t \<noteq> [] \<and> \<not> js_regex_space (hd (w @ t))" using Word(1) by (simp add: solid_def)
  ultimately show ?case by simp
qed

lemma used_words: "used 0 (js_words t) \<le> length t"
proof (induction t rule: text_induct)
  case (Word w t)
  then have "0 < length w" by (simp add: solid_def)
  then show ?case using Word used_words_open [of t] by (simp add: js_words_solid)
qed (simp_all add: js_words_space)

lemma concat_filter_nonempty: "concat (filter (\<lambda>g. g \<noteq> []) gs) = concat gs"
  by (induction gs) auto

lemma lines_needed_least:
  "\<forall>w \<in> set ws. w \<noteq> [] \<Longrightarrow> 0 < c \<Longrightarrow> ws = g @ concat gs \<Longrightarrow> used c g \<le> width \<Longrightarrow>
    \<forall>h \<in> set gs. h \<noteq> [] \<and> used 0 h \<le> width \<Longrightarrow> lines_needed width c ws \<le> 1 + length gs"
proof (induction ws arbitrary: c g gs)
  case Nil
  then show ?case by simp
next
  case (Cons w ws)
  have w: "0 < length w" "\<forall>w \<in> set ws. w \<noteq> []" using Cons.prems(1) by auto
  show ?case
  proof (cases g)
    case Nil
    with Cons.prems(3,5) obtain h gs' where gs: "gs = (w # h) # gs'"
      by (cases gs) (auto simp: Cons_eq_append_conv)
    have "lines_needed width (length w) ws \<le> 1 + length gs'"
      by (rule Cons.IH) (use Cons.prems Nil gs w in auto)
    moreover have "lines_needed width c (w # ws) \<le> 1 + lines_needed width (length w) ws"
      using lines_needed_open [OF w(2), of "c + 1 + length w" "length w"] w by auto
    ultimately show ?thesis by (simp add: gs)
  next
    case (Cons v g')
    then have g: "g = w # g'" using Cons.prems(3) by simp
    have fits: "c + 1 + length w \<le> width"
      using Cons.prems(2,4) used_ge [of "c + 1 + length w" g'] g by simp
    have "lines_needed width (c + 1 + length w) ws \<le> 1 + length gs"
      by (rule Cons.IH) (use Cons.prems g w in auto)
    then show ?thesis using fits Cons.prems(2) by simp
  qed
qed

lemma wrap_text_fewest:
  assumes short: "\<forall>w \<in> set (js_words t). length w \<le> width"
    and ls: "concat (map js_words ls) = js_words t" "\<forall>l \<in> set ls. length l \<le> width"
  shows "length (wrap_text t width) \<le> max 1 (length ls)"
proof -
  let ?gs = "filter (\<lambda>g. g \<noteq> []) (map js_words ls)"
  have fit: "\<forall>h \<in> set ?gs. h \<noteq> [] \<and> used 0 h \<le> width"
  proof
    fix h assume "h \<in> set ?gs"
    then obtain l where "l \<in> set ls" "h = js_words l" "h \<noteq> []" by auto
    then show "h \<noteq> [] \<and> used 0 h \<le> width"
      using ls(2) used_words [of l] le_trans by blast
  qed
  have words: "js_words t = concat ?gs" unfolding concat_filter_nonempty using ls(1) by simp
  have solid: "\<forall>w \<in> set (js_words t). solid w \<and> length w \<le> width"
    using short js_words_all_solid by blast
  have "lines_needed width 0 (js_words t) \<le> length ?gs"
  proof (cases ?gs)
    case Nil
    then have "js_words t = []" unfolding words by simp
    then show ?thesis by simp
  next
    case (Cons g gs)
    from fit have fits: "\<forall>k \<in> set (g # gs). k \<noteq> [] \<and> used 0 k \<le> width" unfolding Cons .
    then obtain w h where g: "g = w # h" by (cases g) simp_all
    have all: "js_words t = w # h @ concat gs" unfolding words Cons g by simp
    then have whole: "w \<noteq> []" "\<forall>v \<in> set (h @ concat gs). v \<noteq> []"
      using solid by (auto simp: solid_def)
    have "used 0 g \<le> width" "\<forall>k \<in> set gs. k \<noteq> [] \<and> used 0 k \<le> width"
      using fits by simp_all
    then have "lines_needed width (length w) (h @ concat gs) \<le> 1 + length gs"
      using whole(1) by (intro lines_needed_least [OF whole(2), where g = h]) (simp_all add: g)
    then have "lines_needed width 0 (js_words t) \<le> length (g # gs)" by (simp add: all)
    then show ?thesis unfolding Cons .
  qed
  also have "\<dots> \<le> length ls" using length_filter_le [of "\<lambda>g. g \<noteq> []" "map js_words ls"]
    unfolding length_map .
  finally have needed: "lines_needed width 0 (js_words t) \<le> length ls" .
  obtain l cur where s: "foldl (wrap_word width) ([], []) (js_words t) = (l, cur)" by fastforce
  with needed have "length (push_line l cur) \<le> length ls"
    using wrap_fold_length [OF solid s] by simp
  then show ?thesis by (auto simp: wrap_text_def s Let_def)
qed

section \<open>Rows\<close>

lemma printing_blanks [simp]: "inked (replicate n blank) = []"
  by (simp add: filter_replicate)

lemma pad_row_bound: "length right \<le> width \<Longrightarrow> l \<in> set (pad_row left right width) \<Longrightarrow> length l \<le> width"
  by (auto simp: pad_row_def Let_def pad_start_def dest: wrap_text_bound split: if_splits)

lemma pad_row_right: "suffix right (last (pad_row left right width))"
  by (auto simp: pad_row_def Let_def pad_start_def suffix_def)

lemma pad_row_printing:
  "0 < width \<Longrightarrow> concat (map inked (pad_row left right width)) = inked left @ inked right"
  by (auto simp: pad_row_def Let_def pad_start_def wrap_text_printing)

lemma pad_row_not_Nil [simp]: "pad_row left right width \<noteq> []"
  by (simp add: pad_row_def Let_def)

end
