(* ===== verification/Escpos_Printer.thy ===== *)
theory Escpos_Printer
  imports Escpos_Layout
begin

text \<open>
  The printer: a machine that reads ESC/POS bytes and says what appears on the paper. It
  knows the commands \<open>escpos.ts\<close> emits (initialize, select justification, emphasis, line feed,
  full cut) and printable ASCII, and refuses everything else. The main lemma says that the
  bytes of a document make it print exactly the lines of the layout, and nothing else.
\<close>

section \<open>The machine\<close>

datatype paper = Paper_Blank | Paper_Line align bool "byte list" | Paper_Cut

definition feed :: "align \<Rightarrow> bool \<Rightarrow> byte list \<Rightarrow> paper" where
  "feed al bold pending = (if pending = [] then Paper_Blank else Paper_Line al bold pending)"

definition printable :: "byte \<Rightarrow> bool" where
  "printable b \<longleftrightarrow> 0x20 \<le> b \<and> b \<le> 0x7e"

definition byte_align :: "byte \<Rightarrow> align option" where
  "byte_align n = (if n = 0 then Some Align_Left else if n = 1 then Some Align_Center
     else if n = 2 then Some Align_Right else None)"

definition byte_bool :: "byte \<Rightarrow> bool option" where
  "byte_bool n = (if n = 0 then Some False else if n = 1 then Some True else None)"

fun run_printer :: "align \<Rightarrow> bool \<Rightarrow> byte list \<Rightarrow> byte list \<Rightarrow> paper list option" where
  "run_printer al bold pending [] = (if pending = [] then Some [] else None)"
| "run_printer al bold pending (b # bs) =
     (if b = LF then map_option (\<lambda>ps. feed al bold pending # ps) (run_printer al bold [] bs)
      else if printable b then run_printer al bold (pending @ [b]) bs
      else if b = ESC then
        (case bs of
           [] \<Rightarrow> None
         | c # cs \<Rightarrow>
             if c = 0x40 then run_printer Align_Left False pending cs
             else (case cs of
                 [] \<Rightarrow> None
               | n # ns \<Rightarrow>
                   if c = 0x61 then (case byte_align n of None \<Rightarrow> None | Some al' \<Rightarrow> run_printer al' bold pending ns)
                   else if c = 0x45 then (case byte_bool n of None \<Rightarrow> None | Some b' \<Rightarrow> run_printer al b' pending ns)
                   else None))
      else if b = GS then
        (case bs of
           c # n # ns \<Rightarrow>
             if c = 0x56 \<and> n = 0 \<and> pending = [] then map_option (\<lambda>ps. Paper_Cut # ps) (run_printer al bold [] ns)
             else None
         | _ \<Rightarrow> None)
      else None)"

text \<open>A printer that has just been switched on.\<close>

definition print_bytes :: "byte list \<Rightarrow> paper list option" where
  "print_bytes bs = run_printer Align_Left False [] bs"

section \<open>What a document should look like\<close>

definition paper_lines :: "align \<Rightarrow> bool \<Rightarrow> js_text list \<Rightarrow> paper list" where
  "paper_lines al bold ls = map (\<lambda>l. feed al bold (encode_ascii l)) ls"

fun paper_line :: "nat \<Rightarrow> print_line \<Rightarrow> paper list" where
  "paper_line width Line_Spacer = [Paper_Blank]"
| "paper_line width Line_Rule = paper_lines Align_Left False [replicate width 0x2d]"
| "paper_line width (Line_Row left right bold) = paper_lines Align_Left bold (pad_row left right width)"
| "paper_line width (Line_Text t bold al) =
     paper_lines (nullish al Align_Left) bold (wrap_text t width)"

definition paper_document :: "print_document \<Rightarrow> paper_width \<Rightarrow> paper list" where
  "paper_document doc paper =
     concat (map (paper_line (chars_per_line paper)) (pd_lines doc)) @ replicate 3 Paper_Blank @ [Paper_Cut]"

section \<open>The printer shows the document\<close>

lemmas control_bytes = ESC_def GS_def LF_def printable_def byte_align_def byte_bool_def

lemma run_printer_commands:
  "run_printer al bold pending (ESC # 0x40 # rest) = run_printer Align_Left False pending rest"
  "run_printer al bold pending (ESC # 0x61 # n # rest) =
    (case byte_align n of None \<Rightarrow> None | Some al' \<Rightarrow> run_printer al' bold pending rest)"
  "run_printer al bold pending (ESC # 0x45 # n # rest) =
    (case byte_bool n of None \<Rightarrow> None | Some b' \<Rightarrow> run_printer al b' pending rest)"
  "run_printer al bold [] (GS # 0x56 # 0 # rest) = map_option (\<lambda>ps. Paper_Cut # ps) (run_printer al bold [] rest)"
  "run_printer al bold pending (LF # rest) =
    map_option (\<lambda>ps. feed al bold pending # ps) (run_printer al bold [] rest)"
  "printable b \<Longrightarrow> run_printer al bold pending (b # rest) = run_printer al bold (pending @ [b]) rest"
  by (simp_all add: ESC_def GS_def LF_def printable_def) (auto simp: word_le_nat_alt)

declare run_printer.simps(2) [simp del] run_printer_commands [simp]

lemma run_printer_text:
  "\<forall>b \<in> set bs. printable b \<Longrightarrow> run_printer al bold pending (bs @ rest) = run_printer al bold (pending @ bs) rest"
  by (induction bs arbitrary: pending) simp_all

lemma encode_unit_printable: "printable (encode_unit c)"
proof (cases "0x20 \<le> c \<and> c \<le> 0x7e")
  case True
  then have "unat (ucast c :: byte) = unat c"
    by (simp add: unsigned_ucast_eq word_le_nat_alt take_bit_nat_eq_self)
  then show ?thesis using True by (simp add: encode_unit_def printable_def word_le_nat_alt)
next
  case False
  then show ?thesis unfolding encode_unit_def if_not_P [OF False] by (simp add: printable_def)
qed

lemma run_printer_lines:
  "run_printer al bold [] (lines_bytes ls @ rest) =
    map_option (\<lambda>ps. paper_lines al bold ls @ ps) (run_printer al bold [] rest)"
proof (induction ls)
  case Nil
  then show ?case by (simp add: lines_bytes_def paper_lines_def option.map_ident)
next
  case (Cons l ls)
  have "\<forall>b \<in> set (encode_ascii l). printable b" by (simp add: encode_ascii_def encode_unit_printable)
  with Cons show ?case
    by (simp add: lines_bytes_def paper_lines_def run_printer_text option.map_comp comp_def)
qed

lemma run_printer_bold:
  "run_printer al False [] (bold_bytes bold (lines_bytes ls) @ rest) =
    map_option (\<lambda>ps. paper_lines al bold ls @ ps) (run_printer al False [] rest)"
  by (cases bold) (simp_all add: bold_bytes_def run_printer_lines byte_bool_def)

lemma byte_align_byte: "byte_align (align_byte al) = Some (nullish al Align_Left)"
  by (cases al rule: align_byte.cases) (simp_all add: byte_align_def)

text \<open>A line of the document leaves the printer in some alignment; emphasis is always off.\<close>

lemma run_printer_line:
  "\<exists>al'. \<forall>rest. run_printer al False [] (line_bytes width l @ rest) =
    map_option (\<lambda>ps. paper_line width l @ ps) (run_printer al' False [] rest)"
proof (cases l)
  case (Line_Text t bold a)
  then show ?thesis
    by (intro exI [of _ "nullish a Align_Left"]) (simp add: byte_align_byte run_printer_bold)
next
  case (Line_Row left right bold)
  then show ?thesis by (intro exI [of _ Align_Left]) (simp add: byte_align_def run_printer_bold)
next
  case Line_Rule
  have "run_printer Align_Left False [] (encode_ascii (replicate width 0x2d) @ LF # rest) =
      map_option (\<lambda>ps. paper_line width Line_Rule @ ps) (run_printer Align_Left False [] rest)" for rest
    using run_printer_lines [of Align_Left False "[replicate width 0x2d]" rest] by (simp add: lines_bytes_def)
  with Line_Rule show ?thesis by (intro exI [of _ Align_Left]) (simp add: byte_align_def)
next
  case Line_Spacer
  then show ?thesis by (intro exI [of _ al]) (simp add: feed_def)
qed

lemma run_printer_all:
  "\<exists>al'. \<forall>rest. run_printer al False [] (concat (map (line_bytes width) ls) @ rest) =
    map_option (\<lambda>ps. concat (map (paper_line width) ls) @ ps) (run_printer al' False [] rest)"
proof (induction ls arbitrary: al)
  case Nil
  show ?case by (intro exI [of _ al]) (simp add: option.map_ident)
next
  case (Cons l ls)
  obtain al1 where 1: "\<forall>rest. run_printer al False [] (line_bytes width l @ rest) =
      map_option (\<lambda>ps. paper_line width l @ ps) (run_printer al1 False [] rest)"
    using run_printer_line by blast
  obtain al2 where 2: "\<forall>rest. run_printer al1 False [] (concat (map (line_bytes width) ls) @ rest) =
      map_option (\<lambda>ps. concat (map (paper_line width) ls) @ ps) (run_printer al2 False [] rest)"
    using Cons.IH by blast
  show ?case by (intro exI [of _ al2]) (simp add: 1 2 option.map_comp comp_def)
qed

lemma print_bytes_document: "print_bytes (build_escpos_bytes doc paper) = Some (paper_document doc paper)"
proof -
  obtain al where "\<forall>rest. run_printer Align_Left False []
      (concat (map (line_bytes (chars_per_line paper)) (pd_lines doc)) @ rest) =
      map_option (\<lambda>ps. concat (map (paper_line (chars_per_line paper)) (pd_lines doc)) @ ps)
        (run_printer al False [] rest)"
    using run_printer_all by blast
  then show ?thesis
    by (simp add: print_bytes_def build_escpos_bytes_def paper_document_def feed_def numeral_3_eq_3)
qed

end
