(* ===== verification/Print_Content.thy ===== *)
theory Print_Content
  imports Domain Escpos_Printer
begin

text \<open>
  \<open>services/printContent.service.ts\<close>: what a receipt, a kitchen ticket and a test print say.
  The order comes with the names joined to it by the caller (\<open>order_view\<close>). The formatting of
  money in a currency and of dates depends on the locale of the server and is a parameter.
\<close>

section \<open>Numbers as text\<close>

fun show_nat :: "nat \<Rightarrow> string" where
  "show_nat n = (if n < 10 then [char_of (48 + n)] else show_nat (n div 10) @ [char_of (48 + n mod 10)])"

declare show_nat.simps [simp del]

definition show_int :: "int \<Rightarrow> string" where
  "show_int i = (if i < 0 then CHR ''-'' # show_nat (nat (- i)) else show_nat (nat i))"

text \<open>\<open>amount.toFixed(2)\<close>: the nearest number of cents, the larger one between two, of the size
  of the amount, with the sign in front.\<close>

definition to_fixed2 :: "money \<Rightarrow> string" where
  "to_fixed2 x =
     (let n = nat \<lfloor>\<bar>x\<bar> * 100 + 1 / 2\<rfloor>;
          t = show_nat (n div 100) @ ''.'' @ [char_of (48 + n mod 100 div 10), char_of (48 + n mod 10)] in
      if x < 0 then CHR ''-'' # t else t)"

section \<open>The order to print\<close>

record order_view = order +
  ov_restaurantName :: "string option"
  ov_restaurantPhone :: "string option"
  ov_restaurantAddress :: "string option"
  ov_customerName :: "string option"
  ov_customerPhone :: "string option"

text \<open>What depends on the locale: \<open>Intl.NumberFormat\<close> in a currency (\<open>None\<close> when it throws) and
  the texts of the order's date and of now.\<close>

record print_texts =
  pl_currency :: "string \<Rightarrow> money \<Rightarrow> js_text option"
  pl_orderDate :: "oid \<Rightarrow> js_text"
  pl_now :: js_text

definition format_money :: "print_texts \<Rightarrow> money \<Rightarrow> string \<Rightarrow> js_text" where
  "format_money loc amount currency =
     (if currency = [] then js_units (to_fixed2 amount)
      else (case pl_currency loc currency amount of
        Some t \<Rightarrow> t | None \<Rightarrow> js_units (to_fixed2 amount)))"

fun order_type_text :: "order_type \<Rightarrow> string" where
  "order_type_text Pickup = ''pickup''"
| "order_type_text Delivery = ''delivery''"
| "order_type_text Dine_In = ''dine in''"

definition order_type_label :: "order_view \<Rightarrow> js_text" where
  "order_type_label ord =
     (let base = js_units (order_type_text (o_orderType ord)) in
      if o_orderType ord = Dine_In \<and> truthy_string (o_tableName ord)
      then base @ [blank, 0x2014, blank] @ js_units (the (o_tableName ord)) else base)"

definition marketplace_label :: "string \<Rightarrow> string" where
  "marketplace_label provider =
     (if provider = ''uber_eats'' then ''Uber Eats'' else if provider = ''doordash'' then ''DoorDash''
      else if provider = ''foodpanda'' then ''foodpanda'' else provider)"

fun pay_status_text :: "order_pay_status \<Rightarrow> string" where
  "pay_status_text Unpaid = ''unpaid''"
| "pay_status_text Order_Paid = ''paid''"

definition dot_sep :: js_text where
  "dot_sep = [blank, 0xB7, blank]"

definition payment_label_for :: "order_view \<Rightarrow> js_text" where
  "payment_label_for ord =
     (let status = dot_sep @ js_units (pay_status_text (o_paymentStatus ord)) in
      case o_paymentMethod ord of
        Marketplace_Pay \<Rightarrow> js_units (''Paid via '' @
          (case o_marketplace ord of
             Some m \<Rightarrow> (if mk_provider m \<noteq> [] then marketplace_label (mk_provider m) else ''Marketplace'')
           | None \<Rightarrow> ''Marketplace''))
      | Online_Pay \<Rightarrow> js_units ''Paid online'' @ status
      | Card \<Rightarrow> js_units ''Card'' @ status
      | Cash \<Rightarrow> js_units ''Cash'' @ status)"

text \<open>\<open>[\<dots>].filter(Boolean).join(separator)\<close>.\<close>

fun join_text :: "js_text \<Rightarrow> js_text list \<Rightarrow> js_text" where
  "join_text sep [] = []"
| "join_text sep [t] = t"
| "join_text sep (t # ts) = t @ sep @ join_text sep ts"

definition join_present :: "js_text \<Rightarrow> string option list \<Rightarrow> js_text" where
  "join_present sep ts = join_text sep (map (js_units \<circ> the) (filter truthy_string ts))"

definition comma_sep :: js_text where
  "comma_sep = js_units '', ''"

definition text_line :: "js_text \<Rightarrow> print_line" where
  "text_line t = Line_Text t False None"

definition plain_line :: "string \<Rightarrow> print_line" where
  "plain_line s = text_line (js_units s)"

definition delivery_address_lines :: "order_view \<Rightarrow> print_line list" where
  "delivery_address_lines ord =
     (case (o_orderType ord, o_deliveryAddress ord) of
        (Delivery, Some a) \<Rightarrow> [text_line (join_present comma_sep
           [Some (da_line1 a), da_line2 a, Some (da_city a), da_state a, da_postalCode a])]
      | _ \<Rightarrow> [])"

definition item_extra_lines :: "order_item \<Rightarrow> print_line list" where
  "item_extra_lines it =
     (if oi_selectedModifiers it \<noteq> []
      then [text_line (js_units ''  '' @ join_text comma_sep (map (js_units \<circ> sm_optionName) (oi_selectedModifiers it)))]
      else [])
     @ (if truthy_string (oi_specialInstructions it)
        then [plain_line (''  '' @ [CHR 0x22] @ the (oi_specialInstructions it) @ [CHR 0x22])] else [])"

definition item_title :: "order_item \<Rightarrow> js_text" where
  "item_title it = js_units (show_int (oi_quantity it) @ '' x '' @ oi_name it)"

definition restaurant_title :: "order_view \<Rightarrow> print_line" where
  "restaurant_title ord = Line_Text (js_units (nullish (ov_restaurantName ord) ''Restaurant'')) True (Some Align_Center)"

definition centered_if :: "string option \<Rightarrow> print_line list" where
  "centered_if t = (if truthy_string t then [Line_Text (js_units (the t)) False (Some Align_Center)] else [])"

definition order_heading :: "print_texts \<Rightarrow> order_view \<Rightarrow> print_line list" where
  "order_heading loc ord =
     [plain_line (''Order #'' @ show_int (o_orderNumber ord)), text_line (pl_orderDate loc (o_id ord)),
      text_line (order_type_label ord)]"

definition finish_document :: "string \<Rightarrow> print_line list \<Rightarrow> paper_width \<Rightarrow> print_document" where
  "finish_document title lines paper =
     \<lparr>pd_title = js_units title, pd_lines = lines,
      pd_escposBase64 = build_escpos_base64 \<lparr>pd_title = js_units title, pd_lines = lines, pd_escposBase64 = []\<rparr> paper\<rparr>"

definition receipt_items :: "print_texts \<Rightarrow> order_view \<Rightarrow> print_line list" where
  "receipt_items loc ord =
     concat (map (\<lambda>it. Line_Row (item_title it) (format_money loc (oi_lineTotal it) (o_currency ord)) False
       # item_extra_lines it) (o_items ord))"

definition receipt_amounts :: "print_texts \<Rightarrow> order_view \<Rightarrow> print_line list" where
  "receipt_amounts loc ord =
     (let money = (\<lambda>x. format_money loc x (o_currency ord)) in
      [Line_Row (js_units ''Subtotal'') (money (o_subtotal ord)) False]
      @ (if o_discount ord > 0
         then [Line_Row (js_units (''Discount'' @ (if truthy_string (o_promoCode ord)
             then '' ('' @ the (o_promoCode ord) @ '')'' else []))) (js_units ''-'' @ money (o_discount ord)) False] else [])
      @ (if o_deliveryFee ord > 0 then [Line_Row (js_units ''Delivery fee'') (money (o_deliveryFee ord)) False] else [])
      @ [Line_Row (js_units ''Tax'') (money (o_taxAmount ord)) False,
         Line_Row (js_units ''Total'') (money (o_total ord)) True])"

definition build_receipt_document :: "print_texts \<Rightarrow> order_view \<Rightarrow> paper_width \<Rightarrow> print_document" where
  "build_receipt_document loc ord paper =
     finish_document ''Receipt''
       ([restaurant_title ord] @ centered_if (ov_restaurantAddress ord) @ centered_if (ov_restaurantPhone ord)
        @ [Line_Rule, Line_Text (js_units ''RECEIPT'') True None] @ order_heading loc ord
        @ delivery_address_lines ord @ [Line_Rule] @ receipt_items loc ord @ [Line_Rule]
        @ receipt_amounts loc ord @ [Line_Rule, text_line (payment_label_for ord), Line_Spacer,
           Line_Text (js_units ''Thank you!'') False (Some Align_Center)]) paper"

definition ticket_items :: "order_view \<Rightarrow> print_line list" where
  "ticket_items ord =
     concat (map (\<lambda>it. Line_Text (item_title it) True None # item_extra_lines it) (o_items ord))"

definition build_kitchen_ticket_document :: "print_texts \<Rightarrow> order_view \<Rightarrow> paper_width \<Rightarrow> print_document" where
  "build_kitchen_ticket_document loc ord paper =
     finish_document ''Kitchen ticket''
       ([restaurant_title ord, Line_Rule, Line_Text (js_units ''KITCHEN TICKET'') True None]
        @ order_heading loc ord
        @ (if truthy_string (ov_customerName ord) \<or> truthy_string (ov_customerPhone ord)
           then [text_line (join_present dot_sep [ov_customerName ord, ov_customerPhone ord])] else [])
        @ delivery_address_lines ord @ [Line_Rule] @ ticket_items ord
        @ (if truthy_string (o_customerNotes ord)
           then [Line_Rule, plain_line (''Notes: '' @ the (o_customerNotes ord))] else [])) paper"

fun paper_mm :: "paper_width \<Rightarrow> string" where
  "paper_mm Mm58 = ''58''"
| "paper_mm Mm80 = ''80''"

definition build_test_document :: "print_texts \<Rightarrow> string \<Rightarrow> paper_width \<Rightarrow> print_document" where
  "build_test_document loc printer_name paper =
     finish_document ''Test print''
       [Line_Text (js_units ''TEST PRINT'') True (Some Align_Center), Line_Rule,
        plain_line (''Printer: '' @ printer_name), plain_line (''Paper width: '' @ paper_mm paper @ ''mm''),
        text_line (pl_now loc), Line_Rule, Line_Row (js_units ''Sample item'') (js_units ''$0.00'') False,
        plain_line ''If you can read this clearly, the printer is connected and working.''] paper"

section \<open>Facts about the documents\<close>

text \<open>A document is sealed when its bytes are those of its lines for some paper.\<close>

definition sealed :: "print_document \<Rightarrow> bool" where
  "sealed doc \<longleftrightarrow> (\<exists>paper \<in> {Mm58, Mm80}. pd_escposBase64 doc = build_escpos_base64 doc paper)"

lemma build_escpos_base64_lines:
  "pd_lines d = pd_lines d' \<Longrightarrow> build_escpos_base64 d paper = build_escpos_base64 d' paper"
  by (simp add: build_escpos_base64_def build_escpos_bytes_def)

lemma finish_document_base64:
  "pd_escposBase64 (finish_document title ls paper) = build_escpos_base64 (finish_document title ls paper) paper"
  by (simp add: finish_document_def build_escpos_base64_def build_escpos_bytes_def)

lemma finish_document_sealed [intro]: "sealed (finish_document title ls paper)"
  using finish_document_base64 by (cases paper) (auto simp: sealed_def)

lemma documents_sealed [intro]:
  "sealed (build_receipt_document loc ord paper)" "sealed (build_kitchen_ticket_document loc ord paper)"
  "sealed (build_test_document loc name paper)"
  unfolding build_receipt_document_def build_kitchen_ticket_document_def build_test_document_def by auto

text \<open>The bytes of a sealed document, read back and printed, are its lines.\<close>

lemma sealed_prints: "sealed doc \<Longrightarrow> \<exists>bs paper. atob (pd_escposBase64 doc) = Some bs \<and>
    print_bytes bs = Some (paper_document doc paper)"
  by (auto simp: sealed_def build_escpos_base64_def atob_base64 print_bytes_document)

text \<open>What the kitchen is not shown: amounts, prices, the method and the state of the payment.\<close>

definition hide_amounts :: "(order_item \<Rightarrow> order_item) \<Rightarrow> bool" where
  "hide_amounts f \<longleftrightarrow> (\<forall>it. oi_name (f it) = oi_name it \<and> oi_quantity (f it) = oi_quantity it \<and>
     map sm_optionName (oi_selectedModifiers (f it)) = map sm_optionName (oi_selectedModifiers it) \<and>
     oi_specialInstructions (f it) = oi_specialInstructions it)"

lemma item_lines_hidden:
  assumes "hide_amounts f"
  shows "item_extra_lines (f it) = item_extra_lines it" "item_title (f it) = item_title it"
proof -
  have eq: "oi_name (f it) = oi_name it" "oi_quantity (f it) = oi_quantity it"
    "map sm_optionName (oi_selectedModifiers (f it)) = map sm_optionName (oi_selectedModifiers it)"
    "oi_specialInstructions (f it) = oi_specialInstructions it"
    using assms by (simp_all add: hide_amounts_def)
  then have "oi_selectedModifiers (f it) = [] \<longleftrightarrow> oi_selectedModifiers it = []"
    by (metis map_is_Nil_conv)
  moreover from eq(3) have "map (js_units \<circ> sm_optionName) (oi_selectedModifiers (f it)) =
      map (js_units \<circ> sm_optionName) (oi_selectedModifiers it)"
    by (metis map_map)
  ultimately show "item_extra_lines (f it) = item_extra_lines it" "item_title (f it) = item_title it"
    using eq by (simp_all add: item_extra_lines_def item_title_def)
qed

text \<open>A whole amount is printed with two zeros.\<close>

lemma to_fixed2_whole: "to_fixed2 (of_nat n) = show_nat n @ ''.00''"
proof -
  have "\<lfloor>(of_nat n :: rat) * 100 + 1 / 2\<rfloor> = int (n * 100)" by (rule floor_unique) simp_all
  then have "nat \<lfloor>\<bar>of_nat n :: rat\<bar> * 100 + 1 / 2\<rfloor> = n * 100" by (metis abs_of_nat nat_int)
  moreover have "n * 100 mod 10 = 0" by (simp add: mult_mod_right)
  moreover have "char_of (48 :: nat) = CHR ''0''" by code_simp
  ultimately show ?thesis by (simp add: to_fixed2_def Let_def)
qed

lemma to_fixed2_numeral: "to_fixed2 (numeral k) = show_nat (numeral k) @ ''.00''"
  using to_fixed2_whole [of "numeral k"] by simp

end
