(* ===== verification/Printing.thy ===== *)
theory Printing
  imports Print_Content
begin

text \<open>
  Printers and print jobs: \<open>printer.controller.ts\<close>, \<open>printJob.controller.ts\<close>,
  \<open>printerRouter.service.ts\<close> with the request schemas of \<open>packages/validation/src/printer.ts\<close>.
  The documents of the ordering services are read from \<open>pb_main\<close>; the only collection of it
  that printing writes is the audit log. A handler takes the validated request, the id of the
  document it creates (\<open>nid\<close>) and the time.
\<close>

section \<open>Documents\<close>

datatype purpose = For_Receipt | For_Kitchen | For_Bar

datatype connection = Browser_Print | Web_Serial | Webusb | Local_Bridge

record printer =
  pt_id :: oid
  pt_restaurantId :: oid
  pt_name :: string
  pt_purpose :: purpose
  pt_connectionType :: connection
  pt_paperWidthMm :: paper_width
  pt_isEnabled :: bool
  pt_isDefault :: bool
  pt_bridgeUrl :: "string option"

datatype job_kind = Job_Receipt | Job_Kitchen_Ticket | Job_Test

datatype job_status = Job_Queued | Job_Printing | Job_Printed | Job_Failed | Job_Unavailable

record print_job =
  pj_id :: oid
  pj_restaurantId :: oid
  pj_orderId :: "oid option"
  pj_printerId :: oid
  pj_kind :: job_kind
  pj_status :: job_status
  pj_isReprint :: bool
  pj_attempts :: nat
  pj_lastError :: "string option"
  pj_document :: print_document
  pj_connectionType :: connection
  pj_bridgeUrl :: "string option"
  pj_requestedByUserId :: oid
  pj_printedAt :: "time option"
  pj_createdAt :: time

record print_db =
  pb_main :: db
  pb_printers :: "printer list"
  pb_jobs :: "print_job list"

definition print_audit :: "string \<Rightarrow> oid \<Rightarrow> oid \<Rightarrow> print_db \<Rightarrow> print_db" where
  "print_audit action actor target d =
     d\<lparr>pb_main := record_audit_event \<lparr>au_action = action, au_actorUserId = actor, au_targetId = target\<rparr> (pb_main d)\<rparr>"

section \<open>Requests\<close>

text \<open>\<open>bridgeUrlSchema\<close>: the regular expression
  \<open>^https?:\/\/(localhost|127\.0\.0\.1)(:\d{1,5})?(\/[\w-]*)?$\<close> without regard to case.\<close>

fun strip_prefix :: "string \<Rightarrow> string \<Rightarrow> string option" where
  "strip_prefix [] t = Some t"
| "strip_prefix (c # cs) [] = None"
| "strip_prefix (c # cs) (d # ds) = (if c = d then strip_prefix cs ds else None)"

fun strip_first :: "string list \<Rightarrow> string \<Rightarrow> string option" where
  "strip_first [] t = None"
| "strip_first (p # ps) t = (case strip_prefix p t of Some r \<Rightarrow> Some r | None \<Rightarrow> strip_first ps t)"

definition is_digit :: "char \<Rightarrow> bool" where
  "is_digit c \<longleftrightarrow> (let n = of_char c :: nat in 48 \<le> n \<and> n \<le> 57)"

definition is_path_char :: "char \<Rightarrow> bool" where
  "is_path_char c \<longleftrightarrow> is_digit c \<or> (let n = of_char c :: nat in 97 \<le> n \<and> n \<le> 122) \<or> c = CHR ''_'' \<or> c = CHR ''-''"

fun strip_port :: "string \<Rightarrow> string option" where
  "strip_port (CHR '':'' # t) =
     (let ds = takeWhile is_digit t in
      if 1 \<le> length ds \<and> length ds \<le> 5 then Some (dropWhile is_digit t) else None)"
| "strip_port t = Some t"

definition bridge_schemes :: "string list" where
  "bridge_schemes = [''http://'', ''https://'']"

definition bridge_hosts :: "string list" where
  "bridge_hosts = [''localhost'', ''127.0.0.1'']"

definition bridge_url_ok :: "string \<Rightarrow> bool" where
  "bridge_url_ok u =
     (length u \<le> 200 \<and>
      (case strip_first bridge_schemes (js_lower u) of
         None \<Rightarrow> False
       | Some h \<Rightarrow> (case strip_first bridge_hosts h of
           None \<Rightarrow> False
         | Some p \<Rightarrow> (case strip_port p of
             None \<Rightarrow> False
           | Some r \<Rightarrow> r = [] \<or> (hd r = CHR ''/'' \<and> list_all is_path_char (tl r))))))"

definition bridge_ok :: "string option \<Rightarrow> bool" where
  "bridge_ok u = (case u of None \<Rightarrow> True | Some s \<Rightarrow> bridge_url_ok s)"

text \<open>The body of a create request after defaults are filled in, and of an update, where each
  field may be absent.\<close>

record printer_input =
  pi_name :: string
  pi_purpose :: purpose
  pi_connectionType :: connection
  pi_paperWidthMm :: paper_width
  pi_isEnabled :: bool
  pi_isDefault :: bool
  pi_bridgeUrl :: "string option"

record printer_update =
  pu_name :: "string option"
  pu_purpose :: "purpose option"
  pu_connectionType :: "connection option"
  pu_paperWidthMm :: "paper_width option"
  pu_isEnabled :: "bool option"
  pu_isDefault :: "bool option"
  pu_connectionConfig :: "string option option"

definition name_ok :: "string \<Rightarrow> bool" where
  "name_ok n \<longleftrightarrow> 1 \<le> length n \<and> length n \<le> 50"

definition create_printer_schema :: "printer_input \<Rightarrow> bool" where
  "create_printer_schema i \<longleftrightarrow> name_ok (pi_name i) \<and> bridge_ok (pi_bridgeUrl i)"

definition update_printer_schema :: "printer_update \<Rightarrow> bool" where
  "update_printer_schema u \<longleftrightarrow>
     (case pu_name u of None \<Rightarrow> True | Some n \<Rightarrow> name_ok n) \<and>
     (case pu_connectionConfig u of None \<Rightarrow> True | Some c \<Rightarrow> bridge_ok c)"

definition validation_failed :: api_error where
  "validation_failed = Bad_Request ''validation''"

section \<open>Printers\<close>

text \<open>\<open>updateMany\<close> that takes the default mark from the other printers of a purpose.\<close>

definition unset_defaults :: "oid \<Rightarrow> purpose \<Rightarrow> oid option \<Rightarrow> printer list \<Rightarrow> printer list" where
  "unset_defaults rid p keep ps =
     map (\<lambda>x. if pt_restaurantId x = rid \<and> pt_purpose x = p \<and> pt_isDefault x \<and> Some (pt_id x) \<noteq> keep
       then x\<lparr>pt_isDefault := False\<rparr> else x) ps"

text \<open>\<open>createPrinter\<close>: the schema of the model trims the name and refuses it when nothing is left,
  after the other defaults have been unset.\<close>

definition create_printer :: "oid \<Rightarrow> oid \<Rightarrow> oid \<Rightarrow> printer_input \<Rightarrow> print_db \<Rightarrow> printer result \<times> print_db" where
  "create_printer rid actor nid i d =
     (if \<not> create_printer_schema i then (Inl validation_failed, d)
      else
        let ps = (if pi_isDefault i then unset_defaults rid (pi_purpose i) None (pb_printers d) else pb_printers d);
            d1 = d\<lparr>pb_printers := ps\<rparr> in
        if js_trim (pi_name i) = [] then (Inl (Thrown ''name required''), d1)
        else
          let x = \<lparr>pt_id = nid, pt_restaurantId = rid, pt_name = js_trim (pi_name i), pt_purpose = pi_purpose i,
                   pt_connectionType = pi_connectionType i, pt_paperWidthMm = pi_paperWidthMm i,
                   pt_isEnabled = pi_isEnabled i, pt_isDefault = pi_isDefault i, pt_bridgeUrl = pi_bridgeUrl i\<rparr> in
          (Inr x, print_audit ''printer.created'' actor nid (d1\<lparr>pb_printers := ps @ [x]\<rparr>)))"

text \<open>\<open>Object.assign(existing, updates)\<close>.\<close>

definition assign_printer :: "printer_update \<Rightarrow> printer \<Rightarrow> printer" where
  "assign_printer u x =
     x\<lparr>pt_name := (case pu_name u of None \<Rightarrow> pt_name x | Some n \<Rightarrow> js_trim n),
       pt_purpose := nullish (pu_purpose u) (pt_purpose x),
       pt_connectionType := nullish (pu_connectionType u) (pt_connectionType x),
       pt_paperWidthMm := nullish (pu_paperWidthMm u) (pt_paperWidthMm x),
       pt_isEnabled := nullish (pu_isEnabled u) (pt_isEnabled x),
       pt_isDefault := nullish (pu_isDefault u) (pt_isDefault x),
       pt_bridgeUrl := nullish (pu_connectionConfig u) (pt_bridgeUrl x)\<rparr>"

definition find_printer :: "oid \<Rightarrow> oid \<Rightarrow> print_db \<Rightarrow> printer option" where
  "find_printer rid pid d = find_one (\<lambda>x. pt_id x = pid \<and> pt_restaurantId x = rid) (pb_printers d)"

definition update_printer :: "oid \<Rightarrow> oid \<Rightarrow> oid \<Rightarrow> printer_update \<Rightarrow> print_db \<Rightarrow> printer result \<times> print_db" where
  "update_printer rid actor pid u d =
     (if \<not> update_printer_schema u then (Inl validation_failed, d)
      else case find_printer rid pid d of
        None \<Rightarrow> (Inl (Not_Found ''printer''), d)
      | Some x \<Rightarrow>
          let ps = (if pu_isDefault u = Some True
                    then unset_defaults rid (nullish (pu_purpose u) (pt_purpose x)) (Some pid) (pb_printers d)
                    else pb_printers d);
              x' = assign_printer u x in
          if pt_name x' = [] then (Inl (Thrown ''name required''), d\<lparr>pb_printers := ps\<rparr>)
          else (Inr x', print_audit ''printer.updated'' actor pid
                  (d\<lparr>pb_printers := update_one (\<lambda>y. pt_id y = pid) (\<lambda>_. x') ps\<rparr>)))"

definition delete_printer :: "oid \<Rightarrow> oid \<Rightarrow> oid \<Rightarrow> print_db \<Rightarrow> unit result \<times> print_db" where
  "delete_printer rid actor pid d =
     (case find_printer rid pid d of
        None \<Rightarrow> (Inl (Not_Found ''printer''), d)
      | Some _ \<Rightarrow> (Inr (), print_audit ''printer.deleted'' actor pid
          (d\<lparr>pb_printers := delete_one (\<lambda>x. pt_id x = pid \<and> pt_restaurantId x = rid) (pb_printers d)\<rparr>)))"

text \<open>\<open>testPrintPrinter\<close>.\<close>

definition new_job :: "oid \<Rightarrow> oid option \<Rightarrow> printer \<Rightarrow> job_kind \<Rightarrow> bool \<Rightarrow> print_document \<Rightarrow> oid \<Rightarrow> oid \<Rightarrow> time \<Rightarrow> print_job" where
  "new_job rid ord x kind reprint doc actor nid now =
     \<lparr>pj_id = nid, pj_restaurantId = rid, pj_orderId = ord, pj_printerId = pt_id x, pj_kind = kind,
      pj_status = Job_Queued, pj_isReprint = reprint, pj_attempts = 0, pj_lastError = None,
      pj_document = doc, pj_connectionType = pt_connectionType x, pj_bridgeUrl = pt_bridgeUrl x,
      pj_requestedByUserId = actor, pj_printedAt = None, pj_createdAt = now\<rparr>"

definition test_print_printer :: "print_texts \<Rightarrow> oid \<Rightarrow> oid \<Rightarrow> oid \<Rightarrow> oid \<Rightarrow> time \<Rightarrow> print_db \<Rightarrow> print_job result \<times> print_db" where
  "test_print_printer loc rid actor pid nid now d =
     (case find_printer rid pid d of
        None \<Rightarrow> (Inl (Not_Found ''printer''), d)
      | Some x \<Rightarrow>
          let doc = build_test_document loc (pt_name x) (pt_paperWidthMm x);
              j = new_job rid None x Job_Test False doc actor nid now in
          (Inr j, d\<lparr>pb_jobs := pb_jobs d @ [j]\<rparr>))"

section \<open>Print jobs\<close>

fun kind_to_purpose :: "job_kind \<Rightarrow> purpose" where
  "kind_to_purpose Job_Kitchen_Ticket = For_Kitchen"
| "kind_to_purpose _ = For_Receipt"

definition default_printer :: "oid \<Rightarrow> purpose \<Rightarrow> print_db \<Rightarrow> printer option" where
  "default_printer rid p d =
     find_one (\<lambda>x. pt_restaurantId x = rid \<and> pt_purpose x = p \<and> pt_isEnabled x \<and> pt_isDefault x) (pb_printers d)"

definition resolve_printer_for_job :: "oid \<Rightarrow> job_kind \<Rightarrow> oid option \<Rightarrow> print_db \<Rightarrow> printer option result" where
  "resolve_printer_for_job rid kind explicit d =
     (if truthy_string explicit then
        (case find_printer rid (the explicit) d of
           None \<Rightarrow> Inl (Not_Found ''printer'') | Some x \<Rightarrow> Inr (Some x))
      else Inr (default_printer rid (kind_to_purpose kind) d))"

text \<open>\<open>loadOrderForPrint\<close>: the customer is joined for kitchen tickets only.\<close>

definition load_order_for_print :: "oid \<Rightarrow> oid \<Rightarrow> bool \<Rightarrow> db \<Rightarrow> order_view result" where
  "load_order_for_print rid ord customer d =
     (case find_order ord rid d of
        None \<Rightarrow> Inl (Not_Found ''order'')
      | Some ord' \<Rightarrow>
          let res = find_restaurant (o_restaurantId ord') d;
              cust = (if customer then find_one (\<lambda>u. u_id u = o_customerId ord') (db_users d) else None) in
          Inr (order.extend ord'
            (order_view.fields
              (map_option res_name res)
              (Option.bind res res_phone)
              (map_option (\<lambda>r. let parts = filter truthy_string [res_address r, res_city r, res_state r, res_postalCode r]
                 in (case map the parts of [] \<Rightarrow> [] | t # ts \<Rightarrow> t @ concat (map (\<lambda>s. '', '' @ s) ts))) res)
              (map_option u_name cust)
              (Option.bind cust u_phone))))"

record job_input =
  ji_kind :: job_kind
  ji_orderId :: oid
  ji_printerId :: "oid option"
  ji_isReprint :: bool

definition create_job_schema :: "job_input \<Rightarrow> bool" where
  "create_job_schema i \<longleftrightarrow> ji_kind i \<noteq> Job_Test \<and> ji_orderId i \<noteq> []"

definition create_print_job :: "print_texts \<Rightarrow> oid \<Rightarrow> oid \<Rightarrow> job_input \<Rightarrow> oid \<Rightarrow> time \<Rightarrow> print_db \<Rightarrow> print_job result \<times> print_db" where
  "create_print_job loc rid actor i nid now d =
     (if \<not> create_job_schema i then (Inl validation_failed, d)
      else case load_order_for_print rid (ji_orderId i) (ji_kind i = Job_Kitchen_Ticket) (pb_main d) of
        Inl e \<Rightarrow> (Inl e, d)
      | Inr ord \<Rightarrow> (case resolve_printer_for_job rid (ji_kind i) (ji_printerId i) d of
          Inl e \<Rightarrow> (Inl e, d)
        | Inr None \<Rightarrow> (Inl (Bad_Request ''no enabled default printer''), d)
        | Inr (Some x) \<Rightarrow>
            let doc = (if ji_kind i = Job_Receipt then build_receipt_document loc ord (pt_paperWidthMm x)
                       else build_kitchen_ticket_document loc ord (pt_paperWidthMm x));
                j = new_job rid (Some (ji_orderId i)) x (ji_kind i) (ji_isReprint i) doc actor nid now in
            (Inr j, d\<lparr>pb_jobs := pb_jobs d @ [j]\<rparr>)))"

definition find_job :: "oid \<Rightarrow> oid \<Rightarrow> print_db \<Rightarrow> print_job option" where
  "find_job rid jid d = find_one (\<lambda>j. pj_id j = jid \<and> pj_restaurantId j = rid) (pb_jobs d)"

definition save_job :: "print_job \<Rightarrow> print_db \<Rightarrow> print_db" where
  "save_job j d = d\<lparr>pb_jobs := update_one (\<lambda>x. pj_id x = pj_id j) (\<lambda>_. j) (pb_jobs d)\<rparr>"

text \<open>\<open>updatePrintJobStatusSchema\<close>: a failure comes with its reason, of at most 500 characters.\<close>

definition failure_status :: "job_status \<Rightarrow> bool" where
  "failure_status s \<longleftrightarrow> s = Job_Failed \<or> s = Job_Unavailable"

definition update_status_schema :: "job_status \<Rightarrow> string option \<Rightarrow> bool" where
  "update_status_schema s err \<longleftrightarrow> s \<noteq> Job_Queued \<and>
     (case err of None \<Rightarrow> True | Some e \<Rightarrow> length e \<le> 500) \<and> (failure_status s \<longrightarrow> truthy_string err)"

definition update_print_job_status ::
  "oid \<Rightarrow> oid \<Rightarrow> oid \<Rightarrow> job_status \<Rightarrow> string option \<Rightarrow> time \<Rightarrow> print_db \<Rightarrow> print_job result \<times> print_db" where
  "update_print_job_status rid actor jid s err now d =
     (if \<not> update_status_schema s err then (Inl validation_failed, d)
      else case find_job rid jid d of
        None \<Rightarrow> (Inl (Not_Found ''print job''), d)
      | Some j \<Rightarrow>
          let j' = j\<lparr>pj_status := s, pj_lastError := (if failure_status s then err else None),
                     pj_printedAt := (if s = Job_Printed then Some now else pj_printedAt j),
                     pj_attempts := pj_attempts j + (if s = Job_Printing then 1 else 0)\<rparr>;
              d' = save_job j' d in
          (Inr j', if failure_status s then print_audit ''print_job.failed'' actor jid d' else d'))"

definition retry_print_job :: "oid \<Rightarrow> oid \<Rightarrow> print_db \<Rightarrow> print_job result \<times> print_db" where
  "retry_print_job rid jid d =
     (case find_job rid jid d of
        None \<Rightarrow> (Inl (Not_Found ''print job''), d)
      | Some j \<Rightarrow>
          if \<not> failure_status (pj_status j) then (Inl (Bad_Request ''only a failed or unavailable print job''), d)
          else let j' = j\<lparr>pj_status := Job_Queued, pj_lastError := None\<rparr> in (Inr j', save_job j' d))"

text \<open>The reading handlers; the history of an order lists the newest job first.\<close>

definition get_print_job :: "oid \<Rightarrow> oid \<Rightarrow> print_db \<Rightarrow> print_job result" where
  "get_print_job rid jid d = (case find_job rid jid d of None \<Rightarrow> Inl (Not_Found ''print job'') | Some j \<Rightarrow> Inr j)"

definition list_print_jobs_for_order :: "oid \<Rightarrow> oid \<Rightarrow> print_db \<Rightarrow> print_job list" where
  "list_print_jobs_for_order rid ord d =
     sort_key (\<lambda>j. - pj_createdAt j) (filter (\<lambda>j. pj_restaurantId j = rid \<and> pj_orderId j = Some ord) (pb_jobs d))"

end
