(* ===== verification/Printing_Client.thy ===== *)
theory Printing_Client
  imports Printing
begin

text \<open>
  The browser side of printing: the adapters of \<open>apps/admin/src/pos/printing/adapters.ts\<close> that
  hand a job to a device and \<open>usePrintJob.ts\<close>, which creates a job, lets the adapter try it and
  reports the outcome to the server. The devices are parameters; requests reach the server.
\<close>

section \<open>Devices\<close>

text \<open>\<open>None\<close> for a browser without the interface; else what opening the device and writing the
  bytes answers, \<open>Some\<close> the message of the exception. \<open>pe_window\<close>: the blank tab opened by the
  caller is there.\<close>

datatype bridge_answer = Bridge_Ok | Bridge_Http nat | Bridge_Unreachable

record print_env =
  pe_serial :: "(byte list \<Rightarrow> string option) option"
  pe_usb :: "(byte list \<Rightarrow> string option) option"
  pe_bridge :: "string \<Rightarrow> string \<Rightarrow> bridge_answer"
  pe_window :: bool

datatype sent = Sent_Nothing | Sent_Bytes "byte list" | Sent_Bridge string string | Opened_Page

type_synonym attempt = "string option \<times> sent"

definition raw_device :: "string \<Rightarrow> (byte list \<Rightarrow> string option) option \<Rightarrow> print_job \<Rightarrow> attempt" where
  "raw_device name dev j =
     (case dev of
        None \<Rightarrow> (Some (name @ '' is not supported by this browser''), Sent_Nothing)
      | Some write \<Rightarrow> (case atob (pd_escposBase64 (pj_document j)) of
          None \<Rightarrow> (Some ''InvalidCharacterError'', Sent_Nothing)
        | Some bytes \<Rightarrow> (case write bytes of
            None \<Rightarrow> (None, Sent_Bytes bytes)
          | Some msg \<Rightarrow> (Some (if msg \<noteq> [] then msg else ''Could not reach the printer over '' @ name), Sent_Bytes bytes))))"

definition local_bridge :: "(string \<Rightarrow> string \<Rightarrow> bridge_answer) \<Rightarrow> print_job \<Rightarrow> attempt" where
  "local_bridge post j =
     (if \<not> truthy_string (pj_bridgeUrl j) then (Some ''no local bridge address'', Sent_Nothing)
      else let url = the (pj_bridgeUrl j) @ ''/print''; body = pd_escposBase64 (pj_document j) in
        (case post url body of
           Bridge_Ok \<Rightarrow> (None, Sent_Bridge url body)
         | Bridge_Http s \<Rightarrow> (Some (''bridge error HTTP '' @ show_nat s), Sent_Bridge url body)
         | Bridge_Unreachable \<Rightarrow> (Some ''Could not reach the local print bridge'', Sent_Bridge url body)))"

text \<open>\<open>adapterForConnectionType\<close> and \<open>execute\<close>.\<close>

fun execute_print :: "print_env \<Rightarrow> connection \<Rightarrow> print_job \<Rightarrow> attempt" where
  "execute_print env Browser_Print j =
     (if pe_window env then (None, Opened_Page) else (Some ''The browser blocked the print window'', Sent_Nothing))"
| "execute_print env Web_Serial j = raw_device ''Web Serial'' (pe_serial env) j"
| "execute_print env Webusb j = raw_device ''WebUSB'' (pe_usb env) j"
| "execute_print env Local_Bridge j = local_bridge (pe_bridge env) j"

section \<open>Executing and reporting\<close>

record outcome =
  oc_job :: "print_job option"
  oc_success :: bool
  oc_error :: "string option"

definition execute_and_report ::
  "print_env \<Rightarrow> oid \<Rightarrow> oid \<Rightarrow> print_job \<Rightarrow> time \<Rightarrow> print_db \<Rightarrow> outcome result \<times> sent \<times> print_db" where
  "execute_and_report env rid actor j now d =
     (case update_print_job_status rid actor (pj_id j) Job_Printing None now d of
        (Inl e, d1) \<Rightarrow> (Inl e, Sent_Nothing, d1)
      | (Inr printing, d1) \<Rightarrow>
          (case execute_print env (pj_connectionType j) j of
             (Some msg, sent) \<Rightarrow>
               (case update_print_job_status rid actor (pj_id j) Job_Failed (Some msg) now d1 of
                  (Inl e, d2) \<Rightarrow> (Inl e, sent, d2)
                | (Inr failed, d2) \<Rightarrow> (Inr \<lparr>oc_job = Some failed, oc_success = False, oc_error = Some msg\<rparr>, sent, d2))
           | (None, sent) \<Rightarrow>
               if pj_connectionType j = Browser_Print
               then (Inr \<lparr>oc_job = Some printing, oc_success = True, oc_error = None\<rparr>, sent, d1)
               else (case update_print_job_status rid actor (pj_id j) Job_Printed None now d1 of
                  (Inl e, d2) \<Rightarrow> (Inl e, sent, d2)
                | (Inr printed, d2) \<Rightarrow> (Inr \<lparr>oc_job = Some printed, oc_success = True, oc_error = None\<rparr>, sent, d2))))"

text \<open>\<open>printOrder\<close>: without a configured printer the page is opened and nothing is tracked.\<close>

definition print_order ::
  "print_env \<Rightarrow> print_texts \<Rightarrow> oid \<Rightarrow> oid \<Rightarrow> job_input \<Rightarrow> oid \<Rightarrow> time \<Rightarrow> print_db \<Rightarrow> outcome result \<times> sent \<times> print_db" where
  "print_order env loc rid actor i nid now d =
     (case create_print_job loc rid actor i nid now d of
        (Inl e, d1) \<Rightarrow>
          if e = Bad_Request ''no enabled default printer''
          then (Inr \<lparr>oc_job = None, oc_success = pe_window env,
                  oc_error = (if pe_window env then None else Some ''The browser blocked the print window'')\<rparr>,
                if pe_window env then Opened_Page else Sent_Nothing, d1)
          else (Inl e, Sent_Nothing, d1)
      | (Inr j, d1) \<Rightarrow> execute_and_report env rid actor j now d1)"

definition test_print ::
  "print_env \<Rightarrow> print_texts \<Rightarrow> oid \<Rightarrow> oid \<Rightarrow> oid \<Rightarrow> oid \<Rightarrow> time \<Rightarrow> print_db \<Rightarrow> outcome result \<times> sent \<times> print_db" where
  "test_print env loc rid actor pid nid now d =
     (case test_print_printer loc rid actor pid nid now d of
        (Inl e, d1) \<Rightarrow> (Inl e, Sent_Nothing, d1)
      | (Inr j, d1) \<Rightarrow> execute_and_report env rid actor j now d1)"

definition retry_print :: "print_env \<Rightarrow> oid \<Rightarrow> oid \<Rightarrow> oid \<Rightarrow> time \<Rightarrow> print_db \<Rightarrow> outcome result \<times> sent \<times> print_db" where
  "retry_print env rid actor jid now d =
     (case retry_print_job rid jid d of
        (Inl e, d1) \<Rightarrow> (Inl e, Sent_Nothing, d1)
      | (Inr j, d1) \<Rightarrow> execute_and_report env rid actor j now d1)"

end
