(* ===== verification/Printing_Safety.thy ===== *)
theory Printing_Safety
  imports Printing_Client
begin

text \<open>
  What holds of printers and print jobs in every state: a job is frozen when it is created,
  its bytes are those of its lines, its bridge is on the local machine, and a printer shows
  what the job says. The step relation has every operation of the printing handlers and
  arbitrary changes of the other collections.
\<close>

section \<open>Runs\<close>

inductive print_step :: "print_db \<Rightarrow> print_db \<Rightarrow> bool" where
  add_printer: "print_step d (snd (create_printer rid actor nid i d))"
| change_printer: "print_step d (snd (update_printer rid actor pid u d))"
| drop_printer: "print_step d (snd (delete_printer rid actor pid d))"
| add_test: "nid \<notin> pj_id ` set (pb_jobs d) \<Longrightarrow> print_step d (snd (test_print_printer loc rid actor pid nid now d))"
| add_job: "nid \<notin> pj_id ` set (pb_jobs d) \<Longrightarrow> print_step d (snd (create_print_job loc rid actor i nid now d))"
| report: "print_step d (snd (update_print_job_status rid actor jid s err now d))"
| retry: "print_step d (snd (retry_print_job rid jid d))"
| elsewhere: "print_step d (d\<lparr>pb_main := m\<rparr>)"

abbreviation print_run :: "print_db \<Rightarrow> print_db \<Rightarrow> bool" where
  "print_run \<equiv> print_step\<^sup>*\<^sup>*"

text \<open>What never changes of a job, and what a job says of itself.\<close>

definition frozen :: "print_job \<Rightarrow> oid \<times> oid option \<times> oid \<times> job_kind \<times> bool \<times> print_document \<times> connection \<times> string option" where
  "frozen j = (pj_id j, pj_orderId j, pj_printerId j, pj_kind j, pj_isReprint j, pj_document j,
     pj_connectionType j, pj_bridgeUrl j)"

definition job_ok :: "print_job \<Rightarrow> bool" where
  "job_ok j \<longleftrightarrow> sealed (pj_document j) \<and> bridge_ok (pj_bridgeUrl j) \<and>
     (pj_lastError j \<noteq> None \<longleftrightarrow> failure_status (pj_status j)) \<and>
     (pj_status j = Job_Printed \<longrightarrow> pj_printedAt j \<noteq> None) \<and>
     (pj_status j = Job_Printing \<longrightarrow> 0 < pj_attempts j)"

definition bridges_ok :: "printer list \<Rightarrow> bool" where
  "bridges_ok ps \<longleftrightarrow> (\<forall>x \<in> set ps. bridge_ok (pt_bridgeUrl x))"

definition print_ok :: "print_db \<Rightarrow> bool" where
  "print_ok d \<longleftrightarrow> distinct (map pj_id (pb_jobs d)) \<and> (\<forall>j \<in> set (pb_jobs d). job_ok j) \<and>
     bridges_ok (pb_printers d)"

section \<open>What one operation writes\<close>

text \<open>An operation on printers leaves the jobs; an operation on jobs leaves the printers and adds
  a job or writes one.\<close>

inductive job_write :: "print_job list \<Rightarrow> print_job list \<Rightarrow> bool" where
  no_write: "job_write js js"
| add: "job_ok j \<Longrightarrow> pj_id j \<notin> pj_id ` set js \<Longrightarrow> job_write js (js @ [j])"
| change: "j \<in> set js \<Longrightarrow> frozen j' = frozen j \<Longrightarrow> (job_ok j \<Longrightarrow> job_ok j') \<Longrightarrow>
    job_write js (update_one (\<lambda>x. pj_id x = pj_id j') (\<lambda>_. j') js)"

definition printers_written :: "print_db \<Rightarrow> print_db \<Rightarrow> bool" where
  "printers_written d d' \<longleftrightarrow> pb_jobs d' = pb_jobs d \<and>
     (bridges_ok (pb_printers d) \<longrightarrow> bridges_ok (pb_printers d'))"

lemma print_audit_simps [simp]:
  "pb_printers (print_audit a u t d) = pb_printers d" "pb_jobs (print_audit a u t d) = pb_jobs d"
  by (simp_all add: print_audit_def)

lemma bridges_unset: "bridges_ok ps \<Longrightarrow> bridges_ok (unset_defaults rid p keep ps)"
  by (auto simp: bridges_ok_def unset_defaults_def)

lemma find_printer_SomeD: "find_printer rid pid d = Some x \<Longrightarrow>
    x \<in> set (pb_printers d) \<and> pt_id x = pid \<and> pt_restaurantId x = rid"
  by (auto simp: find_printer_def dest: find_one_SomeD)

lemma find_job_SomeD: "find_job rid jid d = Some j \<Longrightarrow>
    j \<in> set (pb_jobs d) \<and> pj_id j = jid \<and> pj_restaurantId j = rid"
  by (auto simp: find_job_def dest: find_one_SomeD)

lemma create_printer_written: "printers_written d (snd (create_printer rid actor nid i d))"
proof -
  have "bridges_ok (ps @ [x])" if "bridges_ok ps" "create_printer_schema i" "pt_bridgeUrl x = pi_bridgeUrl i" for ps x
    using that by (simp add: bridges_ok_def create_printer_schema_def)
  then show ?thesis
    using bridges_unset by (simp add: printers_written_def create_printer_def Let_def)
qed

text \<open>Updating a printer: nothing happens, or the defaults are unset, or the printer is written too.\<close>

definition updated_defaults :: "oid \<Rightarrow> oid \<Rightarrow> printer_update \<Rightarrow> printer \<Rightarrow> printer list \<Rightarrow> printer list" where
  "updated_defaults rid pid u x ps =
     (if pu_isDefault u = Some True then unset_defaults rid (nullish (pu_purpose u) (pt_purpose x)) (Some pid) ps else ps)"

lemma update_printer_cases:
  obtains (refused) e where "update_printer rid actor pid u d = (Inl e, d)"
  | (half) x e where "find_printer rid pid d = Some x" "update_printer_schema u"
      "update_printer rid actor pid u d = (Inl e, d\<lparr>pb_printers := updated_defaults rid pid u x (pb_printers d)\<rparr>)"
  | (updated) x where "find_printer rid pid d = Some x" "update_printer_schema u"
      "update_printer rid actor pid u d = (Inr (assign_printer u x), print_audit ''printer.updated'' actor pid
        (d\<lparr>pb_printers := update_one (\<lambda>y. pt_id y = pid) (\<lambda>_. assign_printer u x)
           (updated_defaults rid pid u x (pb_printers d))\<rparr>))"
  unfolding update_printer_def updated_defaults_def Let_def
  by (cases "update_printer_schema u"; cases "find_printer rid pid d";
      cases "pt_name (assign_printer u (the (find_printer rid pid d))) = []") simp_all

lemma bridges_assign:
  "bridge_ok (pt_bridgeUrl x) \<Longrightarrow> update_printer_schema u \<Longrightarrow> bridge_ok (pt_bridgeUrl (assign_printer u x))"
  by (cases "pu_connectionConfig u") (simp_all add: assign_printer_def update_printer_schema_def)

lemma update_printer_written: "printers_written d (snd (update_printer rid actor pid u d))"
proof (cases rule: update_printer_cases [of rid actor pid u d])
  case (refused e)
  then show ?thesis by (simp add: printers_written_def)
next
  case (half x e)
  then show ?thesis using bridges_unset by (simp add: printers_written_def updated_defaults_def)
next
  case (updated x)
  have "bridges_ok (update_one (\<lambda>y. pt_id y = pid) (\<lambda>_. assign_printer u x) (updated_defaults rid pid u x (pb_printers d)))"
    if "bridges_ok (pb_printers d)"
  proof -
    have "bridge_ok (pt_bridgeUrl x)" using that find_printer_SomeD [OF updated(1)] by (simp add: bridges_ok_def)
    then have new: "bridge_ok (pt_bridgeUrl (assign_printer u x))" using updated(2) by (rule bridges_assign)
    have "bridges_ok (updated_defaults rid pid u x (pb_printers d))"
      using that bridges_unset by (simp add: updated_defaults_def)
    then show ?thesis unfolding bridges_ok_def by (rule update_one_all) (rule new)
  qed
  then show ?thesis unfolding updated(3) by (simp add: printers_written_def)
qed

lemma delete_printer_written: "printers_written d (snd (delete_printer rid actor pid d))"
  using set_delete_one [of "\<lambda>x. pt_id x = pid \<and> pt_restaurantId x = rid" "pb_printers d"]
  by (auto simp: printers_written_def bridges_ok_def delete_printer_def split: option.splits)

lemma new_job_ok: "sealed doc \<Longrightarrow> bridge_ok (pt_bridgeUrl x) \<Longrightarrow> job_ok (new_job rid ord x kind re doc actor nid now)"
  by (simp add: job_ok_def new_job_def failure_status_def)

lemma resolve_printer_SomeD: "resolve_printer_for_job rid kind e d = Inr (Some x) \<Longrightarrow>
    x \<in> set (pb_printers d) \<and> pt_restaurantId x = rid"
  by (auto simp: resolve_printer_for_job_def default_printer_def dest: find_one_SomeD find_printer_SomeD
      split: if_splits option.splits)

text \<open>Creating a job: nothing happens, or a new job of a printer of the restaurant is queued.\<close>

lemma create_print_job_cases:
  obtains (refused) e where "create_print_job loc rid actor i nid now d = (Inl e, d)"
  | (created) x ord doc where "resolve_printer_for_job rid (ji_kind i) (ji_printerId i) d = Inr (Some x)"
      "load_order_for_print rid (ji_orderId i) (ji_kind i = Job_Kitchen_Ticket) (pb_main d) = Inr ord"
      "doc = (if ji_kind i = Job_Receipt then build_receipt_document loc ord (pt_paperWidthMm x)
              else build_kitchen_ticket_document loc ord (pt_paperWidthMm x))"
      "create_print_job loc rid actor i nid now d =
        (Inr (new_job rid (Some (ji_orderId i)) x (ji_kind i) (ji_isReprint i) doc actor nid now),
         d\<lparr>pb_jobs := pb_jobs d @ [new_job rid (Some (ji_orderId i)) x (ji_kind i) (ji_isReprint i) doc actor nid now]\<rparr>)"
proof (cases "create_job_schema i")
  case False
  then show ?thesis using refused by (simp add: create_print_job_def)
next
  case True
  show ?thesis
  proof (cases "load_order_for_print rid (ji_orderId i) (ji_kind i = Job_Kitchen_Ticket) (pb_main d)")
    case (Inl e)
    with True show ?thesis using refused by (simp add: create_print_job_def)
  next
    case order: (Inr ord)
    show ?thesis
    proof (cases "resolve_printer_for_job rid (ji_kind i) (ji_printerId i) d")
      case (Inl e)
      with True order show ?thesis using refused by (simp add: create_print_job_def)
    next
      case (Inr r)
      with True order show ?thesis using refused created [OF _ order]
        by (cases r) (simp_all add: create_print_job_def Let_def)
    qed
  qed
qed

lemma create_print_job_write:
  assumes "bridges_ok (pb_printers d)" "nid \<notin> pj_id ` set (pb_jobs d)"
  shows "job_write (pb_jobs d) (pb_jobs (snd (create_print_job loc rid actor i nid now d))) \<and>
    pb_printers (snd (create_print_job loc rid actor i nid now d)) = pb_printers d"
proof (cases rule: create_print_job_cases [of loc rid actor i nid now d])
  case (refused e)
  then show ?thesis by (simp add: no_write)
next
  case (created x ord doc)
  let ?j = "new_job rid (Some (ji_orderId i)) x (ji_kind i) (ji_isReprint i) doc actor nid now"
  have "bridge_ok (pt_bridgeUrl x)"
    using assms(1) resolve_printer_SomeD [OF created(1)] by (simp add: bridges_ok_def)
  moreover have "sealed doc" unfolding created(3) by (simp add: documents_sealed)
  ultimately have "job_ok ?j" by (simp add: new_job_ok)
  then have "job_write (pb_jobs d) (pb_jobs d @ [?j])" by (rule add) (simp add: new_job_def assms(2))
  then show ?thesis unfolding created(4) by simp
qed

lemma test_print_write:
  assumes "bridges_ok (pb_printers d)" "nid \<notin> pj_id ` set (pb_jobs d)"
  shows "job_write (pb_jobs d) (pb_jobs (snd (test_print_printer loc rid actor pid nid now d))) \<and>
    pb_printers (snd (test_print_printer loc rid actor pid nid now d)) = pb_printers d"
proof (cases "find_printer rid pid d")
  case None
  then show ?thesis by (simp add: test_print_printer_def no_write)
next
  case (Some x)
  let ?j = "new_job rid None x Job_Test False (build_test_document loc (pt_name x) (pt_paperWidthMm x)) actor nid now"
  have "bridge_ok (pt_bridgeUrl x)"
    using assms(1) find_printer_SomeD [OF Some] by (simp add: bridges_ok_def)
  then have "job_ok ?j" by (simp add: new_job_ok documents_sealed)
  then have "job_write (pb_jobs d) (pb_jobs d @ [?j])" by (rule add) (simp add: new_job_def assms(2))
  then show ?thesis by (simp add: test_print_printer_def Some Let_def)
qed

definition reported :: "job_status \<Rightarrow> string option \<Rightarrow> time \<Rightarrow> print_job \<Rightarrow> print_job" where
  "reported s err now j = j\<lparr>pj_status := s, pj_lastError := (if failure_status s then err else None),
     pj_printedAt := (if s = Job_Printed then Some now else pj_printedAt j),
     pj_attempts := pj_attempts j + (if s = Job_Printing then 1 else 0)\<rparr>"

lemma update_status_cases:
  obtains (refused) e where "update_print_job_status rid actor jid s err now d = (Inl e, d)"
      "\<not> update_status_schema s err \<or> find_job rid jid d = None"
  | (done_) j d' where "update_status_schema s err" "find_job rid jid d = Some j"
      "update_print_job_status rid actor jid s err now d = (Inr (reported s err now j), d')"
      "pb_jobs d' = pb_jobs (save_job (reported s err now j) d)" "pb_printers d' = pb_printers d"
  unfolding update_print_job_status_def reported_def Let_def
  by (cases "update_status_schema s err"; cases "find_job rid jid d") (simp_all add: save_job_def)

lemma reported_ok: "update_status_schema s err \<Longrightarrow> job_ok j \<Longrightarrow> job_ok (reported s err now j)"
  by (cases err) (auto simp: job_ok_def reported_def update_status_schema_def failure_status_def)

lemma reported_frozen [simp]: "frozen (reported s err now j) = frozen j" "pj_id (reported s err now j) = pj_id j"
  by (simp_all add: frozen_def reported_def)

lemma save_job_write:
  assumes "find_job rid jid d = Some j" "frozen j' = frozen j" "job_ok j \<Longrightarrow> job_ok j'"
  shows "job_write (pb_jobs d) (pb_jobs (save_job j' d))"
  unfolding save_job_def using find_job_SomeD [OF assms(1)] assms(2,3) by (auto intro: change)

lemma update_status_write:
  "job_write (pb_jobs d) (pb_jobs (snd (update_print_job_status rid actor jid s err now d))) \<and>
    pb_printers (snd (update_print_job_status rid actor jid s err now d)) = pb_printers d"
proof (cases rule: update_status_cases [of rid actor jid s err now d])
  case (refused e)
  then show ?thesis by (simp add: no_write)
next
  case (done_ j d')
  then show ?thesis using save_job_write [OF done_(2), of "reported s err now j"] reported_ok [OF done_(1)]
    by simp
qed

lemma retry_write:
  "job_write (pb_jobs d) (pb_jobs (snd (retry_print_job rid jid d))) \<and>
    pb_printers (snd (retry_print_job rid jid d)) = pb_printers d"
proof (cases "find_job rid jid d")
  case None
  then show ?thesis by (simp add: retry_print_job_def no_write)
next
  case (Some j)
  have "job_ok (j\<lparr>pj_status := Job_Queued, pj_lastError := None\<rparr>)" if "job_ok j"
    using that by (simp add: job_ok_def failure_status_def)
  then have "job_write (pb_jobs d) (pb_jobs (save_job (j\<lparr>pj_status := Job_Queued, pj_lastError := None\<rparr>) d))"
    by (intro save_job_write [OF Some]) (simp_all add: frozen_def)
  then show ?thesis by (simp add: retry_print_job_def Some Let_def no_write save_job_def)
qed

section \<open>Runs keep the jobs\<close>

lemma job_write_kept:
  assumes "job_write js js'" "distinct (map pj_id js)" "\<forall>j \<in> set js. job_ok j"
  shows "distinct (map pj_id js') \<and> (\<forall>j \<in> set js'. job_ok j) \<and> prefix (map frozen js) (map frozen js')"
  using assms
proof (induction rule: job_write.induct)
  case (no_write js)
  then show ?case by simp
next
  case (add j js)
  then show ?case by (auto simp: image_iff)
next
  case (change j js j')
  have ids: "pj_id j' = pj_id j" using change(2) by (simp add: frozen_def)
  have same: "x = j" if "x \<in> set js" "pj_id x = pj_id j'" for x
    using that change(1) change.prems(1) ids by (metis find_id_mem option.inject)
  have froz: "map frozen (update_one (\<lambda>x. pj_id x = pj_id j') (\<lambda>_. j') js) = map frozen js"
    by (rule map_update_one) (use same change(2) in simp)
  have "map pj_id (update_one (\<lambda>x. pj_id x = pj_id j') (\<lambda>_. j') js) = map pj_id js"
    by (rule map_update_one) (use same ids in simp)
  moreover have "\<forall>x \<in> set (update_one (\<lambda>x. pj_id x = pj_id j') (\<lambda>_. j') js). job_ok x"
    by (rule update_one_all [OF change.prems(2)]) (use change in simp)
  ultimately show ?case using froz change.prems(1) by simp
qed

lemma print_step_write:
  "print_step d d' \<Longrightarrow> bridges_ok (pb_printers d) \<Longrightarrow>
    job_write (pb_jobs d) (pb_jobs d') \<and> bridges_ok (pb_printers d')"
proof (induction rule: print_step.induct)
  case (add_printer d rid actor nid i)
  then show ?case using create_printer_written [of d rid actor nid i] by (simp add: printers_written_def no_write)
next
  case (change_printer d rid actor pid u)
  then show ?case using update_printer_written [of d rid actor pid u] by (simp add: printers_written_def no_write)
next
  case (drop_printer d rid actor pid)
  then show ?case using delete_printer_written [of d rid actor pid] by (simp add: printers_written_def no_write)
next
  case (add_test nid d loc rid actor pid now)
  then show ?case using test_print_write by simp
next
  case (add_job nid d loc rid actor i now)
  then show ?case using create_print_job_write by simp
next
  case (report d rid actor jid s err now)
  then show ?case using update_status_write by simp
next
  case (retry d rid jid)
  then show ?case using retry_write by simp
next
  case (elsewhere d m)
  then show ?case by (simp add: no_write)
qed

lemma print_run_kept:
  "print_run d d' \<Longrightarrow> print_ok d \<Longrightarrow> print_ok d' \<and> prefix (map frozen (pb_jobs d)) (map frozen (pb_jobs d'))"
proof (induction rule: rtranclp_induct)
  case base
  then show ?case by simp
next
  case (step e e')
  then have "job_write (pb_jobs e) (pb_jobs e')" "bridges_ok (pb_printers e')"
    using print_step_write by (auto simp: print_ok_def)
  then show ?case using job_write_kept step by (auto simp: print_ok_def intro: prefix_order.trans)
qed

end
