(* ===== verification/Printing_Behaviour.thy ===== *)
theory Printing_Behaviour
  imports Printing_Safety Samples
begin

text \<open>
  What printing promises to the staff: the paper shows the document of the job, amounts are
  never cut, text is wrapped within the paper in the fewest lines, a job never changes what it
  prints, and bytes leave the browser for the local machine only. The last section states where
  the handlers depart from what their comments say.
\<close>

section \<open>Wrapping\<close>

text \<open>C33. \<open>wrapText\<close>: no line is wider than the paper and no printing character is lost; when
  each word fits on a line, the lines have exactly the words of the text in order, and any
  lines of that width with the same words are at least as many.\<close>

theorem wrap_text_spec:
  assumes "0 < width"
  shows "(\<forall>l \<in> set (wrap_text t width). length l \<le> width) \<and>
    concat (map (filter (\<lambda>c. \<not> js_regex_space c)) (wrap_text t width)) = filter (\<lambda>c. \<not> js_regex_space c) t \<and>
    ((\<forall>w \<in> set (js_words t). length w \<le> width) \<longrightarrow>
      concat (map js_words (wrap_text t width)) = js_words t \<and>
      (\<forall>ls. concat (map js_words ls) = js_words t \<and> (\<forall>l \<in> set ls. length l \<le> width) \<longrightarrow>
        length (wrap_text t width) \<le> max 1 (length ls)))"
  using wrap_text_bound wrap_text_printing [OF assms] wrap_text_words wrap_text_fewest by blast

theorem wrap_text_spec_witness:
  "wrap_text (js_units ''The quick brown fox'') 10 = [js_units ''The quick'', js_units ''brown fox''] \<and>
   concat (map js_words (wrap_text (js_units ''The quick brown fox'') 10)) = js_words (js_units ''The quick brown fox'')"
proof -
  have short: "\<forall>w \<in> set (js_words (js_units ''The quick brown fox'')). length w \<le> 10" by code_simp
  have lines: "wrap_text (js_units ''The quick brown fox'') 10 = [js_units ''The quick'', js_units ''brown fox'']"
    by code_simp
  show ?thesis using wrap_text_spec [of 10 "js_units ''The quick brown fox''"] short lines by simp
qed

section \<open>Amounts on the paper\<close>

lemma encode_ascii_simps [simp]:
  "encode_ascii [] = []" "length (encode_ascii t) = length t" "encode_ascii t = [] \<longleftrightarrow> t = []"
  by (simp_all add: encode_ascii_def)

lemma suffix_encode: "suffix r l \<Longrightarrow> suffix (encode_ascii r) (encode_ascii l)"
  by (auto simp: suffix_def encode_ascii_def)

lemma row_printed:
  assumes "Line_Row left right bold \<in> set (pd_lines doc)"
  shows "\<exists>bs. feed Align_Left bold bs \<in> set (paper_document doc paper) \<and> suffix (encode_ascii right) bs"
proof -
  let ?rows = "pad_row left right (chars_per_line paper)"
  have "feed Align_Left bold (encode_ascii (last ?rows)) \<in> set (paper_lines Align_Left bold ?rows)"
    using last_in_set [of ?rows] by (simp add: paper_lines_def)
  then have "feed Align_Left bold (encode_ascii (last ?rows)) \<in> set (paper_document doc paper)"
    using assms by (force simp: paper_document_def)
  then show ?thesis using suffix_encode [OF pad_row_right] by blast
qed

lemma chars_per_line_pos: "0 < chars_per_line paper"
  by (cases paper) simp_all

fun columns :: "paper \<Rightarrow> nat" where
  "columns (Paper_Line al bold bs) = length bs"
| "columns _ = 0"

lemma paper_lines_columns: "\<forall>l \<in> set ls. length l \<le> width \<Longrightarrow> p \<in> set (paper_lines al bold ls) \<Longrightarrow> columns p \<le> width"
  by (auto simp: paper_lines_def feed_def)

text \<open>The right text of every row fits the paper.\<close>

fun row_fits :: "nat \<Rightarrow> print_line \<Rightarrow> bool" where
  "row_fits width (Line_Row left right bold) = (length right \<le> width)"
| "row_fits width _ = True"

lemma paper_line_columns: "row_fits width l \<Longrightarrow> p \<in> set (paper_line width l) \<Longrightarrow> columns p \<le> width"
proof (cases l)
  case (Line_Text t bold al)
  then show "p \<in> set (paper_line width l) \<Longrightarrow> columns p \<le> width"
    using paper_lines_columns wrap_text_bound by (metis paper_line.simps(4))
next
  case (Line_Row left right bold)
  then show "row_fits width l \<Longrightarrow> p \<in> set (paper_line width l) \<Longrightarrow> columns p \<le> width"
    using paper_lines_columns pad_row_bound by (metis paper_line.simps(3) row_fits.simps(1))
next
  case Line_Rule
  then show "p \<in> set (paper_line width l) \<Longrightarrow> columns p \<le> width"
    using paper_lines_columns [of "[replicate width 0x2d]" width] by simp
qed simp

lemma paper_document_columns:
  "\<forall>l \<in> set (pd_lines doc). row_fits (chars_per_line paper) l \<Longrightarrow> p \<in> set (paper_document doc paper) \<Longrightarrow>
    columns p \<le> chars_per_line paper"
  by (auto simp: paper_document_def dest: paper_line_columns)

lemma receipt_rows:
  "it \<in> set (o_items ord) \<Longrightarrow> Line_Row (item_title it) (format_money loc (oi_lineTotal it) (o_currency ord)) False
     \<in> set (pd_lines (build_receipt_document loc ord paper))"
  "Line_Row (js_units ''Total'') (format_money loc (o_total ord) (o_currency ord)) True
     \<in> set (pd_lines (build_receipt_document loc ord paper))"
  by (auto simp: build_receipt_document_def finish_document_def receipt_items_def receipt_amounts_def Let_def)

text \<open>What the receipt of an order shows on paper of either width: the amount of each item and
  the total stand whole at the end of a line, and no line passes the width of the paper
  when every amount fits it.\<close>

theorem receipt_amounts_whole:
  "(\<forall>it \<in> set (o_items ord). \<exists>bs.
      feed Align_Left False bs \<in> set (paper_document (build_receipt_document loc ord paper) paper) \<and>
      suffix (encode_ascii (format_money loc (oi_lineTotal it) (o_currency ord))) bs) \<and>
   (\<exists>bs. feed Align_Left True bs \<in> set (paper_document (build_receipt_document loc ord paper) paper) \<and>
      suffix (encode_ascii (format_money loc (o_total ord) (o_currency ord))) bs) \<and>
   ((\<forall>l \<in> set (pd_lines (build_receipt_document loc ord paper)). row_fits (chars_per_line paper) l) \<longrightarrow>
      (\<forall>p \<in> set (paper_document (build_receipt_document loc ord paper) paper). columns p \<le> chars_per_line paper))"
  using row_printed [OF receipt_rows(1)] row_printed [OF receipt_rows(2)] paper_document_columns by blast

definition sample_texts :: print_texts where
  "sample_texts = \<lparr>pl_currency = (\<lambda>_ _. None), pl_orderDate = (\<lambda>_. js_units ''1/2/2026''), pl_now = js_units ''now''\<rparr>"

definition sample_item :: order_item where
  "sample_item = \<lparr>oi_menuItemId = ''m1'', oi_name = ''Pizza'', oi_unitPrice = 20, oi_quantity = 1,
     oi_selectedModifiers = [], oi_lineTotal = 20, oi_specialInstructions = None\<rparr>"

definition sample_view :: order_view where
  "sample_view = order.extend (sample_order\<lparr>o_items := [sample_item]\<rparr>)
     (order_view.fields (Some ''Roma'') None None None None)"

lemma finish_document_lines: "pd_lines (finish_document title ls paper) = ls"
  by (simp add: finish_document_def)

lemma js_units_length: "length (js_units s) = length s"
  by (simp add: js_units_def)

lemma plain_rows [simp]:
  "row_fits width (restaurant_title ord)" "row_fits width (text_line t)" "row_fits width (plain_line s)"
  "\<forall>l \<in> set (centered_if t'). row_fits width l"
  by (simp_all add: restaurant_title_def text_line_def plain_line_def centered_if_def)

theorem receipt_amounts_whole_witness:
  "list_all (\<lambda>p. columns p \<le> 32) (paper_document (build_receipt_document sample_texts sample_view Mm58) Mm58) \<and>
   (\<exists>bs. feed Align_Left True bs \<in> set (paper_document (build_receipt_document sample_texts sample_view Mm58) Mm58) \<and>
      suffix (encode_ascii (format_money sample_texts 21 ''USD'')) bs)"
proof -
  have fits: "\<forall>l \<in> set (pd_lines (build_receipt_document sample_texts sample_view Mm58)). row_fits (chars_per_line Mm58) l"
    unfolding build_receipt_document_def finish_document_lines
    by (simp add: plain_rows receipt_items_def receipt_amounts_def sample_texts_def format_money_def sample_view_def
        sample_order_def sample_item_def order.defs order_view.defs delivery_address_lines_def item_extra_lines_def
        order_heading_def to_fixed2_numeral show_nat.simps js_units_length)
  have "o_total sample_view = 21" "o_currency sample_view = ''USD''" by code_simp+
  then show ?thesis
    using receipt_amounts_whole [of sample_view sample_texts Mm58] fits by (simp add: list_all_iff)
qed

section \<open>What is printed is what was queued\<close>

lemma find_job_save:
  assumes "distinct (map pj_id (pb_jobs d))" "find_job rid jid d = Some j"
    and "pj_id j' = pj_id j" "pj_restaurantId j' = pj_restaurantId j"
  shows "find_job rid jid (save_job j' d) = Some j'"
proof -
  have j: "j \<in> set (pb_jobs d)" "pj_id j = jid" "pj_restaurantId j = rid"
    using find_job_SomeD [OF assms(2)] by auto
  then obtain us vs where split: "pb_jobs d = us @ j # vs" by (meson split_list)
  have us: "\<forall>u \<in> set us. pj_id u \<noteq> jid" using assms(1) j(2) split by (auto simp: image_iff)
  have upd: "update_one (\<lambda>x. pj_id x = jid) (\<lambda>_. j') (us @ j # vs) = us @ j' # vs"
    using us j(2) by (induction us) auto
  have "find_one (\<lambda>x. pj_id x = jid \<and> pj_restaurantId x = rid) (us @ j' # vs) = Some j'"
    using us j(2,3) assms(3,4) by (induction us) auto
  then show ?thesis using assms(3) j(2) by (simp add: find_job_def save_job_def split upd)
qed

lemma map_id_save:
  "map pj_id (pb_jobs (save_job j' d)) = map pj_id (pb_jobs d)"
  unfolding save_job_def by (simp add: map_update_one)

lemma update_status_found:
  assumes "distinct (map pj_id (pb_jobs d))" "find_job rid jid d = Some j" "update_status_schema s err"
  obtains d' where "update_print_job_status rid actor jid s err now d = (Inr (reported s err now j), d')"
    "find_job rid jid d' = Some (reported s err now j)" "distinct (map pj_id (pb_jobs d'))"
proof (cases rule: update_status_cases [of rid actor jid s err now d])
  case (refused e)
  then show ?thesis using assms(2,3) by simp
next
  case (done_ j0 d')
  have j0: "j0 = j" using done_(2) assms(2) by simp
  have rid: "pj_restaurantId (reported s err now j) = pj_restaurantId j" by (simp add: reported_def)
  have "find_job rid jid (save_job (reported s err now j) d) = Some (reported s err now j)"
    by (rule find_job_save [OF assms(1,2)]) (simp_all add: rid)
  then have "find_job rid jid d' = Some (reported s err now j)" using done_(4) j0 by (simp add: find_job_def)
  moreover have "distinct (map pj_id (pb_jobs d'))" using assms(1) by (simp only: done_(4) map_id_save)
  ultimately show ?thesis using that done_(3) j0 by simp
qed

text \<open>C32. A stored job whose device takes the bytes: the device prints the document of the job on
  one of the two papers, and the job is recorded as printed.\<close>

theorem printed_paper:
  assumes "print_run d0 d" "print_ok d0" "find_job rid jid d = Some j"
    and "pj_connectionType j = Web_Serial \<and> pe_serial env = Some write \<or>
      pj_connectionType j = Webusb \<and> pe_usb env = Some write"
    and "\<forall>bs. write bs = None"
  shows "\<exists>bs paper j' d'. execute_and_report env rid actor j now d =
      (Inr \<lparr>oc_job = Some j', oc_success = True, oc_error = None\<rparr>, Sent_Bytes bs, d') \<and>
    print_bytes bs = Some (paper_document (pj_document j) paper) \<and>
    find_job rid jid d' = Some j' \<and> pj_status j' = Job_Printed \<and> frozen j' = frozen j"
proof -
  have ok: "print_ok d" using print_run_kept [OF assms(1,2)] by simp
  have j: "j \<in> set (pb_jobs d)" "pj_id j = jid" using find_job_SomeD [OF assms(3)] by auto
  then have "sealed (pj_document j)" using ok by (simp add: print_ok_def job_ok_def)
  then obtain bs paper where bs: "atob (pd_escposBase64 (pj_document j)) = Some bs"
    "print_bytes bs = Some (paper_document (pj_document j) paper)" using sealed_prints by blast
  let ?j1 = "reported Job_Printing None now j"
  let ?j2 = "reported Job_Printed None now ?j1"
  have ids: "distinct (map pj_id (pb_jobs d))" using ok by (simp add: print_ok_def)
  have s1: "update_status_schema Job_Printing None" and s2: "update_status_schema Job_Printed None"
    by (simp_all add: update_status_schema_def failure_status_def)
  obtain d1 where d1: "update_print_job_status rid actor jid Job_Printing None now d = (Inr ?j1, d1)"
    "find_job rid jid d1 = Some ?j1" "distinct (map pj_id (pb_jobs d1))"
    by (rule update_status_found [OF ids assms(3) s1, of actor now])
  obtain d2 where d2: "update_print_job_status rid actor jid Job_Printed None now d1 = (Inr ?j2, d2)"
    "find_job rid jid d2 = Some ?j2"
    by (rule update_status_found [OF d1(3,2) s2, of actor now])
  have "execute_print env (pj_connectionType j) j = (None, Sent_Bytes bs)"
    using assms(4,5) bs(1) by (auto simp: raw_device_def)
  moreover have "pj_connectionType j \<noteq> Browser_Print" using assms(4) by auto
  ultimately have "execute_and_report env rid actor j now d =
      (Inr \<lparr>oc_job = Some ?j2, oc_success = True, oc_error = None\<rparr>, Sent_Bytes bs, d2)"
    by (simp add: execute_and_report_def j(2) d1(1) d2(1))
  moreover have "pj_status ?j2 = Job_Printed" by (simp add: reported_def)
  ultimately show ?thesis using bs(2) d2(2) by (metis reported_frozen(1))
qed

definition sample_printer :: printer where
  "sample_printer = \<lparr>pt_id = ''pr1'', pt_restaurantId = ''r1'', pt_name = ''Front'', pt_purpose = For_Receipt,
     pt_connectionType = Web_Serial, pt_paperWidthMm = Mm58, pt_isEnabled = True, pt_isDefault = True, pt_bridgeUrl = None\<rparr>"

definition sample_print_db :: print_db where
  "sample_print_db = \<lparr>pb_main = sample_db\<lparr>db_orders := [sample_order]\<rparr>, pb_printers = [sample_printer], pb_jobs = []\<rparr>"

definition sample_test_db :: print_db where
  "sample_test_db = snd (test_print_printer sample_texts ''r1'' ''u1'' ''pr1'' ''j1'' 0 sample_print_db)"

definition sample_env :: "(byte list \<Rightarrow> string option) \<Rightarrow> print_env" where
  "sample_env write = \<lparr>pe_serial = Some write, pe_usb = None, pe_bridge = (\<lambda>_ _. Bridge_Unreachable), pe_window = True\<rparr>"

lemma sample_print_ok: "print_ok sample_print_db"
  by (simp add: print_ok_def sample_print_db_def bridges_ok_def sample_printer_def bridge_ok_def)

lemma sample_test_run: "print_run sample_print_db sample_test_db"
  unfolding sample_test_db_def
  by (rule r_into_rtranclp) (rule add_test, simp add: sample_print_db_def)

theorem printed_paper_witness:
  "\<exists>j bs paper d'. find_job ''r1'' ''j1'' sample_test_db = Some j \<and>
     snd (execute_and_report (sample_env (\<lambda>_. None)) ''r1'' ''u1'' j 5 sample_test_db) = (Sent_Bytes bs, d') \<and>
     print_bytes bs = Some (paper_document (pj_document j) paper)"
proof -
  let ?doc = "build_test_document sample_texts ''Front'' Mm58"
  let ?j = "new_job ''r1'' None sample_printer Job_Test False ?doc ''u1'' ''j1'' 0"
  have j: "find_job ''r1'' ''j1'' sample_test_db = Some ?j"
    by (simp add: sample_test_db_def test_print_printer_def find_printer_def sample_print_db_def find_job_def
        sample_printer_def new_job_def Let_def)
  have "pj_connectionType ?j = Web_Serial \<and> pe_serial (sample_env (\<lambda>_. None)) = Some (\<lambda>_. None) \<or>
      pj_connectionType ?j = Webusb \<and> pe_usb (sample_env (\<lambda>_. None)) = Some (\<lambda>_. None)"
    by (simp add: new_job_def sample_printer_def sample_env_def)
  from printed_paper [OF sample_test_run sample_print_ok j this, of "''u1''" 5] j show ?thesis by auto
qed

text \<open>Along every run of the handlers, whatever happens to orders and printers meanwhile: a job
  that exists keeps its order, printer, document and transport, its bytes are those of its
  lines, it carries an error exactly when it failed, and it was printed when it says so.\<close>

theorem print_jobs_frozen:
  assumes "print_run d d'" "print_ok d"
  shows "prefix (map frozen (pb_jobs d)) (map frozen (pb_jobs d')) \<and> distinct (map pj_id (pb_jobs d')) \<and>
    (\<forall>j \<in> set (pb_jobs d'). sealed (pj_document j) \<and>
      (pj_lastError j \<noteq> None \<longleftrightarrow> failure_status (pj_status j)) \<and>
      (pj_status j = Job_Printed \<longrightarrow> pj_printedAt j \<noteq> None) \<and>
      (pj_status j = Job_Printing \<longrightarrow> 0 < pj_attempts j))"
  using print_run_kept [OF assms] by (auto simp: print_ok_def job_ok_def)

theorem print_jobs_frozen_witness:
  "prefix (map frozen (pb_jobs sample_print_db)) (map frozen (pb_jobs sample_test_db)) \<and>
   distinct (map pj_id (pb_jobs sample_test_db))"
  using print_jobs_frozen [OF sample_test_run sample_print_ok] by simp

section \<open>The bytes stay on the local machine\<close>

lemma strip_prefix_Some: "strip_prefix p t = Some r \<longleftrightarrow> t = p @ r"
  by (induction p t rule: strip_prefix.induct) auto

lemma strip_first_Some: "strip_first ps t = Some r \<Longrightarrow> \<exists>p \<in> set ps. t = p @ r"
  by (induction ps) (auto simp: strip_prefix_Some split: option.splits)

text \<open>What comes after the host is a port or a path or nothing.\<close>

definition ends_host :: "string \<Rightarrow> bool" where
  "ends_host t \<longleftrightarrow> t = [] \<or> hd t = CHR '':'' \<or> hd t = CHR ''/''"

definition loopback :: "string \<Rightarrow> bool" where
  "loopback url \<longleftrightarrow> (\<exists>scheme \<in> set bridge_schemes. \<exists>host \<in> set bridge_hosts.
     \<exists>rest. js_lower url = scheme @ host @ rest \<and> ends_host rest)"

lemma strip_port_ends: "strip_port t = Some r \<Longrightarrow> r = [] \<or> hd r = CHR ''/'' \<Longrightarrow> ends_host t"
  by (induction t rule: strip_port.induct) (auto simp: ends_host_def)

lemma bridge_url_loopback:
  assumes "bridge_url_ok u"
  shows "loopback u"
proof -
  from assms obtain h p r where
    h: "strip_first bridge_schemes (js_lower u) = Some h" and p: "strip_first bridge_hosts h = Some p"
    and r: "strip_port p = Some r" "r = [] \<or> hd r = CHR ''/''"
    by (auto simp: bridge_url_ok_def split: option.splits)
  from strip_first_Some [OF h] obtain scheme where "scheme \<in> set bridge_schemes" "js_lower u = scheme @ h" by blast
  moreover from strip_first_Some [OF p] obtain host where "host \<in> set bridge_hosts" "h = host @ p" by blast
  ultimately show ?thesis using strip_port_ends [OF r] unfolding loopback_def by blast
qed

lemma loopback_append:
  assumes "loopback u" "hd t = CHR ''/''"
  shows "loopback (u @ t)"
proof -
  obtain scheme host rest where u: "scheme \<in> set bridge_schemes" "host \<in> set bridge_hosts"
    "js_lower u = scheme @ host @ rest" "ends_host rest"
    using assms(1) unfolding loopback_def by blast
  have "lower_char (CHR ''/'') = CHR ''/''" by code_simp
  then have "js_lower t = [] \<or> hd (js_lower t) = CHR ''/''" using assms(2) by (cases t) (simp_all add: js_lower_def)
  then have "ends_host (rest @ js_lower t)" using u(4) by (cases rest) (auto simp: ends_host_def)
  moreover have "js_lower (u @ t) = scheme @ host @ rest @ js_lower t" using u(3) by (simp add: js_lower_def)
  ultimately show ?thesis using u(1,2) unfolding loopback_def by blast
qed

lemma local_bridge_sent: "snd (local_bridge post j) = Sent_Bridge url body \<Longrightarrow>
    truthy_string (pj_bridgeUrl j) \<and> url = the (pj_bridgeUrl j) @ ''/print'' \<and> body = pd_escposBase64 (pj_document j)"
  by (auto simp: local_bridge_def Let_def split: if_splits bridge_answer.splits)

lemma execute_print_sent: "snd (execute_print env c j) = Sent_Bridge url body \<Longrightarrow>
    truthy_string (pj_bridgeUrl j) \<and> url = the (pj_bridgeUrl j) @ ''/print'' \<and> body = pd_escposBase64 (pj_document j)"
  by (cases c) (auto simp: raw_device_def local_bridge_sent split: if_splits option.splits)

text \<open>Whatever an owner configured: the address a stored job's bytes are posted to is on the
  machine the browser runs on.\<close>

theorem bridge_stays_local:
  assumes "print_run d0 d" "print_ok d0" "j \<in> set (pb_jobs d)"
    and "snd (execute_print env (pj_connectionType j) j) = Sent_Bridge url body"
  shows "loopback url"
proof -
  have "bridge_ok (pj_bridgeUrl j)"
    using print_run_kept [OF assms(1,2)] assms(3) by (simp add: print_ok_def job_ok_def)
  moreover obtain u where u: "pj_bridgeUrl j = Some u" "url = u @ ''/print''"
    using execute_print_sent [OF assms(4)] by (cases "pj_bridgeUrl j") auto
  ultimately have "loopback u" using bridge_url_loopback by (simp add: bridge_ok_def)
  then show ?thesis unfolding u(2) by (rule loopback_append) simp
qed

definition sample_bridge_db :: print_db where
  "sample_bridge_db = sample_print_db\<lparr>pb_printers := [sample_printer\<lparr>pt_connectionType := Local_Bridge,
     pt_bridgeUrl := Some ''http://LocalHost:9100''\<rparr>]\<rparr>"

theorem bridge_stays_local_witness: "loopback (''http://LocalHost:9100'' @ ''/print'')"
proof -
  let ?x = "sample_printer\<lparr>pt_connectionType := Local_Bridge, pt_bridgeUrl := Some ''http://LocalHost:9100''\<rparr>"
  let ?j = "new_job ''r1'' None ?x Job_Test False (build_test_document sample_texts ''Front'' Mm58) ''u1'' ''j1'' 0"
  let ?d = "snd (test_print_printer sample_texts ''r1'' ''u1'' ''pr1'' ''j1'' 0 sample_bridge_db)"
  have "bridge_url_ok ''http://LocalHost:9100''" by code_simp
  then have "print_ok sample_bridge_db"
    by (simp add: print_ok_def sample_bridge_db_def sample_print_db_def bridges_ok_def bridge_ok_def)
  moreover have "print_run sample_bridge_db ?d"
    by (rule r_into_rtranclp) (rule add_test, simp add: sample_bridge_db_def sample_print_db_def)
  moreover have "?j \<in> set (pb_jobs ?d)"
    by (simp add: test_print_printer_def find_printer_def sample_bridge_db_def sample_print_db_def
        sample_printer_def Let_def)
  moreover have "snd (execute_print (sample_env (\<lambda>_. None)) (pj_connectionType ?j) ?j) =
      Sent_Bridge (''http://LocalHost:9100'' @ ''/print'') (pd_escposBase64 (pj_document ?j))"
    by (simp add: new_job_def local_bridge_def sample_env_def Let_def)
  ultimately show ?thesis using bridge_stays_local by blast
qed

section \<open>At most one default printer\<close>

definition same_slot :: "printer \<Rightarrow> printer \<Rightarrow> bool" where
  "same_slot x y \<longleftrightarrow> pt_restaurantId x = pt_restaurantId y \<and> pt_purpose x = pt_purpose y"

definition one_default :: "printer list \<Rightarrow> bool" where
  "one_default ps \<longleftrightarrow> distinct (map pt_id ps) \<and>
     (\<forall>x \<in> set ps. \<forall>y \<in> set ps. pt_isDefault x \<and> pt_isDefault y \<and> same_slot x y \<longrightarrow> pt_id x = pt_id y)"

lemma one_defaultD:
  "one_default ps \<Longrightarrow> x \<in> set ps \<Longrightarrow> y \<in> set ps \<Longrightarrow> pt_isDefault x \<Longrightarrow> pt_isDefault y \<Longrightarrow> same_slot x y \<Longrightarrow>
    pt_id x = pt_id y"
  by (simp add: one_default_def)

lemma one_defaultI:
  assumes "distinct (map pt_id ps)"
    and "\<And>x y. x \<in> set ps \<Longrightarrow> y \<in> set ps \<Longrightarrow> pt_isDefault x \<Longrightarrow> pt_isDefault y \<Longrightarrow> same_slot x y \<Longrightarrow> pt_id x = pt_id y"
  shows "one_default ps"
  unfolding one_default_def
  by (intro conjI ballI impI, rule assms(1)) (elim conjE, rule assms(2), assumption+)

lemma unset_defaults_ids: "map pt_id (unset_defaults rid p keep ps) = map pt_id ps"
  by (simp add: unset_defaults_def)

lemma unset_defaults_mem: "x \<in> set (unset_defaults rid p keep ps) \<Longrightarrow> pt_isDefault x \<Longrightarrow> x \<in> set ps"
  by (auto simp: unset_defaults_def split: if_splits)

lemma one_default_unset:
  assumes "one_default ps"
  shows "one_default (unset_defaults rid p keep ps)"
proof (rule one_defaultI)
  show "distinct (map pt_id (unset_defaults rid p keep ps))"
    using assms by (simp add: one_default_def unset_defaults_ids)
next
  fix x y
  assume "x \<in> set (unset_defaults rid p keep ps)" "y \<in> set (unset_defaults rid p keep ps)"
    "pt_isDefault x" "pt_isDefault y" "same_slot x y"
  then show "pt_id x = pt_id y" by (intro one_defaultD [OF assms]) (auto dest: unset_defaults_mem)
qed

lemma unset_defaults_slot:
  "x \<in> set (unset_defaults rid p keep ps) \<Longrightarrow> pt_isDefault x \<Longrightarrow> pt_restaurantId x = rid \<Longrightarrow> pt_purpose x = p \<Longrightarrow>
    Some (pt_id x) = keep"
proof -
  assume x: "x \<in> set (unset_defaults rid p keep ps)" "pt_isDefault x" "pt_restaurantId x = rid" "pt_purpose x = p"
  then obtain y where y: "x = (if pt_restaurantId y = rid \<and> pt_purpose y = p \<and> pt_isDefault y \<and> Some (pt_id y) \<noteq> keep
      then y\<lparr>pt_isDefault := False\<rparr> else y)" unfolding unset_defaults_def set_map by (elim imageE)
  show ?thesis
  proof (cases "pt_restaurantId y = rid \<and> pt_purpose y = p \<and> pt_isDefault y \<and> Some (pt_id y) \<noteq> keep")
    case True
    then show ?thesis using x(2) y by simp
  next
    case False
    then have "x = y" using y by argo
    then show ?thesis using False x by simp
  qed
qed

lemma same_slot_sym: "same_slot x y \<Longrightarrow> same_slot y x"
  by (simp add: same_slot_def)

lemma one_default_add:
  assumes "one_default ps" "pt_id x \<notin> pt_id ` set ps"
    and alone: "\<And>y. pt_isDefault x \<Longrightarrow> y \<in> set ps \<Longrightarrow> pt_isDefault y \<Longrightarrow> \<not> same_slot x y"
  shows "one_default (ps @ [x])"
proof (rule one_defaultI)
  show "distinct (map pt_id (ps @ [x]))" using assms(1,2) by (simp add: one_default_def)
next
  fix y z assume yz: "y \<in> set (ps @ [x])" "z \<in> set (ps @ [x])" "pt_isDefault y" "pt_isDefault z" "same_slot y z"
  then consider "y \<in> set ps" "z \<in> set ps" | "y = x" "z = x" | "y = x" "z \<in> set ps" | "z = x" "y \<in> set ps" by auto
  then show "pt_id y = pt_id z"
  proof cases
    case 1
    then show ?thesis using one_defaultD [OF assms(1), of y z] yz by blast
  qed (use yz alone [of z] alone [of y] same_slot_sym [of y z] in simp_all)
qed

lemma set_update_key:
  "distinct (map key xs) \<Longrightarrow> set (update_one (\<lambda>y. key y = i) (\<lambda>_. x') xs) \<subseteq> {y \<in> set xs. key y \<noteq> i} \<union> {x'}"
  by (induction xs) (auto simp: image_iff)

lemma one_default_write:
  assumes "one_default ps" "pt_id x' = pid"
    and "pt_isDefault x' \<Longrightarrow> \<forall>y \<in> set ps. pt_isDefault y \<and> same_slot x' y \<longrightarrow> pt_id y = pid"
  shows "one_default (update_one (\<lambda>y. pt_id y = pid) (\<lambda>_. x') ps)"
proof -
  let ?ps = "update_one (\<lambda>y. pt_id y = pid) (\<lambda>_. x') ps"
  have ids: "map pt_id ?ps = map pt_id ps" by (rule map_update_one) (simp add: assms(2))
  have sub: "set ?ps \<subseteq> {y \<in> set ps. pt_id y \<noteq> pid} \<union> {x'}"
    using assms(1) by (intro set_update_key) (simp add: one_default_def)
  show ?thesis
  proof (rule one_defaultI)
    show "distinct (map pt_id ?ps)" using assms(1) by (simp only: ids one_default_def)
  next
    fix y z assume yz: "y \<in> set ?ps" "z \<in> set ?ps" "pt_isDefault y" "pt_isDefault z" "same_slot y z"
    then have "y = x' \<or> y \<in> set ps" "z = x' \<or> z \<in> set ps" using sub by auto
    then consider "y \<in> set ps" "z \<in> set ps" | "y = x'" "z = x'" | "y = x'" "z \<in> set ps" | "z = x'" "y \<in> set ps" by blast
    then show "pt_id y = pt_id z"
    proof cases
      case 1
      then show ?thesis using one_defaultD [OF assms(1), of y z] yz by blast
    next
      case 2
      then show ?thesis by simp
    next
      case 3
      then show ?thesis using assms(2,3) yz by simp
    next
      case 4
      then show ?thesis using assms(2,3) yz same_slot_sym [of y z] by simp
    qed
  qed
qed

text \<open>The one update that can leave two defaults: a default printer gets another purpose
  and the request does not mention \<open>isDefault\<close>.\<close>

definition moves_default :: "oid \<Rightarrow> oid \<Rightarrow> printer_update \<Rightarrow> print_db \<Rightarrow> bool" where
  "moves_default rid pid u d =
     (case find_printer rid pid d of
        None \<Rightarrow> False
      | Some x \<Rightarrow> pt_isDefault x \<and> pu_isDefault u = None \<and> nullish (pu_purpose u) (pt_purpose x) \<noteq> pt_purpose x)"

lemma one_default_create:
  assumes "one_default (pb_printers d)" "nid \<notin> pt_id ` set (pb_printers d)"
  shows "one_default (pb_printers (snd (create_printer rid actor nid i d)))"
proof -
  let ?ps = "if pi_isDefault i then unset_defaults rid (pi_purpose i) None (pb_printers d) else pb_printers d"
  have ps: "one_default ?ps" using assms(1) one_default_unset by simp
  have ids: "pt_id ` set ?ps = pt_id ` set (pb_printers d)"
    unfolding set_map [symmetric] by (rule arg_cong [where f = set]) (simp add: unset_defaults_ids)
  have free: "\<forall>y \<in> set ?ps. \<not> (pt_isDefault y \<and> pt_restaurantId y = rid \<and> pt_purpose y = pi_purpose i)" if "pi_isDefault i"
    using that unset_defaults_slot [of _ rid "pi_purpose i" None] by auto
  have "one_default (?ps @ [x])"
    if "pt_id x = nid" "pt_restaurantId x = rid" "pt_purpose x = pi_purpose i" "pt_isDefault x = pi_isDefault i" for x
    by (rule one_default_add [OF ps]) (use that ids assms(2) free in \<open>auto simp: same_slot_def\<close>)
  then show ?thesis using ps assms(1) by (simp add: create_printer_def Let_def)
qed

lemma one_default_delete:
  "one_default (pb_printers d) \<Longrightarrow> one_default (pb_printers (snd (delete_printer rid actor pid d)))"
  using set_delete_one [of "\<lambda>x. pt_id x = pid \<and> pt_restaurantId x = rid" "pb_printers d"]
    distinct_map_delete_one [of pt_id "pb_printers d" "\<lambda>x. pt_id x = pid \<and> pt_restaurantId x = rid"]
  by (auto simp: delete_printer_def one_default_def split: option.splits)

lemma one_default_update:
  assumes one: "one_default (pb_printers d)" and still: "\<not> moves_default rid pid u d"
  shows "one_default (pb_printers (snd (update_printer rid actor pid u d)))"
proof (cases rule: update_printer_cases [of rid actor pid u d])
  case (refused e)
  then show ?thesis using one by simp
next
  case (half x e)
  then show ?thesis using one one_default_unset by (simp add: updated_defaults_def)
next
  case (updated x)
  let ?ps = "updated_defaults rid pid u x (pb_printers d)" and ?x = "assign_printer u x"
  have x: "x \<in> set (pb_printers d)" "pt_id x = pid" "pt_restaurantId x = rid"
    using find_printer_SomeD [OF updated(1)] by auto
  have x': "pt_id ?x = pid" "pt_restaurantId ?x = rid" "pt_purpose ?x = nullish (pu_purpose u) (pt_purpose x)"
    "pt_isDefault ?x = nullish (pu_isDefault u) (pt_isDefault x)"
    using x by (simp_all add: assign_printer_def)
  have ps: "one_default ?ps" using one one_default_unset by (simp add: updated_defaults_def)
  have "\<forall>y \<in> set ?ps. pt_isDefault y \<and> same_slot ?x y \<longrightarrow> pt_id y = pid" if def: "pt_isDefault ?x"
  proof (cases "pu_isDefault u")
    case None
    then have "pt_purpose ?x = pt_purpose x" "pt_isDefault x"
      using still updated(1) def x' by (auto simp: moves_default_def)
    then have "same_slot ?x y \<Longrightarrow> same_slot y x" for y using x x'(2) by (simp add: same_slot_def)
    then show ?thesis using one_defaultD [OF one _ x(1)] \<open>pt_isDefault x\<close> x(2) None
      by (simp add: updated_defaults_def)
  next
    case (Some b)
    then have "pu_isDefault u = Some True" using def x'(4) by simp
    then show ?thesis using unset_defaults_slot [of _ rid "pt_purpose ?x" "Some pid"] x'
      by (auto simp: same_slot_def updated_defaults_def)
  qed
  then have "one_default (update_one (\<lambda>y. pt_id y = pid) (\<lambda>_. ?x) ?ps)"
    by (intro one_default_write ps x'(1))
  then show ?thesis by (simp add: updated(3))
qed

text \<open>At most one printer of a location is the default for a purpose: kept by every handler,
  except by an update that moves a default printer to another purpose.\<close>

theorem one_default_kept:
  assumes "one_default (pb_printers d)" "nid \<notin> pt_id ` set (pb_printers d)" "\<not> moves_default rid pid u d"
  shows "one_default (pb_printers (snd (create_printer rid actor nid i d))) \<and>
    one_default (pb_printers (snd (update_printer rid actor pid u d))) \<and>
    one_default (pb_printers (snd (delete_printer rid actor pid d)))"
  using one_default_create [OF assms(1,2)] one_default_update [OF assms(1,3)] one_default_delete [OF assms(1)]
  by blast

definition sample_input :: printer_input where
  "sample_input = \<lparr>pi_name = ''Back'', pi_purpose = For_Receipt, pi_connectionType = Browser_Print,
     pi_paperWidthMm = Mm80, pi_isEnabled = True, pi_isDefault = True, pi_bridgeUrl = None\<rparr>"

definition purpose_update :: "purpose \<Rightarrow> printer_update" where
  "purpose_update p = \<lparr>pu_name = None, pu_purpose = Some p, pu_connectionType = None, pu_paperWidthMm = None,
     pu_isEnabled = None, pu_isDefault = None, pu_connectionConfig = None\<rparr>"

theorem one_default_kept_witness:
  "one_default (pb_printers (snd (create_printer ''r1'' ''u1'' ''pr2'' sample_input sample_print_db)))"
proof -
  have "one_default (pb_printers sample_print_db)" by (simp add: one_default_def sample_print_db_def)
  moreover have "''pr2'' \<notin> pt_id ` set (pb_printers sample_print_db)" by code_simp
  moreover have "\<not> moves_default ''r1'' ''pr1'' (purpose_update For_Receipt) sample_print_db" by code_simp
  ultimately show ?thesis using one_default_kept by blast
qed

section \<open>Where the handlers depart from their comments\<close>

text \<open>Moving the default kitchen printer to receipts leaves two default receipt printers; jobs
  go to the one configured first.\<close>

definition two_printers_db :: print_db where
  "two_printers_db = sample_print_db\<lparr>pb_printers := [sample_printer\<lparr>pt_id := ''k1'', pt_purpose := For_Kitchen\<rparr>, sample_printer]\<rparr>"

theorem purpose_move_two_defaults:
  "one_default (pb_printers two_printers_db) \<and>
   \<not> one_default (pb_printers (snd (update_printer ''r1'' ''u1'' ''k1'' (purpose_update For_Receipt) two_printers_db)))"
  by code_simp

text \<open>A printer whose name is blank is refused, but the default of its purpose is gone.\<close>

theorem blank_name_loses_default:
  "fst (create_printer ''r1'' ''u1'' ''pr2'' (sample_input\<lparr>pi_name := '' ''\<rparr>) sample_print_db) = Inl (Thrown ''name required'') \<and>
   default_printer ''r1'' For_Receipt sample_print_db \<noteq> None \<and>
   default_printer ''r1'' For_Receipt
     (snd (create_printer ''r1'' ''u1'' ''pr2'' (sample_input\<lparr>pi_name := '' ''\<rparr>) sample_print_db)) = None"
  by code_simp

text \<open>A device that fails with a message of more than 500 characters: the report is refused, the
  job says it is still printing and cannot be retried.\<close>

theorem long_device_error_stuck:
  assumes "distinct (map pj_id (pb_jobs d))" "find_job rid jid d = Some j" "pj_connectionType j = Web_Serial"
    and "pe_serial env = Some write" "\<forall>bs. write bs = Some msg" "500 < length msg" "sealed (pj_document j)"
  shows "\<exists>sent d' j'. execute_and_report env rid actor j now d = (Inl validation_failed, sent, d') \<and>
    find_job rid jid d' = Some j' \<and> pj_status j' = Job_Printing \<and> fst (retry_print_job rid jid d') \<noteq> Inr j'"
proof -
  let ?j1 = "reported Job_Printing None now j"
  have jid: "pj_id j = jid" using find_job_SomeD [OF assms(2)] by simp
  have s1: "update_status_schema Job_Printing None"
    by (simp add: update_status_schema_def failure_status_def)
  obtain d1 where d1: "update_print_job_status rid actor jid Job_Printing None now d = (Inr ?j1, d1)"
    "find_job rid jid d1 = Some ?j1" "distinct (map pj_id (pb_jobs d1))"
    by (rule update_status_found [OF assms(1,2) s1, of actor now])
  obtain bs where "atob (pd_escposBase64 (pj_document j)) = Some bs" using sealed_prints [OF assms(7)] by blast
  then have "execute_print env (pj_connectionType j) j = (Some msg, Sent_Bytes bs)"
    using assms(3-6) by (auto simp: raw_device_def)
  moreover have "\<not> update_status_schema Job_Failed (Some msg)" using assms(6) by (simp add: update_status_schema_def)
  then have "update_print_job_status rid actor jid Job_Failed (Some msg) now d1 = (Inl validation_failed, d1)"
    by (simp add: update_print_job_status_def)
  ultimately have "execute_and_report env rid actor j now d = (Inl validation_failed, Sent_Bytes bs, d1)"
    by (simp add: execute_and_report_def jid d1(1))
  moreover have "pj_status ?j1 = Job_Printing" "fst (retry_print_job rid jid d1) \<noteq> Inr ?j1"
    by (simp_all add: retry_print_job_def d1(2) reported_def failure_status_def)
  ultimately show ?thesis using d1(2) by blast
qed

text \<open>A job that was printed can be reported failed and is then printed again by a retry.\<close>

theorem printed_job_fails_later:
  "(case find_job ''r1'' ''j1'' (snd (update_print_job_status ''r1'' ''u1'' ''j1'' Job_Failed (Some ''x'') 6
      (snd (update_print_job_status ''r1'' ''u1'' ''j1'' Job_Printed None 5
        (sample_print_db\<lparr>pb_jobs := [new_job ''r1'' None sample_printer Job_Test False
          \<lparr>pd_title = [], pd_lines = [], pd_escposBase64 = []\<rparr> ''u1'' ''j1'' 0]\<rparr>))))) of
      None \<Rightarrow> False | Some j \<Rightarrow> pj_status j = Job_Failed \<and> pj_printedAt j = Some 5)"
  by code_simp

text \<open>The two blanks that set modifiers and instructions off from their item are not printed.\<close>

theorem indent_is_lost: "wrap_text (js_units ''  extra cheese'') 32 = [js_units ''extra cheese'']"
  by code_simp

text \<open>What the kitchen is shown does not depend on amounts, prices or the payment.\<close>

theorem kitchen_ticket_hides_amounts:
  assumes "hide_amounts f"
  shows "build_kitchen_ticket_document loc (ord\<lparr>o_items := map f (o_items ord), o_subtotal := a, o_taxAmount := b,
      o_deliveryFee := c, o_discount := e, o_promoCode := p, o_total := t, o_paymentMethod := m,
      o_paymentStatus := s\<rparr>) paper = build_kitchen_ticket_document loc ord paper"
proof -
  let ?o = "ord\<lparr>o_items := map f (o_items ord), o_subtotal := a, o_taxAmount := b,
      o_deliveryFee := c, o_discount := e, o_promoCode := p, o_total := t, o_paymentMethod := m,
      o_paymentStatus := s\<rparr>"
  have items: "ticket_items ?o = ticket_items ord"
    by (simp add: ticket_items_def item_lines_hidden [OF assms] comp_def)
  have label: "order_type_label ?o = order_type_label ord" by (simp add: order_type_label_def cong: if_cong)
  have head: "restaurant_title ?o = restaurant_title ord" "order_heading loc ?o = order_heading loc ord"
    by (simp_all add: restaurant_title_def order_heading_def label)
  have address: "delivery_address_lines ?o = delivery_address_lines ord" by (simp add: delivery_address_lines_def)
  have texts: "ov_customerName ?o = ov_customerName ord" "ov_customerPhone ?o = ov_customerPhone ord"
    "o_customerNotes ?o = o_customerNotes ord" by simp_all
  show ?thesis unfolding build_kitchen_ticket_document_def items head address texts ..
qed

end
