(* ===== verification/Access_Control.thy ===== *)
theory Access_Control
  imports Billing_Domain
begin

text \<open>
  Who may do what: the roles and permissions of \<open>packages/types/src/types/rbac.ts\<close> and
  \<open>agencyRbac.ts\<close>, the checks of \<open>middleware/rbac.ts\<close>, \<open>tenant.ts\<close>, \<open>businessLocation.ts\<close> and
  \<open>agency.ts\<close> and \<open>ownerOfRecord.service.ts\<close>. A request carries the claims of its access token;
  a middleware passes the request on, with what it found out, or refuses it.
\<close>

section \<open>Roles and permissions\<close>

datatype user_role =
  Platform_Admin | Restaurant_Owner | Restaurant_Manager | Restaurant_Staff | Kitchen_Staff
  | Customer | Agency_Member

datatype permission =
    Restaurant_Manage | Settings_Manage | Staff_Manage | Menu_Read | Menu_Write | Categories_Write
  | Modifiers_Write | Promotions_Manage | Loyalty_Manage | Orders_Read | Orders_Manage
  | Payments_Manage | Audit_Read | Analytics_Read | Tables_Manage | Pos_Operate | Printers_Manage
  | Marketplace_Read | Marketplace_Manage | Billing_Read | Billing_Manage
  | Platform_Restaurants_Manage | Platform_Users_Manage | Knowledgebase_Write | Tickets_Read
  | Tickets_Write | Tickets_Assign | Tickets_Internal_Notes | Support_Analytics_Read

fun role_permissions :: "user_role \<Rightarrow> permission list" where
  "role_permissions Platform_Admin =
     [Platform_Restaurants_Manage, Platform_Users_Manage, Knowledgebase_Write, Tickets_Read,
      Tickets_Write, Tickets_Assign, Tickets_Internal_Notes, Support_Analytics_Read]"
| "role_permissions Restaurant_Owner =
     [Restaurant_Manage, Settings_Manage, Staff_Manage, Menu_Read, Menu_Write, Categories_Write,
      Modifiers_Write, Promotions_Manage, Loyalty_Manage, Orders_Read, Orders_Manage, Payments_Manage,
      Audit_Read, Analytics_Read, Tables_Manage, Pos_Operate, Printers_Manage, Marketplace_Read,
      Marketplace_Manage, Billing_Read, Billing_Manage, Tickets_Read]"
| "role_permissions Restaurant_Manager =
     [Menu_Read, Menu_Write, Categories_Write, Modifiers_Write, Promotions_Manage, Loyalty_Manage,
      Orders_Read, Orders_Manage, Payments_Manage, Audit_Read, Analytics_Read, Tables_Manage,
      Pos_Operate, Printers_Manage, Marketplace_Read, Marketplace_Manage, Billing_Read, Tickets_Read]"
| "role_permissions Restaurant_Staff = [Menu_Read, Orders_Read, Orders_Manage, Pos_Operate]"
| "role_permissions Kitchen_Staff = [Orders_Read, Orders_Manage]"
| "role_permissions Customer = []"
| "role_permissions Agency_Member = []"

definition role_has_permission :: "user_role \<Rightarrow> permission \<Rightarrow> bool" where
  "role_has_permission r p \<longleftrightarrow> p \<in> set (role_permissions r)"

datatype agency_role = Role_Agency_Owner | Role_Agency_Admin | Role_Agency_Staff

datatype agency_permission =
  Agency_Manage | Agency_Members_Manage | Agency_Businesses_Manage | Agency_Billing_Read | Agency_Billing_Manage

fun agency_role_permissions :: "agency_role \<Rightarrow> agency_permission list" where
  "agency_role_permissions Role_Agency_Owner =
     [Agency_Manage, Agency_Members_Manage, Agency_Businesses_Manage, Agency_Billing_Read, Agency_Billing_Manage]"
| "agency_role_permissions Role_Agency_Admin = [Agency_Members_Manage, Agency_Businesses_Manage, Agency_Billing_Read]"
| "agency_role_permissions Role_Agency_Staff = [Agency_Billing_Read]"

definition agency_role_has_permission :: "agency_role \<Rightarrow> agency_permission \<Rightarrow> bool" where
  "agency_role_has_permission r p \<longleftrightarrow> p \<in> set (agency_role_permissions r)"

fun agency_role_grants :: "agency_role \<Rightarrow> permission list" where
  "agency_role_grants Role_Agency_Owner =
     [Settings_Manage, Billing_Read, Billing_Manage, Promotions_Manage, Loyalty_Manage, Analytics_Read,
      Menu_Read, Categories_Write, Menu_Write, Modifiers_Write, Orders_Read, Orders_Manage,
      Tables_Manage, Pos_Operate, Printers_Manage, Staff_Manage, Audit_Read, Marketplace_Read, Marketplace_Manage]"
| "agency_role_grants Role_Agency_Admin =
     [Settings_Manage, Billing_Read, Promotions_Manage, Loyalty_Manage, Analytics_Read, Menu_Read,
      Categories_Write, Menu_Write, Modifiers_Write, Orders_Read, Orders_Manage, Tables_Manage,
      Pos_Operate, Printers_Manage, Audit_Read, Marketplace_Read, Marketplace_Manage]"
| "agency_role_grants Role_Agency_Staff = [Billing_Read, Analytics_Read, Menu_Read, Orders_Read, Marketplace_Read]"

definition agency_role_grants_permission :: "agency_role \<Rightarrow> permission \<Rightarrow> bool" where
  "agency_role_grants_permission r p \<longleftrightarrow> p \<in> set (agency_role_grants r)"

section \<open>Requests\<close>

text \<open>\<open>req.user\<close>: the claims of the access token (\<open>token.service.ts\<close>).\<close>

record claims =
  cl_id :: oid
  cl_role :: user_role
  cl_restaurantId :: "oid option"
  cl_businessId :: "oid option"
  cl_locationIds :: "oid list"
  cl_agencyMemberships :: "(oid \<times> agency_role) list"
  cl_mustChangePassword :: bool
  cl_isDemoAccount :: bool

record request =
  rq_user :: "claims option"
  rq_agencyRole :: "agency_role option"
  rq_ownerOfRecord :: bool

datatype membership_status = M_Invited | M_Active | M_Revoked | M_Deactivated

record membership =
  am_id :: oid
  am_agencyId :: oid
  am_userId :: oid
  am_role :: agency_role
  am_status :: membership_status
  am_businessIds :: "oid list"
  am_inviteTokenHash :: "string option"
  am_inviteExpiresAt :: "time option"

text \<open>The collections the checks read.\<close>

record access_db =
  ax_restaurants :: "restaurant list"
  ax_businesses :: "business list"
  ax_memberships :: "membership list"

section \<open>Ownership and agencies\<close>

definition platform_admin_owns_business :: "claims \<Rightarrow> oid option \<Rightarrow> 'z access_db_scheme \<Rightarrow> bool" where
  "platform_admin_owns_business u b d \<longleftrightarrow>
     cl_id u \<noteq> [] \<and> cl_role u = Platform_Admin \<and> truthy_string b \<and>
     list_ex (\<lambda>x. bu_id x = the b \<and> bu_ownerId x = cl_id u) (ax_businesses d)"

text \<open>\<open>agencyGrantsBusinessAccess\<close>.\<close>

definition agency_grants_business_access ::
  "oid \<Rightarrow> (oid \<times> agency_role) list \<Rightarrow> oid \<Rightarrow> 'z access_db_scheme \<Rightarrow> agency_role option" where
  "agency_grants_business_access uid memberships b d =
     (case find_one (\<lambda>x. bu_id x = b) (ax_businesses d) of
        None \<Rightarrow> None
      | Some x \<Rightarrow> (case bu_agencyId x of
          None \<Rightarrow> None
        | Some a \<Rightarrow> (case find_one (\<lambda>m. fst m = a) memberships of
            None \<Rightarrow> None
          | Some m \<Rightarrow>
              if snd m = Role_Agency_Owner \<or> snd m = Role_Agency_Admin then Some (snd m)
              else (case find_one (\<lambda>r. am_agencyId r = a \<and> am_userId r = uid \<and> am_status r = M_Active) (ax_memberships d) of
                 None \<Rightarrow> None
               | Some r \<Rightarrow> if b \<in> set (am_businessIds r) then Some Role_Agency_Staff else None))))"

section \<open>Locations\<close>

record tenant_access =
  ta_allowed :: bool
  ta_agencyRole :: "agency_role option"
  ta_ownerOfRecord :: bool

definition denied :: tenant_access where
  "denied = \<lparr>ta_allowed = False, ta_agencyRole = None, ta_ownerOfRecord = False\<rparr>"

definition allowed :: tenant_access where
  "allowed = denied\<lparr>ta_allowed := True\<rparr>"

text \<open>The business of a location; a malformed or unknown id has none.\<close>

definition business_of :: "oid \<Rightarrow> 'z access_db_scheme \<Rightarrow> oid option" where
  "business_of r d = Option.bind (find_one (\<lambda>x. res_id x = r) (ax_restaurants d)) res_businessId"

definition resolve_tenant_access :: "claims \<Rightarrow> oid \<Rightarrow> 'z access_db_scheme \<Rightarrow> tenant_access" where
  "resolve_tenant_access u r d =
     (if r = [] then denied
      else if cl_restaurantId u = Some r then allowed
      else if cl_role u = Restaurant_Staff \<or> cl_role u = Kitchen_Staff then
        denied\<lparr>ta_allowed := r \<in> set (cl_locationIds u)\<rparr>
      else
        let b = business_of r d in
        if truthy_string (cl_businessId u) \<and> b = cl_businessId u then allowed
        else if platform_admin_owns_business u b d then allowed\<lparr>ta_ownerOfRecord := True\<rparr>
        else if cl_agencyMemberships u \<noteq> [] \<and> truthy_string b \<and> cl_id u \<noteq> [] then
          (case agency_grants_business_access (cl_id u) (cl_agencyMemberships u) (the b) d of
             Some g \<Rightarrow> allowed\<lparr>ta_agencyRole := Some g\<rparr>
           | None \<Rightarrow> denied)
        else denied)"

definition can_access_restaurant :: "claims \<Rightarrow> oid \<Rightarrow> 'z access_db_scheme \<Rightarrow> bool" where
  "can_access_restaurant u r d = ta_allowed (resolve_tenant_access u r d)"

section \<open>Middleware\<close>

definition require_role :: "user_role list \<Rightarrow> request \<Rightarrow> request result" where
  "require_role roles q =
     (case rq_user q of
        None \<Rightarrow> Inl (Unauthorized '''')
      | Some u \<Rightarrow> if cl_role u \<in> set roles then Inr q else Inl (Forbidden ''''))"

definition require_tenant_match :: "oid \<Rightarrow> 'z access_db_scheme \<Rightarrow> request \<Rightarrow> request result" where
  "require_tenant_match r d q =
     (case rq_user q of
        None \<Rightarrow> Inl (Unauthorized '''')
      | Some u \<Rightarrow>
          let a = resolve_tenant_access u r d in
          if cl_role u = Platform_Admin then
            Inr (if ta_ownerOfRecord a then q\<lparr>rq_ownerOfRecord := True\<rparr> else q)
          else if \<not> ta_allowed a then Inl (Forbidden ''restaurant'')
          else Inr (case ta_agencyRole a of None \<Rightarrow> q | Some g \<Rightarrow> q\<lparr>rq_agencyRole := Some g\<rparr>))"

definition request_has :: "request \<Rightarrow> claims \<Rightarrow> permission \<Rightarrow> bool" where
  "request_has q u p \<longleftrightarrow> role_has_permission (cl_role u) p
     \<or> (case rq_agencyRole q of None \<Rightarrow> False | Some g \<Rightarrow> agency_role_grants_permission g p)
     \<or> (rq_ownerOfRecord q \<and> role_has_permission Restaurant_Owner p)"

text \<open>\<open>requireTenantPermission\<close> and \<open>requireBusinessPermission\<close> are the same check.\<close>

definition require_tenant_permission :: "permission list \<Rightarrow> request \<Rightarrow> request result" where
  "require_tenant_permission ps q =
     (case rq_user q of
        None \<Rightarrow> Inl (Unauthorized '''')
      | Some u \<Rightarrow> if list_all (request_has q u) ps then Inr q else Inl (Forbidden ''''))"

definition require_business_permission :: "permission list \<Rightarrow> request \<Rightarrow> request result" where
  "require_business_permission ps q =
     (case rq_user q of
        None \<Rightarrow> Inl (Unauthorized '''')
      | Some u \<Rightarrow> if list_all (request_has q u) ps then Inr q else Inl (Forbidden ''''))"

text \<open>\<open>requirePermission\<close> of \<open>rbac.ts\<close> does not look at agency roles.\<close>

definition require_permission :: "permission list \<Rightarrow> request \<Rightarrow> request result" where
  "require_permission ps q =
     (case rq_user q of
        None \<Rightarrow> Inl (Unauthorized '''')
      | Some u \<Rightarrow>
          if list_all (\<lambda>p. role_has_permission (cl_role u) p
              \<or> (rq_ownerOfRecord q \<and> role_has_permission Restaurant_Owner p)) ps
          then Inr q else Inl (Forbidden ''''))"

definition require_business_match :: "oid \<Rightarrow> 'z access_db_scheme \<Rightarrow> request \<Rightarrow> request result" where
  "require_business_match b d q =
     (case rq_user q of
        None \<Rightarrow> Inl (Unauthorized '''')
      | Some u \<Rightarrow>
          if cl_role u = Platform_Admin then
            Inr (if platform_admin_owns_business u (Some b) d then q\<lparr>rq_ownerOfRecord := True\<rparr> else q)
          else if truthy_string (cl_businessId u) \<and> cl_businessId u = Some b then Inr q
          else if cl_agencyMemberships u \<noteq> [] \<and> b \<noteq> [] then
            (case agency_grants_business_access (cl_id u) (cl_agencyMemberships u) b d of
               Some g \<Rightarrow> Inr (q\<lparr>rq_agencyRole := Some g\<rparr>)
             | None \<Rightarrow> Inl (Forbidden ''business''))
          else Inl (Forbidden ''business''))"

definition require_agency_match :: "oid \<Rightarrow> request \<Rightarrow> request result" where
  "require_agency_match a q =
     (case rq_user q of
        None \<Rightarrow> Inl (Unauthorized '''')
      | Some u \<Rightarrow>
          if cl_role u = Platform_Admin then Inr q
          else (case find_one (\<lambda>m. fst m = a) (cl_agencyMemberships u) of
             None \<Rightarrow> Inl (Forbidden ''agency'')
           | Some m \<Rightarrow> Inr (q\<lparr>rq_agencyRole := Some (snd m)\<rparr>)))"

definition require_agency_permission :: "agency_permission list \<Rightarrow> request \<Rightarrow> request result" where
  "require_agency_permission ps q =
     (case rq_user q of
        None \<Rightarrow> Inl (Unauthorized '''')
      | Some u \<Rightarrow> (case rq_agencyRole q of
          None \<Rightarrow> Inl (Forbidden '''')
        | Some g \<Rightarrow> if list_all (agency_role_has_permission g) ps then Inr q else Inl (Forbidden '''')))"

section \<open>Routes\<close>

text \<open>\<open>requireAuth\<close>: the header, the verification of the token (a parameter: the payload of a
  valid token) and the restriction of temporary passwords to two paths. \<open>strip_query\<close> is
  \<open>originalUrl.split("?")[0]\<close>.\<close>

definition bearer_prefix :: string where
  "bearer_prefix = ''Bearer ''"

definition strip_query :: "string \<Rightarrow> string" where
  "strip_query url = takeWhile (\<lambda>c. c \<noteq> CHR ''?'') url"

definition password_change_allowed_paths :: "string list" where
  "password_change_allowed_paths = [''/api/v1/auth/me'', ''/api/v1/auth/change-password'']"

definition require_auth :: "(string \<Rightarrow> claims option) \<Rightarrow> string option \<Rightarrow> string \<Rightarrow> request result" where
  "require_auth verify header url =
     (case header of
        None \<Rightarrow> Inl (Unauthorized ''missing'')
      | Some h \<Rightarrow>
          if take (length bearer_prefix) h \<noteq> bearer_prefix then Inl (Unauthorized ''missing'')
          else (case verify (drop (length bearer_prefix) h) of
             None \<Rightarrow> Inl (Unauthorized ''invalid'')
           | Some u \<Rightarrow>
               if cl_mustChangePassword u \<and> strip_query url \<notin> set password_change_allowed_paths
               then Inl (Forbidden ''password change required'')
               else Inr \<lparr>rq_user = Some u, rq_agencyRole = None, rq_ownerOfRecord = False\<rparr>))"

text \<open>The middleware in front of a handler of a location or of a business.\<close>

definition location_route ::
  "(string \<Rightarrow> claims option) \<Rightarrow> string option \<Rightarrow> string \<Rightarrow> oid \<Rightarrow> permission list \<Rightarrow> 'z access_db_scheme \<Rightarrow> request result" where
  "location_route verify header url r ps d =
     (case require_auth verify header url of
        Inl e \<Rightarrow> Inl e
      | Inr q \<Rightarrow> (case require_tenant_match r d q of
          Inl e \<Rightarrow> Inl e
        | Inr q1 \<Rightarrow> require_tenant_permission ps q1))"

definition business_route ::
  "(string \<Rightarrow> claims option) \<Rightarrow> string option \<Rightarrow> string \<Rightarrow> oid \<Rightarrow> permission list \<Rightarrow> 'z access_db_scheme \<Rightarrow> request result" where
  "business_route verify header url b ps d =
     (case require_auth verify header url of
        Inl e \<Rightarrow> Inl e
      | Inr q \<Rightarrow> (case require_business_match b d q of
          Inl e \<Rightarrow> Inl e
        | Inr q1 \<Rightarrow> require_business_permission ps q1))"

end
