(* ===== verification/Auth.thy ===== *)
theory Auth
  imports Access_Control
begin

text \<open>
  Accounts and sessions: \<open>auth.controller.ts\<close>, \<open>token.service.ts\<close>, \<open>secureToken.service.ts\<close>,
  \<open>agencyMembership.service.ts\<close> and \<open>models/User.ts\<close>. Refresh tokens live in Redis under a key per
  user and token id, with an expiry; access tokens carry the claims of the account they were
  signed for. bcrypt, the signing of tokens, the hash of one-time links and all random values
  are parameters. Request bodies are taken after their schemas have accepted them.
\<close>

section \<open>Accounts\<close>

record account =
  ac_id :: oid
  ac_name :: string
  ac_email :: string
  ac_passwordHash :: string
  ac_role :: user_role
  ac_restaurantId :: "oid option"
  ac_businessId :: "oid option"
  ac_locationIds :: "oid list"
  ac_phone :: "string option"
  ac_isActive :: bool
  ac_resetTokenHash :: "string option"
  ac_resetExpiresAt :: "time option"
  ac_inviteTokenHash :: "string option"
  ac_inviteExpiresAt :: "time option"
  ac_mustChangePassword :: bool
  ac_pendingEmail :: "string option"
  ac_emailChangeTokenHash :: "string option"
  ac_emailChangeExpiresAt :: "time option"
  ac_deletedAt :: "time option"
  ac_isDemoAccount :: bool
  ac_demoExpiresAt :: "time option"
  ac_emailVerifiedAt :: "time option"
  ac_verificationTokenHash :: "string option"
  ac_verificationExpiresAt :: "time option"
  ac_legalAcceptedAt :: "time option"
  ac_legalVersion :: "string option"

datatype mail_kind = Mail_Verification | Mail_Password_Reset | Mail_Email_Change | Mail_Staff_Invite | Mail_Agency_Invite

record mail =
  ml_kind :: mail_kind
  ml_to :: string
  ml_token :: string

type_synonym session_key = "oid \<times> string"

record auth_db = access_db +
  ad_users :: "account list"
  ad_sessions :: "(session_key \<times> time) list"
  ad_agencies :: "agency list"
  ad_agencySlugs :: "string list"
  ad_businessSlugs :: "string list"
  ad_restaurantSlugs :: "string list"
  ad_mails :: "mail list"
  ad_audit :: "audit_entry list"

text \<open>The slugs are those that are taken. What one request draws from outside: the time, fresh identifiers and random texts, and the
  functions of bcrypt, of SHA-256 and of the token library.\<close>

record auth_env =
  ae_now :: time
  ae_newId :: oid
  ae_newId2 :: oid
  ae_jti :: string
  ae_raw :: string
  ae_random :: string
  ae_hash :: "string \<Rightarrow> string"
  ae_compare :: "string \<Rightarrow> string \<Rightarrow> bool"
  ae_hashToken :: "string \<Rightarrow> string"
  ae_signRefresh :: "oid \<Rightarrow> string \<Rightarrow> string"
  ae_verifyRefresh :: "string \<Rightarrow> session_key option"
  ae_refreshTtl :: nat
  ae_mailOk :: bool

text \<open>The schema of the model stores names trimmed and addresses trimmed and in lower case, in
  documents and in filters.\<close>

definition norm_email :: "string \<Rightarrow> string" where
  "norm_email e = js_lower (js_trim e)"

definition user_document :: "oid \<Rightarrow> string \<Rightarrow> string \<Rightarrow> string \<Rightarrow> user_role \<Rightarrow> account" where
  "user_document i name email hash role =
     \<lparr>ac_id = i, ac_name = js_trim name, ac_email = norm_email email, ac_passwordHash = hash, ac_role = role,
      ac_restaurantId = None, ac_businessId = None, ac_locationIds = [], ac_phone = None, ac_isActive = True,
      ac_resetTokenHash = None, ac_resetExpiresAt = None, ac_inviteTokenHash = None, ac_inviteExpiresAt = None,
      ac_mustChangePassword = False, ac_pendingEmail = None, ac_emailChangeTokenHash = None,
      ac_emailChangeExpiresAt = None, ac_deletedAt = None, ac_isDemoAccount = False, ac_demoExpiresAt = None,
      ac_emailVerifiedAt = None, ac_verificationTokenHash = None, ac_verificationExpiresAt = None,
      ac_legalAcceptedAt = None, ac_legalVersion = None\<rparr>"

definition find_user :: "oid \<Rightarrow> 'z auth_db_scheme \<Rightarrow> account option" where
  "find_user i d = find_one (\<lambda>a. ac_id a = i) (ad_users d)"

definition find_by_email :: "string \<Rightarrow> 'z auth_db_scheme \<Rightarrow> account option" where
  "find_by_email e d = find_one (\<lambda>a. ac_email a = norm_email e) (ad_users d)"

text \<open>\<open>User.create\<close> under the unique index of the address, and \<open>user.save()\<close>: a save that changes
  the address meets the index too.\<close>

definition email_clash :: "account \<Rightarrow> account \<Rightarrow> bool" where
  "email_clash x y \<longleftrightarrow> ac_email x = ac_email y"

definition create_user :: "account \<Rightarrow> auth_db \<Rightarrow> unit result \<times> auth_db" where
  "create_user a d =
     (if ac_name a = [] then (Inl (Thrown ''name required''), d)
      else case insert_unique email_clash a (ad_users d) of
        None \<Rightarrow> (Inl (Conflict ''email''), d)
      | Some us \<Rightarrow> (Inr (), d\<lparr>ad_users := us\<rparr>))"

definition put_user :: "account \<Rightarrow> auth_db \<Rightarrow> auth_db" where
  "put_user a d = d\<lparr>ad_users := update_one (\<lambda>x. ac_id x = ac_id a) (\<lambda>_. a) (ad_users d)\<rparr>"

definition save_email :: "account \<Rightarrow> auth_db \<Rightarrow> unit result \<times> auth_db" where
  "save_email a d =
     (if list_ex (\<lambda>x. ac_id x \<noteq> ac_id a \<and> email_clash a x) (ad_users d) then (Inl (Thrown ''11000''), d)
      else (Inr (), put_user a d))"

definition send_mail :: "auth_env \<Rightarrow> mail_kind \<Rightarrow> string \<Rightarrow> auth_db \<Rightarrow> auth_db" where
  "send_mail env kind to d =
     (if ae_mailOk env then d\<lparr>ad_mails := ad_mails d @ [\<lparr>ml_kind = kind, ml_to = to, ml_token = ae_raw env\<rparr>]\<rparr> else d)"

definition token_hash :: "auth_env \<Rightarrow> string" where
  "token_hash env = ae_hashToken env (ae_raw env)"

definition after_ms :: "auth_env \<Rightarrow> int \<Rightarrow> time option" where
  "after_ms env ms = Some (ae_now env + ms)"

definition hour_ms :: int where "hour_ms = 60 * 60 * 1000"
definition day_ms :: int where "day_ms = 24 * 60 * 60 * 1000"

text \<open>A filter on a token hash and its expiry: both fields are there and match.\<close>

definition valid_until :: "time option \<Rightarrow> time \<Rightarrow> bool" where
  "valid_until t now \<longleftrightarrow> (case t of None \<Rightarrow> False | Some x \<Rightarrow> now < x)"

section \<open>Tokens\<close>

definition redis_set :: "session_key \<Rightarrow> time \<Rightarrow> auth_db \<Rightarrow> auth_db" where
  "redis_set k until d = d\<lparr>ad_sessions := (k, until) # filter (\<lambda>s. fst s \<noteq> k) (ad_sessions d)\<rparr>"

definition session_live :: "time \<Rightarrow> session_key \<Rightarrow> 'z auth_db_scheme \<Rightarrow> bool" where
  "session_live now k d \<longleftrightarrow> list_ex (\<lambda>s. fst s = k \<and> now < snd s) (ad_sessions d)"

definition revoke_refresh_token :: "session_key \<Rightarrow> auth_db \<Rightarrow> auth_db" where
  "revoke_refresh_token k d = d\<lparr>ad_sessions := filter (\<lambda>s. fst s \<noteq> k) (ad_sessions d)\<rparr>"

definition revoke_all_refresh_tokens :: "oid \<Rightarrow> auth_db \<Rightarrow> auth_db" where
  "revoke_all_refresh_tokens uid d = d\<lparr>ad_sessions := filter (\<lambda>s. fst (fst s) \<noteq> uid) (ad_sessions d)\<rparr>"

definition get_active_agency_memberships :: "oid \<Rightarrow> 'z auth_db_scheme \<Rightarrow> (oid \<times> agency_role) list" where
  "get_active_agency_memberships uid d =
     map (\<lambda>m. (am_agencyId m, am_role m))
       (filter (\<lambda>m. am_userId m = uid \<and> am_status m = M_Active) (ax_memberships d))"

definition claims_of :: "account \<Rightarrow> (oid \<times> agency_role) list \<Rightarrow> claims" where
  "claims_of a ms =
     \<lparr>cl_id = ac_id a, cl_role = ac_role a, cl_restaurantId = ac_restaurantId a, cl_businessId = ac_businessId a,
      cl_locationIds = ac_locationIds a, cl_agencyMemberships = ms,
      cl_mustChangePassword = ac_mustChangePassword a, cl_isDemoAccount = ac_isDemoAccount a\<rparr>"

text \<open>A session: the claims of the access token and the refresh token of the cookie.\<close>

type_synonym session = "claims \<times> string"

definition issue_session :: "auth_env \<Rightarrow> account \<Rightarrow> (oid \<times> agency_role) list \<Rightarrow> auth_db \<Rightarrow> session \<times> auth_db" where
  "issue_session env a ms d =
     ((claims_of a ms, ae_signRefresh env (ac_id a) (ae_jti env)),
      redis_set (ac_id a, ae_jti env) (ae_now env + int (ae_refreshTtl env) * 1000) d)"

definition start_session :: "auth_env \<Rightarrow> account \<Rightarrow> auth_db \<Rightarrow> session result \<times> auth_db" where
  "start_session env a d =
     (let (s, d') = issue_session env a (get_active_agency_memberships (ac_id a) d) d in (Inr s, d'))"

section \<open>Registration and login\<close>

definition send_verification_email :: "auth_env \<Rightarrow> account \<Rightarrow> auth_db \<Rightarrow> account \<times> auth_db" where
  "send_verification_email env a d =
     (let a' = a\<lparr>ac_verificationTokenHash := Some (token_hash env), ac_verificationExpiresAt := after_ms env day_ms\<rparr> in
      (a', send_mail env Mail_Verification (ac_email a) (put_user a' d)))"

record register_input =
  rg_name :: string
  rg_email :: string
  rg_password :: string
  rg_phone :: "string option"
  rg_termsAccepted :: "bool option"

definition current_legal_version :: string where
  "current_legal_version = ''2026-09-14''"

definition register :: "auth_env \<Rightarrow> register_input \<Rightarrow> auth_db \<Rightarrow> session result \<times> auth_db" where
  "register env i d =
     (if rg_termsAccepted i = Some False then (Inl (Bad_Request ''terms''), d)
      else if find_by_email (rg_email i) d \<noteq> None then (Inl (Conflict ''email''), d)
      else
        let a = (user_document (ae_newId env) (rg_name i) (rg_email i) (ae_hash env (rg_password i)) Customer)
              \<lparr>ac_phone := rg_phone i,
               ac_legalAcceptedAt := (if rg_termsAccepted i = Some True then Some (ae_now env) else None),
               ac_legalVersion := (if rg_termsAccepted i = Some True then Some current_legal_version else None)\<rparr> in
        (case create_user a d of
           (Inl e, d1) \<Rightarrow> (Inl e, d1)
         | (Inr _, d1) \<Rightarrow>
             let (a', d2) = send_verification_email env a d1;
                 (s, d3) = issue_session env a' [] d2 in (Inr s, d3)))"

definition demo_email :: "auth_env \<Rightarrow> string" where
  "demo_email env = ''demo-'' @ ae_raw env @ ''@playground.demo.local''"

definition start_demo_session :: "auth_env \<Rightarrow> auth_db \<Rightarrow> session result \<times> auth_db" where
  "start_demo_session env d =
     (let a = (user_document (ae_newId env) ''Demo Guest'' (demo_email env) (ae_hash env (ae_random env)) Customer)
          \<lparr>ac_isDemoAccount := True, ac_demoExpiresAt := after_ms env day_ms\<rparr> in
      (case create_user a d of
         (Inl e, d1) \<Rightarrow> (Inl (Thrown ''11000''), d1)
       | (Inr _, d1) \<Rightarrow> let (s, d2) = issue_session env a [] d1 in (Inr s, d2)))"

definition login :: "auth_env \<Rightarrow> string \<Rightarrow> string \<Rightarrow> auth_db \<Rightarrow> session result \<times> auth_db" where
  "login env email password d =
     (case find_by_email email d of
        None \<Rightarrow> (Inl (Unauthorized ''credentials''), d)
      | Some a \<Rightarrow>
          if \<not> ae_compare env password (ac_passwordHash a) then (Inl (Unauthorized ''credentials''), d)
          else if \<not> ac_isActive a then (Inl (Forbidden ''deactivated''), d)
          else start_session env a d)"

section \<open>Refreshing\<close>

text \<open>\<open>refresh\<close> in its two halves: whether the token is still in Redis, with the revocation of all
  sessions when it is not, and the exchange. Other requests can run between them.\<close>

definition refresh_check :: "auth_env \<Rightarrow> string option \<Rightarrow> auth_db \<Rightarrow> session_key result \<times> auth_db" where
  "refresh_check env cookie d =
     (if \<not> truthy_string cookie then (Inl (Unauthorized ''missing''), d)
      else case ae_verifyRefresh env (the cookie) of
        None \<Rightarrow> (Inl (Unauthorized ''invalid''), d)
      | Some k \<Rightarrow>
          if \<not> session_live (ae_now env) k d
          then (Inl (Unauthorized ''revoked''), revoke_all_refresh_tokens (fst k) d)
          else (Inr k, d))"

definition refresh_exchange :: "auth_env \<Rightarrow> session_key \<Rightarrow> auth_db \<Rightarrow> session result \<times> auth_db" where
  "refresh_exchange env k d =
     (case find_user (fst k) d of
        None \<Rightarrow> (Inl (Unauthorized ''gone''), d)
      | Some a \<Rightarrow>
          if \<not> ac_isActive a then (Inl (Forbidden ''deactivated''), d)
          else start_session env a (revoke_refresh_token k d))"

definition refresh_during :: "(auth_db \<Rightarrow> auth_db) \<Rightarrow> auth_env \<Rightarrow> string option \<Rightarrow> auth_db \<Rightarrow> session result \<times> auth_db" where
  "refresh_during meanwhile env cookie d =
     (case refresh_check env cookie d of
        (Inl e, d1) \<Rightarrow> (Inl e, d1)
      | (Inr k, d1) \<Rightarrow> refresh_exchange env k (meanwhile d1))"

definition refresh :: "auth_env \<Rightarrow> string option \<Rightarrow> auth_db \<Rightarrow> session result \<times> auth_db" where
  "refresh = refresh_during (\<lambda>d. d)"

definition logout :: "auth_env \<Rightarrow> string option \<Rightarrow> auth_db \<Rightarrow> unit result \<times> auth_db" where
  "logout env cookie d =
     (Inr (), if truthy_string cookie then
        (case ae_verifyRefresh env (the cookie) of
           None \<Rightarrow> d | Some k \<Rightarrow> revoke_refresh_token k d) else d)"

section \<open>The account of the caller\<close>

definition me :: "oid \<Rightarrow> auth_db \<Rightarrow> (account \<times> (oid \<times> agency_role) list) result" where
  "me uid d = (case find_user uid d of
     None \<Rightarrow> Inl (Unauthorized ''gone'') | Some a \<Rightarrow> Inr (a, get_active_agency_memberships uid d))"

definition update_me :: "oid \<Rightarrow> string option \<Rightarrow> string option \<Rightarrow> auth_db \<Rightarrow> account result \<times> auth_db" where
  "update_me uid name phone d =
     (case find_user uid d of
        None \<Rightarrow> (Inl (Unauthorized ''gone''), d)
      | Some a \<Rightarrow>
          let a' = a\<lparr>ac_name := (case name of None \<Rightarrow> ac_name a | Some n \<Rightarrow> js_trim n),
                     ac_phone := (case phone of None \<Rightarrow> ac_phone a | Some p \<Rightarrow> Some p)\<rparr> in
          if ac_name a' = [] then (Inl (Thrown ''name required''), d) else (Inr a', put_user a' d))"

definition request_password_reset :: "auth_env \<Rightarrow> string \<Rightarrow> auth_db \<Rightarrow> unit result \<times> auth_db" where
  "request_password_reset env email d =
     (Inr (), case find_by_email email d of
        None \<Rightarrow> d
      | Some a \<Rightarrow> send_mail env Mail_Password_Reset (ac_email a)
          (put_user (a\<lparr>ac_resetTokenHash := Some (token_hash env), ac_resetExpiresAt := after_ms env hour_ms\<rparr>) d))"

definition reset_password :: "auth_env \<Rightarrow> string \<Rightarrow> string \<Rightarrow> auth_db \<Rightarrow> unit result \<times> auth_db" where
  "reset_password env token password d =
     (case find_one (\<lambda>a. ac_resetTokenHash a = Some (ae_hashToken env token) \<and>
         valid_until (ac_resetExpiresAt a) (ae_now env)) (ad_users d) of
        None \<Rightarrow> (Inl (Bad_Request ''reset link''), d)
      | Some a \<Rightarrow> (Inr (), revoke_all_refresh_tokens (ac_id a)
          (put_user (a\<lparr>ac_passwordHash := ae_hash env password, ac_resetTokenHash := None, ac_resetExpiresAt := None\<rparr>) d)))"

definition accept_invite :: "auth_env \<Rightarrow> string \<Rightarrow> string \<Rightarrow> auth_db \<Rightarrow> session result \<times> auth_db" where
  "accept_invite env token password d =
     (case find_one (\<lambda>a. ac_inviteTokenHash a = Some (ae_hashToken env token) \<and>
         valid_until (ac_inviteExpiresAt a) (ae_now env)) (ad_users d) of
        None \<Rightarrow> (Inl (Bad_Request ''invitation link''), d)
      | Some a \<Rightarrow>
          let a' = a\<lparr>ac_passwordHash := ae_hash env password, ac_emailVerifiedAt := Some (ae_now env),
                     ac_inviteTokenHash := None, ac_inviteExpiresAt := None\<rparr> in
          start_session env a' (put_user a' d))"

definition verify_email :: "auth_env \<Rightarrow> string \<Rightarrow> auth_db \<Rightarrow> unit result \<times> auth_db" where
  "verify_email env token d =
     (case find_one (\<lambda>a. ac_verificationTokenHash a = Some (ae_hashToken env token) \<and>
         valid_until (ac_verificationExpiresAt a) (ae_now env)) (ad_users d) of
        None \<Rightarrow> (Inl (Bad_Request ''verification link''), d)
      | Some a \<Rightarrow> (Inr (), put_user (a\<lparr>ac_emailVerifiedAt := Some (ae_now env),
          ac_verificationTokenHash := None, ac_verificationExpiresAt := None\<rparr>) d))"

definition resend_verification :: "auth_env \<Rightarrow> oid \<Rightarrow> auth_db \<Rightarrow> unit result \<times> auth_db" where
  "resend_verification env uid d =
     (case find_user uid d of
        None \<Rightarrow> (Inl (Unauthorized ''gone''), d)
      | Some a \<Rightarrow> (Inr (), if ac_emailVerifiedAt a \<noteq> None then d else snd (send_verification_email env a d)))"

definition change_password :: "auth_env \<Rightarrow> oid \<Rightarrow> string \<Rightarrow> string \<Rightarrow> auth_db \<Rightarrow> session result \<times> auth_db" where
  "change_password env uid current new d =
     (case find_user uid d of
        None \<Rightarrow> (Inl (Unauthorized ''gone''), d)
      | Some a \<Rightarrow>
          if \<not> ae_compare env current (ac_passwordHash a) then (Inl (Bad_Request ''current password''), d)
          else
            let a' = a\<lparr>ac_passwordHash := ae_hash env new, ac_mustChangePassword := False\<rparr> in
            start_session env a' (revoke_all_refresh_tokens (ac_id a) (put_user a' d)))"

definition request_email_change :: "auth_env \<Rightarrow> oid \<Rightarrow> string \<Rightarrow> string \<Rightarrow> auth_db \<Rightarrow> unit result \<times> auth_db" where
  "request_email_change env uid email current d =
     (case find_user uid d of
        None \<Rightarrow> (Inl (Unauthorized ''gone''), d)
      | Some a \<Rightarrow>
          if \<not> ae_compare env current (ac_passwordHash a) then (Inl (Bad_Request ''current password''), d)
          else if email = ac_email a then (Inl (Bad_Request ''same email''), d)
          else if find_by_email email d \<noteq> None then (Inl (Conflict ''email''), d)
          else (Inr (), send_mail env Mail_Email_Change email
            (put_user (a\<lparr>ac_pendingEmail := Some (norm_email email), ac_emailChangeTokenHash := Some (token_hash env),
               ac_emailChangeExpiresAt := after_ms env hour_ms\<rparr>) d)))"

definition confirm_email_change :: "auth_env \<Rightarrow> string \<Rightarrow> auth_db \<Rightarrow> unit result \<times> auth_db" where
  "confirm_email_change env token d =
     (case find_one (\<lambda>a. ac_emailChangeTokenHash a = Some (ae_hashToken env token) \<and>
         valid_until (ac_emailChangeExpiresAt a) (ae_now env)) (ad_users d) of
        None \<Rightarrow> (Inl (Bad_Request ''confirmation link''), d)
      | Some a \<Rightarrow>
          if \<not> truthy_string (ac_pendingEmail a) then (Inl (Bad_Request ''confirmation link''), d)
          else
            let e = the (ac_pendingEmail a) in
            if list_ex (\<lambda>x. ac_email x = norm_email e \<and> ac_id x \<noteq> ac_id a) (ad_users d) then (Inl (Conflict ''email''), d)
            else save_email (a\<lparr>ac_email := norm_email e, ac_pendingEmail := None, ac_emailChangeTokenHash := None,
                   ac_emailChangeExpiresAt := None\<rparr>) d)"

definition delete_me :: "auth_env \<Rightarrow> oid \<Rightarrow> string \<Rightarrow> auth_db \<Rightarrow> unit result \<times> auth_db" where
  "delete_me env uid current d =
     (case find_user uid d of
        None \<Rightarrow> (Inl (Unauthorized ''gone''), d)
      | Some a \<Rightarrow>
          if ac_role a \<noteq> Customer then (Inl (Bad_Request ''staff''), d)
          else if \<not> ae_compare env current (ac_passwordHash a) then (Inl (Bad_Request ''current password''), d)
          else
            let a' = a\<lparr>ac_name := ''Deleted user'', ac_email := norm_email (''deleted-'' @ ac_id a @ ''@deleted.invalid''),
                       ac_passwordHash := ae_hash env (ae_random env), ac_phone := None, ac_isActive := False,
                       ac_deletedAt := Some (ae_now env), ac_pendingEmail := None, ac_emailChangeTokenHash := None,
                       ac_emailChangeExpiresAt := None, ac_resetTokenHash := None, ac_resetExpiresAt := None\<rparr> in
            (case save_email a' d of
               (Inl e, d1) \<Rightarrow> (Inl e, d1)
             | (Inr _, d1) \<Rightarrow> (Inr (), revoke_all_refresh_tokens (ac_id a) d1)))"

end
