(* ===== verification/Auth_Staff.thy ===== *)
theory Auth_Staff
  imports Auth
begin

text \<open>
  Who else gets an account or a role: the staff of a restaurant (\<open>staff.controller.ts\<close>,
  \<open>staffInvite.service.ts\<close>), agencies and their members (\<open>agency.controller.ts\<close>,
  \<open>agencyMembership.controller.ts\<close>) and the owner who signs up alone
  (\<open>business.controller.ts\<close>). The middleware in front of these handlers is in
  \<open>Access_Control\<close>; \<open>caller\<close> is \<open>req.user\<close>.
\<close>

section \<open>Staff of a restaurant\<close>

definition staff_roles :: "user_role list" where
  "staff_roles = [Restaurant_Manager, Restaurant_Staff, Kitchen_Staff]"

definition invite_ttl_ms :: int where
  "invite_ttl_ms = 7 * 24 * 60 * 60 * 1000"

record invite_staff_input =
  iv_name :: string
  iv_email :: string
  iv_role :: user_role
  iv_phone :: "string option"

text \<open>The schemas of the two bodies admit the three roles of staff only.\<close>

definition invite_staff_schema :: "invite_staff_input \<Rightarrow> bool" where
  "invite_staff_schema i \<longleftrightarrow> iv_role i \<in> set staff_roles"

definition create_staff_invite :: "auth_env \<Rightarrow> restaurant \<Rightarrow> invite_staff_input \<Rightarrow> auth_db \<Rightarrow> account result \<times> auth_db" where
  "create_staff_invite env r i d =
     (if find_by_email (iv_email i) d \<noteq> None then (Inl (Conflict ''email''), d)
      else
        let a = (user_document (ae_newId env) (iv_name i) (iv_email i) (ae_hash env (ae_random env)) (iv_role i))
              \<lparr>ac_phone := iv_phone i, ac_restaurantId := Some (res_id r), ac_businessId := res_businessId r,
               ac_locationIds := [res_id r], ac_inviteTokenHash := Some (token_hash env),
               ac_inviteExpiresAt := after_ms env invite_ttl_ms\<rparr> in
        (case create_user a d of
           (Inl e, d1) \<Rightarrow> (Inl e, d1)
         | (Inr _, d1) \<Rightarrow> (Inr a, send_mail env Mail_Staff_Invite (iv_email i) d1)))"

definition location_by_id :: "oid \<Rightarrow> 'z access_db_scheme \<Rightarrow> restaurant option" where
  "location_by_id r d = find_one (\<lambda>x. res_id x = r) (ax_restaurants d)"

definition invite_staff :: "auth_env \<Rightarrow> oid \<Rightarrow> invite_staff_input \<Rightarrow> auth_db \<Rightarrow> account result \<times> auth_db" where
  "invite_staff env r i d =
     (case location_by_id r d of
        None \<Rightarrow> (Inl (Not_Found ''restaurant''), d)
      | Some x \<Rightarrow> create_staff_invite env x i d)"

text \<open>A member of staff of this restaurant: the filter of the update and of the resend.\<close>

definition find_staff :: "oid \<Rightarrow> oid \<Rightarrow> auth_db \<Rightarrow> account option" where
  "find_staff i r d =
     find_one (\<lambda>a. ac_id a = i \<and> ac_restaurantId a = Some r \<and> ac_role a \<in> set staff_roles) (ad_users d)"

definition count_locations :: "oid list \<Rightarrow> oid \<Rightarrow> auth_db \<Rightarrow> nat" where
  "count_locations ids b d =
     length (filter (\<lambda>x. res_id x \<in> set ids \<and> res_businessId x = Some b) (ax_restaurants d))"

definition check_locations :: "oid \<Rightarrow> oid list \<Rightarrow> auth_db \<Rightarrow> unit result" where
  "check_locations r ids d =
     (case location_by_id r d of
        None \<Rightarrow> Inl (Not_Found ''restaurant'')
      | Some x \<Rightarrow> (case res_businessId x of
          None \<Rightarrow> if ids = [r] then Inr () else Inl (Bad_Request ''no business'')
        | Some b \<Rightarrow>
            if count_locations ids b d \<noteq> length ids then Inl (Bad_Request ''locationIds'') else Inr ()))"

record update_staff_input =
  us_role :: "user_role option"
  us_isActive :: "bool option"
  us_locationIds :: "oid list option"

definition update_staff_schema :: "update_staff_input \<Rightarrow> bool" where
  "update_staff_schema u \<longleftrightarrow> (case us_role u of None \<Rightarrow> True | Some role \<Rightarrow> role \<in> set staff_roles)
     \<and> (us_role u \<noteq> None \<or> us_isActive u \<noteq> None \<or> us_locationIds u \<noteq> None)"

definition apply_staff_update :: "update_staff_input \<Rightarrow> account \<Rightarrow> account" where
  "apply_staff_update u a =
     a\<lparr>ac_role := nullish (us_role u) (ac_role a),
       ac_isActive := nullish (us_isActive u) (ac_isActive a),
       ac_locationIds := nullish (us_locationIds u) (ac_locationIds a)\<rparr>"

definition update_staff :: "oid \<Rightarrow> oid \<Rightarrow> update_staff_input \<Rightarrow> auth_db \<Rightarrow> account result \<times> auth_db" where
  "update_staff r i u d =
     (case (case us_locationIds u of None \<Rightarrow> Inr () | Some ids \<Rightarrow> check_locations r ids d) of
        Inl e \<Rightarrow> (Inl e, d)
      | Inr _ \<Rightarrow> (case find_staff i r d of
          None \<Rightarrow> (Inl (Not_Found ''staff''), d)
        | Some a \<Rightarrow> (Inr (apply_staff_update u a), put_user (apply_staff_update u a) d)))"

definition resend_staff_invite :: "auth_env \<Rightarrow> oid \<Rightarrow> oid \<Rightarrow> auth_db \<Rightarrow> account result \<times> auth_db" where
  "resend_staff_invite env r i d =
     (case find_staff i r d of
        None \<Rightarrow> (Inl (Not_Found ''staff''), d)
      | Some a \<Rightarrow>
          if \<not> truthy_string (ac_inviteTokenHash a) then (Inl (Bad_Request ''accepted''), d)
          else
            let a' = a\<lparr>ac_inviteTokenHash := Some (token_hash env), ac_inviteExpiresAt := after_ms env invite_ttl_ms\<rparr> in
            (Inr a', send_mail env Mail_Staff_Invite (ac_email a) (put_user a' d)))"

section \<open>Agencies\<close>

definition agency_audit :: "string \<Rightarrow> claims \<Rightarrow> oid \<Rightarrow> auth_db \<Rightarrow> auth_db" where
  "agency_audit action caller target d =
     d\<lparr>ad_audit := ad_audit d @ [\<lparr>au_action = action, au_actorUserId = cl_id caller, au_targetId = target\<rparr>]\<rparr>"

text \<open>The role is read from the token of the caller, not from the account.\<close>

definition create_agency :: "auth_env \<Rightarrow> claims \<Rightarrow> string \<Rightarrow> string \<Rightarrow> string \<Rightarrow> auth_db \<Rightarrow> agency result \<times> auth_db" where
  "create_agency env caller name slug contact d =
     (if cl_role caller \<noteq> Customer \<and> cl_role caller \<noteq> Agency_Member then (Inl (Bad_Request ''account type''), d)
      else case find_user (cl_id caller) d of
        None \<Rightarrow> (Inl (Unauthorized ''gone''), d)
      | Some a \<Rightarrow>
          if ac_legalAcceptedAt a = None then (Inl (Forbidden ''terms''), d)
          else if slug \<in> set (ad_agencySlugs d) then (Inl (Conflict ''slug''), d)
          else if js_trim name = [] then (Inl (Thrown ''name required''), d)
          else
            let g = \<lparr>ag_id = ae_newId env, ag_name = js_trim name, ag_contactEmail = norm_email contact, ag_businessCount = 0\<rparr>;
                m = \<lparr>am_id = ae_newId2 env, am_agencyId = ae_newId env, am_userId = cl_id caller,
                     am_role = Role_Agency_Owner, am_status = M_Active, am_businessIds = [],
                     am_inviteTokenHash = None, am_inviteExpiresAt = None\<rparr>;
                d1 = d\<lparr>ad_agencies := ad_agencies d @ [g], ad_agencySlugs := ad_agencySlugs d @ [slug],
                       ax_memberships := ax_memberships d @ [m]\<rparr>;
                d2 = (if cl_role caller = Customer then put_user (a\<lparr>ac_role := Agency_Member\<rparr>) d1 else d1) in
            (Inr g, agency_audit ''agency.created'' caller (ag_id g) d2))"

definition find_membership :: "oid \<Rightarrow> oid \<Rightarrow> 'z auth_db_scheme \<Rightarrow> membership option" where
  "find_membership ag uid d = find_one (\<lambda>m. am_agencyId m = ag \<and> am_userId m = uid) (ax_memberships d)"

definition membership_clash :: "membership \<Rightarrow> membership \<Rightarrow> bool" where
  "membership_clash m n \<longleftrightarrow> am_agencyId m = am_agencyId n \<and> am_userId m = am_userId n"

definition put_membership :: "membership \<Rightarrow> auth_db \<Rightarrow> auth_db" where
  "put_membership m d = d\<lparr>ax_memberships := update_one (\<lambda>x. am_id x = am_id m) (\<lambda>_. m) (ax_memberships d)\<rparr>"

text \<open>The account of the invitation: the one that has the address, or a new one.\<close>

definition invited_account :: "auth_env \<Rightarrow> string \<Rightarrow> string \<Rightarrow> auth_db \<Rightarrow> account result \<times> auth_db" where
  "invited_account env name email d =
     (case find_by_email email d of
        Some a \<Rightarrow>
          if ac_role a \<noteq> Customer \<and> ac_role a \<noteq> Agency_Member then (Inl (Bad_Request ''account type''), d)
          else (Inr a, d)
      | None \<Rightarrow>
          let a = (user_document (ae_newId env) name email (ae_hash env (ae_random env)) Agency_Member)
                \<lparr>ac_inviteTokenHash := Some (token_hash env), ac_inviteExpiresAt := after_ms env invite_ttl_ms\<rparr> in
          (case create_user a d of
             (Inl e, d1) \<Rightarrow> (Inl e, d1)
           | (Inr _, d1) \<Rightarrow> (Inr a, d1)))"

definition open_membership :: "auth_env \<Rightarrow> oid \<Rightarrow> oid \<Rightarrow> agency_role \<Rightarrow> auth_db \<Rightarrow> unit result \<times> auth_db" where
  "open_membership env ag uid role d =
     (case find_membership ag uid d of
        Some m \<Rightarrow>
          if am_status m = M_Invited \<or> am_status m = M_Active then (Inl (Conflict ''member''), d)
          else (Inr (), put_membership (m\<lparr>am_role := role, am_status := M_Invited,
                 am_inviteTokenHash := Some (token_hash env), am_inviteExpiresAt := after_ms env invite_ttl_ms\<rparr>) d)
      | None \<Rightarrow>
          let m = \<lparr>am_id = ae_newId2 env, am_agencyId = ag, am_userId = uid, am_role = role, am_status = M_Invited,
                   am_businessIds = [], am_inviteTokenHash = Some (token_hash env),
                   am_inviteExpiresAt = after_ms env invite_ttl_ms\<rparr> in
          (case insert_unique membership_clash m (ax_memberships d) of
             None \<Rightarrow> (Inl (Conflict ''member''), d)
           | Some ms \<Rightarrow> (Inr (), d\<lparr>ax_memberships := ms\<rparr>)))"

definition invite_member :: "auth_env \<Rightarrow> claims \<Rightarrow> oid \<Rightarrow> string \<Rightarrow> string \<Rightarrow> agency_role \<Rightarrow> auth_db \<Rightarrow> unit result \<times> auth_db" where
  "invite_member env caller ag name email role d =
     (if find_one (\<lambda>g. ag_id g = ag) (ad_agencies d) = None then (Inl (Not_Found ''agency''), d)
      else case invited_account env name email d of
        (Inl e, d1) \<Rightarrow> (Inl e, d1)
      | (Inr a, d1) \<Rightarrow> (case open_membership env ag (ac_id a) role d1 of
          (Inl e, d2) \<Rightarrow> (Inl e, d2)
        | (Inr _, d2) \<Rightarrow> (Inr (), agency_audit ''agency.member_invited'' caller (ac_id a)
            (send_mail env Mail_Agency_Invite email d2))))"

definition resend_member_invite :: "auth_env \<Rightarrow> claims \<Rightarrow> oid \<Rightarrow> oid \<Rightarrow> auth_db \<Rightarrow> unit result \<times> auth_db" where
  "resend_member_invite env caller ag mid d =
     (case find_one (\<lambda>m. am_id m = mid \<and> am_agencyId m = ag) (ax_memberships d) of
        None \<Rightarrow> (Inl (Not_Found ''membership''), d)
      | Some m \<Rightarrow>
          if am_status m \<noteq> M_Invited then (Inl (Bad_Request ''not pending''), d)
          else (case find_user (am_userId m) d of
             None \<Rightarrow> (Inl (Not_Found ''account''), d)
           | Some a \<Rightarrow>
               let d1 = put_membership (m\<lparr>am_inviteTokenHash := Some (token_hash env),
                     am_inviteExpiresAt := after_ms env invite_ttl_ms\<rparr>) d;
                   d2 = (if truthy_string (ac_inviteTokenHash a)
                         then put_user (a\<lparr>ac_inviteTokenHash := Some (token_hash env),
                                ac_inviteExpiresAt := after_ms env invite_ttl_ms\<rparr>) d1 else d1) in
               (Inr (), agency_audit ''agency.member_invite_resent'' caller mid
                  (send_mail env Mail_Agency_Invite (ac_email a) d2))))"

text \<open>Accepting: the account of an invited newcomer gets its password, the membership becomes
  active, a customer becomes a member of an agency.\<close>

definition accept_agency_invite :: "auth_env \<Rightarrow> string \<Rightarrow> string option \<Rightarrow> auth_db \<Rightarrow> session result \<times> auth_db" where
  "accept_agency_invite env token password d =
     (case find_one (\<lambda>m. am_inviteTokenHash m = Some (ae_hashToken env token) \<and>
         valid_until (am_inviteExpiresAt m) (ae_now env)) (ax_memberships d) of
        None \<Rightarrow> (Inl (Bad_Request ''invitation link''), d)
      | Some m \<Rightarrow> (case find_user (am_userId m) d of
          None \<Rightarrow> (Inl (Bad_Request ''invitation link''), d)
        | Some a \<Rightarrow>
            let newcomer = truthy_string (ac_inviteTokenHash a) in
            if newcomer \<and> \<not> truthy_string password then (Inl (Bad_Request ''password required''), d)
            else
              let a1 = (if newcomer then a\<lparr>ac_passwordHash := ae_hash env (the password),
                          ac_inviteTokenHash := None, ac_inviteExpiresAt := None\<rparr> else a);
                  a2 = (if ac_role a = Customer then a1\<lparr>ac_role := Agency_Member\<rparr> else a1);
                  d1 = put_membership (m\<lparr>am_status := M_Active, am_inviteTokenHash := None,
                         am_inviteExpiresAt := None\<rparr>) (put_user a2 d);
                  d2 = d1\<lparr>ad_audit := ad_audit d1 @ [\<lparr>au_action = ''agency.member_accepted'',
                         au_actorUserId = ac_id a, au_targetId = am_id m\<rparr>]\<rparr> in
              start_session env a2 d2))"

record update_member_input =
  um_role :: "agency_role option"
  um_status :: "membership_status option"
  um_businessIds :: "oid list option"

definition removes_owner :: "update_member_input \<Rightarrow> membership \<Rightarrow> bool" where
  "removes_owner u m \<longleftrightarrow> am_role m = Role_Agency_Owner \<and>
     (um_role u \<noteq> None \<and> um_role u \<noteq> Some Role_Agency_Owner \<or> um_status u \<noteq> None \<and> um_status u \<noteq> Some M_Active)"

definition active_owners :: "oid \<Rightarrow> 'z access_db_scheme \<Rightarrow> membership list" where
  "active_owners ag d =
     filter (\<lambda>m. am_agencyId m = ag \<and> am_role m = Role_Agency_Owner \<and> am_status m = M_Active) (ax_memberships d)"

text \<open>\<open>updateMember\<close> reads and counts, and saves afterwards the fields whose value differs from
  the one it read; what other requests do in between is a parameter.\<close>

definition changed_field :: "'a option \<Rightarrow> 'a \<Rightarrow> 'a \<Rightarrow> 'a" where
  "changed_field new read current = (case new of None \<Rightarrow> current | Some v \<Rightarrow> if v = read then current else v)"

definition save_member_update :: "update_member_input \<Rightarrow> membership \<Rightarrow> membership \<Rightarrow> membership" where
  "save_member_update u m x =
     x\<lparr>am_role := changed_field (um_role u) (am_role m) (am_role x),
       am_status := changed_field (um_status u) (am_status m) (am_status x),
       am_businessIds := changed_field (um_businessIds u) (am_businessIds m) (am_businessIds x)\<rparr>"

definition update_member_during ::
  "(auth_db \<Rightarrow> auth_db) \<Rightarrow> claims \<Rightarrow> oid \<Rightarrow> oid \<Rightarrow> update_member_input \<Rightarrow> auth_db \<Rightarrow> unit result \<times> auth_db" where
  "update_member_during meanwhile caller ag mid u d =
     (case find_one (\<lambda>m. am_id m = mid \<and> am_agencyId m = ag) (ax_memberships d) of
        None \<Rightarrow> (Inl (Not_Found ''membership''), d)
      | Some m \<Rightarrow>
          if removes_owner u m \<and> length (active_owners ag d) \<le> 1 then (Inl (Bad_Request ''last owner''), d)
          else
            let d1 = meanwhile d;
                d2 = d1\<lparr>ax_memberships := update_one (\<lambda>x. am_id x = mid) (save_member_update u m) (ax_memberships d1)\<rparr> in
            (Inr (), agency_audit (if um_status u = Some M_Revoked then ''agency.member_removed''
               else ''agency.member_role_changed'') caller mid d2))"

definition update_member :: "claims \<Rightarrow> oid \<Rightarrow> oid \<Rightarrow> update_member_input \<Rightarrow> auth_db \<Rightarrow> unit result \<times> auth_db" where
  "update_member = update_member_during (\<lambda>d. d)"

section \<open>Owners who sign up alone\<close>

text \<open>The defaults of \<open>models/Restaurant.ts\<close>.\<close>

definition default_settings :: "string option \<Rightarrow> string option \<Rightarrow> restaurant_settings" where
  "default_settings timezone currency =
     \<lparr>rs_currency = (if truthy_string currency then the currency else ''USD''),
      rs_timezone = (if truthy_string timezone then the timezone else ''UTC''),
      rs_orderingEnabled = True, rs_pickupEnabled = True, rs_deliveryEnabled = False, rs_dineInEnabled = False,
      rs_cashEnabled = True, rs_onlinePaymentEnabled = False, rs_minOrderAmount = 0, rs_taxRate = 0,
      rs_deliveryFee = 0, rs_deliveryRadiusKm = None, rs_deliveryFeeTiers = [], rs_businessHours = [],
      rs_temporarilyPaused = False, rs_pausedReason = None, rs_posTerminalEnabled = False,
      rs_deliveryProvider = Some ''manual''\<rparr>"

definition new_restaurant :: "oid \<Rightarrow> string \<Rightarrow> oid \<Rightarrow> string option \<Rightarrow> string option \<Rightarrow> restaurant" where
  "new_restaurant i name b timezone currency =
     \<lparr>res_id = i, res_businessId = Some b, res_status = Restaurant_Pending, res_name = js_trim name,
      res_address = None, res_city = None, res_state = None, res_postalCode = None, res_country = None,
      res_phone = None, res_latitude = None, res_longitude = None, res_settings = default_settings timezone currency\<rparr>"

text \<open>\<open>createBusinessSelfServe\<close>. The check of the account before the transaction is repeated in it.\<close>

definition create_business_self_serve ::
  "auth_env \<Rightarrow> claims \<Rightarrow> string \<Rightarrow> string \<Rightarrow> string option \<Rightarrow> string option \<Rightarrow> auth_db \<Rightarrow> (business \<times> restaurant) result \<times> auth_db" where
  "create_business_self_serve env caller name slug timezone currency d =
     (case find_user (cl_id caller) d of
        None \<Rightarrow> (Inl (Unauthorized ''gone''), d)
      | Some a \<Rightarrow>
          if ac_businessId a \<noteq> None then (Inl (Conflict ''business''), d)
          else if ac_emailVerifiedAt a = None then (Inl (Forbidden ''verify email''), d)
          else if ac_legalAcceptedAt a = None then (Inl (Forbidden ''terms''), d)
          else if slug \<in> set (ad_restaurantSlugs d) \<or> slug \<in> set (ad_businessSlugs d) then (Inl (Conflict ''slug''), d)
          else if js_trim name = [] then (Inl (Thrown ''name required''), d)
          else
            let b = \<lparr>bu_id = ae_newId env, bu_name = js_trim name, bu_ownerId = ac_id a, bu_agencyId = None, bu_locationCount = 0\<rparr>;
                r = new_restaurant (ae_newId2 env) name (bu_id b) timezone currency;
                a' = a\<lparr>ac_businessId := Some (bu_id b), ac_restaurantId := Some (res_id r),
                       ac_role := (if ac_role a = Customer then Restaurant_Owner else ac_role a)\<rparr>;
                d1 = put_user a' (d\<lparr>ax_businesses := ax_businesses d @ [b], ad_businessSlugs := ad_businessSlugs d @ [slug],
                       ax_restaurants := ax_restaurants d @ [r], ad_restaurantSlugs := ad_restaurantSlugs d @ [slug]\<rparr>) in
            (Inr (b, r), d1\<lparr>ad_audit := ad_audit d1 @ [\<lparr>au_action = ''restaurant.created'',
               au_actorUserId = ac_id a, au_targetId = res_id r\<rparr>]\<rparr>))"

end
