(* ===== verification/Auth_Changes.thy ===== *)
theory Auth_Changes
  imports Auth_Staff
begin

text \<open>
  What the operations on accounts can do to the database, one level above the code: \<open>change\<close>
  has a rule per kind of write, and every handler is a sequence of changes (\<open>step_changes\<close>).
  Invariants are proved over the few changes, not over the twenty-odd handlers.
\<close>

named_theorems reach_intros

section \<open>The handlers as steps\<close>

inductive auth_step :: "auth_env \<Rightarrow> auth_db \<Rightarrow> auth_db \<Rightarrow> bool" for env d where
  "auth_step env d (snd (register env i d))"
| "auth_step env d (snd (start_demo_session env d))"
| "auth_step env d (snd (login env email password d))"
| "auth_step env d (snd (refresh_check env cookie d))"
| "auth_step env d (snd (refresh_exchange env k d))"
| "auth_step env d (snd (logout env cookie d))"
| "auth_step env d (snd (update_me uid name phone d))"
| "auth_step env d (snd (request_password_reset env email d))"
| "auth_step env d (snd (reset_password env token password d))"
| "auth_step env d (snd (accept_invite env token password d))"
| "auth_step env d (snd (verify_email env token d))"
| "auth_step env d (snd (resend_verification env uid d))"
| "auth_step env d (snd (change_password env uid current new d))"
| "auth_step env d (snd (request_email_change env uid email current d))"
| "auth_step env d (snd (confirm_email_change env token d))"
| "auth_step env d (snd (delete_me env uid current d))"
| "invite_staff_schema v \<Longrightarrow> auth_step env d (snd (invite_staff env r v d))"
| "update_staff_schema u \<Longrightarrow> auth_step env d (snd (update_staff r uid u d))"
| "auth_step env d (snd (resend_staff_invite env r uid d))"
| "auth_step env d (snd (create_agency env caller name slug contact d))"
| "auth_step env d (snd (invite_member env caller ag name email arole d))"
| "auth_step env d (snd (resend_member_invite env caller ag mid d))"
| "auth_step env d (snd (accept_agency_invite env token pw d))"
| "auth_step env d (snd (update_member caller ag mid m d))"
| "auth_step env d (snd (create_business_self_serve env caller name slug timezone currency d))"

text \<open>The identifiers a request draws are new.\<close>

definition fresh_ids :: "auth_env \<Rightarrow> auth_db \<Rightarrow> bool" where
  "fresh_ids env d \<longleftrightarrow> ae_newId env \<notin> ac_id ` set (ad_users d) \<and> ae_newId2 env \<notin> am_id ` set (ax_memberships d) \<and>
     ae_newId env \<notin> am_agencyId ` set (ax_memberships d) \<and>
     ae_newId env \<notin> bu_id ` set (ax_businesses d) \<and> ae_newId2 env \<notin> res_id ` set (ax_restaurants d)"

text \<open>A run in which no token id of \<open>J\<close> is drawn.\<close>

inductive auth_run :: "string set \<Rightarrow> auth_db \<Rightarrow> auth_db \<Rightarrow> bool" for J d where
  run_refl: "auth_run J d d"
| run_step: "auth_run J d d1 \<Longrightarrow> fresh_ids env d1 \<Longrightarrow> ae_jti env \<notin> J \<Longrightarrow> auth_step env d1 d2 \<Longrightarrow> auth_run J d d2"

section \<open>Changes\<close>

definition wf_accounts :: "auth_db \<Rightarrow> bool" where
  "wf_accounts d \<longleftrightarrow> distinct (map ac_id (ad_users d)) \<and> distinct (map ac_email (ad_users d)) \<and>
     distinct (map am_id (ax_memberships d)) \<and> distinct (map (\<lambda>m. (am_agencyId m, am_userId m)) (ax_memberships d)) \<and>
     distinct (map res_id (ax_restaurants d))"

definition email_free :: "auth_db \<Rightarrow> account \<Rightarrow> bool" where
  "email_free d a \<longleftrightarrow> (\<forall>x \<in> set (ad_users d). ac_id x \<noteq> ac_id a \<longrightarrow> ac_email x \<noteq> ac_email a)"

text \<open>The account \<open>a\<close> becomes \<open>a'\<close>.\<close>

inductive account_change :: "auth_db \<Rightarrow> account \<Rightarrow> account \<Rightarrow> bool" for d a where
  personal: "ac_id a' = ac_id a \<Longrightarrow> ac_role a' = ac_role a \<Longrightarrow> ac_restaurantId a' = ac_restaurantId a \<Longrightarrow>
    ac_businessId a' = ac_businessId a \<Longrightarrow> ac_locationIds a' = ac_locationIds a \<Longrightarrow>
    ac_legalAcceptedAt a' = ac_legalAcceptedAt a \<Longrightarrow> (ac_emailVerifiedAt a \<noteq> None \<Longrightarrow> ac_emailVerifiedAt a' \<noteq> None) \<Longrightarrow>
    email_free d a' \<Longrightarrow> account_change d a a'"
| staff: "ac_role a \<in> set staff_roles \<Longrightarrow> ac_restaurantId a = Some r \<Longrightarrow> update_staff_schema u \<Longrightarrow>
    (\<And>ids. us_locationIds u = Some ids \<Longrightarrow> check_locations r ids d = Inr ()) \<Longrightarrow>
    account_change d a (apply_staff_update u a)"
| member: "ac_role a \<in> {Customer, Agency_Member} \<or> ac_legalAcceptedAt a \<noteq> None \<Longrightarrow>
    account_change d a (a\<lparr>ac_role := Agency_Member\<rparr>)"

definition newcomer :: "auth_env \<Rightarrow> auth_db \<Rightarrow> account \<Rightarrow> bool" where
  "newcomer env d a \<longleftrightarrow> ac_id a = ae_newId env \<and> ac_id a \<notin> ac_id ` set (ad_users d) \<and> email_free d a \<and>
     (ac_role a = Customer \<or> ac_role a = Agency_Member \<or>
      ac_role a \<in> set staff_roles \<and> ac_legalAcceptedAt a = None \<and>
      (\<exists>x. location_by_id (res_id x) d = Some x \<and> ac_restaurantId a = Some (res_id x) \<and> ac_locationIds a = [res_id x]))"

definition keeps_owners :: "auth_db \<Rightarrow> membership \<Rightarrow> membership \<Rightarrow> bool" where
  "keeps_owners d m m' \<longleftrightarrow> am_id m' = am_id m \<and> am_agencyId m' = am_agencyId m \<and> am_userId m' = am_userId m \<and>
     (am_role m = Role_Agency_Owner \<and> am_status m = M_Active \<longrightarrow>
      am_role m' = Role_Agency_Owner \<and> am_status m' = M_Active \<or> 1 < length (active_owners (am_agencyId m) d))"

inductive change :: "auth_env \<Rightarrow> auth_db \<Rightarrow> auth_db \<Rightarrow> bool" for env d where
  sessions: "fst ` set ss \<subseteq> insert (uid, ae_jti env) (fst ` set (ad_sessions d)) \<Longrightarrow> change env d (d\<lparr>ad_sessions := ss\<rparr>)"
| mails: "change env d (d\<lparr>ad_mails := ms\<rparr>)"
| log: "change env d (d\<lparr>ad_audit := as\<rparr>)"
| new_user: "newcomer env d a \<Longrightarrow> change env d (d\<lparr>ad_users := ad_users d @ [a]\<rparr>)"
| put_user: "find_user (ac_id a) d = Some a \<Longrightarrow> account_change d a a' \<Longrightarrow> change env d (put_user a' d)"
| new_owner: "find_user (ac_id a) d = Some a \<Longrightarrow> ac_emailVerifiedAt a \<noteq> None \<Longrightarrow> ac_legalAcceptedAt a \<noteq> None \<Longrightarrow>
    a' = a\<lparr>ac_businessId := Some (bu_id b), ac_restaurantId := Some (res_id r),
           ac_role := (if ac_role a = Customer then Restaurant_Owner else ac_role a)\<rparr> \<Longrightarrow>
    ac_businessId a = None \<Longrightarrow> bu_ownerId b = ac_id a \<Longrightarrow> res_id r \<notin> res_id ` set (ax_restaurants d) \<Longrightarrow>
    change env d (put_user a' (d\<lparr>ax_businesses := ax_businesses d @ [b], ad_businessSlugs := bs,
       ax_restaurants := ax_restaurants d @ [r], ad_restaurantSlugs := rs\<rparr>))"
| agency: "change env d (d\<lparr>ad_agencies := gs, ad_agencySlugs := ss\<rparr>)"
| new_membership: "am_id m \<notin> am_id ` set (ax_memberships d) \<Longrightarrow> \<forall>x \<in> set (ax_memberships d). \<not> membership_clash m x \<Longrightarrow>
    change env d (d\<lparr>ax_memberships := ax_memberships d @ [m]\<rparr>)"
| edit_membership: "find_one (\<lambda>x. am_id x = mid) (ax_memberships d) = Some m \<Longrightarrow> keeps_owners d m (f m) \<Longrightarrow>
    change env d (d\<lparr>ax_memberships := update_one (\<lambda>x. am_id x = mid) f (ax_memberships d)\<rparr>)"

definition reach :: "auth_env \<Rightarrow> auth_db \<Rightarrow> auth_db \<Rightarrow> bool" where
  "reach env = (change env)\<^sup>*\<^sup>*"

lemma reach_refl [simp, reach_intros]: "reach env d d"
  by (simp add: reach_def)

lemma reach_change: "reach env d d1 \<Longrightarrow> change env d1 d2 \<Longrightarrow> reach env d d2"
  by (simp add: reach_def)

lemma reach_trans: "reach env d d1 \<Longrightarrow> reach env d1 d2 \<Longrightarrow> reach env d d2"
  by (simp add: reach_def)

lemma reach_induct [consumes 1, case_names refl change]:
  assumes "reach env d d'" "P d" "\<And>d1 d2. reach env d d1 \<Longrightarrow> P d1 \<Longrightarrow> change env d1 d2 \<Longrightarrow> P d2"
  shows "P d'"
  using assms(1) unfolding reach_def
proof (induction rule: rtranclp_induct)
  case base
  show ?case by (rule assms(2))
next
  case (step d1 d2)
  show ?case by (rule assms(3) [OF _ step.IH step.hyps(2)]) (simp add: reach_def step.hyps(1))
qed

section \<open>The building blocks of the handlers\<close>

lemma reach_mail [reach_intros]: "reach env d d1 \<Longrightarrow> reach env d (send_mail env' k to d1)"
  unfolding send_mail_def by (simp add: reach_change [OF _ change.mails])

lemma reach_sessions:
  "reach env d d1 \<Longrightarrow> fst ` set ss \<subseteq> insert (uid, ae_jti env) (fst ` set (ad_sessions d1)) \<Longrightarrow> reach env d (d1\<lparr>ad_sessions := ss\<rparr>)"
  by (rule reach_change, assumption, rule change.sessions)

lemma reach_redis [reach_intros]: "reach env d d1 \<Longrightarrow> reach env d (redis_set (uid, ae_jti env) until d1)"
  unfolding redis_set_def by (rule reach_sessions [where uid = uid]) auto

lemma snd_session [simp]:
  "snd (issue_session env a ms d) = redis_set (ac_id a, ae_jti env) (ae_now env + int (ae_refreshTtl env) * 1000) d"
  "snd (start_session env a d) = redis_set (ac_id a, ae_jti env) (ae_now env + int (ae_refreshTtl env) * 1000) d"
  by (simp_all add: issue_session_def start_session_def)

lemma reach_revoke [reach_intros]:
  "reach env d d1 \<Longrightarrow> reach env d (revoke_refresh_token k d1)"
  "reach env d d1 \<Longrightarrow> reach env d (revoke_all_refresh_tokens uid d1)"
  unfolding revoke_refresh_token_def revoke_all_refresh_tokens_def by (erule reach_sessions; auto)+

lemma reach_audit [reach_intros]: "reach env d d1 \<Longrightarrow> reach env d (agency_audit s c t d1)"
  unfolding agency_audit_def by (rule reach_change, assumption, rule change.log)

lemma reach_put: "reach env d d1 \<Longrightarrow> find_user (ac_id a) d1 = Some a \<Longrightarrow> account_change d1 a a' \<Longrightarrow> reach env d (put_user a' d1)"
  by (rule reach_change, assumption, rule change.put_user)

section \<open>Accounts that are found and saved\<close>

lemma find_user_id: "find_user uid d = Some a \<Longrightarrow> ac_id a = uid \<and> find_user (ac_id a) d = Some a"
  by (auto simp: find_user_def dest: find_one_SomeD)

lemma found_user:
  assumes "wf_accounts d" "find_one p (ad_users d) = Some a"
  shows "find_user (ac_id a) d = Some a"
  using assms find_one_SomeD [OF assms(2)] find_id_mem [of ac_id "ad_users d" a]
  by (simp add: wf_accounts_def find_user_def)

lemma email_free_same:
  assumes "wf_accounts d" "find_user (ac_id a) d = Some a" "ac_id a' = ac_id a" "ac_email a' = ac_email a"
  shows "email_free d a'"
proof -
  have "a \<in> set (ad_users d)" using assms(2) by (auto simp: find_user_def dest: find_one_SomeD)
  then show ?thesis using assms(1,3,4) unfolding email_free_def wf_accounts_def
    by (metis (no_types, lifting) distinct_map inj_onD)
qed

text \<open>What a person can change of its own account.\<close>

definition own_fields :: "account \<Rightarrow> account \<Rightarrow> bool" where
  "own_fields a a' \<longleftrightarrow> ac_id a' = ac_id a \<and> ac_role a' = ac_role a \<and> ac_restaurantId a' = ac_restaurantId a \<and>
     ac_businessId a' = ac_businessId a \<and> ac_locationIds a' = ac_locationIds a \<and>
     ac_legalAcceptedAt a' = ac_legalAcceptedAt a \<and> (ac_emailVerifiedAt a \<noteq> None \<longrightarrow> ac_emailVerifiedAt a' \<noteq> None)"

lemma reach_own:
  assumes "reach env d d1" "wf_accounts d1" "find_user (ac_id a) d1 = Some a" "own_fields a a'" "ac_email a' = ac_email a"
  shows "reach env d (put_user a' d1)"
proof (rule reach_put [OF assms(1,3)])
  show "account_change d1 a a'"
    using assms(4) email_free_same [OF assms(2,3) _ assms(5)]
    by (intro account_change.personal) (simp_all add: own_fields_def)
qed

lemma reach_own_email:
  assumes "reach env d d1" "find_user (ac_id a) d1 = Some a" "own_fields a a'" "email_free d1 a'"
  shows "reach env d (put_user a' d1)"
  using assms(3,4) by (intro reach_put [OF assms(1,2)] account_change.personal) (simp_all add: own_fields_def)

lemma reach_new_user:
  "reach env d d1 \<Longrightarrow> newcomer env d1 a \<Longrightarrow> reach env d (d1\<lparr>ad_users := ad_users d1 @ [a]\<rparr>)"
  by (rule reach_change, assumption, rule change.new_user)

lemma create_user_cases:
  obtains e where "create_user a d = (Inl e, d)"
  | "create_user a d = (Inr (), d\<lparr>ad_users := ad_users d @ [a]\<rparr>)" "\<forall>x \<in> set (ad_users d). ac_email x \<noteq> ac_email a"
  by (cases "list_ex (email_clash a) (ad_users d)"; cases "ac_name a = []")
    (force simp: create_user_def insert_unique_def list_ex_iff email_clash_def split: option.splits)+

lemma find_appended:
  "ac_id a \<notin> ac_id ` set (ad_users d) \<Longrightarrow>
   find_user (ac_id a) (d\<lparr>ad_users := ad_users d @ [a]\<rparr>) = Some a"
  by (auto simp: find_user_def find_one_append image_iff split: option.splits dest!: find_one_SomeD)

section \<open>Every handler is a sequence of changes\<close>

lemma user_document_simps [simp]:
  "ac_id (user_document i n e h role) = i" "ac_role (user_document i n e h role) = role"
  "ac_legalAcceptedAt (user_document i n e h role) = None"
  by (simp_all add: user_document_def)

lemma changes_register:
  assumes "fresh_ids env d"
  shows "reach env d (snd (register env i d))"
proof -
  define a where "a = (user_document (ae_newId env) (rg_name i) (rg_email i) (ae_hash env (rg_password i)) Customer)
      \<lparr>ac_phone := rg_phone i,
       ac_legalAcceptedAt := (if rg_termsAccepted i = Some True then Some (ae_now env) else None),
       ac_legalVersion := (if rg_termsAccepted i = Some True then Some current_legal_version else None)\<rparr>"
  have a: "ac_id a = ae_newId env" "ac_role a = Customer" by (simp_all add: a_def)
  let ?a' = "a\<lparr>ac_verificationTokenHash := Some (token_hash env), ac_verificationExpiresAt := after_ms env day_ms\<rparr>"
  have fresh: "ac_id a \<notin> ac_id ` set (ad_users d)" using assms by (simp add: fresh_ids_def a)
  show ?thesis
  proof (cases rule: create_user_cases [of a d])
    case (1 e)
    then show ?thesis by (simp add: register_def a_def [symmetric])
  next
    case 2
    let ?d1 = "d\<lparr>ad_users := ad_users d @ [a]\<rparr>"
    have free: "email_free d a" "email_free ?d1 ?a'" using 2(2) by (auto simp: email_free_def)
    have "reach env d ?d1" using fresh free(1) by (intro reach_new_user) (simp_all add: newcomer_def a)
    then have "reach env d (put_user ?a' ?d1)"
      by (rule reach_own_email [OF _ find_appended [OF fresh] _ free(2)]) (simp add: own_fields_def)
    then have "reach env d (redis_set (ac_id ?a', ae_jti env) t (send_mail env k to (put_user ?a' ?d1)))" for t k to
      by (intro reach_intros)
    with 2(1) show ?thesis
      by (simp add: register_def a_def [symmetric] send_verification_email_def issue_session_def Let_def)
  qed
qed

lemma changes_demo:
  assumes "fresh_ids env d"
  shows "reach env d (snd (start_demo_session env d))"
proof -
  define a where "a = (user_document (ae_newId env) ''Demo Guest'' (demo_email env) (ae_hash env (ae_random env)) Customer)
          \<lparr>ac_isDemoAccount := True, ac_demoExpiresAt := after_ms env day_ms\<rparr>"
  have a: "ac_id a = ae_newId env" "ac_role a = Customer" by (simp_all add: a_def)
  have fresh: "ac_id a \<notin> ac_id ` set (ad_users d)" using assms by (simp add: fresh_ids_def a)
  show ?thesis
  proof (cases rule: create_user_cases [of a d])
    case (1 e)
    then show ?thesis by (simp add: start_demo_session_def a_def [symmetric])
  next
    case 2
    have "reach env d (d\<lparr>ad_users := ad_users d @ [a]\<rparr>)"
      using fresh 2(2) by (intro reach_new_user) (auto simp: newcomer_def a email_free_def)
    then have "reach env d (redis_set (ac_id a, ae_jti env) t (d\<lparr>ad_users := ad_users d @ [a]\<rparr>))" for t
      by (intro reach_intros)
    with 2(1) show ?thesis by (simp add: start_demo_session_def a_def [symmetric] issue_session_def Let_def)
  qed
qed

lemma changes_sessions:
  "reach env d (snd (login env email password d))"
  "reach env d (snd (refresh_check env cookie d))"
  "reach env d (snd (refresh_exchange env k d))"
  "reach env d (snd (logout env cookie d))"
  by (auto simp: login_def refresh_check_def refresh_exchange_def logout_def split: option.splits intro!: reach_intros)

lemma put_own:
  assumes "wf_accounts d" "find_user uid d = Some a" "own_fields a a'" "ac_email a' = ac_email a"
  shows "reach env d (put_user a' d)"
  using reach_own [OF reach_refl assms(1) _ assms(3,4)] find_user_id [OF assms(2)] by blast

lemma put_found:
  assumes "wf_accounts d" "find_one p (ad_users d) = Some a" "own_fields a a'" "ac_email a' = ac_email a"
  shows "reach env d (put_user a' d)"
  using reach_own [OF reach_refl assms(1) found_user [OF assms(1,2)] assms(3,4)] .

lemma changes_own:
  assumes "wf_accounts d"
  shows "reach env d (snd (update_me uid name phone d))"
    "reach env d (snd (request_password_reset env email d))"
    "reach env d (snd (reset_password env token password d))"
    "reach env d (snd (accept_invite env token password d))"
    "reach env d (snd (verify_email env token d))"
    "reach env d (snd (resend_verification env uid d))"
    "reach env d (snd (change_password env uid current new d))"
    "reach env d (snd (request_email_change env uid email current d))"
  subgoal unfolding update_me_def Let_def
    by (auto split: option.split intro!: reach_intros put_own [OF assms] simp: own_fields_def)
  subgoal unfolding request_password_reset_def find_by_email_def
    by (auto split: option.split intro!: reach_intros put_found [OF assms] simp: own_fields_def)
  subgoal unfolding reset_password_def
    by (auto split: option.split intro!: reach_intros put_found [OF assms] simp: own_fields_def)
  subgoal unfolding accept_invite_def Let_def
    by (auto split: option.split intro!: reach_intros put_found [OF assms] simp: own_fields_def)
  subgoal unfolding verify_email_def
    by (auto split: option.split intro!: reach_intros put_found [OF assms] simp: own_fields_def)
  subgoal unfolding resend_verification_def send_verification_email_def Let_def
    by (auto split: option.split intro!: reach_intros put_own [OF assms] simp: own_fields_def)
  subgoal unfolding change_password_def Let_def
    by (auto split: option.split intro!: reach_intros put_own [OF assms] simp: own_fields_def)
  subgoal unfolding request_email_change_def
    by (auto split: option.split intro!: reach_intros put_own [OF assms] simp: own_fields_def)
  done

lemma save_email_cases:
  obtains e where "save_email a d = (Inl e, d)"
  | "save_email a d = (Inr (), put_user a d)" "email_free d a"
proof (cases "list_ex (\<lambda>x. ac_id x \<noteq> ac_id a \<and> email_clash a x) (ad_users d)")
  case True
  then show ?thesis using that(1) by (simp add: save_email_def)
next
  case False
  then have "email_free d a" by (auto simp: list_ex_iff email_clash_def email_free_def)
  with False show ?thesis using that(2) by (simp add: save_email_def)
qed

lemma changes_email:
  assumes "wf_accounts d"
  shows "reach env d (snd (confirm_email_change env token d))"
proof -
  have "reach env d (snd (save_email a' d))"
    if "find_user (ac_id a) d = Some a" "own_fields a a'" for a a'
    by (rule save_email_cases [of a' d]) (simp_all add: reach_own_email [OF reach_refl that])
  from this [OF found_user [OF assms]] show ?thesis
    unfolding confirm_email_change_def Let_def
    by (auto split: option.split simp: own_fields_def)
qed

lemma changes_delete:
  shows "reach env d (snd (delete_me env uid current d))"
proof (cases "find_user uid d")
  case (Some a)
  define a' where "a' = a\<lparr>ac_name := ''Deleted user'', ac_email := norm_email (''deleted-'' @ ac_id a @ ''@deleted.invalid''),
      ac_passwordHash := ae_hash env (ae_random env), ac_phone := None, ac_isActive := False,
      ac_deletedAt := Some (ae_now env), ac_pendingEmail := None, ac_emailChangeTokenHash := None,
      ac_emailChangeExpiresAt := None, ac_resetTokenHash := None, ac_resetExpiresAt := None\<rparr>"
  have own: "own_fields a a'" by (simp add: own_fields_def a'_def)
  note found = find_user_id [OF Some, THEN conjunct2]
  show ?thesis
  proof (cases rule: save_email_cases [of a' d])
    case (1 e)
    with Some show ?thesis unfolding delete_me_def Let_def by (simp add: a'_def)
  next
    case 2
    with Some show ?thesis
      using reach_revoke(2) [OF reach_own_email [OF reach_refl found own 2(2)]]
      unfolding delete_me_def Let_def by (simp add: a'_def)
  qed
qed (simp add: delete_me_def)

lemma changes_staff:
  assumes "wf_accounts d"
  shows "fresh_ids env d \<Longrightarrow> invite_staff_schema v \<Longrightarrow> reach env d (snd (invite_staff env r v d))"
    "update_staff_schema u \<Longrightarrow> reach env d (snd (update_staff r uid u d))"
    "reach env d (snd (resend_staff_invite env r uid d))"
proof -
  show "reach env d (snd (invite_staff env r v d))" if fresh: "fresh_ids env d" and schema: "invite_staff_schema v"
  proof (cases "location_by_id r d")
    case (Some x)
    define a where "a = (user_document (ae_newId env) (iv_name v) (iv_email v) (ae_hash env (ae_random env)) (iv_role v))
        \<lparr>ac_phone := iv_phone v, ac_restaurantId := Some (res_id x), ac_businessId := res_businessId x,
         ac_locationIds := [res_id x], ac_inviteTokenHash := Some (token_hash env),
         ac_inviteExpiresAt := after_ms env invite_ttl_ms\<rparr>"
    have x: "location_by_id (res_id x) d = Some x"
      using Some by (auto simp: location_by_id_def dest: find_one_SomeD)
    show ?thesis
    proof (cases rule: create_user_cases [of a d])
      case (1 e)
      with Some show ?thesis by (simp add: invite_staff_def create_staff_invite_def a_def [symmetric] Let_def)
    next
      case 2
      have "newcomer env d a"
        using fresh schema x 2(2)
        by (auto simp: newcomer_def a_def fresh_ids_def invite_staff_schema_def email_free_def)
      from reach_mail [OF reach_new_user [OF reach_refl this]] Some 2(1) show ?thesis
        by (simp add: invite_staff_def create_staff_invite_def a_def [symmetric] Let_def)
    qed
  qed (simp add: invite_staff_def)
next
  show "reach env d (snd (update_staff r uid u d))" if schema: "update_staff_schema u"
  proof (cases "find_staff uid r d")
    case (Some a)
    then have a: "ac_restaurantId a = Some r" "ac_role a \<in> set staff_roles"
      by (auto simp: find_staff_def dest: find_one_SomeD)
    note found = found_user [OF assms Some [unfolded find_staff_def]]
    show ?thesis
    proof (cases "case us_locationIds u of None \<Rightarrow> Inr () | Some ids \<Rightarrow> check_locations r ids d")
      case (Inr _)
      then have "account_change d a (apply_staff_update u a)"
        using a schema by (intro account_change.staff) auto
      from reach_put [OF reach_refl found this] show ?thesis using Some Inr by (simp add: update_staff_def)
    qed (simp add: update_staff_def)
  qed (simp add: update_staff_def split: sum.split)
next
  show "reach env d (snd (resend_staff_invite env r uid d))"
    unfolding resend_staff_invite_def find_staff_def Let_def
    by (auto split: option.split intro!: reach_intros put_found [OF assms] simp: own_fields_def)
qed

section \<open>Agencies and businesses\<close>

lemma reach_agency: "reach env d d1 \<Longrightarrow> reach env d (d1\<lparr>ad_agencies := gs, ad_agencySlugs := ss\<rparr>)"
  by (rule reach_change, assumption, rule change.agency)

lemma reach_new_membership:
  "reach env d d1 \<Longrightarrow> am_id m \<notin> am_id ` set (ax_memberships d1) \<Longrightarrow>
   \<forall>x \<in> set (ax_memberships d1). \<not> membership_clash m x \<Longrightarrow> reach env d (d1\<lparr>ax_memberships := ax_memberships d1 @ [m]\<rparr>)"
  by (rule reach_change, assumption, rule change.new_membership)

lemma reach_edit_membership:
  assumes "reach env d d1" "find_one (\<lambda>x. am_id x = am_id m) (ax_memberships d1) = Some m" "keeps_owners d1 m m'"
  shows "reach env d (put_membership m' d1)"
proof -
  have "am_id m' = am_id m" using assms(3) by (simp add: keeps_owners_def)
  with reach_change [OF assms(1) change.edit_membership [OF assms(2), of "\<lambda>_. m'", OF assms(3)]]
  show ?thesis by (simp add: put_membership_def)
qed

lemma found_membership:
  assumes "wf_accounts d" "find_one p (ax_memberships d) = Some m"
  shows "find_one (\<lambda>x. am_id x = am_id m) (ax_memberships d) = Some m"
  using assms find_one_SomeD [OF assms(2)] by (simp add: wf_accounts_def find_id_mem)

lemma put_user_simps [simp]:
  "ax_memberships (put_user a d) = ax_memberships d" "ad_agencies (put_user a d) = ad_agencies d"
  "find_user i (d\<lparr>ax_memberships := ms\<rparr>) = find_user i d"
  "find_user i (d\<lparr>ad_agencies := gs, ad_agencySlugs := ss\<rparr>) = find_user i d"
  "active_owners ag (put_user a d) = active_owners ag d"
  by (simp_all add: put_user_def find_user_def active_owners_def)

lemma find_put_user:
  "find_user (ac_id a) d = Some a \<Longrightarrow> ac_id a' = ac_id a \<Longrightarrow> find_user (ac_id a) (put_user a' d) = Some a'"
  by (simp add: find_user_def put_user_def find_id_update_same)

lemma put_user_twice: "ac_id a' = ac_id a \<Longrightarrow> put_user a' (put_user a d) = put_user a' d"
proof -
  have "update_one p (\<lambda>_. y) (update_one p (\<lambda>_. x) xs) = update_one p (\<lambda>_. y) xs" if "p x" for p x y and xs :: "account list"
    using that by (induction xs) auto
  then show "ac_id a' = ac_id a \<Longrightarrow> put_user a' (put_user a d) = put_user a' d" by (simp add: put_user_def)
qed

lemma changes_agency:
  assumes "wf_accounts d" "fresh_ids env d"
  shows "reach env d (snd (create_agency env caller name slug contact d))"
proof -
  define g where "g = \<lparr>ag_id = ae_newId env, ag_name = js_trim name, ag_contactEmail = norm_email contact, ag_businessCount = 0\<rparr>"
  define m where "m = \<lparr>am_id = ae_newId2 env, am_agencyId = ae_newId env, am_userId = cl_id caller,
                     am_role = Role_Agency_Owner, am_status = M_Active, am_businessIds = [],
                     am_inviteTokenHash = None, am_inviteExpiresAt = None\<rparr>"
  define d1 where "d1 = d\<lparr>ad_agencies := ad_agencies d @ [g], ad_agencySlugs := ad_agencySlugs d @ [slug],
                       ax_memberships := ax_memberships d @ [m]\<rparr>"
  have "reach env d (d\<lparr>ad_agencies := ad_agencies d @ [g], ad_agencySlugs := ad_agencySlugs d @ [slug],
      ax_memberships := ax_memberships (d\<lparr>ad_agencies := ad_agencies d @ [g], ad_agencySlugs := ad_agencySlugs d @ [slug]\<rparr>) @ [m]\<rparr>)"
    using assms(2) by (intro reach_new_membership reach_agency reach_refl)
      (auto simp: m_def fresh_ids_def membership_clash_def image_iff)
  then have d1: "reach env d d1" by (simp add: d1_def)
  have put: "reach env d (put_user (a\<lparr>ac_role := Agency_Member\<rparr>) d1)"
    if "find_user (cl_id caller) d = Some a" "ac_legalAcceptedAt a \<noteq> None" for a
  proof (rule reach_put [OF d1])
    show "find_user (ac_id a) d1 = Some a"
      using find_user_id [OF that(1), THEN conjunct2] unfolding d1_def find_user_def by simp
    show "account_change d1 a (a\<lparr>ac_role := Agency_Member\<rparr>)" using that(2) by (simp add: account_change.member)
  qed
  show ?thesis
    unfolding create_agency_def Let_def g_def [symmetric] m_def [symmetric] d1_def [symmetric]
    by (auto split: option.split intro!: reach_audit d1 put)
qed

lemma changes_member_invite:
  assumes "wf_accounts d" "fresh_ids env d"
  shows "reach env d (snd (invite_member env caller ag name email arole d))"
proof -
  have account: "reach env d d1 \<and> ax_memberships d1 = ax_memberships d"
    if invited: "invited_account env name email d = (x, d1)" for x d1
  proof (cases "find_by_email email d")
    case None
    define a where "a = (user_document (ae_newId env) name email (ae_hash env (ae_random env)) Agency_Member)
        \<lparr>ac_inviteTokenHash := Some (token_hash env), ac_inviteExpiresAt := after_ms env invite_ttl_ms\<rparr>"
    show ?thesis
    proof (cases rule: create_user_cases [of a d])
      case (1 e)
      then show ?thesis using None invited by (simp add: invited_account_def a_def [symmetric] Let_def)
    next
      case 2
      have "newcomer env d a"
        using assms(2) 2(2) by (auto simp: newcomer_def a_def fresh_ids_def email_free_def)
      from reach_new_user [OF reach_refl this] show ?thesis
        using None invited 2(1) by (auto simp: invited_account_def a_def [symmetric] Let_def)
    qed
  qed (use invited in \<open>auto simp: invited_account_def split: if_splits\<close>)
  have membership: "reach env d (snd (open_membership env ag uid arole d1))"
    if d1: "reach env d d1" "ax_memberships d1 = ax_memberships d" for d1 uid
  proof (cases "find_membership ag uid d1")
    case None
    define m where "m = \<lparr>am_id = ae_newId2 env, am_agencyId = ag, am_userId = uid, am_role = arole, am_status = M_Invited,
        am_businessIds = [], am_inviteTokenHash = Some (token_hash env), am_inviteExpiresAt = after_ms env invite_ttl_ms\<rparr>"
    have free: "\<forall>x \<in> set (ax_memberships d1). \<not> membership_clash m x"
      using None by (auto simp: find_membership_def find_one_None_iff membership_clash_def m_def)
    then have "reach env d (d1\<lparr>ax_memberships := ax_memberships d1 @ [m]\<rparr>)"
      using assms(2) d1 by (intro reach_new_membership) (auto simp: fresh_ids_def m_def)
    moreover have "insert_unique membership_clash m (ax_memberships d1) = Some (ax_memberships d1 @ [m])"
      using free by (auto simp: insert_unique_def list_ex_iff)
    ultimately show ?thesis using None by (simp add: open_membership_def m_def [symmetric] Let_def)
  next
    case (Some m)
    then have "find_one (\<lambda>x. am_id x = am_id m) (ax_memberships d1) = Some m"
      using found_membership [OF assms(1)] d1(2) by (simp add: find_membership_def)
    with Some show ?thesis
      by (auto simp: open_membership_def keeps_owners_def intro!: d1(1) reach_edit_membership)
  qed
  show ?thesis
    unfolding invite_member_def
    by (auto split: prod.split sum.split intro!: reach_intros dest!: account)
      (metis membership snd_conv)+
qed

lemma changes_member_resend:
  assumes "wf_accounts d"
  shows "reach env d (snd (resend_member_invite env caller ag mid d))"
proof -
  have put: "reach env d (put_membership (m\<lparr>am_inviteTokenHash := h, am_inviteExpiresAt := t\<rparr>) d)"
    if "find_one p (ax_memberships d) = Some m" for p m h t
    by (rule reach_edit_membership [OF reach_refl found_membership [OF assms that]]) (simp add: keeps_owners_def)
  have user: "reach env d (put_user a' (put_membership m' d))"
    if "find_user uid d = Some a" "own_fields a a'" "ac_email a' = ac_email a" "reach env d (put_membership m' d)" for uid a a' m'
  proof (rule reach_own_email [OF that(4) _ that(2)])
    have a: "find_user (ac_id a) d = Some a" using find_user_id [OF that(1)] by blast
    then show "find_user (ac_id a) (put_membership m' d) = Some a" by (simp add: put_membership_def)
    show "email_free (put_membership m' d) a'"
      using email_free_same [OF assms a _ that(3)] that(2) by (simp add: put_membership_def own_fields_def email_free_def)
  qed
  show ?thesis
    unfolding resend_member_invite_def Let_def
    by (auto split: option.split intro!: reach_intros put intro: put user simp: own_fields_def)
qed

lemma changes_member_accept:
  assumes "wf_accounts d"
  shows "reach env d (snd (accept_agency_invite env token pw d))"
proof -
  have user: "reach env d (put_user a2 d)"
    if found: "find_user uid d = Some a" and own: "own_fields a a1" "ac_email a1 = ac_email a"
      and a2: "a2 = (if ac_role a = Customer then a1\<lparr>ac_role := Agency_Member\<rparr> else a1)" for uid a a1 a2
  proof (cases "ac_role a = Customer")
    case True
    have first: "reach env d (put_user a1 d)" using put_own [OF assms found own] .
    have "find_user (ac_id a1) (put_user a1 d) = Some a1"
      using find_put_user [OF find_user_id [OF found, THEN conjunct2], of a1] own(1) by (simp add: own_fields_def)
    from reach_put [OF first this account_change.member] own(1) True a2
    show ?thesis by (simp add: own_fields_def put_user_twice)
  next
    case False
    with put_own [OF assms found own] a2 show ?thesis by simp
  qed
  have membership: "reach env d (put_membership (m\<lparr>am_status := M_Active, am_inviteTokenHash := None, am_inviteExpiresAt := None\<rparr>) (put_user a d))"
    if "find_one p (ax_memberships d) = Some m" "reach env d (put_user a d)" for p m a
    by (rule reach_edit_membership [OF that(2), of m]) (simp_all add: found_membership [OF assms that(1)] keeps_owners_def)
  have audit: "reach env d d1 \<Longrightarrow> reach env d (d1\<lparr>ad_audit := x\<rparr>)" for d1 x
    by (rule reach_change, assumption, rule change.log)
  show ?thesis
  proof (cases "find_one (\<lambda>m. am_inviteTokenHash m = Some (ae_hashToken env token) \<and>
         valid_until (am_inviteExpiresAt m) (ae_now env)) (ax_memberships d)")
    case (Some m)
    note m = Some
    show ?thesis
    proof (cases "find_user (am_userId m) d")
      case (Some a)
      define a1 where "a1 = (if truthy_string (ac_inviteTokenHash a) then a\<lparr>ac_passwordHash := ae_hash env (the pw),
                          ac_inviteTokenHash := None, ac_inviteExpiresAt := None\<rparr> else a)"
      define a2 where "a2 = (if ac_role a = Customer then a1\<lparr>ac_role := Agency_Member\<rparr> else a1)"
      have "reach env d (put_user a2 d)"
        by (rule user [OF Some _ _ a2_def]) (simp_all add: a1_def own_fields_def)
      then show ?thesis
        unfolding accept_agency_invite_def Let_def m option.case Some a1_def [symmetric] a2_def [symmetric]
        by (auto intro!: reach_intros audit membership [OF m])
    qed (simp add: accept_agency_invite_def m)
  qed (simp add: accept_agency_invite_def)
qed

lemma changed_self [simp]: "changed_field new v v = nullish new v"
  by (cases new) (simp_all add: changed_field_def)

lemma changes_member_update:
  assumes "wf_accounts d"
  shows "reach env d (snd (update_member caller ag mid u d))"
proof (cases "find_one (\<lambda>m. am_id m = mid \<and> am_agencyId m = ag) (ax_memberships d)")
  case (Some m)
  have m: "am_id m = mid" "am_agencyId m = ag" using find_one_SomeD [OF Some] by auto
  have found: "find_one (\<lambda>x. am_id x = mid) (ax_memberships d) = Some m" using found_membership [OF assms Some] m by simp
  have "keeps_owners d m (save_member_update u m m)" if "\<not> (removes_owner u m \<and> length (active_owners ag d) \<le> 1)"
    using that m by (cases "um_role u"; cases "um_status u")
      (auto simp: keeps_owners_def save_member_update_def removes_owner_def)
  then have "reach env d (d\<lparr>ax_memberships := update_one (\<lambda>x. am_id x = mid) (save_member_update u m) (ax_memberships d)\<rparr>)"
    if "\<not> (removes_owner u m \<and> length (active_owners ag d) \<le> 1)"
    using that change.edit_membership [OF found] reach_change [OF reach_refl] by blast
  then show ?thesis
    by (auto simp: update_member_def update_member_during_def Some Let_def intro!: reach_intros)
qed (simp add: update_member_def update_member_during_def)

lemma changes_self_serve:
  assumes "fresh_ids env d"
  shows "reach env d (snd (create_business_self_serve env caller name slug timezone currency d))"
proof (cases "find_user (cl_id caller) d")
  case (Some a)
  define b where "b = \<lparr>bu_id = ae_newId env, bu_name = js_trim name, bu_ownerId = ac_id a, bu_agencyId = None, bu_locationCount = 0\<rparr>"
  define r where "r = new_restaurant (ae_newId2 env) name (bu_id b) timezone currency"
  define a' where "a' = a\<lparr>ac_businessId := Some (bu_id b), ac_restaurantId := Some (res_id r),
      ac_role := (if ac_role a = Customer then Restaurant_Owner else ac_role a)\<rparr>"
  have "reach env d (put_user a' (d\<lparr>ax_businesses := ax_businesses d @ [b], ad_businessSlugs := bs,
      ax_restaurants := ax_restaurants d @ [r], ad_restaurantSlugs := rs\<rparr>))"
    if "ac_emailVerifiedAt a \<noteq> None" "ac_legalAcceptedAt a \<noteq> None" "ac_businessId a = None" for bs rs
    by (rule reach_change [OF reach_refl change.new_owner [OF find_user_id [OF Some, THEN conjunct2] that(1,2) a'_def that(3)]])
      (use assms in \<open>simp_all add: b_def r_def new_restaurant_def fresh_ids_def\<close>)
  then show ?thesis
    unfolding create_business_self_serve_def Let_def Some option.case b_def [symmetric] r_def [symmetric] a'_def [symmetric]
    by (auto intro!: reach_change [OF _ change.log])
qed (simp add: create_business_self_serve_def)

text \<open>Every handler is a sequence of changes.\<close>

lemma step_changes:
  assumes "auth_step env d d'" "wf_accounts d" "fresh_ids env d"
  shows "reach env d d'"
  using assms(1)
  by cases (use assms(2,3) in \<open>simp_all add: changes_register changes_demo changes_sessions changes_own changes_email
      changes_delete changes_staff changes_agency changes_member_invite changes_member_resend changes_member_accept
      changes_member_update changes_self_serve\<close>)

end
