(* ===== verification/Access_Safety.thy ===== *)
theory Access_Safety
  imports Access_Control Samples
begin

text \<open>
  The chain of middleware in front of a location's handlers against a specification that does
  not speak of requests: \<open>may_act\<close> has one rule per reason for which a person may use a
  permission at a location.
\<close>

section \<open>The specification\<close>

definition works_by_location :: "user_role \<Rightarrow> bool" where
  "works_by_location role \<longleftrightarrow> role = Restaurant_Staff \<or> role = Kitchen_Staff"

text \<open>The person belongs to the location itself, without any agency.\<close>

definition belongs :: "'z access_db_scheme \<Rightarrow> claims \<Rightarrow> oid \<Rightarrow> bool" where
  "belongs d u r \<longleftrightarrow> cl_restaurantId u = Some r \<or>
     (if works_by_location (cl_role u) then r \<in> set (cl_locationIds u)
      else truthy_string (cl_businessId u) \<and> business_of r d = cl_businessId u)"

inductive may_act :: "'z access_db_scheme \<Rightarrow> claims \<Rightarrow> oid \<Rightarrow> permission \<Rightarrow> bool" for d u r where
  by_role: "cl_role u \<noteq> Platform_Admin \<Longrightarrow> belongs d u r \<Longrightarrow> role_has_permission (cl_role u) p \<Longrightarrow> may_act d u r p"
| by_agency: "cl_role u \<noteq> Platform_Admin \<Longrightarrow> \<not> belongs d u r \<Longrightarrow> \<not> works_by_location (cl_role u) \<Longrightarrow>
    business_of r d = Some b \<Longrightarrow> b \<noteq> [] \<Longrightarrow>
    agency_grants_business_access (cl_id u) (cl_agencyMemberships u) b d = Some g \<Longrightarrow>
    agency_role_grants_permission g p \<or> role_has_permission (cl_role u) p \<Longrightarrow> may_act d u r p"
| by_platform: "cl_role u = Platform_Admin \<Longrightarrow> role_has_permission Platform_Admin p \<Longrightarrow> may_act d u r p"
| by_record: "cl_role u = Platform_Admin \<Longrightarrow> \<not> belongs d u r \<Longrightarrow>
    platform_admin_owns_business u (business_of r d) d \<Longrightarrow> role_has_permission Restaurant_Owner p \<Longrightarrow> may_act d u r p"

inductive_simps may_act_iff: "may_act d u r p"

section \<open>The middleware against the specification\<close>

lemma agency_needs_membership:
  "agency_grants_business_access uid ms b d = Some g \<Longrightarrow> ms \<noteq> []"
  by (auto simp: agency_grants_business_access_def split: option.splits)

lemma access_simps [simp]:
  "ta_allowed denied = False" "ta_agencyRole denied = None" "ta_ownerOfRecord denied = False"
  "ta_allowed allowed = True" "ta_agencyRole allowed = None" "ta_ownerOfRecord allowed = False"
  by (simp_all add: denied_def allowed_def)

text \<open>What the resolution finds, by the reason for which it lets a person in.\<close>

lemma access_belongs:
  assumes "r \<noteq> []" "belongs d u r"
  shows "ta_allowed (resolve_tenant_access u r d) \<and> ta_agencyRole (resolve_tenant_access u r d) = None \<and>
    \<not> ta_ownerOfRecord (resolve_tenant_access u r d)"
  using assms by (auto simp: resolve_tenant_access_def belongs_def works_by_location_def Let_def split: if_splits)

lemma access_stranger:
  assumes "r \<noteq> []" "\<not> belongs d u r"
  shows "resolve_tenant_access u r d =
    (if works_by_location (cl_role u) then denied
     else if platform_admin_owns_business u (business_of r d) d then allowed\<lparr>ta_ownerOfRecord := True\<rparr>
     else if truthy_string (business_of r d) \<and> cl_id u \<noteq> [] then
       (case agency_grants_business_access (cl_id u) (cl_agencyMemberships u) (the (business_of r d)) d of
          Some g \<Rightarrow> allowed\<lparr>ta_agencyRole := Some g\<rparr> | None \<Rightarrow> denied)
     else denied)"
  using assms by (auto simp: resolve_tenant_access_def belongs_def works_by_location_def Let_def denied_def
      dest: agency_needs_membership split: option.splits if_splits)

lemma location_route_pass:
  assumes "verify tok = Some u" "\<not> cl_mustChangePassword u"
  shows "location_route verify (Some (bearer_prefix @ tok)) url r ps d =
    (case require_tenant_match r d \<lparr>rq_user = Some u, rq_agencyRole = None, rq_ownerOfRecord = False\<rparr> of
       Inl e \<Rightarrow> Inl e | Inr q \<Rightarrow> require_tenant_permission ps q)"
  using assms by (simp add: location_route_def require_auth_def)

definition passes :: "request result \<Rightarrow> bool" where
  "passes q = (case q of Inl _ \<Rightarrow> False | Inr _ \<Rightarrow> True)"

lemma passes_permission [simp]:
  "rq_user q = Some u \<Longrightarrow> passes (require_tenant_permission ps q) \<longleftrightarrow> (\<forall>p \<in> set ps. request_has q u p)"
  by (simp add: passes_def require_tenant_permission_def list_all_iff)

lemma route_admin:
  assumes "r \<noteq> []" "cl_role u = Platform_Admin" "cl_id u \<noteq> []"
  defines "q \<equiv> \<lparr>rq_user = Some u, rq_agencyRole = None, rq_ownerOfRecord = False\<rparr>"
  shows "passes (case require_tenant_match r d q of Inl e \<Rightarrow> Inl e | Inr q1 \<Rightarrow> require_tenant_permission ps q1) \<longleftrightarrow>
    (\<forall>p \<in> set ps. may_act d u r p)"
proof (cases "belongs d u r")
  case True
  then have "\<not> ta_ownerOfRecord (resolve_tenant_access u r d)" using access_belongs [OF assms(1)] by blast
  then show ?thesis using True assms(2)
    by (simp add: require_tenant_match_def q_def Let_def request_has_def may_act_iff)
next
  case False
  have "ta_ownerOfRecord (resolve_tenant_access u r d) \<longleftrightarrow> platform_admin_owns_business u (business_of r d) d"
    unfolding access_stranger [OF assms(1) False] using assms(2)
    by (auto simp: works_by_location_def split: option.splits)
  then show ?thesis using False assms(2)
    by (auto simp: require_tenant_match_def q_def Let_def request_has_def may_act_iff)
qed

lemma route_member:
  assumes "r \<noteq> []" "cl_role u \<noteq> Platform_Admin" "belongs d u r"
  defines "q \<equiv> \<lparr>rq_user = Some u, rq_agencyRole = None, rq_ownerOfRecord = False\<rparr>"
  shows "passes (case require_tenant_match r d q of Inl e \<Rightarrow> Inl e | Inr q1 \<Rightarrow> require_tenant_permission ps q1) \<longleftrightarrow>
    (\<forall>p \<in> set ps. may_act d u r p)"
  using access_belongs [OF assms(1,3)] assms(2,3)
  by (simp add: require_tenant_match_def q_def Let_def request_has_def may_act_iff)

lemma route_stranger:
  assumes "r \<noteq> []" "cl_role u \<noteq> Platform_Admin" "cl_id u \<noteq> []" "\<not> belongs d u r" "ps \<noteq> []"
  defines "q \<equiv> \<lparr>rq_user = Some u, rq_agencyRole = None, rq_ownerOfRecord = False\<rparr>"
  shows "passes (case require_tenant_match r d q of Inl e \<Rightarrow> Inl e | Inr q1 \<Rightarrow> require_tenant_permission ps q1) \<longleftrightarrow>
    (\<forall>p \<in> set ps. may_act d u r p)"
proof -
  have no_owner: "\<not> platform_admin_owns_business u (business_of r d) d"
    using assms(2) by (simp add: platform_admin_owns_business_def)
  let ?g = "agency_grants_business_access (cl_id u) (cl_agencyMemberships u) (the (business_of r d)) d"
  let ?open = "\<not> works_by_location (cl_role u) \<and> truthy_string (business_of r d)"
  have spec: "may_act d u r p \<longleftrightarrow> ?open \<and> (case ?g of None \<Rightarrow> False | Some g \<Rightarrow>
      agency_role_grants_permission g p \<or> role_has_permission (cl_role u) p)" for p
    using assms(2,4) by (cases "business_of r d") (auto simp: may_act_iff split: option.splits)
  have access: "resolve_tenant_access u r d =
      (if ?open then (case ?g of Some g \<Rightarrow> allowed\<lparr>ta_agencyRole := Some g\<rparr> | None \<Rightarrow> denied) else denied)"
    using access_stranger [OF assms(1,4)] no_owner assms(3) by simp
  show ?thesis
  proof (cases "?open \<and> ?g \<noteq> None")
    case True
    then obtain g where "?g = Some g" by blast
    with True show ?thesis using assms(2)
      by (simp add: spec access require_tenant_match_def q_def Let_def request_has_def disj_commute)
  next
    case False
    then have "\<not> ta_allowed (resolve_tenant_access u r d)" by (auto simp: access split: option.splits)
    then have "\<not> passes (case require_tenant_match r d q of Inl e \<Rightarrow> Inl e | Inr q1 \<Rightarrow> require_tenant_permission ps q1)"
      using assms(2) by (simp add: require_tenant_match_def q_def Let_def passes_def)
    moreover have "\<not> (\<forall>p \<in> set ps. may_act d u r p)"
      using False assms(5) by (cases ps) (auto simp: spec split: option.splits)
    ultimately show ?thesis by blast
  qed
qed

text \<open>C11. A request with a valid token passes the checks in front of a location's handler exactly
  when each permission the handler asks for may be used there.\<close>

theorem location_route_iff:
  assumes "verify tok = Some u" "\<not> cl_mustChangePassword u" "cl_id u \<noteq> []" "r \<noteq> []" "ps \<noteq> []"
  shows "passes (location_route verify (Some (bearer_prefix @ tok)) url r ps d) \<longleftrightarrow> (\<forall>p \<in> set ps. may_act d u r p)"
  unfolding location_route_pass [of verify tok u, OF assms(1,2)]
  using route_admin [OF assms(4) _ assms(3)] route_member [OF assms(4)] route_stranger [OF assms(4) _ assms(3) _ assms(5)]
  by (cases "cl_role u = Platform_Admin"; cases "belongs d u r") simp_all

definition sample_member :: claims where
  "sample_member = \<lparr>cl_id = ''u2'', cl_role = Agency_Member, cl_restaurantId = None, cl_businessId = None,
     cl_locationIds = [], cl_agencyMemberships = [(''a1'', Role_Agency_Admin)], cl_mustChangePassword = False,
     cl_isDemoAccount = False\<rparr>"

definition sample_access :: access_db where
  "sample_access = \<lparr>ax_restaurants = [sample_restaurant],
     ax_businesses = [\<lparr>bu_id = ''b1'', bu_name = ''Roma'', bu_ownerId = ''u1'', bu_agencyId = Some ''a1'', bu_locationCount = 1\<rparr>],
     ax_memberships = []\<rparr>"

theorem location_route_iff_witness:
  "passes (location_route (\<lambda>_. Some sample_member) (Some (bearer_prefix @ ''t'')) ''/'' ''r1'' [Menu_Write] sample_access) \<and>
   \<not> passes (location_route (\<lambda>_. Some sample_member) (Some (bearer_prefix @ ''t'')) ''/'' ''r1'' [Payments_Manage] sample_access)"
proof -
  have iff: "passes (location_route (\<lambda>_. Some sample_member) (Some (bearer_prefix @ ''t'')) ''/'' ''r1'' [p] sample_access) \<longleftrightarrow>
      may_act sample_access sample_member ''r1'' p" for p
    by (subst location_route_iff [of _ _ sample_member]) (simp_all add: sample_member_def)
  have "may_act sample_access sample_member ''r1'' p \<longleftrightarrow> agency_role_grants_permission Role_Agency_Admin p" for p
    by (auto simp: may_act_iff belongs_def works_by_location_def business_of_def agency_grants_business_access_def
        role_has_permission_def sample_member_def sample_access_def sample_restaurant_def)
  then show ?thesis unfolding iff by (simp add: agency_role_grants_permission_def)
qed

text \<open>The credentials of a restaurant's payment provider (\<open>restaurant.payments.manage\<close>) are
  out of reach of agencies and of platform administrators who do not own the business: who
  passes is the owner or a manager of the location, or the administrator on record.\<close>

theorem payments_need_owner:
  assumes "verify tok = Some u" "\<not> cl_mustChangePassword u" "cl_id u \<noteq> []" "r \<noteq> []"
    and "Payments_Manage \<in> set ps"
    and "passes (location_route verify (Some (bearer_prefix @ tok)) url r ps d)"
  shows "(cl_role u = Restaurant_Owner \<or> cl_role u = Restaurant_Manager) \<and>
      (cl_restaurantId u = Some r \<or> truthy_string (cl_businessId u) \<and> business_of r d = cl_businessId u \<or>
       (\<exists>b g. business_of r d = Some b \<and> agency_grants_business_access (cl_id u) (cl_agencyMemberships u) b d = Some g)) \<or>
    cl_role u = Platform_Admin \<and> platform_admin_owns_business u (business_of r d) d"
proof -
  have "ps \<noteq> []" using assms(5) by auto
  then have "may_act d u r Payments_Manage" using location_route_iff [of verify tok u, OF assms(1-4)] assms(5,6) by blast
  moreover have "\<not> agency_role_grants_permission g Payments_Manage" for g
    by (cases g) (simp_all add: agency_role_grants_permission_def)
  moreover have "role_has_permission role Payments_Manage \<longleftrightarrow> role = Restaurant_Owner \<or> role = Restaurant_Manager" for role
    by (cases role) (simp_all add: role_has_permission_def)
  ultimately show ?thesis
    by (auto simp: may_act_iff belongs_def works_by_location_def)
qed

theorem payments_need_owner_witness:
  "let u = sample_member\<lparr>cl_role := Restaurant_Manager, cl_restaurantId := Some ''r1''\<rparr> in
   passes (location_route (\<lambda>_. Some u) (Some (bearer_prefix @ ''t'')) ''/'' ''r1'' [Payments_Manage] sample_access) \<and>
   ((cl_role u = Restaurant_Owner \<or> cl_role u = Restaurant_Manager) \<and>
      (cl_restaurantId u = Some ''r1'' \<or> truthy_string (cl_businessId u) \<and> business_of ''r1'' sample_access = cl_businessId u \<or>
       (\<exists>b g. business_of ''r1'' sample_access = Some b \<and>
          agency_grants_business_access (cl_id u) (cl_agencyMemberships u) b sample_access = Some g)) \<or>
    cl_role u = Platform_Admin \<and> platform_admin_owns_business u (business_of ''r1'' sample_access) sample_access)"
proof -
  define u where "u = sample_member\<lparr>cl_role := Restaurant_Manager, cl_restaurantId := Some ''r1''\<rparr>"
  have "passes (location_route (\<lambda>_. Some u) (Some (bearer_prefix @ ''t'')) ''/'' ''r1'' [Payments_Manage] sample_access)"
    unfolding u_def by code_simp
  with payments_need_owner [of "\<lambda>_. Some u" "''t''" u "''r1''" "[Payments_Manage]" "''/''" sample_access]
  show ?thesis unfolding Let_def u_def [symmetric] by (simp add: u_def sample_member_def)
qed

end
