(* ===== verification/Auth_Safety.thy ===== *)
theory Auth_Safety
  imports Auth_Changes Access_Safety
begin

text \<open>
  What holds of accounts, sessions, staff and agencies after any run of the handlers: addresses
  stay unique, a revoked session does not come back, staff do not leave their business, nobody
  gains a role but in the ways the code means, an agency keeps an active owner.
\<close>

section \<open>Accounts stay well formed\<close>

lemma put_user_users: "ad_users (put_user a d) = update_one (\<lambda>x. ac_id x = ac_id a) (\<lambda>_. a) (ad_users d)"
  by (simp add: put_user_def)

lemma put_user_restaurants [simp]:
  "ax_restaurants (put_user a d) = ax_restaurants d" "ax_businesses (put_user a d) = ax_businesses d"
  "ad_sessions (put_user a d) = ad_sessions d"
  by (simp_all add: put_user_def)

lemma put_user_mem: "x \<in> set (ad_users (put_user a d)) \<Longrightarrow> x = a \<or> x \<in> set (ad_users d)"
  using set_update_one_subset [of "\<lambda>x. ac_id x = ac_id a" "\<lambda>_. a" "ad_users d"] by (auto simp: put_user_users)

lemma account_change_keeps:
  assumes "account_change d a a'" "wf_accounts d" "find_user (ac_id a) d = Some a"
  shows "ac_id a' = ac_id a" "email_free d a'"
proof -
  have "ac_id a' = ac_id a \<and> email_free d a'"
    using assms(1)
  proof cases
    case personal
    then show ?thesis by simp
  next
    case (staff r u)
    then have "ac_id a' = ac_id a" "ac_email a' = ac_email a" by (simp_all add: apply_staff_update_def)
    then show ?thesis using email_free_same [OF assms(2,3)] by blast
  next
    case member
    then have "ac_id a' = ac_id a" "ac_email a' = ac_email a" by simp_all
    then show ?thesis using email_free_same [OF assms(2,3)] by blast
  qed
  then show "ac_id a' = ac_id a" "email_free d a'" by auto
qed

lemma email_free_of:
  assumes "email_free d a" "X \<subseteq> set (ad_users d)" "ac_id a \<notin> ac_id ` X"
  shows "ac_email a \<notin> ac_email ` X"
proof
  assume "ac_email a \<in> ac_email ` X"
  then show False
  proof (rule imageE)
    fix x assume "ac_email a = ac_email x" "x \<in> X"
    moreover from this assms(3) have "ac_id x \<noteq> ac_id a" by (metis imageI)
    ultimately show False using assms(1,2) by (auto simp: email_free_def)
  qed
qed

lemma distinct_replace:
  "distinct (map g (us @ a # vs)) \<Longrightarrow> g a' \<notin> g ` (set us \<union> set vs) \<Longrightarrow> distinct (map g (us @ a' # vs))"
  by auto

lemma wf_put_user:
  assumes "wf_accounts d" "find_user (ac_id a) d = Some a" "ac_id a' = ac_id a" "email_free d a'"
  shows "wf_accounts (put_user a' d)"
proof -
  obtain us vs where users: "ad_users d = us @ a # vs"
      "update_one (\<lambda>x. ac_id x = ac_id a) (\<lambda>_. a') (ad_users d) = us @ a' # vs"
    using update_one_split [OF assms(2) [unfolded find_user_def], of "\<lambda>_. a'"] by blast
  then have new: "ad_users (put_user a' d) = us @ a' # vs" using assms(3) by (simp add: put_user_users)
  have old: "distinct (map ac_id (us @ a # vs))" "distinct (map ac_email (us @ a # vs))"
    using assms(1) users(1) by (simp_all only: wf_accounts_def)
  then have ids: "ac_id a' \<notin> ac_id ` (set us \<union> set vs)" using assms(3) by auto
  moreover have "ac_email a' \<notin> ac_email ` (set us \<union> set vs)"
    using email_free_of [OF assms(4) _ ids] users(1) by auto
  ultimately have "distinct (map ac_id (us @ a' # vs))" "distinct (map ac_email (us @ a' # vs))"
    using distinct_replace [OF old(1)] distinct_replace [OF old(2)] by blast+
  then show ?thesis using assms(1) new by (simp add: wf_accounts_def put_user_restaurants)
qed

lemma put_user_cong: "ad_users d' = ad_users d \<Longrightarrow> ad_users (put_user a d') = ad_users (put_user a d)"
  by (simp add: put_user_def)

lemma wf_change:
  assumes "change env d d'" "wf_accounts d"
  shows "wf_accounts d'"
  using assms(1)
proof cases
  case (new_user a)
  then have "ac_id a \<notin> ac_id ` set (ad_users d)" "email_free d a" unfolding newcomer_def by blast+
  then have "ac_email a \<notin> ac_email ` set (ad_users d)" using email_free_of by blast
  with new_user \<open>ac_id a \<notin> _\<close> show ?thesis using assms(2) by (simp add: wf_accounts_def)
next
  case (put_user a a')
  then show ?thesis using wf_put_user [OF assms(2)] account_change_keeps [OF _ assms(2)] by simp
next
  case (new_owner a a' r b bs rs)
  then have "wf_accounts (put_user a' d)"
    using wf_put_user [OF assms(2)] email_free_same [OF assms(2)] by simp
  then show ?thesis using new_owner(1,8) by (simp add: put_user_def wf_accounts_def)
next
  case (new_membership m)
  then show ?thesis using assms(2) by (auto simp: wf_accounts_def membership_clash_def image_iff)
next
  case (edit_membership mid m f)
  then obtain us vs where ms: "ax_memberships d = us @ m # vs"
      "update_one (\<lambda>x. am_id x = mid) f (ax_memberships d) = us @ f m # vs"
    using update_one_split [OF edit_membership(2), of f] by blast
  then show ?thesis using edit_membership assms(2) by (auto simp: wf_accounts_def keeps_owners_def)
qed (use assms(2) in \<open>simp_all add: wf_accounts_def\<close>)

lemma wf_reach: "reach env d d' \<Longrightarrow> wf_accounts d \<Longrightarrow> wf_accounts d'"
  by (induction rule: reach_induct) (auto intro: wf_change)

lemma wf_run: "auth_run J d d' \<Longrightarrow> wf_accounts d \<Longrightarrow> wf_accounts d'"
  by (induction rule: auth_run.induct) (auto dest: step_changes wf_reach)

text \<open>The interface between the changes and the runs: what every change keeps, every run keeps.\<close>

locale account_invariant =
  fixes J :: "string set" and P :: "auth_db \<Rightarrow> bool"
  assumes kept: "wf_accounts d \<Longrightarrow> ae_jti env \<notin> J \<Longrightarrow> P d \<Longrightarrow> change env d d' \<Longrightarrow> P d'"
begin

lemma reach_kept:
  assumes "reach env d d'" "wf_accounts d" "ae_jti env \<notin> J" "P d"
  shows "P d'"
proof -
  have "wf_accounts d' \<and> P d'"
    using assms(1)
  proof (induction rule: reach_induct)
    case (change d1 d2)
    then show ?case using wf_change kept assms(3) by blast
  qed (use assms(2,4) in blast)
  then show ?thesis ..
qed

lemma run_kept:
  assumes "auth_run J d d'" "wf_accounts d" "P d"
  shows "P d'"
  using assms(1)
proof (induction rule: auth_run.induct)
  case (run_step d1 env d2)
  have "wf_accounts d1" using wf_run [OF run_step.hyps(1) assms(2)] .
  with step_changes [OF run_step.hyps(4) _ run_step.hyps(2)] show ?case
    using reach_kept run_step.hyps(3) run_step.IH by blast
qed (rule assms(3))

end

section \<open>Sessions\<close>

definition session_keys :: "auth_db \<Rightarrow> session_key set" where
  "session_keys d = fst ` set (ad_sessions d)"

lemma keys_change:
  assumes "change env d d'"
  shows "session_keys d' \<subseteq> session_keys d \<union> {k. snd k = ae_jti env}"
  using assms by cases (auto simp: session_keys_def)

interpretation gone: account_invariant J "\<lambda>d. {k \<in> session_keys d. snd k \<in> J} \<subseteq> K" for J K
proof
  fix env d d'
  assume "ae_jti env \<notin> J" "{k \<in> session_keys d. snd k \<in> J} \<subseteq> K" "change env d d'"
  with keys_change [OF this(3)] show "{k \<in> session_keys d'. snd k \<in> J} \<subseteq> K" by auto
qed

lemma run_keys_gone:
  "auth_run J d d' \<Longrightarrow> wf_accounts d \<Longrightarrow> k \<notin> session_keys d \<Longrightarrow> snd k \<in> J \<Longrightarrow> k \<notin> session_keys d'"
  using gone.run_kept [of J d d' "- {k}"] by auto

lemma live_key: "session_live now k d \<Longrightarrow> k \<in> session_keys d"
  by (auto simp: session_live_def session_keys_def list_ex_iff)

lemma keys_revoked [simp]:
  "session_keys (revoke_all_refresh_tokens uid d) = {k \<in> session_keys d. fst k \<noteq> uid}"
  "session_keys (revoke_refresh_token k d) = session_keys d - {k}"
  by (auto simp: session_keys_def revoke_all_refresh_tokens_def revoke_refresh_token_def)

lemma keys_redis [simp]: "session_keys (redis_set k t d) = insert k (session_keys d)"
  by (auto simp: session_keys_def redis_set_def image_iff)

text \<open>A token whose key is gone is refused, and takes every session of its account with it.\<close>

lemma refused:
  assumes "k \<notin> session_keys d" "token \<noteq> []" "ae_verifyRefresh env token = Some k"
  shows "refresh env (Some token) d = (Inl (Unauthorized ''revoked''), revoke_all_refresh_tokens (fst k) d)"
proof -
  have "\<not> session_live (ae_now env) k d" using assms(1) live_key by blast
  with assms(2,3) show ?thesis by (simp add: refresh_def refresh_during_def refresh_check_def)
qed

inductive ends_sessions :: "auth_env \<Rightarrow> oid \<Rightarrow> auth_db \<Rightarrow> auth_db \<Rightarrow> bool" for env uid d d' where
  by_reset: "reset_password env token password d = (Inr (), d') \<Longrightarrow>
    find_one (\<lambda>a. ac_resetTokenHash a = Some (ae_hashToken env token) \<and>
      valid_until (ac_resetExpiresAt a) (ae_now env)) (ad_users d) = Some a \<Longrightarrow> ac_id a = uid \<Longrightarrow> ends_sessions env uid d d'"
| by_change: "change_password env uid current new d = (Inr s, d') \<Longrightarrow> ends_sessions env uid d d'"
| by_deletion: "delete_me env uid current d = (Inr (), d') \<Longrightarrow> ends_sessions env uid d d'"

lemma ends_sessions_step: "ends_sessions env uid d d' \<Longrightarrow> auth_step env d d'"
  by (erule ends_sessions.cases) (metis snd_conv auth_step.intros)+

lemma ends_sessions_keys:
  assumes "ends_sessions env uid d d'" "ae_jti env \<noteq> j"
  shows "(uid, j) \<notin> session_keys d'"
  using assms(1)
proof cases
  case (by_reset token password a)
  then show ?thesis by (auto simp: reset_password_def)
next
  case (by_change current new s)
  then show ?thesis using assms(2)
    by (auto simp: change_password_def Let_def start_session_def issue_session_def split: option.splits if_splits dest: find_user_id)
next
  case (by_deletion current)
  then show ?thesis
    by (auto simp: delete_me_def Let_def split: option.splits if_splits prod.splits sum.splits dest: find_user_id)
qed

lemma ends_sessions_wf:
  assumes "ends_sessions env uid d d'" "wf_accounts d"
  shows "wf_accounts d'"
proof -
  have "reach env d d'"
    using assms(1) by (cases rule: ends_sessions.cases)
      (metis changes_own(3) changes_own(7) changes_delete assms(2) snd_conv)+
  then show ?thesis using wf_reach assms(2) by blast
qed

section \<open>Staff stay where they are\<close>

definition in_business :: "'z access_db_scheme \<Rightarrow> restaurant \<Rightarrow> oid \<Rightarrow> bool" where
  "in_business d x l \<longleftrightarrow> l = res_id x \<or> res_businessId x \<noteq> None \<and> business_of l d = res_businessId x"

text \<open>Staff belong to a location that exists, and the locations they can act on are of its business.\<close>

definition staff_placed :: "auth_db \<Rightarrow> account \<Rightarrow> bool" where
  "staff_placed d a \<longleftrightarrow> ac_role a \<in> set staff_roles \<longrightarrow> ac_legalAcceptedAt a = None \<and>
     (case ac_restaurantId a of None \<Rightarrow> False | Some r \<Rightarrow> (case location_by_id r d of None \<Rightarrow> False
      | Some x \<Rightarrow> list_all (in_business d x) (ac_locationIds a)))"

lemma location_append:
  "location_by_id r d = Some x \<Longrightarrow> ax_restaurants d' = ax_restaurants d @ rs \<Longrightarrow> location_by_id r d' = Some x"
  by (simp add: location_by_id_def find_one_append)

lemma business_append:
  "business_of l d = Some b \<Longrightarrow> ax_restaurants d' = ax_restaurants d @ rs \<Longrightarrow> business_of l d' = Some b"
  by (auto simp: business_of_def find_one_append split: option.splits)

lemma placed_append:
  assumes "staff_placed d a" "ax_restaurants d' = ax_restaurants d @ rs"
  shows "staff_placed d' a"
proof -
  have "in_business d x l \<Longrightarrow> in_business d' x l" for x l
    using business_append [OF _ assms(2)] by (auto simp: in_business_def)
  then show ?thesis using assms(1) location_append [OF _ assms(2)]
    by (fastforce simp: staff_placed_def list_all_iff split: option.splits)
qed

lemma counted_locations:
  assumes "distinct (map res_id (ax_restaurants d))" "count_locations ids b d = length ids" "l \<in> set ids"
  shows "business_of l d = Some b"
proof -
  define found where "found = filter (\<lambda>x. res_id x \<in> set ids \<and> res_businessId x = Some b) (ax_restaurants d)"
  have "distinct (map res_id found)" unfolding found_def using assms(1) by (rule distinct_map_filter)
  then have "card (set (map res_id found)) = length found" by (metis distinct_card length_map)
  also have "\<dots> = length ids" using assms(2) by (simp add: count_locations_def found_def)
  finally have "card (set ids) \<le> card (set (map res_id found))" by (simp add: card_length)
  moreover have "set (map res_id found) \<subseteq> set ids" by (auto simp: found_def)
  ultimately have "set (map res_id found) = set ids" by (intro card_seteq) auto
  then have "l \<in> set (map res_id found)" using assms(3) by simp
  then obtain x where "x \<in> set found" "res_id x = l" by auto
  then show ?thesis using find_id_mem [OF assms(1), of x] by (auto simp: business_of_def found_def)
qed

lemma checked_locations:
  assumes "check_locations r ids d = Inr ()" "distinct (map res_id (ax_restaurants d))"
  obtains x where "location_by_id r d = Some x" "list_all (in_business d x) ids"
proof (cases "location_by_id r d")
  case None
  then show ?thesis using assms(1) by (simp add: check_locations_def)
next
  case (Some x)
  then have x: "res_id x = r" by (auto simp: location_by_id_def dest: find_one_SomeD)
  show ?thesis
  proof (cases "res_businessId x")
    case None
    then show ?thesis using that Some assms(1) x
      by (auto simp: check_locations_def in_business_def split: if_splits)
  next
    case (Some b)
    then have "count_locations ids b d = length ids"
      using assms(1) \<open>location_by_id r d = Some x\<close> by (auto simp: check_locations_def split: if_splits)
    from counted_locations [OF assms(2) this] show ?thesis
      using that \<open>location_by_id r d = Some x\<close> Some by (auto simp: in_business_def list_all_iff)
  qed
qed

lemma placed_account_change:
  assumes "account_change d a a'" "wf_accounts d" "staff_placed d a"
  shows "staff_placed d a'"
  using assms(1)
proof cases
  case personal
  then show ?thesis using assms(3) by (simp add: staff_placed_def cong: option.case_cong)
next
  case (staff r u)
  show ?thesis
  proof (cases "us_locationIds u")
    case None
    then show ?thesis using assms(3) staff by (simp add: staff_placed_def apply_staff_update_def cong: option.case_cong)
  next
    case (Some ids)
    have "distinct (map res_id (ax_restaurants d))" using assms(2) by (simp add: wf_accounts_def)
    from checked_locations [OF staff(5) [OF Some] this] obtain x
      where "location_by_id r d = Some x" "list_all (in_business d x) ids" .
    then show ?thesis using assms(3) staff Some by (simp add: staff_placed_def apply_staff_update_def cong: option.case_cong)
  qed
next
  case member
  then show ?thesis by (simp add: staff_placed_def staff_roles_def)
qed

lemma placed_same:
  "ax_restaurants d' = ax_restaurants d \<Longrightarrow> staff_placed d' a = staff_placed d a"
  by (simp add: staff_placed_def location_by_id_def in_business_def [abs_def] business_of_def cong: option.case_cong)

lemma placed_change:
  assumes "change env d d'" "wf_accounts d" "\<forall>a \<in> set (ad_users d). staff_placed d a"
  shows "\<forall>a \<in> set (ad_users d'). staff_placed d' a"
  using assms(1)
proof cases
  case (new_user a)
  have "staff_placed d a"
    using new_user(2) unfolding newcomer_def staff_placed_def
    by (auto simp: staff_roles_def in_business_def)
  then show ?thesis using new_user(1) assms(3) placed_same [of d' d] by auto
next
  case (put_user a a')
  then have "a \<in> set (ad_users d)" by (auto simp: find_user_def dest: find_one_SomeD)
  with placed_account_change [OF put_user(3) assms(2)] assms(3) have "staff_placed d a'" by blast
  then show ?thesis using put_user(1) assms(3) placed_same [of d' d] put_user_mem by fastforce
next
  case (new_owner a a' r b bs rs)
  then have a: "a \<in> set (ad_users d)" by (auto simp: find_user_def dest: find_one_SomeD)
  have "ac_role a \<notin> set staff_roles" using a assms(3) new_owner(4) by (auto simp: staff_placed_def)
  then have "staff_placed d' a'" using new_owner(5) by (simp add: staff_placed_def staff_roles_def)
  moreover have "ax_restaurants d' = ax_restaurants d @ [r]" using new_owner(1) by simp
  moreover have "\<forall>x \<in> set (ad_users d'). x = a' \<or> x \<in> set (ad_users d)"
    using put_user_mem [of _ a' d] new_owner(1) by (simp add: put_user_def)
  ultimately show ?thesis using placed_append assms(3) by metis
qed (use assms(3) placed_same [of d' d] in simp_all)

interpretation placed: account_invariant J "\<lambda>d. \<forall>a \<in> set (ad_users d). staff_placed d a" for J
  by unfold_locales (rule placed_change)

text \<open>What a session of such an account opens.\<close>

lemma placed_access:
  assumes "staff_placed d a" "works_by_location (ac_role a)" "can_access_restaurant (claims_of a ms) l d"
  obtains r x where "ac_restaurantId a = Some r" "location_by_id r d = Some x" "in_business d x l"
proof -
  have "ac_role a \<in> set staff_roles" using assms(2) by (auto simp: works_by_location_def staff_roles_def)
  then obtain r x where x: "ac_restaurantId a = Some r" "location_by_id r d = Some x"
      "list_all (in_business d x) (ac_locationIds a)"
    using assms(1) by (auto simp: staff_placed_def split: option.splits)
  moreover have "l = r \<or> l \<in> set (ac_locationIds a)"
    using assms(2,3) x(1) by (auto simp: can_access_restaurant_def resolve_tenant_access_def claims_of_def
        works_by_location_def split: if_splits)
  moreover have "res_id x = r" using x(2) by (auto simp: location_by_id_def dest: find_one_SomeD)
  ultimately show ?thesis using that by (auto simp: in_business_def list_all_iff)
qed

section \<open>Roles are not gained\<close>

definition had_role :: "auth_db \<Rightarrow> account \<Rightarrow> bool" where
  "had_role d a \<longleftrightarrow> list_ex (\<lambda>x. ac_id x = ac_id a \<and> ac_role x = ac_role a) (ad_users d)"

text \<open>An owner who signed up alone: a verified address, the terms accepted, a business of its own.\<close>

definition self_made :: "auth_db \<Rightarrow> account \<Rightarrow> bool" where
  "self_made d a \<longleftrightarrow> ac_emailVerifiedAt a \<noteq> None \<and> ac_legalAcceptedAt a \<noteq> None \<and>
     list_ex (\<lambda>b. bu_ownerId b = ac_id a \<and> ac_businessId a = Some (bu_id b)) (ax_businesses d)"

definition earned :: "auth_db \<Rightarrow> auth_db \<Rightarrow> account \<Rightarrow> bool" where
  "earned d0 d a \<longleftrightarrow> (ac_role a = Platform_Admin \<longrightarrow> had_role d0 a) \<and>
     (ac_role a = Restaurant_Owner \<longrightarrow> had_role d0 a \<or> self_made d a)"

lemma self_made_append: "self_made d a \<Longrightarrow> set (ax_businesses d) \<subseteq> set (ax_businesses d') \<Longrightarrow> self_made d' a"
  by (auto simp: self_made_def list_ex_iff)

lemma earned_append: "earned d0 d a \<Longrightarrow> set (ax_businesses d) \<subseteq> set (ax_businesses d') \<Longrightarrow> earned d0 d' a"
  using self_made_append by (auto simp: earned_def)

lemma earned_account_change:
  assumes "account_change d a a'" "earned d0 d a"
  shows "earned d0 d a'"
  using assms(1)
proof cases
  case personal
  then show ?thesis using assms(2) by (auto simp: earned_def had_role_def self_made_def)
next
  case (staff r u)
  then have "ac_role a' \<in> set staff_roles"
    by (cases "us_role u") (auto simp: apply_staff_update_def update_staff_schema_def)
  then show ?thesis by (auto simp: earned_def staff_roles_def)
next
  case member
  then show ?thesis by (simp add: earned_def)
qed

lemma earned_change:
  assumes "change env d d'" "wf_accounts d" "\<forall>a \<in> set (ad_users d). earned d0 d a"
  shows "\<forall>a \<in> set (ad_users d'). earned d0 d' a"
  using assms(1)
proof cases
  case (new_user a)
  then have "earned d0 d a" unfolding newcomer_def earned_def by (auto simp: staff_roles_def)
  then show ?thesis using new_user(1) assms(3) earned_append [of d0 d _ d'] by auto
next
  case (put_user a a')
  then have "a \<in> set (ad_users d)" by (auto simp: find_user_def dest: find_one_SomeD)
  with earned_account_change [OF put_user(3)] assms(3) have "earned d0 d a'" by blast
  then show ?thesis using put_user(1) assms(3) earned_append [of d0 d _ d'] put_user_mem by fastforce
next
  case (new_owner a a' r b bs rs)
  then have a: "a \<in> set (ad_users d)" by (auto simp: find_user_def dest: find_one_SomeD)
  have "set (ax_businesses d') = insert b (set (ax_businesses d))" using new_owner(1) by simp
  then have "earned d0 d' a'" using a assms(3) new_owner(3-7)
    by (auto simp: earned_def self_made_def had_role_def list_ex_iff)
  moreover have "\<forall>x \<in> set (ad_users d'). x = a' \<or> x \<in> set (ad_users d)"
    using put_user_mem [of _ a' d] new_owner(1) by (simp add: put_user_def)
  moreover have "earned d0 d' x" if "x \<in> set (ad_users d)" for x
    using earned_append [of d0 d x d'] assms(3) that \<open>set (ax_businesses d') = _\<close> by blast
  ultimately show ?thesis by fastforce
qed (use assms(3) earned_append [of d0 d _ d'] in simp_all)

interpretation earned: account_invariant J "\<lambda>d. \<forall>a \<in> set (ad_users d). earned d0 d a" for J d0
  by unfold_locales (rule earned_change)

lemma earned_run:
  assumes "auth_run J d0 d" "wf_accounts d0"
  shows "\<forall>a \<in> set (ad_users d). earned d0 d a"
  by (rule earned.run_kept [OF assms]) (auto simp: earned_def had_role_def list_ex_iff)

section \<open>An agency keeps an owner\<close>

lemma active_owners_same: "ax_memberships d' = ax_memberships d \<Longrightarrow> active_owners ag d' = active_owners ag d"
  by (simp add: active_owners_def)

lemma owners_change:
  assumes "change env d d'" "active_owners ag d \<noteq> []"
  shows "active_owners ag d' \<noteq> []"
  using assms(1)
proof cases
  case (edit_membership mid m f)
  then obtain us vs where ms: "ax_memberships d = us @ m # vs" "ax_memberships d' = us @ f m # vs"
    using update_one_split [OF edit_membership(2), of f] by auto
  define P where "P = (\<lambda>m :: membership. am_agencyId m = ag \<and> am_role m = Role_Agency_Owner \<and> am_status m = M_Active)"
  have before: "active_owners ag d = filter P us @ (if P m then [m] else []) @ filter P vs"
    and after: "active_owners ag d' = filter P us @ (if P (f m) then [f m] else []) @ filter P vs"
    by (simp_all add: active_owners_def P_def ms)
  show ?thesis
  proof (cases "P m \<and> \<not> P (f m)")
    case True
    then have "am_agencyId m = ag" "\<not> (am_role (f m) = Role_Agency_Owner \<and> am_status (f m) = M_Active)"
      using edit_membership(3) by (auto simp: P_def keeps_owners_def)
    then have "1 < length (active_owners ag d)"
      using edit_membership(3) True by (auto simp: P_def keeps_owners_def)
    then show ?thesis using before after True by auto
  next
    case False
    then show ?thesis using before after assms(2) by (auto split: if_splits)
  qed
qed (use assms(2) in \<open>simp_all add: active_owners_def\<close>)

interpretation owners: account_invariant J "\<lambda>d. active_owners ag d \<noteq> []" for J ag
  by unfold_locales (rule owners_change)

end
