(* ===== verification/Auth_Behaviour.thy ===== *)
theory Auth_Behaviour
  imports Auth_Safety
begin

text \<open>
  The properties of accounts, sessions, staff and agencies, each applied to sample accounts, and
  what the model shows of the handlers' gaps: a refresh token that two requests use at once, an
  invitation that outlives its revocation, roles read from an old token.
\<close>

section \<open>Samples\<close>

definition sample_auth_env :: "string \<Rightarrow> auth_env" where
  "sample_auth_env n = \<lparr>ae_now = 1000, ae_newId = ''i'' @ n, ae_newId2 = ''k'' @ n, ae_jti = ''j'' @ n, ae_raw = ''t'' @ n,
     ae_random = ''x'' @ n, ae_hash = (\<lambda>p. p), ae_compare = (=), ae_hashToken = (\<lambda>t. t), ae_signRefresh = (\<lambda>_ j. j),
     ae_verifyRefresh = (\<lambda>t. Some (''u1'', t)), ae_refreshTtl = 60, ae_mailOk = True\<rparr>"

definition sample_user :: account where
  "sample_user = (user_document ''u1'' ''Ann'' ''ann@x.org'' ''old'' Customer)
     \<lparr>ac_emailVerifiedAt := Some 1, ac_legalAcceptedAt := Some 1\<rparr>"

definition sample_auth_db :: auth_db where
  "sample_auth_db = \<lparr>ax_restaurants = [sample_restaurant], ax_businesses = [], ax_memberships = [],
     ad_users = [sample_user], ad_sessions = [((''u1'', ''j0''), 5000)], ad_agencies = [], ad_agencySlugs = [],
     ad_businessSlugs = [], ad_restaurantSlugs = [''roma''], ad_mails = [], ad_audit = []\<rparr>"

lemmas auth_sample_defs = sample_auth_env_def sample_user_def sample_auth_db_def sample_defs

lemma sample_wf: "wf_accounts sample_auth_db"
  by (simp add: wf_accounts_def auth_sample_defs)

lemma run_one: "fresh_ids env d \<Longrightarrow> ae_jti env \<notin> J \<Longrightarrow> auth_step env d d' \<Longrightarrow> auth_run J d d'"
  by (blast intro: auth_run.intros)

lemma sample_fresh: "fresh_ids (sample_auth_env n) sample_auth_db"
  by (simp add: fresh_ids_def auth_sample_defs user_document_def)

section \<open>Sessions\<close>

lemma ends_by_change:
  assumes "\<not> isl (fst (change_password env uid current new d))"
  shows "ends_sessions env uid d (snd (change_password env uid current new d))"
proof -
  obtain s where "change_password env uid current new d = (Inr s, snd (change_password env uid current new d))"
    using assms by (cases "change_password env uid current new d"; cases "fst (change_password env uid current new d)") auto
  then show ?thesis by (rule ends_sessions.by_change)
qed

lemma env_jti [simp]: "ae_jti (sample_auth_env n) = ''j'' @ n" "ae_verifyRefresh (sample_auth_env n) t = Some (''u1'', t)"
  by (simp_all add: sample_auth_env_def)

text \<open>C21. A password reset, a change of password and the deletion of an account end every session the
  account had: a refresh token issued before is refused in whatever happens later, as long as its
  random id is not drawn again.\<close>

theorem sessions_end:
  assumes "wf_accounts d" "ends_sessions env uid d d1" "ae_jti env \<noteq> j" "auth_run {j} d1 d2"
    and "token \<noteq> []" "ae_verifyRefresh env' token = Some (uid, j)"
  shows "fst (refresh env' (Some token) d2) = Inl (Unauthorized ''revoked'')"
proof -
  have "(uid, j) \<notin> session_keys d2"
    using run_keys_gone [OF assms(4) ends_sessions_wf [OF assms(2,1)] ends_sessions_keys [OF assms(2,3)]] by simp
  from refused [of _ _ token env', OF this assms(5,6)] show ?thesis by simp
qed

theorem sessions_end_witness:
  "let d1 = snd (change_password (sample_auth_env ''1'') ''u1'' ''old'' ''new'' sample_auth_db);
       d2 = snd (login (sample_auth_env ''2'') ''ann@x.org'' ''new'' d1) in
   fst (refresh (sample_auth_env ''3'') (Some ''j0'') d2) = Inl (Unauthorized ''revoked'')"
proof -
  let ?d1 = "snd (change_password (sample_auth_env ''1'') ''u1'' ''old'' ''new'' sample_auth_db)"
  have "ends_sessions (sample_auth_env ''1'') ''u1'' sample_auth_db ?d1"
    by (rule ends_by_change) code_simp
  note ended = this
  have "auth_run {''j0''} ?d1 (snd (login (sample_auth_env ''2'') ''ann@x.org'' ''new'' ?d1))"
    by (rule run_one [where env = "sample_auth_env ''2''"]) (code_simp, code_simp, rule auth_step.intros)
  from sessions_end [OF sample_wf ended _ this, of "''j0''" "sample_auth_env ''3''"] show ?thesis
    unfolding Let_def by simp
qed

text \<open>C22. A refresh token works once. Presented again, whatever ran in between, it is refused and
  every session of its account ends.\<close>

theorem refresh_once:
  assumes "wf_accounts d" "refresh env (Some token) d = (Inr s, d1)"
    and "ae_verifyRefresh env token = Some (uid, j)" "ae_verifyRefresh env' token = Some (uid, j)"
    and "ae_jti env \<noteq> j" "auth_run {j} d1 d2"
  shows "\<exists>d3. refresh env' (Some token) d2 = (Inl (Unauthorized ''revoked''), d3) \<and>
    list_all (\<lambda>x. fst (fst x) \<noteq> uid) (ad_sessions d3)"
proof -
  have token: "token \<noteq> []"
    using assms(2) by (auto simp: refresh_def refresh_during_def refresh_check_def)
  have exchange: "refresh_exchange env (uid, j) d = (Inr s, d1)"
    using assms(2,3) token by (auto simp: refresh_def refresh_during_def refresh_check_def split: if_splits)
  then have "wf_accounts d1"
    using wf_reach [OF changes_sessions(3) assms(1), of env "(uid, j)"] by simp
  moreover have "(uid, j) \<notin> session_keys d1"
    using exchange assms(5)
    by (auto simp: refresh_exchange_def start_session_def issue_session_def Let_def split: option.splits if_splits)
  ultimately have "(uid, j) \<notin> session_keys d2" using run_keys_gone [OF assms(6)] by simp
  from refused [of _ _ token env', OF this token assms(4)] show ?thesis
    by (simp add: revoke_all_refresh_tokens_def list_all_iff)
qed

theorem refresh_once_witness:
  "let d1 = snd (refresh (sample_auth_env ''1'') (Some ''j0'') sample_auth_db) in
   \<exists>d3. refresh (sample_auth_env ''2'') (Some ''j0'') d1 = (Inl (Unauthorized ''revoked''), d3) \<and>
     list_all (\<lambda>x. fst (fst x) \<noteq> ''u1'') (ad_sessions d3)"
proof -
  let ?r = "refresh (sample_auth_env ''1'') (Some ''j0'') sample_auth_db"
  have "\<not> isl (fst ?r)" by code_simp
  then obtain s where "?r = (Inr s, snd ?r)" by (cases ?r; cases "fst ?r") auto
  from refresh_once [OF sample_wf this, of "''u1''" "''j0''" "sample_auth_env ''2''"] show ?thesis
    unfolding Let_def by (simp add: auth_run.run_refl)
qed

text \<open>The two halves of a refresh are not one operation: two requests that both see the token
  before either revokes it both get a session, and the reuse is not noticed.\<close>

lemma refresh_twice:
  "let other = refresh (sample_auth_env ''2'') (Some ''j0'');
       both = refresh_during (\<lambda>d. snd (other d)) (sample_auth_env ''1'') (Some ''j0'') sample_auth_db in
   \<not> isl (fst (other sample_auth_db)) \<and> \<not> isl (fst both) \<and>
   map fst (ad_sessions (snd both)) = [(''u1'', ''j1''), (''u1'', ''j2'')]"
  by code_simp

section \<open>Staff\<close>

text \<open>C12. The accounts of a restaurant's staff never open a location outside the business of that
  restaurant, after any run of invitations, updates and whatever else people do with their accounts.\<close>

theorem staff_stay_in_business:
  assumes "wf_accounts d" "list_all (staff_placed d) (ad_users d)" "auth_run J d d'"
    and "a \<in> set (ad_users d')" "works_by_location (ac_role a)" "can_access_restaurant (claims_of a ms) l d'"
  shows "\<exists>r x. ac_restaurantId a = Some r \<and> location_by_id r d' = Some x \<and>
    (l = r \<or> res_businessId x \<noteq> None \<and> business_of l d' = res_businessId x)"
proof -
  have "staff_placed d' a" using placed.run_kept [OF assms(3,1)] assms(2,4) by (simp add: list_all_iff)
  from placed_access [OF this assms(5,6)] obtain r x
    where "ac_restaurantId a = Some r" "location_by_id r d' = Some x" "in_business d' x l" .
  moreover from this have "res_id x = r" by (auto simp: location_by_id_def dest: find_one_SomeD)
  ultimately show ?thesis by (auto simp: in_business_def)
qed

definition sample_staff_db :: auth_db where
  "sample_staff_db = sample_auth_db\<lparr>ax_restaurants := [sample_restaurant, sample_restaurant\<lparr>res_id := ''r2''\<rparr>,
     sample_restaurant\<lparr>res_id := ''r3'', res_businessId := Some ''b2''\<rparr>]\<rparr>"

definition sample_invite :: invite_staff_input where
  "sample_invite = \<lparr>iv_name = ''Bob'', iv_email = ''bob@x.org'', iv_role = Restaurant_Staff, iv_phone = None\<rparr>"

definition sample_locations :: "oid list \<Rightarrow> update_staff_input" where
  "sample_locations ids = \<lparr>us_role = None, us_isActive = None, us_locationIds = Some ids\<rparr>"

lemma sample_staff_wf: "wf_accounts sample_staff_db \<and> list_all (staff_placed sample_staff_db) (ad_users sample_staff_db)"
  by (simp add: wf_accounts_def sample_staff_db_def staff_placed_def auth_sample_defs user_document_def staff_roles_def)

lemma sample_staff_run:
  "let d1 = snd (invite_staff (sample_auth_env ''1'') ''r1'' sample_invite sample_staff_db) in
   auth_run {} sample_staff_db (snd (update_staff ''r1'' ''i1'' (sample_locations [''r2'', ''r1'']) d1))"
proof -
  let ?d1 = "snd (invite_staff (sample_auth_env ''1'') ''r1'' sample_invite sample_staff_db)"
  have "auth_run {} sample_staff_db ?d1"
    by (rule run_one [where env = "sample_auth_env ''1''"])
      (code_simp, simp, rule auth_step.intros, simp add: invite_staff_schema_def sample_invite_def staff_roles_def)
  then show ?thesis unfolding Let_def
    by (rule auth_run.run_step [where env = "sample_auth_env ''2''"])
      (code_simp, simp, rule auth_step.intros, simp add: update_staff_schema_def sample_locations_def)
qed

theorem staff_stay_in_business_witness:
  "let d1 = snd (invite_staff (sample_auth_env ''1'') ''r1'' sample_invite sample_staff_db);
       d2 = snd (update_staff ''r1'' ''i1'' (sample_locations [''r2'', ''r1'']) d1);
       a = ad_users d2 ! 1 in
   can_access_restaurant (claims_of a []) ''r2'' d2 \<and>
   (\<exists>r x. ac_restaurantId a = Some r \<and> location_by_id r d2 = Some x \<and>
     (''r2'' = r \<or> res_businessId x \<noteq> None \<and> business_of ''r2'' d2 = res_businessId x))"
proof -
  define d2 where "d2 = snd (update_staff ''r1'' ''i1'' (sample_locations [''r2'', ''r1''])
      (snd (invite_staff (sample_auth_env ''1'') ''r1'' sample_invite sample_staff_db)))"
  have "auth_run {} sample_staff_db d2" using sample_staff_run by (simp add: d2_def Let_def)
  moreover have "ad_users d2 ! 1 \<in> set (ad_users d2)" by (rule nth_mem) (unfold d2_def, code_simp)
  moreover have "works_by_location (ac_role (ad_users d2 ! 1))" unfolding d2_def by code_simp
  moreover have access: "can_access_restaurant (claims_of (ad_users d2 ! 1) []) ''r2'' d2" unfolding d2_def by code_simp
  ultimately show ?thesis
    using staff_stay_in_business sample_staff_wf unfolding Let_def d2_def [symmetric] by blast
qed

section \<open>Roles\<close>

text \<open>C28. No run of these handlers makes a platform administrator, and an account becomes a
  restaurant's owner only with a verified address, the terms accepted and a business of its own.\<close>

theorem roles_not_gained:
  assumes "wf_accounts d" "auth_run J d d'" "a \<in> set (ad_users d')"
  shows "(ac_role a = Platform_Admin \<longrightarrow> had_role d a) \<and>
    (ac_role a = Restaurant_Owner \<longrightarrow> had_role d a \<or> self_made d' a)"
  using earned_run [OF assms(2,1)] assms(3) by (simp add: earned_def)

definition customer_claims :: claims where
  "customer_claims = claims_of sample_user []"

definition self_served :: auth_db where
  "self_served = snd (create_business_self_serve (sample_auth_env ''1'') customer_claims ''Ann's'' ''anns'' None None sample_auth_db)"

lemma sample_self_serve: "auth_run {} sample_auth_db self_served"
  unfolding self_served_def
  by (rule run_one [where env = "sample_auth_env ''1''"]) (rule sample_fresh, simp, rule auth_step.intros)

theorem roles_not_gained_witness:
  "ac_role (ad_users self_served ! 0) = Restaurant_Owner \<and> \<not> had_role sample_auth_db (ad_users self_served ! 0) \<and>
   self_made self_served (ad_users self_served ! 0)"
proof -
  have "ad_users self_served ! 0 \<in> set (ad_users self_served)" by (rule nth_mem) code_simp
  moreover have "ac_role (ad_users self_served ! 0) = Restaurant_Owner" by code_simp
  moreover have "\<not> had_role sample_auth_db (ad_users self_served ! 0)" by code_simp
  ultimately show ?thesis using roles_not_gained [OF sample_wf sample_self_serve] by blast
qed

text \<open>After every run an address identifies its account, however registrations, invitations and
  changes of address are mixed.\<close>

theorem accounts_unique:
  assumes "wf_accounts d" "auth_run J d d'" "a \<in> set (ad_users d')" "b \<in> set (ad_users d')" "ac_email a = ac_email b"
  shows "a = b"
  using wf_run [OF assms(2,1)] assms(3-5) by (auto simp: wf_accounts_def distinct_map inj_on_def)

definition sample_registration :: register_input where
  "sample_registration = \<lparr>rg_name = ''Bob'', rg_email = '' Bob@X.org'', rg_password = ''pw'', rg_phone = None, rg_termsAccepted = None\<rparr>"

theorem accounts_unique_witness:
  "let d1 = snd (register (sample_auth_env ''1'') sample_registration sample_auth_db) in
   the (find_by_email ''BOB@x.org '' d1) = ad_users d1 ! 1"
proof -
  define d1 where "d1 = snd (register (sample_auth_env ''1'') sample_registration sample_auth_db)"
  have run: "auth_run {} sample_auth_db d1"
    unfolding d1_def by (rule run_one [where env = "sample_auth_env ''1''"]) (rule sample_fresh, simp, rule auth_step.intros)
  have "the (find_by_email ''BOB@x.org '' d1) \<in> set (ad_users d1)" unfolding d1_def by code_simp
  moreover have "ad_users d1 ! 1 \<in> set (ad_users d1)" by (rule nth_mem) (unfold d1_def, code_simp)
  moreover have "ac_email (the (find_by_email ''BOB@x.org '' d1)) = ac_email (ad_users d1 ! 1)" unfolding d1_def by code_simp
  ultimately show ?thesis using accounts_unique [OF sample_wf run] unfolding Let_def d1_def [symmetric] by blast
qed

section \<open>Agencies\<close>

text \<open>C29. An agency that has an active owner keeps one, whoever is invited, accepts, is demoted or
  removed.\<close>

theorem agency_keeps_owner:
  assumes "wf_accounts d" "auth_run J d d'" "active_owners ag d \<noteq> []"
  shows "active_owners ag d' \<noteq> []"
  using owners.run_kept [OF assms(2,1,3)] .

definition member :: "oid \<Rightarrow> agency_role \<Rightarrow> membership_status \<Rightarrow> membership" where
  "member uid role status = \<lparr>am_id = ''m'' @ uid, am_agencyId = ''a1'', am_userId = uid, am_role = role, am_status = status,
     am_businessIds = [], am_inviteTokenHash = None, am_inviteExpiresAt = None\<rparr>"

definition sample_agency_db :: auth_db where
  "sample_agency_db = sample_auth_db\<lparr>
     ax_businesses := [\<lparr>bu_id = ''b1'', bu_name = ''Roma'', bu_ownerId = ''u9'', bu_agencyId = Some ''a1'', bu_locationCount = 1\<rparr>],
     ax_memberships := [member ''u2'' Role_Agency_Owner M_Active, member ''u3'' Role_Agency_Owner M_Active,
       member ''u4'' Role_Agency_Admin M_Active],
     ad_agencies := [\<lparr>ag_id = ''a1'', ag_name = ''Acme'', ag_contactEmail = ''a@x.org'', ag_businessCount = 1\<rparr>]\<rparr>"

definition agency_caller :: "oid \<Rightarrow> agency_role \<Rightarrow> claims" where
  "agency_caller uid role = customer_claims\<lparr>cl_id := uid, cl_role := Agency_Member, cl_agencyMemberships := [(''a1'', role)]\<rparr>"

definition demote :: update_member_input where
  "demote = \<lparr>um_role = Some Role_Agency_Staff, um_status = None, um_businessIds = None\<rparr>"

definition revoke :: update_member_input where
  "revoke = \<lparr>um_role = None, um_status = Some M_Revoked, um_businessIds = None\<rparr>"

theorem agency_keeps_owner_witness:
  "let d1 = snd (update_member (agency_caller ''u4'' Role_Agency_Admin) ''a1'' ''mu2'' demote sample_agency_db);
       d2 = snd (update_member (agency_caller ''u4'' Role_Agency_Admin) ''a1'' ''mu3'' revoke d1) in
   map am_userId (active_owners ''a1'' d1) = [''u3''] \<and> active_owners ''a1'' d2 \<noteq> []"
proof -
  define d1 where "d1 = snd (update_member (agency_caller ''u4'' Role_Agency_Admin) ''a1'' ''mu2'' demote sample_agency_db)"
  define d2 where "d2 = snd (update_member (agency_caller ''u4'' Role_Agency_Admin) ''a1'' ''mu3'' revoke d1)"
  have wf: "wf_accounts sample_agency_db"
    by (simp add: wf_accounts_def sample_agency_db_def member_def auth_sample_defs)
  have "auth_run {} sample_agency_db d1" unfolding d1_def
    by (rule run_one [where env = "sample_auth_env ''1''"]) (code_simp, simp, rule auth_step.intros)
  then have "auth_run {} sample_agency_db d2" unfolding d2_def
    by (rule auth_run.run_step [where env = "sample_auth_env ''2''"]) (unfold d1_def, code_simp, simp, rule auth_step.intros)
  moreover have "active_owners ''a1'' sample_agency_db \<noteq> []" by code_simp
  ultimately have "active_owners ''a1'' d2 \<noteq> []" by (rule agency_keeps_owner [OF wf])
  moreover have "map am_userId (active_owners ''a1'' d1) = [''u3'']" unfolding d1_def by code_simp
  ultimately show ?thesis unfolding Let_def d1_def [symmetric] d2_def [symmetric] by blast
qed

section \<open>What the handlers let through\<close>

text \<open>The count of owners and the save are two operations: two removals at once leave none.\<close>

lemma owners_removed_at_once:
  "let other = update_member (agency_caller ''u3'' Role_Agency_Owner) ''a1'' ''mu3'' revoke;
       d = snd (update_member_during (\<lambda>d. snd (other d)) (agency_caller ''u2'' Role_Agency_Owner) ''a1'' ''mu2'' revoke sample_agency_db) in
   active_owners ''a1'' d = []"
  by code_simp

text \<open>An administrator of an agency manages members, its own membership included, up to the role
  of owner that it does not have the permissions of.\<close>

lemma admin_makes_itself_owner:
  "let u = agency_caller ''u4'' Role_Agency_Admin; promote = demote\<lparr>um_role := Some Role_Agency_Owner\<rparr> in
   agency_role_has_permission Role_Agency_Admin Agency_Members_Manage \<and>
   \<not> agency_role_has_permission Role_Agency_Admin Agency_Manage \<and>
   map am_userId (active_owners ''a1'' (snd (update_member u ''a1'' ''mu4'' promote sample_agency_db))) = [''u2'', ''u3'', ''u4'']"
  by code_simp

text \<open>An invitation that was revoked before it was accepted can still be accepted.\<close>

lemma revoked_invitation_accepted:
  "let owner = agency_caller ''u2'' Role_Agency_Owner;
       d1 = snd (invite_member (sample_auth_env ''1'') owner ''a1'' ''Ann'' ''ann@x.org'' Role_Agency_Admin sample_agency_db);
       d2 = snd (update_member owner ''a1'' ''k1'' revoke d1);
       (s, d3) = accept_agency_invite (sample_auth_env ''2'') ''t1'' None d2 in
   map am_status (filter (\<lambda>m. am_userId m = ''u1'') (ax_memberships d2)) = [M_Revoked] \<and>
   \<not> isl s \<and> cl_agencyMemberships (fst (projr s)) = [(''a1'', Role_Agency_Admin)]"
  by code_simp

text \<open>A member of staff whose account is deactivated before the invitation is used cannot log in, but
  the invitation still gives a session that opens the location.\<close>

lemma deactivated_invitation_accepted:
  "let d1 = snd (invite_staff (sample_auth_env ''1'') ''r1'' sample_invite sample_staff_db);
       d2 = snd (update_staff ''r1'' ''i1'' \<lparr>us_role = None, us_isActive = Some False, us_locationIds = None\<rparr> d1);
       (s, d3) = accept_invite (sample_auth_env ''2'') ''t1'' ''pw'' d2 in
   \<not> isl s \<and> can_access_restaurant (fst (projr s)) ''r1'' d3 \<and>
   fst (login (sample_auth_env ''3'') ''bob@x.org'' ''pw'' d3) = Inl (Forbidden ''deactivated'')"
  by code_simp

text \<open>A customer who opens a restaurant and then an agency with the access token of before loses the
  role of owner.\<close>

lemma old_token_takes_ownership:
  "let d2 = snd (create_agency (sample_auth_env ''2'') customer_claims ''Acme'' ''acme'' ''a@x.org'' self_served) in
   ac_role (ad_users self_served ! 0) = Restaurant_Owner \<and>
   ac_role (ad_users d2 ! 0) = Agency_Member \<and> ac_businessId (ad_users d2 ! 0) = Some ''i1''"
  by code_simp

text \<open>The check of a location's permissions reads the role of the account even when the location was
  opened by an agency: a customer who is invited to an agency, opens an own restaurant and then
  accepts has the permissions of an owner, payments included, at every client of the agency.\<close>

lemma owner_elsewhere_manages_payments:
  "let owner = agency_caller ''u2'' Role_Agency_Owner;
       d1 = snd (invite_member (sample_auth_env ''1'') owner ''a1'' ''Ann'' ''ann@x.org'' Role_Agency_Admin sample_agency_db);
       d2 = snd (create_business_self_serve (sample_auth_env ''2'') customer_claims ''Ann's'' ''anns'' None None d1);
       (s, d3) = accept_agency_invite (sample_auth_env ''3'') ''t1'' None d2;
       u = fst (projr s) in
   \<not> isl s \<and> cl_businessId u = Some ''i2'' \<and> business_of ''r1'' d3 = Some ''b1'' \<and>
   \<not> agency_role_grants_permission Role_Agency_Admin Payments_Manage \<and>
   passes (location_route (\<lambda>_. Some u) (Some (bearer_prefix @ ''x'')) ''/'' ''r1'' [Payments_Manage] d3)"
  by code_simp

end
