(* ===== verification/Menu_Resolution.thy ===== *)
theory Menu_Resolution
  imports Menu_Pricing
begin

text \<open>
  The menu a customer is shown (\<open>menuResolution.service.ts\<close>, \<open>listMenu\<close> of \<open>menu.controller.ts\<close>): the
  canonical menu of a business with the overrides of one location, or the location's own documents.
  It shares the collections of \<open>Menu_Pricing\<close>, which decides what an order is charged; the last section
  shows that the two agree.
\<close>

section \<open>Documents\<close>

record category =
  cat_id :: oid
  cat_restaurantId :: "oid option"
  cat_businessId :: "oid option"
  cat_name :: string
  cat_sortOrder :: int
  cat_isActive :: bool
  cat_clonedFrom :: "oid option"

record category_override =
  co_locationId :: oid
  co_categoryId :: oid
  co_isActive :: "bool option"
  co_sortOrderOverride :: "int option"

text \<open>The menu as it is sent. Descriptions and pictures are left out.\<close>

record resolved_category =
  rc_id :: oid
  rc_restaurantId :: oid
  rc_name :: string
  rc_sortOrder :: int
  rc_isActive :: bool

record resolved_item =
  ri_id :: oid
  ri_restaurantId :: oid
  ri_categoryId :: oid
  ri_name :: string
  ri_price :: money
  ri_isAvailable :: bool
  ri_sortOrder :: int

record resolved_group =
  rg_id :: oid
  rg_restaurantId :: oid
  rg_menuItemId :: oid
  rg_name :: string
  rg_minSelect :: int
  rg_maxSelect :: int
  rg_isActive :: bool
  rg_sortOrder :: int
  rg_options :: "modifier_option list"

record resolved_menu =
  rm_items :: "resolved_item list"
  rm_categories :: "resolved_category list"
  rm_groups :: "resolved_group list"

text \<open>The collections behind a menu; \<open>mn_db\<close> has the restaurants.\<close>

record menu_store =
  mn_db :: db
  mn_docs :: menu_db
  mn_categories :: "category list"
  mn_categoryOverrides :: "category_override list"

section \<open>Sorting\<close>

text \<open>\<open>Array.prototype.sort\<close> is stable: an element goes before the first one that is not smaller.\<close>

fun insert_by :: "('a \<Rightarrow> 'a \<Rightarrow> int) \<Rightarrow> 'a \<Rightarrow> 'a list \<Rightarrow> 'a list" where
  "insert_by c x [] = [x]"
| "insert_by c x (y # ys) = (if c x y \<le> 0 then x # y # ys else y # insert_by c x ys)"

definition js_sort :: "('a \<Rightarrow> 'a \<Rightarrow> int) \<Rightarrow> 'a list \<Rightarrow> 'a list" where
  "js_sort c xs = foldr (insert_by c) xs []"

text \<open>\<open>a || b\<close> on numbers: the first key that tells the two apart.\<close>

definition or_else :: "int \<Rightarrow> int \<Rightarrow> int" where
  "or_else a b = (if a \<noteq> 0 then a else b)"

lemma mset_insert_by: "mset (insert_by c x xs) = add_mset x (mset xs)"
  by (induction xs) auto

lemma mset_js_sort [simp]: "mset (js_sort c xs) = mset xs"
  unfolding js_sort_def by (induction xs) (simp_all add: mset_insert_by)

lemma set_js_sort [simp]: "set (js_sort c xs) = set xs"
  using mset_js_sort by (metis set_mset_mset)

lemma distinct_map_js_sort: "distinct (map k (js_sort c xs)) = distinct (map k xs)"
  by (metis mset_eq_imp_distinct_iff mset_js_sort mset_map)

section \<open>The menu of a location\<close>

text \<open>\<open>cmp\<close> is \<open>String.prototype.localeCompare\<close>.\<close>

definition resolve_categories :: "(string \<Rightarrow> string \<Rightarrow> int) \<Rightarrow> menu_store \<Rightarrow> oid \<Rightarrow> oid \<Rightarrow> bool \<Rightarrow> resolved_category list" where
  "resolve_categories cmp s bid lid hidden =
     (let override_of = map_of (js_map (map (\<lambda>v. (co_categoryId v, v))
            (filter (\<lambda>v. co_locationId v = lid) (mn_categoryOverrides s)))) in
      js_sort (\<lambda>a b. or_else (rc_sortOrder a - rc_sortOrder b) (cmp (rc_name a) (rc_name b)))
        (filter (\<lambda>c. hidden \<or> rc_isActive c)
          (map (\<lambda>c. \<lparr>rc_id = cat_id c, rc_restaurantId = lid, rc_name = cat_name c,
              rc_sortOrder = nullish (Option.bind (override_of (cat_id c)) co_sortOrderOverride) (cat_sortOrder c),
              rc_isActive = nullish (Option.bind (override_of (cat_id c)) co_isActive) (cat_isActive c)\<rparr>)
            (filter (\<lambda>c. cat_businessId c = Some bid) (mn_categories s)))))"

definition resolve_items :: "(string \<Rightarrow> string \<Rightarrow> int) \<Rightarrow> menu_db \<Rightarrow> oid \<Rightarrow> oid \<Rightarrow> bool \<Rightarrow> resolved_item list" where
  "resolve_items cmp md bid lid hidden =
     (let override_of = map_of (js_map (map (\<lambda>v. (io_menuItemId v, v))
            (filter (\<lambda>v. io_locationId v = lid) (md_itemOverrides md)))) in
      js_sort (\<lambda>a b. or_else (cmp (ri_categoryId a) (ri_categoryId b))
          (or_else (ri_sortOrder a - ri_sortOrder b) (cmp (ri_name a) (ri_name b))))
        (filter (\<lambda>i. hidden \<or> ri_isAvailable i)
          (map (\<lambda>i. \<lparr>ri_id = mi_id i, ri_restaurantId = lid, ri_categoryId = mi_categoryId i, ri_name = mi_name i,
              ri_price = nullish (Option.bind (override_of (mi_id i)) io_priceOverride) (mi_price i),
              ri_isAvailable = nullish (Option.bind (override_of (mi_id i)) io_isAvailable) (mi_isAvailable i),
              ri_sortOrder = nullish (Option.bind (override_of (mi_id i)) io_sortOrderOverride) (mi_sortOrder i)\<rparr>)
            (filter (\<lambda>i. mi_businessId i = Some bid) (md_items md)))))"

definition resolve_option :: "option_override option \<Rightarrow> modifier_option \<Rightarrow> modifier_option" where
  "resolve_option v x = x\<lparr>mo_priceAdjustment := nullish (Option.bind v oo_priceAdjustmentOverride) (mo_priceAdjustment x),
     mo_isActive := nullish (Option.bind v oo_isActive) (mo_isActive x)\<rparr>"

definition option_overrides_of :: "group_override option \<Rightarrow> option_override list" where
  "option_overrides_of v = (case v of None \<Rightarrow> [] | Some w \<Rightarrow> go_optionOverrides w)"

definition resolve_group :: "oid \<Rightarrow> bool \<Rightarrow> group_override option \<Rightarrow> modifier_group \<Rightarrow> resolved_group" where
  "resolve_group lid hidden v g =
     (let option_of = map_of (js_map (map (\<lambda>w. (oo_optionId w, w)) (option_overrides_of v))) in
      \<lparr>rg_id = mg_id g, rg_restaurantId = lid, rg_menuItemId = mg_menuItemId g, rg_name = mg_name g,
       rg_minSelect = mg_minSelect g, rg_maxSelect = mg_maxSelect g,
       rg_isActive = nullish (Option.bind v go_isActive) (mg_isActive g), rg_sortOrder = mg_sortOrder g,
       rg_options = js_sort (\<lambda>a b. mo_sortOrder a - mo_sortOrder b)
         (filter (\<lambda>x. hidden \<or> mo_isActive x) (map (\<lambda>x. resolve_option (option_of (mo_id x)) x) (mg_options g)))\<rparr>)"

definition resolve_groups :: "(string \<Rightarrow> string \<Rightarrow> int) \<Rightarrow> menu_db \<Rightarrow> oid \<Rightarrow> oid \<Rightarrow> bool \<Rightarrow> resolved_group list" where
  "resolve_groups cmp md bid lid hidden =
     (let override_of = map_of (js_map (map (\<lambda>v. (go_modifierGroupId v, v))
            (filter (\<lambda>v. go_locationId v = lid) (md_groupOverrides md)))) in
      js_sort (\<lambda>a b. or_else (rg_sortOrder a - rg_sortOrder b) (cmp (rg_name a) (rg_name b)))
        (filter (\<lambda>g. hidden \<or> rg_isActive g)
          (map (\<lambda>g. resolve_group lid hidden (override_of (mg_id g)) g)
            (filter (\<lambda>g. mg_businessId g = Some bid) (md_groups md)))))"

definition resolve_menu_for_location :: "(string \<Rightarrow> string \<Rightarrow> int) \<Rightarrow> menu_store \<Rightarrow> oid \<Rightarrow> oid \<Rightarrow> bool \<Rightarrow> resolved_menu" where
  "resolve_menu_for_location cmp s bid lid hidden =
     \<lparr>rm_items = resolve_items cmp (mn_docs s) bid lid hidden,
      rm_categories = resolve_categories cmp s bid lid hidden,
      rm_groups = resolve_groups cmp (mn_docs s) bid lid hidden\<rparr>"

text \<open>The location's own documents, sorted by the database, which compares strings by \<open>bin\<close>.\<close>

definition load_legacy_public_menu :: "(string \<Rightarrow> string \<Rightarrow> int) \<Rightarrow> menu_store \<Rightarrow> oid \<Rightarrow> resolved_menu" where
  "load_legacy_public_menu bin s rid =
     \<lparr>rm_items = js_sort (\<lambda>a b. or_else (bin (ri_categoryId a) (ri_categoryId b))
          (or_else (ri_sortOrder a - ri_sortOrder b) (bin (ri_name a) (ri_name b))))
        (map (\<lambda>i. \<lparr>ri_id = mi_id i, ri_restaurantId = rid, ri_categoryId = mi_categoryId i, ri_name = mi_name i,
            ri_price = mi_price i, ri_isAvailable = mi_isAvailable i, ri_sortOrder = mi_sortOrder i\<rparr>)
          (filter (\<lambda>i. mi_restaurantId i = Some rid \<and> mi_isAvailable i) (md_items (mn_docs s)))),
      rm_categories = js_sort (\<lambda>a b. or_else (rc_sortOrder a - rc_sortOrder b) (bin (rc_name a) (rc_name b)))
        (map (\<lambda>c. \<lparr>rc_id = cat_id c, rc_restaurantId = rid, rc_name = cat_name c, rc_sortOrder = cat_sortOrder c,
            rc_isActive = cat_isActive c\<rparr>)
          (filter (\<lambda>c. cat_restaurantId c = Some rid \<and> cat_isActive c) (mn_categories s))),
      rm_groups = js_sort (\<lambda>a b. or_else (rg_sortOrder a - rg_sortOrder b) (bin (rg_name a) (rg_name b)))
        (map (\<lambda>g. \<lparr>rg_id = mg_id g, rg_restaurantId = rid, rg_menuItemId = mg_menuItemId g, rg_name = mg_name g,
            rg_minSelect = mg_minSelect g, rg_maxSelect = mg_maxSelect g, rg_isActive = mg_isActive g,
            rg_sortOrder = mg_sortOrder g, rg_options = filter mo_isActive (mg_options g)\<rparr>)
          (filter (\<lambda>g. mg_restaurantId g = Some rid \<and> mg_isActive g) (md_groups (mn_docs s))))\<rparr>"

definition public_menu :: "(string \<Rightarrow> string \<Rightarrow> int) \<Rightarrow> (string \<Rightarrow> string \<Rightarrow> int) \<Rightarrow> menu_store \<Rightarrow> oid \<Rightarrow> resolved_menu" where
  "public_menu cmp bin s rid =
     (case canonical_business (mn_db s) (mn_docs s) rid of
        Some bid \<Rightarrow> resolve_menu_for_location cmp s bid rid False
      | None \<Rightarrow> load_legacy_public_menu bin s rid)"

section \<open>What is shown is what is charged\<close>

text \<open>An item as it is listed, as the order path sees it; the same for a group and its options.\<close>

definition listed_item :: "resolved_menu \<Rightarrow> oid \<Rightarrow> pricing_item option" where
  "listed_item m k = map_option (\<lambda>i. \<lparr>ei_id = ri_id i, ei_name = ri_name i, ei_price = ri_price i\<rparr>)
     (find_one (\<lambda>i. ri_id i = k) (rm_items m))"

definition listed_group :: "resolved_menu \<Rightarrow> oid \<Rightarrow> resolved_group option" where
  "listed_group m k = find_one (\<lambda>g. rg_id g = k) (rm_groups m)"

definition same_group :: "resolved_group \<Rightarrow> pricing_group \<Rightarrow> bool" where
  "same_group g e \<longleftrightarrow> rg_menuItemId g = eg_menuItemId e \<and> rg_name g = eg_name e \<and> rg_minSelect g = eg_minSelect e \<and>
     rg_maxSelect g = eg_maxSelect e \<and> {(mo_id x, mo_name x, mo_priceAdjustment x) | x. x \<in> set (rg_options g)} =
       {(eo_id o', eo_name o', eo_priceAdjustment o') | o'. o' \<in> set (eg_options e) \<and> eo_isActive o'}"

lemma find_one_filter: "find_one p (filter q xs) = find_one (\<lambda>x. p x \<and> q x) xs"
  by (induction xs) auto

lemma find_one_map: "find_one p (map f xs) = map_option f (find_one (\<lambda>x. p (f x)) xs)"
  by (induction xs) auto

lemma find_key_iff: "distinct (map k xs) \<Longrightarrow> find_one (\<lambda>x. k x = c) xs = Some x \<longleftrightarrow> x \<in> set xs \<and> k x = c"
  using find_id_mem [of k xs x] by (auto dest: find_one_SomeD)

lemma find_key_perm: "distinct (map k xs) \<Longrightarrow> mset ys = mset xs \<Longrightarrow> find_one (\<lambda>x. k x = c) ys = find_one (\<lambda>x. k x = c) xs"
proof -
  assume d: "distinct (map k xs)" "mset ys = mset xs"
  then have "distinct (map k ys)" by (metis mset_eq_imp_distinct_iff mset_map)
  then have "find_one (\<lambda>x. k x = c) ys = Some x \<longleftrightarrow> find_one (\<lambda>x. k x = c) xs = Some x" for x
    using d(1) mset_eq_setD [OF d(2)] by (simp add: find_key_iff)
  then show ?thesis by (metis option.collapse option.exhaust_sel)
qed

lemma find_one_rev: "distinct (map k xs) \<Longrightarrow> find_one (\<lambda>x. k x = c) (rev xs) = find_one (\<lambda>x. k x = c) xs"
  by (rule find_key_perm) simp_all

lemma map_of_keyed: "distinct (map k xs) \<Longrightarrow>
    map_of (js_map (map (\<lambda>d. (k d, f d)) xs)) c = map_option f (find_one (\<lambda>d. k d = c) xs)"
proof -
  have "map_of (map (\<lambda>d. (k d, f d)) ys) c = map_option f (find_one (\<lambda>d. k d = c) ys)" for ys
    by (induction ys) auto
  from this [of "rev xs"] show "distinct (map k xs) \<Longrightarrow> ?thesis"
    by (simp add: map_of_js_map rev_map find_one_rev)
qed

text \<open>Restricting the overrides to some documents does not change which one applies to them.\<close>

lemma override_restrict: "S c \<Longrightarrow>
    map_of (js_map (map (\<lambda>v. (k v, v)) (filter (\<lambda>v. p v \<and> S (k v)) vs))) c =
    map_of (js_map (map (\<lambda>v. (k v, v)) (filter p vs))) c"
proof -
  have "map_of (map (\<lambda>v. (k v, v)) (filter (\<lambda>v. p v \<and> S (k v)) ws)) c = map_of (map (\<lambda>v. (k v, v)) (filter p ws)) c"
    if "S c" for ws using that by (induction ws) auto
  from this [of "rev vs"] show "S c \<Longrightarrow> ?thesis" by (simp add: map_of_js_map rev_map rev_filter)
qed

definition menu_keyed :: "menu_db \<Rightarrow> bool" where
  "menu_keyed md \<longleftrightarrow> distinct (map mi_id (md_items md)) \<and> distinct (map mg_id (md_groups md))"

lemma distinct_map_filter': "distinct (map k xs) \<Longrightarrow> distinct (map k (filter p xs))"
  by (simp add: distinct_map_filter)

lemma resolved_items_alt: "resolve_items cmp md bid lid hidden =
    (let override_of = map_of (js_map (map (\<lambda>v. (io_menuItemId v, v)) (filter (\<lambda>v. io_locationId v = lid) (md_itemOverrides md))));
         h = (\<lambda>i. \<lparr>ri_id = mi_id i, ri_restaurantId = lid, ri_categoryId = mi_categoryId i, ri_name = mi_name i,
              ri_price = nullish (Option.bind (override_of (mi_id i)) io_priceOverride) (mi_price i),
              ri_isAvailable = nullish (Option.bind (override_of (mi_id i)) io_isAvailable) (mi_isAvailable i),
              ri_sortOrder = nullish (Option.bind (override_of (mi_id i)) io_sortOrderOverride) (mi_sortOrder i)\<rparr>) in
     js_sort (\<lambda>a b. or_else (cmp (ri_categoryId a) (ri_categoryId b))
          (or_else (ri_sortOrder a - ri_sortOrder b) (cmp (ri_name a) (ri_name b))))
       (map h (filter (\<lambda>i. mi_businessId i = Some bid \<and> (hidden \<or> ri_isAvailable (h i))) (md_items md))))"
  by (simp add: resolve_items_def Let_def filter_map comp_def filter_filter conj_commute)

lemma listed_sorted:
  assumes "distinct (map k docs)" "\<And>d. r (h d) = k d"
  shows "find_one (\<lambda>x. r x = c) (js_sort cmp (map h (filter q docs))) = map_option h (find_one (\<lambda>d. k d = c \<and> q d) docs)"
proof -
  have "distinct (map r (map h (filter q docs)))" using distinct_map_filter' [OF assms(1)] assms(2) by (simp add: comp_def)
  from find_key_perm [OF this mset_js_sort] show ?thesis
    by (simp add: find_one_map assms(2) find_one_filter)
qed

lemma listed_item_charged:
  assumes "menu_keyed (mn_docs s)" "k \<in> set ids"
  shows "map_of (fst (effective_menu (mn_db s) (mn_docs s) rid ids)) k = listed_item (public_menu cmp bin s rid) k"
proof -
  let ?md = "mn_docs s"
  have dist: "distinct (map mi_id (md_items ?md))" using assms(1) by (simp add: menu_keyed_def)
  show ?thesis
  proof (cases "canonical_business (mn_db s) ?md rid")
    case None
    show ?thesis
      by (simp add: effective_menu_alt None load_items_legacy_def Let_def public_menu_def load_legacy_public_menu_def
          listed_item_def map_of_keyed distinct_map_filter' dist find_one_filter listed_sorted [OF dist] option.map_comp comp_def)
        (use assms(2) in \<open>auto intro!: arg_cong [where f = "map_option _"] arg_cong2 [where f = find_one] simp: fun_eq_iff\<close>)
  next
    case (Some bid)
    let ?ov = "\<lambda>i. map_of (js_map (map (\<lambda>v. (io_menuItemId v, v)) (filter (\<lambda>v. io_locationId v = rid) (md_itemOverrides ?md)))) i"
    have ov: "map_of (js_map (map (\<lambda>v. (io_menuItemId v, v))
        (filter (\<lambda>v. io_locationId v = rid \<and> io_menuItemId v \<in> set ids) (md_itemOverrides ?md)))) i = ?ov i" if "i \<in> set ids" for i
      using override_restrict [where S = "\<lambda>i. i \<in> set ids" and p = "\<lambda>v. io_locationId v = rid" and k = io_menuItemId] that .
    let ?av = "\<lambda>d. nullish (Option.bind (?ov (mi_id d)) io_isAvailable) (mi_isAvailable d)"
    let ?pr = "\<lambda>d. nullish (Option.bind (?ov (mi_id d)) io_priceOverride) (mi_price d)"
    have "map_of (load_items_canonical ?md bid rid ids) k =
        map_option (\<lambda>d. \<lparr>ei_id = mi_id d, ei_name = mi_name d, ei_price = ?pr d\<rparr>)
          (find_one (\<lambda>d. mi_id d = k \<and> mi_businessId d = Some bid \<and> ?av d) (md_items ?md))"
    proof -
      have eq: "load_items_canonical ?md bid rid ids =
          js_map (map (\<lambda>d. (mi_id d, \<lparr>ei_id = mi_id d, ei_name = mi_name d, ei_price = ?pr d\<rparr>))
            (filter (\<lambda>d. (mi_id d \<in> set ids \<and> mi_businessId d = Some bid) \<and> ?av d) (md_items ?md)))"
        unfolding load_items_canonical_def Let_def filter_filter
        by (rule arg_cong [where f = js_map], rule map_cong) (auto simp: ov intro!: filter_cong)
      show ?thesis
        unfolding eq map_of_keyed [OF distinct_map_filter' [OF dist]] find_one_filter
        using assms(2) by (auto intro!: arg_cong [where f = "map_option _"] arg_cong2 [where f = find_one] simp: fun_eq_iff)
    qed
    moreover have "listed_item (public_menu cmp bin s rid) k =
        map_option (\<lambda>d. \<lparr>ei_id = mi_id d, ei_name = mi_name d, ei_price = ?pr d\<rparr>)
          (find_one (\<lambda>d. mi_id d = k \<and> mi_businessId d = Some bid \<and> ?av d) (md_items ?md))"
      by (simp add: public_menu_def Some resolve_menu_for_location_def resolved_items_alt Let_def listed_item_def
          listed_sorted [OF dist] option.map_comp comp_def)
    ultimately show ?thesis by (simp add: effective_menu_alt Some)
  qed
qed

lemma resolved_groups_alt: "resolve_groups cmp md bid lid hidden =
    (let override_of = map_of (js_map (map (\<lambda>v. (go_modifierGroupId v, v)) (filter (\<lambda>v. go_locationId v = lid) (md_groupOverrides md))));
         h = (\<lambda>g. resolve_group lid hidden (override_of (mg_id g)) g) in
     js_sort (\<lambda>a b. or_else (rg_sortOrder a - rg_sortOrder b) (cmp (rg_name a) (rg_name b)))
       (map h (filter (\<lambda>g. mg_businessId g = Some bid \<and> (hidden \<or> rg_isActive (h g))) (md_groups md))))"
  by (simp add: resolve_groups_def Let_def filter_map comp_def filter_filter conj_commute)

lemma rel_listed: "(\<And>d. same_group (h d) (e d)) \<Longrightarrow> (\<And>d. rg_menuItemId (h d) = mg_menuItemId d) \<Longrightarrow>
    rel_option same_group (Option.bind (map_option h x) (\<lambda>g. if rg_menuItemId g \<in> S then Some g else None))
      (map_option e (Option.bind x (\<lambda>d. if mg_menuItemId d \<in> S then Some d else None)))"
  by (cases x) auto

lemma find_guarded_group:
  "distinct (map mg_id gs) \<Longrightarrow> find_one (\<lambda>d. mg_id d = k \<and> mg_menuItemId d \<in> S \<and> q d) gs =
     Option.bind (find_one (\<lambda>d. mg_id d = k \<and> q d) gs) (\<lambda>d. if mg_menuItemId d \<in> S then Some d else None)"
proof (induction gs)
  case (Cons g gs)
  show ?case
  proof (cases "mg_id g = k")
    case True
    then have "k \<notin> mg_id ` set gs" using Cons.prems by simp
    then have "find_one (\<lambda>d. mg_id d = k \<and> r d) gs = None" for r by (auto simp: find_one_None_iff)
    then show ?thesis using True by simp
  qed (use Cons in simp)
qed simp

text \<open>The options a group offers when \<open>resolve_option\<close> has been applied are the active ones the order path sees.\<close>

lemma same_options:
  assumes "e = \<lparr>eg_id = mg_id g, eg_menuItemId = mg_menuItemId g, eg_name = mg_name g, eg_minSelect = mg_minSelect g,
      eg_maxSelect = mg_maxSelect g, eg_options = map (\<lambda>x. \<lparr>eo_id = mo_id x, eo_name = mo_name x,
        eo_priceAdjustment = mo_priceAdjustment (f x), eo_isActive = mo_isActive (f x)\<rparr>) (mg_options g)\<rparr>"
    and "\<And>x. mo_id (f x) = mo_id x \<and> mo_name (f x) = mo_name x"
    and "rg_menuItemId r = mg_menuItemId g" "rg_name r = mg_name g" "rg_minSelect r = mg_minSelect g"
      "rg_maxSelect r = mg_maxSelect g" "set (rg_options r) = {x \<in> f ` set (mg_options g). mo_isActive x}"
  shows "same_group r e"
proof -
  have "{(mo_id x, mo_name x, mo_priceAdjustment x) | x. x \<in> f ` set (mg_options g) \<and> mo_isActive x} =
      {(mo_id x, mo_name x, mo_priceAdjustment (f x)) | x. x \<in> set (mg_options g) \<and> mo_isActive (f x)}"
    using assms(2) by (auto simp: image_iff) metis+
  moreover have "{(eo_id o', eo_name o', eo_priceAdjustment o') | o'. o' \<in> set (eg_options e) \<and> eo_isActive o'} =
      {(mo_id x, mo_name x, mo_priceAdjustment (f x)) | x. x \<in> set (mg_options g) \<and> mo_isActive (f x)}"
    unfolding assms(1) by force
  ultimately show ?thesis using assms(3-7) by (simp add: same_group_def) (simp add: assms(1))
qed

lemma listed_group_charged:
  assumes "menu_keyed (mn_docs s)"
  shows "rel_option same_group
    (Option.bind (listed_group (public_menu cmp bin s rid) k) (\<lambda>g. if rg_menuItemId g \<in> set ids then Some g else None))
    (map_of (snd (effective_menu (mn_db s) (mn_docs s) rid ids)) k)"
proof -
  let ?md = "mn_docs s"
  have dist: "distinct (map mg_id (md_groups ?md))" using assms(1) by (simp add: menu_keyed_def)
  show ?thesis
  proof (cases "canonical_business (mn_db s) ?md rid")
    case None
    let ?q = "\<lambda>d. mg_restaurantId d = Some rid \<and> mg_isActive d"
    let ?e = "\<lambda>d. \<lparr>eg_id = mg_id d, eg_menuItemId = mg_menuItemId d, eg_name = mg_name d,
            eg_minSelect = mg_minSelect d, eg_maxSelect = mg_maxSelect d,
            eg_options = map (\<lambda>o'. \<lparr>eo_id = mo_id o', eo_name = mo_name o',
              eo_priceAdjustment = mo_priceAdjustment o', eo_isActive = mo_isActive o'\<rparr>) (mg_options d)\<rparr>"
    let ?h = "\<lambda>g. \<lparr>rg_id = mg_id g, rg_restaurantId = rid, rg_menuItemId = mg_menuItemId g, rg_name = mg_name g,
            rg_minSelect = mg_minSelect g, rg_maxSelect = mg_maxSelect g, rg_isActive = mg_isActive g,
            rg_sortOrder = mg_sortOrder g, rg_options = filter mo_isActive (mg_options g)\<rparr>"
    have charged: "map_of (load_groups_legacy ?md rid ids) k = map_option ?e
        (Option.bind (find_one (\<lambda>d. mg_id d = k \<and> ?q d) (md_groups ?md)) (\<lambda>d. if mg_menuItemId d \<in> set ids then Some d else None))"
      by (simp add: load_groups_legacy_def Let_def map_of_keyed distinct_map_filter' dist find_one_filter
          find_guarded_group [OF dist])
    have listed: "listed_group (public_menu cmp bin s rid) k = map_option ?h (find_one (\<lambda>d. mg_id d = k \<and> ?q d) (md_groups ?md))"
      by (simp add: public_menu_def None load_legacy_public_menu_def listed_group_def listed_sorted [OF dist])
    have same: "same_group (?h d) (?e d)" for d
      by (rule same_options [where f = "\<lambda>x. x" and g = d]) auto
    show ?thesis unfolding effective_menu_alt None option.case snd_conv charged listed
      by (rule rel_listed [OF same]) simp
  next
    case (Some bid)
    let ?ov = "\<lambda>i. map_of (js_map (map (\<lambda>v. (go_modifierGroupId v, v)) (filter (\<lambda>v. go_locationId v = rid) (md_groupOverrides ?md)))) i"
    let ?S = "mg_id ` {d \<in> set (md_groups ?md). mg_menuItemId d \<in> set ids \<and> mg_businessId d = Some bid}"
    have ov: "map_of (js_map (map (\<lambda>v. (go_modifierGroupId v, v))
        (filter (\<lambda>v. go_locationId v = rid \<and> go_modifierGroupId v \<in> ?S) (md_groupOverrides ?md)))) i = ?ov i"
      if "i \<in> ?S" for i
      using override_restrict [where S = "\<lambda>i. i \<in> ?S" and p = "\<lambda>v. go_locationId v = rid" and k = go_modifierGroupId] that .
    let ?oo = "\<lambda>d. map_of (js_map (map (\<lambda>v. (oo_optionId v, v)) (option_overrides_of (?ov (mg_id d)))))"
    let ?f = "\<lambda>d x. resolve_option (?oo d (mo_id x)) x"
    let ?e = "\<lambda>d. \<lparr>eg_id = mg_id d, eg_menuItemId = mg_menuItemId d, eg_name = mg_name d,
            eg_minSelect = mg_minSelect d, eg_maxSelect = mg_maxSelect d,
            eg_options = map (\<lambda>x. \<lparr>eo_id = mo_id x, eo_name = mo_name x,
              eo_priceAdjustment = mo_priceAdjustment (?f d x), eo_isActive = mo_isActive (?f d x)\<rparr>) (mg_options d)\<rparr>"
    let ?q = "\<lambda>d. mg_businessId d = Some bid \<and> nullish (Option.bind (?ov (mg_id d)) go_isActive) (mg_isActive d)"
    let ?h = "\<lambda>d. resolve_group rid False (?ov (mg_id d)) d"
    have eq: "load_groups_canonical ?md bid rid ids = js_map (map (\<lambda>d. (mg_id d, ?e d))
        (filter (\<lambda>d. mg_menuItemId d \<in> set ids \<and> ?q d) (md_groups ?md)))"
      unfolding load_groups_canonical_def Let_def filter_filter
      by (rule arg_cong [where f = js_map], rule map_cong)
        (auto simp: ov option_overrides_of_def resolve_option_def intro!: filter_cong)
    then have charged: "map_of (load_groups_canonical ?md bid rid ids) k = map_option ?e
        (Option.bind (find_one (\<lambda>d. mg_id d = k \<and> ?q d) (md_groups ?md)) (\<lambda>d. if mg_menuItemId d \<in> set ids then Some d else None))"
      by (simp add: map_of_keyed distinct_map_filter' dist find_one_filter find_guarded_group [OF dist])
    have listed: "listed_group (public_menu cmp bin s rid) k = map_option ?h (find_one (\<lambda>d. mg_id d = k \<and> ?q d) (md_groups ?md))"
      by (simp add: public_menu_def Some resolve_menu_for_location_def resolved_groups_alt Let_def listed_group_def
          listed_sorted [OF dist] resolve_group_def)
    have same: "same_group (?h d) (?e d)" for d
      by (rule same_options [where f = "?f d" and g = d]) (auto simp: resolve_group_def Let_def resolve_option_def)
    show ?thesis unfolding effective_menu_alt Some option.case snd_conv charged listed
      by (rule rel_listed [OF same]) (simp add: resolve_group_def Let_def)
  qed
qed

end
