(* ===== verification/Marketplace.thy ===== *)
theory Marketplace
  imports Order_Creation Menu_Resolution
begin

text \<open>
  Orders that customers place with Uber Eats, DoorDash or foodpanda: the webhook
  (\<open>marketplaceWebhook.controller.ts\<close>), the job that turns an event into an order
  (\<open>marketplaceOrderIngestion.service.ts\<close>, \<open>marketplaceCustomer.service.ts\<close>), the mapping of the menu
  (\<open>marketplaceMenuSync.service.ts\<close>) and the sweep for stuck events. A marketplace's adapter
  (\<open>MarketplaceProvider.ts\<close>) is a record of functions, and nothing is assumed of its answers.
\<close>

section \<open>Documents\<close>

datatype integration_status = I_Pending | I_Active | I_Action_Required | I_Awaiting_Provider | I_Invalid | I_Disconnected

record integration =
  in_id :: oid
  in_restaurantId :: oid
  in_provider :: string
  in_status :: integration_status
  in_externalStoreId :: "string option"
  in_lastMenuSyncedAt :: "time option"
  in_lastMenuSyncError :: "string option"

datatype mapping_type = Map_Category | Map_Menu_Item | Map_Modifier_Group | Map_Modifier_Option

record menu_mapping =
  mm_integrationId :: oid
  mm_restaurantId :: oid
  mm_provider :: string
  mm_type :: mapping_type
  mm_internalId :: oid
  mm_externalId :: string
  mm_lastSyncedAt :: "time option"

record market_event =
  we_provider :: string
  we_eventId :: string
  we_eventType :: string
  we_processedAt :: "time option"
  we_processingError :: "string option"
  we_processingStartedAt :: "time option"

record ingest_job =
  ij_provider :: string
  ij_integrationId :: oid
  ij_externalOrderId :: string
  ij_eventId :: string

text \<open>What was said to the marketplace, with the order it was about.\<close>

datatype market_call = Accept_Call string string string | Deny_Call string string string

record market_db =
  mx_db :: db
  mx_menu :: menu_db
  mx_categories :: "category list"
  mx_integrations :: "integration list"
  mx_mappings :: "menu_mapping list"
  mx_events :: "market_event list"
  mx_jobs :: "ingest_job list"
  mx_calls :: "market_call list"

section \<open>The adapter\<close>

record market_line =
  ml_externalItemId :: string
  ml_quantity :: int
  ml_modifiers :: "string list"

record market_order =
  mr_externalOrderId :: string
  mr_externalStoreId :: string
  mr_customerName :: "string option"
  mr_customerPhone :: "string option"
  mr_items :: "market_line list"
  mr_customerNotes :: "string option"

record webhook_event =
  wh_eventId :: string
  wh_eventType :: string
  wh_externalStoreId :: string
  wh_externalOrderId :: "string option"

record push_category =
  pc_externalId :: "string option"
  pc_internalId :: oid
  pc_name :: string
  pc_sortOrder :: int

record push_item =
  pt_externalId :: "string option"
  pt_internalId :: oid
  pt_name :: string
  pt_priceCents :: int
  pt_currency :: string
  pt_available :: bool
  pt_categoryExternalId :: string
  pt_categoryInternalId :: oid

record push_menu =
  pm_externalStoreId :: string
  pm_categories :: "push_category list"
  pm_items :: "push_item list"
  pm_serviceHours :: "hours_day list"

text \<open>The ids the marketplace answers with, as pairs of an internal and an external id.\<close>

record push_result =
  ps_categories :: "(oid \<times> string) list"
  ps_items :: "(oid \<times> string) list"

record market_api =
  ma_orderAccept :: bool
  ma_orderDeny :: bool
  ma_menuSync :: bool
  ma_verify :: "string \<Rightarrow> string option \<Rightarrow> webhook_event option"
  ma_fetch :: "string \<Rightarrow> string \<Rightarrow> string + market_order"
  ma_push :: "push_menu \<Rightarrow> string + push_result"

text \<open>What a request draws from outside. \<open>mv_adapter\<close> is \<open>getMarketplaceProvider\<close>, which has none for a
  provider without credentials.\<close>

record market_env =
  mv_order :: order_env
  mv_adapter :: "string \<Rightarrow> market_api option"
  mv_mock :: "string \<Rightarrow> bool"
  mv_mockAllowed :: bool
  mv_queueOk :: bool
  mv_newUserId :: oid

section \<open>The webhook\<close>

definition known_marketplaces :: "string list" where
  "known_marketplaces = [''uber_eats'', ''doordash'', ''foodpanda'']"

definition is_event :: "string \<Rightarrow> string \<Rightarrow> market_event \<Rightarrow> bool" where
  "is_event p i e \<longleftrightarrow> we_provider e = p \<and> we_eventId e = i"

definition update_event :: "string \<Rightarrow> string \<Rightarrow> (market_event \<Rightarrow> market_event) \<Rightarrow> market_db \<Rightarrow> market_db" where
  "update_event p i f d = d\<lparr>mx_events := update_one (is_event p i) f (mx_events d)\<rparr>"

definition mark_event_processed :: "time \<Rightarrow> string \<Rightarrow> string \<Rightarrow> market_db \<Rightarrow> market_db" where
  "mark_event_processed now p i = update_event p i (\<lambda>e. e\<lparr>we_processedAt := Some now\<rparr>)"

definition release_event :: "string \<Rightarrow> string \<Rightarrow> string \<Rightarrow> market_db \<Rightarrow> market_db" where
  "release_event p i message = update_event p i (\<lambda>e. e\<lparr>we_processingError := Some message, we_processingStartedAt := None\<rparr>)"

definition event_claimable :: "market_event \<Rightarrow> bool" where
  "event_claimable e \<longleftrightarrow> we_processedAt e = None \<and> we_processingStartedAt e = None"

definition claim_market_event :: "time \<Rightarrow> string \<Rightarrow> webhook_event \<Rightarrow> market_db \<Rightarrow> bool \<times> market_db" where
  "claim_market_event now p ev d =
     (case find_one (is_event p (wh_eventId ev)) (mx_events d) of
        None \<Rightarrow> (True, d\<lparr>mx_events := mx_events d @ [\<lparr>we_provider = p, we_eventId = wh_eventId ev,
           we_eventType = wh_eventType ev, we_processedAt = None, we_processingError = None,
           we_processingStartedAt = Some now\<rparr>]\<rparr>)
      | Some e \<Rightarrow>
          if event_claimable e
          then (True, update_event p (wh_eventId ev) (\<lambda>e. e\<lparr>we_processingStartedAt := Some now\<rparr>) d)
          else (False, d))"

definition active_integration_of_store :: "string \<Rightarrow> string \<Rightarrow> market_db \<Rightarrow> integration option" where
  "active_integration_of_store p store d =
     find_one (\<lambda>x. in_provider x = p \<and> in_externalStoreId x = Some store \<and> in_status x = I_Active) (mx_integrations d)"

text \<open>After the claim: either the event is done with, or its job is in the queue, or it is released
  for the retry of the marketplace.\<close>

definition dispatch_market_event :: "market_env \<Rightarrow> string \<Rightarrow> webhook_event \<Rightarrow> market_db \<Rightarrow> unit result \<times> market_db" where
  "dispatch_market_event env p ev d =
     (let now = oe_now (mv_order env) in
      case active_integration_of_store p (wh_externalStoreId ev) d of
        None \<Rightarrow> (Inr (), mark_event_processed now p (wh_eventId ev) d)
      | Some x \<Rightarrow>
          if \<not> truthy_string (wh_externalOrderId ev) then (Inr (), mark_event_processed now p (wh_eventId ev) d)
          else if \<not> mv_queueOk env then (Inl (Service_Unavailable ''retry''), release_event p (wh_eventId ev) ''queue'' d)
          else (Inr (), d\<lparr>mx_jobs := mx_jobs d @ [\<lparr>ij_provider = p, ij_integrationId = in_id x,
             ij_externalOrderId = the (wh_externalOrderId ev), ij_eventId = wh_eventId ev\<rparr>]\<rparr>))"

definition handle_marketplace_webhook ::
  "market_env \<Rightarrow> string \<Rightarrow> string \<Rightarrow> string option \<Rightarrow> market_db \<Rightarrow> unit result \<times> market_db" where
  "handle_marketplace_webhook env p body signature d =
     (if p \<notin> set known_marketplaces then (Inl (Bad_Request ''provider''), d)
      else if mv_mock env p \<and> \<not> mv_mockAllowed env then (Inl (Not_Found ''''), d)
      else case mv_adapter env p of
        None \<Rightarrow> (Inl (Bad_Request ''not configured''), d)
      | Some api \<Rightarrow> (case ma_verify api body signature of
          None \<Rightarrow> (Inl (Bad_Request ''signature''), d)
        | Some ev \<Rightarrow> (case claim_market_event (oe_now (mv_order env)) p ev d of
            (False, d1) \<Rightarrow> (Inr (), d1)
          | (True, d1) \<Rightarrow> dispatch_market_event env p ev d1)))"

section \<open>The job\<close>

definition find_mapping :: "oid \<Rightarrow> mapping_type \<Rightarrow> string \<Rightarrow> market_db \<Rightarrow> menu_mapping option" where
  "find_mapping i t ext d =
     find_one (\<lambda>m. mm_integrationId m = i \<and> mm_type m = t \<and> mm_externalId m = ext) (mx_mappings d)"

definition group_of_option :: "oid \<Rightarrow> market_db \<Rightarrow> modifier_group option" where
  "group_of_option opt d = find_one (\<lambda>g. list_ex (\<lambda>x. mo_id x = opt) (mg_options g)) (md_groups (mx_menu d))"

fun resolve_modifiers :: "oid \<Rightarrow> market_db \<Rightarrow> string list \<Rightarrow> modifier_selection list option" where
  "resolve_modifiers i d [] = Some []"
| "resolve_modifiers i d (ext # exts) =
     (case find_mapping i Map_Modifier_Option ext d of
        None \<Rightarrow> None
      | Some m \<Rightarrow> (case group_of_option (mm_internalId m) d of
          None \<Rightarrow> None
        | Some g \<Rightarrow> map_option (\<lambda>ss. \<lparr>ms_groupId = mg_id g, ms_optionId = mm_internalId m\<rparr> # ss)
            (resolve_modifiers i d exts)))"

definition resolve_line_item :: "oid \<Rightarrow> market_db \<Rightarrow> market_line \<Rightarrow> item_request option" where
  "resolve_line_item i d l =
     (case find_mapping i Map_Menu_Item (ml_externalItemId l) d of
        None \<Rightarrow> None
      | Some m \<Rightarrow> map_option (\<lambda>ss. \<lparr>ir_menuItemId = mm_internalId m, ir_quantity = ml_quantity l,
           ir_selectedModifiers = ss, ir_specialInstructions = None\<rparr>) (resolve_modifiers i d (ml_modifiers l)))"

fun resolve_line_items :: "oid \<Rightarrow> market_db \<Rightarrow> market_line list \<Rightarrow> item_request list option" where
  "resolve_line_items i d [] = Some []"
| "resolve_line_items i d (l # ls) =
     (case resolve_line_item i d l of
        None \<Rightarrow> None
      | Some r \<Rightarrow> map_option (\<lambda>rs. r # rs) (resolve_line_items i d ls))"

text \<open>\<open>resolveMarketplaceCustomerId\<close>: a new account per order, under a random address.\<close>

definition resolve_marketplace_customer :: "market_env \<Rightarrow> market_order \<Rightarrow> db \<Rightarrow> oid result \<times> db" where
  "resolve_marketplace_customer env o' d =
     (let name = js_trim (if truthy_string (mr_customerName o') then the (mr_customerName o') else ''Marketplace customer'') in
      if name = [] then (Inl (Thrown ''name required''), d)
      else (Inr (mv_newUserId env), d\<lparr>db_users := db_users d @
        [\<lparr>u_id = mv_newUserId env, u_name = name, u_phone = mr_customerPhone o'\<rparr>]\<rparr>))"

definition market_params :: "integration \<Rightarrow> oid \<Rightarrow> market_order \<Rightarrow> item_request list \<Rightarrow> create_params" where
  "market_params x customer o' items =
     \<lparr>cp_restaurantId = in_restaurantId x, cp_customerId = customer, cp_channel = Marketplace_Channel,
      cp_items = items, cp_orderType = Pickup, cp_paymentMethod = Marketplace_Pay, cp_deliveryAddress = None,
      cp_tableToken = None, cp_tableId = None, cp_customerNotes = mr_customerNotes o', cp_redeemPoints = 0,
      cp_promoCode = None, cp_isDemoAccount = False, cp_markPaidImmediately = True, cp_createdByUserId = None,
      cp_marketplace = Some \<lparr>mk_provider = in_provider x, mk_integrationId = in_id x,
        mk_externalOrderId = mr_externalOrderId o', mk_externalStoreId = mr_externalStoreId o'\<rparr>\<rparr>"

text \<open>Up to the stored order. A duplicate key means that the order is there already.\<close>

datatype placement = Placed | Already_Placed

definition place_market_order ::
  "market_env \<Rightarrow> integration \<Rightarrow> market_order \<Rightarrow> item_request list \<Rightarrow> market_db \<Rightarrow> placement result \<times> market_db" where
  "place_market_order env x o' items d =
     (case resolve_marketplace_customer env o' (mx_db d) of
        (Inl e, d1) \<Rightarrow> (Inl e, d\<lparr>mx_db := d1\<rparr>)
      | (Inr customer, d1) \<Rightarrow>
          (case create_order_for_customer ((mv_order env)\<lparr>oe_menu := mx_menu d\<rparr>) (market_params x customer o' items) d1 of
             (Inr y, d2) \<Rightarrow> (Inr Placed, d\<lparr>mx_db := d2\<rparr>)
           | (Inl e, d2) \<Rightarrow> (if e = Thrown ''E11000'' then Inr Already_Placed else Inl e, d\<lparr>mx_db := d2\<rparr>)))"

definition call_market :: "market_call \<Rightarrow> market_db \<Rightarrow> market_db" where
  "call_market c d = d\<lparr>mx_calls := mx_calls d @ [c]\<rparr>"

definition deny_order :: "market_api \<Rightarrow> string \<Rightarrow> string \<Rightarrow> string \<Rightarrow> market_db \<Rightarrow> market_db" where
  "deny_order api p store ext d = (if ma_orderDeny api then call_market (Deny_Call p store ext) d else d)"

definition accept_order :: "market_api \<Rightarrow> string \<Rightarrow> string \<Rightarrow> string \<Rightarrow> market_db \<Rightarrow> market_db" where
  "accept_order api p store ext d = (if ma_orderAccept api then call_market (Accept_Call p store ext) d else d)"

definition active_integration :: "ingest_job \<Rightarrow> market_db \<Rightarrow> integration option" where
  "active_integration j d =
     find_one (\<lambda>x. in_id x = ij_integrationId j \<and> in_provider x = ij_provider j \<and> in_status x = I_Active) (mx_integrations d)"

definition ingest_inner :: "market_env \<Rightarrow> ingest_job \<Rightarrow> market_db \<Rightarrow> unit result \<times> market_db" where
  "ingest_inner env j d =
     (let p = ij_provider j; ext = ij_externalOrderId j;
          finish = mark_event_processed (oe_now (mv_order env)) p (ij_eventId j) in
      case active_integration j d of
        None \<Rightarrow> (Inr (), finish d)
      | Some x \<Rightarrow> (case mv_adapter env p of
          None \<Rightarrow> (Inl (Thrown ''not configured''), d)
        | Some api \<Rightarrow>
            if \<not> truthy_string (in_externalStoreId x) then (Inr (), finish d)
            else (case ma_fetch api (the (in_externalStoreId x)) ext of
               Inl e \<Rightarrow> (Inl (Thrown e), d)
             | Inr o' \<Rightarrow> (case resolve_line_items (in_id x) d (mr_items o') of
                 None \<Rightarrow> (Inr (), finish (deny_order api p (the (in_externalStoreId x)) ext d))
               | Some items \<Rightarrow> (case place_market_order env x o' items d of
                   (Inl e, d1) \<Rightarrow> (Inl e, d1)
                 | (Inr Already_Placed, d1) \<Rightarrow> (Inr (), finish d1)
                 | (Inr Placed, d1) \<Rightarrow> (Inr (), finish (accept_order api p (the (in_externalStoreId x)) ext d1)))))))"

fun error_text :: "api_error \<Rightarrow> string" where
  "error_text (Bad_Request s) = s"
| "error_text (Unauthorized s) = s"
| "error_text (Forbidden s) = s"
| "error_text (Not_Found s) = s"
| "error_text (Conflict s) = s"
| "error_text (Gone s) = s"
| "error_text (Service_Unavailable s) = s"
| "error_text (Thrown s) = s"

definition ingest_marketplace_order :: "market_env \<Rightarrow> ingest_job \<Rightarrow> market_db \<Rightarrow> unit result \<times> market_db" where
  "ingest_marketplace_order env j d =
     (case ingest_inner env j d of
        (Inl e, d1) \<Rightarrow> (Inl e, release_event (ij_provider j) (ij_eventId j) (error_text e) d1)
      | (Inr _, d1) \<Rightarrow> (Inr (), d1))"

text \<open>The worker takes the first job. The job is added without a number of attempts, and the queue
  gives a job one when it is not told otherwise: the job is gone whether it succeeds or fails. A
  worker that dies takes nothing out of the queue; \<open>crash_after_placing\<close> is the state it leaves when
  it dies between storing the order and accepting it.\<close>

definition run_ingest_job :: "market_env \<Rightarrow> market_db \<Rightarrow> market_db" where
  "run_ingest_job env d =
     (case mx_jobs d of
        [] \<Rightarrow> d
      | j # js \<Rightarrow> snd (ingest_marketplace_order env j (d\<lparr>mx_jobs := js\<rparr>)))"

definition crash_after_placing :: "market_env \<Rightarrow> market_db \<Rightarrow> market_db" where
  "crash_after_placing env d =
     (case mx_jobs d of
        [] \<Rightarrow> d
      | j # js \<Rightarrow> (case (active_integration j d, mv_adapter env (ij_provider j)) of
          (Some x, Some api) \<Rightarrow>
            if \<not> truthy_string (in_externalStoreId x) then d else (case ma_fetch api (the (in_externalStoreId x)) (ij_externalOrderId j) of
             Inl e \<Rightarrow> d
           | Inr o' \<Rightarrow> (case resolve_line_items (in_id x) d (mr_items o') of
               None \<Rightarrow> d
             | Some items \<Rightarrow> snd (place_market_order env x o' items d)))
        | _ \<Rightarrow> d))"

text \<open>\<open>checkForStuckMarketplaceWebhookEvents\<close> only reports.\<close>

definition stuck_threshold_ms :: int where
  "stuck_threshold_ms = 2 * 60 * 1000"

definition stuck_events :: "time \<Rightarrow> market_db \<Rightarrow> market_event list" where
  "stuck_events now d =
     filter (\<lambda>e. (case we_processingStartedAt e of None \<Rightarrow> False | Some t \<Rightarrow> t < now - stuck_threshold_ms) \<and>
       we_processedAt e = None) (mx_events d)"

section \<open>The menu\<close>

text \<open>The scope a location's menu is stored under.\<close>

definition in_scope :: "restaurant \<Rightarrow> oid \<Rightarrow> oid option \<Rightarrow> oid option \<Rightarrow> bool" where
  "in_scope r rid doc_restaurant doc_business \<longleftrightarrow>
     (if truthy_string (res_businessId r) then doc_business = res_businessId r else doc_restaurant = Some rid)"

definition external_ids :: "oid \<Rightarrow> market_db \<Rightarrow> (oid \<times> string) list" where
  "external_ids i d =
     js_map (map (\<lambda>m. (mm_internalId m, mm_externalId m))
       (filter (\<lambda>m. mm_integrationId m = i \<and> (mm_type m = Map_Category \<or> mm_type m = Map_Menu_Item)) (mx_mappings d)))"

definition menu_push :: "integration \<Rightarrow> string \<Rightarrow> restaurant \<Rightarrow> market_db \<Rightarrow> push_menu" where
  "menu_push x store r d =
     (let known = external_ids (in_id x) d;
          categories = sort_key cat_sortOrder
            (filter (\<lambda>c. in_scope r (in_restaurantId x) (cat_restaurantId c) (cat_businessId c) \<and> cat_isActive c) (mx_categories d));
          items = filter (\<lambda>i. in_scope r (in_restaurantId x) (mi_restaurantId i) (mi_businessId i) \<and> mi_isAvailable i)
            (md_items (mx_menu d)) in
      \<lparr>pm_externalStoreId = store,
       pm_categories = map (\<lambda>c. \<lparr>pc_externalId = map_of known (cat_id c), pc_internalId = cat_id c,
         pc_name = cat_name c, pc_sortOrder = cat_sortOrder c\<rparr>) categories,
       pm_items = map (\<lambda>i. \<lparr>pt_externalId = map_of known (mi_id i), pt_internalId = mi_id i, pt_name = mi_name i,
         pt_priceCents = js_round (mi_price i * 100), pt_currency = rs_currency (res_settings r),
         pt_available = mi_isAvailable i, pt_categoryExternalId = nullish (map_of known (mi_categoryId i)) [],
         pt_categoryInternalId = mi_categoryId i\<rparr>) items,
       pm_serviceHours = rs_businessHours (res_settings r)\<rparr>)"

text \<open>An upsert by integration, type and internal id, under the unique index of the external id. The
  upserts of one answer are started together: one that is refused does not stop the others.\<close>

definition upsert_mapping :: "menu_mapping \<Rightarrow> menu_mapping list \<Rightarrow> menu_mapping list option" where
  "upsert_mapping m ms =
     (let same = (\<lambda>x. mm_integrationId x = mm_integrationId m \<and> mm_type x = mm_type m \<and> mm_internalId x = mm_internalId m) in
      if list_ex (\<lambda>x. \<not> same x \<and> mm_integrationId x = mm_integrationId m \<and> mm_type x = mm_type m \<and>
           mm_externalId x = mm_externalId m) ms then None
      else if list_ex same ms then Some (update_one same (\<lambda>_. m) ms)
      else Some (ms @ [m]))"

fun upsert_mappings :: "menu_mapping list \<Rightarrow> menu_mapping list \<Rightarrow> bool \<times> menu_mapping list" where
  "upsert_mappings [] ms = (True, ms)"
| "upsert_mappings (n # ns) ms =
     (case upsert_mapping n ms of
        None \<Rightarrow> (False, snd (upsert_mappings ns ms))
      | Some ms' \<Rightarrow> upsert_mappings ns ms')"

definition answer_mapping :: "time \<Rightarrow> integration \<Rightarrow> mapping_type \<Rightarrow> oid \<times> string \<Rightarrow> menu_mapping" where
  "answer_mapping now x t p =
     \<lparr>mm_integrationId = in_id x, mm_restaurantId = in_restaurantId x, mm_provider = in_provider x, mm_type = t,
      mm_internalId = fst p, mm_externalId = snd p, mm_lastSyncedAt = Some now\<rparr>"

definition answer_mappings :: "time \<Rightarrow> integration \<Rightarrow> push_result \<Rightarrow> menu_mapping list" where
  "answer_mappings now x a =
     map (answer_mapping now x Map_Category) (ps_categories a) @ map (answer_mapping now x Map_Menu_Item) (ps_items a)"

definition update_integration :: "oid \<Rightarrow> (integration \<Rightarrow> integration) \<Rightarrow> market_db \<Rightarrow> market_db" where
  "update_integration i f d = d\<lparr>mx_integrations := update_one (\<lambda>x. in_id x = i) f (mx_integrations d)\<rparr>"

definition sync_failed :: "oid \<Rightarrow> string \<Rightarrow> market_db \<Rightarrow> (nat \<times> nat) result \<times> market_db" where
  "sync_failed i message d = (Inl (Thrown message), update_integration i (\<lambda>x. x\<lparr>in_lastMenuSyncError := Some message\<rparr>) d)"

definition sync_menu_to_marketplace :: "market_env \<Rightarrow> oid \<Rightarrow> market_db \<Rightarrow> (nat \<times> nat) result \<times> market_db" where
  "sync_menu_to_marketplace env i d =
     (case find_one (\<lambda>x. in_id x = i) (mx_integrations d) of
        None \<Rightarrow> (Inl (Not_Found ''integration''), d)
      | Some x \<Rightarrow>
          if \<not> truthy_string (in_externalStoreId x) then (Inl (Bad_Request ''store''), d)
          else (case find_one (\<lambda>r. res_id r = in_restaurantId x) (db_restaurants (mx_db d)) of
            None \<Rightarrow> (Inl (Not_Found ''restaurant''), d)
          | Some r \<Rightarrow> (case mv_adapter env (in_provider x) of
              None \<Rightarrow> (Inl (Thrown ''not configured''), d)
            | Some api \<Rightarrow>
                if \<not> ma_menuSync api then (Inl (Bad_Request ''menu sync''), d)
                else (case ma_push api (menu_push x (the (in_externalStoreId x)) r d) of
                   Inl e \<Rightarrow> sync_failed i e d
                 | Inr a \<Rightarrow>
                     let now = oe_now (mv_order env);
                         (ok, ms) = upsert_mappings (answer_mappings now x a) (mx_mappings d);
                         d1 = d\<lparr>mx_mappings := ms\<rparr> in
                     if ok then (Inr (length (ps_categories a), length (ps_items a)),
                       update_integration i (\<lambda>x. x\<lparr>in_lastMenuSyncedAt := Some now, in_lastMenuSyncError := None\<rparr>) d1)
                     else sync_failed i ''E11000'' d1))))"

end
