(* ===== verification/Marketplace_Safety.thy ===== *)
theory Marketplace_Safety
  imports Marketplace
begin

text \<open>
  Runs of the marketplace handlers, of workers that die and of whatever else happens on the
  platform: an external order becomes at most one order and is accepted at most once, an event in
  flight has its job in the queue, and the synchronisation of the menu is what makes an external
  item known.
\<close>

section \<open>Runs\<close>

text \<open>The orders of marketplaces, by their external names.\<close>

definition market_refs :: "db \<Rightarrow> (string \<times> string) list" where
  "market_refs d = List.map_filter (\<lambda>x. map_option (\<lambda>m. (mk_provider m, mk_externalOrderId m)) (o_marketplace x)) (db_orders d)"

fun accepted_ref :: "market_call \<Rightarrow> (string \<times> string) option" where
  "accepted_ref (Accept_Call p store ext) = Some (p, ext)"
| "accepted_ref (Deny_Call p store ext) = None"

definition accepted_refs :: "market_db \<Rightarrow> (string \<times> string) list" where
  "accepted_refs d = List.map_filter accepted_ref (mx_calls d)"

text \<open>A documented duty of a marketplace: the order it hands out is the one that was asked for.\<close>

definition answers_what_is_asked :: "market_env \<Rightarrow> bool" where
  "answers_what_is_asked env \<longleftrightarrow> (\<forall>p api store ext o'. mv_adapter env p = Some api \<longrightarrow>
     ma_fetch api store ext = Inr o' \<longrightarrow> mr_externalOrderId o' = ext)"

inductive market_step :: "market_env \<Rightarrow> market_db \<Rightarrow> market_db \<Rightarrow> bool" for env d where
  webhook: "market_step env d (snd (handle_marketplace_webhook env p body signature d))"
| job: "market_step env d (run_ingest_job env d)"
| crash: "market_step env d (crash_after_placing env d)"
| sync: "market_step env d (snd (sync_menu_to_marketplace env i d))"
| elsewhere: "market_refs (mx_db d') = market_refs (mx_db d) \<Longrightarrow> mx_events d' = mx_events d \<Longrightarrow>
    mx_mappings d' = mx_mappings d \<Longrightarrow> mx_jobs d' = mx_jobs d \<Longrightarrow> mx_calls d' = mx_calls d \<Longrightarrow> market_step env d d'"

inductive market_run :: "market_db \<Rightarrow> market_db \<Rightarrow> bool" for d where
  run_refl: "market_run d d"
| run_step: "market_run d d1 \<Longrightarrow> answers_what_is_asked env \<Longrightarrow> market_step env d1 d2 \<Longrightarrow> market_run d d2"

locale market_invariant =
  fixes P :: "market_db \<Rightarrow> bool"
  assumes kept: "answers_what_is_asked env \<Longrightarrow> P d \<Longrightarrow> market_step env d d' \<Longrightarrow> P d'"
begin

lemma run_kept: "market_run d d' \<Longrightarrow> P d \<Longrightarrow> P d'"
  by (induction rule: market_run.induct) (auto intro: kept)

end

section \<open>One order, one acceptance\<close>

lemma created_order_stored:
  assumes "create_order_for_customer env p d = (Inr x, d')"
  shows "db_orders d' = db_orders d @ [x]" "o_marketplace x = cp_marketplace p" "\<forall>z \<in> set (db_orders d). \<not> order_clash x z"
proof -
  have "\<exists>(q :: priced_request) d1 d2. order_effects p (build_order env p (res_settings (pq_restaurant q))
       (1000 + counter_seq (res_id (pq_restaurant q)) d + 1) (pq_items q) (pq_totals q)
       (map_option fst (pq_promo q)) (pq_table q) (pq_distance q) (pq_phone q)) (map_option fst (pq_promo q)) d1 = (Inr x, d2) \<and>
       d' = emit_order_event (created_event x) d2 \<and> db_orders d1 = db_orders d"
    by (rule create_order_InrE [OF assms]) blast
  then obtain q :: priced_request and d1 d2 where eff: "order_effects p (build_order env p (res_settings (pq_restaurant q))
       (1000 + counter_seq (res_id (pq_restaurant q)) d + 1) (pq_items q) (pq_totals q)
       (map_option fst (pq_promo q)) (pq_table q) (pq_distance q) (pq_phone q)) (map_option fst (pq_promo q)) d1 = (Inr x, d2)"
    (is "order_effects p ?b _ _ = _")
    and d': "d' = emit_order_event (created_event x) d2" "db_orders d1 = db_orders d" by blast
  from order_effects_stored [OF eff] obtain e where x: "x = ?b\<lparr>o_loyaltyPointsEarned := e\<rparr>"
    and st: "db_orders d2 = db_orders d1 @ [x]" by blast
  from st d' show "db_orders d' = db_orders d @ [x]" by (simp add: emit_order_event_def)
  show "o_marketplace x = cp_marketplace p" by (simp add: x build_order_def)
  have "\<forall>z \<in> set (db_orders d1). \<not> order_clash ?b z" by (rule order_effects_InrE [OF eff])
  then show "\<forall>z \<in> set (db_orders d). \<not> order_clash x z" unfolding d'(2) by (simp add: x order_clash_def)
qed

lemma refused_order_unchanged: "create_order_for_customer env p d = (Inl e, d') \<Longrightarrow> d' = d"
  by (auto simp: create_order_for_customer_def order_transaction_def Let_def split: sum.splits prod.splits)

definition refs_ok :: "market_db \<Rightarrow> bool" where
  "refs_ok d \<longleftrightarrow> distinct (market_refs (mx_db d)) \<and> distinct (accepted_refs d) \<and>
     set (accepted_refs d) \<subseteq> set (market_refs (mx_db d))"

lemma market_refs_users [simp]: "market_refs (d\<lparr>db_users := us\<rparr>) = market_refs d"
  by (simp add: market_refs_def)

lemma customer_refs: "market_refs (snd (resolve_marketplace_customer env o' d)) = market_refs d"
  by (simp add: resolve_marketplace_customer_def Let_def)

text \<open>What placing does to the references: one more, a new one, or none.\<close>

lemma place_cases:
  assumes "place_market_order env x o' items d = (r, d')"
  obtains "r = Inr Placed" "market_refs (mx_db d') = market_refs (mx_db d) @ [(in_provider x, mr_externalOrderId o')]"
      "(in_provider x, mr_externalOrderId o') \<notin> set (market_refs (mx_db d))" "d' = d\<lparr>mx_db := mx_db d'\<rparr>"
  | "r \<noteq> Inr Placed" "market_refs (mx_db d') = market_refs (mx_db d)" "d' = d\<lparr>mx_db := mx_db d'\<rparr>"
proof -
  obtain rc d1 where c: "resolve_marketplace_customer env o' (mx_db d) = (rc, d1)" by fastforce
  then have refs: "market_refs d1 = market_refs (mx_db d)" using customer_refs by (metis snd_conv)
  show thesis
  proof (cases rc)
    case (Inl e)
    then show ?thesis using that(2) assms c refs by (auto simp: place_market_order_def)
  next
    case (Inr customer)
    let ?p = "market_params x customer o' items"
    obtain ro d2 where o: "create_order_for_customer ((mv_order env)\<lparr>oe_menu := mx_menu d\<rparr>) ?p d1 = (ro, d2)" by fastforce
    show ?thesis
    proof (cases ro)
      case (Inl e)
      then have "d2 = d1" using o refused_order_unchanged by blast
      then show ?thesis using that(2) assms c Inr o Inl refs by (auto simp: place_market_order_def split: if_splits)
    next
      case (Inr y)
      note st = created_order_stored [OF o [unfolded Inr]]
      have "market_refs d2 = market_refs d1 @ [(in_provider x, mr_externalOrderId o')]"
        using st(1,2) by (simp add: market_refs_def market_params_def List.map_filter_def)
      moreover have "(in_provider x, mr_externalOrderId o') \<notin> set (market_refs d1)"
        using st(2,3) by (fastforce simp: market_refs_def market_params_def List.map_filter_def order_clash_def)
      ultimately show ?thesis using that(1) assms c \<open>rc = Inr customer\<close> o Inr refs
        by (auto simp: place_market_order_def)
    qed
  qed
qed

lemma refs_ok_cong:
  "market_refs (mx_db d') = market_refs (mx_db d) \<Longrightarrow> mx_calls d' = mx_calls d \<Longrightarrow> refs_ok d' = refs_ok d"
  by (simp add: refs_ok_def accepted_refs_def)

lemma event_fields [simp]:
  "mx_db (update_event p i f d) = mx_db d" "mx_calls (update_event p i f d) = mx_calls d"
  "mx_jobs (update_event p i f d) = mx_jobs d" "mx_mappings (update_event p i f d) = mx_mappings d"
  "mx_db (mark_event_processed now p i d) = mx_db d" "mx_calls (mark_event_processed now p i d) = mx_calls d"
  "mx_jobs (mark_event_processed now p i d) = mx_jobs d" "mx_mappings (mark_event_processed now p i d) = mx_mappings d"
  "mx_db (release_event p i m d) = mx_db d" "mx_calls (release_event p i m d) = mx_calls d"
  "mx_jobs (release_event p i m d) = mx_jobs d" "mx_mappings (release_event p i m d) = mx_mappings d"
  by (simp_all add: update_event_def mark_event_processed_def release_event_def)

lemma webhook_frame:
  "mx_db (snd (handle_marketplace_webhook env p body sig d)) = mx_db d \<and>
   mx_calls (snd (handle_marketplace_webhook env p body sig d)) = mx_calls d \<and>
   mx_mappings (snd (handle_marketplace_webhook env p body sig d)) = mx_mappings d"
  by (auto simp: handle_marketplace_webhook_def claim_market_event_def dispatch_market_event_def Let_def
      split: option.splits bool.splits prod.splits if_splits)

lemma sync_frame:
  "mx_db (snd (sync_menu_to_marketplace env i d)) = mx_db d \<and> mx_calls (snd (sync_menu_to_marketplace env i d)) = mx_calls d \<and>
   mx_events (snd (sync_menu_to_marketplace env i d)) = mx_events d \<and> mx_jobs (snd (sync_menu_to_marketplace env i d)) = mx_jobs d"
  by (auto simp: sync_menu_to_marketplace_def sync_failed_def update_integration_def Let_def
      split: option.splits sum.splits prod.splits if_splits)

end
