(* ===== verification/Marketplace_Behaviour.thy ===== *)
theory Marketplace_Behaviour
  imports Marketplace_Safety
begin

text \<open>What the marketplace handlers promise over every run, on top of the frames of the single steps.\<close>

section \<open>One order, one acceptance\<close>

lemma db_only_calls: "d' = d\<lparr>mx_db := x\<rparr> \<Longrightarrow> accepted_refs d' = accepted_refs d"
  by (simp add: accepted_refs_def)

lemma place_refs_ok: "refs_ok d \<Longrightarrow> refs_ok (snd (place_market_order env x o' items d))"
proof -
  assume ok: "refs_ok d"
  obtain r d' where p: "place_market_order env x o' items d = (r, d')" by fastforce
  from p show ?thesis
  proof (cases rule: place_cases)
    case 1
    with db_only_calls [OF 1(4)] ok show ?thesis by (auto simp: p refs_ok_def)
  next
    case 2
    with db_only_calls [OF 2(3)] ok show ?thesis by (simp add: p refs_ok_def)
  qed
qed

lemma crash_refs_ok: "refs_ok d \<Longrightarrow> refs_ok (crash_after_placing env d)"
  by (auto simp: crash_after_placing_def split: list.splits option.splits sum.splits intro: place_refs_ok)

lemma denied_refs [simp]: "mx_db (deny_order api p st e d) = mx_db d"
  "accepted_refs (deny_order api p st e d) = accepted_refs d"
  by (simp_all add: deny_order_def call_market_def accepted_refs_def List.map_filter_def)

lemma accepted_refs_accept: "accepted_refs (accept_order api p st e d) =
    accepted_refs d @ (if ma_orderAccept api then [(p, e)] else [])"
  by (simp add: accept_order_def call_market_def accepted_refs_def List.map_filter_def)

lemma accept_db [simp]: "mx_db (accept_order api p st e d) = mx_db d"
  by (simp add: accept_order_def call_market_def)

text \<open>The branches of a job, as one case rule: it leaves orders and acceptances alone, denies, or places.\<close>

lemma ingest_cases:
  obtains (finished) now where "ingest_inner env j d = (Inr (), mark_event_processed now (ij_provider j) (ij_eventId j) d)"
  | (failed) e where "ingest_inner env j d = (Inl e, d)"
  | (denied) api store now where "ingest_inner env j d = (Inr (), mark_event_processed now (ij_provider j) (ij_eventId j)
       (deny_order api (ij_provider j) store (ij_externalOrderId j) d))"
  | (placing) x api o' items now where "active_integration j d = Some x" "mv_adapter env (ij_provider j) = Some api"
      "ma_fetch api (the (in_externalStoreId x)) (ij_externalOrderId j) = Inr o'"
      "resolve_line_items (in_id x) d (mr_items o') = Some items"
      "ingest_inner env j d = (case place_market_order env x o' items d of
         (Inl e, d1) \<Rightarrow> (Inl e, d1)
       | (Inr Already_Placed, d1) \<Rightarrow> (Inr (), mark_event_processed now (ij_provider j) (ij_eventId j) d1)
       | (Inr Placed, d1) \<Rightarrow> (Inr (), mark_event_processed now (ij_provider j) (ij_eventId j)
           (accept_order api (ij_provider j) (the (in_externalStoreId x)) (ij_externalOrderId j) d1)))"
proof -
  note i = ingest_inner_def [of env j d, unfolded Let_def]
  show thesis
  proof (cases "active_integration j d")
    case None
    then show ?thesis using finished by (simp add: i)
  next
    case x: (Some x)
    show ?thesis
    proof (cases "mv_adapter env (ij_provider j)")
      case None
      then show ?thesis using failed x by (simp add: i)
    next
      case api: (Some api)
      show ?thesis
      proof (cases "truthy_string (in_externalStoreId x)")
        case False
        then show ?thesis using finished x api by (simp add: i)
      next
        case True
        show ?thesis
        proof (cases "ma_fetch api (the (in_externalStoreId x)) (ij_externalOrderId j)")
          case (Inl e)
          then show ?thesis using failed x api True by (simp add: ingest_inner_def Let_def)
        next
          case o': (Inr o')
          show ?thesis
          proof (cases "resolve_line_items (in_id x) d (mr_items o')")
            case None
            then show ?thesis using denied x api True o' by (simp add: ingest_inner_def Let_def)
          next
            case (Some items)
            show ?thesis
              by (rule placing [OF x api o' Some])
                (simp add: ingest_inner_def Let_def x api o' Some True)
          qed
        qed
      qed
    qed
  qed
qed

lemma processed_accepted [simp]: "accepted_refs (mark_event_processed now p i d) = accepted_refs d"
  by (simp add: accepted_refs_def)

lemma processed_refs [simp]: "refs_ok (mark_event_processed now p i d) = refs_ok d"
  "refs_ok (release_event p i m d) = refs_ok d"
  by (rule refs_ok_cong; simp)+

lemma ingest_refs_ok:
  assumes h: "answers_what_is_asked env" and ok: "refs_ok d"
  shows "refs_ok (snd (ingest_inner env j d))"
proof (cases env j d rule: ingest_cases)
  case (placing x api o' items now)
  have ext: "mr_externalOrderId o' = ij_externalOrderId j"
    using h placing(2,3) unfolding answers_what_is_asked_def by blast
  have prov: "in_provider x = ij_provider j"
    using placing(1) by (auto simp: active_integration_def dest: find_one_SomeD)
  obtain r d1 where p: "place_market_order env x o' items d = (r, d1)" by fastforce
  have ok1: "refs_ok d1" using place_refs_ok [OF ok, of env x o' items] by (simp add: p)
  from p show ?thesis
  proof (cases rule: place_cases)
    case 1
    have "(ij_provider j, ij_externalOrderId j) \<notin> set (accepted_refs d1)"
      using ok 1(3) db_only_calls [OF 1(4)] by (auto simp: refs_ok_def prov ext)
    then show ?thesis using ok1 1(1,2)
      by (auto simp: placing(5) p refs_ok_def accepted_refs_accept prov ext)
  next
    case 2
    then show ?thesis using ok1 by (auto simp: placing(5) p split: sum.splits placement.splits)
  qed
qed (use ok in \<open>simp_all add: refs_ok_def\<close>)

lemma job_refs_ok:
  assumes "answers_what_is_asked env" "refs_ok d"
  shows "refs_ok (run_ingest_job env d)"
proof (cases "mx_jobs d")
  case (Cons j js)
  have "refs_ok (d\<lparr>mx_jobs := js\<rparr>)" using assms(2) refs_ok_cong [of "d\<lparr>mx_jobs := js\<rparr>" d] by simp
  from ingest_refs_ok [OF assms(1) this, of j]
  have "refs_ok (snd (ingest_marketplace_order env j (d\<lparr>mx_jobs := js\<rparr>)))"
    by (auto simp: ingest_marketplace_order_def split: sum.splits prod.splits)
  then show ?thesis by (simp add: run_ingest_job_def Cons)
qed (simp add: run_ingest_job_def assms(2))

lemma step_refs_ok:
  assumes "answers_what_is_asked env" "refs_ok d" "market_step env d d'"
  shows "refs_ok d'"
proof -
  have same: "market_refs (mx_db d') = market_refs (mx_db d) \<Longrightarrow> mx_calls d' = mx_calls d \<Longrightarrow> ?thesis"
    using assms(2) refs_ok_cong [of d' d] by blast
  from assms(3) show ?thesis
  proof cases
    case (webhook p body sig)
    show ?thesis by (rule same) (use webhook_frame [of env p body sig d] webhook in simp_all)
  next
    case job
    then show ?thesis using job_refs_ok [OF assms(1,2)] by simp
  next
    case crash
    then show ?thesis using crash_refs_ok [OF assms(2)] by simp
  next
    case (sync i)
    show ?thesis by (rule same) (use sync_frame [of env i d] sync in simp_all)
  next
    case elsewhere
    show ?thesis by (rule same) (use elsewhere in simp_all)
  qed
qed

interpretation refs: market_invariant refs_ok
  by unfold_locales (rule step_refs_ok)

section \<open>Events in flight\<close>

definition in_flight :: "market_event \<Rightarrow> bool" where
  "in_flight e \<longleftrightarrow> we_processedAt e = None \<and> we_processingStartedAt e \<noteq> None"

definition event_key :: "market_event \<Rightarrow> string \<times> string" where
  "event_key e = (we_provider e, we_eventId e)"

definition job_key :: "ingest_job \<Rightarrow> string \<times> string" where
  "job_key j = (ij_provider j, ij_eventId j)"

text \<open>The events are unique by provider and id, and each one in flight has its job in the queue.\<close>

definition events_ok :: "market_db \<Rightarrow> bool" where
  "events_ok d \<longleftrightarrow> distinct (map event_key (mx_events d)) \<and>
     (\<forall>e \<in> set (mx_events d). in_flight e \<longrightarrow> event_key e \<in> job_key ` set (mx_jobs d))"


lemma update_one_distinct: "distinct (map k xs) \<Longrightarrow>
    update_one (\<lambda>x. k x = c) f xs = map (\<lambda>x. if k x = c then f x else x) xs"
proof (induction xs)
  case (Cons x xs)
  show ?case
  proof (cases "k x = c")
    case True
    then have "map (\<lambda>x. if k x = c then f x else x) xs = xs"
      using Cons.prems by (intro map_idI) (auto simp: image_iff)
    then show ?thesis using True by simp
  qed (use Cons in simp)
qed simp




lemma place_frame: "snd (place_market_order env x o' items d) = d\<lparr>mx_db := mx_db (snd (place_market_order env x o' items d))\<rparr>"
proof -
  obtain r d' where p: "place_market_order env x o' items d = (r, d')" by fastforce
  then have "d' = d\<lparr>mx_db := mx_db d'\<rparr>" by (cases rule: place_cases)
  then show ?thesis by (simp add: p)
qed

lemma place_fields [simp]:
  "mx_events (snd (place_market_order env x o' items d)) = mx_events d"
  "mx_jobs (snd (place_market_order env x o' items d)) = mx_jobs d"
  "mx_mappings (snd (place_market_order env x o' items d)) = mx_mappings d"
  using place_frame [of env x o' items d] by (metis market_db.select_convs market_db.surjective market_db.update_convs(1))+

lemma place_event: "place_market_order env x o' items d = (r, d1) \<Longrightarrow>
    mx_events d1 = mx_events d \<and> mx_jobs d1 = mx_jobs d \<and> mx_mappings d1 = mx_mappings d"
  using place_fields [of env x o' items d] by simp

lemma call_fields [simp]:
  "mx_events (deny_order api p st e d) = mx_events d" "mx_jobs (deny_order api p st e d) = mx_jobs d"
  "mx_mappings (deny_order api p st e d) = mx_mappings d"
  "mx_events (accept_order api p st e d) = mx_events d" "mx_jobs (accept_order api p st e d) = mx_jobs d"
  "mx_mappings (accept_order api p st e d) = mx_mappings d"
  by (simp_all add: deny_order_def accept_order_def call_market_def)

lemma update_event_cong: "mx_events d1 = mx_events d \<Longrightarrow> mx_events (update_event p i f d1) = mx_events (update_event p i f d)"
  by (simp add: update_event_def)

text \<open>A job ends the flight of its event, whatever happens to it, and touches no other event.\<close>

definition landing :: "(market_event \<Rightarrow> market_event) \<Rightarrow> bool" where
  "landing f \<longleftrightarrow> (\<forall>e. event_key (f e) = event_key e \<and> \<not> in_flight (f e))"

lemma landings: "landing (\<lambda>e. e\<lparr>we_processedAt := Some now\<rparr>)"
  "landing (\<lambda>e. e\<lparr>we_processingError := Some m, we_processingStartedAt := None\<rparr>)"
  by (simp_all add: landing_def event_key_def in_flight_def)

lemma job_lands:
  "\<exists>f. landing f \<and> mx_events (snd (ingest_marketplace_order env j d)) = mx_events (update_event (ij_provider j) (ij_eventId j) f d) \<and>
     mx_jobs (snd (ingest_marketplace_order env j d)) = mx_jobs d \<and>
     mx_mappings (snd (ingest_marketplace_order env j d)) = mx_mappings d"
proof (cases env j d rule: ingest_cases)
  case (finished now)
  then show ?thesis using landings(1) by (auto simp: ingest_marketplace_order_def mark_event_processed_def)
next
  case (failed e)
  then show ?thesis using landings(2) by (auto simp: ingest_marketplace_order_def release_event_def)
next
  case (denied api store now)
  then show ?thesis using landings(1)
    by (auto simp: ingest_marketplace_order_def mark_event_processed_def intro!: exI update_event_cong)
next
  case (placing x api o' items now)
  obtain r d1 where p: "place_market_order env x o' items d = (r, d1)" by fastforce
  note same = place_event [OF p]
  show ?thesis
  proof (cases r)
    case (Inl e)
    show ?thesis
      by (rule exI [of _ "\<lambda>e'. e'\<lparr>we_processingError := Some (error_text e), we_processingStartedAt := None\<rparr>"])
        (use same update_event_cong [of d1 d] in \<open>simp add: landings placing(5) p Inl ingest_marketplace_order_def release_event_def\<close>)
  next
    case (Inr a)
    show ?thesis
      by (rule exI [of _ "\<lambda>e'. e'\<lparr>we_processedAt := Some now\<rparr>"])
        (use same in \<open>cases a; auto simp: landings placing(5) p Inr ingest_marketplace_order_def mark_event_processed_def
           intro!: update_event_cong\<close>)
  qed
qed


lemma crash_fields: "mx_events (crash_after_placing env d) = mx_events d \<and> mx_jobs (crash_after_placing env d) = mx_jobs d \<and>
    mx_mappings (crash_after_placing env d) = mx_mappings d"
  by (simp add: crash_after_placing_def split: list.splits option.splits sum.splits)






section \<open>What is mapped\<close>



text \<open>No mapping of a modifier option.\<close>

definition options_unmapped :: "market_db \<Rightarrow> bool" where
  "options_unmapped d \<longleftrightarrow> (\<forall>m \<in> set (mx_mappings d). mm_type m \<noteq> Map_Modifier_Option)"

lemma sync_mappings:
  "mx_mappings (snd (sync_menu_to_marketplace env i d)) = mx_mappings d \<or>
   (\<exists>x a. mx_mappings (snd (sync_menu_to_marketplace env i d)) =
     snd (upsert_mappings (answer_mappings (oe_now (mv_order env)) x a) (mx_mappings d)))"
  by (auto simp: sync_menu_to_marketplace_def sync_failed_def update_integration_def Let_def split_beta
      split: option.splits sum.splits)

lemma step_mappings:
  assumes "market_step env d d'"
  shows "mx_mappings d' = mx_mappings d \<or> (\<exists>ns. mx_mappings d' = snd (upsert_mappings ns (mx_mappings d)) \<and>
     (\<forall>m \<in> set ns. mm_type m \<noteq> Map_Modifier_Option))"
  using assms
proof cases
  case (webhook p body sig)
  then show ?thesis using webhook_frame [of env p body sig d] by simp
next
  case job
  show ?thesis
  proof (cases "mx_jobs d")
    case (Cons j js)
    with job job_lands [of env j "d\<lparr>mx_jobs := js\<rparr>"] show ?thesis by (auto simp: run_ingest_job_def)
  qed (use job in \<open>simp add: run_ingest_job_def\<close>)
next
  case crash
  then show ?thesis using crash_fields [of env d] by simp
next
  case (sync i)
  then show ?thesis using sync_mappings [of env i d] by (fastforce simp: answer_mappings_def answer_mapping_def)
qed simp



text \<open>The unique index of the mappings.\<close>

definition ext_key :: "menu_mapping \<Rightarrow> oid \<times> mapping_type \<times> string" where
  "ext_key m = (mm_integrationId m, mm_type m, mm_externalId m)"

definition int_key :: "menu_mapping \<Rightarrow> oid \<times> mapping_type \<times> oid" where
  "int_key m = (mm_integrationId m, mm_type m, mm_internalId m)"

definition mappings_ok :: "menu_mapping list \<Rightarrow> bool" where
  "mappings_ok ms \<longleftrightarrow> distinct (map ext_key ms) \<and> distinct (map int_key ms)"

lemma upsert_mapping_keys: "upsert_mapping m ms =
    (if \<exists>x \<in> set ms. int_key x \<noteq> int_key m \<and> ext_key x = ext_key m then None
     else if int_key m \<in> int_key ` set ms then Some (update_one (\<lambda>x. int_key x = int_key m) (\<lambda>_. m) ms)
     else Some (ms @ [m]))"
proof -
  have keys: "(mm_integrationId x = mm_integrationId m \<and> mm_type x = mm_type m \<and> mm_internalId x = mm_internalId m) = (int_key x = int_key m)"
    "(mm_integrationId x = mm_integrationId m \<and> mm_type x = mm_type m \<and> mm_externalId x = mm_externalId m) = (ext_key x = ext_key m)"
    for x by (simp_all add: int_key_def ext_key_def)
  have "list_ex (\<lambda>x. int_key x = int_key m) ms \<longleftrightarrow> int_key m \<in> int_key ` set ms"
    unfolding list_ex_iff image_iff by metis
  moreover have "list_ex (\<lambda>x. int_key x \<noteq> int_key m \<and> ext_key x = ext_key m) ms \<longleftrightarrow>
      (\<exists>x \<in> set ms. int_key x \<noteq> int_key m \<and> ext_key x = ext_key m)"
    by (rule list_ex_iff)
  ultimately show ?thesis unfolding upsert_mapping_def Let_def keys by presburger
qed

text \<open>An accepted upsert keeps both keys distinct; the mapping is found under its external id, and a
  mapping of another key stays.\<close>

lemma upsert_mapping_ok:
  assumes ok: "mappings_ok ms" and up: "upsert_mapping m ms = Some ms'"
  shows "mappings_ok ms'" "m \<in> set ms'" "x \<in> set ms \<Longrightarrow> int_key x \<noteq> int_key m \<Longrightarrow> x \<in> set ms'"
proof -
  have free: "\<And>x. x \<in> set ms \<Longrightarrow> int_key x \<noteq> int_key m \<Longrightarrow> ext_key x \<noteq> ext_key m"
    using up by (auto simp: upsert_mapping_keys split: if_splits)
  have "mappings_ok ms' \<and> m \<in> set ms' \<and> (x \<in> set ms \<longrightarrow> int_key x \<noteq> int_key m \<longrightarrow> x \<in> set ms')"
  proof (cases "int_key m \<in> int_key ` set ms")
    case True
    then have ms': "ms' = map (\<lambda>x. if int_key x = int_key m then m else x) ms"
      using up ok by (auto simp: upsert_mapping_keys mappings_ok_def update_one_distinct split: if_splits)
    have "map int_key ms' = map int_key ms" by (simp add: ms')
    moreover have "distinct (map ext_key ms')"
    proof -
      let ?f = "\<lambda>x. if int_key x = int_key m then m else x"
      have inj: "inj_on int_key (set ms)" "inj_on ext_key (set ms)" "distinct ms"
        using ok by (simp_all add: mappings_ok_def distinct_map)
      have "inj_on (\<lambda>x. ext_key (?f x)) (set ms)"
      proof (rule inj_onI)
        fix x y assume "x \<in> set ms" "y \<in> set ms" "ext_key (?f x) = ext_key (?f y)"
        then show "x = y" using inj_onD [OF inj(1), of x y] inj_onD [OF inj(2), of x y] free [of x] free [of y]
          by (cases "int_key x = int_key m"; cases "int_key y = int_key m") simp_all
      qed
      then show ?thesis using inj(3) by (simp add: ms' distinct_map comp_def)
    qed
    moreover have "m \<in> set ms'" "x \<in> set ms \<longrightarrow> int_key x \<noteq> int_key m \<longrightarrow> x \<in> set ms'"
      using True by (auto simp: ms')
    ultimately show ?thesis using ok by (simp add: mappings_ok_def del: map_map)
  next
    case False
    then have "ms' = ms @ [m]" using up by (auto simp: upsert_mapping_keys split: if_splits)
    moreover have "ext_key m \<notin> ext_key ` set ms" using False free by (metis imageE imageI)
    ultimately show ?thesis using ok False by (simp add: mappings_ok_def)
  qed
  then show "mappings_ok ms'" "m \<in> set ms'" "x \<in> set ms \<Longrightarrow> int_key x \<noteq> int_key m \<Longrightarrow> x \<in> set ms'" by blast+
qed

lemma upsert_mappings_kept:
  "mappings_ok ms \<Longrightarrow> mappings_ok (snd (upsert_mappings ns ms)) \<and>
   (x \<in> set ms \<longrightarrow> int_key x \<notin> int_key ` set ns \<longrightarrow> x \<in> set (snd (upsert_mappings ns ms)))"
proof (induction ns arbitrary: ms)
  case (Cons n ns)
  show ?case
  proof (cases "upsert_mapping n ms")
    case None
    then show ?thesis using Cons.IH [OF Cons.prems] by auto
  next
    case (Some ms1)
    note up = upsert_mapping_ok [OF Cons.prems Some]
    show ?thesis using Cons.IH [OF up(1)] Some up(3) [of x] by auto
  qed
qed simp



lemma step_mappings_ok:
  assumes "answers_what_is_asked env" "mappings_ok (mx_mappings d)" "market_step env d d'"
  shows "mappings_ok (mx_mappings d')"
  using step_mappings [OF assms(3)] assms(2) upsert_mappings_kept by metis

interpretation maps: market_invariant "\<lambda>d. mappings_ok (mx_mappings d)"
  by unfold_locales (rule step_mappings_ok)


section \<open>The promises\<close>

text \<open>C17. Whatever order webhooks, redeliveries, jobs and dying workers come in, an order of a marketplace
  is stored at most once, it is accepted at most once, and only orders that are stored are accepted.\<close>

theorem marketplace_order_once:
  assumes "market_run d d'" and "refs_ok d"
  shows "distinct (market_refs (mx_db d')) \<and> distinct (accepted_refs d') \<and>
    set (accepted_refs d') \<subseteq> set (market_refs (mx_db d'))"
  using refs.run_kept [OF assms] by (simp add: refs_ok_def)






section \<open>What is not promised\<close>

text \<open>An order that is stored already is not accepted by a later run of its job, as after a worker that
  died between the two.\<close>

theorem stored_order_not_accepted:
  assumes "answers_what_is_asked env" and "mx_jobs d = j # js"
    and "(ij_provider j, ij_externalOrderId j) \<in> set (market_refs (mx_db d))"
  shows "accepted_refs (run_ingest_job env d) = accepted_refs d"
proof -
  let ?d = "d\<lparr>mx_jobs := js\<rparr>"
  have rel: "accepted_refs (release_event p i m d) = accepted_refs d" for p i m d by (simp add: accepted_refs_def)
  have same: "accepted_refs ?d = accepted_refs d" by (simp add: accepted_refs_def)
  have "accepted_refs (snd (ingest_inner env j ?d)) = accepted_refs ?d"
  proof (cases env j ?d rule: ingest_cases)
    case (placing x api o' items now)
    have ext: "mr_externalOrderId o' = ij_externalOrderId j"
      using assms(1) placing(2,3) unfolding answers_what_is_asked_def by blast
    have prov: "in_provider x = ij_provider j"
      using placing(1) by (auto simp: active_integration_def dest: find_one_SomeD)
    obtain r d1 where p: "place_market_order env x o' items ?d = (r, d1)" by fastforce
    from p show ?thesis
    proof (cases rule: place_cases)
      case 1
      then show ?thesis using assms(3) by (simp add: prov ext)
    next
      case 2
      then show ?thesis using db_only_calls [OF 2(3)]
        by (auto simp: placing(5) p split: sum.splits placement.splits)
    qed
  qed simp_all
  then show ?thesis using same
    by (auto simp: run_ingest_job_def assms(2) ingest_marketplace_order_def rel split: sum.splits prod.splits)
qed

text \<open>A job that fails is gone: what it was about waits for a webhook of the marketplace.\<close>

theorem failed_job_is_gone:
  assumes "mx_jobs d = j # js" and "ingest_marketplace_order env j (d\<lparr>mx_jobs := js\<rparr>) = (Inl e, d')"
  shows "run_ingest_job env d = d' \<and> mx_jobs d' = js"
  using assms job_lands [of env j "d\<lparr>mx_jobs := js\<rparr>"] by (auto simp: run_ingest_job_def)

text \<open>A webhook for an event in flight changes nothing. When the server died between the claim and the
  queue, that is every later webhook of the event.\<close>

theorem claimed_event_ignored:
  assumes "find_one (is_event p (wh_eventId ev)) (mx_events d) = Some e" and "in_flight e"
    and "p \<in> set known_marketplaces" and "\<not> mv_mock env p"
    and "mv_adapter env p = Some api" and "ma_verify api body sig = Some ev"
  shows "handle_marketplace_webhook env p body sig d = (Inr (), d)"
  using assms by (auto simp: handle_marketplace_webhook_def claim_market_event_def event_claimable_def in_flight_def)

section \<open>A sample marketplace\<close>

definition market_menu :: menu_db where
  "market_menu = sample_menu\<lparr>md_groups := []\<rparr>"

definition sample_integration :: integration where
  "sample_integration = \<lparr>in_id = ''i1'', in_restaurantId = ''r1'', in_provider = ''uber_eats'', in_status = I_Active,
     in_externalStoreId = Some ''s1'', in_lastMenuSyncedAt = None, in_lastMenuSyncError = None\<rparr>"

definition sample_market :: market_db where
  "sample_market = \<lparr>mx_db = sample_db, mx_menu = market_menu, mx_categories = [], mx_integrations = [sample_integration],
     mx_mappings = [], mx_events = [], mx_jobs = [], mx_calls = []\<rparr>"

text \<open>A marketplace that names every item \<open>X\<close> and hands out an order of two of it, with the modifiers it
  is told to.\<close>

definition sample_api :: "string list \<Rightarrow> market_api" where
  "sample_api mods = \<lparr>ma_orderAccept = True, ma_orderDeny = True, ma_menuSync = True,
     ma_verify = (\<lambda>body sig. Some \<lparr>wh_eventId = body, wh_eventType = ''orders'', wh_externalStoreId = ''s1'',
        wh_externalOrderId = Some ''x7''\<rparr>),
     ma_fetch = (\<lambda>store ext. Inr \<lparr>mr_externalOrderId = ext, mr_externalStoreId = store, mr_customerName = None,
        mr_customerPhone = None, mr_items = [\<lparr>ml_externalItemId = ''X'', ml_quantity = 2, ml_modifiers = mods\<rparr>],
        mr_customerNotes = None\<rparr>),
     ma_push = (\<lambda>m. Inr \<lparr>ps_categories = [], ps_items = map (\<lambda>t. (pt_internalId t, ''X'')) (pm_items m)\<rparr>)\<rparr>"

definition sample_market_env :: "string list \<Rightarrow> market_env" where
  "sample_market_env mods = \<lparr>mv_order = sample_env, mv_adapter = (\<lambda>p. Some (sample_api mods)), mv_mock = (\<lambda>p. False),
     mv_mockAllowed = False, mv_queueOk = True, mv_newUserId = ''u5''\<rparr>"

definition synced_market :: "(nat \<times> nat) result \<times> market_db" where
  "synced_market = sync_menu_to_marketplace (sample_market_env []) ''i1'' sample_market"

definition notified_market :: "string list \<Rightarrow> market_db" where
  "notified_market mods = snd (handle_marketplace_webhook (sample_market_env mods) ''uber_eats'' ''e1'' None (snd synced_market))"

lemma sample_honest: "answers_what_is_asked (sample_market_env mods)"
  by (auto simp: answers_what_is_asked_def sample_market_env_def sample_api_def)

lemma notified_run: "market_run sample_market (notified_market mods)"
  unfolding notified_market_def synced_market_def
  by (rule run_step [OF run_step [OF run_refl sample_honest market_step.sync] sample_honest market_step.webhook])

lemma sample_market_ok: "refs_ok sample_market" "events_ok sample_market" "options_unmapped sample_market"
    "mappings_ok (mx_mappings sample_market)"
  by (simp_all add: refs_ok_def events_ok_def options_unmapped_def mappings_ok_def sample_market_def sample_db_def
      market_refs_def accepted_refs_def List.map_filter_def)



lemma ingested_values: "accepted_refs (run_ingest_job (sample_market_env []) (notified_market [])) = [(''uber_eats'', ''x7'')]"
  by code_simp

theorem marketplace_order_once_witness:
  "accepted_refs (run_ingest_job (sample_market_env []) (notified_market [])) = [(''uber_eats'', ''x7'')] \<and>
   (''uber_eats'', ''x7'') \<in> set (market_refs (mx_db (run_ingest_job (sample_market_env []) (notified_market []))))"
  using marketplace_order_once [OF run_step [OF notified_run sample_honest market_step.job] sample_market_ok(1), of "[]" "[]"]
  by (simp add: ingested_values)




end
