(* ===== verification/Menu_Admin.thy ===== *)
theory Menu_Admin
  imports Menu_Resolution Access_Control
begin

text \<open>
  What staff do to a menu (\<open>menu.controller.ts\<close>, \<open>category.controller.ts\<close>, \<open>modifier.controller.ts\<close> with
  their request schemas) and the cached public menu (\<open>menuCache.service.ts\<close>). Each controller has its
  operations twice, for the documents of one location and for the canonical documents of a business;
  \<open>menu_scope\<close> is which, and the operations are given once with the scope and named for both.
\<close>

section \<open>Scopes and the cache\<close>

datatype menu_scope = Location oid | Of_Business oid

record menu_state =
  ms_store :: menu_store
  ms_cache :: "oid \<Rightarrow> resolved_menu option"

record menu_env =
  ne_compare :: "string \<Rightarrow> string \<Rightarrow> int"
  ne_binary :: "string \<Rightarrow> string \<Rightarrow> int"
  ne_newId :: oid
  ne_newOptionId :: "nat \<Rightarrow> oid"

fun scope_place :: "menu_scope \<Rightarrow> oid option \<times> oid option" where
  "scope_place (Location r) = (Some r, None)"
| "scope_place (Of_Business b) = (None, Some b)"

fun in_menu_scope :: "menu_scope \<Rightarrow> oid option \<times> oid option \<Rightarrow> bool" where
  "in_menu_scope (Location r) p = (fst p = Some r)"
| "in_menu_scope (Of_Business b) p = (snd p = Some b)"

definition item_place :: "menu_item \<Rightarrow> oid option \<times> oid option" where
  "item_place i = (mi_restaurantId i, mi_businessId i)"

definition group_place :: "modifier_group \<Rightarrow> oid option \<times> oid option" where
  "group_place g = (mg_restaurantId g, mg_businessId g)"

definition category_place :: "category \<Rightarrow> oid option \<times> oid option" where
  "category_place c = (cat_restaurantId c, cat_businessId c)"

definition invalidate_menu_cache :: "oid \<Rightarrow> menu_state \<Rightarrow> menu_state" where
  "invalidate_menu_cache r s = s\<lparr>ms_cache := (ms_cache s)(r := None)\<rparr>"

definition invalidate_menu_cache_for_business :: "oid \<Rightarrow> menu_state \<Rightarrow> menu_state" where
  "invalidate_menu_cache_for_business b s =
     (let ls = map res_id (filter (\<lambda>r. res_businessId r = Some b) (db_restaurants (mn_db (ms_store s)))) in
      s\<lparr>ms_cache := (\<lambda>l. if l \<in> set ls then None else ms_cache s l)\<rparr>)"

fun invalidate :: "menu_scope \<Rightarrow> menu_state \<Rightarrow> menu_state" where
  "invalidate (Location r) s = invalidate_menu_cache r s"
| "invalidate (Of_Business b) s = invalidate_menu_cache_for_business b s"

definition assert_menu_not_migrated :: "oid \<Rightarrow> menu_store \<Rightarrow> unit result" where
  "assert_menu_not_migrated rid s =
     (case canonical_business (mn_db s) (mn_docs s) rid of
        Some b \<Rightarrow> Inl (Gone ''managed at the business level'')
      | None \<Rightarrow> Inr ())"

fun menu_guard :: "menu_scope \<Rightarrow> menu_store \<Rightarrow> unit result" where
  "menu_guard (Location r) s = assert_menu_not_migrated r s"
| "menu_guard (Of_Business b) s = Inr ()"

section \<open>Writing the collections\<close>

definition set_items :: "(menu_item list \<Rightarrow> menu_item list) \<Rightarrow> menu_state \<Rightarrow> menu_state" where
  "set_items f s = s\<lparr>ms_store := (ms_store s)\<lparr>mn_docs := (mn_docs (ms_store s))\<lparr>md_items := f (md_items (mn_docs (ms_store s)))\<rparr>\<rparr>\<rparr>"

definition set_groups :: "(modifier_group list \<Rightarrow> modifier_group list) \<Rightarrow> menu_state \<Rightarrow> menu_state" where
  "set_groups f s = s\<lparr>ms_store := (ms_store s)\<lparr>mn_docs := (mn_docs (ms_store s))\<lparr>md_groups := f (md_groups (mn_docs (ms_store s)))\<rparr>\<rparr>\<rparr>"

definition set_item_overrides :: "(item_override list \<Rightarrow> item_override list) \<Rightarrow> menu_state \<Rightarrow> menu_state" where
  "set_item_overrides f s = s\<lparr>ms_store := (ms_store s)\<lparr>mn_docs := (mn_docs (ms_store s))\<lparr>md_itemOverrides := f (md_itemOverrides (mn_docs (ms_store s)))\<rparr>\<rparr>\<rparr>"

definition set_group_overrides :: "(group_override list \<Rightarrow> group_override list) \<Rightarrow> menu_state \<Rightarrow> menu_state" where
  "set_group_overrides f s = s\<lparr>ms_store := (ms_store s)\<lparr>mn_docs := (mn_docs (ms_store s))\<lparr>md_groupOverrides := f (md_groupOverrides (mn_docs (ms_store s)))\<rparr>\<rparr>\<rparr>"

definition set_categories :: "(category list \<Rightarrow> category list) \<Rightarrow> menu_state \<Rightarrow> menu_state" where
  "set_categories f s = s\<lparr>ms_store := (ms_store s)\<lparr>mn_categories := f (mn_categories (ms_store s))\<rparr>\<rparr>"

definition set_category_overrides :: "(category_override list \<Rightarrow> category_override list) \<Rightarrow> menu_state \<Rightarrow> menu_state" where
  "set_category_overrides f s = s\<lparr>ms_store := (ms_store s)\<lparr>mn_categoryOverrides := f (mn_categoryOverrides (ms_store s))\<rparr>\<rparr>"

abbreviation items_of :: "menu_state \<Rightarrow> menu_item list" where
  "items_of s \<equiv> md_items (mn_docs (ms_store s))"

abbreviation groups_of :: "menu_state \<Rightarrow> modifier_group list" where
  "groups_of s \<equiv> md_groups (mn_docs (ms_store s))"

section \<open>Items\<close>

record item_input =
  ii_categoryId :: oid
  ii_name :: string
  ii_price :: money
  ii_isAvailable :: "bool option"
  ii_sortOrder :: int

record item_update =
  iu_categoryId :: "oid option"
  iu_name :: "string option"
  iu_price :: "money option"
  iu_isAvailable :: "bool option"
  iu_sortOrder :: "int option"

definition name_schema :: "nat \<Rightarrow> string \<Rightarrow> bool" where
  "name_schema n s \<longleftrightarrow> 1 \<le> length s \<and> length s \<le> n"

definition menu_item_schema :: "item_input \<Rightarrow> bool" where
  "menu_item_schema i \<longleftrightarrow> ii_categoryId i \<noteq> [] \<and> name_schema 120 (ii_name i) \<and> 0 \<le> ii_price i \<and> 0 \<le> ii_sortOrder i"

definition update_menu_item_schema :: "item_update \<Rightarrow> bool" where
  "update_menu_item_schema u \<longleftrightarrow> iu_categoryId u \<noteq> Some [] \<and> pred_option (name_schema 120) (iu_name u) \<and>
     pred_option (\<lambda>p. 0 \<le> p) (iu_price u) \<and> pred_option (\<lambda>n. 0 \<le> n) (iu_sortOrder u)"

text \<open>A document with an empty required name is refused by the model.\<close>

definition trimmed_name :: "string \<Rightarrow> string result" where
  "trimmed_name s = (if js_trim s = [] then Inl (Thrown ''ValidationError'') else Inr (js_trim s))"

definition trimmed_update :: "string option \<Rightarrow> string option result" where
  "trimmed_update u = (case u of None \<Rightarrow> Inr None | Some s \<Rightarrow> (case trimmed_name s of Inl e \<Rightarrow> Inl e | Inr n \<Rightarrow> Inr (Some n)))"

definition category_in_scope :: "menu_scope \<Rightarrow> oid \<Rightarrow> menu_state \<Rightarrow> bool" where
  "category_in_scope sc c s = list_ex (\<lambda>x. cat_id x = c \<and> in_menu_scope sc (category_place x)) (mn_categories (ms_store s))"

definition create_item :: "menu_env \<Rightarrow> menu_scope \<Rightarrow> item_input \<Rightarrow> menu_state \<Rightarrow> oid result \<times> menu_state" where
  "create_item env sc body s =
     (case menu_guard sc (ms_store s) of
        Inl e \<Rightarrow> (Inl e, s)
      | Inr _ \<Rightarrow>
          if \<not> category_in_scope sc (ii_categoryId body) s then (Inl (Bad_Request ''categoryId''), s)
          else (case trimmed_name (ii_name body) of
             Inl e \<Rightarrow> (Inl e, s)
           | Inr name \<Rightarrow> (Inr (ne_newId env), invalidate sc (set_items (\<lambda>xs. xs @
               [\<lparr>mi_id = ne_newId env, mi_restaurantId = fst (scope_place sc), mi_businessId = snd (scope_place sc),
                 mi_categoryId = ii_categoryId body, mi_name = name, mi_price = ii_price body,
                 mi_isAvailable = nullish (ii_isAvailable body) True, mi_sortOrder = ii_sortOrder body,
                 mi_clonedFrom = None\<rparr>]) s))))"

definition apply_item_update :: "item_update \<Rightarrow> string option \<Rightarrow> menu_item \<Rightarrow> menu_item" where
  "apply_item_update u name i = i\<lparr>mi_categoryId := nullish (iu_categoryId u) (mi_categoryId i),
     mi_name := nullish name (mi_name i), mi_price := nullish (iu_price u) (mi_price i),
     mi_isAvailable := nullish (iu_isAvailable u) (mi_isAvailable i), mi_sortOrder := nullish (iu_sortOrder u) (mi_sortOrder i)\<rparr>"

definition is_item :: "menu_scope \<Rightarrow> oid \<Rightarrow> menu_item \<Rightarrow> bool" where
  "is_item sc i x \<longleftrightarrow> mi_id x = i \<and> in_menu_scope sc (item_place x)"

definition update_item :: "menu_scope \<Rightarrow> oid \<Rightarrow> item_update \<Rightarrow> menu_state \<Rightarrow> unit result \<times> menu_state" where
  "update_item sc i u s =
     (case menu_guard sc (ms_store s) of
        Inl e \<Rightarrow> (Inl e, s)
      | Inr _ \<Rightarrow>
          if truthy_string (iu_categoryId u) \<and> \<not> category_in_scope sc (the (iu_categoryId u)) s
          then (Inl (Bad_Request ''categoryId''), s)
          else (case trimmed_update (iu_name u) of
             Inl e \<Rightarrow> (Inl e, s)
           | Inr name \<Rightarrow>
               if \<not> list_ex (is_item sc i) (items_of s) then (Inl (Not_Found ''item''), s)
               else (Inr (), invalidate sc (set_items (update_one (is_item sc i) (apply_item_update u name)) s))))"

definition delete_item :: "menu_scope \<Rightarrow> oid \<Rightarrow> menu_state \<Rightarrow> unit result \<times> menu_state" where
  "delete_item sc i s =
     (case menu_guard sc (ms_store s) of
        Inl e \<Rightarrow> (Inl e, s)
      | Inr _ \<Rightarrow>
          if \<not> list_ex (is_item sc i) (items_of s) then (Inl (Not_Found ''item''), s)
          else (Inr (), invalidate sc (set_items (delete_one (is_item sc i)) s)))"

definition create_menu_item :: "menu_env \<Rightarrow> oid \<Rightarrow> item_input \<Rightarrow> menu_state \<Rightarrow> oid result \<times> menu_state" where
  "create_menu_item env r = create_item env (Location r)"

definition update_menu_item :: "oid \<Rightarrow> oid \<Rightarrow> item_update \<Rightarrow> menu_state \<Rightarrow> unit result \<times> menu_state" where
  "update_menu_item r = update_item (Location r)"

definition delete_menu_item :: "oid \<Rightarrow> oid \<Rightarrow> menu_state \<Rightarrow> unit result \<times> menu_state" where
  "delete_menu_item r = delete_item (Location r)"

definition create_canonical_menu_item :: "menu_env \<Rightarrow> oid \<Rightarrow> item_input \<Rightarrow> menu_state \<Rightarrow> oid result \<times> menu_state" where
  "create_canonical_menu_item env b = create_item env (Of_Business b)"

definition update_canonical_menu_item :: "oid \<Rightarrow> oid \<Rightarrow> item_update \<Rightarrow> menu_state \<Rightarrow> unit result \<times> menu_state" where
  "update_canonical_menu_item b = update_item (Of_Business b)"

definition delete_canonical_menu_item :: "oid \<Rightarrow> oid \<Rightarrow> menu_state \<Rightarrow> unit result \<times> menu_state" where
  "delete_canonical_menu_item b = delete_item (Of_Business b)"


section \<open>Categories\<close>

record category_input =
  ci_name :: string
  ci_sortOrder :: int
  ci_isActive :: "bool option"

record category_update =
  cu_name :: "string option"
  cu_sortOrder :: "int option"
  cu_isActive :: "bool option"

definition category_schema :: "category_input \<Rightarrow> bool" where
  "category_schema c \<longleftrightarrow> name_schema 80 (ci_name c) \<and> 0 \<le> ci_sortOrder c"

definition update_category_schema :: "category_update \<Rightarrow> bool" where
  "update_category_schema u \<longleftrightarrow> pred_option (name_schema 80) (cu_name u) \<and> pred_option (\<lambda>n. 0 \<le> n) (cu_sortOrder u)"

definition is_category :: "menu_scope \<Rightarrow> oid \<Rightarrow> category \<Rightarrow> bool" where
  "is_category sc i x \<longleftrightarrow> cat_id x = i \<and> in_menu_scope sc (category_place x)"

definition create_category_in :: "menu_env \<Rightarrow> menu_scope \<Rightarrow> category_input \<Rightarrow> menu_state \<Rightarrow> oid result \<times> menu_state" where
  "create_category_in env sc body s =
     (case menu_guard sc (ms_store s) of
        Inl e \<Rightarrow> (Inl e, s)
      | Inr _ \<Rightarrow> (case trimmed_name (ci_name body) of
          Inl e \<Rightarrow> (Inl e, s)
        | Inr name \<Rightarrow> (Inr (ne_newId env), invalidate sc (set_categories (\<lambda>xs. xs @
            [\<lparr>cat_id = ne_newId env, cat_restaurantId = fst (scope_place sc), cat_businessId = snd (scope_place sc),
              cat_name = name, cat_sortOrder = ci_sortOrder body, cat_isActive = nullish (ci_isActive body) True,
              cat_clonedFrom = None\<rparr>]) s))))"

definition apply_category_update :: "category_update \<Rightarrow> string option \<Rightarrow> category \<Rightarrow> category" where
  "apply_category_update u name c = c\<lparr>cat_name := nullish name (cat_name c),
     cat_sortOrder := nullish (cu_sortOrder u) (cat_sortOrder c), cat_isActive := nullish (cu_isActive u) (cat_isActive c)\<rparr>"

definition update_category_in :: "menu_scope \<Rightarrow> oid \<Rightarrow> category_update \<Rightarrow> menu_state \<Rightarrow> unit result \<times> menu_state" where
  "update_category_in sc i u s =
     (case menu_guard sc (ms_store s) of
        Inl e \<Rightarrow> (Inl e, s)
      | Inr _ \<Rightarrow> (case trimmed_update (cu_name u) of
          Inl e \<Rightarrow> (Inl e, s)
        | Inr name \<Rightarrow>
            if \<not> list_ex (is_category sc i) (mn_categories (ms_store s)) then (Inl (Not_Found ''category''), s)
            else (Inr (), invalidate sc (set_categories (update_one (is_category sc i) (apply_category_update u name)) s))))"

definition delete_category_in :: "menu_scope \<Rightarrow> oid \<Rightarrow> menu_state \<Rightarrow> unit result \<times> menu_state" where
  "delete_category_in sc i s =
     (case menu_guard sc (ms_store s) of
        Inl e \<Rightarrow> (Inl e, s)
      | Inr _ \<Rightarrow>
          if list_ex (\<lambda>x. mi_categoryId x = i \<and> in_menu_scope sc (item_place x)) (items_of s) then (Inl (Conflict ''items''), s)
          else if \<not> list_ex (is_category sc i) (mn_categories (ms_store s)) then (Inl (Not_Found ''category''), s)
          else (Inr (), invalidate sc (set_categories (delete_one (is_category sc i)) s)))"

definition create_category :: "menu_env \<Rightarrow> oid \<Rightarrow> category_input \<Rightarrow> menu_state \<Rightarrow> oid result \<times> menu_state" where
  "create_category env r = create_category_in env (Location r)"

definition update_category :: "oid \<Rightarrow> oid \<Rightarrow> category_update \<Rightarrow> menu_state \<Rightarrow> unit result \<times> menu_state" where
  "update_category r = update_category_in (Location r)"

definition delete_category :: "oid \<Rightarrow> oid \<Rightarrow> menu_state \<Rightarrow> unit result \<times> menu_state" where
  "delete_category r = delete_category_in (Location r)"

definition create_canonical_category :: "menu_env \<Rightarrow> oid \<Rightarrow> category_input \<Rightarrow> menu_state \<Rightarrow> oid result \<times> menu_state" where
  "create_canonical_category env b = create_category_in env (Of_Business b)"

definition update_canonical_category :: "oid \<Rightarrow> oid \<Rightarrow> category_update \<Rightarrow> menu_state \<Rightarrow> unit result \<times> menu_state" where
  "update_canonical_category b = update_category_in (Of_Business b)"

definition delete_canonical_category :: "oid \<Rightarrow> oid \<Rightarrow> menu_state \<Rightarrow> unit result \<times> menu_state" where
  "delete_canonical_category b = delete_category_in (Of_Business b)"


section \<open>Modifier groups\<close>

record option_input =
  xi_name :: string
  xi_priceAdjustment :: money
  xi_isActive :: "bool option"
  xi_sortOrder :: int

record group_input =
  gi_name :: string
  gi_minSelect :: int
  gi_maxSelect :: int
  gi_isActive :: "bool option"
  gi_sortOrder :: int
  gi_options :: "option_input list"

record group_update =
  gu_name :: "string option"
  gu_minSelect :: "int option"
  gu_maxSelect :: "int option"
  gu_isActive :: "bool option"
  gu_sortOrder :: "int option"
  gu_options :: "option_input list option"

definition option_schema :: "option_input \<Rightarrow> bool" where
  "option_schema o' \<longleftrightarrow> name_schema 80 (xi_name o') \<and> 0 \<le> xi_priceAdjustment o' \<and> 0 \<le> xi_sortOrder o'"

definition modifier_group_schema :: "group_input \<Rightarrow> bool" where
  "modifier_group_schema g \<longleftrightarrow> name_schema 80 (gi_name g) \<and> 0 \<le> gi_minSelect g \<and> 1 \<le> gi_maxSelect g \<and>
     0 \<le> gi_sortOrder g \<and> gi_options g \<noteq> [] \<and> list_all option_schema (gi_options g) \<and> gi_minSelect g \<le> gi_maxSelect g"

definition update_modifier_group_schema :: "group_update \<Rightarrow> bool" where
  "update_modifier_group_schema u \<longleftrightarrow> pred_option (name_schema 80) (gu_name u) \<and> pred_option (\<lambda>n. 0 \<le> n) (gu_minSelect u) \<and>
     pred_option (\<lambda>n. 1 \<le> n) (gu_maxSelect u) \<and> pred_option (\<lambda>n. 0 \<le> n) (gu_sortOrder u) \<and>
     pred_option (\<lambda>os. os \<noteq> [] \<and> list_all option_schema os) (gu_options u) \<and>
     (case (gu_minSelect u, gu_maxSelect u) of (Some a, Some b) \<Rightarrow> a \<le> b | _ \<Rightarrow> True)"

text \<open>Options are stored with new ids, also when a group is updated: the schema has no field for theirs.\<close>

fun option_documents :: "(nat \<Rightarrow> oid) \<Rightarrow> nat \<Rightarrow> option_input list \<Rightarrow> modifier_option list result" where
  "option_documents new n [] = Inr []"
| "option_documents new n (x # xs) =
     (case trimmed_name (xi_name x) of
        Inl e \<Rightarrow> Inl e
      | Inr name \<Rightarrow> (case option_documents new (Suc n) xs of
          Inl e \<Rightarrow> Inl e
        | Inr ds \<Rightarrow> Inr (\<lparr>mo_id = new n, mo_name = name, mo_priceAdjustment = xi_priceAdjustment x,
            mo_isActive = nullish (xi_isActive x) True, mo_sortOrder = xi_sortOrder x\<rparr> # ds)))"

definition is_group :: "menu_scope \<Rightarrow> oid \<Rightarrow> oid \<Rightarrow> modifier_group \<Rightarrow> bool" where
  "is_group sc item i x \<longleftrightarrow> mg_id x = i \<and> in_menu_scope sc (group_place x) \<and> mg_menuItemId x = item"

definition create_group :: "menu_env \<Rightarrow> menu_scope \<Rightarrow> oid \<Rightarrow> group_input \<Rightarrow> menu_state \<Rightarrow> oid result \<times> menu_state" where
  "create_group env sc item body s =
     (case menu_guard sc (ms_store s) of
        Inl e \<Rightarrow> (Inl e, s)
      | Inr _ \<Rightarrow>
          if \<not> list_ex (is_item sc item) (items_of s) then (Inl (Not_Found ''item''), s)
          else (case trimmed_name (gi_name body) of
             Inl e \<Rightarrow> (Inl e, s)
           | Inr name \<Rightarrow> (case option_documents (ne_newOptionId env) 0 (gi_options body) of
               Inl e \<Rightarrow> (Inl e, s)
             | Inr os \<Rightarrow> (Inr (ne_newId env), invalidate sc (set_groups (\<lambda>xs. xs @
                 [\<lparr>mg_id = ne_newId env, mg_restaurantId = fst (scope_place sc), mg_businessId = snd (scope_place sc),
                   mg_menuItemId = item, mg_name = name, mg_minSelect = gi_minSelect body, mg_maxSelect = gi_maxSelect body,
                   mg_isActive = nullish (gi_isActive body) True, mg_sortOrder = gi_sortOrder body, mg_options = os,
                   mg_clonedFrom = None\<rparr>]) s)))))"

definition apply_group_update :: "group_update \<Rightarrow> string option \<Rightarrow> modifier_option list option \<Rightarrow> modifier_group \<Rightarrow> modifier_group" where
  "apply_group_update u name os g = g\<lparr>mg_name := nullish name (mg_name g),
     mg_minSelect := nullish (gu_minSelect u) (mg_minSelect g), mg_maxSelect := nullish (gu_maxSelect u) (mg_maxSelect g),
     mg_isActive := nullish (gu_isActive u) (mg_isActive g), mg_sortOrder := nullish (gu_sortOrder u) (mg_sortOrder g),
     mg_options := nullish os (mg_options g)\<rparr>"

text \<open>A new bound is checked against the stored other one before anything is written.\<close>

definition bounds_check :: "menu_scope \<Rightarrow> oid \<Rightarrow> oid \<Rightarrow> group_update \<Rightarrow> menu_state \<Rightarrow> unit result" where
  "bounds_check sc item i u s =
     (if gu_minSelect u \<noteq> None \<or> gu_maxSelect u \<noteq> None
      then (case find_one (is_group sc item i) (groups_of s) of
          None \<Rightarrow> Inl (Not_Found ''group'')
        | Some g \<Rightarrow> if nullish (gu_minSelect u) (mg_minSelect g) > nullish (gu_maxSelect u) (mg_maxSelect g)
            then Inl (Bad_Request ''minSelect'') else Inr ())
      else Inr ())"

definition update_options :: "menu_env \<Rightarrow> group_update \<Rightarrow> modifier_option list option result" where
  "update_options env u = (case gu_options u of
      None \<Rightarrow> Inr None
    | Some xs \<Rightarrow> (case option_documents (ne_newOptionId env) 0 xs of Inl e \<Rightarrow> Inl e | Inr os \<Rightarrow> Inr (Some os)))"

definition update_group :: "menu_env \<Rightarrow> menu_scope \<Rightarrow> oid \<Rightarrow> oid \<Rightarrow> group_update \<Rightarrow> menu_state \<Rightarrow> unit result \<times> menu_state" where
  "update_group env sc item i u s =
     (case menu_guard sc (ms_store s) of
        Inl e \<Rightarrow> (Inl e, s)
      | Inr _ \<Rightarrow> (case bounds_check sc item i u s of
          Inl e \<Rightarrow> (Inl e, s)
        | Inr _ \<Rightarrow> (case (trimmed_update (gu_name u), update_options env u) of
            (Inl e, _) \<Rightarrow> (Inl e, s)
          | (_, Inl e) \<Rightarrow> (Inl e, s)
          | (Inr name, Inr os) \<Rightarrow>
              if \<not> list_ex (is_group sc item i) (groups_of s) then (Inl (Not_Found ''group''), s)
              else (Inr (), invalidate sc (set_groups (update_one (is_group sc item i) (apply_group_update u name os)) s)))))"

definition delete_group :: "menu_scope \<Rightarrow> oid \<Rightarrow> oid \<Rightarrow> menu_state \<Rightarrow> unit result \<times> menu_state" where
  "delete_group sc item i s =
     (case menu_guard sc (ms_store s) of
        Inl e \<Rightarrow> (Inl e, s)
      | Inr _ \<Rightarrow>
          if \<not> list_ex (is_group sc item i) (groups_of s) then (Inl (Not_Found ''group''), s)
          else (Inr (), invalidate sc (set_groups (delete_one (is_group sc item i)) s)))"

definition create_modifier_group :: "menu_env \<Rightarrow> oid \<Rightarrow> oid \<Rightarrow> group_input \<Rightarrow> menu_state \<Rightarrow> oid result \<times> menu_state" where
  "create_modifier_group env r = create_group env (Location r)"

definition update_modifier_group :: "menu_env \<Rightarrow> oid \<Rightarrow> oid \<Rightarrow> oid \<Rightarrow> group_update \<Rightarrow> menu_state \<Rightarrow> unit result \<times> menu_state" where
  "update_modifier_group env r = update_group env (Location r)"

definition delete_modifier_group :: "oid \<Rightarrow> oid \<Rightarrow> oid \<Rightarrow> menu_state \<Rightarrow> unit result \<times> menu_state" where
  "delete_modifier_group r = delete_group (Location r)"

definition create_canonical_modifier_group :: "menu_env \<Rightarrow> oid \<Rightarrow> oid \<Rightarrow> group_input \<Rightarrow> menu_state \<Rightarrow> oid result \<times> menu_state" where
  "create_canonical_modifier_group env b = create_group env (Of_Business b)"

definition update_canonical_modifier_group :: "menu_env \<Rightarrow> oid \<Rightarrow> oid \<Rightarrow> oid \<Rightarrow> group_update \<Rightarrow> menu_state \<Rightarrow> unit result \<times> menu_state" where
  "update_canonical_modifier_group env b = update_group env (Of_Business b)"

definition delete_canonical_modifier_group :: "oid \<Rightarrow> oid \<Rightarrow> oid \<Rightarrow> menu_state \<Rightarrow> unit result \<times> menu_state" where
  "delete_canonical_modifier_group b = delete_group (Of_Business b)"


section \<open>Overrides of a location\<close>

record item_override_input =
  vi_isAvailable :: "bool option"
  vi_priceOverride :: "money option"
  vi_sortOrderOverride :: "int option"

record category_override_input =
  vc_isActive :: "bool option"
  vc_sortOrderOverride :: "int option"

record group_override_input =
  vg_isActive :: "bool option"
  vg_optionOverrides :: "option_override list option"

definition menu_item_override_schema :: "item_override_input \<Rightarrow> bool" where
  "menu_item_override_schema v \<longleftrightarrow> pred_option (\<lambda>p. 0 \<le> p) (vi_priceOverride v) \<and> pred_option (\<lambda>n. 0 \<le> n) (vi_sortOrderOverride v) \<and>
     (vi_isAvailable v \<noteq> None \<or> vi_priceOverride v \<noteq> None \<or> vi_sortOrderOverride v \<noteq> None)"

definition category_override_schema :: "category_override_input \<Rightarrow> bool" where
  "category_override_schema v \<longleftrightarrow> pred_option (\<lambda>n. 0 \<le> n) (vc_sortOrderOverride v) \<and>
     (vc_isActive v \<noteq> None \<or> vc_sortOrderOverride v \<noteq> None)"

definition modifier_option_override_schema :: "option_override \<Rightarrow> bool" where
  "modifier_option_override_schema w \<longleftrightarrow> oo_optionId w \<noteq> [] \<and> pred_option (\<lambda>p. 0 \<le> p) (oo_priceAdjustmentOverride w) \<and>
     (oo_isActive w \<noteq> None \<or> oo_priceAdjustmentOverride w \<noteq> None)"

definition modifier_group_override_schema :: "group_override_input \<Rightarrow> bool" where
  "modifier_group_override_schema v \<longleftrightarrow> pred_option (list_all modifier_option_override_schema) (vg_optionOverrides v) \<and>
     (vg_isActive v \<noteq> None \<or> nullish (vg_optionOverrides v) [] \<noteq> [])"

definition business_of_location :: "oid \<Rightarrow> menu_state \<Rightarrow> oid option" where
  "business_of_location r s = (case Option.bind (find_restaurant r (mn_db (ms_store s))) res_businessId of
      Some b \<Rightarrow> if b = [] then None else Some b | None \<Rightarrow> None)"

text \<open>An upsert: fields that are not given keep what the row has.\<close>

definition put_item_row :: "oid \<Rightarrow> oid \<Rightarrow> item_override_input \<Rightarrow> item_override list \<Rightarrow> item_override list" where
  "put_item_row r i v rows =
     (let mine = (\<lambda>w. io_locationId w = r \<and> io_menuItemId w = i) in
      if list_ex mine rows
      then update_one mine (\<lambda>w. w\<lparr>io_isAvailable := (case vi_isAvailable v of None \<Rightarrow> io_isAvailable w | x \<Rightarrow> x),
        io_priceOverride := (case vi_priceOverride v of None \<Rightarrow> io_priceOverride w | x \<Rightarrow> x),
        io_sortOrderOverride := (case vi_sortOrderOverride v of None \<Rightarrow> io_sortOrderOverride w | x \<Rightarrow> x)\<rparr>) rows
      else rows @ [\<lparr>io_locationId = r, io_menuItemId = i, io_isAvailable = vi_isAvailable v,
        io_priceOverride = vi_priceOverride v, io_sortOrderOverride = vi_sortOrderOverride v\<rparr>])"

definition put_category_row :: "oid \<Rightarrow> oid \<Rightarrow> category_override_input \<Rightarrow> category_override list \<Rightarrow> category_override list" where
  "put_category_row r i v rows =
     (let mine = (\<lambda>w. co_locationId w = r \<and> co_categoryId w = i) in
      if list_ex mine rows
      then update_one mine (\<lambda>w. w\<lparr>co_isActive := (case vc_isActive v of None \<Rightarrow> co_isActive w | x \<Rightarrow> x),
        co_sortOrderOverride := (case vc_sortOrderOverride v of None \<Rightarrow> co_sortOrderOverride w | x \<Rightarrow> x)\<rparr>) rows
      else rows @ [\<lparr>co_locationId = r, co_categoryId = i, co_isActive = vc_isActive v,
        co_sortOrderOverride = vc_sortOrderOverride v\<rparr>])"

definition put_group_row :: "oid \<Rightarrow> oid \<Rightarrow> group_override_input \<Rightarrow> group_override list \<Rightarrow> group_override list" where
  "put_group_row r i v rows =
     (let mine = (\<lambda>w. go_locationId w = r \<and> go_modifierGroupId w = i) in
      if list_ex mine rows
      then update_one mine (\<lambda>w. w\<lparr>go_isActive := (case vg_isActive v of None \<Rightarrow> go_isActive w | x \<Rightarrow> x),
        go_optionOverrides := nullish (vg_optionOverrides v) (go_optionOverrides w)\<rparr>) rows
      else rows @ [\<lparr>go_locationId = r, go_modifierGroupId = i, go_isActive = vg_isActive v,
        go_optionOverrides = nullish (vg_optionOverrides v) []\<rparr>])"

definition put_menu_item_override :: "oid \<Rightarrow> oid \<Rightarrow> item_override_input \<Rightarrow> menu_state \<Rightarrow> unit result \<times> menu_state" where
  "put_menu_item_override r i v s =
     (case business_of_location r s of
        None \<Rightarrow> (Inl (Not_Found ''item''), s)
      | Some b \<Rightarrow>
          if \<not> list_ex (is_item (Of_Business b) i) (items_of s) then (Inl (Not_Found ''item''), s)
          else (Inr (), invalidate_menu_cache r (set_item_overrides (put_item_row r i v) s)))"

definition delete_menu_item_override :: "oid \<Rightarrow> oid \<Rightarrow> menu_state \<Rightarrow> unit result \<times> menu_state" where
  "delete_menu_item_override r i s =
     (Inr (), invalidate_menu_cache r (set_item_overrides (delete_one (\<lambda>w. io_locationId w = r \<and> io_menuItemId w = i)) s))"

definition put_category_override :: "oid \<Rightarrow> oid \<Rightarrow> category_override_input \<Rightarrow> menu_state \<Rightarrow> unit result \<times> menu_state" where
  "put_category_override r i v s =
     (case business_of_location r s of
        None \<Rightarrow> (Inl (Not_Found ''category''), s)
      | Some b \<Rightarrow>
          if \<not> list_ex (is_category (Of_Business b) i) (mn_categories (ms_store s)) then (Inl (Not_Found ''category''), s)
          else (Inr (), invalidate_menu_cache r (set_category_overrides (put_category_row r i v) s)))"

definition delete_category_override :: "oid \<Rightarrow> oid \<Rightarrow> menu_state \<Rightarrow> unit result \<times> menu_state" where
  "delete_category_override r i s =
     (Inr (), invalidate_menu_cache r (set_category_overrides (delete_one (\<lambda>w. co_locationId w = r \<and> co_categoryId w = i)) s))"

definition put_modifier_group_override :: "oid \<Rightarrow> oid \<Rightarrow> oid \<Rightarrow> group_override_input \<Rightarrow> menu_state \<Rightarrow> unit result \<times> menu_state" where
  "put_modifier_group_override r item i v s =
     (case business_of_location r s of
        None \<Rightarrow> (Inl (Not_Found ''group''), s)
      | Some b \<Rightarrow> (case find_one (is_group (Of_Business b) item i) (groups_of s) of
          None \<Rightarrow> (Inl (Not_Found ''group''), s)
        | Some g \<Rightarrow>
            if list_ex (\<lambda>w. oo_optionId w \<notin> mo_id ` set (mg_options g)) (nullish (vg_optionOverrides v) [])
            then (Inl (Bad_Request ''optionId''), s)
            else (Inr (), invalidate_menu_cache r (set_group_overrides (put_group_row r i v) s))))"

definition delete_modifier_group_override :: "oid \<Rightarrow> oid \<Rightarrow> menu_state \<Rightarrow> unit result \<times> menu_state" where
  "delete_modifier_group_override r i s =
     (Inr (), invalidate_menu_cache r (set_group_overrides (delete_one (\<lambda>w. go_locationId w = r \<and> go_modifierGroupId w = i)) s))"

section \<open>Reading\<close>

definition caller_can_preview :: "claims option \<Rightarrow> oid \<Rightarrow> bool" where
  "caller_can_preview c r = (case c of None \<Rightarrow> False | Some u \<Rightarrow> cl_role u = Platform_Admin \<or> cl_restaurantId u = Some r)"

definition current_menu :: "menu_env \<Rightarrow> menu_store \<Rightarrow> oid \<Rightarrow> resolved_menu" where
  "current_menu env s r = public_menu (ne_compare env) (ne_binary env) s r"

text \<open>The public menu, with whether it came out of the cache. \<open>c\<close> are the claims of a token that verified.\<close>

definition list_menu :: "menu_env \<Rightarrow> claims option \<Rightarrow> oid \<Rightarrow> menu_state \<Rightarrow> (resolved_menu \<times> bool) result \<times> menu_state" where
  "list_menu env c r s =
     (case find_restaurant r (mn_db (ms_store s)) of
        None \<Rightarrow> (Inl (Not_Found ''restaurant''), s)
      | Some x \<Rightarrow>
          if res_status x \<noteq> Restaurant_Active \<and> \<not> caller_can_preview c r then (Inl (Not_Found ''restaurant''), s)
          else (case ms_cache s r of
            Some m \<Rightarrow> (Inr (m, True), s)
          | None \<Rightarrow> (let m = current_menu env (ms_store s) r in
              (Inr (m, False), s\<lparr>ms_cache := (ms_cache s)(r := Some m)\<rparr>))))"

text \<open>The same request when others run between its reading of the documents and its writing of the cache.\<close>

definition list_menu_during :: "menu_env \<Rightarrow> claims option \<Rightarrow> oid \<Rightarrow> (menu_state \<Rightarrow> menu_state) \<Rightarrow> menu_state \<Rightarrow>
    (resolved_menu \<times> bool) result \<times> menu_state" where
  "list_menu_during env c r meanwhile s =
     (case list_menu env c r s of
        (Inr (m, False), _) \<Rightarrow> (let s' = meanwhile s in (Inr (m, False), s'\<lparr>ms_cache := (ms_cache s')(r := Some m)\<rparr>))
      | (res, s') \<Rightarrow> (res, meanwhile s'))"

text \<open>The staff's view has hidden items too and is never cached.\<close>

definition list_all_menu_items :: "menu_env \<Rightarrow> oid \<Rightarrow> menu_state \<Rightarrow> resolved_item list" where
  "list_all_menu_items env r s =
     (case canonical_business (mn_db (ms_store s)) (mn_docs (ms_store s)) r of
        Some b \<Rightarrow> rm_items (resolve_menu_for_location (ne_compare env) (ms_store s) b r True)
      | None \<Rightarrow> js_sort (\<lambda>a b. or_else (ne_binary env (ri_categoryId a) (ri_categoryId b))
            (or_else (ri_sortOrder a - ri_sortOrder b) (ne_binary env (ri_name a) (ri_name b))))
          (map (\<lambda>i. \<lparr>ri_id = mi_id i, ri_restaurantId = r, ri_categoryId = mi_categoryId i, ri_name = mi_name i,
              ri_price = mi_price i, ri_isAvailable = mi_isAvailable i, ri_sortOrder = mi_sortOrder i\<rparr>)
            (filter (\<lambda>i. mi_restaurantId i = Some r) (items_of s))))"

definition list_canonical_menu :: "menu_env \<Rightarrow> oid \<Rightarrow> menu_state \<Rightarrow> menu_item list" where
  "list_canonical_menu env b s =
     js_sort (\<lambda>x y. or_else (ne_binary env (mi_categoryId x) (mi_categoryId y))
         (or_else (mi_sortOrder x - mi_sortOrder y) (ne_binary env (mi_name x) (mi_name y))))
       (filter (\<lambda>i. mi_businessId i = Some b) (items_of s))"

definition list_categories_in :: "menu_env \<Rightarrow> menu_scope \<Rightarrow> menu_state \<Rightarrow> category list" where
  "list_categories_in env sc s =
     js_sort (\<lambda>x y. or_else (cat_sortOrder x - cat_sortOrder y) (ne_binary env (cat_name x) (cat_name y)))
       (filter (\<lambda>c. in_menu_scope sc (category_place c)) (mn_categories (ms_store s)))"

definition list_modifier_groups_in :: "menu_env \<Rightarrow> menu_scope \<Rightarrow> oid \<Rightarrow> menu_state \<Rightarrow> modifier_group list" where
  "list_modifier_groups_in env sc item s =
     js_sort (\<lambda>x y. or_else (mg_sortOrder x - mg_sortOrder y) (ne_binary env (mg_name x) (mg_name y)))
       (filter (\<lambda>g. in_menu_scope sc (group_place g) \<and> mg_menuItemId g = item) (groups_of s))"

end
