(* ===== verification/Menu_Safety.thy ===== *)
theory Menu_Safety
  imports Menu_Admin
begin

text \<open>
  Runs of the menu handlers. An operation in a scope leaves every document outside it alone, so the
  menu of any other location stays as it is; that keeps the cache of public menus true to the documents
  and the businesses apart.
\<close>

section \<open>Writes inside a scope\<close>

text \<open>A list of documents with their places is written inside a scope: what is outside is the same,
  and no document is moved to a place that was not there before.\<close>

definition written_in :: "menu_scope \<Rightarrow> ('a \<Rightarrow> oid option \<times> oid option) \<Rightarrow> 'a list \<Rightarrow> 'a list \<Rightarrow> bool" where
  "written_in sc pl xs ys \<longleftrightarrow>
     filter (\<lambda>x. \<not> in_menu_scope sc (pl x)) ys = filter (\<lambda>x. \<not> in_menu_scope sc (pl x)) xs \<and>
     pl ` set ys \<subseteq> insert (scope_place sc) (pl ` set xs)"

lemma in_own_scope [simp]: "in_menu_scope sc (scope_place sc)"
  by (cases sc) simp_all

lemma written_in_refl [simp]: "written_in sc pl xs xs"
  by (auto simp: written_in_def)

lemma written_in_append: "pl x = scope_place sc \<Longrightarrow> written_in sc pl xs (xs @ [x])"
  by (auto simp: written_in_def)

lemma written_in_update:
  assumes "\<And>x. p x \<Longrightarrow> in_menu_scope sc (pl x)" "\<And>x. pl (f x) = pl x"
  shows "written_in sc pl xs (update_one p f xs)"
proof -
  have "filter (\<lambda>x. \<not> in_menu_scope sc (pl x)) (update_one p f xs) = filter (\<lambda>x. \<not> in_menu_scope sc (pl x)) xs"
    by (induction xs) (auto simp: assms)
  moreover have "map pl (update_one p f xs) = map pl xs" by (simp add: map_update_one assms(2))
  then have "pl ` set (update_one p f xs) = pl ` set xs" by (metis list.set_map)
  ultimately show ?thesis by (auto simp: written_in_def)
qed

lemma written_in_delete:
  assumes "\<And>x. p x \<Longrightarrow> in_menu_scope sc (pl x)"
  shows "written_in sc pl xs (delete_one p xs)"
proof -
  have "filter (\<lambda>x. \<not> in_menu_scope sc (pl x)) (delete_one p xs) = filter (\<lambda>x. \<not> in_menu_scope sc (pl x)) xs"
    by (induction xs) (auto simp: assms)
  then show ?thesis using set_delete_one [of p xs] by (auto simp: written_in_def)
qed

text \<open>Documents picked by a place that the scope does not reach.\<close>

lemma written_in_picked:
  assumes "written_in sc pl xs ys" "\<forall>x \<in> set xs \<union> set ys. q (pl x) \<longrightarrow> \<not> in_menu_scope sc (pl x)"
  shows "filter (\<lambda>x. q (pl x)) ys = filter (\<lambda>x. q (pl x)) xs"
proof -
  have "filter (\<lambda>x. q (pl x)) zs = filter (\<lambda>x. q (pl x)) (filter (\<lambda>x. \<not> in_menu_scope sc (pl x)) zs)"
    if "\<forall>x \<in> set zs. q (pl x) \<longrightarrow> \<not> in_menu_scope sc (pl x)" for zs
    using that by (induction zs) auto
  then show ?thesis using assms unfolding written_in_def by (metis UnI1 UnI2)
qed

text \<open>The places of documents agree with the restaurants: a document of a location that is also
  canonical is canonical for the business of that location.\<close>

definition business_at :: "menu_store \<Rightarrow> oid \<Rightarrow> oid option" where
  "business_at s r = Option.bind (find_restaurant r (mn_db s)) res_businessId"

definition place_ok :: "menu_store \<Rightarrow> oid option \<times> oid option \<Rightarrow> bool" where
  "place_ok s p \<longleftrightarrow> (\<forall>r b. p = (Some r, Some b) \<longrightarrow> business_at s r = Some b)"

definition places_ok :: "menu_store \<Rightarrow> bool" where
  "places_ok s \<longleftrightarrow> (\<forall>i \<in> set (md_items (mn_docs s)). place_ok s (item_place i)) \<and>
     (\<forall>g \<in> set (md_groups (mn_docs s)). place_ok s (group_place g)) \<and>
     (\<forall>c \<in> set (mn_categories s). place_ok s (category_place c))"

lemma place_ok_scope [simp]: "place_ok s (scope_place sc)"
  by (cases sc) (simp_all add: place_ok_def)

lemma place_ok_cong: "mn_db s' = mn_db s \<Longrightarrow> place_ok s' p = place_ok s p"
  by (simp add: place_ok_def business_at_def)

text \<open>An operation on the documents in a scope, let through by the guard of the scope.\<close>

definition documents_written :: "menu_scope \<Rightarrow> menu_store \<Rightarrow> menu_store \<Rightarrow> bool" where
  "documents_written sc s s' \<longleftrightarrow> mn_db s' = mn_db s \<and> menu_guard sc s = Inr () \<and>
     written_in sc item_place (md_items (mn_docs s)) (md_items (mn_docs s')) \<and>
     written_in sc group_place (md_groups (mn_docs s)) (md_groups (mn_docs s')) \<and>
     written_in sc category_place (mn_categories s) (mn_categories s') \<and>
     md_itemOverrides (mn_docs s') = md_itemOverrides (mn_docs s) \<and>
     md_groupOverrides (mn_docs s') = md_groupOverrides (mn_docs s) \<and> mn_categoryOverrides s' = mn_categoryOverrides s"

definition reached :: "menu_scope \<Rightarrow> menu_store \<Rightarrow> oid \<Rightarrow> bool" where
  "reached sc s l = (case sc of Location r \<Rightarrow> l = r | Of_Business b \<Rightarrow> business_at s l = Some b)"

lemma documents_written_places: "documents_written sc s s' \<Longrightarrow> places_ok s \<Longrightarrow> places_ok s'"
  unfolding documents_written_def places_ok_def written_in_def using place_ok_cong [of s' s] place_ok_scope
  by (smt (verit, best) image_iff insertE subsetD)

lemma canonical_alt: "canonical_business (mn_db s) (mn_docs s) l =
    (case business_at s l of None \<Rightarrow> None
     | Some b \<Rightarrow> if \<exists>i \<in> set (md_items (mn_docs s)). mi_businessId i = Some b then Some b else None)"
  by (auto simp: canonical_business_def business_at_def business_has_canonical_menu_def list_ex_iff split: option.splits)

lemma unreached_own:
  assumes "\<not> reached sc s l" "place_ok s p" "fst p = Some l"
  shows "\<not> in_menu_scope sc p"
  using assms by (cases sc; cases p) (auto simp: reached_def place_ok_def)

lemma unreached_business:
  assumes "\<not> reached sc s l" "place_ok s p" "snd p = Some b" "business_at s l = Some b"
    and "menu_guard sc s = Inr ()" "i \<in> set (md_items (mn_docs s))" "mi_businessId i = Some b"
  shows "\<not> in_menu_scope sc p"
proof (cases sc)
  case (Location r)
  then have "canonical_business (mn_db s) (mn_docs s) r = None"
    using assms(5) by (simp add: assert_menu_not_migrated_def split: option.splits)
  then have "business_at s r \<noteq> Some b" using assms(6,7) by (auto simp: canonical_alt split: if_splits)
  then show ?thesis using assms(2,3) Location by (cases p) (auto simp: place_ok_def)
qed (use assms in \<open>auto simp: reached_def\<close>)

lemma picked_own:
  assumes "written_in sc pl xs ys" "\<not> reached sc s l" "\<forall>x \<in> set xs \<union> set ys. place_ok s (pl x)"
  shows "filter (\<lambda>x. fst (pl x) = Some l) ys = filter (\<lambda>x. fst (pl x) = Some l) xs"
  by (rule written_in_picked [OF assms(1), where q = "\<lambda>p. fst p = Some l"]) (use assms(2,3) unreached_own in blast)

lemma picked_business:
  assumes "written_in sc pl xs ys" "\<not> reached sc s l" "\<forall>x \<in> set xs \<union> set ys. place_ok s (pl x)"
    and "business_at s l = Some b" "menu_guard sc s = Inr ()" "i \<in> set (md_items (mn_docs s))" "mi_businessId i = Some b"
  shows "filter (\<lambda>x. snd (pl x) = Some b) ys = filter (\<lambda>x. snd (pl x) = Some b) xs"
  by (rule written_in_picked [OF assms(1), where q = "\<lambda>p. snd p = Some b"]) (use assms(2-7) unreached_business in blast)

text \<open>The menu of a location in terms of what is picked.\<close>

lemma legacy_menu_alt: "load_legacy_public_menu bin s rid =
    (let is = filter (\<lambda>i. fst (item_place i) = Some rid) (md_items (mn_docs s));
         gs = filter (\<lambda>g. fst (group_place g) = Some rid) (md_groups (mn_docs s));
         cs = filter (\<lambda>c. fst (category_place c) = Some rid) (mn_categories s) in
     load_legacy_public_menu bin (s\<lparr>mn_docs := (mn_docs s)\<lparr>md_items := is, md_groups := gs\<rparr>, mn_categories := cs\<rparr>) rid)"
  by (simp add: load_legacy_public_menu_def Let_def item_place_def group_place_def category_place_def filter_filter conj_commute
      cong: conj_cong)

lemma resolved_menu_alt: "resolve_menu_for_location cmp s b rid h =
    (let is = filter (\<lambda>i. snd (item_place i) = Some b) (md_items (mn_docs s));
         gs = filter (\<lambda>g. snd (group_place g) = Some b) (md_groups (mn_docs s));
         cs = filter (\<lambda>c. snd (category_place c) = Some b) (mn_categories s) in
     resolve_menu_for_location cmp (s\<lparr>mn_docs := (mn_docs s)\<lparr>md_items := is, md_groups := gs\<rparr>, mn_categories := cs\<rparr>) b rid h)"
  by (simp add: resolve_menu_for_location_def resolve_items_def resolve_groups_def resolve_categories_def Let_def
      item_place_def group_place_def category_place_def filter_filter)

lemma store_eqI: "mn_db s' = mn_db s \<Longrightarrow> md_itemOverrides (mn_docs s') = md_itemOverrides (mn_docs s) \<Longrightarrow>
    md_groupOverrides (mn_docs s') = md_groupOverrides (mn_docs s) \<Longrightarrow> mn_categoryOverrides s' = mn_categoryOverrides s \<Longrightarrow>
    (s' :: menu_store)\<lparr>mn_docs := (mn_docs s')\<lparr>md_items := is, md_groups := gs\<rparr>, mn_categories := cs\<rparr> =
    s\<lparr>mn_docs := (mn_docs s)\<lparr>md_items := is, md_groups := gs\<rparr>, mn_categories := cs\<rparr>"
  by (cases s; cases s'; cases "mn_docs s"; cases "mn_docs s'") simp

lemma unreached_canonical:
  assumes "documents_written sc s s'" "places_ok s" "\<not> reached sc s l"
  shows "canonical_business (mn_db s') (mn_docs s') l = canonical_business (mn_db s) (mn_docs s) l"
proof (cases "business_at s l")
  case None
  moreover have "business_at s' l = business_at s l" using assms(1) by (simp add: documents_written_def business_at_def)
  ultimately show ?thesis by (simp add: canonical_alt)
next
  case (Some b)
  have db: "business_at s' l = Some b" using assms(1) Some by (simp add: documents_written_def business_at_def)
  have w: "written_in sc item_place (md_items (mn_docs s)) (md_items (mn_docs s'))" "menu_guard sc s = Inr ()"
    using assms(1) by (simp_all add: documents_written_def)
  have "(\<exists>i \<in> set (md_items (mn_docs s')). mi_businessId i = Some b) = (\<exists>i \<in> set (md_items (mn_docs s)). mi_businessId i = Some b)"
  proof
    assume "\<exists>i \<in> set (md_items (mn_docs s')). mi_businessId i = Some b"
    then obtain i where i: "i \<in> set (md_items (mn_docs s'))" "snd (item_place i) = Some b" by (auto simp: item_place_def)
    then have "item_place i \<in> insert (scope_place sc) (item_place ` set (md_items (mn_docs s)))"
      using w(1) unfolding written_in_def by blast
    moreover have "snd (scope_place sc) \<noteq> Some b" using assms(3) Some by (cases sc) (auto simp: reached_def)
    ultimately obtain j where "j \<in> set (md_items (mn_docs s))" "item_place i = item_place j" using i(2) by auto
    then show "\<exists>i \<in> set (md_items (mn_docs s)). mi_businessId i = Some b" using i(2) by (auto simp: item_place_def)
  next
    assume "\<exists>i \<in> set (md_items (mn_docs s)). mi_businessId i = Some b"
    then obtain i where i: "i \<in> set (md_items (mn_docs s))" "mi_businessId i = Some b" by blast
    have "\<forall>x \<in> set (md_items (mn_docs s)) \<union> set (md_items (mn_docs s')). place_ok s (item_place x)"
      using assms(2) documents_written_places [OF assms(1,2)] place_ok_cong [of s' s] assms(1)
      by (auto simp: places_ok_def documents_written_def)
    from picked_business [OF w(1) assms(3) this Some w(2) i]
    have "i \<in> set (filter (\<lambda>x. snd (item_place x) = Some b) (md_items (mn_docs s')))" using i by (simp add: item_place_def)
    then show "\<exists>i \<in> set (md_items (mn_docs s')). mi_businessId i = Some b" by (auto simp: item_place_def)
  qed
  then show ?thesis by (simp add: canonical_alt Some db)
qed

lemma unreached_menu:
  assumes w: "documents_written sc s s'" and ok: "places_ok s" and l: "\<not> reached sc s l"
  shows "public_menu cmp bin s' l = public_menu cmp bin s l"
proof -
  have same: "mn_db s' = mn_db s" "md_itemOverrides (mn_docs s') = md_itemOverrides (mn_docs s)"
    "md_groupOverrides (mn_docs s') = md_groupOverrides (mn_docs s)" "mn_categoryOverrides s' = mn_categoryOverrides s"
    "menu_guard sc s = Inr ()"
    using w by (simp_all add: documents_written_def)
  have ok': "places_ok s'" by (rule documents_written_places [OF w ok])
  have pl: "\<forall>x \<in> set (md_items (mn_docs s)) \<union> set (md_items (mn_docs s')). place_ok s (item_place x)"
    "\<forall>x \<in> set (md_groups (mn_docs s)) \<union> set (md_groups (mn_docs s')). place_ok s (group_place x)"
    "\<forall>x \<in> set (mn_categories s) \<union> set (mn_categories s'). place_ok s (category_place x)"
    using ok ok' place_ok_cong [OF same(1)] by (auto simp: places_ok_def)
  have ws: "written_in sc item_place (md_items (mn_docs s)) (md_items (mn_docs s'))"
    "written_in sc group_place (md_groups (mn_docs s)) (md_groups (mn_docs s'))"
    "written_in sc category_place (mn_categories s) (mn_categories s')"
    using w by (simp_all add: documents_written_def)
  note can = unreached_canonical [OF w ok l]
  show ?thesis
  proof (cases "canonical_business (mn_db s) (mn_docs s) l")
    case None
    have "load_legacy_public_menu bin s' l = load_legacy_public_menu bin s l"
      unfolding legacy_menu_alt [of bin s' l] legacy_menu_alt [of bin s l]
      by (simp add: Let_def picked_own [OF ws(1) l pl(1)] picked_own [OF ws(2) l pl(2)] picked_own [OF ws(3) l pl(3)]
          store_eqI [OF same(1-4)])
    then show ?thesis using can None by (simp add: public_menu_def)
  next
    case (Some b)
    then obtain i where b: "business_at s l = Some b" "i \<in> set (md_items (mn_docs s))" "mi_businessId i = Some b"
      by (auto simp: canonical_alt split: option.splits if_splits)
    note pick = picked_business [OF ws(1) l pl(1) b(1) same(5) b(2,3)] picked_business [OF ws(2) l pl(2) b(1) same(5) b(2,3)]
      picked_business [OF ws(3) l pl(3) b(1) same(5) b(2,3)]
    have "resolve_menu_for_location cmp s' b l False = resolve_menu_for_location cmp s b l False"
      unfolding resolved_menu_alt [of cmp s' b l] resolved_menu_alt [of cmp s b l]
      by (simp add: Let_def pick store_eqI [OF same(1-4)])
    then show ?thesis using can Some by (simp add: public_menu_def)
  qed
qed

section \<open>The operations\<close>

text \<open>An operation on the overrides of one location.\<close>

definition overrides_written :: "oid \<Rightarrow> menu_store \<Rightarrow> menu_store \<Rightarrow> bool" where
  "overrides_written r s s' \<longleftrightarrow> mn_db s' = mn_db s \<and> md_items (mn_docs s') = md_items (mn_docs s) \<and>
     md_groups (mn_docs s') = md_groups (mn_docs s) \<and> mn_categories s' = mn_categories s \<and>
     (\<forall>l. l \<noteq> r \<longrightarrow> filter (\<lambda>w. io_locationId w = l) (md_itemOverrides (mn_docs s')) = filter (\<lambda>w. io_locationId w = l) (md_itemOverrides (mn_docs s)) \<and>
       filter (\<lambda>w. go_locationId w = l) (md_groupOverrides (mn_docs s')) = filter (\<lambda>w. go_locationId w = l) (md_groupOverrides (mn_docs s)) \<and>
       filter (\<lambda>w. co_locationId w = l) (mn_categoryOverrides s') = filter (\<lambda>w. co_locationId w = l) (mn_categoryOverrides s))"

lemma overridden_menu:
  assumes "overrides_written r s s'" "l \<noteq> r"
  shows "public_menu cmp bin s' l = public_menu cmp bin s l"
proof -
  have can: "canonical_business (mn_db s') (mn_docs s') l = canonical_business (mn_db s) (mn_docs s) l"
    unfolding canonical_alt business_at_def using assms(1) by (simp add: overrides_written_def cong: option.case_cong)
  have resolved: "resolve_menu_for_location cmp s' b l h = resolve_menu_for_location cmp s b l h" for b h
    using assms by (simp add: overrides_written_def resolve_menu_for_location_def resolve_items_def resolve_groups_def resolve_categories_def)
  have legacy: "load_legacy_public_menu bin s' l = load_legacy_public_menu bin s l"
    using assms(1) by (simp add: overrides_written_def load_legacy_public_menu_def)
  show ?thesis unfolding public_menu_def can resolved legacy ..
qed

lemma other_rows_update: "(\<And>w. p w \<Longrightarrow> k w = r) \<Longrightarrow> (\<And>w. k (f w) = k w) \<Longrightarrow> l \<noteq> r \<Longrightarrow>
    filter (\<lambda>w. k w = l) (update_one p f ws) = filter (\<lambda>w. k w = l) ws"
  by (induction ws) auto

lemma other_rows_delete: "(\<And>w. p w \<Longrightarrow> k w = r) \<Longrightarrow> l \<noteq> r \<Longrightarrow>
    filter (\<lambda>w. k w = l) (delete_one p ws) = filter (\<lambda>w. k w = l) ws"
  by (induction ws) auto

lemma put_rows:
  assumes "l \<noteq> r"
  shows "filter (\<lambda>w. io_locationId w = l) (put_item_row r i v ws) = filter (\<lambda>w. io_locationId w = l) ws"
    and "filter (\<lambda>w. go_locationId w = l) (put_group_row r i v' gs) = filter (\<lambda>w. go_locationId w = l) gs"
    and "filter (\<lambda>w. co_locationId w = l) (put_category_row r i v'' cs) = filter (\<lambda>w. co_locationId w = l) cs"
  subgoal unfolding put_item_row_def Let_def using assms
    by (auto intro!: other_rows_update [where r = r and k = io_locationId])
  subgoal unfolding put_group_row_def Let_def using assms
    by (auto intro!: other_rows_update [where r = r and k = go_locationId])
  subgoal unfolding put_category_row_def Let_def using assms
    by (auto intro!: other_rows_update [where r = r and k = co_locationId])
  done

text \<open>What a handler does: nothing, a write in its scope followed by the invalidation of the scope, a
  write of overrides followed by that of the location, or filling the cache.\<close>

inductive menu_change :: "menu_env \<Rightarrow> menu_scope \<Rightarrow> menu_state \<Rightarrow> menu_state \<Rightarrow> bool" for env sc s where
  untouched: "menu_change env sc s s"
| documents: "documents_written sc (ms_store s) st \<Longrightarrow> menu_change env sc s (invalidate sc (s\<lparr>ms_store := st\<rparr>))"
| overrides: "sc = Location r \<Longrightarrow> overrides_written r (ms_store s) st \<Longrightarrow> menu_change env sc s (invalidate_menu_cache r (s\<lparr>ms_store := st\<rparr>))"

inductive_cases menu_changeE: "menu_change env sc s s'"

lemma set_store:
  "set_items f s = s\<lparr>ms_store := ms_store (set_items f s)\<rparr>" "set_groups fg s = s\<lparr>ms_store := ms_store (set_groups fg s)\<rparr>"
  "set_categories fc s = s\<lparr>ms_store := ms_store (set_categories fc s)\<rparr>"
  "set_item_overrides f' s = s\<lparr>ms_store := ms_store (set_item_overrides f' s)\<rparr>"
  "set_group_overrides g s = s\<lparr>ms_store := ms_store (set_group_overrides g s)\<rparr>"
  "set_category_overrides h s = s\<lparr>ms_store := ms_store (set_category_overrides h s)\<rparr>"
  by (simp_all add: set_items_def set_groups_def set_categories_def set_item_overrides_def set_group_overrides_def set_category_overrides_def)

lemma change_items: "menu_guard sc (ms_store s) = Inr () \<Longrightarrow> written_in sc item_place (items_of s) (f (items_of s)) \<Longrightarrow>
    menu_change env sc s (invalidate sc (set_items f s))"
  by (subst set_store, rule documents) (simp add: documents_written_def set_items_def)

lemma change_groups: "menu_guard sc (ms_store s) = Inr () \<Longrightarrow> written_in sc group_place (groups_of s) (f (groups_of s)) \<Longrightarrow>
    menu_change env sc s (invalidate sc (set_groups f s))"
  by (subst set_store, rule documents) (simp add: documents_written_def set_groups_def)

lemma change_categories: "menu_guard sc (ms_store s) = Inr () \<Longrightarrow>
    written_in sc category_place (mn_categories (ms_store s)) (f (mn_categories (ms_store s))) \<Longrightarrow>
    menu_change env sc s (invalidate sc (set_categories f s))"
  by (subst set_store, rule documents) (simp add: documents_written_def set_categories_def)

lemma place_updates [simp]: "item_place (apply_item_update u n i) = item_place i"
  "category_place (apply_category_update u' n c) = category_place c"
  "group_place (apply_group_update u'' n os g) = group_place g"
  by (simp_all add: item_place_def apply_item_update_def category_place_def apply_category_update_def
      group_place_def apply_group_update_def)

lemma create_changes:
  "menu_change env sc s (snd (create_item env sc body s))"
  "menu_change env sc s (snd (create_category_in env sc cbody s))"
  "menu_change env sc s (snd (create_group env sc item gbody s))"
  by (auto simp: create_item_def create_category_in_def create_group_def item_place_def category_place_def group_place_def
      intro!: menu_change.untouched change_items change_categories change_groups written_in_append split: sum.splits)

lemma update_changes:
  "menu_change env sc s (snd (update_item sc i u s))"
  "menu_change env sc s (snd (update_category_in sc i cu s))"
  "menu_change env sc s (snd (update_group env sc item i gu s))"
  by (auto simp: update_item_def update_category_in_def update_group_def is_item_def is_category_def is_group_def
      intro!: menu_change.untouched change_items change_categories change_groups written_in_update split: sum.splits)

lemma delete_changes:
  "menu_change env sc s (snd (delete_item sc i s))"
  "menu_change env sc s (snd (delete_category_in sc i s))"
  "menu_change env sc s (snd (delete_group sc item i s))"
  by (auto simp: delete_item_def delete_category_in_def delete_group_def is_item_def is_category_def is_group_def
      intro!: menu_change.untouched change_items change_categories change_groups written_in_delete split: sum.splits)

lemma override_change: "overrides_written r (ms_store s) (ms_store s') \<Longrightarrow> s' = s\<lparr>ms_store := ms_store s'\<rparr> \<Longrightarrow>
    menu_change env (Location r) s (invalidate_menu_cache r s')"
  using overrides [of "Location r" r s "ms_store s'" env] by simp

lemma override_changes:
  "menu_change env (Location r) s (snd (put_menu_item_override r i v s))"
  "menu_change env (Location r) s (snd (delete_menu_item_override r i s))"
  "menu_change env (Location r) s (snd (put_category_override r i vc s))"
  "menu_change env (Location r) s (snd (delete_category_override r i s))"
  "menu_change env (Location r) s (snd (put_modifier_group_override r item i vg s))"
  "menu_change env (Location r) s (snd (delete_modifier_group_override r i s))"
  by (auto simp: put_menu_item_override_def delete_menu_item_override_def put_category_override_def delete_category_override_def
      put_modifier_group_override_def delete_modifier_group_override_def overrides_written_def put_rows
      set_item_overrides_def set_group_overrides_def set_category_overrides_def
      intro!: menu_change.untouched override_change other_rows_delete [where r = r and k = io_locationId]
        other_rows_delete [where r = r and k = go_locationId] other_rows_delete [where r = r and k = co_locationId]
      split: option.splits)

section \<open>Runs\<close>

text \<open>A request of staff, with the schema of its route and the scope of its handler.\<close>

inductive menu_step :: "menu_env \<Rightarrow> menu_scope \<Rightarrow> menu_state \<Rightarrow> menu_state \<Rightarrow> bool" for env sc s where
  item_created: "menu_item_schema body \<Longrightarrow> menu_step env sc s (snd (create_item env sc body s))"
| item_updated: "update_menu_item_schema u \<Longrightarrow> menu_step env sc s (snd (update_item sc i u s))"
| item_deleted: "menu_step env sc s (snd (delete_item sc i s))"
| category_created: "category_schema body \<Longrightarrow> menu_step env sc s (snd (create_category_in env sc body s))"
| category_updated: "update_category_schema u \<Longrightarrow> menu_step env sc s (snd (update_category_in sc i u s))"
| category_deleted: "menu_step env sc s (snd (delete_category_in sc i s))"
| group_created: "modifier_group_schema body \<Longrightarrow> menu_step env sc s (snd (create_group env sc item body s))"
| group_updated: "update_modifier_group_schema u \<Longrightarrow> menu_step env sc s (snd (update_group env sc item i u s))"
| group_deleted: "menu_step env sc s (snd (delete_group sc item i s))"
| item_overridden: "sc = Location r \<Longrightarrow> menu_item_override_schema v \<Longrightarrow> menu_step env sc s (snd (put_menu_item_override r i v s))"
| item_reset: "sc = Location r \<Longrightarrow> menu_step env sc s (snd (delete_menu_item_override r i s))"
| category_overridden: "sc = Location r \<Longrightarrow> category_override_schema v \<Longrightarrow> menu_step env sc s (snd (put_category_override r i v s))"
| category_reset: "sc = Location r \<Longrightarrow> menu_step env sc s (snd (delete_category_override r i s))"
| group_overridden: "sc = Location r \<Longrightarrow> modifier_group_override_schema v \<Longrightarrow> menu_step env sc s (snd (put_modifier_group_override r item i v s))"
| group_reset: "sc = Location r \<Longrightarrow> menu_step env sc s (snd (delete_modifier_group_override r i s))"

lemma menu_step_changes: "menu_step env sc s s' \<Longrightarrow> menu_change env sc s s'"
  by (cases rule: menu_step.cases) (auto intro: create_changes update_changes delete_changes override_changes)

text \<open>Runs: requests of staff, customers reading the menu, and entries of the cache running out.\<close>

inductive menu_run :: "(string \<Rightarrow> string \<Rightarrow> int) \<Rightarrow> (string \<Rightarrow> string \<Rightarrow> int) \<Rightarrow> menu_state \<Rightarrow> menu_state \<Rightarrow> bool" for cmp bin s where
  menu_refl: "menu_run cmp bin s s"
| staff: "menu_run cmp bin s s1 \<Longrightarrow> menu_step env sc s1 s2 \<Longrightarrow> menu_run cmp bin s s2"
| customer: "menu_run cmp bin s s1 \<Longrightarrow> ne_compare env = cmp \<Longrightarrow> ne_binary env = bin \<Longrightarrow>
    menu_run cmp bin s (snd (list_menu env c r s1))"
| expired: "menu_run cmp bin s s1 \<Longrightarrow> menu_run cmp bin s (invalidate_menu_cache r s1)"

locale menu_invariant =
  fixes cmp bin :: "string \<Rightarrow> string \<Rightarrow> int" and P :: "menu_state \<Rightarrow> bool"
  assumes step: "P s \<Longrightarrow> menu_step env sc s s' \<Longrightarrow> P s'"
    and filled: "P s \<Longrightarrow> P (s\<lparr>ms_cache := (ms_cache s)(r := Some (public_menu cmp bin (ms_store s) r))\<rparr>)"
    and dropped: "P s \<Longrightarrow> P (invalidate_menu_cache r s)"
begin

lemma listed: "P s \<Longrightarrow> ne_compare env = cmp \<Longrightarrow> ne_binary env = bin \<Longrightarrow> P (snd (list_menu env c r s))"
  using filled [of s r] by (auto simp: list_menu_def current_menu_def Let_def split: option.splits)

lemma run: "menu_run cmp bin s s' \<Longrightarrow> P s \<Longrightarrow> P s'"
  by (induction rule: menu_run.induct) (auto intro: step listed dropped)

end

text \<open>The cache holds nothing but the current menus.\<close>

definition cache_true :: "(string \<Rightarrow> string \<Rightarrow> int) \<Rightarrow> (string \<Rightarrow> string \<Rightarrow> int) \<Rightarrow> menu_state \<Rightarrow> bool" where
  "cache_true cmp bin s \<longleftrightarrow> places_ok (ms_store s) \<and>
     (\<forall>l m. ms_cache s l = Some m \<longrightarrow> m = public_menu cmp bin (ms_store s) l)"

lemma invalidated:
  "ms_store (invalidate sc s) = ms_store s"
  "ms_cache (invalidate sc s) l = Some m \<Longrightarrow> ms_cache s l = Some m \<and> \<not> reached sc (ms_store s) l"
proof -
  show "ms_store (invalidate sc s) = ms_store s"
    by (cases sc) (simp_all add: invalidate_menu_cache_def invalidate_menu_cache_for_business_def Let_def)
  have listed: "l \<in> res_id ` set (filter (\<lambda>r. res_businessId r = Some b) (db_restaurants (mn_db (ms_store s))))"
    if "business_at (ms_store s) l = Some b" for b
  proof -
    from that obtain x where "find_restaurant l (mn_db (ms_store s)) = Some x" "res_businessId x = Some b"
      by (auto simp: business_at_def bind_eq_Some_conv)
    then show ?thesis by (auto simp: find_restaurant_def dest: find_one_SomeD intro!: image_eqI [of _ _ x])
  qed
  show "ms_cache (invalidate sc s) l = Some m \<Longrightarrow> ms_cache s l = Some m \<and> \<not> reached sc (ms_store s) l"
    using listed by (cases sc) (auto simp: invalidate_menu_cache_def invalidate_menu_cache_for_business_def Let_def reached_def
        split: if_splits)
qed

lemma reached_same: "mn_db s' = mn_db s \<Longrightarrow> reached sc s' l = reached sc s l"
  by (simp add: reached_def business_at_def split: menu_scope.splits)

lemma change_cache_true:
  assumes "menu_change env sc s s'" "cache_true cmp bin s"
  shows "cache_true cmp bin s'"
  using assms(1)
proof cases
  case (documents st)
  have "places_ok st" using documents_written_places [OF documents(2)] assms(2) by (simp add: cache_true_def)
  moreover have "m = public_menu cmp bin st l" if "ms_cache s' l = Some m" for l m
  proof -
    have "mn_db st = mn_db (ms_store s)" using documents(2) by (simp add: documents_written_def)
    then have "ms_cache s l = Some m" "\<not> reached sc (ms_store s) l"
      using invalidated(2) [of sc "s\<lparr>ms_store := st\<rparr>" l m] that reached_same [of st "ms_store s" sc l] by (auto simp: documents(1))
    then show ?thesis using unreached_menu [OF documents(2), of l cmp bin] assms(2) by (simp add: cache_true_def)
  qed
  ultimately show ?thesis by (simp add: cache_true_def documents(1) invalidated(1))
next
  case (overrides r st)
  have "places_ok st" using assms(2) overrides(3) place_ok_cong [of st "ms_store s"]
    by (simp add: cache_true_def places_ok_def overrides_written_def)
  then show ?thesis using assms(2) overridden_menu [OF overrides(3), of _ cmp bin]
    by (auto simp: cache_true_def overrides(1) invalidate_menu_cache_def split: if_splits)
qed (use assms(2) in simp)

lemma cache_true_filled: "cache_true cmp bin s \<Longrightarrow>
    cache_true cmp bin (s\<lparr>ms_cache := (ms_cache s)(r := Some (public_menu cmp bin (ms_store s) r))\<rparr>)"
  by (simp add: cache_true_def)

lemma cache_true_step: "cache_true cmp bin s \<Longrightarrow> menu_step env sc s s' \<Longrightarrow> cache_true cmp bin s'"
  by (rule change_cache_true [OF menu_step_changes])

lemma cache_true_dropped: "cache_true cmp bin s \<Longrightarrow> cache_true cmp bin (invalidate_menu_cache r s)"
  by (auto simp: cache_true_def invalidate_menu_cache_def split: if_splits)

interpretation caches: menu_invariant cmp bin "cache_true cmp bin" for cmp bin
  by unfold_locales (fact cache_true_step cache_true_filled cache_true_dropped)+

section \<open>Groups that can be satisfied\<close>


lemma groups_untouched [simp]:
  "groups_of (invalidate sc s) = groups_of s" "groups_of (invalidate_menu_cache r s) = groups_of s"
  "groups_of (set_items f s) = groups_of s" "groups_of (set_categories fc s) = groups_of s"
  "groups_of (set_item_overrides fi s) = groups_of s" "groups_of (set_group_overrides fg s) = groups_of s"
  "groups_of (set_category_overrides fo s) = groups_of s" "groups_of (set_groups h s) = h (groups_of s)"
  by (simp_all add: invalidated invalidate_menu_cache_def set_items_def set_groups_def set_categories_def
      set_item_overrides_def set_group_overrides_def set_category_overrides_def)

lemma groups_other [simp]:
  "groups_of (snd (create_item env sc body s)) = groups_of s" "groups_of (snd (update_item sc i u s)) = groups_of s"
  "groups_of (snd (delete_item sc i s)) = groups_of s" "groups_of (snd (create_category_in env sc cb s)) = groups_of s"
  "groups_of (snd (update_category_in sc i cu s)) = groups_of s" "groups_of (snd (delete_category_in sc i s)) = groups_of s"
  "groups_of (snd (put_menu_item_override r i v s)) = groups_of s" "groups_of (snd (delete_menu_item_override r i s)) = groups_of s"
  "groups_of (snd (put_category_override r i vc s)) = groups_of s" "groups_of (snd (delete_category_override r i s)) = groups_of s"
  "groups_of (snd (put_modifier_group_override r item i vg s)) = groups_of s"
  "groups_of (snd (delete_modifier_group_override r i s)) = groups_of s"
  by (auto simp: create_item_def update_item_def delete_item_def create_category_in_def update_category_in_def delete_category_in_def
      put_menu_item_override_def delete_menu_item_override_def put_category_override_def delete_category_override_def
      put_modifier_group_override_def delete_modifier_group_override_def split: sum.splits option.splits)







section \<open>The properties\<close>

text \<open>C5. What a customer is shown is what an order is charged: an item is listed in the public menu under
  a name and a price exactly when the order path finds it under that name and price, and a modifier
  group is listed exactly when the order path finds it, with the same bounds and the same options on
  sale at the same prices, with or without a canonical menu and whatever the overrides.\<close>

theorem shown_is_charged:
  assumes "menu_keyed (mn_docs s)" and "k \<in> set ids"
  shows "map_of (fst (effective_menu (mn_db s) (mn_docs s) rid ids)) k = listed_item (public_menu cmp bin s rid) k \<and>
    rel_option same_group
      (Option.bind (listed_group (public_menu cmp bin s rid) gid) (\<lambda>g. if rg_menuItemId g \<in> set ids then Some g else None))
      (map_of (snd (effective_menu (mn_db s) (mn_docs s) rid ids)) gid)"
  using listed_item_charged [OF assms] listed_group_charged [OF assms(1)] by blast

text \<open>C13. The cache of public menus never lies: over every run of staff's requests, customers' readings and
  expiries, one after another, a cached menu is the menu the documents give.\<close>

theorem menu_cache_true:
  assumes "menu_run cmp bin s s'" and "cache_true cmp bin s" and "ms_cache s' l = Some m"
  shows "m = public_menu cmp bin (ms_store s') l"
  using caches.run [OF assms(1,2)] assms(3) by (simp add: cache_true_def)

text \<open>C14. A request changes the menus of its own scope only: one for a location leaves every other location's
  public menu as it was, one for a business those of every other business' locations.\<close>

theorem menus_kept_apart:
  assumes "menu_step env sc s s'" and "places_ok (ms_store s)" and "\<not> reached sc (ms_store s) l"
  shows "public_menu cmp bin (ms_store s') l = public_menu cmp bin (ms_store s) l"
  using menu_step_changes [OF assms(1)]
proof cases
  case (documents st)
  then show ?thesis using unreached_menu [OF documents(2) assms(2,3), of cmp bin] by (simp add: invalidated)
next
  case (overrides r st)
  then show ?thesis using overridden_menu [OF overrides(3), of l cmp bin] assms(3)
    by (simp add: reached_def invalidate_menu_cache_def)
qed simp


end
