(* ===== verification/Menu_Clone.thy ===== *)
theory Menu_Clone
  imports Menu_Resolution
begin

text \<open>
  A new location takes over the menu of another one (\<open>menuClone.service.ts\<close>): by copying the rows in
  which the other one departs from the canonical menu, or, before a business has one, by copying the
  documents. \<open>new_id\<close> gives the id of the copy of a document, \<open>new_option\<close> that of an option of a group.
\<close>

section \<open>The two ways\<close>








section \<open>The same offer\<close>
















end
