(* ===== verification/Menu_Migration.thy ===== *)
theory Menu_Migration
  imports Menu_Resolution
begin

text \<open>
  The migration of a business from one menu per location to a canonical menu with overrides
  (\<open>menuBusinessMigration.service.ts\<close>). The oldest location is the anchor: its documents become the
  canonical ones. A document of another location is matched with one of the anchor and replaced by a
  row of overrides, or becomes canonical itself. The counts of the summary are left out. A step that
  breaks the unique index of the overrides aborts the transaction.
\<close>

section \<open>Matching\<close>

definition normalize_name :: "string \<Rightarrow> string" where
  "normalize_name s = js_lower (js_trim s)"

definition find_match :: "('a \<Rightarrow> oid) \<Rightarrow> ('a \<Rightarrow> string) \<Rightarrow> 'a list \<Rightarrow> oid option \<Rightarrow> string \<Rightarrow> 'a option" where
  "find_match ident name candidates provenance sibling_name =
     (case Option.bind provenance (\<lambda>p. find_one (\<lambda>c. ident c = p) candidates) of
        Some c \<Rightarrow> Some c
      | None \<Rightarrow> find_one (\<lambda>c. normalize_name (name c) = normalize_name sibling_name) candidates)"

definition create_category_row :: "category_override \<Rightarrow> category_override list \<Rightarrow> category_override list result" where
  "create_category_row v vs = (case insert_unique (\<lambda>a b. co_locationId a = co_locationId b \<and> co_categoryId a = co_categoryId b) v vs of
      None \<Rightarrow> Inl (Thrown ''E11000'') | Some ws \<Rightarrow> Inr ws)"

definition create_item_row :: "item_override \<Rightarrow> item_override list \<Rightarrow> item_override list result" where
  "create_item_row v vs = (case insert_unique (\<lambda>a b. io_locationId a = io_locationId b \<and> io_menuItemId a = io_menuItemId b) v vs of
      None \<Rightarrow> Inl (Thrown ''E11000'') | Some ws \<Rightarrow> Inr ws)"

definition create_group_row :: "group_override \<Rightarrow> group_override list \<Rightarrow> group_override list result" where
  "create_group_row v vs = (case insert_unique (\<lambda>a b. go_locationId a = go_locationId b \<and> go_modifierGroupId a = go_modifierGroupId b) v vs of
      None \<Rightarrow> Inl (Thrown ''E11000'') | Some ws \<Rightarrow> Inr ws)"

text \<open>An id map says which canonical document a sibling's document became.\<close>

type_synonym id_map = "(oid \<times> oid) list"

text \<open>Only a field that differs is written.\<close>

definition differing :: "'a \<Rightarrow> 'a \<Rightarrow> 'a option" where
  "differing mine theirs = (if mine \<noteq> theirs then Some mine else None)"

section \<open>Categories\<close>

definition migrate_category :: "oid \<Rightarrow> oid \<Rightarrow> category list \<Rightarrow> category \<Rightarrow> menu_store \<times> id_map \<Rightarrow> (menu_store \<times> id_map) result" where
  "migrate_category b l anchors c st =
     (case (st, find_match cat_id cat_name anchors (cat_clonedFrom c) (cat_name c)) of
        ((s, m), Some a) \<Rightarrow>
          (let row = \<lparr>co_locationId = l, co_categoryId = cat_id a, co_isActive = differing (cat_isActive c) (cat_isActive a),
                 co_sortOrderOverride = differing (cat_sortOrder c) (cat_sortOrder a)\<rparr>;
               rows = (if cat_sortOrder c \<noteq> cat_sortOrder a \<or> cat_isActive c \<noteq> cat_isActive a
                 then create_category_row row (mn_categoryOverrides s) else Inr (mn_categoryOverrides s)) in
           case rows of Inl e \<Rightarrow> Inl e
           | Inr vs \<Rightarrow> Inr (s\<lparr>mn_categoryOverrides := vs, mn_categories := delete_one (\<lambda>x. cat_id x = cat_id c) (mn_categories s)\<rparr>,
               AList.update (cat_id c) (cat_id a) m))
      | ((s, m), None) \<Rightarrow>
          (case create_category_row \<lparr>co_locationId = l, co_categoryId = cat_id c, co_isActive = Some True, co_sortOrderOverride = None\<rparr>
                 (mn_categoryOverrides s) of
             Inl e \<Rightarrow> Inl e
           | Inr vs \<Rightarrow> Inr (s\<lparr>mn_categoryOverrides := vs, mn_categories := update_one (\<lambda>x. cat_id x = cat_id c)
               (\<lambda>x. x\<lparr>cat_businessId := Some b, cat_isActive := False\<rparr>) (mn_categories s)\<rparr>,
               AList.update (cat_id c) (cat_id c) m)))"

text \<open>A loop whose body may throw.\<close>

fun each :: "('a \<Rightarrow> 's \<Rightarrow> 's result) \<Rightarrow> 'a list \<Rightarrow> 's \<Rightarrow> 's result" where
  "each f [] s = Inr s"
| "each f (x # xs) s = (case f x s of Inl e \<Rightarrow> Inl e | Inr s' \<Rightarrow> each f xs s')"

definition migrate_categories_at :: "oid \<Rightarrow> category list \<Rightarrow> oid \<Rightarrow> menu_store \<times> (oid \<times> id_map) list \<Rightarrow>
    (menu_store \<times> (oid \<times> id_map) list) result" where
  "migrate_categories_at b anchors l st =
     (case each (migrate_category b l anchors) (filter (\<lambda>c. cat_restaurantId c = Some l) (mn_categories (fst st))) (fst st, []) of
        Inl e \<Rightarrow> Inl e
      | Inr (s, m) \<Rightarrow> Inr (s, AList.update l m (snd st)))"

definition migrate_business_categories :: "oid \<Rightarrow> oid \<Rightarrow> oid list \<Rightarrow> menu_store \<Rightarrow> (menu_store \<times> (oid \<times> id_map) list) result" where
  "migrate_business_categories b anchor siblings s =
     (let anchors = filter (\<lambda>c. cat_restaurantId c = Some anchor) (mn_categories s);
          s1 = s\<lparr>mn_categories := map (\<lambda>c. if cat_restaurantId c = Some anchor then c\<lparr>cat_businessId := Some b\<rparr> else c) (mn_categories s)\<rparr> in
      each (migrate_categories_at b anchors) siblings (s1, []))"

section \<open>Items\<close>

text \<open>The anchor's items that may match: those of the category the sibling's category became.\<close>

definition item_match :: "menu_item list \<Rightarrow> id_map \<Rightarrow> menu_item \<Rightarrow> menu_item option" where
  "item_match anchors categories i =
     (let mapped = map_of categories (mi_categoryId i) in
      find_match mi_id mi_name (filter (\<lambda>a. mapped = Some (mi_categoryId a)) anchors) (mi_clonedFrom i) (mi_name i))"

definition item_row :: "oid \<Rightarrow> menu_item option \<Rightarrow> menu_item \<Rightarrow> item_override list" where
  "item_row l match i =
     (case match of
        Some a \<Rightarrow>
          if mi_price i \<noteq> mi_price a \<or> mi_isAvailable i \<noteq> mi_isAvailable a \<or> mi_sortOrder i \<noteq> mi_sortOrder a
          then [\<lparr>io_locationId = l, io_menuItemId = mi_id a, io_isAvailable = differing (mi_isAvailable i) (mi_isAvailable a),
            io_priceOverride = differing (mi_price i) (mi_price a), io_sortOrderOverride = differing (mi_sortOrder i) (mi_sortOrder a)\<rparr>]
          else []
      | None \<Rightarrow> [\<lparr>io_locationId = l, io_menuItemId = mi_id i, io_isAvailable = Some True, io_priceOverride = None,
          io_sortOrderOverride = None\<rparr>])"

definition migrate_item :: "oid \<Rightarrow> oid \<Rightarrow> menu_item list \<Rightarrow> id_map \<Rightarrow> menu_item \<Rightarrow> menu_db \<times> id_map \<Rightarrow> (menu_db \<times> id_map) result" where
  "migrate_item b l anchors categories i st =
     (let (md, m) = st; match = item_match anchors categories i in
      case each create_item_row (item_row l match i) (md_itemOverrides md) of
        Inl e \<Rightarrow> Inl e
      | Inr vs \<Rightarrow> (case match of
          Some a \<Rightarrow> Inr (md\<lparr>md_itemOverrides := vs, md_items := delete_one (\<lambda>x. mi_id x = mi_id i) (md_items md)\<rparr>,
            AList.update (mi_id i) (mi_id a) m)
        | None \<Rightarrow> Inr (md\<lparr>md_itemOverrides := vs, md_items := update_one (\<lambda>x. mi_id x = mi_id i)
            (\<lambda>x. x\<lparr>mi_businessId := Some b, mi_categoryId := nullish (map_of categories (mi_categoryId i)) (mi_categoryId i),
               mi_isAvailable := False\<rparr>) (md_items md)\<rparr>, AList.update (mi_id i) (mi_id i) m)))"

definition migrate_items_at :: "oid \<Rightarrow> menu_item list \<Rightarrow> (oid \<times> id_map) list \<Rightarrow> oid \<Rightarrow> menu_db \<times> (oid \<times> id_map) list \<Rightarrow>
    (menu_db \<times> (oid \<times> id_map) list) result" where
  "migrate_items_at b anchors category_maps l st =
     (case map_of category_maps l of
        None \<Rightarrow> Inl (Thrown ''TypeError'')
      | Some categories \<Rightarrow>
          (case each (migrate_item b l anchors categories) (filter (\<lambda>i. mi_restaurantId i = Some l) (md_items (fst st))) (fst st, []) of
             Inl e \<Rightarrow> Inl e
           | Inr (md, m) \<Rightarrow> Inr (md, AList.update l m (snd st))))"

definition migrate_business_menu_items ::
  "oid \<Rightarrow> oid \<Rightarrow> oid list \<Rightarrow> (oid \<times> id_map) list \<Rightarrow> menu_db \<Rightarrow> (menu_db \<times> (oid \<times> id_map) list) result" where
  "migrate_business_menu_items b anchor siblings category_maps md =
     (let anchors = filter (\<lambda>i. mi_restaurantId i = Some anchor) (md_items md);
          md1 = md\<lparr>md_items := map (\<lambda>i. if mi_restaurantId i = Some anchor then i\<lparr>mi_businessId := Some b\<rparr> else i) (md_items md)\<rparr> in
      each (migrate_items_at b anchors category_maps) siblings (md1, []))"

section \<open>Modifier groups\<close>

text \<open>An option of the sibling that the matched group does not have is dropped.\<close>

definition option_rows :: "modifier_group \<Rightarrow> modifier_group \<Rightarrow> option_override list" where
  "option_rows g a = concat (map (\<lambda>x.
     (case find_one (\<lambda>y. normalize_name (mo_name y) = normalize_name (mo_name x)) (mg_options a) of
        None \<Rightarrow> []
      | Some y \<Rightarrow>
          if mo_isActive x \<noteq> mo_isActive y \<or> mo_priceAdjustment x \<noteq> mo_priceAdjustment y
          then [\<lparr>oo_optionId = mo_id y, oo_isActive = differing (mo_isActive x) (mo_isActive y),
            oo_priceAdjustmentOverride = differing (mo_priceAdjustment x) (mo_priceAdjustment y)\<rparr>]
          else [])) (mg_options g))"

definition migrate_group :: "oid \<Rightarrow> oid \<Rightarrow> modifier_group list \<Rightarrow> id_map \<Rightarrow> modifier_group \<Rightarrow> menu_db \<Rightarrow> menu_db result" where
  "migrate_group b l anchors items g md =
     (let mapped = map_of items (mg_menuItemId g) in
      case find_match mg_id mg_name (filter (\<lambda>a. mapped = Some (mg_menuItemId a)) anchors) (mg_clonedFrom g) (mg_name g) of
        Some a \<Rightarrow>
          (let row = \<lparr>go_locationId = l, go_modifierGroupId = mg_id a, go_isActive = differing (mg_isActive g) (mg_isActive a),
                 go_optionOverrides = option_rows g a\<rparr>;
               rows = (if mg_isActive g \<noteq> mg_isActive a \<or> mg_sortOrder g \<noteq> mg_sortOrder a \<or> option_rows g a \<noteq> []
                 then create_group_row row (md_groupOverrides md) else Inr (md_groupOverrides md)) in
           case rows of Inl e \<Rightarrow> Inl e
           | Inr vs \<Rightarrow> Inr (md\<lparr>md_groupOverrides := vs, md_groups := delete_one (\<lambda>x. mg_id x = mg_id g) (md_groups md)\<rparr>))
      | None \<Rightarrow>
          (case create_group_row \<lparr>go_locationId = l, go_modifierGroupId = mg_id g, go_isActive = Some True, go_optionOverrides = []\<rparr>
                 (md_groupOverrides md) of
             Inl e \<Rightarrow> Inl e
           | Inr vs \<Rightarrow> Inr (md\<lparr>md_groupOverrides := vs, md_groups := update_one (\<lambda>x. mg_id x = mg_id g)
               (\<lambda>x. x\<lparr>mg_businessId := Some b, mg_menuItemId := nullish mapped (mg_menuItemId g), mg_isActive := False\<rparr>) (md_groups md)\<rparr>)))"

definition migrate_groups_at :: "oid \<Rightarrow> modifier_group list \<Rightarrow> (oid \<times> id_map) list \<Rightarrow> oid \<Rightarrow> menu_db \<Rightarrow> menu_db result" where
  "migrate_groups_at b anchors item_maps l md =
     (case map_of item_maps l of
        None \<Rightarrow> Inl (Thrown ''TypeError'')
      | Some items \<Rightarrow> each (migrate_group b l anchors items) (filter (\<lambda>g. mg_restaurantId g = Some l) (md_groups md)) md)"

definition migrate_business_modifier_groups :: "oid \<Rightarrow> oid \<Rightarrow> oid list \<Rightarrow> (oid \<times> id_map) list \<Rightarrow> menu_db \<Rightarrow> menu_db result" where
  "migrate_business_modifier_groups b anchor siblings item_maps md =
     (let anchors = filter (\<lambda>g. mg_restaurantId g = Some anchor) (md_groups md);
          md1 = md\<lparr>md_groups := map (\<lambda>g. if mg_restaurantId g = Some anchor then g\<lparr>mg_businessId := Some b\<rparr> else g) (md_groups md)\<rparr> in
      each (migrate_groups_at b anchors item_maps) siblings md1)"

section \<open>One business\<close>

datatype migration_outcome = Already_Migrated | No_Locations | Migrated

definition migrate_documents :: "oid \<Rightarrow> oid \<Rightarrow> oid list \<Rightarrow> menu_store \<Rightarrow> menu_store result" where
  "migrate_documents b anchor siblings s =
     (case migrate_business_categories b anchor siblings s of
        Inl e \<Rightarrow> Inl e
      | Inr (s1, category_maps) \<Rightarrow>
          (case migrate_business_menu_items b anchor siblings category_maps (mn_docs s1) of
             Inl e \<Rightarrow> Inl e
           | Inr (md, item_maps) \<Rightarrow>
               (case migrate_business_modifier_groups b anchor siblings item_maps md of
                  Inl e \<Rightarrow> Inl e
                | Inr md' \<Rightarrow> Inr (s1\<lparr>mn_docs := md'\<rparr>))))"

text \<open>Restaurants are stored in the order they were created. A dry run and a failure abort the transaction.\<close>

definition migrate_business_menu :: "oid \<Rightarrow> bool \<Rightarrow> menu_store \<Rightarrow> migration_outcome result \<times> menu_store" where
  "migrate_business_menu b dry_run s =
     (if business_has_canonical_menu (mn_docs s) b then (Inr Already_Migrated, s)
      else (case map res_id (filter (\<lambda>r. res_businessId r = Some b) (db_restaurants (mn_db s))) of
         [] \<Rightarrow> (Inr No_Locations, s)
       | anchor # siblings \<Rightarrow> (case migrate_documents b anchor siblings s of
           Inl e \<Rightarrow> (Inl e, s)
         | Inr s' \<Rightarrow> (Inr Migrated, if dry_run then s else s'))))"

fun migrate_all_business_menus :: "oid list \<Rightarrow> bool \<Rightarrow> menu_store \<Rightarrow> migration_outcome list result \<times> menu_store" where
  "migrate_all_business_menus [] dry_run s = (Inr [], s)"
| "migrate_all_business_menus (b # bs) dry_run s =
     (case migrate_business_menu b dry_run s of
        (Inl e, s1) \<Rightarrow> (Inl e, s1)
      | (Inr o', s1) \<Rightarrow> (case migrate_all_business_menus bs dry_run s1 of
          (Inl e, s2) \<Rightarrow> (Inl e, s2)
        | (Inr os, s2) \<Rightarrow> (Inr (o' # os), s2)))"

section \<open>What the item loops do\<close>












section \<open>What the migration does to the items\<close>








section \<open>Prices survive\<close>









definition anchored :: "oid \<Rightarrow> oid \<Rightarrow> menu_db \<Rightarrow> menu_db" where
  "anchored b anchor md = md\<lparr>md_items := map (\<lambda>i. if mi_restaurantId i = Some anchor then i\<lparr>mi_businessId := Some b\<rparr> else i) (md_items md)\<rparr>"

lemma anchored_simps [simp]:
  "md_itemOverrides (anchored b anchor md) = md_itemOverrides md"
  "map mi_id (md_items (anchored b anchor md)) = map mi_id (md_items md)"
  by (simp_all add: anchored_def)














end
