(* ===== verification/Menu_Behaviour.thy ===== *)
theory Menu_Behaviour
  imports Menu_Safety Menu_Clone Menu_Migration
begin

text \<open>
  The claims about menus on concrete stores, and small stores on which the handlers do what their
  comments or the other handlers do not expect.
\<close>

section \<open>A business with a canonical menu\<close>

definition sample_category :: category where
  "sample_category = \<lparr>cat_id = ''c1'', cat_restaurantId = None, cat_businessId = Some ''b1'', cat_name = ''Mains'',
     cat_sortOrder = 0, cat_isActive = True, cat_clonedFrom = None\<rparr>"

definition sample_store :: menu_store where
  "sample_store = \<lparr>mn_db = sample_db, mn_docs = sample_menu, mn_categories = [sample_category], mn_categoryOverrides = []\<rparr>"

definition sample_state :: menu_state where
  "sample_state = \<lparr>ms_store = sample_store, ms_cache = Map.empty\<rparr>"

definition sample_menu_env :: menu_env where
  "sample_menu_env = \<lparr>ne_compare = (\<lambda>a b. 0), ne_binary = (\<lambda>a b. 0), ne_newId = ''new'', ne_newOptionId = (\<lambda>n. ''opt'' @ replicate n CHR ''x'')\<rparr>"

lemmas menu_samples = sample_category_def sample_store_def sample_state_def sample_menu_env_def sample_menu_defs

abbreviation flat :: "string \<Rightarrow> string \<Rightarrow> int" where
  "flat a b \<equiv> 0"

lemma sample_keyed: "menu_keyed (mn_docs sample_store)"
  by (simp add: menu_keyed_def menu_samples)

lemma sample_places: "places_ok sample_store"
  by (simp add: places_ok_def place_ok_def menu_samples item_place_def group_place_def category_place_def)

theorem shown_is_charged_witness:
  "map_of (fst (effective_menu sample_db sample_menu ''r1'' [''m1''])) ''m1'' = listed_item (public_menu flat flat sample_store ''r1'') ''m1'' \<and>
   map_of (fst (effective_menu sample_db sample_menu ''r1'' [''m1''])) ''m1'' = Some \<lparr>ei_id = ''m1'', ei_name = ''Pizza'', ei_price = 9\<rparr>"
  using shown_is_charged [OF sample_keyed, of "''m1''" "[''m1'']" "''r1''" flat flat "''g1''"] sample_effective
  by (simp add: sample_store_def)

text \<open>A customer reads the menu, then the price of the item changes: the cached menu is dropped, and the next
  reader caches the new one.\<close>

definition dearer :: item_update where
  "dearer = \<lparr>iu_categoryId = None, iu_name = None, iu_price = Some 12, iu_isAvailable = None, iu_sortOrder = None\<rparr>"

definition after_reading :: menu_state where
  "after_reading = snd (list_menu sample_menu_env None ''r1'' sample_state)"

lemma reading_run: "menu_run flat flat sample_state after_reading"
  unfolding after_reading_def by (rule customer [OF menu_refl]) (simp_all add: sample_menu_env_def)

lemma sample_cached: "ms_cache after_reading ''r1'' = Some (public_menu flat flat sample_store ''r1'')"
  by (simp add: after_reading_def list_menu_def current_menu_def Let_def find_restaurant_def menu_samples)

theorem menu_cache_true_witness:
  "public_menu flat flat sample_store ''r1'' = public_menu flat flat (ms_store after_reading) ''r1''"
  by (rule menu_cache_true [OF reading_run _ sample_cached]) (simp add: cache_true_def sample_state_def sample_places)

lemma dearer_step: "menu_step sample_menu_env (Of_Business ''b1'') sample_state (snd (update_item (Of_Business ''b1'') ''m1'' dearer sample_state))"
  by (rule item_updated) (simp add: dearer_def update_menu_item_schema_def)

theorem menus_kept_apart_witness:
  "public_menu flat flat (ms_store (snd (update_item (Of_Business ''b1'') ''m1'' dearer sample_state))) ''r9'' =
   public_menu flat flat sample_store ''r9''"
  using menus_kept_apart [OF dearer_step, of "''r9''" flat flat] sample_places
  by (simp add: reached_def business_at_def find_restaurant_def menu_samples)


section \<open>A business with a menu per location\<close>

definition second_restaurant :: restaurant where
  "second_restaurant = sample_restaurant\<lparr>res_id := ''r2''\<rparr>"

definition local_item :: "oid \<Rightarrow> oid \<Rightarrow> oid \<Rightarrow> string \<Rightarrow> money \<Rightarrow> bool \<Rightarrow> menu_item" where
  "local_item i r c name price available = \<lparr>mi_id = i, mi_restaurantId = Some r, mi_businessId = None, mi_categoryId = c,
     mi_name = name, mi_price = price, mi_isAvailable = available, mi_sortOrder = 0, mi_clonedFrom = None\<rparr>"

definition local_category :: "oid \<Rightarrow> oid \<Rightarrow> string \<Rightarrow> category" where
  "local_category c r name = \<lparr>cat_id = c, cat_restaurantId = Some r, cat_businessId = None, cat_name = name,
     cat_sortOrder = 0, cat_isActive = True, cat_clonedFrom = None\<rparr>"

definition two_locations :: "menu_item list \<Rightarrow> category list \<Rightarrow> menu_store" where
  "two_locations is cs = \<lparr>mn_db = sample_db\<lparr>db_restaurants := [sample_restaurant, second_restaurant]\<rparr>,
     mn_docs = \<lparr>md_items = is, md_groups = [], md_itemOverrides = [], md_groupOverrides = []\<rparr>,
     mn_categories = cs, mn_categoryOverrides = []\<rparr>"

definition legacy_store :: menu_store where
  "legacy_store = two_locations
     [local_item ''m1'' ''r1'' ''c1'' ''Pizza'' 8 True, local_item ''m2'' ''r2'' ''c2'' ''PIZZA '' 9 True,
      local_item ''m3'' ''r2'' ''c2'' ''Pasta'' 7 True, local_item ''m4'' ''r2'' ''c2'' ''Soup'' 5 False]
     [local_category ''c1'' ''r1'' ''Mains'', local_category ''c2'' ''r2'' ''mains'']"

definition migrated_store :: menu_store where
  "migrated_store = snd (migrate_business_menu ''b1'' False legacy_store)"




section \<open>Where the handlers surprise\<close>

text \<open>The dearer pasta of the second location is still sold after the migration, but so is the soup that
  was off the menu: an item without a counterpart is put on sale at its location whatever it was.\<close>

theorem migration_sells_hidden_item:
  "listed_item (public_menu flat flat legacy_store ''r2'') ''m4'' = None \<and>
   listed_item (public_menu flat flat migrated_store ''r2'') ''m4'' \<noteq> None"
  by code_simp

text \<open>And the location sells what only the first one had.\<close>

definition uneven_store :: menu_store where
  "uneven_store = two_locations [local_item ''m1'' ''r1'' ''c1'' ''Pizza'' 8 True, local_item ''m2'' ''r2'' ''c2'' ''Pasta'' 9 True]
     [local_category ''c1'' ''r1'' ''Mains'', local_category ''c2'' ''r2'' ''mains'']"

theorem migration_adds_items:
  "map ri_name (rm_items (public_menu flat flat uneven_store ''r2'')) = [''Pasta''] \<and>
   map ri_name (rm_items (public_menu flat flat (snd (migrate_business_menu ''b1'' False uneven_store)) ''r2'')) = [''Pizza'', ''Pasta'']"
  by code_simp

text \<open>The first canonical item of a business takes every location's own menu off the public menu.\<close>

definition new_category :: category_input where
  "new_category = \<lparr>ci_name = ''Drinks'', ci_sortOrder = 0, ci_isActive = None\<rparr>"

definition new_item :: item_input where
  "new_item = \<lparr>ii_categoryId = ''new'', ii_name = ''Cola'', ii_price = 2, ii_isAvailable = None, ii_sortOrder = 0\<rparr>"

definition first_canonical :: menu_state where
  "first_canonical = snd (create_canonical_menu_item sample_menu_env ''b1'' new_item
     (snd (create_canonical_category sample_menu_env ''b1'' new_category \<lparr>ms_store = legacy_store, ms_cache = Map.empty\<rparr>)))"

theorem first_canonical_hides_menus:
  "length (rm_items (public_menu flat flat legacy_store ''r2'')) = 2 \<and>
   map ri_name (rm_items (public_menu flat flat (ms_store first_canonical) ''r2'')) = [''Cola''] \<and>
   map ri_name (rm_items (public_menu flat flat (ms_store first_canonical) ''r1'')) = [''Cola'']"
  by code_simp

text \<open>A location's price for an option does not survive an update of the group that sends its options: the
  options get new ids.\<close>

definition option_price :: "oid \<Rightarrow> oid \<Rightarrow> string \<Rightarrow> menu_state \<Rightarrow> money option" where
  "option_price l g name s = Option.bind (listed_group (public_menu flat flat (ms_store s) l) g)
     (\<lambda>x. map_option mo_priceAdjustment (find_one (\<lambda>o'. mo_name o' = name) (rg_options x)))"

definition dear_option :: group_override_input where
  "dear_option = \<lparr>vg_isActive = None, vg_optionOverrides = Some [\<lparr>oo_optionId = ''o1'', oo_isActive = None, oo_priceAdjustmentOverride = Some 5\<rparr>]\<rparr>"

definition with_option_price :: menu_state where
  "with_option_price = snd (put_modifier_group_override ''r1'' ''m1'' ''g1'' dear_option sample_state)"

definition same_options_sent :: group_update where
  "same_options_sent = \<lparr>gu_name = None, gu_minSelect = None, gu_maxSelect = None, gu_isActive = None, gu_sortOrder = None,
     gu_options = Some [\<lparr>xi_name = ''Large'', xi_priceAdjustment = 2, xi_isActive = None, xi_sortOrder = 0\<rparr>]\<rparr>"

theorem group_update_loses_option_prices:
  "option_price ''r1'' ''g1'' ''Large'' with_option_price = Some 5 \<and>
   option_price ''r1'' ''g1'' ''Large'' (snd (update_canonical_modifier_group sample_menu_env ''b1'' ''m1'' ''g1'' same_options_sent with_option_price)) = Some 2"
  by code_simp

text \<open>A price changed between a customer's reading of the documents and the writing of the cache leaves the
  old menu in the cache until it expires.\<close>

theorem stale_menu_cached:
  "let s = snd (list_menu_during sample_menu_env None ''r1'' (\<lambda>s. snd (put_menu_item_override ''r1'' ''m1''
       \<lparr>vi_isAvailable = Some False, vi_priceOverride = None, vi_sortOrderOverride = None\<rparr> s)) sample_state) in
   map_option (\<lambda>m. length (rm_items m)) (ms_cache s ''r1'') = Some 1 \<and> rm_items (public_menu flat flat (ms_store s) ''r1'') = []"
  by code_simp

section \<open>A new location takes over a menu\<close>



end
