(* ===== verification/Spec2Isabelle.thy ===== *)
theory Spec2Isabelle
  imports Order_Lifecycle Refund_Behaviour Billing_Behaviour Printing_Behaviour Auth_Behaviour Marketplace_Behaviour
    Menu_Behaviour
begin

text \<open>
  \<^bold>\<open>The ordering, payment and courier core of the restaurant platform.\<close>

  The repository is an API server (\<open>apps/api/src\<close>) with two front ends. The server keeps its documents
  in collections of a document database and its operations are services called by HTTP handlers,
  webhooks and jobs. This library models the services that decide what an order costs, whether it is
  accepted, how its status moves, how it is paid and refunded, and how a courier carries it.

  \<^bold>\<open>State.\<close> \<open>Domain\<close> has one record per document type (\<open>models/*.ts\<close>) and the record \<open>db\<close> with one list per
  collection, in insertion order. \<open>Prelude\<close> has the operations of a collection: \<open>find_one\<close> for \<open>findOne\<close>,
  \<open>update_one\<close> for \<open>updateOne\<close> and \<open>findOneAndUpdate\<close> (the first match is changed), \<open>insert_unique\<close> for a
  \<open>create\<close> under unique indexes, and \<open>api_error\<close> for the exceptions. A handler is a function
  \<open>db \<Rightarrow> (api_error + 'a) \<times> db\<close>: what was written before a throw stays written, except inside
  \<open>withTransaction\<close>, where \<open>order_transaction\<close> gives the old state back. Numbers are exact rationals, ids
  are strings, dates are milliseconds with the current time an argument, and fresh ids come from an
  environment record. Messages of errors are short tags, except where a property is about the text.

  \<^bold>\<open>Orders.\<close> \<open>Business_Hours\<close> (\<open>businessHours.service.ts\<close>, \<open>restaurantAvailability.service.ts\<close>),
  \<open>Menu_Pricing\<close> (\<open>orderPricing.service.ts\<close>), \<open>Promotion\<close>, \<open>Loyalty\<close>, \<open>Contact\<close>
  (\<open>contactNormalization.ts\<close>) and \<open>Delivery_Eligibility\<close> (\<open>delivery.service.ts\<close>,
  \<open>restaurantDeliveryProvider.ts\<close>) are what \<open>Order_Creation\<close> (\<open>orderCreation.service.ts\<close>) calls, in the
  order the code calls them. \<open>Order_State\<close> (\<open>orderStateMachine.ts\<close>) is the status table and
  \<open>Order_Transition\<close> (\<open>orderTransition.service.ts\<close>, the changing handlers of \<open>order.controller.ts\<close>) applies
  it. \<open>Order_Lifecycle\<close> composes: its step relation \<open>system_step\<close> has every modelled operation that
  writes an order, the ones of payments and couriers included.

  \<^bold>\<open>Payments.\<close> \<open>Payments\<close> and \<open>Payment_Webhooks\<close> (\<open>payment.service.ts\<close>: creation, status changes, provider
  webhooks, polling) and \<open>Refunds\<close> (claim, reservation, provider call, outcome, reconciliation, manual
  resolution). A payment provider is a record of functions, one per call of \<open>PaymentProvider.ts\<close>; nothing
  is assumed of its answers. \<open>Payment_Safety\<close> and \<open>Refund_Safety\<close> hold the invariants, the locales
  \<open>refund_invariant\<close> and their interpretations; \<open>Refund_Behaviour\<close> the behaviour of single operations.

  \<^bold>\<open>Couriers.\<close> \<open>Delivery_Dispatch\<close> (\<open>deliveryDispatch.service.ts\<close>, \<open>deliveryWebhook.controller.ts\<close>) books and
  follows a courier; \<open>Delivery_Safety\<close> has the locale \<open>delivery_invariant\<close>, whose laws say when an
  operation on courier records keeps a property of the state, and its interpretation on the table of
  deliveries; \<open>Delivery_Behaviour\<close> says how milestones move the order and what a redelivered event does.

  \<^bold>\<open>The platform's own billing.\<close> The subscriptions of businesses and agencies are documents of their own, with the
  state \<open>billing_db\<close> of \<open>Billing_Domain\<close>. \<open>Subscriptions\<close> has what an owner does (\<open>subscription.service.ts\<close>,
  \<open>billingHistory.service.ts\<close>), \<open>Billing_Webhooks\<close> what the provider reports and the sweep that expires trials,
  \<open>Entitlements\<close> what a subscription entitles to (\<open>subscriptionResolution.service.ts\<close>, \<open>entitlement.service.ts\<close>,
  \<open>entitlementLimit.service.ts\<close>, \<open>agencyEntitlement.service.ts\<close>). Here the provider is called in the middle
  of an operation, between a read and a guarded write; \<open>en_meanwhile\<close> is what other requests do to the state
  during that call, and in a \<open>billing_run\<close> it is itself a run. \<open>Billing_Safety\<close> shows that every operation
  is a sequence of three kinds of writes and, by the locale \<open>subscription_invariant\<close>, that the collection
  keeps its unique keys and refines the abstract accounts of the owners. \<open>Billing_Events\<close> shows delivery and order of
  events, \<open>Billing_Behaviour\<close> the sweep, the checkout, the slots and where the code departs from what it
  says. \<open>Billing_Samples\<close> and \<open>Samples\<close> are the inputs of the witnesses.

  \<^bold>\<open>Printing.\<close> \<open>Escpos\<close> (\<open>escpos.ts\<close>) lays a document out for a paper, encodes it as printer bytes and as
  base64; \<open>Print_Content\<close> (\<open>printContent.service.ts\<close>) says what receipts and kitchen tickets contain;
  \<open>Printing\<close> has the printers and print jobs (\<open>printer.controller.ts\<close>, \<open>printJob.controller.ts\<close>,
  \<open>printerRouter.service.ts\<close>, the request schemas) on the state \<open>print_db\<close>, and \<open>Printing_Client\<close> the
  browser that hands a job to a device and reports back (\<open>adapters.ts\<close>, \<open>usePrintJob.ts\<close>). \<open>Escpos_Layout\<close>
  proves the wrapping, \<open>Escpos_Printer\<close> runs the bytes on a model of the printer, \<open>Printing_Safety\<close> has the runs
  of the handlers and \<open>Printing_Behaviour\<close> the properties. Texts are lists of UTF-16 code units there.

  \<^bold>\<open>Accounts and access.\<close> \<open>Access_Control\<close> has the roles and permissions (\<open>rbac.ts\<close>, \<open>agencyRbac.ts\<close>) and the
  middleware that checks them (\<open>middleware/*.ts\<close>); \<open>Access_Safety\<close> compares the chain in front of a
  location with the inductive specification \<open>may_act\<close>. \<open>Auth\<close> (\<open>auth.controller.ts\<close>, \<open>token.service.ts\<close>) and
  \<open>Auth_Staff\<close> (\<open>staff.controller.ts\<close>, \<open>agencyMembership.controller.ts\<close>, \<open>createAgency\<close>,
  \<open>createBusinessSelfServe\<close>) are the handlers, on the state \<open>auth_db\<close>. \<open>Auth_Changes\<close> shows that every handler is a
  sequence of nine kinds of writes; \<open>Auth_Safety\<close> has the locale \<open>account_invariant\<close>, which takes a property from
  those writes to runs, and its interpretations: sessions that are gone, staff in their business,
  roles that were earned, owners of an agency. \<open>Auth_Behaviour\<close> has the properties and what the handlers
  let through. Refreshing a session and updating a member are also given in their two halves, with
  other requests in between.

  \<^bold>\<open>Marketplaces.\<close> \<open>Marketplace\<close> has the webhook (\<open>marketplaceWebhook.controller.ts\<close>), the job that makes an order of
  an event (\<open>marketplaceOrderIngestion.service.ts\<close>, calling \<open>Order_Creation\<close>) and the synchronisation of the menu
  (\<open>marketplaceMenuSync.service.ts\<close>), on the state \<open>market_db\<close>, which has \<open>db\<close> inside. \<open>Marketplace_Safety\<close> defines the
  runs, a worker that dies among their steps, and the locale \<open>market_invariant\<close>; \<open>Marketplace_Behaviour\<close>
  interprets it four times (references, events in flight, options, mappings) and has the properties.

  \<^bold>\<open>Menus.\<close> \<open>Menu_Resolution\<close> has the menu a customer is shown (\<open>menuResolution.service.ts\<close>, \<open>listMenu\<close>): the canonical
  menu of a business with the overrides of a location, or the location's own documents. \<open>Menu_Admin\<close> has what
  staff do to items, categories, modifier groups and overrides (\<open>menu.controller.ts\<close>, \<open>category.controller.ts\<close>,
  \<open>modifier.controller.ts\<close>, the request schemas) and the cache (\<open>menuCache.service.ts\<close>), on the state \<open>menu_state\<close>;
  \<open>Menu_Safety\<close> compares the menu shown with the one \<open>Menu_Pricing\<close> charges and has the runs and the locale
  \<open>menu_invariant\<close>, interpreted for the cache and for the groups. \<open>Menu_Clone\<close> (\<open>menuClone.service.ts\<close>) gives a new
  location the menu of another one, \<open>Menu_Migration\<close> (\<open>menuBusinessMigration.service.ts\<close>) makes a business
  canonical; \<open>Menu_Behaviour\<close> has the stores of the witnesses and what the handlers do unexpectedly.

  \<^bold>\<open>What the groups of lemmas show.\<close> Pricing: a request is accepted exactly when each line is valid for the
  menu of the location, and is charged what the location sells; an order's amounts are in the stated
  relation; a refused request changes nothing. Ledgers: points balances equal their ledger, promotion
  usages stay within the limit, refunds within the payment, over every sequence of operations. Life
  cycles: orders and deliveries move along their tables, one delivery per order, one paid payment per
  order, and an online order is marked paid only with a payment behind it. Messages: payment and courier
  events are idempotent, with the case in which a failed one is lost or retried; billing events are applied in the
  order of their times. Entitlements: which features and how many locations a business has, in every state
  a run can reach. Paper: what is printed is what was queued, whole and within the width.
  Menus: what is shown is what is charged, the cache holds the current menu, cloning and migrating keep the
  offer and its prices. Access: who passes the checks of a location, and that sessions, staff, roles and agencies stay within
  bounds whatever sequence of requests runs.

  \<^bold>\<open>Bounds and fuel.\<close> \<open>next_open_loop\<close> walks the at most eight candidate days the code walks, by recursion on
  the list of days; every other loop is a recursion on a list. No definition uses fuel.

  \<^bold>\<open>Handlers are atomic\<close> outside billing, the two handlers named above and \<open>list_menu_during\<close>: interleavings are sequences of whole operations. Where the code re-reads or guards
  a write against a concurrent one, the guard is modelled, and \<open>stale_transition_unpays\<close> states what an
  update computed from a stale document does.

  \<^bold>\<open>Not modelled.\<close> HTTP clients of providers, couriers and marketplaces, the job queue (a job is an entry of a
  list; failing to enqueue is not modelled), time-zone data, ICU country names and floating point in the
  distance, the formatting of money and dates, print devices (parameters); \<open>updateOrderNote\<close> and the listing and reading handlers outside menus; the import of menus
  from files, the counter, connecting a marketplace, the clients and domains of agencies, the front ends, scripts and seeds. A country alias
  that is the name of a property every object inherits is outside the model of \<open>COUNTRY_ALIASES\<close>.
\<close>

end
